(* ===== verification/Crawler_Prelude.thy ===== *)
theory Crawler_Prelude
  imports Main "HOL-Library.Char_ord" "HOL-Library.List_Lexorder" "HOL-Library.Word"
begin

text \<open>
  The prelude of the development: the pieces of the C++ standard library the crawler uses
  (character classes, \<^verbatim>\<open>std::to_string\<close>, \<^verbatim>\<open>std::stoi\<close>, \<^verbatim>\<open>std::string\<close> searches, integer casts),
  the collections of rewrite rules, and the generic lemmas the component proofs rest on.

  A \<^verbatim>\<open>std::string\<close> is a \<^typ>\<open>string\<close>, one \<^typ>\<open>char\<close> per byte. Its order (byte-wise lexicographic,
  bytes as unsigned values) is the order of \<^verbatim>\<open>HOL-Library.List_Lexorder\<close> over
  \<^verbatim>\<open>HOL-Library.Char_ord\<close>.
\<close>

named_theorems map_laws \<open>what a lookup returns after each operation of an associative container\<close>
named_theorems counter_laws \<open>what the operations do to the statistics counters\<close>
named_theorems frame_laws \<open>which fields an operation leaves alone\<close>

section \<open>Characters and numbers\<close>

type_synonym byte = nat
type_synonym time = int  \<comment> \<open>a \<^verbatim>\<open>steady_clock::time_point\<close>, in nanoseconds\<close>

abbreviation code :: "char \<Rightarrow> nat" where "code c \<equiv> of_char c"

definition isdigit :: "char \<Rightarrow> bool" where
  "isdigit c \<longleftrightarrow> 48 \<le> code c \<and> code c \<le> 57"

definition isxdigit :: "char \<Rightarrow> bool" where
  "isxdigit c \<longleftrightarrow> isdigit c \<or> (65 \<le> code c \<and> code c \<le> 70) \<or> (97 \<le> code c \<and> code c \<le> 102)"

definition isspace :: "char \<Rightarrow> bool" where
  "isspace c \<longleftrightarrow> code c = 32 \<or> (9 \<le> code c \<and> code c \<le> 13)"

definition toupper :: "char \<Rightarrow> char" where
  "toupper c = (if 97 \<le> code c \<and> code c \<le> 122 then char_of (code c - 32) else c)"

definition tolower :: "char \<Rightarrow> char" where
  "tolower c = (if 65 \<le> code c \<and> code c \<le> 90 then char_of (code c + 32) else c)"

fun show_nat :: "nat \<Rightarrow> string" where
  "show_nat n = (if n < 10 then [char_of (48 + n)] else show_nat (n div 10) @ [char_of (48 + n mod 10)])"

declare show_nat.simps [simp del]

definition to_string :: "int \<Rightarrow> string" where
  "to_string i = (if i < 0 then CHR ''-'' # show_nat (nat (- i)) else show_nat (nat i))"

datatype exn = Invalid_argument | Out_of_range | Std_exception string

definition digit_value :: "nat \<Rightarrow> char \<Rightarrow> nat option" where
  "digit_value base c =
     (let n = code c;
          v = (if 48 \<le> n \<and> n \<le> 57 then n - 48
               else if 97 \<le> n \<and> n \<le> 122 then n - 87
               else if 65 \<le> n \<and> n \<le> 90 then n - 55 else base)
      in if v < base then Some v else None)"

fun leading_digits :: "nat \<Rightarrow> string \<Rightarrow> nat list" where
  "leading_digits base [] = []"
| "leading_digits base (c # cs) =
     (case digit_value base c of None \<Rightarrow> [] | Some d \<Rightarrow> d # leading_digits base cs)"

definition digits_value :: "nat \<Rightarrow> nat list \<Rightarrow> nat" where
  "digits_value base ds = foldl (\<lambda>a d. base * a + d) 0 ds"

definition skip_base_prefix :: "nat \<Rightarrow> string \<Rightarrow> string" where
  "skip_base_prefix base s =
     (case s of
        z # x # d # rest \<Rightarrow>
          if base = 16 \<and> z = CHR ''0'' \<and> tolower x = CHR ''x'' \<and> digit_value 16 d \<noteq> None
          then d # rest else s
      | _ \<Rightarrow> s)"

text \<open>
  \<^verbatim>\<open>std::stoi\<close>: leading white space, an optional sign, an optional \<^verbatim>\<open>0x\<close> in base 16, then the
  longest run of digits; no digit is \<^verbatim>\<open>std::invalid_argument\<close>, a value outside \<^verbatim>\<open>int\<close> is
  \<^verbatim>\<open>std::out_of_range\<close>, and what follows the digits is ignored.
\<close>

definition stoi :: "nat \<Rightarrow> string \<Rightarrow> exn + int" where
  "stoi base s =
     (let s1 = dropWhile isspace s;
          neg = (s1 \<noteq> [] \<and> hd s1 = CHR ''-'');
          s2 = (if s1 \<noteq> [] \<and> (hd s1 = CHR ''-'' \<or> hd s1 = CHR ''+'') then tl s1 else s1);
          ds = leading_digits base (skip_base_prefix base s2);
          v = (if neg then - int (digits_value base ds) else int (digits_value base ds))
      in if ds = [] then Inl Invalid_argument
         else if v < - (2 ^ 31) \<or> 2 ^ 31 \<le> v then Inl Out_of_range
         else Inr v)"

lemma code_less_256 [simp]: "code c < 256"
  by simp

lemma char_of_code [simp]: "char_of (code c) = c"
  by simp

lemma show_nat_nonempty [simp]: "show_nat n \<noteq> []"
  by (subst show_nat.simps) simp

lemma digit_char_value: "d < 10 \<Longrightarrow> digit_value 10 (char_of (48 + d)) = Some d"
  by (simp add: digit_value_def)

lemma digits_value_snoc [simp]: "digits_value b (ds @ [d]) = b * digits_value b ds + d"
  by (simp add: digits_value_def)

lemma leading_digits_append:
  "list_all (\<lambda>c. digit_value b c \<noteq> None) s \<Longrightarrow>
   leading_digits b (s @ t) = leading_digits b s @ leading_digits b t"
  by (induction s) (auto split: option.splits)

lemma show_nat_digits:
  "list_all (\<lambda>c. digit_value 10 c \<noteq> None) (show_nat n) \<and>
   digits_value 10 (leading_digits 10 (show_nat n)) = n"
proof (induction n rule: show_nat.induct)
  case (1 n)
  show ?case
  proof (cases "n < 10")
    case True
    then show ?thesis
      by (simp add: show_nat.simps [of n] digit_char_value digits_value_def)
  next
    case False
    then have IH: "list_all (\<lambda>c. digit_value 10 c \<noteq> None) (show_nat (n div 10))"
        "digits_value 10 (leading_digits 10 (show_nat (n div 10))) = n div 10"
      using "1.IH" by auto
    have d: "digit_value 10 (char_of (48 + n mod 10)) = Some (n mod 10)"
      by (rule digit_char_value) simp
    show ?thesis
      using False IH
      by (simp add: show_nat.simps [of n] leading_digits_append d)
  qed
qed

lemma leading_digits_nonempty:
  "s \<noteq> [] \<Longrightarrow> list_all (\<lambda>c. digit_value b c \<noteq> None) s \<Longrightarrow> leading_digits b s \<noteq> []"
  by (cases s) auto

lemma digit_value_10_isdigit: "digit_value 10 c \<noteq> None \<longleftrightarrow> isdigit c"
  by (auto simp: digit_value_def isdigit_def Let_def)

lemma isdigit_not_space: "isdigit c \<Longrightarrow> \<not> isspace c \<and> c \<noteq> CHR ''-'' \<and> c \<noteq> CHR ''+''"
  by (auto simp: isdigit_def isspace_def)

lemma skip_base_prefix_10 [simp]: "skip_base_prefix 10 s = s"
  by (auto simp: skip_base_prefix_def split: list.splits)

text \<open>\<^verbatim>\<open>std::stoi\<close> reads back what \<^verbatim>\<open>std::to_string\<close> prints, over the whole range of \<^verbatim>\<open>int\<close>.\<close>

lemma stoi_unsigned:
  assumes "list_all isdigit s" and "s \<noteq> []"
  shows "stoi 10 s = (let v = int (digits_value 10 (leading_digits 10 s))
                      in if 2 ^ 31 \<le> v then Inl Out_of_range else Inr v)"
proof -
  have sp: "dropWhile isspace s = s"
    using assms isdigit_not_space by (cases s) auto
  have hd: "hd s \<noteq> CHR ''-''" "hd s \<noteq> CHR ''+''"
    using assms isdigit_not_space by (cases s; auto)+
  have "list_all (\<lambda>c. digit_value 10 c \<noteq> None) s"
    using assms(1) by (simp only: digit_value_10_isdigit)
  then have "leading_digits 10 s \<noteq> []"
    using assms(2) by (rule leading_digits_nonempty [rotated])
  with sp hd show ?thesis by (simp add: stoi_def Let_def)
qed

lemma show_nat_isdigit: "list_all isdigit (show_nat n)"
  using show_nat_digits [of n] by (simp only: digit_value_10_isdigit)

lemma show_nat_inj: "show_nat m = show_nat n \<longleftrightarrow> m = n"
  by (metis show_nat_digits)

lemma show_nat_no_minus: "show_nat n \<noteq> CHR ''-'' # s"
  using show_nat_isdigit [of n] by (auto simp: isdigit_def)

lemma to_string_inj: "to_string i = to_string j \<longleftrightarrow> i = j"
  using show_nat_no_minus by (auto simp: to_string_def show_nat_inj split: if_splits) metis

lemma stoi_show_nat: "int n < 2 ^ 31 \<Longrightarrow> stoi 10 (show_nat n) = Inr (int n)"
  using show_nat_digits [of n] by (simp add: stoi_unsigned show_nat_isdigit)

definition int32 :: "int \<Rightarrow> bool" where
  "int32 n \<longleftrightarrow> - (2 ^ 31) \<le> n \<and> n < 2 ^ 31"

lemma stoi_negative:
  assumes "list_all isdigit s" "s \<noteq> []"
  shows "stoi 10 (CHR ''-'' # s) = (let v = - int (digits_value 10 (leading_digits 10 s))
     in if v < - (2 ^ 31) then Inl Out_of_range else Inr v)"
proof -
  have "list_all (\<lambda>c. digit_value 10 c \<noteq> None) s" using assms(1) by (simp only: digit_value_10_isdigit)
  then have "leading_digits 10 s \<noteq> []" using assms(2) by (rule leading_digits_nonempty [rotated])
  then show ?thesis by (simp add: stoi_def Let_def isspace_def)
qed

lemma stoi_to_string: "int32 n \<Longrightarrow> stoi 10 (to_string n) = Inr n"
  using show_nat_digits [of "nat (- n)"] stoi_show_nat [of "nat n"]
  by (auto simp: to_string_def stoi_negative show_nat_isdigit int32_def)

section \<open>String searches\<close>

text \<open>\<^verbatim>\<open>s.find(c)\<close> and \<^verbatim>\<open>s.find_last_of(c)\<close>: the first and the last position, \<^verbatim>\<open>npos\<close> as \<open>None\<close>.\<close>

fun find_char :: "char \<Rightarrow> string \<Rightarrow> nat option" where
  "find_char x [] = None"
| "find_char x (c # cs) = (if c = x then Some 0 else map_option Suc (find_char x cs))"

fun find_last_of :: "char \<Rightarrow> string \<Rightarrow> nat option" where
  "find_last_of x [] = None"
| "find_last_of x (c # cs) =
     (case find_last_of x cs of Some i \<Rightarrow> Some (Suc i) | None \<Rightarrow> if c = x then Some 0 else None)"

text \<open>\<^verbatim>\<open>s.find(t) != npos\<close>.\<close>

fun contains_str :: "string \<Rightarrow> string \<Rightarrow> bool" where
  "contains_str [] t \<longleftrightarrow> t = []"
| "contains_str (c # cs) t \<longleftrightarrow> take (length t) (c # cs) = t \<or> contains_str cs t"

lemma find_char_Some:
  "find_char x s = Some i \<Longrightarrow> i < length s \<and> s ! i = x \<and> x \<notin> set (take i s)"
  by (induction s arbitrary: i) (auto split: if_splits)

lemma find_char_None: "find_char x s = None \<longleftrightarrow> x \<notin> set s"
  by (induction s) auto

lemma find_char_append:
  "x \<notin> set s \<Longrightarrow> find_char x (s @ x # t) = Some (length s)"
  by (induction s) auto

lemma find_last_of_None: "find_last_of x s = None \<longleftrightarrow> x \<notin> set s"
  by (induction s) (auto split: option.splits)

lemma find_last_of_append:
  "x \<notin> set t \<Longrightarrow> find_last_of x (s @ x # t) = Some (length s)"
proof (induction s)
  case Nil
  then show ?case using find_last_of_None [of x t] by (simp split: option.splits)
next
  case (Cons c s)
  then show ?case by simp
qed

lemma contains_str_iff: "contains_str s t \<longleftrightarrow> (\<exists>u v. s = u @ t @ v)"
proof (induction s)
  case Nil
  then show ?case by auto
next
  case (Cons c cs)
  show ?case
  proof
    assume "contains_str (c # cs) t"
    then consider "take (length t) (c # cs) = t" | "contains_str cs t" by auto
    then show "\<exists>u v. c # cs = u @ t @ v"
    proof cases
      case 1
      then have "c # cs = [] @ t @ drop (length t) (c # cs)"
        by (metis append_Nil append_take_drop_id)
      then show ?thesis by blast
    next
      case 2
      then obtain u v where "cs = u @ t @ v" using Cons.IH by blast
      then have "c # cs = (c # u) @ t @ v" by simp
      then show ?thesis by blast
    qed
  next
    assume "\<exists>u v. c # cs = u @ t @ v"
    then obtain u v where uv: "c # cs = u @ t @ v" by blast
    show "contains_str (c # cs) t"
    proof (cases u)
      case Nil
      with uv have "take (length t) (c # cs) = t" by simp
      then show ?thesis by simp
    next
      case (Cons a u')
      with uv have "cs = u' @ t @ v" by simp
      then show ?thesis using Cons.IH by auto
    qed
  qed
qed

section \<open>Counting over an updated list\<close>

lemma length_filter_mono: "(\<And>x. P x \<Longrightarrow> Q x) \<Longrightarrow> length (filter P xs) \<le> length (filter Q xs)"
  by (induction xs) (auto intro: le_SucI)

lemma filter_length_update:
  "i < length xs \<Longrightarrow>
   length (filter P (xs[i := y])) + (if P (xs ! i) then 1 else 0) = length (filter P xs) + (if P y then 1 else 0)"
proof (induction xs arbitrary: i)
  case (Cons x xs)
  then show ?case by (cases i) (auto split: if_splits)
qed simp

lemma sum_list_update_int:
  "i < length xs \<Longrightarrow> (\<Sum>s\<leftarrow>xs[i := y]. f s :: int) = (\<Sum>s\<leftarrow>xs. f s) - f (xs ! i) + f y"
proof (induction xs arbitrary: i)
  case (Cons x xs)
  then show ?case by (cases i) auto
qed simp

lemma sum_list_nat_update:
  "i < length xs \<Longrightarrow> (\<Sum>s\<leftarrow>xs[i := y]. f s :: nat) + f (xs ! i) = (\<Sum>s\<leftarrow>xs. f s) + f y"
proof (induction xs arbitrary: i)
  case (Cons x xs)
  then show ?case by (cases i) auto
qed simp

lemma sum_list_le_bound: "(\<And>x. f x \<le> k) \<Longrightarrow> (\<Sum>x\<leftarrow>xs. f x :: nat) \<le> k * length xs"
  by (induction xs) (auto simp: add_mono)

end
