(* ===== verification/Sql_Text.thy ===== *)
theory Sql_Text
  imports Crawler_Prelude
begin

text \<open>
  The SQL text the crawler builds and how the server reads it. The crawler concatenates its
  statements from fixed text, numbers and escaped strings between single quotes; \<open>render_values\<close>
  is that concatenation for a list of values. \<open>scan_values\<close> reads such a list the way MySQL does:
  a string literal ends at the first single quote that is neither escaped nor doubled. The escaping itself is
  the client library's; what the crawler relies on is the law of the locale \<open>sql_escaping\<close>, and
  \<open>mysql_escape\<close> is the function the MySQL manual describes for \<^verbatim>\<open>mysql_real_escape_string\<close>.
\<close>

section \<open>Definitions\<close>

definition squote :: char where
  "squote = CHR 0x27"

definition dquote :: char where
  "dquote = CHR 0x22"

definition backslash :: char where
  "backslash = CHR 0x5C"

text \<open>
  A value of a statement: a string that is escaped and quoted, a string that is quoted as it is,
  or text that stands unquoted (numbers, \<^verbatim>\<open>TRUE\<close>, \<^verbatim>\<open>NULL\<close>, \<^verbatim>\<open>CURRENT_TIMESTAMP\<close>).
\<close>

datatype sql_value = Sql_text string | Sql_quoted string | Sql_raw string

fun render_value :: "(string \<Rightarrow> string) \<Rightarrow> sql_value \<Rightarrow> string" where
  "render_value esc (Sql_text s) = squote # esc s @ [squote]"
| "render_value esc (Sql_quoted s) = squote # s @ [squote]"
| "render_value esc (Sql_raw s) = s"

fun render_values :: "(string \<Rightarrow> string) \<Rightarrow> sql_value list \<Rightarrow> string" where
  "render_values esc [] = []"
| "render_values esc [v] = render_value esc v"
| "render_values esc (v # vs) = render_value esc v @ '', '' @ render_values esc vs"

fun render_assignments :: "(string \<Rightarrow> string) \<Rightarrow> (string \<times> sql_value) list \<Rightarrow> string" where
  "render_assignments esc [] = []"
| "render_assignments esc [(col, v)] = col @ '' = '' @ render_value esc v"
| "render_assignments esc ((col, v) # avs) = col @ '' = '' @ render_value esc v @ '', '' @ render_assignments esc avs"

text \<open>What the server reads.\<close>

definition unescape :: "char \<Rightarrow> char" where
  "unescape c =
     (if c = CHR ''0'' then CHR 0x00 else if c = CHR ''n'' then CHR 0x0A else if c = CHR ''r'' then CHR 0x0D
      else if c = CHR ''t'' then CHR 0x09 else if c = CHR ''b'' then CHR 0x08
      else if c = CHR ''Z'' then CHR 0x1A else c)"

definition cons_literal :: "char \<Rightarrow> (string \<times> string) option \<Rightarrow> (string \<times> string) option" where
  "cons_literal c r = map_option (\<lambda>(l, rest). (c # l, rest)) r"

fun scan_literal :: "string \<Rightarrow> (string \<times> string) option" where
  "scan_literal [] = None"
| "scan_literal [c] = (if c = squote then Some ([], []) else None)"
| "scan_literal (c # d # cs) =
     (if c = backslash then cons_literal (unescape d) (scan_literal cs)
      else if c = squote then (if d = squote then cons_literal squote (scan_literal cs) else Some ([], d # cs))
      else cons_literal c (scan_literal (d # cs)))"

definition raw_char :: "char \<Rightarrow> bool" where
  "raw_char c \<longleftrightarrow> c \<noteq> CHR '','' \<and> c \<noteq> CHR '')''"

definition scan_value :: "string \<Rightarrow> (sql_value \<times> string) option" where
  "scan_value s =
     (case s of
        [] \<Rightarrow> None
      | c # cs \<Rightarrow>
          if c = squote then map_option (\<lambda>(l, rest). (Sql_text l, rest)) (scan_literal cs)
          else Some (Sql_raw (takeWhile raw_char s), dropWhile raw_char s))"

lemma scan_literal_shorter: "scan_literal s = Some (l, rest) \<Longrightarrow> length rest < length s"
proof (induction s arbitrary: l rest rule: scan_literal.induct)
  case (3 c d cs)
  then show ?case by (fastforce simp: cons_literal_def split: if_splits)
qed (auto split: if_splits)

lemma scan_value_shorter: "scan_value s = Some (v, rest) \<Longrightarrow> length rest \<le> length s"
proof (cases s)
  case (Cons c cs)
  moreover have "length (dropWhile raw_char s) \<le> length s" by (simp add: length_dropWhile_le)
  ultimately show "scan_value s = Some (v, rest) \<Longrightarrow> length rest \<le> length s"
    by (auto simp: scan_value_def split: if_splits dest: scan_literal_shorter)
qed (simp add: scan_value_def)

text \<open>A parenthesised list, after its opening parenthesis.\<close>

function scan_values :: "string \<Rightarrow> (sql_value list \<times> string) option" where
  "scan_values s =
     (case scan_value s of
        None \<Rightarrow> None
      | Some (v, rest) \<Rightarrow>
          (if take 2 rest = '', '' then map_option (\<lambda>(vs, r). (v # vs, r)) (scan_values (drop 2 rest))
           else if take 1 rest = '')'' then Some ([v], drop 1 rest)
           else None))"
  by pat_completeness auto
termination
proof (relation "measure length", simp)
  fix s :: string and p v and rest :: string
  assume "scan_value s = Some p" "(v, rest) = p" "take 2 rest = '', ''"
  moreover from this(3) have "rest \<noteq> []" by auto
  ultimately show "(drop 2 rest, s) \<in> measure length" using scan_value_shorter [of s v rest] by (cases rest) auto
qed

declare scan_values.simps [simp del]

section \<open>The escaping interface\<close>

locale sql_escaping =
  fixes esc :: "string \<Rightarrow> string"
  assumes scan_esc: "rest = [] \<or> hd rest \<noteq> squote \<Longrightarrow> scan_literal (esc s @ squote # rest) = Some (s, rest)"
    and esc_no_nul: "CHR 0x00 \<notin> set (esc s)"

text \<open>What the server makes of a value, and which values it can read back.\<close>

fun as_read :: "sql_value \<Rightarrow> sql_value" where
  "as_read (Sql_text s) = Sql_text s"
| "as_read (Sql_quoted s) = Sql_text s"
| "as_read (Sql_raw s) = Sql_raw s"

definition plain_char :: "char \<Rightarrow> bool" where
  "plain_char c \<longleftrightarrow> c \<noteq> squote \<and> c \<noteq> backslash \<and> c \<noteq> CHR 0x00 \<and> raw_char c"

fun readable :: "sql_value \<Rightarrow> bool" where
  "readable (Sql_text s) \<longleftrightarrow> True"
| "readable (Sql_quoted s) \<longleftrightarrow> list_all plain_char s"
| "readable (Sql_raw s) \<longleftrightarrow> s \<noteq> [] \<and> list_all plain_char s"

lemma scan_literal_Cons_plain:
  "c \<noteq> squote \<Longrightarrow> c \<noteq> backslash \<Longrightarrow> s \<noteq> [] \<Longrightarrow> scan_literal (c # s) = cons_literal c (scan_literal s)"
  by (cases s) auto

lemma scan_literal_plain:
  "list_all plain_char s \<Longrightarrow> rest = [] \<or> hd rest \<noteq> squote \<Longrightarrow> scan_literal (s @ squote # rest) = Some (s, rest)"
proof (induction s)
  case Nil
  then show ?case by (cases rest) (auto simp: squote_def backslash_def)
next
  case (Cons c s)
  then show ?case by (simp add: plain_char_def scan_literal_Cons_plain cons_literal_def)
qed

context sql_escaping
begin

lemma scan_value_render:
  assumes "readable v" "rest \<noteq> []" "hd rest = CHR '','' \<or> hd rest = CHR '')''"
  shows "scan_value (render_value esc v @ rest) = Some (as_read v, rest)"
proof -
  from assms have r: "hd rest \<noteq> squote" "\<not> raw_char (hd rest)" by (auto simp: squote_def raw_char_def)
  show ?thesis
  proof (cases v)
    case (Sql_text s)
    with r show ?thesis by (simp add: scan_value_def scan_esc)
  next
    case (Sql_quoted s)
    with assms r show ?thesis by (simp add: scan_value_def scan_literal_plain)
  next
    case (Sql_raw s)
    with assms obtain c cs where "s = c # cs" "c \<noteq> squote" by (cases s) (auto simp: plain_char_def)
    moreover have "list_all raw_char s" using Sql_raw assms by (auto simp: list_all_iff plain_char_def)
    then have "takeWhile raw_char (s @ rest) = s" "dropWhile raw_char (s @ rest) = rest"
      using r assms(2) by (induction s; cases rest; simp)+
    ultimately show ?thesis using Sql_raw by (simp add: scan_value_def)
  qed
qed

lemma scan_values_render:
  "vs \<noteq> [] \<Longrightarrow> list_all readable vs \<Longrightarrow>
   scan_values (render_values esc vs @ CHR '')'' # rest) = Some (map as_read vs, rest)"
proof (induction vs rule: induct_list012)
  case (2 v)
  then show ?case
    using scan_value_render [of v "CHR '')'' # rest"] by (subst scan_values.simps) simp
next
  case (3 v v' vs)
  then show ?case
    using scan_value_render [of v "'', '' @ render_values esc (v' # vs) @ CHR '')'' # rest"]
    by (subst scan_values.simps) simp
qed simp

lemma render_value_no_nul: "readable v \<Longrightarrow> CHR 0x00 \<notin> set (render_value esc v)"
  using esc_no_nul by (cases v) (auto simp: squote_def list_all_iff plain_char_def)

lemma render_values_no_nul: "list_all readable vs \<Longrightarrow> CHR 0x00 \<notin> set (render_values esc vs)"
  by (induction vs rule: induct_list012) (auto dest: render_value_no_nul)

end

section \<open>The documented escaping\<close>

definition mysql_escape_char :: "char \<Rightarrow> string" where
  "mysql_escape_char c =
     (if c = CHR 0x00 then [backslash, CHR ''0'']
      else if c = CHR 0x0A then [backslash, CHR ''n'']
      else if c = CHR 0x0D then [backslash, CHR ''r'']
      else if c = CHR 0x1A then [backslash, CHR ''Z'']
      else if c = squote \<or> c = dquote \<or> c = backslash then [backslash, c]
      else [c])"

definition mysql_escape :: "string \<Rightarrow> string" where
  "mysql_escape s = concat (map mysql_escape_char s)"

interpretation mysql: sql_escaping mysql_escape
proof
  fix rest s :: string
  assume r: "rest = [] \<or> hd rest \<noteq> squote"
  note cs = squote_def dquote_def backslash_def
  show "scan_literal (mysql_escape s @ squote # rest) = Some (s, rest)"
  proof (induction s)
    case Nil
    then show ?case using r scan_literal_plain [of "[]" rest] by (simp add: mysql_escape_def)
  next
    case (Cons c s)
    then show ?case
      by (auto simp: mysql_escape_def mysql_escape_char_def scan_literal_Cons_plain cons_literal_def unescape_def cs)
  qed
next
  show "CHR 0x00 \<notin> set (mysql_escape s)" for s
    by (auto simp: mysql_escape_def mysql_escape_char_def squote_def dquote_def backslash_def split: if_splits)
qed

end
