(* ===== verification/Sql_Schema.thy ===== *)
theory Sql_Schema
  imports Sql_Text
begin

text \<open>
  The statements of \<^verbatim>\<open>MySQLConnection::createTables\<close>, line by line as the raw string literals of
  \<^verbatim>\<open>dht_crawler.cpp\<close> have them.
\<close>

section \<open>Definitions\<close>

text \<open>A raw string literal from its lines.\<close>

fun sql_lines :: "string list \<Rightarrow> string" where
  "sql_lines [] = []"
| "sql_lines [l] = l"
| "sql_lines (l # ls) = l @ CHR 0x0A # sql_lines ls"

definition createTorrentsTable :: "string list" where
  "createTorrentsTable =
    [[],
     ''            CREATE TABLE IF NOT EXISTS discovered_torrents ('',
     ''                id INT AUTO_INCREMENT PRIMARY KEY,'',
     ''                info_hash VARCHAR(40) NOT NULL UNIQUE,'',
     ''                name VARCHAR(500) NULL,'',
     ''                size BIGINT DEFAULT 0 NULL,'',
     ''                num_files INT DEFAULT 0 NULL,'',
     ''                file_names TEXT NULL,'',
     ''                file_sizes TEXT NULL,'',
     ''                comment TEXT NULL,'',
     ''                created_by VARCHAR(255) NULL,'',
     ''                creation_date TIMESTAMP NULL,'',
     ''                encoding VARCHAR(50) NULL,'',
     ''                piece_length BIGINT DEFAULT 0 NULL,'',
     ''                num_pieces INT DEFAULT 0 NULL,'',
     ''                trackers TEXT NULL,'',
     ''                private_torrent BOOLEAN DEFAULT FALSE NULL,'',
     ''                source VARCHAR(50) DEFAULT '' @ [squote] @ ''DHT'' @ [squote] @ '' NULL,'',
     ''                metadata_received BOOLEAN DEFAULT FALSE NULL,'',
     ''                timed_out BOOLEAN DEFAULT FALSE NULL,'',
     ''                magnet_link TEXT NULL,'',
     ''                announce_url VARCHAR(500) NULL,'',
     ''                announce_list TEXT NULL,'',
     ''                content_type VARCHAR(100) NULL,'',
     ''                language VARCHAR(10) NULL,'',
     ''                category VARCHAR(100) NULL,'',
     ''                seeders_count INT DEFAULT 0 NULL,'',
     ''                leechers_count INT DEFAULT 0 NULL,'',
     ''                download_speed BIGINT DEFAULT 0 NULL,'',
     ''                discovered_at TIMESTAMP DEFAULT CURRENT_TIMESTAMP NULL,'',
     ''                last_seen_at TIMESTAMP DEFAULT CURRENT_TIMESTAMP NULL,'',
     ''                created_at TIMESTAMP DEFAULT CURRENT_TIMESTAMP NULL,'',
     ''                updated_at TIMESTAMP DEFAULT CURRENT_TIMESTAMP NULL ON UPDATE CURRENT_TIMESTAMP,'',
     ''                INDEX idx_info_hash (info_hash),'',
     ''                INDEX idx_discovered_at (discovered_at),'',
     ''                INDEX idx_source (source),'',
     ''                INDEX idx_metadata_received (metadata_received),'',
     ''                INDEX idx_timed_out (timed_out),'',
     ''                INDEX idx_name (name(100)),'',
     ''                INDEX idx_size (size),'',
     ''                INDEX idx_num_files (num_files),'',
     ''                INDEX idx_content_type (content_type),'',
     ''                INDEX idx_category (category),'',
     ''                INDEX idx_last_seen (last_seen_at)'',
     ''            ) ENGINE=InnoDB DEFAULT CHARSET=utf8mb4 COLLATE=utf8mb4_unicode_ci'',
     ''        '']"

definition createPeersTable :: "string list" where
  "createPeersTable =
    [[],
     ''            CREATE TABLE IF NOT EXISTS discovered_peers ('',
     ''                id INT AUTO_INCREMENT PRIMARY KEY,'',
     ''                torrent_hash VARCHAR(40) NOT NULL,'',
     ''                peer_address VARCHAR(45) NOT NULL,'',
     ''                peer_port INT NOT NULL,'',
     ''                peer_id VARCHAR(40) NULL,'',
     ''                client_name VARCHAR(100) NULL,'',
     ''                client_version VARCHAR(50) NULL,'',
     ''                connection_type VARCHAR(20) NULL,'',
     ''                source VARCHAR(50) DEFAULT '' @ [squote] @ ''DHT'' @ [squote] @ '' NULL,'',
     ''                discovered_at TIMESTAMP DEFAULT CURRENT_TIMESTAMP NULL,'',
     ''                last_seen_at TIMESTAMP DEFAULT CURRENT_TIMESTAMP NULL,'',
     ''                created_at TIMESTAMP DEFAULT CURRENT_TIMESTAMP NULL,'',
     ''                UNIQUE KEY unique_peer (torrent_hash, peer_address, peer_port),'',
     ''                INDEX idx_torrent_hash (torrent_hash),'',
     ''                INDEX idx_peer_address (peer_address),'',
     ''                INDEX idx_discovered_at (discovered_at),'',
     ''                INDEX idx_source (source),'',
     ''                INDEX idx_client_name (client_name),'',
     ''                FOREIGN KEY (torrent_hash) REFERENCES discovered_torrents(info_hash) ON DELETE CASCADE'',
     ''            ) ENGINE=InnoDB DEFAULT CHARSET=utf8mb4 COLLATE=utf8mb4_unicode_ci'',
     ''        '']"

definition createFilesTable :: "string list" where
  "createFilesTable =
    [[],
     ''            CREATE TABLE IF NOT EXISTS torrent_files ('',
     ''                id INT AUTO_INCREMENT PRIMARY KEY,'',
     ''                torrent_hash VARCHAR(40) NOT NULL,'',
     ''                file_index INT NOT NULL,'',
     ''                file_path VARCHAR(1000) NOT NULL,'',
     ''                file_size BIGINT NOT NULL,'',
     ''                file_hash VARCHAR(40) NULL,'',
     ''                created_at TIMESTAMP DEFAULT CURRENT_TIMESTAMP NULL,'',
     ''                UNIQUE KEY unique_file (torrent_hash, file_index),'',
     ''                INDEX idx_torrent_hash (torrent_hash),'',
     ''                INDEX idx_file_path (file_path(100)),'',
     ''                INDEX idx_file_size (file_size)'',
     ''            ) ENGINE=InnoDB DEFAULT CHARSET=utf8mb4 COLLATE=utf8mb4_unicode_ci'',
     ''        '']"

definition createLogTable :: "string list" where
  "createLogTable =
    [[],
     ''            CREATE TABLE IF NOT EXISTS log ('',
     ''                id INT AUTO_INCREMENT PRIMARY KEY,'',
     ''                timestamp TIMESTAMP DEFAULT CURRENT_TIMESTAMP NULL,'',
     ''                function_name VARCHAR(255) NOT NULL,'',
     ''                caller_function VARCHAR(255) NULL,'',
     ''                error_code INT NULL,'',
     ''                error_message TEXT NULL,'',
     ''                stack_trace TEXT NULL,'',
     ''                severity ENUM('' @ [squote] @ ''DEBUG'' @ [squote] @ '', '' @ [squote] @ ''INFO'' @ [squote] @ '', '' @ [squote] @ ''WARNING'' @ [squote] @ '', '' @ [squote] @ ''ERROR'' @ [squote] @ '', '' @ [squote] @ ''CRITICAL'' @ [squote] @ '') DEFAULT '' @ [squote] @ ''ERROR'' @ [squote] @ '' NULL,'',
     ''                thread_id VARCHAR(50) NULL,'',
     ''                process_id INT NULL,'',
     ''                additional_data TEXT NULL,'',
     ''                created_at TIMESTAMP DEFAULT CURRENT_TIMESTAMP NULL,'',
     ''                INDEX idx_timestamp (timestamp),'',
     ''                INDEX idx_function_name (function_name),'',
     ''                INDEX idx_caller_function (caller_function),'',
     ''                INDEX idx_error_code (error_code),'',
     ''                INDEX idx_severity (severity),'',
     ''                INDEX idx_thread_id (thread_id),'',
     ''                INDEX idx_created_at (created_at)'',
     ''            ) ENGINE=InnoDB DEFAULT CHARSET=utf8mb4 COLLATE=utf8mb4_unicode_ci'',
     ''        '']"

end
