(* ===== verification/Mysql_Connection.thy ===== *)
theory Mysql_Connection
  imports Sql_Schema
begin

text \<open>
  \<^verbatim>\<open>MySQLConnection\<close> of \<^verbatim>\<open>dht_crawler.cpp\<close>, with the structs \<^verbatim>\<open>DiscoveredTorrent\<close> and \<^verbatim>\<open>MySQLConfig\<close>. The client library
  is the parameter \<open>mysql_api\<close>: its calls act on a state \<open>'w\<close> of the server that the model threads
  through. Statements are built exactly as the code concatenates them and cut at the first NUL
  byte, as \<^verbatim>\<open>c_str\<close> does. The \<^verbatim>\<open>try\<close> blocks matter only where the body can throw: \<^verbatim>\<open>std::stoi\<close> of a row, whose
  \<^verbatim>\<open>what()\<close> is the text of libstdc++.
\<close>

section \<open>Data\<close>

record discovered_torrent =
  dt_info_hash :: string
  dt_name :: string
  dt_size :: nat
  dt_num_files :: int
  dt_peers :: "string list"
  dt_file_names :: "string list"
  dt_file_sizes :: "nat list"
  dt_comment :: string
  dt_created_by :: string
  dt_creation_date :: int
  dt_encoding :: string
  dt_piece_length :: nat
  dt_num_pieces :: int
  dt_trackers :: "string list"
  dt_private_torrent :: bool
  dt_magnet_link :: string
  dt_announce_url :: string
  dt_announce_list :: "string list"
  dt_content_type :: string
  dt_language :: string
  dt_category :: string
  dt_seeders_count :: int
  dt_leechers_count :: int
  dt_download_speed :: nat
  dt_discovered_time :: time
  dt_last_seen_time :: time
  dt_source :: string
  dt_metadata_received :: bool
  dt_timed_out :: bool

record mysql_config =
  cf_server :: string
  cf_user :: string
  cf_password :: string
  cf_database :: string
  cf_port :: int
  cf_metadata_hashes :: string
  cf_metadata_database_mode :: bool
  cf_debug_mode :: bool
  cf_verbose_mode :: bool
  cf_metadata_log_mode :: bool
  cf_concurrent_mode :: bool
  cf_num_workers :: int
  cf_bep51_mode :: bool

text \<open>The default member initialisers (the four connection strings start empty).\<close>

definition default_config :: mysql_config where
  "default_config = \<lparr>cf_server = [], cf_user = [], cf_password = [], cf_database = [], cf_port = 3306,
     cf_metadata_hashes = [], cf_metadata_database_mode = False, cf_debug_mode = False, cf_verbose_mode = False,
     cf_metadata_log_mode = False, cf_concurrent_mode = True, cf_num_workers = 4, cf_bep51_mode = True\<rparr>"

text \<open>
  The client library: \<^verbatim>\<open>mysql_init\<close>, \<^verbatim>\<open>mysql_real_connect\<close>, \<^verbatim>\<open>mysql_query\<close> (true on error), \<^verbatim>\<open>mysql_store_result\<close> with the rows reduced
  to their first column, the escaping of the connection, and the process facts \<^verbatim>\<open>logError\<close> reads.
\<close>

record 'w mysql_api =
  my_init :: bool
  my_real_connect :: "mysql_config \<Rightarrow> 'w \<Rightarrow> bool \<times> 'w"
  my_query :: "string \<Rightarrow> 'w \<Rightarrow> bool \<times> 'w"
  my_errno :: "'w \<Rightarrow> int"
  my_error :: "'w \<Rightarrow> string"
  my_store_result :: "'w \<Rightarrow> string option list option \<times> 'w"
  my_escape :: "string \<Rightarrow> string"
  my_format_time :: "int \<Rightarrow> string"
  my_thread_id :: string
  my_process_id :: int

record mysql_connection =
  mc_initialized :: bool
  mc_config :: mysql_config
  mc_connected :: bool

definition new_mysql_connection :: "'w mysql_api \<Rightarrow> mysql_config \<Rightarrow> mysql_connection" where
  "new_mysql_connection api config = \<lparr>mc_initialized = my_init api, mc_config = config, mc_connected = False\<rparr>"

definition c_str :: "string \<Rightarrow> string" where
  "c_str s = takeWhile (\<lambda>c. c \<noteq> CHR 0x00) s"

definition run_query :: "'w mysql_api \<Rightarrow> string \<Rightarrow> 'w \<Rightarrow> bool \<times> 'w" where
  "run_query api query w = my_query api (c_str query) w"

definition escape_string :: "'w mysql_api \<Rightarrow> mysql_connection \<Rightarrow> string \<Rightarrow> string" where
  "escape_string api c str = (if \<not> mc_initialized c then str else c_str (my_escape api str))"

section \<open>Error log\<close>

definition log_query :: "'w mysql_api \<Rightarrow> mysql_connection \<Rightarrow> string \<Rightarrow> string \<Rightarrow> int \<Rightarrow> string \<Rightarrow> string \<Rightarrow> string \<Rightarrow> string \<Rightarrow> string" where
  "log_query api c function_name caller_function error_code error_message stack_trace severity additional_data =
     ''INSERT INTO log (function_name, caller_function, error_code, error_message, stack_trace, severity, thread_id, process_id, additional_data) VALUES ('' @
     render_values (escape_string api c)
       [Sql_text function_name, Sql_text caller_function, Sql_raw (to_string error_code), Sql_text error_message,
        Sql_text stack_trace, Sql_text severity, Sql_text (my_thread_id api), Sql_raw (to_string (my_process_id api)),
        Sql_text additional_data] @ '')''"

definition log_error ::
  "'w mysql_api \<Rightarrow> mysql_connection \<Rightarrow> string \<Rightarrow> string \<Rightarrow> int \<Rightarrow> string \<Rightarrow> string \<Rightarrow> string \<Rightarrow> string \<Rightarrow> 'w \<Rightarrow> bool \<times> 'w" where
  "log_error api c function_name caller_function error_code error_message stack_trace severity additional_data w =
     (if \<not> mc_connected c then (False, w)
      else case run_query api (log_query api c function_name caller_function error_code error_message stack_trace severity additional_data) w of
             (err, w1) \<Rightarrow> (\<not> err, w1))"

definition log_exception ::
  "'w mysql_api \<Rightarrow> mysql_connection \<Rightarrow> string \<Rightarrow> string \<Rightarrow> string \<Rightarrow> string \<Rightarrow> 'w \<Rightarrow> bool \<times> 'w" where
  "log_exception api c function_name caller_function what additional_data w =
     log_error api c function_name caller_function (- 1) what [] ''CRITICAL'' additional_data w"

section \<open>Connecting\<close>

definition create_tables :: "'w mysql_api \<Rightarrow> mysql_connection \<Rightarrow> 'w \<Rightarrow> 'w" where
  "create_tables api c w =
     (if \<not> mc_connected c then w
      else
        let (e1, w1) = run_query api (sql_lines createTorrentsTable) w;
            (e2, w2) = run_query api (sql_lines createPeersTable) w1;
            (e3, w3) = run_query api (sql_lines createFilesTable) w2;
            (e4, w4) = run_query api (sql_lines createLogTable) w3
        in w4)"

definition mysql_connect :: "'w mysql_api \<Rightarrow> mysql_connection \<Rightarrow> 'w \<Rightarrow> bool \<times> mysql_connection \<times> 'w" where
  "mysql_connect api c w =
     (if \<not> mc_initialized c then
        (case log_error api c ''MySQLConnection::connect'' [] (- 1) ''MySQL initialization failed'' [] ''CRITICAL'' [] w of
           (_, w1) \<Rightarrow> (False, c, w1))
      else case my_real_connect api (mc_config c) w of
          (False, w1) \<Rightarrow>
            (case log_error api c ''MySQLConnection::connect'' [] (my_errno api w1) (my_error api w1) [] ''CRITICAL''
                (''server='' @ cf_server (mc_config c) @ '', database='' @ cf_database (mc_config c)) w1 of
               (_, w2) \<Rightarrow> (False, c, w2))
        | (True, w1) \<Rightarrow>
            (let c1 = c\<lparr>mc_connected := True\<rparr> in (True, c1, create_tables api c1 w1)))"

section \<open>Storing a torrent\<close>

fun join_comma :: "string list \<Rightarrow> string" where
  "join_comma [] = []"
| "join_comma [x] = x"
| "join_comma (x # xs) = x @ '', '' @ join_comma xs"

definition json_array :: "string list \<Rightarrow> string" where
  "json_array xs = ''['' @ join_comma xs @ '']''"

definition json_string :: "'w mysql_api \<Rightarrow> mysql_connection \<Rightarrow> string \<Rightarrow> string" where
  "json_string api c s = dquote # escape_string api c s @ [dquote]"

definition sql_bool :: "bool \<Rightarrow> sql_value" where
  "sql_bool b = Sql_raw (if b then ''TRUE'' else ''FALSE'')"

definition insert_columns :: "string list" where
  "insert_columns = [''info_hash'', ''name'', ''size'', ''num_files'', ''file_names'', ''file_sizes'',
     ''comment'', ''created_by'', ''creation_date'', ''encoding'', ''piece_length'', ''num_pieces'',
     ''trackers'', ''private_torrent'', ''source'', ''metadata_received'', ''timed_out'', ''magnet_link'',
     ''announce_url'', ''announce_list'', ''content_type'', ''language'', ''category'',
     ''seeders_count'', ''leechers_count'', ''download_speed'', ''last_seen_at'']"

definition torrent_values :: "'w mysql_api \<Rightarrow> mysql_connection \<Rightarrow> discovered_torrent \<Rightarrow> sql_value list" where
  "torrent_values api c torrent =
     [Sql_text (dt_info_hash torrent), Sql_text (dt_name torrent), Sql_raw (to_string (int (dt_size torrent))),
      Sql_raw (to_string (dt_num_files torrent)),
      Sql_text (join_comma (dt_file_names torrent)),
      Sql_text (json_array (map (to_string \<circ> int) (dt_file_sizes torrent))),
      Sql_text (dt_comment torrent), Sql_text (dt_created_by torrent),
      (if dt_creation_date torrent > 0 then Sql_quoted (my_format_time api (dt_creation_date torrent)) else Sql_raw ''NULL''),
      Sql_text (dt_encoding torrent), Sql_raw (to_string (int (dt_piece_length torrent))), Sql_raw (to_string (dt_num_pieces torrent)),
      Sql_text (json_array (map (json_string api c) (dt_trackers torrent))), sql_bool (dt_private_torrent torrent),
      Sql_text (dt_source torrent), sql_bool (dt_metadata_received torrent), sql_bool (dt_timed_out torrent),
      Sql_text (dt_magnet_link torrent), Sql_text (dt_announce_url torrent),
      Sql_text (json_array (map (json_string api c) (dt_announce_list torrent))),
      Sql_text (dt_content_type torrent), Sql_text (dt_language torrent), Sql_text (dt_category torrent),
      Sql_raw (to_string (dt_seeders_count torrent)), Sql_raw (to_string (dt_leechers_count torrent)),
      Sql_raw (to_string (int (dt_download_speed torrent))), Sql_raw ''CURRENT_TIMESTAMP'']"

definition update_columns :: "string list" where
  "update_columns = [''name'', ''size'', ''num_files'', ''file_names'', ''file_sizes'', ''comment'', ''created_by'', ''creation_date'',
     ''encoding'', ''piece_length'', ''num_pieces'', ''trackers'', ''private_torrent'', ''metadata_received'', ''magnet_link'',
     ''announce_url'', ''announce_list'', ''content_type'', ''language'', ''category'', ''seeders_count'', ''leechers_count'', ''download_speed'']"

definition insert_head :: string where
  "insert_head = ''INSERT INTO discovered_torrents ('' @ join_comma insert_columns @ '') VALUES (''"

definition insert_tail :: string where
  "insert_tail = '' ON DUPLICATE KEY UPDATE '' @
     join_comma (map (\<lambda>col. col @ '' = VALUES('' @ col @ '')'') update_columns
       @ [''last_seen_at = CURRENT_TIMESTAMP'', ''updated_at = CURRENT_TIMESTAMP''])"

definition torrent_insert :: "'w mysql_api \<Rightarrow> mysql_connection \<Rightarrow> discovered_torrent \<Rightarrow> string" where
  "torrent_insert api c torrent =
     insert_head @ render_values (escape_string api c) (torrent_values api c torrent) @ '')'' @ insert_tail"

definition peer_insert_head :: string where
  "peer_insert_head = ''INSERT IGNORE INTO discovered_peers (torrent_hash, peer_address, peer_port, source) VALUES (''"

definition peer_insert :: "'w mysql_api \<Rightarrow> mysql_connection \<Rightarrow> discovered_torrent \<Rightarrow> string \<Rightarrow> string option" where
  "peer_insert api c torrent peer =
     (case find_char (CHR '':'') peer of
        None \<Rightarrow> None
      | Some colon_pos \<Rightarrow>
          Some (peer_insert_head @ render_values (escape_string api c)
            [Sql_text (dt_info_hash torrent), Sql_text (take colon_pos peer), Sql_raw (drop (colon_pos + 1) peer),
             Sql_text (dt_source torrent)] @ '')''))"

fun store_peers :: "'w mysql_api \<Rightarrow> mysql_connection \<Rightarrow> discovered_torrent \<Rightarrow> string list \<Rightarrow> 'w \<Rightarrow> 'w" where
  "store_peers api c torrent [] w = w"
| "store_peers api c torrent (peer # peers) w =
     (case peer_insert api c torrent peer of
        None \<Rightarrow> store_peers api c torrent peers w
      | Some query \<Rightarrow> store_peers api c torrent peers (snd (run_query api query w)))"

definition store_torrent :: "'w mysql_api \<Rightarrow> mysql_connection \<Rightarrow> discovered_torrent \<Rightarrow> 'w \<Rightarrow> bool \<times> 'w" where
  "store_torrent api c torrent w =
     (if \<not> mc_connected c then
        (case log_error api c ''MySQLConnection::storeTorrent'' [] (- 1) ''Not connected to database'' [] ''WARNING'' [] w of
           (_, w1) \<Rightarrow> (False, w1))
      else case run_query api (torrent_insert api c torrent) w of
          (True, w1) \<Rightarrow>
            (case log_error api c ''MySQLConnection::storeTorrent'' [] (my_errno api w1) (my_error api w1) [] ''ERROR''
                (''info_hash='' @ dt_info_hash torrent) w1 of
               (_, w2) \<Rightarrow> (False, w2))
        | (False, w1) \<Rightarrow> (True, store_peers api c torrent (dt_peers torrent) w1))"

section \<open>Updates and queries\<close>

definition mark_head :: string where
  "mark_head = ''UPDATE discovered_torrents SET timed_out = TRUE WHERE info_hash = ''"

definition mark_torrent_timed_out :: "'w mysql_api \<Rightarrow> mysql_connection \<Rightarrow> string \<Rightarrow> 'w \<Rightarrow> bool \<times> 'w" where
  "mark_torrent_timed_out api c info_hash w =
     (if \<not> mc_connected c then
        (case log_error api c ''MySQLConnection::markTorrentTimedOut'' [] (- 1) ''Not connected to database'' [] ''WARNING'' [] w of
           (_, w1) \<Rightarrow> (False, w1))
      else case run_query api (mark_head @ render_value (escape_string api c) (Sql_text info_hash)) w of
          (True, w1) \<Rightarrow>
            (case log_error api c ''MySQLConnection::markTorrentTimedOut'' [] (my_errno api w1) (my_error api w1) [] ''ERROR''
                (''info_hash='' @ info_hash) w1 of
               (_, w2) \<Rightarrow> (False, w2))
        | (False, w1) \<Rightarrow> (True, w1))"

definition missing_where :: string where
  "missing_where = ''WHERE (num_files < 1 OR num_files IS NULL) AND timed_out = 0''"

definition get_torrents_with_missing_metadata :: "'w mysql_api \<Rightarrow> mysql_connection \<Rightarrow> int \<Rightarrow> int \<Rightarrow> 'w \<Rightarrow> string list \<times> 'w" where
  "get_torrents_with_missing_metadata api c limit offset w =
     (let fn = ''MySQLConnection::getTorrentsWithMissingMetadata'' in
      if \<not> mc_connected c then
        (case log_error api c fn [] (- 1) ''Not connected to database'' [] ''WARNING'' [] w of (_, w1) \<Rightarrow> ([], w1))
      else case run_query api (''SELECT info_hash FROM discovered_torrents '' @ missing_where @ '' ORDER BY id ASC LIMIT ''
            @ to_string limit @ '' OFFSET '' @ to_string offset) w of
          (True, w1) \<Rightarrow>
            (case log_error api c fn [] (my_errno api w1) (my_error api w1) [] ''ERROR'' [] w1 of (_, w2) \<Rightarrow> ([], w2))
        | (False, w1) \<Rightarrow>
            (case my_store_result api w1 of
               (None, w2) \<Rightarrow>
                 (case log_error api c fn [] (my_errno api w2) ''Failed to store result'' [] ''ERROR'' [] w2 of (_, w3) \<Rightarrow> ([], w3))
             | (Some rows, w2) \<Rightarrow> (map the (filter (\<lambda>r. r \<noteq> None) rows), w2)))"

definition get_total_torrents_with_missing_metadata :: "'w mysql_api \<Rightarrow> mysql_connection \<Rightarrow> 'w \<Rightarrow> int \<times> 'w" where
  "get_total_torrents_with_missing_metadata api c w =
     (let fn = ''MySQLConnection::getTotalTorrentsWithMissingMetadata'' in
      if \<not> mc_connected c then
        (case log_error api c fn [] (- 1) ''Not connected to database'' [] ''WARNING'' [] w of (_, w1) \<Rightarrow> (0, w1))
      else case run_query api (''SELECT COUNT(*) FROM discovered_torrents '' @ missing_where) w of
          (True, w1) \<Rightarrow>
            (case log_error api c fn [] (my_errno api w1) (my_error api w1) [] ''ERROR'' [] w1 of (_, w2) \<Rightarrow> (0, w2))
        | (False, w1) \<Rightarrow>
            (case my_store_result api w1 of
               (None, w2) \<Rightarrow>
                 (case log_error api c fn [] (my_errno api w2) ''Failed to store result'' [] ''ERROR'' [] w2 of (_, w3) \<Rightarrow> (0, w3))
             | (Some (Some row # rows), w2) \<Rightarrow>
                 (case stoi 10 row of
                    Inr count \<Rightarrow> (count, w2)
                  | Inl e \<Rightarrow> (case log_exception api c fn [] ''stoi'' [] w2 of (_, w3) \<Rightarrow> (0, w3)))
             | (Some _, w2) \<Rightarrow> (0, w2)))"

definition first_or_empty :: "string list \<Rightarrow> string" where
  "first_or_empty xs = (case xs of [] \<Rightarrow> [] | x # _ \<Rightarrow> x)"

definition metadata_assignments :: "discovered_torrent \<Rightarrow> (string \<times> sql_value) list" where
  "metadata_assignments torrent =
     [(''name'', Sql_text (dt_name torrent)), (''size'', Sql_raw (to_string (int (dt_size torrent)))),
      (''num_files'', Sql_raw (to_string (dt_num_files torrent))),
      (''file_names'', Sql_text (first_or_empty (dt_file_names torrent))),
      (''file_sizes'', Sql_text (first_or_empty (map (to_string \<circ> int) (dt_file_sizes torrent)))),
      (''comment'', Sql_text (dt_comment torrent)), (''created_by'', Sql_text (dt_created_by torrent)),
      (''creation_date'', Sql_raw (if dt_creation_date torrent > 0
          then ''FROM_UNIXTIME('' @ to_string (dt_creation_date torrent) @ '')'' else ''NULL'')),
      (''encoding'', Sql_text (dt_encoding torrent)), (''piece_length'', Sql_raw (to_string (int (dt_piece_length torrent)))),
      (''num_pieces'', Sql_raw (to_string (dt_num_pieces torrent))),
      (''trackers'', Sql_text (first_or_empty (dt_trackers torrent))),
      (''private_torrent'', sql_bool (dt_private_torrent torrent)),
      (''content_type'', Sql_text (dt_content_type torrent)), (''language'', Sql_text (dt_language torrent)),
      (''category'', Sql_text (dt_category torrent)), (''metadata_received'', Sql_raw ''TRUE''),
      (''timed_out'', Sql_raw ''FALSE''), (''updated_at'', Sql_raw ''CURRENT_TIMESTAMP'')]"

definition update_torrent_metadata :: "'w mysql_api \<Rightarrow> mysql_connection \<Rightarrow> string \<Rightarrow> discovered_torrent \<Rightarrow> 'w \<Rightarrow> bool \<times> 'w" where
  "update_torrent_metadata api c info_hash torrent w =
     (let fn = ''MySQLConnection::updateTorrentMetadata'' in
      if \<not> mc_connected c then
        (case log_error api c fn [] (- 1) ''Not connected to database'' [] ''WARNING'' [] w of (_, w1) \<Rightarrow> (False, w1))
      else case run_query api (''UPDATE discovered_torrents SET '' @
            render_assignments (escape_string api c) (metadata_assignments torrent) @
            '' WHERE info_hash = '' @ render_value (escape_string api c) (Sql_text info_hash)) w of
          (True, w1) \<Rightarrow>
            (case log_error api c fn [] (my_errno api w1) (my_error api w1) [] ''ERROR'' [] w1 of (_, w2) \<Rightarrow> (False, w2))
        | (False, w1) \<Rightarrow> (True, w1))"

section \<open>Lemmas\<close>

lemma c_str_id: "CHR 0x00 \<notin> set s \<Longrightarrow> c_str s = s"
  by (auto simp: c_str_def takeWhile_eq_all_conv)

lemma escape_string_eq:
  "mc_initialized c \<Longrightarrow> sql_escaping (my_escape api) \<Longrightarrow> escape_string api c = my_escape api"
  by (auto simp: escape_string_def c_str_id sql_escaping.esc_no_nul)

lemma digit_plain: "isdigit ch \<Longrightarrow> plain_char ch"
  by (auto simp: isdigit_def plain_char_def squote_def backslash_def raw_char_def)

lemma digits_readable: "s \<noteq> [] \<Longrightarrow> list_all isdigit s \<Longrightarrow> readable (Sql_raw s)"
  by (auto simp: list_all_iff digit_plain)

lemma to_string_readable: "readable (Sql_raw (to_string i))"
proof (cases "i < 0")
  case True
  have "plain_char (CHR ''-'')" by (simp add: plain_char_def squote_def backslash_def raw_char_def)
  moreover have "list_all plain_char (show_nat (nat (- i)))"
    using show_nat_isdigit [of "nat (- i)"] by (auto simp: list_all_iff digit_plain)
  ultimately show ?thesis using True by (simp add: to_string_def)
next
  case False
  then show ?thesis using digits_readable [OF show_nat_nonempty show_nat_isdigit] by (simp add: to_string_def)
qed

lemma fixed_readable:
  "readable (sql_bool b)" "readable (Sql_raw ''NULL'')" "readable (Sql_raw ''CURRENT_TIMESTAMP'')"
  by (simp_all add: sql_bool_def plain_char_def squote_def backslash_def raw_char_def)

lemma torrent_values_readable:
  "list_all plain_char (my_format_time api (dt_creation_date t)) \<Longrightarrow> list_all readable (torrent_values api c t)"
  unfolding torrent_values_def list.pred_inject
  using to_string_readable fixed_readable by (auto simp del: readable.simps(3))

text \<open>A statement that ends in a rendered list is read back value by value.\<close>

lemma statement_values:
  assumes "sql_escaping (my_escape api)" "mc_initialized c" "vs \<noteq> []" "list_all readable vs"
    and "CHR 0x00 \<notin> set h" "CHR 0x00 \<notin> set t"
  shows "c_str (h @ render_values (escape_string api c) vs @ CHR '')'' # t) = h @ render_values (my_escape api) vs @ CHR '')'' # t
     \<and> scan_values (render_values (my_escape api) vs @ CHR '')'' # t) = Some (map as_read vs, t)"
  using assms sql_escaping.render_values_no_nul [OF assms(1,4)] sql_escaping.scan_values_render [OF assms(1,3,4), of t]
  by (simp add: escape_string_eq c_str_id)

lemma insert_text_no_nul: "CHR 0x00 \<notin> set insert_head" "CHR 0x00 \<notin> set insert_tail" "CHR 0x00 \<notin> set peer_insert_head"
  "CHR 0x00 \<notin> set mark_head"
  by code_simp+

lemma peer_insert_values:
  assumes "sql_escaping (my_escape api)" "mc_initialized c" "CHR '':'' \<notin> set a" "p \<noteq> []" "list_all plain_char p"
  shows "\<exists>q r. peer_insert api c t (a @ CHR '':'' # p) = Some q \<and> c_str q = peer_insert_head @ r
     \<and> scan_values r = Some ([Sql_text (dt_info_hash t), Sql_text a, Sql_raw p, Sql_text (dt_source t)], [])"
  using statement_values [OF assms(1,2), where vs = "[Sql_text (dt_info_hash t), Sql_text a, Sql_raw p, Sql_text (dt_source t)]"
      and h = peer_insert_head and t = "[]"] assms(3-) insert_text_no_nul
  by (simp add: peer_insert_def find_char_append)

definition demo_api :: "bool \<Rightarrow> string list mysql_api" where
  "demo_api up = \<lparr>my_init = True, my_real_connect = (\<lambda>cf w. (up, w)), my_query = (\<lambda>q w. (False, w @ [q])),
     my_errno = (\<lambda>w. 0), my_error = (\<lambda>w. []), my_store_result = (\<lambda>w. (Some [], w)), my_escape = mysql_escape,
     my_format_time = (\<lambda>t. ''2024-01-01 00:00:00''), my_thread_id = ''1'', my_process_id = 1\<rparr>"

definition demo_connection :: mysql_connection where
  "demo_connection = \<lparr>mc_initialized = True, mc_config = default_config, mc_connected = True\<rparr>"

definition demo_torrent :: discovered_torrent where
  "demo_torrent = \<lparr>dt_info_hash = ''ab'', dt_name = [squote], dt_size = 0, dt_num_files = 0, dt_peers = [], dt_file_names = [],
     dt_file_sizes = [], dt_comment = [], dt_created_by = [], dt_creation_date = 1, dt_encoding = [], dt_piece_length = 0,
     dt_num_pieces = 0, dt_trackers = [], dt_private_torrent = False, dt_magnet_link = [], dt_announce_url = [],
     dt_announce_list = [], dt_content_type = [], dt_language = [], dt_category = [], dt_seeders_count = 0,
     dt_leechers_count = 0, dt_download_speed = 0, dt_discovered_time = 0, dt_last_seen_time = 0, dt_source = ''DHT'',
     dt_metadata_received = False, dt_timed_out = False\<rparr>"

section \<open>Properties\<close>

text \<open>C14: No text of a torrent can change the \<^verbatim>\<open>INSERT\<close> statement of \<^verbatim>\<open>storeTorrent\<close>: on an initialised connection whose
  escaping obeys the client library's contract, and with a time format free of quotes, the server
  reads between the fixed head and the fixed tail exactly the 27 values of the torrent, in the
  order of the 27 columns the head names.\<close>

theorem store_torrent_insert_safe:
  assumes "sql_escaping (my_escape api)" "mc_initialized c"
    and "list_all plain_char (my_format_time api (dt_creation_date t))"
  shows "\<exists>r. c_str (torrent_insert api c t) = insert_head @ r
     \<and> scan_values r = Some (map as_read (torrent_values api c t), insert_tail)
     \<and> length (torrent_values api c t) = length insert_columns"
  using statement_values [OF assms(1,2) _ torrent_values_readable [OF assms(3)] insert_text_no_nul(1,2)]
  by (simp add: torrent_insert_def insert_columns_def) (simp add: torrent_values_def)

theorem store_torrent_insert_safe_witness:
  "\<exists>r. c_str (torrent_insert (demo_api True) demo_connection demo_torrent) = insert_head @ r
     \<and> scan_values r = Some (map as_read (torrent_values (demo_api True) demo_connection demo_torrent), insert_tail)
     \<and> length (torrent_values (demo_api True) demo_connection demo_torrent) = length insert_columns"
  by (rule store_torrent_insert_safe)
    (simp_all add: demo_api_def demo_connection_def demo_torrent_def mysql.sql_escaping_axioms plain_char_def raw_char_def squote_def backslash_def)

text \<open>The peer statement of \<^verbatim>\<open>storeTorrent\<close> splits a peer at its first colon. For \<open>address:port\<close> with a colon-free
  address the server reads the torrent, the address and the port; for an address that contains
  colons, as every IPv6 endpoint does, it reads the part of the address before the first colon and,
  as an unquoted number, all the rest.\<close>

theorem store_peer_values:
  assumes "sql_escaping (my_escape api)" "mc_initialized c" "CHR '':'' \<notin> set a" "port \<noteq> []" "list_all isdigit port"
    and "list_all plain_char b"
  shows "(\<exists>q r. peer_insert api c t (a @ CHR '':'' # port) = Some q \<and> c_str q = peer_insert_head @ r
       \<and> scan_values r = Some ([Sql_text (dt_info_hash t), Sql_text a, Sql_raw port, Sql_text (dt_source t)], []))
     \<and> (\<exists>q r. peer_insert api c t ((a @ CHR '':'' # b) @ CHR '':'' # port) = Some q \<and> c_str q = peer_insert_head @ r
       \<and> scan_values r = Some ([Sql_text (dt_info_hash t), Sql_text a, Sql_raw (b @ CHR '':'' # port), Sql_text (dt_source t)], []))"
proof -
  have p: "list_all plain_char port" using assms(5) by (auto simp: list_all_iff digit_plain)
  have "plain_char (CHR '':'')" by (simp add: plain_char_def raw_char_def squote_def backslash_def)
  then show ?thesis
    using peer_insert_values [OF assms(1-4) p] peer_insert_values [OF assms(1-3), of "b @ CHR '':'' # port"] p assms(6) by simp
qed

theorem store_peer_values_witness:
  "(\<exists>q r. peer_insert (demo_api True) demo_connection demo_torrent (''[2001'' @ CHR '':'' # ''6881'') = Some q
        \<and> c_str q = peer_insert_head @ r
        \<and> scan_values r = Some ([Sql_text (dt_info_hash demo_torrent), Sql_text ''[2001'', Sql_raw ''6881'', Sql_text (dt_source demo_torrent)], []))
   \<and> (\<exists>q r. peer_insert (demo_api True) demo_connection demo_torrent ((''[2001'' @ CHR '':'' # ''db8::1]'') @ CHR '':'' # ''6881'') = Some q
         \<and> c_str q = peer_insert_head @ r
         \<and> scan_values r = Some ([Sql_text (dt_info_hash demo_torrent), Sql_text ''[2001'',
              Sql_raw (''db8::1]'' @ CHR '':'' # ''6881''), Sql_text (dt_source demo_torrent)], []))"
  by (rule store_peer_values)
    (simp_all add: demo_api_def demo_connection_def mysql.sql_escaping_axioms isdigit_def plain_char_def raw_char_def squote_def backslash_def)

text \<open>Before \<^verbatim>\<open>connect\<close> succeeds the connection does nothing: every operation reports failure or an empty
  result and sends no statement, not even to the error log; and a failed \<^verbatim>\<open>connect\<close> leaves it unconnected
  with nothing sent beyond the attempt itself.\<close>

theorem disconnected_no_effect:
  fixes c :: mysql_connection
  assumes "\<not> mc_connected c"
  shows "store_torrent api c t w = (False, w) \<and> mark_torrent_timed_out api c h w = (False, w)
     \<and> update_torrent_metadata api c h t w = (False, w)
     \<and> get_torrents_with_missing_metadata api c limit offset w = ([], w)
     \<and> get_total_torrents_with_missing_metadata api c w = (0, w)
     \<and> log_exception api c fn caller what extra w = (False, w)
     \<and> (mysql_connect api c w = (False, c', w') \<longrightarrow>
          c' = c \<and> w' = (if mc_initialized c then snd (my_real_connect api (mc_config c) w) else w))"
  using assms
  by (auto simp: store_torrent_def mark_torrent_timed_out_def update_torrent_metadata_def log_error_def log_exception_def
      get_torrents_with_missing_metadata_def get_total_torrents_with_missing_metadata_def mysql_connect_def Let_def
      split: if_splits prod.splits bool.splits)

theorem disconnected_no_effect_witness:
  "\<exists>c w :: string list. \<not> mc_connected c \<and> store_torrent (demo_api False) c demo_torrent w = (False, w)
     \<and> get_total_torrents_with_missing_metadata (demo_api False) c w = (0, w)
     \<and> mysql_connect (demo_api False) c w = (False, c, w)"
proof -
  let ?c = "new_mysql_connection (demo_api False) default_config"
  have "\<not> mc_connected ?c" by (simp add: new_mysql_connection_def)
  then have "store_torrent (demo_api False) ?c demo_torrent [] = (False, [])
      \<and> get_total_torrents_with_missing_metadata (demo_api False) ?c [] = (0, [])"
    using disconnected_no_effect by metis
  then show ?thesis
    by (intro exI [of _ ?c] exI [of _ "[]"]) (auto simp: new_mysql_connection_def demo_api_def mysql_connect_def log_error_def)
qed

end
