(* ===== verification/Hash_Format.thy ===== *)
theory Hash_Format
  imports Crawler_Prelude
begin

text \<open>
  The info-hash formats: \<^verbatim>\<open>convert_hash_to_hex\<close> of \<^verbatim>\<open>enhanced_metadata_manager.hpp\<close> (40 hex digits,
  32 base32 digits or 20 raw bytes, everything else refused), the binary-to-hex loop of the alert
  handlers, the hex-to-binary loop of \<^verbatim>\<open>SmartDHTCrawler::send_smart_queries\<close>, and the private
  \<^verbatim>\<open>convert_hash_to_hex\<close> of \<^verbatim>\<open>MetadataWorkerPool\<close>.
\<close>

section \<open>Definitions\<close>

definition hex_chars :: string where
  "hex_chars = ''0123456789abcdef''"

definition base32_chars :: string where
  "base32_chars = ''ABCDEFGHIJKLMNOPQRSTUVWXYZ234567''"

text \<open>\<^verbatim>\<open>snprintf(hex, sizeof(hex), "%02x", c)\<close> for one byte, and the loop over a binary string.\<close>

definition hex_byte :: "char \<Rightarrow> string" where
  "hex_byte c = [hex_chars ! (code c div 16), hex_chars ! (code c mod 16)]"

definition binary_to_hex :: "string \<Rightarrow> string" where
  "binary_to_hex s = concat (map hex_byte s)"

text \<open>The five bits of a base32 digit, most significant first, as the characters the code appends.\<close>

definition five_bits :: "nat \<Rightarrow> string" where
  "five_bits pos = map (\<lambda>i. if (pos div 2 ^ i) mod 2 = 1 then CHR ''1'' else CHR ''0'') [4, 3, 2, 1, 0]"

fun base32_to_binary :: "string \<Rightarrow> string option" where
  "base32_to_binary [] = Some []"
| "base32_to_binary (c # cs) =
     (case find_char (toupper c) base32_chars of
        None \<Rightarrow> None
      | Some pos \<Rightarrow> map_option (\<lambda>bits. five_bits pos @ bits) (base32_to_binary cs))"

definition nibble_value :: "char \<Rightarrow> char \<Rightarrow> char \<Rightarrow> char \<Rightarrow> nat" where
  "nibble_value b0 b1 b2 b3 =
     (if b0 = CHR ''1'' then 8 else 0) + (if b1 = CHR ''1'' then 4 else 0)
     + (if b2 = CHR ''1'' then 2 else 0) + (if b3 = CHR ''1'' then 1 else 0)"

text \<open>
  The loop over the bit string in steps of four. Its input has 160 characters here, so the
  last equation (fewer than four characters left) is reached with the empty string only.
\<close>

fun binary_nibbles_to_hex :: "string \<Rightarrow> string" where
  "binary_nibbles_to_hex (b0 # b1 # b2 # b3 # bs) =
     hex_chars ! nibble_value b0 b1 b2 b3 # binary_nibbles_to_hex bs"
| "binary_nibbles_to_hex _ = []"

definition convert_hash_to_hex :: "string \<Rightarrow> string" where
  "convert_hash_to_hex hash =
     (if length hash = 40 \<and> list_all isxdigit hash then hash
      else if length hash = 32 then
        (case base32_to_binary hash of
           None \<Rightarrow> []
         | Some binary \<Rightarrow> binary_nibbles_to_hex binary)
      else if length hash = 20 then binary_to_hex hash
      else [])"

text \<open>The member function of the same name in \<^verbatim>\<open>metadata_worker_pool.hpp\<close>.\<close>

definition pool_convert_hash_to_hex :: "string \<Rightarrow> string" where
  "pool_convert_hash_to_hex hash =
     (if length hash = 40 then hash
      else if length hash = 32 then hash
      else [])"

text \<open>
  The conversion of a 40-character hash to 20 bytes in \<^verbatim>\<open>send_smart_queries\<close>: each pair through
  \<^verbatim>\<open>std::stoi(byte_str, nullptr, 16)\<close> and a cast to \<^verbatim>\<open>unsigned char\<close>. \<^verbatim>\<open>std::stoi\<close> may throw.
\<close>

fun hex_pairs_to_bytes :: "string \<Rightarrow> exn + string" where
  "hex_pairs_to_bytes (a # b # rest) =
     (case stoi 16 [a, b] of
        Inl e \<Rightarrow> Inl e
      | Inr v \<Rightarrow>
          (case hex_pairs_to_bytes rest of
             Inl e \<Rightarrow> Inl e
           | Inr bs \<Rightarrow> Inr (char_of (nat (v mod 256)) # bs)))"
| "hex_pairs_to_bytes _ = Inr []"

text \<open>Reference values: a digit string as a number, in base 16 and in base32.\<close>

definition hex_value :: "string \<Rightarrow> nat" where
  "hex_value s = foldl (\<lambda>a c. 16 * a + (case digit_value 16 c of Some d \<Rightarrow> d | None \<Rightarrow> 0)) 0 s"

definition base32_value :: "string \<Rightarrow> nat" where
  "base32_value s =
     foldl (\<lambda>a c. 32 * a + (case find_char (toupper c) base32_chars of Some p \<Rightarrow> p | None \<Rightarrow> 0)) 0 s"

definition bits_value :: "string \<Rightarrow> nat" where
  "bits_value s = foldl (\<lambda>a c. 2 * a + (if c = CHR ''1'' then 1 else 0)) 0 s"

section \<open>Hex digits\<close>

lemma nat_less_16_cases:
  "(n::nat) < 16 \<Longrightarrow> n \<in> {0, 1, 2, 3, 4, 5, 6, 7, 8, 9, 10, 11, 12, 13, 14, 15}"
  by (simp only: insert_iff empty_iff) presburger

lemma hex_chars_props:
  assumes "n < 16"
  shows "digit_value 16 (hex_chars ! n) = Some n" "isxdigit (hex_chars ! n)"
    "\<not> isspace (hex_chars ! n)" "hex_chars ! n \<noteq> CHR ''-''" "hex_chars ! n \<noteq> CHR ''+''"
proof -
  have "digit_value 16 (hex_chars ! n) = Some n \<and> isxdigit (hex_chars ! n)
    \<and> \<not> isspace (hex_chars ! n) \<and> hex_chars ! n \<noteq> CHR ''-'' \<and> hex_chars ! n \<noteq> CHR ''+''"
    using nat_less_16_cases [OF assms]
    by (elim insertE emptyE; hypsubst; simp add: hex_chars_def digit_value_def isxdigit_def isdigit_def isspace_def)
  then show "digit_value 16 (hex_chars ! n) = Some n" "isxdigit (hex_chars ! n)"
    "\<not> isspace (hex_chars ! n)" "hex_chars ! n \<noteq> CHR ''-''" "hex_chars ! n \<noteq> CHR ''+''"
    by auto
qed

lemma length_binary_to_hex [simp]: "length (binary_to_hex s) = 2 * length s"
  by (induction s) (auto simp: binary_to_hex_def hex_byte_def)

lemma hex_byte_isxdigit: "list_all isxdigit (hex_byte c)"
proof -
  have "code c div 16 < 16" by (simp add: less_mult_imp_div_less)
  then show ?thesis by (simp add: hex_byte_def hex_chars_props)
qed

lemma binary_to_hex_isxdigit: "list_all isxdigit (binary_to_hex s)"
  by (induction s) (auto simp: binary_to_hex_def hex_byte_isxdigit)

lemma skip_base_prefix_short [simp]: "skip_base_prefix b [x, y] = [x, y]"
  by (simp add: skip_base_prefix_def)

lemma stoi_hex_byte: "stoi 16 (hex_byte c) = Inr (int (code c))"
proof -
  let ?h = "code c div 16" and ?l = "code c mod 16"
  have h: "?h < 16" by (simp add: less_mult_imp_div_less)
  have l: "?l < 16" by simp
  have v: "digits_value 16 [?h, ?l] = code c"
    by (simp add: digits_value_def)
  have "code c < 2 ^ 31"
    by (rule less_trans [OF code_less_256]) simp
  then have "int (code c) < 2 ^ 31" by simp
  then show ?thesis
    by (simp add: hex_byte_def stoi_def Let_def hex_chars_props [OF h] hex_chars_props [OF l] v
        del: of_nat_of_char)
qed

lemma hex_pairs_to_bytes_binary_to_hex: "hex_pairs_to_bytes (binary_to_hex s) = Inr s"
proof (induction s)
  case Nil
  then show ?case by (simp add: binary_to_hex_def)
next
  case (Cons c s)
  have "int (code c) mod 256 = int (code c)"
    using code_less_256 [of c] by (simp del: code_less_256)
  then have "char_of (nat (int (code c) mod 256)) = c"
    by (simp del: of_nat_of_char)
  moreover have "stoi 16 [hex_chars ! (code c div 16), hex_chars ! (code c mod 16)] = Inr (int (code c))"
    using stoi_hex_byte [of c] by (simp add: hex_byte_def)
  ultimately show ?case
    using Cons.IH by (simp add: binary_to_hex_def hex_byte_def del: of_nat_of_char)
qed

lemma binary_to_hex_inj: "binary_to_hex s = binary_to_hex t \<Longrightarrow> s = t"
  by (metis hex_pairs_to_bytes_binary_to_hex sum.inject(2))

section \<open>Base32\<close>

lemma bits_value_shift:
  "foldl (\<lambda>a c. 2 * a + (if c = CHR ''1'' then 1 else 0)) n t = n * 2 ^ length t + bits_value t"
proof (induction t arbitrary: n)
  case Nil
  then show ?case by (simp add: bits_value_def)
next
  case (Cons c t)
  let ?d = "if c = CHR ''1'' then 1 else 0"
  have "bits_value (c # t) = ?d * 2 ^ length t + bits_value t"
    unfolding bits_value_def using Cons.IH [of ?d] by (simp add: bits_value_def)
  then show ?case
    using Cons.IH [of "2 * n + ?d"] by (simp add: algebra_simps)
qed

lemma bits_value_append: "bits_value (s @ t) = bits_value s * 2 ^ length t + bits_value t"
  using bits_value_shift [of "bits_value s" t] by (simp add: bits_value_def)

lemma length_five_bits [simp]: "length (five_bits p) = 5"
  by (simp add: five_bits_def)

lemma mod_2_indicator: "(if (x::nat) mod 2 = 1 then 1 else 0) = x mod 2"
  by presburger

lemma double_div_mod: "2 * (n div (k * 2)) + n div k mod 2 = n div (k::nat)"
  by (simp add: div_mult2_eq)

lemma bits_value_five_bits:
  assumes "p < 32"
  shows "bits_value (five_bits p) = p"
proof -
  have ind: "(if (if b then CHR ''1'' else CHR ''0'') = CHR ''1'' then 1 else 0) = (if b then 1 else 0 :: nat)" for b
    by simp
  have "bits_value (five_bits p) =
      2 * (2 * (2 * (2 * (p div 16 mod 2) + p div 8 mod 2) + p div 4 mod 2) + p div 2 mod 2) + p mod 2"
    by (simp only: bits_value_def five_bits_def list.map foldl.simps ind mod_2_indicator) simp
  also have "\<dots> = p"
  proof -
    have "p div 16 < 2" using assms by (simp add: less_mult_imp_div_less)
    then have "p div 16 mod 2 = p div 16" by simp
    moreover have "2 * (p div 2) + p mod 2 = p" by simp
    moreover note double_div_mod [of p 8] double_div_mod [of p 4] double_div_mod [of p 2]
    ultimately show ?thesis by simp
  qed
  finally show ?thesis .
qed

lemma find_char_base32_less: "find_char x base32_chars = Some p \<Longrightarrow> p < 32"
  using find_char_Some [of x base32_chars p] by (simp add: base32_chars_def)

lemma base32_to_binary_length: "base32_to_binary s = Some bits \<Longrightarrow> length bits = 5 * length s"
  by (induction s arbitrary: bits) (auto split: option.splits)

lemma base32_value_snoc:
  "base32_value (s @ [c]) =
     32 * base32_value s + (case find_char (toupper c) base32_chars of Some p \<Rightarrow> p | None \<Rightarrow> 0)"
  by (simp add: base32_value_def)

lemma base32_to_binary_append:
  "base32_to_binary (s @ t) =
     (case base32_to_binary s of None \<Rightarrow> None
      | Some bs \<Rightarrow> map_option (\<lambda>bt. bs @ bt) (base32_to_binary t))"
proof (induction s)
  case Nil
  then show ?case by (cases "base32_to_binary t") auto
next
  case (Cons c s)
  then show ?case by (cases "base32_to_binary t") (simp_all split: option.splits)
qed

lemma base32_to_binary_value: "base32_to_binary s = Some bits \<Longrightarrow> bits_value bits = base32_value s"
proof (induction s arbitrary: bits rule: rev_induct)
  case Nil
  then show ?case by (simp add: bits_value_def base32_value_def)
next
  case (snoc c s)
  from snoc.prems obtain bs p where bs: "base32_to_binary s = Some bs"
    and p: "find_char (toupper c) base32_chars = Some p" and bits: "bits = bs @ five_bits p"
    by (auto simp: base32_to_binary_append split: option.splits)
  have "p < 32" using p by (rule find_char_base32_less)
  then show ?case
    using snoc.IH [OF bs] p
    by (simp add: bits bits_value_append bits_value_five_bits base32_value_snoc)
qed

lemma nibble_value_less: "nibble_value b0 b1 b2 b3 < 16"
  by (simp add: nibble_value_def)

lemma hex_value_shift:
  "foldl (\<lambda>a c. 16 * a + (case digit_value 16 c of Some d \<Rightarrow> d | None \<Rightarrow> 0)) n t
     = n * 16 ^ length t + hex_value t"
proof (induction t arbitrary: n)
  case Nil
  then show ?case by (simp add: hex_value_def)
next
  case (Cons c t)
  let ?d = "case digit_value 16 c of Some d \<Rightarrow> d | None \<Rightarrow> 0"
  have "hex_value (c # t) = ?d * 16 ^ length t + hex_value t"
    unfolding hex_value_def using Cons.IH [of ?d] by (simp add: hex_value_def)
  then show ?case
    using Cons.IH [of "16 * n + ?d"] by (simp add: algebra_simps)
qed

lemma hex_value_Cons:
  "hex_value (c # t) = (case digit_value 16 c of Some d \<Rightarrow> d | None \<Rightarrow> 0) * 16 ^ length t + hex_value t"
  using hex_value_shift [of "case digit_value 16 c of Some d \<Rightarrow> d | None \<Rightarrow> 0" t]
  by (simp add: hex_value_def)

lemma not_4_dvd [simp]: "\<not> 4 dvd Suc 0" "\<not> 4 dvd Suc (Suc 0)" "\<not> 4 dvd Suc (Suc (Suc 0))"
  by (auto dest: dvd_imp_le)

lemma length_binary_nibbles: "4 dvd length bs \<Longrightarrow> 4 * length (binary_nibbles_to_hex bs) = length bs"
proof (induction bs rule: binary_nibbles_to_hex.induct)
  case (1 b0 b1 b2 b3 bs)
  then have "4 dvd length bs" by (simp add: dvd_def) presburger
  with "1.IH" show ?case by simp
qed simp_all

lemma hex_value_binary_nibbles:
  "4 dvd length bs \<Longrightarrow> hex_value (binary_nibbles_to_hex bs) = bits_value bs"
proof (induction bs rule: binary_nibbles_to_hex.induct)
  case (1 b0 b1 b2 b3 bs)
  then have d: "4 dvd length bs" by (simp add: dvd_def) presburger
  have len: "16 ^ length (binary_nibbles_to_hex bs) = (2::nat) ^ length bs"
  proof -
    have "(16::nat) ^ length (binary_nibbles_to_hex bs) = 2 ^ (4 * length (binary_nibbles_to_hex bs))"
      by (simp add: power_mult)
    then show ?thesis by (simp add: length_binary_nibbles [OF d])
  qed
  have "bits_value ([b0, b1, b2, b3] @ bs) = bits_value [b0, b1, b2, b3] * 2 ^ length bs + bits_value bs"
    by (rule bits_value_append)
  moreover have "bits_value [b0, b1, b2, b3] = nibble_value b0 b1 b2 b3"
    by (simp add: bits_value_def nibble_value_def)
  ultimately show ?case
    using "1.IH" [OF d] hex_chars_props(1) [OF nibble_value_less [of b0 b1 b2 b3]]
    by (simp add: hex_value_Cons len)
qed (simp_all add: hex_value_def bits_value_def)

lemma binary_nibbles_isxdigit: "list_all isxdigit (binary_nibbles_to_hex bs)"
  by (induction bs rule: binary_nibbles_to_hex.induct)
    (simp_all add: hex_chars_props(2) nibble_value_less)

section \<open>The conversion\<close>

lemma convert_base32:
  assumes "length hash = 32" and "base32_to_binary hash = Some bits"
  shows "length (convert_hash_to_hex hash) = 40"
    and "hex_value (convert_hash_to_hex hash) = base32_value hash"
proof -
  have len: "length bits = 160"
    using base32_to_binary_length [OF assms(2)] assms(1) by simp
  then have d: "4 dvd length bits" by simp
  have c: "convert_hash_to_hex hash = binary_nibbles_to_hex bits"
    using assms by (simp add: convert_hash_to_hex_def)
  show "length (convert_hash_to_hex hash) = 40"
    using length_binary_nibbles [OF d] len c by simp
  show "hex_value (convert_hash_to_hex hash) = base32_value hash"
    using hex_value_binary_nibbles [OF d] base32_to_binary_value [OF assms(2)] c by simp
qed

lemma convert_hash_to_hex_shape:
  "convert_hash_to_hex hash = [] \<or>
   (length (convert_hash_to_hex hash) = 40 \<and> list_all isxdigit (convert_hash_to_hex hash))"
proof (cases "length hash = 32")
  case True
  show ?thesis
  proof (cases "base32_to_binary hash")
    case None
    with True show ?thesis by (simp add: convert_hash_to_hex_def)
  next
    case (Some bits)
    with True convert_base32 [OF True Some] show ?thesis
      by (simp add: convert_hash_to_hex_def binary_nibbles_isxdigit)
  qed
next
  case False
  then show ?thesis
    by (simp add: convert_hash_to_hex_def binary_to_hex_isxdigit)
qed

lemma base32_to_binary_defined:
  "\<forall>c \<in> set s. toupper c \<in> set base32_chars \<Longrightarrow> \<exists>bits. base32_to_binary s = Some bits"
proof (induction s)
  case (Cons c s)
  then obtain p where "find_char (toupper c) base32_chars = Some p"
    using find_char_None [of "toupper c" base32_chars] by fastforce
  with Cons show ?case by auto
qed simp

section \<open>Properties\<close>

text \<open>C11: The hex form of a 20-byte hash that \<^verbatim>\<open>convert_hash_to_hex\<close> produces is decoded by the loop of
  \<^verbatim>\<open>send_smart_queries\<close> back to the same 20 bytes, without an exception.\<close>

theorem hash_hex_round_trip:
  assumes "length bytes = 20"
  shows "hex_pairs_to_bytes (convert_hash_to_hex bytes) = Inr bytes"
  using assms by (simp add: convert_hash_to_hex_def hex_pairs_to_bytes_binary_to_hex)

theorem hash_hex_round_trip_witness:
  "hex_pairs_to_bytes (convert_hash_to_hex (replicate 19 (char_of (171::nat)) @ ''z'')) = Inr (replicate 19 (char_of (171::nat)) @ ''z'')"
  by (rule hash_hex_round_trip) simp

text \<open>Whatever the input, the result of \<^verbatim>\<open>convert_hash_to_hex\<close> is the empty string or a string of
  exactly 40 hexadecimal digits, and converting a result again changes nothing.\<close>

theorem convert_hash_to_hex_normal_form:
  "(convert_hash_to_hex hash = [] \<or>
    (length (convert_hash_to_hex hash) = 40 \<and> list_all isxdigit (convert_hash_to_hex hash)))
   \<and> convert_hash_to_hex (convert_hash_to_hex hash) = convert_hash_to_hex hash"
proof -
  have "convert_hash_to_hex h = h" if "h = [] \<or> (length h = 40 \<and> list_all isxdigit h)" for h
    using that by (auto simp: convert_hash_to_hex_def)
  then show ?thesis using convert_hash_to_hex_shape [of hash] by blast
qed

text \<open>A 32-character base32 hash (in either case) is converted to the 40-digit hexadecimal form
  of the same 160-bit number.\<close>

theorem convert_base32_value:
  assumes "length hash = 32" and "\<forall>c \<in> set hash. toupper c \<in> set base32_chars"
  shows "length (convert_hash_to_hex hash) = 40
    \<and> hex_value (convert_hash_to_hex hash) = base32_value hash"
  using base32_to_binary_defined [OF assms(2)] convert_base32 [OF assms(1)] by blast

theorem convert_base32_value_witness:
  "length (convert_hash_to_hex (replicate 16 CHR ''m'' @ replicate 16 CHR ''7'')) = 40
   \<and> hex_value (convert_hash_to_hex (replicate 16 CHR ''m'' @ replicate 16 CHR ''7''))
       = base32_value (replicate 16 CHR ''m'' @ replicate 16 CHR ''7'')"
proof (rule convert_base32_value)
  have "toupper CHR ''m'' = CHR ''M''" "toupper CHR ''7'' = CHR ''7''" by code_simp+
  then show "\<forall>c \<in> set (replicate 16 CHR ''m'' @ replicate 16 CHR ''7''). toupper c \<in> set base32_chars"
    by (simp add: base32_chars_def)
qed simp

text \<open>The worker pool's own \<^verbatim>\<open>convert_hash_to_hex\<close> agrees with the shared one on hex hashes only:
  it passes a base32 hash through unconverted, so its result is not a 40-digit hash, and it
  refuses every raw 20-byte hash that the shared one converts.\<close>

theorem pool_convert_diverges:
  "(length hash = 40 \<and> list_all isxdigit hash \<longrightarrow> pool_convert_hash_to_hex hash = convert_hash_to_hex hash)
   \<and> (length hash = 32 \<longrightarrow> length (pool_convert_hash_to_hex hash) = 32
        \<and> pool_convert_hash_to_hex hash \<noteq> convert_hash_to_hex hash)
   \<and> (length hash = 20 \<longrightarrow> pool_convert_hash_to_hex hash = [] \<and> length (convert_hash_to_hex hash) = 40)"
proof -
  have "length (convert_hash_to_hex hash) \<noteq> 32"
    using convert_hash_to_hex_shape [of hash] by auto
  then have "pool_convert_hash_to_hex hash \<noteq> convert_hash_to_hex hash" if "length hash = 32"
    using that by (auto simp: pool_convert_hash_to_hex_def)
  then show ?thesis by (auto simp: pool_convert_hash_to_hex_def convert_hash_to_hex_def)
qed

theorem pool_convert_diverges_witness:
  "pool_convert_hash_to_hex (replicate 20 CHR ''x'') = [] \<and> length (convert_hash_to_hex (replicate 20 CHR ''x'')) = 40"
  using pool_convert_diverges [of "replicate 20 CHR ''x''"] by simp

end
