(* ===== verification/Std_Containers.thy ===== *)
theory Std_Containers
  imports Crawler_Prelude
begin

text \<open>
  \<^verbatim>\<open>std::map\<close>: an association list kept in strictly ascending key order, so that a range-based
  \<^verbatim>\<open>for\<close> over the map is a recursion over the list. The interface the components rely on is the
  locale \<open>std_map\<close>; its derived facts (sizes, key sets) are proved once from the laws and reach
  the components through the interpretation \<open>smap\<close>.
\<close>

section \<open>The interface\<close>

locale std_map =
  fixes empty :: "'m"
    and find :: "'m \<Rightarrow> 'k::linorder \<Rightarrow> 'v option"
    and update :: "'k \<Rightarrow> 'v \<Rightarrow> 'm \<Rightarrow> 'm"
    and erase :: "'k \<Rightarrow> 'm \<Rightarrow> 'm"
    and keys :: "'m \<Rightarrow> 'k list"
    and ok :: "'m \<Rightarrow> bool"
  assumes find_empty: "find empty = Map.empty"
    and find_update: "find (update k v m) = (find m)(k \<mapsto> v)"
    and find_erase: "find (erase k m) = (find m)(k := None)"
    and keys_sorted: "ok m \<Longrightarrow> sorted_wrt (<) (keys m)"
    and set_keys: "set (keys m) = dom (find m)"
    and ok_empty: "ok empty"
    and ok_update: "ok m \<Longrightarrow> ok (update k v m)"
    and ok_erase: "ok m \<Longrightarrow> ok (erase k m)"
begin

lemma keys_distinct: "ok m \<Longrightarrow> distinct (keys m)"
  using keys_sorted strict_sorted_iff by blast

lemma keys_eq_sorted_list: "ok m \<Longrightarrow> keys m = sorted_list_of_set (dom (find m))"
  using keys_sorted [of m] set_keys [of m]
  by (metis sorted_list_of_set.idem_if_sorted_distinct strict_sorted_iff)

lemma size_card: "ok m \<Longrightarrow> length (keys m) = card (dom (find m))"
  using keys_distinct set_keys distinct_card by metis

lemma finite_keys: "finite (dom (find m))"
  by (metis set_keys List.finite_set)

lemma size_update:
  "ok m \<Longrightarrow> length (keys (update k v m)) =
     (if find m k = None then Suc (length (keys m)) else length (keys m))"
  using finite_keys [of m]
  by (simp add: size_card ok_update find_update card_insert_if domIff)

lemma size_erase:
  "ok m \<Longrightarrow> length (keys (erase k m)) =
     (if find m k = None then length (keys m) else length (keys m) - 1)"
  using finite_keys [of m]
  by (simp add: size_card ok_erase find_erase domIff)

lemma size_erase_le: "ok m \<Longrightarrow> length (keys (erase k m)) \<le> length (keys m)"
  by (simp add: size_erase)

lemma foldl_erase: "find (foldl (\<lambda>m k. erase k m) m ks) = (find m) |` (- set ks)"
  by (induction ks arbitrary: m) (auto simp: find_erase restrict_map_def fun_eq_iff)

lemma ok_foldl_erase: "ok m \<Longrightarrow> ok (foldl (\<lambda>m k. erase k m) m ks)"
  by (induction ks arbitrary: m) (auto simp: ok_erase)

end

section \<open>The implementation\<close>

type_synonym ('k, 'v) smap = "('k \<times> 'v) list"

abbreviation smap_find :: "('k, 'v) smap \<Rightarrow> 'k \<Rightarrow> 'v option" where
  "smap_find m k \<equiv> map_of m k"

abbreviation smap_keys :: "('k, 'v) smap \<Rightarrow> 'k list" where
  "smap_keys m \<equiv> map fst m"

fun smap_update :: "'k::linorder \<Rightarrow> 'v \<Rightarrow> ('k, 'v) smap \<Rightarrow> ('k, 'v) smap" where
  "smap_update k v [] = [(k, v)]"
| "smap_update k v ((k', v') # m) =
     (if k < k' then (k, v) # (k', v') # m
      else if k = k' then (k, v) # m
      else (k', v') # smap_update k v m)"

definition smap_erase :: "'k \<Rightarrow> ('k, 'v) smap \<Rightarrow> ('k, 'v) smap" where
  "smap_erase k m = filter (\<lambda>p. fst p \<noteq> k) m"

definition smap_ok :: "('k::linorder, 'v) smap \<Rightarrow> bool" where
  "smap_ok m \<longleftrightarrow> sorted_wrt (<) (map fst m)"

lemma smap_update_map_of: "map_of (smap_update k v m) = (map_of m)(k \<mapsto> v)"
  by (induction k v m rule: smap_update.induct) auto

lemma smap_erase_map_of: "map_of (smap_erase k m) = (map_of m)(k := None)"
  by (induction m) (auto simp: smap_erase_def fun_eq_iff)

lemma smap_update_keys: "set (map fst (smap_update k v m)) = insert k (set (map fst m))"
  by (induction k v m rule: smap_update.induct) auto

lemma smap_ok_update: "smap_ok m \<Longrightarrow> smap_ok (smap_update k v m)"
proof (induction k v m rule: smap_update.induct)
  case (2 k v k' v' m)
  have "set (map fst (smap_update k v m)) = insert k (set (map fst m))"
    by (rule smap_update_keys)
  with 2 show ?case by (force simp: smap_ok_def)
qed (simp add: smap_ok_def)

lemma smap_ok_erase: "smap_ok m \<Longrightarrow> smap_ok (smap_erase k m)"
  unfolding smap_ok_def smap_erase_def
  by (induction m) auto

interpretation smap: std_map "[]" map_of smap_update smap_erase "map fst" smap_ok
  by unfold_locales
    (auto simp: smap_update_map_of smap_erase_map_of smap_ok_update smap_ok_erase dom_map_of_conv_image_fst,
     auto simp: smap_ok_def)

declare smap.find_update [simp, map_laws]
declare smap.find_erase [simp, map_laws]
declare smap.ok_update [simp, intro]
declare smap.ok_erase [simp, intro]
declare smap.ok_empty [simp]

lemma smap_size_update:
  "smap_ok m \<Longrightarrow> length (smap_update k v m) =
     (if map_of m k = None then Suc (length m) else length m)"
  using smap.size_update [of m k v] by simp

lemma smap_size_erase:
  "smap_ok m \<Longrightarrow> length (smap_erase k m) = (if map_of m k = None then length m else length m - 1)"
  using smap.size_erase [of m k] by simp

lemma smap_size_card: "smap_ok m \<Longrightarrow> length m = card (dom (map_of m))"
  using smap.size_card [of m] by simp

lemma smap_in_find: "smap_ok m \<Longrightarrow> (k, v) \<in> set m \<longleftrightarrow> map_of m k = Some v"
  using smap.keys_distinct [of m] by simp

lemma smap_eqI:
  assumes "smap_ok m" "smap_ok n" "map_of m = map_of n"
  shows "m = n"
proof -
  have keys: "map fst m = map fst n" using smap.keys_eq_sorted_list assms by metis
  have "map snd xs = map (the \<circ> map_of xs) (map fst xs)" if "smap_ok xs" for xs :: "('a \<times> 'b) list"
    using smap.keys_distinct [OF that] by (auto simp: map_of_is_SomeI)
  with assms keys have "map snd m = map snd n" by metis
  with keys show ?thesis by (metis zip_map_fst_snd)
qed

lemma smap_ok_filter [simp, intro]: "smap_ok m \<Longrightarrow> smap_ok (filter P m)"
  unfolding smap_ok_def by (induction m) auto

lemma smap_set_update:
  "smap_ok m \<Longrightarrow> set (smap_update k v m) = insert (k, v) {p \<in> set m. fst p \<noteq> k}"
  by (auto simp: smap_in_find split: if_splits)

end
