(* ===== verification/Metadata_Queue.thy ===== *)
theory Metadata_Queue
  imports Std_Containers "HOL-Library.Multiset"
begin

text \<open>
  \<^verbatim>\<open>QueueEntry\<close>, \<^verbatim>\<open>ActiveRequestTracker\<close> and \<^verbatim>\<open>MetadataRequestQueue\<close> of
  \<^verbatim>\<open>enhanced_metadata_manager.hpp\<close>. The queue is a vector searched for the highest priority, with a
  set of hashes beside it for the duplicate check; the tracker is a \<^verbatim>\<open>std::map\<close> of running requests.
  A call of \<^verbatim>\<open>steady_clock::now()\<close> is an argument \<open>now\<close>. The interface the downloader relies on is the
  locale \<open>priority_buffer\<close>, which the queue satisfies through the interpretation \<open>mq\<close>.
\<close>

section \<open>Definitions\<close>

record queue_entry =
  qe_hash :: string
  qe_priority :: int
  qe_source :: string
  qe_queued_time :: time

record request_queue =
  m_queue :: "queue_entry list"
  m_queue_set :: "string set"

definition empty_queue :: request_queue where
  "empty_queue = \<lparr>m_queue = [], m_queue_set = {}\<rparr>"

definition enqueue :: "time \<Rightarrow> string \<Rightarrow> int \<Rightarrow> string \<Rightarrow> request_queue \<Rightarrow> request_queue" where
  "enqueue now hash priority source q =
     (if hash \<in> m_queue_set q then q
      else \<lparr>m_queue = m_queue q @ [\<lparr>qe_hash = hash, qe_priority = priority, qe_source = source, qe_queued_time = now\<rparr>],
            m_queue_set = insert hash (m_queue_set q)\<rparr>)"

text \<open>
  The search loop of \<^verbatim>\<open>dequeue\<close>: \<open>i\<close> is the position of the iterator, \<open>bi\<close> the position and \<open>b\<close>
  the entry of \<^verbatim>\<open>best_it\<close>; only a strictly higher priority moves \<^verbatim>\<open>best_it\<close>.
\<close>

fun best_it :: "queue_entry \<Rightarrow> nat \<Rightarrow> nat \<Rightarrow> queue_entry list \<Rightarrow> nat" where
  "best_it b bi i [] = bi"
| "best_it b bi i (e # es) =
     (if qe_priority e > qe_priority b then best_it e i (Suc i) es else best_it b bi (Suc i) es)"

definition dequeue :: "request_queue \<Rightarrow> (queue_entry \<times> request_queue) option" where
  "dequeue q =
     (case m_queue q of
        [] \<Rightarrow> None
      | e # es \<Rightarrow>
          (let i = best_it e 0 0 (e # es); b = m_queue q ! i
           in Some (b, \<lparr>m_queue = take i (m_queue q) @ drop (Suc i) (m_queue q),
                        m_queue_set = m_queue_set q - {qe_hash b}\<rparr>)))"

definition queue_is_empty :: "request_queue \<Rightarrow> bool" where
  "queue_is_empty q \<longleftrightarrow> m_queue q = []"

definition queue_size :: "request_queue \<Rightarrow> nat" where
  "queue_size q = length (m_queue q)"

definition queue_contains :: "request_queue \<Rightarrow> string \<Rightarrow> bool" where
  "queue_contains q hash \<longleftrightarrow> hash \<in> m_queue_set q"

definition queue_clear :: "request_queue \<Rightarrow> request_queue" where
  "queue_clear q = empty_queue"

text \<open>\<^verbatim>\<open>duration_cast<seconds>\<close> of a nanosecond count: truncation towards zero.\<close>

definition duration_seconds :: "time \<Rightarrow> int" where
  "duration_seconds d = (if 0 \<le> d then d div 1000000000 else - (- d div 1000000000))"

record queue_stats =
  total_queued :: nat
  high_priority_count :: nat
  medium_priority_count :: nat
  low_priority_count :: nat
  oldest_queue_time :: int

fun stats_loop :: "queue_entry list \<Rightarrow> nat \<times> nat \<times> nat \<times> time \<Rightarrow> nat \<times> nat \<times> nat \<times> time" where
  "stats_loop [] acc = acc"
| "stats_loop (e # es) (h, m, l, oldest) =
     (let oldest' = (if qe_queued_time e < oldest then qe_queued_time e else oldest)
      in if qe_priority e \<ge> 3 then stats_loop es (Suc h, m, l, oldest')
         else if qe_priority e \<ge> 2 then stats_loop es (h, Suc m, l, oldest')
         else stats_loop es (h, m, Suc l, oldest'))"

definition queue_get_stats :: "time \<Rightarrow> request_queue \<Rightarrow> queue_stats" where
  "queue_get_stats now q =
     (case stats_loop (m_queue q) (0, 0, 0, now) of
        (h, m, l, oldest) \<Rightarrow>
          \<lparr>total_queued = length (m_queue q), high_priority_count = h, medium_priority_count = m,
           low_priority_count = l, oldest_queue_time = duration_seconds (now - oldest)\<rparr>)"

text \<open>The tracker of running requests; \<open>'h\<close> is the type of libtorrent's torrent handles.\<close>

record 'h request_info =
  ri_request_time :: time
  ri_priority :: int
  ri_source :: string
  ri_handle :: 'h

type_synonym 'h tracker = "(string, 'h request_info) smap"

definition add_request :: "string \<Rightarrow> time \<Rightarrow> int \<Rightarrow> string \<Rightarrow> 'h \<Rightarrow> 'h tracker \<Rightarrow> 'h tracker" where
  "add_request hash request_time priority source handle t =
     smap_update hash \<lparr>ri_request_time = request_time, ri_priority = priority, ri_source = source, ri_handle = handle\<rparr> t"

definition remove_request :: "string \<Rightarrow> 'h tracker \<Rightarrow> 'h tracker" where
  "remove_request hash t = smap_erase hash t"

definition has_request :: "'h tracker \<Rightarrow> string \<Rightarrow> bool" where
  "has_request t hash \<longleftrightarrow> smap_find t hash \<noteq> None"

definition tracker_timed_out :: "time \<Rightarrow> int \<Rightarrow> 'h tracker \<Rightarrow> string list" where
  "tracker_timed_out now timeout_seconds t =
     map fst (filter (\<lambda>p. duration_seconds (now - ri_request_time (snd p)) \<ge> timeout_seconds) t)"

definition tracker_active :: "'h tracker \<Rightarrow> nat" where
  "tracker_active t = length t"

definition tracker_available_slots :: "int \<Rightarrow> 'h tracker \<Rightarrow> int" where
  "tracker_available_slots max_concurrent t = max 0 (max_concurrent - int (length t))"

definition tracker_clear :: "'h tracker \<Rightarrow> 'h tracker" where
  "tracker_clear t = []"

section \<open>The search loop\<close>

text \<open>
  The loop returns the first position with the highest priority: every entry before it is
  strictly lower, every entry after it is not higher.
\<close>

lemma best_it_spec:
  assumes "bi < length pre" and "pre ! bi = b" and "length pre = i"
    and "\<forall>j < bi. qe_priority (pre ! j) < qe_priority b"
    and "\<forall>j < i. qe_priority (pre ! j) \<le> qe_priority b"
  shows "let k = best_it b bi i es; xs = pre @ es in
    k < length xs \<and> (\<forall>j < k. qe_priority (xs ! j) < qe_priority (xs ! k))
    \<and> (\<forall>j < length xs. qe_priority (xs ! j) \<le> qe_priority (xs ! k))"
  using assms
proof (induction es arbitrary: b bi i pre)
  case Nil
  then show ?case by (simp add: Let_def)
next
  case (Cons e es)
  show ?case
  proof (cases "qe_priority e > qe_priority b")
    case True
    have "let k = best_it e i (Suc i) es; xs = (pre @ [e]) @ es in
      k < length xs \<and> (\<forall>j < k. qe_priority (xs ! j) < qe_priority (xs ! k))
      \<and> (\<forall>j < length xs. qe_priority (xs ! j) \<le> qe_priority (xs ! k))"
      using Cons.prems True
      by (intro Cons.IH) (auto simp: nth_append less_Suc_eq intro: le_less_trans order.strict_implies_order)
    with True show ?thesis by (simp add: Let_def)
  next
    case False
    have "let k = best_it b bi (Suc i) es; xs = (pre @ [e]) @ es in
      k < length xs \<and> (\<forall>j < k. qe_priority (xs ! j) < qe_priority (xs ! k))
      \<and> (\<forall>j < length xs. qe_priority (xs ! j) \<le> qe_priority (xs ! k))"
      using Cons.prems False
      by (intro Cons.IH) (auto simp: nth_append less_Suc_eq)
    with False show ?thesis by (simp add: Let_def)
  qed
qed

lemma best_it_first_max:
  assumes "k = best_it e 0 0 (e # es)"
  shows "k < length (e # es)"
    and "\<forall>j < k. qe_priority ((e # es) ! j) < qe_priority ((e # es) ! k)"
    and "\<forall>x \<in> set (e # es). qe_priority x \<le> qe_priority ((e # es) ! k)"
proof -
  have k: "k = best_it e 0 1 es" using assms by simp
  have "let k = best_it e 0 1 es; xs = [e] @ es in
      k < length xs \<and> (\<forall>j < k. qe_priority (xs ! j) < qe_priority (xs ! k))
      \<and> (\<forall>j < length xs. qe_priority (xs ! j) \<le> qe_priority (xs ! k))"
    by (rule best_it_spec) auto
  then have *: "k < length (e # es)"
    "\<forall>j < k. qe_priority ((e # es) ! j) < qe_priority ((e # es) ! k)"
    "\<forall>j < length (e # es). qe_priority ((e # es) ! j) \<le> qe_priority ((e # es) ! k)"
    by (simp_all add: Let_def k del: best_it.simps)
  then show "k < length (e # es)"
    "\<forall>j < k. qe_priority ((e # es) ! j) < qe_priority ((e # es) ! k)" by simp_all
  show "\<forall>x \<in> set (e # es). qe_priority x \<le> qe_priority ((e # es) ! k)"
    using *(3) by (metis in_set_conv_nth)
qed

lemma dequeue_None: "dequeue q = None \<longleftrightarrow> m_queue q = []"
  by (auto simp: dequeue_def Let_def split: list.splits)

text \<open>What \<^verbatim>\<open>dequeue\<close> takes out: the first of the entries with the highest priority.\<close>

lemma dequeue_SomeE:
  assumes "dequeue q = Some (b, q')"
  obtains xs ys where "m_queue q = xs @ b # ys" and "m_queue q' = xs @ ys"
    and "m_queue_set q' = m_queue_set q - {qe_hash b}"
    and "\<forall>x \<in> set xs. qe_priority x < qe_priority b"
    and "\<forall>y \<in> set ys. qe_priority y \<le> qe_priority b"
proof -
  from assms obtain e es where q: "m_queue q = e # es"
    by (cases "m_queue q") (auto simp: dequeue_def)
  define k where "k = best_it e 0 0 (e # es)"
  note bm = best_it_first_max [OF k_def]
  have b: "b = m_queue q ! k" and q': "m_queue q' = take k (m_queue q) @ drop (Suc k) (m_queue q)"
    and s: "m_queue_set q' = m_queue_set q - {qe_hash b}"
    using assms by (auto simp: dequeue_def q Let_def k_def simp del: best_it.simps)
  show ?thesis
  proof (rule that [of "take k (m_queue q)" "drop (Suc k) (m_queue q)"])
    show "m_queue q = take k (m_queue q) @ b # drop (Suc k) (m_queue q)"
      using bm(1) by (simp add: q b id_take_nth_drop [symmetric] del: take_Suc_Cons drop_Suc_Cons)
    show "\<forall>x \<in> set (take k (m_queue q)). qe_priority x < qe_priority b"
      using bm(1,2) by (auto simp: in_set_conv_nth q b)
    show "\<forall>y \<in> set (drop (Suc k) (m_queue q)). qe_priority y \<le> qe_priority b"
      using bm(3) in_set_dropD by (fastforce simp: q b)
  qed (fact q' s)+
qed

section \<open>The interface of the queue\<close>

text \<open>
  What the downloader relies on: \<open>push\<close> adds an entry unless its key is present, \<open>pop\<close> takes out
  one entry of maximal priority, and keys stay distinct.
\<close>

locale priority_buffer =
  fixes entries :: "'q \<Rightarrow> 'e list"
    and push :: "'e \<Rightarrow> 'q \<Rightarrow> 'q"
    and pop :: "'q \<Rightarrow> ('e \<times> 'q) option"
    and key :: "'e \<Rightarrow> 'k"
    and prio :: "'e \<Rightarrow> int"
    and ok :: "'q \<Rightarrow> bool"
  assumes pop_None: "pop q = None \<longleftrightarrow> entries q = []"
    and pop_Some: "pop q = Some (e, q') \<Longrightarrow> mset (entries q) = add_mset e (mset (entries q'))"
    and pop_max: "pop q = Some (e, q') \<Longrightarrow> x \<in> set (entries q) \<Longrightarrow> prio x \<le> prio e"
    and push_entries: "ok q \<Longrightarrow> entries (push e q) =
      (if key e \<in> key ` set (entries q) then entries q else entries q @ [e])"
    and ok_push: "ok q \<Longrightarrow> ok (push e q)"
    and ok_pop: "ok q \<Longrightarrow> pop q = Some (e, q') \<Longrightarrow> ok q'"
    and ok_distinct: "ok q \<Longrightarrow> distinct (map key (entries q))"
begin

lemma pop_size: "pop q = Some (e, q') \<Longrightarrow> length (entries q) = Suc (length (entries q'))"
  using pop_Some [of q e q'] by (metis size_add_mset size_mset)

lemma pop_set: "pop q = Some (e, q') \<Longrightarrow> set (entries q) = insert e (set (entries q'))"
  using pop_Some [of q e q'] by (metis set_mset_add_mset_insert set_mset_mset)

lemma pop_weight:
  "pop q = Some (e, q') \<Longrightarrow>
   sum_list (map w (entries q)) = (w e :: nat) + sum_list (map w (entries q'))"
proof -
  assume "pop q = Some (e, q')"
  then have "mset (map w (entries q)) = mset (w e # map w (entries q'))"
    using pop_Some [of q e q'] by simp
  then show ?thesis by (metis sum_mset_sum_list sum_list.Cons)
qed

lemma pop_key_fresh:
  assumes "ok q" and "pop q = Some (e, q')"
  shows "key e \<notin> key ` set (entries q')"
proof -
  have "distinct (map key (entries q))" using assms(1) by (rule ok_distinct)
  moreover have "mset (map key (entries q)) = add_mset (key e) (mset (map key (entries q')))"
    using pop_Some [OF assms(2)] by simp
  ultimately have "distinct (key e # map key (entries q'))"
    by (metis distinct_count_atmost_1 mset.simps(2) set_mset_mset)
  then show ?thesis by simp
qed

lemma pop_keys:
  assumes "ok q" and "pop q = Some (e, q')"
  shows "key ` set (entries q') = key ` set (entries q) - {key e}"
  using pop_key_fresh [OF assms] pop_set [OF assms(2)] by auto

lemma push_keys: "ok q \<Longrightarrow> key ` set (entries (push e q)) = insert (key e) (key ` set (entries q))"
  by (auto simp: push_entries)

lemma repush_entries:
  assumes "ok q" and "pop q = Some (e, q')" and "key e' = key e"
  shows "entries (push e' q') = entries q' @ [e']"
  using push_entries [OF ok_pop [OF assms(1,2)], of e'] pop_key_fresh [OF assms(1,2)] assms(3) by simp

end

section \<open>The queue satisfies its interface\<close>

definition queue_ok :: "request_queue \<Rightarrow> bool" where
  "queue_ok q \<longleftrightarrow> distinct (map qe_hash (m_queue q)) \<and> m_queue_set q = set (map qe_hash (m_queue q))"

definition enqueue_entry :: "queue_entry \<Rightarrow> request_queue \<Rightarrow> request_queue" where
  "enqueue_entry e q = enqueue (qe_queued_time e) (qe_hash e) (qe_priority e) (qe_source e) q"

lemma queue_ok_empty [simp]: "queue_ok empty_queue"
  by (simp add: queue_ok_def empty_queue_def)

lemma queue_ok_enqueue [simp, intro]: "queue_ok q \<Longrightarrow> queue_ok (enqueue now h p s q)"
  by (auto simp: queue_ok_def enqueue_def)

lemma queue_ok_dequeue:
  assumes "queue_ok q" and "dequeue q = Some (b, q')"
  shows "queue_ok q'"
  using assms(2)
proof (rule dequeue_SomeE)
  fix xs ys
  assume "m_queue q = xs @ b # ys" "m_queue q' = xs @ ys" "m_queue_set q' = m_queue_set q - {qe_hash b}"
  with assms(1) show "queue_ok q'" by (auto simp: queue_ok_def)
qed

interpretation mq: priority_buffer m_queue enqueue_entry dequeue qe_hash qe_priority queue_ok
proof unfold_locales
  fix q q' :: request_queue and e x :: queue_entry
  show "dequeue q = None \<longleftrightarrow> m_queue q = []" by (rule dequeue_None)
  show "mset (m_queue q) = add_mset e (mset (m_queue q'))" if "dequeue q = Some (e, q')"
    using that by (elim dequeue_SomeE) simp
  show "qe_priority x \<le> qe_priority e" if "dequeue q = Some (e, q')" "x \<in> set (m_queue q)"
    using that(1)
  proof (rule dequeue_SomeE)
    fix xs ys
    assume "m_queue q = xs @ e # ys" "\<forall>x \<in> set xs. qe_priority x < qe_priority e"
      "\<forall>y \<in> set ys. qe_priority y \<le> qe_priority e"
    with that(2) show "qe_priority x \<le> qe_priority e" by force
  qed
  show "m_queue (enqueue_entry e q) =
      (if qe_hash e \<in> qe_hash ` set (m_queue q) then m_queue q else m_queue q @ [e])" if "queue_ok q"
    using that by (simp add: queue_ok_def enqueue_entry_def enqueue_def)
  show "queue_ok (enqueue_entry e q)" if "queue_ok q"
    using that by (simp add: enqueue_entry_def)
  show "queue_ok q'" if "queue_ok q" "dequeue q = Some (e, q')"
    using that by (rule queue_ok_dequeue)
  show "distinct (map qe_hash (m_queue q))" if "queue_ok q"
    using that by (simp add: queue_ok_def)
qed

lemma enqueue_as_entry:
  "enqueue now h p s q = enqueue_entry \<lparr>qe_hash = h, qe_priority = p, qe_source = s, qe_queued_time = now\<rparr> q"
  by (simp add: enqueue_entry_def)

lemma queue_contains_iff: "queue_ok q \<Longrightarrow> queue_contains q h \<longleftrightarrow> h \<in> qe_hash ` set (m_queue q)"
  by (simp add: queue_ok_def queue_contains_def)

section \<open>Draining the queue is a stable sort by priority\<close>

text \<open>Calling \<^verbatim>\<open>dequeue\<close> until it returns false, at most \<open>n\<close> times.\<close>

fun dequeue_all :: "nat \<Rightarrow> request_queue \<Rightarrow> queue_entry list" where
  "dequeue_all 0 q = []"
| "dequeue_all (Suc n) q =
     (case dequeue q of None \<Rightarrow> [] | Some (e, q') \<Rightarrow> e # dequeue_all n q')"

lemma sort_key_min_first:
  fixes f :: "'a \<Rightarrow> int"
  assumes "\<forall>x \<in> set xs. f b < f x" and "\<forall>y \<in> set ys. f b \<le> f y"
  shows "sort_key f (xs @ b # ys) = b # sort_key f (xs @ ys)"
proof (rule properties_for_sort_key)
  show "mset (b # sort_key f (xs @ ys)) = mset (xs @ b # ys)" by simp
  show "sorted (map f (b # sort_key f (xs @ ys)))"
    using assms by (auto intro: order.strict_implies_order)
  fix k
  have "filter (\<lambda>x. f k = f x) (sort_key f (xs @ ys)) = filter (\<lambda>x. f k = f x) (xs @ ys)"
    using sort_key_stable [of f "f k" "xs @ ys"] by (simp add: eq_commute)
  moreover have "filter (\<lambda>x. f k = f x) xs = []" if "f k = f b"
    using assms(1) that by (auto simp: filter_empty_conv)
  ultimately show "filter (\<lambda>x. f k = f x) (b # sort_key f (xs @ ys)) = filter (\<lambda>x. f k = f x) (xs @ b # ys)"
    by (cases "f k = f b") simp_all
qed

lemma dequeue_all_sort:
  "length (m_queue q) \<le> n \<Longrightarrow> dequeue_all n q = sort_key (\<lambda>e. - qe_priority e) (m_queue q)"
proof (induction n arbitrary: q)
  case 0
  then show ?case by simp
next
  case (Suc n)
  show ?case
  proof (cases "dequeue q")
    case None
    then have "m_queue q = []" by (simp only: dequeue_None)
    with None show ?thesis by simp
  next
    case (Some bq)
    obtain b q' where bq: "bq = (b, q')" by (cases bq)
    with Some have d: "dequeue q = Some (b, q')" by simp
    then show ?thesis
    proof (rule dequeue_SomeE)
      fix xs ys
      assume q: "m_queue q = xs @ b # ys" and q': "m_queue q' = xs @ ys"
        and m: "\<forall>x \<in> set xs. qe_priority x < qe_priority b" "\<forall>y \<in> set ys. qe_priority y \<le> qe_priority b"
      have "length (m_queue q') \<le> n" using Suc.prems q q' by simp
      then have "dequeue_all n q' = sort_key (\<lambda>e. - qe_priority e) (xs @ ys)"
        using Suc.IH [of q'] q' by simp
      moreover have "sort_key (\<lambda>e. - qe_priority e) (xs @ b # ys) = b # sort_key (\<lambda>e. - qe_priority e) (xs @ ys)"
        using m by (intro sort_key_min_first) auto
      ultimately show "dequeue_all (Suc n) q = sort_key (\<lambda>e. - qe_priority e) (m_queue q)"
        using d q by simp
    qed
  qed
qed

section \<open>Queue statistics and the tracker\<close>

lemma stats_loop_counts:
  "stats_loop es (h, m, l, t) =
     (h + length (filter (\<lambda>e. qe_priority e \<ge> 3) es),
      m + length (filter (\<lambda>e. qe_priority e = 2) es),
      l + length (filter (\<lambda>e. qe_priority e < 2) es),
      Min (insert t (qe_queued_time ` set es)))"
proof (induction es arbitrary: h m l t)
  case Nil
  then show ?case by simp
next
  case (Cons e es)
  have "Min (insert (if qe_queued_time e < t then qe_queued_time e else t) (qe_queued_time ` set es))
      = Min (insert t (insert (qe_queued_time e) (qe_queued_time ` set es)))"
    by (cases "set es = {}") (auto simp: min_def)
  with Cons.IH show ?case by (auto simp: Let_def)
qed

lemma tracker_timed_out_set:
  assumes "smap_ok t"
  shows "set (tracker_timed_out now to t) =
    {h. \<exists>i. smap_find t h = Some i \<and> duration_seconds (now - ri_request_time i) \<ge> to}"
proof -
  have "set (tracker_timed_out now to t) =
      {h. \<exists>i. (h, i) \<in> set t \<and> duration_seconds (now - ri_request_time i) \<ge> to}"
    by (force simp: tracker_timed_out_def)
  then show ?thesis by (simp add: smap_in_find [OF assms])
qed

lemma smap_ok_add_request [simp, intro]: "smap_ok t \<Longrightarrow> smap_ok (add_request h ti p s hn t)"
  by (simp add: add_request_def)

lemma smap_ok_remove_request [simp, intro]: "smap_ok t \<Longrightarrow> smap_ok (remove_request h t)"
  by (simp add: remove_request_def)

lemma has_request_add [simp]: "has_request (add_request h ti p s hn t) x \<longleftrightarrow> x = h \<or> has_request t x"
  by (simp add: has_request_def add_request_def)

lemma has_request_remove [simp]: "has_request (remove_request h t) x \<longleftrightarrow> x \<noteq> h \<and> has_request t x"
  by (simp add: has_request_def remove_request_def)

lemma tracker_active_add:
  "smap_ok t \<Longrightarrow> tracker_active (add_request h ti p s hn t) \<le> Suc (tracker_active t)"
  by (simp add: tracker_active_def add_request_def smap_size_update)

lemma tracker_active_add_new:
  "smap_ok t \<Longrightarrow> \<not> has_request t h \<Longrightarrow> tracker_active (add_request h ti p s hn t) = Suc (tracker_active t)"
  by (simp add: tracker_active_def add_request_def has_request_def smap_size_update)

lemma tracker_active_remove: "smap_ok t \<Longrightarrow> tracker_active (remove_request h t) \<le> tracker_active t"
  by (simp add: tracker_active_def remove_request_def smap_size_erase)

section \<open>Properties\<close>

text \<open>C9: Calling \<^verbatim>\<open>dequeue\<close> until the queue is empty returns its entries sorted by descending
  priority, entries of equal priority in the order they were queued.\<close>

theorem dequeue_stable_priority_order:
  "dequeue_all (queue_size q) q = sort_key (\<lambda>e. - qe_priority e) (m_queue q)"
  by (rule dequeue_all_sort) (simp add: queue_size_def)

text \<open>The queue statistics partition the queue into the three priority classes, and the age
  reported is that of the oldest entry.\<close>

theorem queue_stats_partition:
  "let s = queue_get_stats now q in
     total_queued s = high_priority_count s + medium_priority_count s + low_priority_count s
     \<and> high_priority_count s = length (filter (\<lambda>e. 3 \<le> qe_priority e) (m_queue q))
     \<and> oldest_queue_time s = duration_seconds (now - Min (insert now (qe_queued_time ` set (m_queue q))))"
proof -
  have "length es = length (filter (\<lambda>e. 3 \<le> qe_priority e) es) + length (filter (\<lambda>e. qe_priority e = 2) es)
      + length (filter (\<lambda>e. qe_priority e < 2) es)" for es
    by (induction es) auto
  then show ?thesis by (simp add: queue_get_stats_def stats_loop_counts Let_def)
qed

end
