(* ===== verification/External_World.thy ===== *)
theory External_World
  imports Crawler_Prelude
begin

text \<open>
  What the crawler calls outside its own sources: libtorrent's session, the steady clock and the
  random number generators. They are parameters of the model. Every effect acts on a state \<open>'w\<close>
  of the outside world that the model threads through and never inspects; \<open>'p\<close> is what
  libtorrent's magnet parser produces, \<open>'h\<close> a torrent handle. A call that may throw returns the
  exception as a value. The laws a theorem needs of these calls are hypotheses of that theorem.
\<close>

text \<open>A clock alone, for the classes that use nothing else of the outside world.\<close>

type_synonym 'w clock = "'w \<Rightarrow> time \<times> 'w"

text \<open>A steady clock does not run backwards; \<open>later\<close> compares what it shows in two worlds.\<close>

definition mono_clock :: "'w clock \<Rightarrow> bool" where
  "mono_clock clk \<longleftrightarrow> (\<forall>w. fst (clk w) \<le> fst (clk (snd (clk w))))"

definition later :: "'w clock \<Rightarrow> 'w \<Rightarrow> 'w \<Rightarrow> bool" where
  "later clk w w' \<longleftrightarrow> (mono_clock clk \<longrightarrow> fst (clk w) \<le> fst (clk w'))"

lemma later_refl [simp, intro]: "later clk w w"
  by (simp add: later_def)

lemma later_clock [simp, intro]: "later clk w (snd (clk w))"
  by (simp add: later_def mono_clock_def)

lemma later_trans [trans]: "later clk u v \<Longrightarrow> later clk v w \<Longrightarrow> later clk u w"
  by (auto simp: later_def)

lemma mono_clockD: "mono_clock clk \<Longrightarrow> fst (clk w) \<le> fst (clk (snd (clk w)))"
  by (simp add: mono_clock_def)

datatype torrent_flag = Auto_managed | Duplicate_is_error | Seed_mode

record 'p add_torrent_params =
  atp_parsed :: 'p
  atp_save_path :: string
  atp_flags :: "torrent_flag set"

text \<open>\<^verbatim>\<open>lt::entry\<close>, as far as the crawler builds one: strings and dictionaries.\<close>

datatype lt_entry = Entry_string string | Entry_dict "(string \<times> lt_entry) list"

record ('w, 'p, 'h) libtorrent =
  steady_now :: "'w \<Rightarrow> time \<times> 'w"
  random_byte :: "'w \<Rightarrow> nat \<times> 'w"
  parse_magnet_uri :: "string \<Rightarrow> string + 'p add_torrent_params"
  add_torrent :: "'p add_torrent_params \<Rightarrow> 'w \<Rightarrow> (exn + 'h) \<times> 'w"
  handle_is_valid :: "'h \<Rightarrow> 'w \<Rightarrow> bool"
  remove_torrent :: "'h \<Rightarrow> 'w \<Rightarrow> exn option \<times> 'w"
  dht_get_peers :: "string \<Rightarrow> 'w \<Rightarrow> exn option \<times> 'w"
  dht_get_item :: "string \<Rightarrow> 'w \<Rightarrow> exn option \<times> 'w"
  dht_put_item :: "lt_entry \<Rightarrow> 'w \<Rightarrow> exn option \<times> 'w"

section \<open>Conversions the code writes as casts\<close>

text \<open>\<^verbatim>\<open>static_cast<size_t>\<close> of an \<^verbatim>\<open>int\<close>, and \<^verbatim>\<open>int\<close> division (truncating).\<close>

definition to_size_t :: "int \<Rightarrow> nat" where
  "to_size_t i = nat (i mod 2 ^ 64)"

definition int_div :: "int \<Rightarrow> int \<Rightarrow> int" where
  "int_div a b = sgn a * sgn b * (\<bar>a\<bar> div \<bar>b\<bar>)"

lemma to_size_t_nonneg: "0 \<le> i \<Longrightarrow> i < 2 ^ 64 \<Longrightarrow> to_size_t i = nat i"
  by (simp add: to_size_t_def)

text \<open>A string of \<open>n\<close> random bytes, one generator call per byte.\<close>

fun random_bytes :: "('w, 'p, 'h) libtorrent \<Rightarrow> nat \<Rightarrow> 'w \<Rightarrow> string \<times> 'w" where
  "random_bytes lt 0 w = ([], w)"
| "random_bytes lt (Suc n) w =
     (let (b, w1) = random_byte lt w; (bs, w2) = random_bytes lt n w1
      in (char_of (b mod 256) # bs, w2))"

lemma length_random_bytes: "length (fst (random_bytes lt n w)) = n"
  by (induction n arbitrary: w) (auto simp: Let_def split: prod.splits, metis fst_conv)

section \<open>A concrete world for the witnesses\<close>

text \<open>
  A session that accepts every torrent, a clock that advances by one second per reading and a
  generator that counts. The state is the clock (in nanoseconds), the list of added torrents and
  the list of hashes asked for. It instantiates the parameters where a theorem has hypotheses
  about them.
\<close>

record demo_world =
  dw_clock :: time
  dw_added :: "string list"
  dw_asked :: "string list"

definition demo_lt :: "(demo_world, string, string) libtorrent" where
  "demo_lt = \<lparr>
     steady_now = (\<lambda>w. (dw_clock w, w\<lparr>dw_clock := dw_clock w + 1000000000\<rparr>)),
     random_byte = (\<lambda>w. (nat (dw_clock w mod 256), w\<lparr>dw_clock := dw_clock w + 1\<rparr>)),
     parse_magnet_uri = (\<lambda>s. Inr \<lparr>atp_parsed = s, atp_save_path = [], atp_flags = {}\<rparr>),
     add_torrent = (\<lambda>p w. if atp_parsed p \<in> set (dw_added w)
        then (Inl (Std_exception ''torrent already exists in session''), w)
        else (Inr (atp_parsed p), w\<lparr>dw_added := atp_parsed p # dw_added w\<rparr>)),
     handle_is_valid = (\<lambda>h w. h \<in> set (dw_added w)),
     remove_torrent = (\<lambda>h w. (None, w\<lparr>dw_added := removeAll h (dw_added w)\<rparr>)),
     dht_get_peers = (\<lambda>s w. (None, w\<lparr>dw_asked := s # dw_asked w\<rparr>)),
     dht_get_item = (\<lambda>s w. (None, w\<lparr>dw_asked := s # dw_asked w\<rparr>)),
     dht_put_item = (\<lambda>e w. (None, w))\<rparr>"

definition demo_start :: demo_world where
  "demo_start = \<lparr>dw_clock = 0, dw_added = [], dw_asked = []\<rparr>"

definition demo_tick :: "demo_world clock" where
  "demo_tick = steady_now demo_lt"

lemma demo_tick_mono: "mono_clock demo_tick"
  by (simp add: mono_clock_def demo_tick_def demo_lt_def)

end
