(* ===== verification/State_Machine.thy ===== *)
theory State_Machine
  imports Main
begin

text \<open>
  Reachability in a state machine given by its initial states and its step relation, and the
  interface \<open>invariant_system\<close>: a predicate that the initial states satisfy and every step keeps
  holds in every reachable state. Each concurrent component of the crawler is an instance.
\<close>

inductive reachable :: "('s \<Rightarrow> bool) \<Rightarrow> ('s \<Rightarrow> 's \<Rightarrow> bool) \<Rightarrow> 's \<Rightarrow> bool"
  for init :: "'s \<Rightarrow> bool" and step :: "'s \<Rightarrow> 's \<Rightarrow> bool" where
  start: "init s \<Longrightarrow> reachable init step s"
| move: "reachable init step s \<Longrightarrow> step s t \<Longrightarrow> reachable init step t"

lemma two_steps: "r x y \<Longrightarrow> r y z \<Longrightarrow> r\<^sup>*\<^sup>* x z"
  by (rule rtranclp.rtrancl_into_rtrancl [OF r_into_rtranclp])

locale invariant_system =
  fixes init :: "'s \<Rightarrow> bool" and step :: "'s \<Rightarrow> 's \<Rightarrow> bool" and inv :: "'s \<Rightarrow> bool"
  assumes inv_init: "init s \<Longrightarrow> inv s"
    and inv_step: "inv s \<Longrightarrow> step s t \<Longrightarrow> inv t"
begin

lemma inv_reachable: "reachable init step s \<Longrightarrow> inv s"
  by (induction rule: reachable.induct) (auto intro: inv_init inv_step)

lemma inv_steps: "step\<^sup>*\<^sup>* s t \<Longrightarrow> inv s \<Longrightarrow> inv t"
  by (induction rule: rtranclp_induct) (auto intro: inv_step)

end

text \<open>
  A machine that is being stopped: while the stop flag is set every step uses up some of a
  measure, some step is possible until the machine is finished, and none afterwards. Then no run
  is longer than the measure of its first state, a run that cannot continue has finished, and
  some run finishes. The two thread pools of the crawler are instances.
\<close>

locale draining_system =
  fixes step :: "'s \<Rightarrow> 's \<Rightarrow> bool" and stopping :: "'s \<Rightarrow> bool" and work :: "'s \<Rightarrow> nat" and finished :: "'s \<Rightarrow> bool"
  assumes drain_step: "step s t \<Longrightarrow> stopping s \<Longrightarrow> stopping t \<and> work t < work s"
    and drain_enabled: "stopping s \<Longrightarrow> \<not> finished s \<Longrightarrow> \<exists>t. step s t"
    and drain_finished: "finished s \<Longrightarrow> \<not> step s t"
begin

lemma drain_bounded: "(step ^^ n) s t \<Longrightarrow> stopping s \<Longrightarrow> stopping t \<and> n + work t \<le> work s"
proof (induction n arbitrary: t)
  case (Suc n)
  then obtain u where "(step ^^ n) s u" "step u t" by (auto elim: relpowp_Suc_E)
  with Suc drain_step [of u t] show ?case by force
qed simp

lemma drain_stuck_iff: "stopping s \<Longrightarrow> (\<nexists>t. step s t) \<longleftrightarrow> finished s"
  using drain_enabled drain_finished by blast

lemma drain_completes: "stopping s \<Longrightarrow> \<exists>t. step\<^sup>*\<^sup>* s t \<and> finished t"
proof (induction "work s" arbitrary: s rule: less_induct)
  case less
  show ?case
  proof (cases "finished s")
    case False
    with less.prems drain_enabled obtain u where u: "step s u" by blast
    with drain_step less.prems have "stopping u" "work u < work s" by blast+
    with less.hyps u show ?thesis by (meson converse_rtranclp_into_rtranclp)
  qed blast
qed

end

end
