(* ===== verification/Metadata_Downloader.thy ===== *)
theory Metadata_Downloader
  imports Hash_Format Metadata_Queue External_World State_Machine
begin

text \<open>
  \<^verbatim>\<open>PersistentMetadataDownloader\<close> and \<^verbatim>\<open>MetadataManager\<close> of \<^verbatim>\<open>enhanced_metadata_manager.hpp\<close>: requests
  wait in the priority queue, \<^verbatim>\<open>process_queue\<close> moves them to the tracker of running requests up to
  a limit, received or timed out requests leave the tracker. Log messages are not modelled.
\<close>

section \<open>Definitions\<close>

record metadata_manager =
  mm_total_requests :: int
  mm_successful_requests :: int
  mm_failed_requests :: int
  mm_timeout_requests :: int

definition new_metadata_manager :: metadata_manager where
  "new_metadata_manager = \<lparr>mm_total_requests = 0, mm_successful_requests = 0, mm_failed_requests = 0, mm_timeout_requests = 0\<rparr>"

definition log_metadata_request :: "metadata_manager \<Rightarrow> metadata_manager" where
  "log_metadata_request m = m\<lparr>mm_total_requests := mm_total_requests m + 1\<rparr>"

definition log_metadata_success :: "metadata_manager \<Rightarrow> metadata_manager" where
  "log_metadata_success m = m\<lparr>mm_successful_requests := mm_successful_requests m + 1\<rparr>"

definition log_metadata_failure :: "metadata_manager \<Rightarrow> metadata_manager" where
  "log_metadata_failure m = m\<lparr>mm_failed_requests := mm_failed_requests m + 1\<rparr>"

definition log_metadata_timeout :: "metadata_manager \<Rightarrow> metadata_manager" where
  "log_metadata_timeout m = m\<lparr>mm_timeout_requests := mm_timeout_requests m + 1\<rparr>"

text \<open>\<open>dl_session\<close> says whether the session pointer is set.\<close>

record 'h downloader =
  dl_session :: bool
  dl_active_tracker :: "'h tracker"
  dl_queue :: request_queue
  dl_max_concurrent_requests :: int
  dl_request_timeout_seconds :: int
  dl_success_count :: int
  dl_failure_count :: int
  dl_timeout_count :: int
  dl_total_queued :: int
  dl_total_processed :: int

definition new_downloader :: "bool \<Rightarrow> 'h downloader" where
  "new_downloader session = \<lparr>dl_session = session, dl_active_tracker = [], dl_queue = empty_queue,
     dl_max_concurrent_requests = 1000, dl_request_timeout_seconds = 20, dl_success_count = 0,
     dl_failure_count = 0, dl_timeout_count = 0, dl_total_queued = 0, dl_total_processed = 0\<rparr>"

definition magnet_prefix :: string where
  "magnet_prefix = ''magnet:?xt=urn:btih:''"

definition metadata_params :: "'p add_torrent_params \<Rightarrow> 'p add_torrent_params" where
  "metadata_params params = params\<lparr>atp_save_path := ''.'',
     atp_flags := insert Seed_mode (insert Duplicate_is_error (insert Auto_managed (atp_flags params)))\<rparr>"

definition process_single_request ::
  "('w, 'p, 'h) libtorrent \<Rightarrow> string \<Rightarrow> int \<Rightarrow> string \<Rightarrow> 'h downloader \<Rightarrow> 'w \<Rightarrow> bool \<times> 'h downloader \<times> 'w" where
  "process_single_request lt info_hash priority source d w =
     (let hex_hash = convert_hash_to_hex info_hash
      in if hex_hash = [] then (False, d, w)
         else case parse_magnet_uri lt (magnet_prefix @ hex_hash) of
             Inl ec \<Rightarrow> (False, d, w)
           | Inr params \<Rightarrow>
               (case add_torrent lt (metadata_params params) w of
                  (Inl e, w1) \<Rightarrow> (False, d, w1)
                | (Inr handle, w1) \<Rightarrow>
                    if handle_is_valid lt handle w1 then
                      (let (now, w2) = steady_now lt w1
                       in (True, d\<lparr>dl_active_tracker := add_request info_hash now priority source handle (dl_active_tracker d)\<rparr>, w2))
                    else (False, d, w1)))"

text \<open>
  The loop of \<^verbatim>\<open>process_queue\<close>: one iteration (\<open>None\<close> when the loop is left), then the loop.
  \<open>n\<close> is \<^verbatim>\<open>processed_this_round\<close>.
\<close>

definition process_queue_step ::
  "('w, 'p, 'h) libtorrent \<Rightarrow> nat \<Rightarrow> 'h downloader \<Rightarrow> 'w \<Rightarrow> (nat \<times> 'h downloader \<times> 'w) option" where
  "process_queue_step lt n d w =
     (if \<not> queue_is_empty (dl_queue d)
         \<and> tracker_active (dl_active_tracker d) < to_size_t (dl_max_concurrent_requests d)
         \<and> n < 50
      then case dequeue (dl_queue d) of
          None \<Rightarrow> None
        | Some (e, q) \<Rightarrow>
            (case process_single_request lt (qe_hash e) (qe_priority e) (qe_source e) (d\<lparr>dl_queue := q\<rparr>) w of
               (ok, d1, w1) \<Rightarrow>
                 if ok then Some (Suc n, d1\<lparr>dl_total_processed := dl_total_processed d1 + 1\<rparr>, w1)
                 else if qe_priority e > 1 then
                   (let (now, w2) = steady_now lt w1
                    in Some (n, d1\<lparr>dl_queue := enqueue now (qe_hash e) (qe_priority e - 1) (qe_source e @ ''_RETRY'') (dl_queue d1)\<rparr>, w2))
                 else Some (n, d1\<lparr>dl_failure_count := dl_failure_count d1 + 1\<rparr>, w1))
      else None)"

definition queue_weight :: "request_queue \<Rightarrow> nat" where
  "queue_weight q = (\<Sum>e\<leftarrow>m_queue q. max 1 (nat (qe_priority e)))"

text \<open>A request that starts is added to the tracker; one that fails leaves the downloader alone.\<close>

lemma process_single_request_cases:
  assumes "process_single_request lt h p s d w = (ok, d', w')"
  obtains (started) now handle where "ok" "convert_hash_to_hex h \<noteq> []"
      "d' = d\<lparr>dl_active_tracker := add_request h now p s handle (dl_active_tracker d)\<rparr>"
  | (failed) "\<not> ok" "d' = d"
  using assms
  by (auto simp: process_single_request_def Let_def split: if_splits sum.splits prod.splits)

lemma queue_weight_enqueue:
  "queue_weight (enqueue now h p s q) \<le> queue_weight q + max 1 (nat p)"
  by (simp add: queue_weight_def enqueue_def)

text \<open>One iteration: the entry taken out is started, queued again with one less, or dropped.\<close>

lemma process_queue_step_cases:
  assumes "process_queue_step lt n d w = Some (n', d', w')"
  obtains e q where "dequeue (dl_queue d) = Some (e, q)"
    and "tracker_active (dl_active_tracker d) < to_size_t (dl_max_concurrent_requests d)" and "n < 50"
    and "(\<exists>now handle. n' = Suc n \<and> convert_hash_to_hex (qe_hash e) \<noteq> [] \<and>
            d' = d\<lparr>dl_queue := q,
                   dl_active_tracker := add_request (qe_hash e) now (qe_priority e) (qe_source e) handle (dl_active_tracker d),
                   dl_total_processed := dl_total_processed d + 1\<rparr>)
         \<or> (\<exists>now. n' = n \<and> qe_priority e > 1 \<and>
              d' = d\<lparr>dl_queue := enqueue now (qe_hash e) (qe_priority e - 1) (qe_source e @ ''_RETRY'') q\<rparr>)
         \<or> (n' = n \<and> qe_priority e \<le> 1 \<and> d' = d\<lparr>dl_queue := q, dl_failure_count := dl_failure_count d + 1\<rparr>)"
proof -
  from assms obtain e q where deq: "dequeue (dl_queue d) = Some (e, q)"
    and g: "tracker_active (dl_active_tracker d) < to_size_t (dl_max_concurrent_requests d)" "n < 50"
    by (auto simp: process_queue_step_def split: if_splits option.splits)
  obtain ok d1 w1 where psr:
    "process_single_request lt (qe_hash e) (qe_priority e) (qe_source e) (d\<lparr>dl_queue := q\<rparr>) w = (ok, d1, w1)"
    by (metis prod_cases3)
  from psr show ?thesis
  proof (cases rule: process_single_request_cases)
    case (started now handle)
    then show ?thesis
      using assms by (intro that [OF deq g]) (auto simp: process_queue_step_def deq psr split: if_splits)
  next
    case failed
    then show ?thesis
      using assms
      by (intro that [OF deq g]) (auto simp: process_queue_step_def deq psr Let_def split: if_splits prod.splits)
  qed
qed

lemma process_queue_step_weight:
  assumes "process_queue_step lt n d w = Some (n', d', w')"
  shows "queue_weight (dl_queue d') < queue_weight (dl_queue d)"
  using assms
proof (cases rule: process_queue_step_cases)
  case (1 e q)
  have pw: "queue_weight (dl_queue d) = max 1 (nat (qe_priority e)) + queue_weight q"
    using mq.pop_weight [OF 1(1)] by (simp add: queue_weight_def)
  have "queue_weight (enqueue now (qe_hash e) (qe_priority e - 1) (qe_source e @ ''_RETRY'') q)
      < queue_weight (dl_queue d)" if "qe_priority e > 1" for now
  proof -
    have "max 1 (nat (qe_priority e - 1)) < max 1 (nat (qe_priority e))"
      using that by (simp add: max_def) linarith
    moreover note queue_weight_enqueue [of now "qe_hash e" "qe_priority e - 1" "qe_source e @ ''_RETRY''" q]
    ultimately show ?thesis using pw by linarith
  qed
  then show ?thesis using 1(4) pw by auto
qed

function process_queue_loop ::
  "('w, 'p, 'h) libtorrent \<Rightarrow> nat \<Rightarrow> 'h downloader \<Rightarrow> 'w \<Rightarrow> nat \<times> 'h downloader \<times> 'w" where
  "process_queue_loop lt n d w =
     (case process_queue_step lt n d w of
        None \<Rightarrow> (n, d, w)
      | Some (n', d', w') \<Rightarrow> process_queue_loop lt n' d' w')"
  by pat_completeness auto
termination
  by (relation "measure (\<lambda>(lt, n, d, w). queue_weight (dl_queue d))")
    (auto dest: process_queue_step_weight)

declare process_queue_loop.simps [simp del]

definition process_queue :: "('w, 'p, 'h) libtorrent \<Rightarrow> 'h downloader \<Rightarrow> 'w \<Rightarrow> 'h downloader \<times> 'w" where
  "process_queue lt d w = (case process_queue_loop lt 0 d w of (n, d', w') \<Rightarrow> (d', w'))"

definition request_metadata ::
  "('w, 'p, 'h) libtorrent \<Rightarrow> string \<Rightarrow> int \<Rightarrow> string \<Rightarrow> 'h downloader \<Rightarrow> 'w \<Rightarrow> bool \<times> 'h downloader \<times> 'w" where
  "request_metadata lt info_hash priority source d w =
     (if \<not> dl_session d then (False, d, w)
      else if has_request (dl_active_tracker d) info_hash \<or> queue_contains (dl_queue d) info_hash
      then (True, d, w)
      else let (now, w1) = steady_now lt w;
               d1 = d\<lparr>dl_queue := enqueue now info_hash priority source (dl_queue d),
                      dl_total_queued := dl_total_queued d + 1\<rparr>;
               (d2, w2) = process_queue lt d1 w1
           in (True, d2, w2))"

definition handle_metadata_received :: "('w, 'p, 'h) libtorrent \<Rightarrow> string \<Rightarrow> 'h downloader \<Rightarrow> 'w \<Rightarrow> 'h downloader \<times> 'w" where
  "handle_metadata_received lt info_hash d w =
     process_queue lt
       (d\<lparr>dl_active_tracker := remove_request info_hash (dl_active_tracker d),
          dl_success_count := dl_success_count d + 1\<rparr>) w"

fun cleanup_loop :: "('w, 'p, 'h) libtorrent \<Rightarrow> string list \<Rightarrow> 'h downloader \<Rightarrow> 'w \<Rightarrow> 'h downloader \<times> 'w" where
  "cleanup_loop lt [] d w = (d, w)"
| "cleanup_loop lt (hash # hs) d w =
     (let w1 = (case smap_find (dl_active_tracker d) hash of
                  None \<Rightarrow> w
                | Some info \<Rightarrow> if handle_is_valid lt (ri_handle info) w then snd (remove_torrent lt (ri_handle info) w) else w)
      in cleanup_loop lt hs
           (d\<lparr>dl_active_tracker := remove_request hash (dl_active_tracker d),
              dl_timeout_count := dl_timeout_count d + 1\<rparr>) w1)"

definition cleanup_timed_out_requests :: "('w, 'p, 'h) libtorrent \<Rightarrow> 'h downloader \<Rightarrow> 'w \<Rightarrow> 'h downloader \<times> 'w" where
  "cleanup_timed_out_requests lt d w =
     (let (now, w1) = steady_now lt w;
          timed_out = tracker_timed_out now (dl_request_timeout_seconds d) (dl_active_tracker d);
          (d2, w2) = cleanup_loop lt timed_out d w1
      in if timed_out \<noteq> [] then process_queue lt d2 w2 else (d2, w2))"

definition log_success :: "'h downloader \<Rightarrow> 'h downloader" where
  "log_success d = d\<lparr>dl_success_count := dl_success_count d + 1\<rparr>"

definition log_failure :: "'h downloader \<Rightarrow> 'h downloader" where
  "log_failure d = d\<lparr>dl_failure_count := dl_failure_count d + 1\<rparr>"

definition get_available_slots :: "'h downloader \<Rightarrow> int" where
  "get_available_slots d = tracker_available_slots (dl_max_concurrent_requests d) (dl_active_tracker d)"

definition can_add_request :: "'h downloader \<Rightarrow> bool" where
  "can_add_request d = True"

definition set_max_concurrent_requests :: "int \<Rightarrow> 'h downloader \<Rightarrow> 'h downloader" where
  "set_max_concurrent_requests m d = d\<lparr>dl_max_concurrent_requests := m\<rparr>"

definition set_request_timeout :: "int \<Rightarrow> 'h downloader \<Rightarrow> 'h downloader" where
  "set_request_timeout timeout_seconds d = d\<lparr>dl_request_timeout_seconds := timeout_seconds\<rparr>"

definition adjust_concurrent_limit :: "'h downloader \<Rightarrow> 'h downloader" where
  "adjust_concurrent_limit d =
     (if queue_size (dl_queue d) > 2000 \<and> dl_timeout_count d < int_div (dl_success_count d) 10 then
        (if dl_max_concurrent_requests d < 1000
         then d\<lparr>dl_max_concurrent_requests := min 1000 (dl_max_concurrent_requests d + 100)\<rparr> else d)
      else if dl_timeout_count d > int_div (dl_success_count d) 5 \<and> dl_max_concurrent_requests d > 200
      then d\<lparr>dl_max_concurrent_requests := max 200 (dl_max_concurrent_requests d - 50)\<rparr>
      else d)"

definition force_process_queue :: "('w, 'p, 'h) libtorrent \<Rightarrow> 'h downloader \<Rightarrow> 'w \<Rightarrow> 'h downloader \<times> 'w" where
  "force_process_queue lt d w = process_queue lt d w"

section \<open>The invariant\<close>

text \<open>
  The queue's hashes are distinct and agree with its set, the tracker is a well-formed map, and
  no hash is queued and running at once.
\<close>

definition downloader_ok :: "'h downloader \<Rightarrow> bool" where
  "downloader_ok d \<longleftrightarrow> queue_ok (dl_queue d) \<and> smap_ok (dl_active_tracker d)
     \<and> (\<forall>e \<in> set (m_queue (dl_queue d)). \<not> has_request (dl_active_tracker d) (qe_hash e))"

lemma downloader_ok_new [simp]: "downloader_ok (new_downloader b)"
  by (simp add: downloader_ok_def new_downloader_def empty_queue_def queue_ok_def)

lemma new_downloader_session [simp]: "dl_session (new_downloader b) = b"
  by (simp add: new_downloader_def)

lemma downloader_ok_fields [simp]:
  "downloader_ok (d\<lparr>dl_success_count := x\<rparr>) = downloader_ok d"
  "downloader_ok (d\<lparr>dl_failure_count := x\<rparr>) = downloader_ok d"
  "downloader_ok (d\<lparr>dl_timeout_count := x\<rparr>) = downloader_ok d"
  "downloader_ok (d\<lparr>dl_total_queued := x\<rparr>) = downloader_ok d"
  "downloader_ok (d\<lparr>dl_total_processed := x\<rparr>) = downloader_ok d"
  "downloader_ok (d\<lparr>dl_max_concurrent_requests := x\<rparr>) = downloader_ok d"
  "downloader_ok (d\<lparr>dl_request_timeout_seconds := x\<rparr>) = downloader_ok d"
  by (simp_all add: downloader_ok_def)

lemma downloader_ok_disjoint:
  "downloader_ok d \<Longrightarrow> \<not> (has_request (dl_active_tracker d) h \<and> queue_contains (dl_queue d) h)"
  by (auto simp: downloader_ok_def queue_contains_iff)

lemma downloader_ok_remove:
  "downloader_ok d \<Longrightarrow> downloader_ok (d\<lparr>dl_active_tracker := remove_request h (dl_active_tracker d)\<rparr>)"
  by (auto simp: downloader_ok_def)

lemma downloader_ok_enqueue:
  assumes "downloader_ok d" and "\<not> has_request (dl_active_tracker d) h"
  shows "downloader_ok (d\<lparr>dl_queue := enqueue now h p s (dl_queue d)\<rparr>)"
  using assms by (auto simp: downloader_ok_def enqueue_def queue_ok_def)

lemma downloader_ok_dequeue:
  assumes "downloader_ok d" and "dequeue (dl_queue d) = Some (e, q)"
  shows "downloader_ok (d\<lparr>dl_queue := q\<rparr>)" and "\<not> has_request (dl_active_tracker d) (qe_hash e)"
    and "qe_hash e \<notin> qe_hash ` set (m_queue q)"
  using assms mq.pop_set [OF assms(2)] mq.pop_key_fresh [OF _ assms(2)] mq.ok_pop [OF _ assms(2)]
  by (auto simp: downloader_ok_def)

lemma downloader_ok_step:
  assumes ok: "downloader_ok d" and step: "process_queue_step lt n d w = Some (n', d', w')"
  shows "downloader_ok d'"
  using step
proof (cases rule: process_queue_step_cases)
  case (1 e q)
  note deq = downloader_ok_dequeue [OF ok 1(1)]
  from 1(4) consider
    (started) now handle where "d' = d\<lparr>dl_queue := q,
        dl_active_tracker := add_request (qe_hash e) now (qe_priority e) (qe_source e) handle (dl_active_tracker d),
        dl_total_processed := dl_total_processed d + 1\<rparr>"
    | (retry) now where "d' = d\<lparr>dl_queue := enqueue now (qe_hash e) (qe_priority e - 1) (qe_source e @ ''_RETRY'') q\<rparr>"
    | (dropped) "d' = d\<lparr>dl_queue := q, dl_failure_count := dl_failure_count d + 1\<rparr>"
    by blast
  then show ?thesis
  proof cases
    case started
    with deq show ?thesis by (force simp: downloader_ok_def image_iff)
  next
    case retry
    then show ?thesis
      using downloader_ok_enqueue [OF deq(1), of "qe_hash e"] deq(2) by simp
  next
    case dropped
    with deq(1) show ?thesis by simp
  qed
qed

section \<open>The loop of \<^verbatim>\<open>process_queue\<close>\<close>

lemma process_queue_loop_inv:
  assumes "P n d"
    and step: "\<And>n d w n' d' w'. P n d \<Longrightarrow> process_queue_step lt n d w = Some (n', d', w') \<Longrightarrow> P n' d'"
    and "process_queue_loop lt n d w = (n', d', w')"
  shows "P n' d'"
  using assms(1,3) step
proof (induction lt n d w rule: process_queue_loop.induct)
  case (1 lt n d w)
  show ?case
  proof (cases "process_queue_step lt n d w")
    case None
    with "1.prems" show ?thesis by (simp add: process_queue_loop.simps [of lt n d w])
  next
    case (Some r)
    obtain n1 d1 w1 where r: "r = (n1, d1, w1)" by (metis prod_cases3)
    from "1.prems"(1) Some have "P n1 d1" unfolding r by (rule "1.prems"(3))
    moreover have "process_queue_loop lt n1 d1 w1 = (n', d', w')"
      using "1.prems"(2) Some r by (simp add: process_queue_loop.simps [of lt n d w])
    ultimately show ?thesis
      by (rule "1.IH" [OF Some r [symmetric] refl]) (rule "1.prems"(3))
  qed
qed

lemma process_queue_loop_stops:
  assumes "process_queue_loop lt n d w = (n', d', w')"
  shows "process_queue_step lt n' d' w' = None"
  using assms
proof (induction lt n d w rule: process_queue_loop.induct)
  case (1 lt n d w)
  then show ?case
    by (cases "process_queue_step lt n d w") (auto simp: process_queue_loop.simps [of lt n d w])
qed

lemma process_queue_inv:
  assumes "P 0 d"
    and "\<And>n d w n' d' w'. P n d \<Longrightarrow> process_queue_step lt n d w = Some (n', d', w') \<Longrightarrow> P n' d'"
  shows "\<exists>n. P n (fst (process_queue lt d w))"
proof -
  obtain n' d' w' where l: "process_queue_loop lt 0 d w = (n', d', w')" by (metis prod_cases3)
  from assms(1) have "P n' d'" using assms(2) l by (rule process_queue_loop_inv)
  then show ?thesis by (auto simp: process_queue_def l)
qed

text \<open>The same with the invariant carried along, for predicates that do not depend on \<open>n\<close>.\<close>

lemma process_queue_inv_ok:
  assumes "downloader_ok d" and "P d"
    and "\<And>n d w n' d' w'. downloader_ok d \<Longrightarrow> P d \<Longrightarrow> process_queue_step lt n d w = Some (n', d', w') \<Longrightarrow> P d'"
  shows "downloader_ok (fst (process_queue lt d w)) \<and> P (fst (process_queue lt d w))"
proof -
  have "\<exists>n::nat. downloader_ok (fst (process_queue lt d w)) \<and> P (fst (process_queue lt d w))"
  proof (rule process_queue_inv [where P = "\<lambda>_ d. downloader_ok d \<and> P d"])
    fix n d w n' d' w'
    assume "downloader_ok d \<and> P d" and "process_queue_step lt n d w = Some (n', d', w')"
    then show "downloader_ok d' \<and> P d'"
      by (auto intro: assms(3) elim: downloader_ok_step)
  qed (use assms in simp)
  then show ?thesis by simp
qed

lemma downloader_ok_process_queue: "downloader_ok d \<Longrightarrow> downloader_ok (fst (process_queue lt d w))"
  using process_queue_inv_ok [where P = "\<lambda>_. True", of d lt w] by simp

lemma process_queue_frame [frame_laws]:
  fixes d :: "'h downloader"
  shows "dl_session (fst (process_queue lt d w)) = dl_session d"
    and "dl_max_concurrent_requests (fst (process_queue lt d w)) = dl_max_concurrent_requests d"
    and "dl_request_timeout_seconds (fst (process_queue lt d w)) = dl_request_timeout_seconds d"
    and "dl_success_count (fst (process_queue lt d w)) = dl_success_count d"
    and "dl_timeout_count (fst (process_queue lt d w)) = dl_timeout_count d"
    and "dl_total_queued (fst (process_queue lt d w)) = dl_total_queued d"
proof -
  define P where "P = (\<lambda>d' :: 'h downloader. dl_session d' = dl_session d
    \<and> dl_max_concurrent_requests d' = dl_max_concurrent_requests d
    \<and> dl_request_timeout_seconds d' = dl_request_timeout_seconds d
    \<and> dl_success_count d' = dl_success_count d \<and> dl_timeout_count d' = dl_timeout_count d
    \<and> dl_total_queued d' = dl_total_queued d)"
  have "\<exists>n::nat. P (fst (process_queue lt d w))"
  proof (rule process_queue_inv [where P = "\<lambda>_. P"])
    fix n e w n' e' w' assume "P e" and "process_queue_step lt n e w = Some (n', e', w')"
    from this(2,1) show "P e'"
      by (cases rule: process_queue_step_cases) (auto simp: P_def)
  qed (simp add: P_def)
  then show "dl_session (fst (process_queue lt d w)) = dl_session d"
    "dl_max_concurrent_requests (fst (process_queue lt d w)) = dl_max_concurrent_requests d"
    "dl_request_timeout_seconds (fst (process_queue lt d w)) = dl_request_timeout_seconds d"
    "dl_success_count (fst (process_queue lt d w)) = dl_success_count d"
    "dl_timeout_count (fst (process_queue lt d w)) = dl_timeout_count d"
    "dl_total_queued (fst (process_queue lt d w)) = dl_total_queued d"
    by (auto simp: P_def)
qed

section \<open>Limits and accounting\<close>

lemma process_queue_active_bound:
  fixes d :: "'h downloader"
  assumes "downloader_ok d"
  shows "tracker_active (dl_active_tracker (fst (process_queue lt d w)))
    \<le> max (tracker_active (dl_active_tracker d)) (to_size_t (dl_max_concurrent_requests d))"
proof -
  define P where "P = (\<lambda>d' :: 'h downloader. dl_max_concurrent_requests d' = dl_max_concurrent_requests d
    \<and> tracker_active (dl_active_tracker d')
        \<le> max (tracker_active (dl_active_tracker d)) (to_size_t (dl_max_concurrent_requests d)))"
  have "downloader_ok (fst (process_queue lt d w)) \<and> P (fst (process_queue lt d w))"
    using assms
  proof (rule process_queue_inv_ok)
    show "P d" by (simp add: P_def)
    fix n e w n' e' w'
    assume ok: "downloader_ok e" and P: "P e" and st: "process_queue_step lt n e w = Some (n', e', w')"
    from st show "P e'"
    proof (cases rule: process_queue_step_cases)
      case (1 x q)
      have "smap_ok (dl_active_tracker e)" using ok by (simp add: downloader_ok_def)
      then have "tracker_active (add_request h t p s hn (dl_active_tracker e)) \<le> to_size_t (dl_max_concurrent_requests e)"
        for h t p s hn using tracker_active_add [of "dl_active_tracker e" h t p s hn] 1(2) by linarith
      with 1(4) P show ?thesis
        by (auto simp: P_def intro: max.coboundedI2)
    qed
  qed
  then show ?thesis by (simp add: P_def)
qed

text \<open>How many requests were accepted and are neither started, nor given up, nor waiting.\<close>

definition request_balance :: "'h downloader \<Rightarrow> int" where
  "request_balance d = dl_total_queued d - dl_total_processed d - dl_failure_count d - int (queue_size (dl_queue d))"

lemma request_balance_step:
  assumes "downloader_ok d" and "process_queue_step lt n d w = Some (n', d', w')"
  shows "request_balance d' = request_balance d"
  using assms(2)
proof (cases rule: process_queue_step_cases)
  case (1 e q)
  have "length (m_queue (dl_queue d)) = Suc (length (m_queue q))"
    using mq.pop_size [OF 1(1)] .
  moreover have "length (m_queue (enqueue now (qe_hash e) p s q)) = Suc (length (m_queue q))" for now p s
    using mq.repush_entries [OF _ 1(1)] assms(1) unfolding enqueue_as_entry by (simp add: downloader_ok_def)
  ultimately show ?thesis
    using 1(4) by (auto simp: request_balance_def queue_size_def)
qed

lemma request_balance_process_queue [counter_laws]:
  assumes "downloader_ok d"
  shows "request_balance (fst (process_queue lt d w)) = request_balance d"
proof (rule conjunct2 [OF process_queue_inv_ok [OF assms]])
  show "request_balance e' = request_balance d"
    if "downloader_ok e" "request_balance e = request_balance d" "process_queue_step lt n e w = Some (n', e', w')"
    for n e w n' e' w' using request_balance_step [OF that(1,3)] that(2) by simp
qed simp

lemma queue_size_enqueue_new:
  "queue_ok q \<Longrightarrow> \<not> queue_contains q h \<Longrightarrow> queue_size (enqueue now h p s q) = Suc (queue_size q)"
  by (simp add: queue_size_def queue_contains_def enqueue_def)

section \<open>The public operations\<close>

text \<open>What \<^verbatim>\<open>request_metadata\<close> does when it is not a duplicate: queue, then process.\<close>

lemma request_metadata_new:
  assumes "dl_session d" "\<not> has_request (dl_active_tracker d) h" "\<not> queue_contains (dl_queue d) h"
  shows "request_metadata lt h p s d w =
    (True, process_queue lt
       (d\<lparr>dl_queue := enqueue (fst (steady_now lt w)) h p s (dl_queue d), dl_total_queued := dl_total_queued d + 1\<rparr>)
       (snd (steady_now lt w)))"
  using assms by (simp add: request_metadata_def split_beta)

lemma downloader_ok_request_metadata:
  assumes "downloader_ok d"
  shows "downloader_ok (fst (snd (request_metadata lt h p s d w)))"
proof (cases "dl_session d \<and> \<not> has_request (dl_active_tracker d) h \<and> \<not> queue_contains (dl_queue d) h")
  case True
  then show ?thesis
    using assms by (auto simp: request_metadata_new intro!: downloader_ok_process_queue downloader_ok_enqueue)
next
  case False
  with assms show ?thesis by (auto simp: request_metadata_def)
qed

lemma cleanup_loop_effect:
  "fst (cleanup_loop lt hs d w) =
     d\<lparr>dl_active_tracker := foldl (\<lambda>t h. smap_erase h t) (dl_active_tracker d) hs,
       dl_timeout_count := dl_timeout_count d + int (length hs)\<rparr>"
  by (induction hs arbitrary: d w) (simp_all add: Let_def remove_request_def)

lemma has_request_foldl_erase:
  "has_request (foldl (\<lambda>t h. smap_erase h t) t hs) h \<longleftrightarrow> h \<notin> set hs \<and> has_request t h"
  by (simp add: has_request_def smap.foldl_erase restrict_map_def)

lemma downloader_ok_cleanup_loop: "downloader_ok d \<Longrightarrow> downloader_ok (fst (cleanup_loop lt hs d w))"
  unfolding cleanup_loop_effect
  by (auto simp: downloader_ok_def has_request_foldl_erase smap.ok_foldl_erase)

lemma cleanup_cases:
  defines "timed_out d lt w \<equiv> tracker_timed_out (fst (steady_now lt w)) (dl_request_timeout_seconds d) (dl_active_tracker d)"
  obtains (none) "timed_out d lt w = []" "fst (cleanup_timed_out_requests lt d w) = d"
  | (some) w' where "timed_out d lt w \<noteq> []"
    "fst (cleanup_timed_out_requests lt d w) =
       fst (process_queue lt (fst (cleanup_loop lt (timed_out d lt w) d (snd (steady_now lt w)))) w')"
  by (cases "timed_out d lt w = []")
    (auto simp: cleanup_timed_out_requests_def Let_def timed_out_def split_beta)

lemma downloader_ok_cleanup: "downloader_ok d \<Longrightarrow> downloader_ok (fst (cleanup_timed_out_requests lt d w))"
  by (rule cleanup_cases [where d = d and lt = lt and w = w]) (auto intro: downloader_ok_process_queue downloader_ok_cleanup_loop)

lemma downloader_ok_received: "downloader_ok d \<Longrightarrow> downloader_ok (fst (handle_metadata_received lt h d w))"
  unfolding handle_metadata_received_def
  by (rule downloader_ok_process_queue) (use downloader_ok_remove [of d h] in simp)

text \<open>The downloader as a state machine: any public operation, at any time, on any argument.\<close>

inductive downloader_step :: "('w, 'p, 'h) libtorrent \<Rightarrow> 'h downloader \<Rightarrow> 'h downloader \<Rightarrow> bool"
  for lt :: "('w, 'p, 'h) libtorrent" where
  request: "downloader_step lt d (fst (snd (request_metadata lt h p s d w)))"
| received: "downloader_step lt d (fst (handle_metadata_received lt h d w))"
| cleanup: "downloader_step lt d (fst (cleanup_timed_out_requests lt d w))"
| force: "downloader_step lt d (fst (force_process_queue lt d w))"
| success: "downloader_step lt d (log_success d)"
| failure: "downloader_step lt d (log_failure d)"
| limit: "downloader_step lt d (set_max_concurrent_requests m d)"
| timeout: "downloader_step lt d (set_request_timeout m d)"
| adjust: "downloader_step lt d (adjust_concurrent_limit d)"

lemma downloader_ok_downloader_step: "downloader_ok d \<Longrightarrow> downloader_step lt d d' \<Longrightarrow> downloader_ok d'"
  by (erule downloader_step.cases)
    (auto simp: force_process_queue_def log_success_def log_failure_def set_max_concurrent_requests_def
      set_request_timeout_def adjust_concurrent_limit_def
      intro: downloader_ok_request_metadata downloader_ok_received downloader_ok_cleanup downloader_ok_process_queue)

interpretation dl: invariant_system "\<lambda>d. \<exists>b. d = new_downloader b" "downloader_step lt" downloader_ok
  for lt :: "('w, 'p, 'h) libtorrent"
  by unfold_locales (auto intro: downloader_ok_downloader_step)

section \<open>Every accepted request is accounted for\<close>

lemma process_queue_keeps_request:
  fixes d :: "'h downloader"
  assumes "downloader_ok d" and "queue_contains (dl_queue d) h"
  shows "has_request (dl_active_tracker (fst (process_queue lt d w))) h
    \<or> queue_contains (dl_queue (fst (process_queue lt d w))) h
    \<or> dl_failure_count d < dl_failure_count (fst (process_queue lt d w))"
proof -
  define P where "P = (\<lambda>d' :: 'h downloader. dl_failure_count d \<le> dl_failure_count d'
    \<and> (has_request (dl_active_tracker d') h \<or> queue_contains (dl_queue d') h
       \<or> dl_failure_count d < dl_failure_count d'))"
  have "downloader_ok (fst (process_queue lt d w)) \<and> P (fst (process_queue lt d w))"
    using assms(1)
  proof (rule process_queue_inv_ok)
    show "P d" using assms(2) by (simp add: P_def)
    fix n e w n' e' w'
    assume ok: "downloader_ok e" and P: "P e" and st: "process_queue_step lt n e w = Some (n', e', w')"
    from st show "P e'"
    proof (cases rule: process_queue_step_cases)
      case (1 x q)
      have q: "queue_ok (dl_queue e)" "queue_ok q"
        using ok downloader_ok_dequeue(1) [OF ok 1(1)] by (auto simp: downloader_ok_def)
      have k: "queue_contains (dl_queue e) h \<Longrightarrow> h = qe_hash x \<or> queue_contains q h"
        using mq.pop_keys [OF q(1) 1(1)] by (auto simp: queue_contains_iff [OF q(1)] queue_contains_iff [OF q(2)])
      show ?thesis
        using 1(4) P k by (auto simp: P_def queue_contains_def enqueue_def)
    qed
  qed
  then show ?thesis by (auto simp: P_def)
qed

text \<open>Only hashes that waited in the queue are started.\<close>

lemma process_queue_starts_queued:
  fixes d :: "'h downloader"
  assumes "downloader_ok d" and "has_request (dl_active_tracker (fst (process_queue lt d w))) h"
  shows "has_request (dl_active_tracker d) h \<or> queue_contains (dl_queue d) h"
proof (rule ccontr)
  define P where "P = (\<lambda>d' :: 'h downloader. \<not> has_request (dl_active_tracker d') h \<and> h \<notin> qe_hash ` set (m_queue (dl_queue d')))"
  assume "\<not> ?thesis"
  then have P: "P d" using assms(1) by (auto simp: P_def queue_contains_iff downloader_ok_def)
  have "downloader_ok (fst (process_queue lt d w)) \<and> P (fst (process_queue lt d w))"
    using assms(1) P
  proof (rule process_queue_inv_ok)
    fix n e w n' e' w'
    assume P: "P e" and "process_queue_step lt n e w = Some (n', e', w')"
    from this(2) show "P e'"
    proof (cases rule: process_queue_step_cases)
      case (1 x q)
      with P show ?thesis using mq.pop_set [OF 1(1)] by (auto simp: P_def enqueue_def split: if_splits)
    qed
  qed
  with assms(2) show False by (simp add: P_def)
qed

text \<open>A hash in no accepted format is retried down to priority 1 and given up in the same round.\<close>

lemma process_queue_loop_invalid:
  assumes "convert_hash_to_hex h = []" and "n < 50"
  shows "m_queue (dl_queue d) = [e] \<Longrightarrow> qe_hash e = h \<Longrightarrow> m_queue_set (dl_queue d) = {h} \<Longrightarrow>
    tracker_active (dl_active_tracker d) < to_size_t (dl_max_concurrent_requests d) \<Longrightarrow>
    \<exists>w'. process_queue_loop lt n d w = (n, d\<lparr>dl_queue := empty_queue, dl_failure_count := dl_failure_count d + 1\<rparr>, w')"
proof (induction "nat (qe_priority e)" arbitrary: e d w rule: less_induct)
  case less
  have deq: "dequeue (dl_queue d) = Some (e, empty_queue)"
    using less.prems by (simp add: dequeue_def empty_queue_def)
  have psr: "process_single_request lt h p s d' w = (False, d', w)" for p s d'
    using assms(1) by (simp add: process_single_request_def)
  show ?case
  proof (cases "qe_priority e > 1")
    case True
    let ?e = "\<lparr>qe_hash = h, qe_priority = qe_priority e - 1, qe_source = qe_source e @ ''_RETRY'',
      qe_queued_time = fst (steady_now lt w)\<rparr>"
    let ?d = "d\<lparr>dl_queue := \<lparr>m_queue = [?e], m_queue_set = {h}\<rparr>\<rparr>"
    have "process_queue_step lt n d w = Some (n, ?d, snd (steady_now lt w))"
      using less.prems True assms(2)
      by (simp add: process_queue_step_def queue_is_empty_def deq psr enqueue_def empty_queue_def split_beta)
    moreover have "\<exists>w'. process_queue_loop lt n ?d (snd (steady_now lt w)) =
        (n, ?d\<lparr>dl_queue := empty_queue, dl_failure_count := dl_failure_count ?d + 1\<rparr>, w')"
      using less.prems True by (intro less.hyps [of ?e]) auto
    ultimately show ?thesis
      by (simp add: process_queue_loop.simps [of lt n d w])
  next
    case False
    let ?d = "d\<lparr>dl_queue := empty_queue, dl_failure_count := dl_failure_count d + 1\<rparr>"
    have "process_queue_step lt n d w = Some (n, ?d, w)"
      using less.prems False assms(2)
      by (simp add: process_queue_step_def queue_is_empty_def deq psr)
    moreover have "process_queue_step lt n ?d w = None"
      by (simp add: process_queue_step_def queue_is_empty_def empty_queue_def)
    ultimately show ?thesis
      by (simp add: process_queue_loop.simps [of lt n d w] process_queue_loop.simps [of lt n ?d w])
  qed
qed

section \<open>Properties\<close>

text \<open>C6: In every state the downloader can reach through its public operations, the hashes waiting
  in the queue are distinct and are exactly the hashes of the lookup set, and none of them is
  running at the same time.\<close>

theorem downloader_reachable_wf:
  assumes "reachable (\<lambda>d. \<exists>b. d = new_downloader b) (downloader_step lt) d"
  shows "distinct (map qe_hash (m_queue (dl_queue d)))
    \<and> m_queue_set (dl_queue d) = set (map qe_hash (m_queue (dl_queue d)))
    \<and> (\<forall>h. \<not> (has_request (dl_active_tracker d) h \<and> queue_contains (dl_queue d) h))"
  using dl.inv_reachable [OF assms] downloader_ok_disjoint [of d]
  by (auto simp: downloader_ok_def queue_ok_def)

theorem downloader_reachable_wf_witness:
  "(let d = fst (snd (request_metadata demo_lt (replicate 40 CHR ''a'') 3 ''DHT_PEERS'' (new_downloader True) demo_start))
    in distinct (map qe_hash (m_queue (dl_queue d)))
     \<and> m_queue_set (dl_queue d) = set (map qe_hash (m_queue (dl_queue d)))
     \<and> (\<forall>h. \<not> (has_request (dl_active_tracker d) h \<and> queue_contains (dl_queue d) h)))"
proof -
  have "reachable (\<lambda>d. \<exists>b. d = new_downloader b) (downloader_step demo_lt) (new_downloader True)"
    by (rule reachable.start) blast
  then have "reachable (\<lambda>d. \<exists>b. d = new_downloader b) (downloader_step demo_lt)
     (fst (snd (request_metadata demo_lt (replicate 40 CHR ''a'') 3 ''DHT_PEERS'' (new_downloader True) demo_start)))"
    by (rule reachable.move) (rule downloader_step.request)
  from downloader_reachable_wf [OF this] show ?thesis by (simp add: Let_def)
qed

text \<open>C7: \<^verbatim>\<open>process_queue\<close> never starts a request beyond the concurrency limit: afterwards there are at
  most as many running requests as before or as the limit allows, whichever is larger.\<close>

theorem process_queue_respects_limit:
  assumes "downloader_ok d"
  shows "tracker_active (dl_active_tracker (fst (process_queue lt d w)))
    \<le> max (tracker_active (dl_active_tracker d)) (to_size_t (dl_max_concurrent_requests d))"
  using assms by (rule process_queue_active_bound)

theorem process_queue_respects_limit_witness:
  "tracker_active (dl_active_tracker (fst (process_queue demo_lt
      (set_max_concurrent_requests 1 ((new_downloader True)\<lparr>dl_queue := enqueue 0 (replicate 40 CHR ''a'') 3 ''DHT_PEERS''
         (enqueue 0 (replicate 40 CHR ''b'') 2 ''DHT_ANNOUNCE'' empty_queue)\<rparr>)) demo_start))) \<le> max 0 1"
  using process_queue_respects_limit [of "set_max_concurrent_requests 1 ((new_downloader True)\<lparr>dl_queue :=
      enqueue 0 (replicate 40 CHR ''a'') 3 ''DHT_PEERS'' (enqueue 0 (replicate 40 CHR ''b'') 2 ''DHT_ANNOUNCE'' empty_queue)\<rparr>)"
      demo_lt demo_start]
  by (simp add: downloader_ok_def set_max_concurrent_requests_def new_downloader_def has_request_def
      tracker_active_def to_size_t_def)

text \<open>C8: \<^verbatim>\<open>process_queue\<close> always returns, and it stops only when the queue is empty, the concurrency
  limit is reached, or it has started the 50 requests of its round.\<close>

theorem process_queue_progress:
  "case process_queue_loop lt 0 d w of (n, d', w') \<Rightarrow>
     process_queue lt d w = (d', w')
     \<and> (queue_is_empty (dl_queue d')
        \<or> to_size_t (dl_max_concurrent_requests d') \<le> tracker_active (dl_active_tracker d')
        \<or> (n = 50 \<and> dl_total_processed d' = dl_total_processed d + 50))"
proof -
  obtain n d' w' where l: "process_queue_loop lt 0 d w = (n, d', w')" by (metis prod_cases3)
  have stop: "process_queue_step lt n d' w' = None"
    using l by (rule process_queue_loop_stops)
  have "n \<le> 50 \<and> dl_total_processed d' = dl_total_processed d + int n"
    by (rule process_queue_loop_inv [where P = "\<lambda>n d'. n \<le> 50 \<and> dl_total_processed d' = dl_total_processed d + int n", OF _ _ l])
      (auto elim!: process_queue_step_cases)
  then show ?thesis
    using stop
    by (auto simp: l process_queue_def process_queue_step_def queue_is_empty_def dequeue_None [symmetric] Let_def
        split: if_splits option.splits prod.splits)
qed

text \<open>C10: Requests are conserved: every operation that drives the queue keeps the number of accepted
  requests equal to the started, given up and waiting ones (up to a constant that is 0 at the start).\<close>

theorem request_conservation:
  fixes d :: "'h downloader"
  assumes "downloader_ok d"
  shows "request_balance (fst (snd (request_metadata lt h p s d w))) = request_balance d
    \<and> request_balance (fst (handle_metadata_received lt h d w)) = request_balance d
    \<and> request_balance (fst (cleanup_timed_out_requests lt d w)) = request_balance d
    \<and> request_balance (fst (force_process_queue lt d w)) = request_balance d
    \<and> request_balance (new_downloader b :: 'h downloader) = 0"
proof (intro conjI)
  show "request_balance (fst (snd (request_metadata lt h p s d w))) = request_balance d"
  proof (cases "dl_session d \<and> \<not> has_request (dl_active_tracker d) h \<and> \<not> queue_contains (dl_queue d) h")
    case True
    let ?d = "d\<lparr>dl_queue := enqueue (fst (steady_now lt w)) h p s (dl_queue d), dl_total_queued := dl_total_queued d + 1\<rparr>"
    have "downloader_ok ?d" using True assms by (auto intro: downloader_ok_enqueue)
    moreover have "request_balance ?d = request_balance d"
      using True assms by (simp add: request_balance_def queue_size_enqueue_new downloader_ok_def)
    ultimately show ?thesis
      using True by (simp add: request_metadata_new request_balance_process_queue)
  qed (auto simp: request_metadata_def)
  show "request_balance (fst (handle_metadata_received lt h d w)) = request_balance d"
    using downloader_ok_remove [OF assms, of h]
    by (simp add: handle_metadata_received_def request_balance_process_queue) (simp add: request_balance_def)
  show "request_balance (fst (cleanup_timed_out_requests lt d w)) = request_balance d"
    by (rule cleanup_cases [where d = d and lt = lt and w = w])
      (simp_all add: request_balance_process_queue downloader_ok_cleanup_loop assms,
       simp add: cleanup_loop_effect request_balance_def)
  show "request_balance (fst (force_process_queue lt d w)) = request_balance d"
    using assms by (simp add: force_process_queue_def request_balance_process_queue)
  show "request_balance (new_downloader b :: 'h downloader) = 0"
    by (simp add: request_balance_def new_downloader_def queue_size_def empty_queue_def)
qed

theorem request_conservation_witness:
  "request_balance (fst (snd (request_metadata demo_lt (replicate 40 CHR ''a'') 3 ''DHT_PEERS'' (new_downloader True) demo_start))) = 0"
  using request_conservation [of "new_downloader True" demo_lt "replicate 40 CHR ''a''" 3 "''DHT_PEERS''" demo_start True] by simp

text \<open>\<^verbatim>\<open>request_metadata\<close> returns true exactly when there is a session, and then the hash is
  running, waiting, or has been given up with a count in the failure counter: no request is lost
  silently.\<close>

theorem request_metadata_not_lost:
  assumes "downloader_ok d"
  shows "fst (request_metadata lt h p s d w) = dl_session d
    \<and> (let d' = fst (snd (request_metadata lt h p s d w)) in
       dl_session d \<longrightarrow> has_request (dl_active_tracker d') h \<or> queue_contains (dl_queue d') h
         \<or> dl_failure_count d < dl_failure_count d')"
proof (cases "dl_session d \<and> \<not> has_request (dl_active_tracker d) h \<and> \<not> queue_contains (dl_queue d) h")
  case True
  let ?d = "d\<lparr>dl_queue := enqueue (fst (steady_now lt w)) h p s (dl_queue d), dl_total_queued := dl_total_queued d + 1\<rparr>"
  have "downloader_ok ?d" using True assms by (auto intro: downloader_ok_enqueue)
  moreover have "queue_contains (dl_queue ?d) h" by (simp add: queue_contains_def enqueue_def)
  ultimately show ?thesis
    using True process_queue_keeps_request [of ?d h lt "snd (steady_now lt w)"]
    by (simp add: request_metadata_new)
next
  case False
  then show ?thesis by (auto simp: request_metadata_def)
qed

theorem request_metadata_not_lost_witness:
  "fst (request_metadata demo_lt (replicate 40 CHR ''a'') 3 ''DHT_PEERS'' (new_downloader True) demo_start)"
  using request_metadata_not_lost [OF downloader_ok_new, of demo_lt "replicate 40 CHR ''a''" 3 "''DHT_PEERS''" True demo_start]
  by simp

text \<open>A hash that is in none of the accepted formats is given up inside the call that accepted
  it: \<^verbatim>\<open>request_metadata\<close> returns true, yet the hash is neither waiting nor running afterwards.
  The comment on the function says that the hash is now queued.\<close>

theorem request_metadata_invalid_hash_dropped:
  assumes "dl_session d" and "convert_hash_to_hex h = []"
    and "dl_queue d = empty_queue" and "\<not> has_request (dl_active_tracker d) h"
    and "tracker_active (dl_active_tracker d) < to_size_t (dl_max_concurrent_requests d)"
  shows "fst (request_metadata lt h p s d w)
    \<and> fst (snd (request_metadata lt h p s d w)) =
        d\<lparr>dl_total_queued := dl_total_queued d + 1, dl_failure_count := dl_failure_count d + 1\<rparr>"
proof -
  let ?d = "d\<lparr>dl_queue := enqueue (fst (steady_now lt w)) h p s (dl_queue d), dl_total_queued := dl_total_queued d + 1\<rparr>"
  have "\<exists>w'. process_queue_loop lt 0 ?d (snd (steady_now lt w)) =
      (0, ?d\<lparr>dl_queue := empty_queue, dl_failure_count := dl_failure_count ?d + 1\<rparr>, w')"
    using assms by (intro process_queue_loop_invalid) (auto simp: enqueue_def empty_queue_def)
  then obtain w' where "process_queue_loop lt 0 ?d (snd (steady_now lt w)) =
      (0, ?d\<lparr>dl_queue := empty_queue, dl_failure_count := dl_failure_count ?d + 1\<rparr>, w')" by blast
  moreover have "\<not> queue_contains (dl_queue d) h"
    using assms(3) by (simp add: queue_contains_def empty_queue_def)
  moreover have "d\<lparr>dl_queue := empty_queue, dl_total_queued := x, dl_failure_count := y\<rparr>
      = d\<lparr>dl_total_queued := x, dl_failure_count := y\<rparr>" for x y
    using assms(3) by (cases d) simp
  ultimately show ?thesis
    using assms by (simp add: request_metadata_new process_queue_def)
qed

theorem request_metadata_invalid_hash_dropped_witness:
  "fst (request_metadata demo_lt ''not-a-hash'' 3 ''MANUAL'' (new_downloader True) demo_start)
   \<and> \<not> has_request (dl_active_tracker (fst (snd (request_metadata demo_lt ''not-a-hash'' 3 ''MANUAL'' (new_downloader True) demo_start)))) ''not-a-hash''
   \<and> \<not> queue_contains (dl_queue (fst (snd (request_metadata demo_lt ''not-a-hash'' 3 ''MANUAL'' (new_downloader True) demo_start)))) ''not-a-hash''"
  using request_metadata_invalid_hash_dropped [of "new_downloader True" "''not-a-hash''" demo_lt 3 "''MANUAL''" demo_start]
  by (simp add: new_downloader_def convert_hash_to_hex_def has_request_def tracker_active_def to_size_t_def
      queue_contains_def empty_queue_def)

text \<open>\<^verbatim>\<open>adjust_concurrent_limit\<close> keeps a limit between 200 and 1000 in that range, moves it by at
  most 100 per call, and changes no other field.\<close>

theorem adjust_concurrent_limit_bounds:
  assumes "200 \<le> dl_max_concurrent_requests d" and "dl_max_concurrent_requests d \<le> 1000"
  shows "200 \<le> dl_max_concurrent_requests (adjust_concurrent_limit d)
    \<and> dl_max_concurrent_requests (adjust_concurrent_limit d) \<le> 1000
    \<and> \<bar>dl_max_concurrent_requests (adjust_concurrent_limit d) - dl_max_concurrent_requests d\<bar> \<le> 100
    \<and> adjust_concurrent_limit d =
        d\<lparr>dl_max_concurrent_requests := dl_max_concurrent_requests (adjust_concurrent_limit d)\<rparr>"
  using assms by (simp add: adjust_concurrent_limit_def min_def max_def)

theorem adjust_concurrent_limit_bounds_witness:
  "200 \<le> dl_max_concurrent_requests (adjust_concurrent_limit ((new_downloader True)\<lparr>dl_timeout_count := 7\<rparr>))"
  by (rule conjunct1 [OF adjust_concurrent_limit_bounds]) (simp_all add: new_downloader_def)

text \<open>\<^verbatim>\<open>cleanup_timed_out_requests\<close> removes exactly the requests whose age has reached the
  timeout, counts each of them once, and none of them is running afterwards.\<close>

theorem cleanup_removes_timed_out:
  assumes "downloader_ok d"
  shows "let now = fst (steady_now lt w);
             timed_out = tracker_timed_out now (dl_request_timeout_seconds d) (dl_active_tracker d);
             d' = fst (cleanup_timed_out_requests lt d w)
    in (\<forall>h. h \<in> set timed_out \<longleftrightarrow> (\<exists>i. smap_find (dl_active_tracker d) h = Some i
            \<and> dl_request_timeout_seconds d \<le> duration_seconds (now - ri_request_time i)))
     \<and> dl_timeout_count d' = dl_timeout_count d + int (length timed_out)
     \<and> (\<forall>h. h \<in> set timed_out \<longrightarrow> \<not> has_request (dl_active_tracker d') h)"
proof -
  define now where "now = fst (steady_now lt w)"
  define T where "T = tracker_timed_out now (dl_request_timeout_seconds d) (dl_active_tracker d)"
  define d' where "d' = fst (cleanup_timed_out_requests lt d w)"
  have ok: "smap_ok (dl_active_tracker d)" using assms by (simp add: downloader_ok_def)
  have T: "h \<in> set T \<longleftrightarrow> (\<exists>i. smap_find (dl_active_tracker d) h = Some i
      \<and> dl_request_timeout_seconds d \<le> duration_seconds (now - ri_request_time i))" for h
    by (simp add: T_def tracker_timed_out_set [OF ok])
  then have "\<not> queue_contains (dl_queue d) h" if "h \<in> set T" for h
    using that downloader_ok_disjoint [OF assms, of h] by (auto simp: has_request_def)
  moreover have "dl_timeout_count d' = dl_timeout_count d + int (length T)
      \<and> (\<forall>h. has_request (dl_active_tracker d') h \<longrightarrow> h \<notin> set T \<or> queue_contains (dl_queue d) h)"
  proof (cases rule: cleanup_cases [where d = d and lt = lt and w = w])
    case none
    then show ?thesis by (simp add: T_def d'_def now_def)
  next
    case (some w')
    let ?d = "fst (cleanup_loop lt T d (snd (steady_now lt w)))"
    have d': "d' = fst (process_queue lt ?d w')" using some by (simp add: T_def d'_def now_def)
    have "dl_timeout_count d' = dl_timeout_count ?d" by (simp add: d' frame_laws)
    moreover have "has_request (dl_active_tracker d') h \<Longrightarrow>
        has_request (dl_active_tracker ?d) h \<or> queue_contains (dl_queue ?d) h" for h
      unfolding d' by (rule process_queue_starts_queued [OF downloader_ok_cleanup_loop [OF assms]])
    ultimately show ?thesis by (auto simp: cleanup_loop_effect has_request_foldl_erase)
  qed
  ultimately show ?thesis
    using T by (auto simp: Let_def T_def [symmetric] now_def [symmetric] d'_def [symmetric])
qed

theorem cleanup_removes_timed_out_witness:
  "dl_timeout_count (fst (cleanup_timed_out_requests demo_lt
     ((new_downloader True)\<lparr>dl_active_tracker := add_request ''x'' 0 3 ''DHT_PEERS'' ''h'' []\<rparr>)
     (demo_start\<lparr>dw_clock := 20000000000\<rparr>))) = 1"
  using cleanup_removes_timed_out [of "(new_downloader True)\<lparr>dl_active_tracker := add_request ''x'' 0 3 ''DHT_PEERS'' ''h'' []\<rparr>"
      demo_lt "demo_start\<lparr>dw_clock := 20000000000\<rparr>"]
  by (simp add: downloader_ok_def new_downloader_def has_request_def empty_queue_def queue_ok_def add_request_def
      smap_ok_def demo_lt_def Let_def tracker_timed_out_def duration_seconds_def)

end
