(* ===== verification/Metadata_Extraction.thy ===== *)
theory Metadata_Extraction
  imports Crawler_Prelude
begin

text \<open>
  \<^verbatim>\<open>extract_comprehensive_metadata\<close> of \<^verbatim>\<open>enhanced_metadata_manager.hpp\<close>. A \<^verbatim>\<open>lt::torrent_info\<close> is the record of what its accessors
  return; \<open>ti_magnet_uri\<close> is \<^verbatim>\<open>lt::make_magnet_uri\<close> of it. The accessors do not throw.
\<close>

section \<open>Definitions\<close>

datatype file_flag = Flag_pad_file | Flag_executable | Flag_hidden | Flag_symlink

record file_entry =
  fe_path :: string
  fe_size :: nat
  fe_offset :: nat
  fe_flags :: "file_flag set"

record torrent_info =
  ti_name :: string
  ti_total_size :: nat
  ti_num_files :: int
  ti_num_pieces :: int
  ti_piece_length :: int
  ti_comment :: string
  ti_creator :: string
  ti_creation_date :: int
  ti_priv :: bool
  ti_magnet_uri :: string
  ti_trackers :: "string list"
  ti_files :: "file_entry list"
  ti_web_seeds :: "string list"

record enhanced_metadata =
  em_info_hash :: string
  em_name :: string
  em_total_size :: nat
  em_num_files :: int
  em_num_pieces :: int
  em_piece_length :: int
  em_comment :: string
  em_created_by :: string
  em_creation_date :: int
  em_magnet_link :: string
  em_trackers :: "string list"
  em_tracker_tiers :: "int list"
  em_file_names :: "string list"
  em_file_sizes :: "nat list"
  em_file_offsets :: "nat list"
  em_file_flags :: "string list"
  em_web_seeds :: "string list"
  em_private_torrent :: bool
  em_encoding :: string

definition flag_str :: "file_flag set \<Rightarrow> string" where
  "flag_str flags =
     (let s1 = (if Flag_pad_file \<in> flags then ''pad,'' else []);
          s2 = s1 @ (if Flag_executable \<in> flags then ''exec,'' else []);
          s3 = s2 @ (if Flag_hidden \<in> flags then ''hidden,'' else []);
          s4 = s3 @ (if Flag_symlink \<in> flags then ''symlink,'' else [])
      in if s4 \<noteq> [] then butlast s4 else s4)"

fun extract_trackers :: "string list \<Rightarrow> enhanced_metadata \<Rightarrow> enhanced_metadata" where
  "extract_trackers [] m = m"
| "extract_trackers (url # urls) m =
     extract_trackers urls (m\<lparr>em_trackers := em_trackers m @ [url], em_tracker_tiers := em_tracker_tiers m @ [0]\<rparr>)"

fun extract_files :: "file_entry list \<Rightarrow> enhanced_metadata \<Rightarrow> enhanced_metadata" where
  "extract_files [] m = m"
| "extract_files (f # fs) m =
     extract_files fs (m\<lparr>em_file_names := em_file_names m @ [fe_path f], em_file_sizes := em_file_sizes m @ [fe_size f],
       em_file_offsets := em_file_offsets m @ [fe_offset f], em_file_flags := em_file_flags m @ [flag_str (fe_flags f)]\<rparr>)"

definition extract_comprehensive_metadata :: "torrent_info \<Rightarrow> string \<Rightarrow> enhanced_metadata" where
  "extract_comprehensive_metadata ti info_hash =
     (let m0 = \<lparr>em_info_hash = info_hash, em_name = ti_name ti, em_total_size = ti_total_size ti,
            em_num_files = ti_num_files ti, em_num_pieces = ti_num_pieces ti, em_piece_length = ti_piece_length ti,
            em_comment = ti_comment ti, em_created_by = ti_creator ti, em_creation_date = ti_creation_date ti,
            em_magnet_link = ti_magnet_uri ti, em_trackers = [], em_tracker_tiers = [], em_file_names = [],
            em_file_sizes = [], em_file_offsets = [], em_file_flags = [], em_web_seeds = [],
            em_private_torrent = ti_priv ti, em_encoding = []\<rparr>;
          m1 = extract_trackers (ti_trackers ti) m0;
          m2 = extract_files (ti_files ti) m1
      in m2\<lparr>em_web_seeds := ti_web_seeds ti\<rparr>)"

section \<open>Lemmas\<close>

lemma extract_trackers_eq:
  "extract_trackers urls m = m\<lparr>em_trackers := em_trackers m @ urls, em_tracker_tiers := em_tracker_tiers m @ replicate (length urls) 0\<rparr>"
  by (induction urls m rule: extract_trackers.induct) auto

lemma extract_files_eq:
  "extract_files fs m = m\<lparr>em_file_names := em_file_names m @ map fe_path fs, em_file_sizes := em_file_sizes m @ map fe_size fs,
     em_file_offsets := em_file_offsets m @ map fe_offset fs, em_file_flags := em_file_flags m @ map (flag_str \<circ> fe_flags) fs\<rparr>"
  by (induction fs m rule: extract_files.induct) auto

text \<open>The four per-file lists are the projections of the file table, so they stay aligned.\<close>

lemma extract_lists:
  "em_file_names (extract_comprehensive_metadata ti h) = map fe_path (ti_files ti)"
  "em_file_sizes (extract_comprehensive_metadata ti h) = map fe_size (ti_files ti)"
  "em_file_offsets (extract_comprehensive_metadata ti h) = map fe_offset (ti_files ti)"
  "em_file_flags (extract_comprehensive_metadata ti h) = map (flag_str \<circ> fe_flags) (ti_files ti)"
  "em_trackers (extract_comprehensive_metadata ti h) = ti_trackers ti"
  "length (em_tracker_tiers (extract_comprehensive_metadata ti h)) = length (ti_trackers ti)"
  by (simp_all add: extract_comprehensive_metadata_def extract_trackers_eq extract_files_eq Let_def)

text \<open>The flag string determines the flags.\<close>

lemma flag_set_eqI:
  "(Flag_pad_file \<in> a \<longleftrightarrow> Flag_pad_file \<in> b) \<Longrightarrow> (Flag_executable \<in> a \<longleftrightarrow> Flag_executable \<in> b) \<Longrightarrow>
   (Flag_hidden \<in> a \<longleftrightarrow> Flag_hidden \<in> b) \<Longrightarrow> (Flag_symlink \<in> a \<longleftrightarrow> Flag_symlink \<in> b) \<Longrightarrow> a = b"
  by (rule set_eqI, case_tac x) simp_all

definition flag_list :: "bool \<Rightarrow> bool \<Rightarrow> bool \<Rightarrow> bool \<Rightarrow> string" where
  "flag_list p e h l = butlast ((if p then ''pad,'' else []) @ (if e then ''exec,'' else [])
     @ (if h then ''hidden,'' else []) @ (if l then ''symlink,'' else []))"

lemma flag_str_list:
  "flag_str fs = flag_list (Flag_pad_file \<in> fs) (Flag_executable \<in> fs) (Flag_hidden \<in> fs) (Flag_symlink \<in> fs)"
  unfolding flag_str_def flag_list_def Let_def by (simp only: append_assoc) auto

lemma flag_list_inj: "flag_list p e h l = flag_list p' e' h' l' \<Longrightarrow> p = p' \<and> e = e' \<and> h = h' \<and> l = l'"
  by (cases p; cases e; cases h; cases l; cases p'; cases e'; cases h'; cases l') (simp_all add: flag_list_def)

lemma flag_str_inj: "flag_str a = flag_str b \<longleftrightarrow> a = b"
proof
  assume "flag_str a = flag_str b"
  from flag_list_inj [OF this [unfolded flag_str_list]] show "a = b" by (intro flag_set_eqI) simp_all
qed simp

end
