(* ===== verification/Worker_Pool.thy ===== *)
theory Worker_Pool
  imports Std_Containers Hash_Format External_World State_Machine
begin

text \<open>
  \<^verbatim>\<open>MetadataWorkerPool\<close> of \<^verbatim>\<open>metadata_worker_pool.hpp\<close>: a FIFO queue filled by the main thread and emptied
  by worker threads, which add the torrents to the session and remember them as pending. Each
  worker has a program counter that separates every read of the atomic flag \<^verbatim>\<open>m_shutdown\<close>, every
  acquisition of \<^verbatim>\<open>m_queue_mutex\<close> and the two halves of waiting on the condition variable (the
  predicate is false, the thread sleeps), since \<^verbatim>\<open>shutdown\<close> sets the flag and notifies without the
  mutex. The pool's interleavings are the step relation \<open>pool_step\<close>: one section of a call of the
  main thread, or one of these sections of one worker, at a time. The pending requests are an unordered map in the source; the list order of its
  iterations is the key order here, and no theorem depends on it.
\<close>

section \<open>Definitions\<close>

record pool_request =
  pr_info_hash :: string
  pr_priority :: int
  pr_source :: string
  pr_queued_time :: time

record worker_stats =
  ws_processed :: int
  ws_successful :: int
  ws_failed :: int
  ws_timeout :: int

text \<open>
  Where a worker is in \<^verbatim>\<open>worker_thread\<close>: at the test of the \<^verbatim>\<open>while\<close>; about to lock the queue mutex (on
  entry, or after it was woken); with the mutex, about to evaluate the predicate of the \<^verbatim>\<open>wait\<close>; with
  the mutex, the predicate having been false; asleep on the condition variable; with the mutex, past
  the \<^verbatim>\<open>wait\<close>; with the mutex, past the test of the flag that precedes taking a request; outside the mutex
  with a request; returned.
\<close>

datatype worker_pc = At_loop | Locking | Testing | Falling_asleep | Asleep | Past_wait | Past_check
  | Holding pool_request | Stopped

record worker_pool =
  wp_workers :: "worker_pc list"
  wp_shutdown :: bool
  wp_request_queue :: "pool_request list"
  wp_pending_requests :: "(string, time) smap"
  wp_worker_stats :: "worker_stats list"
  wp_total_queued :: int
  wp_total_processed :: int
  wp_request_timeout_seconds :: int

definition new_worker_pool :: "nat \<Rightarrow> int \<Rightarrow> worker_pool" where
  "new_worker_pool num_workers request_timeout = \<lparr>wp_workers = replicate num_workers At_loop,
     wp_shutdown = False, wp_request_queue = [], wp_pending_requests = [],
     wp_worker_stats = replicate num_workers \<lparr>ws_processed = 0, ws_successful = 0, ws_failed = 0, ws_timeout = 0\<rparr>,
     wp_total_queued = 0, wp_total_processed = 0, wp_request_timeout_seconds = request_timeout\<rparr>"

definition queue_push :: "time \<Rightarrow> string \<Rightarrow> int \<Rightarrow> string \<Rightarrow> worker_pool \<Rightarrow> worker_pool" where
  "queue_push now info_hash priority source p = p\<lparr>wp_request_queue := wp_request_queue p @
       [\<lparr>pr_info_hash = info_hash, pr_priority = priority, pr_source = source, pr_queued_time = now\<rparr>],
     wp_total_queued := wp_total_queued p + 1\<rparr>"

definition queue_request :: "time \<Rightarrow> string \<Rightarrow> int \<Rightarrow> string \<Rightarrow> worker_pool \<Rightarrow> bool \<times> worker_pool" where
  "queue_request now info_hash priority source p =
     (if wp_shutdown p then (False, p)
      else if smap_find (wp_pending_requests p) info_hash \<noteq> None then (True, p)
      else (True, queue_push now info_hash priority source p))"

definition pool_queue_size :: "worker_pool \<Rightarrow> nat" where
  "pool_queue_size p = length (wp_request_queue p)"

definition pool_active_requests :: "worker_pool \<Rightarrow> nat" where
  "pool_active_requests p = length (wp_pending_requests p)"

definition pool_get_stats :: "worker_pool \<Rightarrow> int \<times> int \<times> int \<times> int \<times> int" where
  "pool_get_stats p = (wp_total_queued p, wp_total_processed p,
     (\<Sum>s\<leftarrow>wp_worker_stats p. ws_successful s), (\<Sum>s\<leftarrow>wp_worker_stats p. ws_failed s), (\<Sum>s\<leftarrow>wp_worker_stats p. ws_timeout s))"

definition pool_handle_metadata_received :: "string \<Rightarrow> worker_pool \<Rightarrow> worker_pool" where
  "pool_handle_metadata_received info_hash p =
     (if smap_find (wp_pending_requests p) info_hash \<noteq> None
      then p\<lparr>wp_pending_requests := smap_erase info_hash (wp_pending_requests p),
             wp_worker_stats := map (\<lambda>s. s\<lparr>ws_successful := ws_successful s + 1\<rparr>) (wp_worker_stats p)\<rparr>
      else p)"

definition pool_timed_out :: "time \<Rightarrow> worker_pool \<Rightarrow> string \<times> time \<Rightarrow> bool" where
  "pool_timed_out now p e \<longleftrightarrow> now - snd e > wp_request_timeout_seconds p * 1000000000"

definition pool_get_timed_out_requests :: "time \<Rightarrow> worker_pool \<Rightarrow> string list \<times> worker_pool" where
  "pool_get_timed_out_requests now p =
     (map fst (filter (pool_timed_out now p) (wp_pending_requests p)),
      p\<lparr>wp_pending_requests := filter (\<lambda>e. \<not> pool_timed_out now p e) (wp_pending_requests p)\<rparr>)"

fun count_timeouts :: "string list \<Rightarrow> worker_pool \<Rightarrow> worker_pool" where
  "count_timeouts [] p = p"
| "count_timeouts (h # hs) p =
     count_timeouts hs (p\<lparr>wp_worker_stats := map (\<lambda>s. s\<lparr>ws_timeout := ws_timeout s + 1\<rparr>) (wp_worker_stats p)\<rparr>)"

definition cleanup_timeouts :: "time \<Rightarrow> worker_pool \<Rightarrow> worker_pool" where
  "cleanup_timeouts now p = (case pool_get_timed_out_requests now p of (hs, p') \<Rightarrow> count_timeouts hs p')"

text \<open>One failed request of worker \<open>i\<close>.\<close>

definition worker_failed :: "nat \<Rightarrow> worker_pool \<Rightarrow> worker_pool" where
  "worker_failed i p = p\<lparr>wp_worker_stats :=
     (wp_worker_stats p)[i := (wp_worker_stats p ! i)\<lparr>ws_failed := ws_failed (wp_worker_stats p ! i) + 1\<rparr>]\<rparr>"

definition pool_params :: "'p add_torrent_params \<Rightarrow> 'p add_torrent_params" where
  "pool_params params = params\<lparr>atp_save_path := ''.'',
     atp_flags := insert Seed_mode (insert Duplicate_is_error (insert Auto_managed (atp_flags params)))\<rparr>"

definition process_metadata_request ::
  "('w, 'p, 'h) libtorrent \<Rightarrow> nat \<Rightarrow> pool_request \<Rightarrow> worker_pool \<Rightarrow> 'w \<Rightarrow> worker_pool \<times> 'w" where
  "process_metadata_request lt i request p w =
     (let hex_hash = pool_convert_hash_to_hex (pr_info_hash request)
      in if hex_hash = [] then (worker_failed i p, w)
         else case parse_magnet_uri lt (''magnet:?xt=urn:btih:'' @ hex_hash) of
             Inl ec \<Rightarrow> (worker_failed i p, w)
           | Inr params \<Rightarrow>
               (case add_torrent lt (pool_params params) w of
                  (Inl e, w1) \<Rightarrow> (worker_failed i p, w1)
                | (Inr handle, w1) \<Rightarrow>
                    if handle_is_valid lt handle w1 then
                      (let (now, w2) = steady_now lt w1
                       in (p\<lparr>wp_pending_requests := smap_update (pr_info_hash request) now (wp_pending_requests p),
                             wp_worker_stats := (wp_worker_stats p)[i := (wp_worker_stats p ! i)
                               \<lparr>ws_processed := ws_processed (wp_worker_stats p ! i) + 1\<rparr>],
                             wp_total_processed := wp_total_processed p + 1\<rparr>, w2))
                    else (worker_failed i p, w1)))"

text \<open>
  The sections of \<^verbatim>\<open>worker_thread\<close>, in the order of the code: the test of the \<^verbatim>\<open>while\<close>, the lock, the
  predicate of the \<^verbatim>\<open>wait\<close>, going to sleep (which releases the mutex), the test of the flag after the
  \<^verbatim>\<open>wait\<close> (the \<^verbatim>\<open>continue\<close> releases the mutex), taking the front request, processing it. A sleeping worker
  is woken by \<^verbatim>\<open>notify_one\<close>, by \<^verbatim>\<open>notify_all\<close> or spuriously, and then has to lock the mutex again.
\<close>

definition worker_goto :: "nat \<Rightarrow> worker_pc \<Rightarrow> worker_pool \<Rightarrow> worker_pool" where
  "worker_goto i c p = p\<lparr>wp_workers := (wp_workers p)[i := c]\<rparr>"

definition worker_loop_test :: "nat \<Rightarrow> worker_pool \<Rightarrow> worker_pool" where
  "worker_loop_test i p = worker_goto i (if wp_shutdown p then Stopped else Locking) p"

definition worker_lock :: "nat \<Rightarrow> worker_pool \<Rightarrow> worker_pool" where
  "worker_lock i p = worker_goto i Testing p"

definition worker_predicate :: "nat \<Rightarrow> worker_pool \<Rightarrow> worker_pool" where
  "worker_predicate i p =
     worker_goto i (if wp_request_queue p \<noteq> [] \<or> wp_shutdown p then Past_wait else Falling_asleep) p"

definition worker_sleep :: "nat \<Rightarrow> worker_pool \<Rightarrow> worker_pool" where
  "worker_sleep i p = worker_goto i Asleep p"

definition worker_wake :: "nat \<Rightarrow> worker_pool \<Rightarrow> worker_pool" where
  "worker_wake i p = worker_goto i Locking p"

definition worker_flag_test :: "nat \<Rightarrow> worker_pool \<Rightarrow> worker_pool" where
  "worker_flag_test i p = worker_goto i (if wp_shutdown p then At_loop else Past_check) p"

definition worker_take :: "nat \<Rightarrow> worker_pool \<Rightarrow> worker_pool" where
  "worker_take i p =
     (case wp_request_queue p of
        [] \<Rightarrow> worker_goto i At_loop p
      | r # rs \<Rightarrow> worker_goto i (Holding r) (p\<lparr>wp_request_queue := rs\<rparr>))"

definition worker_process :: "('w, 'p, 'h) libtorrent \<Rightarrow> nat \<Rightarrow> worker_pool \<Rightarrow> 'w \<Rightarrow> worker_pool \<times> 'w" where
  "worker_process lt i p w =
     (case wp_workers p ! i of
        Holding r \<Rightarrow> (case process_metadata_request lt i r p w of (p', w') \<Rightarrow> (worker_goto i At_loop p', w'))
      | _ \<Rightarrow> (p, w))"

text \<open>The program counters at which a worker holds the queue mutex.\<close>

definition locked :: "worker_pc \<Rightarrow> bool" where
  "locked c \<longleftrightarrow> c \<in> {Testing, Falling_asleep, Past_wait, Past_check}"

definition mutex_free :: "worker_pool \<Rightarrow> bool" where
  "mutex_free p \<longleftrightarrow> list_all (\<lambda>c. \<not> locked c) (wp_workers p)"

text \<open>
  \<^verbatim>\<open>shutdown\<close> in its sections: setting the flag, waking every worker that sleeps, and, once every
  worker is joined, clearing the pending requests. \<open>pool_shutdown\<close> is the whole call on one schedule:
  a worker inside the mutex leaves it before the notification, and then the workers finish in the
  order in which they are joined. What can happen on other schedules is
  stated at the end of the theory.
\<close>

definition shutdown_begin :: "worker_pool \<Rightarrow> worker_pool" where
  "shutdown_begin p = p\<lparr>wp_shutdown := True\<rparr>"

definition shutdown_notify :: "worker_pool \<Rightarrow> worker_pool" where
  "shutdown_notify p = p\<lparr>wp_workers := map (\<lambda>c. if c = Asleep then Locking else c) (wp_workers p)\<rparr>"

definition shutdown_finish :: "worker_pool \<Rightarrow> worker_pool" where
  "shutdown_finish p = p\<lparr>wp_pending_requests := []\<rparr>"

definition leave_mutex :: "nat \<Rightarrow> worker_pool \<Rightarrow> worker_pool" where
  "leave_mutex i p =
     (case wp_workers p ! i of
        Testing \<Rightarrow> worker_flag_test i (worker_predicate i p)
      | Past_wait \<Rightarrow> worker_flag_test i p
      | Falling_asleep \<Rightarrow> worker_sleep i p
      | Past_check \<Rightarrow> worker_take i p
      | _ \<Rightarrow> p)"

definition join_worker :: "('w, 'p, 'h) libtorrent \<Rightarrow> nat \<Rightarrow> worker_pool \<times> 'w \<Rightarrow> worker_pool \<times> 'w" where
  "join_worker lt i s =
     (case s of (p, w) \<Rightarrow>
        (case wp_workers p ! i of
           At_loop \<Rightarrow> (worker_loop_test i p, w)
         | Locking \<Rightarrow> (worker_loop_test i (worker_flag_test i (worker_predicate i (worker_lock i p))), w)
         | Holding r \<Rightarrow> (case worker_process lt i p w of (p', w') \<Rightarrow> (worker_loop_test i p', w'))
         | _ \<Rightarrow> (p, w)))"

definition pool_shutdown :: "('w, 'p, 'h) libtorrent \<Rightarrow> worker_pool \<Rightarrow> 'w \<Rightarrow> worker_pool \<times> 'w" where
  "pool_shutdown lt p w =
     (if wp_shutdown p then (p, w)
      else case fold (join_worker lt) [0..<length (wp_workers p)]
                  (shutdown_notify (fold leave_mutex [0..<length (wp_workers p)] (shutdown_begin p)), w) of
             (p', w') \<Rightarrow> (shutdown_finish p', w'))"

definition all_stopped :: "worker_pool \<Rightarrow> bool" where
  "all_stopped p \<longleftrightarrow> list_all (\<lambda>c. c = Stopped) (wp_workers p)"

section \<open>The machine\<close>

text \<open>
  What a worker does by itself, and, with the wake-ups that need no notification, what can happen to
  a worker. \<^verbatim>\<open>queue_request\<close> is one step when nothing happens between its sections; when something
  does, its tests were made earlier and the section under the mutex is a step of its own.
\<close>

inductive worker_own_step :: "('w, 'p, 'h) libtorrent \<Rightarrow> worker_pool \<Rightarrow> worker_pool \<Rightarrow> bool"
  for lt :: "('w, 'p, 'h) libtorrent" where
  loop_test: "i < length (wp_workers p) \<Longrightarrow> wp_workers p ! i = At_loop \<Longrightarrow> worker_own_step lt p (worker_loop_test i p)"
| lock: "i < length (wp_workers p) \<Longrightarrow> wp_workers p ! i = Locking \<Longrightarrow> mutex_free p \<Longrightarrow>
    worker_own_step lt p (worker_lock i p)"
| test_predicate: "i < length (wp_workers p) \<Longrightarrow> wp_workers p ! i = Testing \<Longrightarrow> worker_own_step lt p (worker_predicate i p)"
| sleep: "i < length (wp_workers p) \<Longrightarrow> wp_workers p ! i = Falling_asleep \<Longrightarrow> worker_own_step lt p (worker_sleep i p)"
| flag_test: "i < length (wp_workers p) \<Longrightarrow> wp_workers p ! i = Past_wait \<Longrightarrow> worker_own_step lt p (worker_flag_test i p)"
| take: "i < length (wp_workers p) \<Longrightarrow> wp_workers p ! i = Past_check \<Longrightarrow> worker_own_step lt p (worker_take i p)"
| process: "i < length (wp_workers p) \<Longrightarrow> wp_workers p ! i = Holding r \<Longrightarrow>
    worker_own_step lt p (fst (worker_process lt i p w))"

inductive pool_worker_step :: "('w, 'p, 'h) libtorrent \<Rightarrow> worker_pool \<Rightarrow> worker_pool \<Rightarrow> bool"
  for lt :: "('w, 'p, 'h) libtorrent" where
  own: "worker_own_step lt p p' \<Longrightarrow> pool_worker_step lt p p'"
| wake: "i < length (wp_workers p) \<Longrightarrow> wp_workers p ! i = Asleep \<Longrightarrow> pool_worker_step lt p (worker_wake i p)"

inductive pool_step :: "('w, 'p, 'h) libtorrent \<Rightarrow> worker_pool \<Rightarrow> worker_pool \<Rightarrow> bool"
  for lt :: "('w, 'p, 'h) libtorrent" where
  worker: "pool_worker_step lt p p' \<Longrightarrow> pool_step lt p p'"
| queue: "mutex_free p \<Longrightarrow> pool_step lt p (snd (queue_request now h pr s p))"
| push: "mutex_free p \<Longrightarrow> pool_step lt p (queue_push now h pr s p)"
| received: "pool_step lt p (pool_handle_metadata_received h p)"
| timed_out: "pool_step lt p (snd (pool_get_timed_out_requests now p))"
| cleanup: "pool_step lt p (cleanup_timeouts now p)"
| begin_shutdown: "pool_step lt p (shutdown_begin p)"
| notify: "pool_step lt p (shutdown_notify p)"
| finish_shutdown: "wp_shutdown p \<Longrightarrow> all_stopped p \<Longrightarrow> pool_step lt p (shutdown_finish p)"

section \<open>The invariant\<close>

definition holding :: "worker_pc \<Rightarrow> bool" where
  "holding c \<longleftrightarrow> (\<exists>r. c = Holding r)"

definition in_flight :: "worker_pool \<Rightarrow> nat" where
  "in_flight p = length (filter holding (wp_workers p))"

definition total_failed :: "worker_pool \<Rightarrow> int" where
  "total_failed p = (\<Sum>s\<leftarrow>wp_worker_stats p. ws_failed s)"

definition pool_ok :: "worker_pool \<Rightarrow> bool" where
  "pool_ok p \<longleftrightarrow> length (wp_worker_stats p) = length (wp_workers p)
     \<and> smap_ok (wp_pending_requests p)
     \<and> length (filter locked (wp_workers p)) \<le> 1
     \<and> wp_total_queued p = wp_total_processed p + total_failed p + int (pool_queue_size p) + int (in_flight p)"

lemmas pool_defs = pool_ok_def total_failed_def pool_queue_size_def in_flight_def

lemma holding_simps [simp]:
  "holding (Holding r)" "\<not> holding At_loop" "\<not> holding Locking" "\<not> holding Testing" "\<not> holding Falling_asleep"
  "\<not> holding Asleep" "\<not> holding Past_wait" "\<not> holding Past_check" "\<not> holding Stopped"
  by (auto simp: holding_def)

lemma locked_simps [simp]:
  "\<not> locked (Holding r)" "\<not> locked At_loop" "\<not> locked Locking" "locked Testing" "locked Falling_asleep"
  "\<not> locked Asleep" "locked Past_wait" "locked Past_check" "\<not> locked Stopped"
  by (auto simp: locked_def)

lemma worker_goto_fields [simp]:
  "wp_workers (worker_goto i c p) = (wp_workers p)[i := c]"
  "wp_shutdown (worker_goto i c p) = wp_shutdown p"
  "wp_request_queue (worker_goto i c p) = wp_request_queue p"
  "wp_pending_requests (worker_goto i c p) = wp_pending_requests p"
  "wp_worker_stats (worker_goto i c p) = wp_worker_stats p"
  "wp_total_queued (worker_goto i c p) = wp_total_queued p"
  "wp_total_processed (worker_goto i c p) = wp_total_processed p"
  by (simp_all add: worker_goto_def)

lemmas worker_sections = worker_loop_test_def worker_lock_def worker_predicate_def worker_sleep_def worker_wake_def
  worker_flag_test_def

lemma process_metadata_request_cases:
  assumes "process_metadata_request lt i r p w = (p', w')"
  obtains (failed) "p' = worker_failed i p"
  | (started) now where "p' = p\<lparr>wp_pending_requests := smap_update (pr_info_hash r) now (wp_pending_requests p),
        wp_worker_stats := (wp_worker_stats p)[i := (wp_worker_stats p ! i)\<lparr>ws_processed := ws_processed (wp_worker_stats p ! i) + 1\<rparr>],
        wp_total_processed := wp_total_processed p + 1\<rparr>"
  using assms
  by (auto simp: process_metadata_request_def Let_def split: if_splits sum.splits prod.splits)

lemma count_timeouts_fields [simp]:
  "wp_workers (count_timeouts hs p) = wp_workers p"
  "wp_pending_requests (count_timeouts hs p) = wp_pending_requests p"
  "wp_request_queue (count_timeouts hs p) = wp_request_queue p"
  "wp_total_queued (count_timeouts hs p) = wp_total_queued p"
  "wp_total_processed (count_timeouts hs p) = wp_total_processed p"
  "wp_shutdown (count_timeouts hs p) = wp_shutdown p"
  "length (wp_worker_stats (count_timeouts hs p)) = length (wp_worker_stats p)"
  "wp_request_timeout_seconds (count_timeouts hs p) = wp_request_timeout_seconds p"
  by (induction hs arbitrary: p) auto

lemma count_timeouts_failed [simp]: "total_failed (count_timeouts hs p) = total_failed p"
  by (induction hs arbitrary: p) (simp_all add: total_failed_def comp_def)

lemma mutex_free_filter: "mutex_free p \<longleftrightarrow> filter locked (wp_workers p) = []"
  by (auto simp: mutex_free_def list_all_iff filter_empty_conv)

text \<open>A worker's move that neither takes nor processes a request keeps the invariant when it does not
  acquire the mutex, or finds it free.\<close>

lemma pool_ok_goto:
  assumes "pool_ok p" "i < length (wp_workers p)" "\<not> holding (wp_workers p ! i)" "\<not> holding c"
    "locked c \<Longrightarrow> locked (wp_workers p ! i) \<or> mutex_free p"
  shows "pool_ok (worker_goto i c p)"
  using assms filter_length_update [of i "wp_workers p" holding c] filter_length_update [of i "wp_workers p" locked c]
  by (auto simp: pool_defs mutex_free_filter split: if_splits)

lemma pool_ok_take:
  assumes ok: "pool_ok p" and i: "i < length (wp_workers p)" "wp_workers p ! i = Past_check"
  shows "pool_ok (worker_take i p)"
proof (cases "wp_request_queue p")
  case Nil
  with assms show ?thesis by (simp add: worker_take_def pool_ok_goto)
next
  case (Cons r rs)
  with i ok filter_length_update [OF i(1), of holding "Holding r"] filter_length_update [OF i(1), of locked "Holding r"]
  show ?thesis by (simp add: pool_defs worker_take_def)
qed

lemma pool_ok_process:
  assumes ok: "pool_ok p" and i: "i < length (wp_workers p)" and r: "wp_workers p ! i = Holding r"
  shows "pool_ok (fst (worker_process lt i p w))"
proof -
  obtain p1 w1 where pr: "process_metadata_request lt i r p w = (p1, w1)" by (metis surj_pair)
  have p': "fst (worker_process lt i p w) = worker_goto i At_loop p1" using r pr by (simp add: worker_process_def)
  have st: "i < length (wp_worker_stats p)" using ok i by (simp add: pool_ok_def)
  note fl = filter_length_update [OF i, of holding At_loop] filter_length_update [OF i, of locked At_loop]
  from pr show ?thesis unfolding p'
  proof (cases rule: process_metadata_request_cases)
    case failed
    with ok fl r st show "pool_ok (worker_goto i At_loop p1)" by (simp add: pool_defs worker_failed_def sum_list_update_int)
  next
    case (started now)
    with ok fl r st show "pool_ok (worker_goto i At_loop p1)" by (simp add: pool_defs sum_list_update_int)
  qed
qed

lemma pool_ok_own_step: "worker_own_step lt p p' \<Longrightarrow> pool_ok p \<Longrightarrow> pool_ok p'"
  by (induction rule: worker_own_step.induct) (auto simp: worker_sections pool_ok_take pool_ok_process intro!: pool_ok_goto)

lemma pool_ok_worker_step: "pool_worker_step lt p p' \<Longrightarrow> pool_ok p \<Longrightarrow> pool_ok p'"
  by (induction rule: pool_worker_step.induct) (auto simp: worker_wake_def intro: pool_ok_own_step pool_ok_goto)

lemma filter_notify:
  "length (filter holding (map (\<lambda>c. if c = Asleep then Locking else c) cs)) = length (filter holding cs)"
  "length (filter locked (map (\<lambda>c. if c = Asleep then Locking else c) cs)) = length (filter locked cs)"
  by (induction cs) auto

lemma pool_ok_main_ops:
  assumes "pool_ok p"
  shows "pool_ok (snd (queue_request now h pr s p))"
    and "pool_ok (queue_push now h pr s p)"
    and "pool_ok (pool_handle_metadata_received h p)"
    and "pool_ok (snd (pool_get_timed_out_requests now p))"
    and "pool_ok (shutdown_begin p)"
    and "pool_ok (shutdown_finish p)"
  using assms
  by (auto simp: pool_defs queue_request_def queue_push_def pool_handle_metadata_received_def pool_get_timed_out_requests_def
      shutdown_begin_def shutdown_finish_def comp_def smap_ok_filter)

lemma pool_ok_notify: "pool_ok p \<Longrightarrow> pool_ok (shutdown_notify p)"
  using filter_notify [of "wp_workers p"] by (simp add: pool_defs shutdown_notify_def del: filter_map)

lemma pool_ok_count_timeouts: "pool_ok (count_timeouts hs p) = pool_ok p"
  by (simp add: pool_ok_def pool_queue_size_def in_flight_def)

lemma pool_ok_cleanup: "pool_ok p \<Longrightarrow> pool_ok (cleanup_timeouts now p)"
  using pool_ok_main_ops(4) [of p now] by (auto simp: cleanup_timeouts_def pool_ok_count_timeouts split: prod.splits)

lemma pool_ok_step: "pool_step lt p p' \<Longrightarrow> pool_ok p \<Longrightarrow> pool_ok p'"
  by (induction rule: pool_step.induct) (simp_all add: pool_ok_main_ops pool_ok_notify pool_ok_cleanup pool_ok_worker_step)

lemma pool_ok_new: "pool_ok (new_worker_pool n t)"
  by (simp add: pool_defs new_worker_pool_def sum_list_replicate)

interpretation wp: invariant_system "\<lambda>p. \<exists>n t. p = new_worker_pool n t" "pool_step lt" pool_ok
  for lt :: "('w, 'p, 'h) libtorrent"
  by unfold_locales (auto intro: pool_ok_step pool_ok_new)

section \<open>Shutdown\<close>

text \<open>
  The steps a worker can still make once the flag is set: one that has passed the test of the flag
  takes a request and processes it, one that has found the predicate false goes to sleep, and every
  other one leaves the loop at the next test it reaches.
\<close>

definition remaining_steps :: "worker_pc \<Rightarrow> nat" where
  "remaining_steps c = (case c of Falling_asleep \<Rightarrow> 6 | Asleep \<Rightarrow> 5 | Locking \<Rightarrow> 4 | Testing \<Rightarrow> 3 | Past_check \<Rightarrow> 3
     | Past_wait \<Rightarrow> 2 | Holding r \<Rightarrow> 2 | At_loop \<Rightarrow> 1 | Stopped \<Rightarrow> 0)"

definition shutdown_measure :: "worker_pool \<Rightarrow> nat" where
  "shutdown_measure p = (\<Sum>c\<leftarrow>wp_workers p. remaining_steps c)"

definition resting :: "worker_pool \<Rightarrow> bool" where
  "resting p \<longleftrightarrow> list_all (\<lambda>c. c = Stopped \<or> c = Asleep) (wp_workers p)"

lemma remaining_simps [simp]:
  "remaining_steps Falling_asleep = 6" "remaining_steps Asleep = 5" "remaining_steps Locking = 4"
  "remaining_steps Testing = 3" "remaining_steps Past_check = 3" "remaining_steps Past_wait = 2"
  "remaining_steps (Holding r) = 2" "remaining_steps At_loop = 1" "remaining_steps Stopped = 0"
  by (simp_all add: remaining_steps_def)

lemma shutdown_measure_bound: "shutdown_measure p \<le> 6 * length (wp_workers p)"
  unfolding shutdown_measure_def
  by (rule sum_list_le_bound) (simp add: remaining_steps_def split: worker_pc.splits)

lemma process_metadata_request_frame:
  assumes "process_metadata_request lt i r p w = (p', w')"
  shows "wp_workers p' = wp_workers p \<and> wp_shutdown p' = wp_shutdown p \<and> wp_request_queue p' = wp_request_queue p"
  using assms by (cases rule: process_metadata_request_cases) (auto simp: worker_failed_def)

text \<open>What a step of a worker does to the counters, the flag and the queue: one counter moves, and
  only \<open>worker_take\<close> changes the queue.\<close>

lemma worker_process_frame:
  assumes "wp_workers p ! i = Holding r"
  shows "wp_workers (fst (worker_process lt i p w)) = (wp_workers p)[i := At_loop]"
    "wp_shutdown (fst (worker_process lt i p w)) = wp_shutdown p"
    "wp_request_queue (fst (worker_process lt i p w)) = wp_request_queue p"
  using assms by (auto simp: worker_process_def dest: process_metadata_request_frame split: prod.splits)

lemma pool_worker_step_move:
  assumes "pool_worker_step lt p q"
  obtains i c where "i < length (wp_workers p)" "wp_workers q = (wp_workers p)[i := c]" "wp_shutdown q = wp_shutdown p"
    "wp_request_queue q = (if wp_workers p ! i = Past_check then tl (wp_request_queue p) else wp_request_queue p)"
    "wp_shutdown p \<Longrightarrow> remaining_steps c < remaining_steps (wp_workers p ! i)"
    "wp_shutdown p \<Longrightarrow> c \<noteq> Past_check \<and> c \<noteq> Falling_asleep"
    "c = Asleep \<longleftrightarrow> wp_workers p ! i = Falling_asleep"
  using assms
proof (cases rule: pool_worker_step.cases)
  case own
  from own show thesis
  proof (cases rule: worker_own_step.cases)
    case (take i)
    then show thesis using that [of i] by (cases "wp_request_queue p") (auto simp: worker_take_def)
  next
    case (process i r w)
    then show thesis using that [of i At_loop] by (simp add: worker_process_frame)
  qed (use that in \<open>auto simp: worker_sections split: if_splits\<close>)
next
  case (wake i)
  then show thesis using that [of i Locking]
    by (simp add: worker_wake_def)
qed

lemma own_step_keeps_asleep:
  assumes "worker_own_step lt p q" "wp_workers p ! k = Asleep"
  shows "wp_workers q ! k = Asleep"
  using assms
proof (cases rule: worker_own_step.cases)
  case (take i)
  then have "i \<noteq> k" using assms(2) by auto
  with take assms(2) show ?thesis by (simp add: worker_take_def split: list.splits)
next
  case (process i r w)
  then have "i \<noteq> k" using assms(2) by auto
  with process assms(2) show ?thesis by (simp add: worker_process_frame)
qed (use assms(2) in \<open>auto simp: worker_sections nth_list_update\<close>)

lemma own_keeps_asleep_steps: "(worker_own_step lt)\<^sup>*\<^sup>* p q \<Longrightarrow> wp_workers p ! k = Asleep \<Longrightarrow> wp_workers q ! k = Asleep"
  by (induction rule: rtranclp_induct) (auto intro: own_step_keeps_asleep)

lemma shutdown_worker_step:
  assumes "pool_worker_step lt p q" "wp_shutdown p"
  shows "wp_shutdown q \<and> shutdown_measure q < shutdown_measure p"
proof -
  from assms(1) obtain i c where m: "i < length (wp_workers p)" "wp_workers q = (wp_workers p)[i := c]"
      "wp_shutdown q = wp_shutdown p" "remaining_steps c < remaining_steps (wp_workers p ! i)"
    by (rule pool_worker_step_move) (use assms(2) in blast)
  with sum_list_nat_update [OF m(1), of remaining_steps c] assms(2) show ?thesis by (simp add: shutdown_measure_def)
qed

text \<open>A worker that is neither stopped nor asleep keeps the workers moving: it moves itself, or it
  waits for the mutex and the worker inside moves.\<close>

lemma own_step_enabled:
  assumes "\<not> resting q"
  shows "\<exists>q'. worker_own_step lt q q'"
proof (cases "mutex_free q")
  case True
  from assms obtain i where i: "i < length (wp_workers q)" "wp_workers q ! i \<noteq> Stopped" "wp_workers q ! i \<noteq> Asleep"
    by (auto simp: resting_def list_all_length)
  moreover have "\<not> locked (wp_workers q ! i)" using True i(1) by (simp add: mutex_free_def list_all_length)
  ultimately show ?thesis
    by (cases "wp_workers q ! i") (use True in \<open>auto intro: worker_own_step.intros\<close>)
next
  case False
  then obtain i where "i < length (wp_workers q)" "locked (wp_workers q ! i)" by (auto simp: mutex_free_def list_all_length)
  then show ?thesis by (cases "wp_workers q ! i") (auto intro: worker_own_step.intros)
qed

lemma resting_no_own_step: "resting q \<Longrightarrow> \<not> worker_own_step lt q q'"
  by (auto simp: resting_def list_all_length elim!: worker_own_step.cases)

lemma shutdown_worker_enabled:
  assumes "\<not> all_stopped q"
  shows "\<exists>q'. pool_worker_step lt q q'"
proof (cases "resting q")
  case True
  with assms obtain i where "i < length (wp_workers q)" "wp_workers q ! i = Asleep"
    by (auto simp: resting_def all_stopped_def list_all_length)
  then show ?thesis by (blast intro: pool_worker_step.wake)
next
  case False
  then show ?thesis using own_step_enabled [of q lt] by (blast intro: pool_worker_step.own)
qed

lemma all_stopped_no_step: "all_stopped q \<Longrightarrow> \<not> pool_worker_step lt q q'"
  by (auto simp: all_stopped_def list_all_length elim!: pool_worker_step.cases worker_own_step.cases)

interpretation wp_drain: draining_system "pool_worker_step lt" wp_shutdown shutdown_measure all_stopped
  for lt :: "('w, 'p, 'h) libtorrent"
  by unfold_locales (auto dest: shutdown_worker_step all_stopped_no_step intro: shutdown_worker_enabled)

interpretation wp_own: draining_system "worker_own_step lt" wp_shutdown shutdown_measure resting
  for lt :: "('w, 'p, 'h) libtorrent"
  by unfold_locales (auto dest: shutdown_worker_step pool_worker_step.own resting_no_own_step intro: own_step_enabled)

text \<open>
  What a run can do once the flag is set: the workers asleep or about to be do not become more, and
  a request is taken only by a worker that was past the test of the flag.
\<close>

definition count_pc :: "(worker_pc \<Rightarrow> bool) \<Rightarrow> worker_pool \<Rightarrow> nat" where
  "count_pc P p = length (filter P (wp_workers p))"

definition sleepy :: "worker_pc \<Rightarrow> bool" where
  "sleepy c \<longleftrightarrow> c = Falling_asleep \<or> c = Asleep"

definition drained_from :: "worker_pool \<Rightarrow> worker_pool \<Rightarrow> bool" where
  "drained_from p q \<longleftrightarrow> wp_shutdown q \<and> count_pc sleepy q \<le> count_pc sleepy p
     \<and> (\<exists>k. k + count_pc (\<lambda>c. c = Past_check) q \<le> count_pc (\<lambda>c. c = Past_check) p
          \<and> wp_request_queue q = drop k (wp_request_queue p))"

lemma drained_from_step:
  assumes "pool_worker_step lt p q" "wp_shutdown p"
  shows "drained_from p q"
proof -
  from assms(1) obtain i c where m: "i < length (wp_workers p)" "wp_workers q = (wp_workers p)[i := c]"
      "wp_shutdown q = wp_shutdown p"
      "wp_request_queue q = (if wp_workers p ! i = Past_check then tl (wp_request_queue p) else wp_request_queue p)"
      "c \<noteq> Past_check \<and> c \<noteq> Falling_asleep" "c = Asleep \<longleftrightarrow> wp_workers p ! i = Falling_asleep"
    by (rule pool_worker_step_move) (use assms(2) in blast)
  have "count_pc sleepy q \<le> count_pc sleepy p"
    using filter_length_update [OF m(1), of sleepy c] m by (auto simp: count_pc_def sleepy_def split: if_splits)
  moreover have "(if wp_workers p ! i = Past_check then 1 else 0) + count_pc (\<lambda>c. c = Past_check) q
      \<le> count_pc (\<lambda>c. c = Past_check) p"
    using filter_length_update [OF m(1), of "\<lambda>c. c = Past_check" c] m(2,5) by (auto simp: count_pc_def split: if_splits)
  moreover have "wp_request_queue q = drop (if wp_workers p ! i = Past_check then 1 else 0) (wp_request_queue p)"
    using m(4) by (simp add: drop_Suc)
  ultimately show ?thesis using m(3) assms(2) unfolding drained_from_def by blast
qed

lemma drained_from_trans:
  assumes "drained_from p q" "drained_from q r"
  shows "drained_from p r"
proof -
  let ?n = "count_pc (\<lambda>c. c = Past_check)"
  from assms obtain j k where "j + ?n q \<le> ?n p" "wp_request_queue q = drop j (wp_request_queue p)"
      "k + ?n r \<le> ?n q" "wp_request_queue r = drop k (wp_request_queue q)"
    by (auto simp: drained_from_def)
  then have "(k + j) + ?n r \<le> ?n p \<and> wp_request_queue r = drop (k + j) (wp_request_queue p)" by simp
  moreover have "wp_shutdown r" "count_pc sleepy r \<le> count_pc sleepy p" using assms by (simp_all add: drained_from_def)
  ultimately show ?thesis unfolding drained_from_def by blast
qed

lemma drained_from_run: "(pool_worker_step lt)\<^sup>*\<^sup>* p q \<Longrightarrow> wp_shutdown p \<Longrightarrow> drained_from p q"
proof (induction rule: rtranclp_induct)
  case base
  then show ?case by (auto simp: drained_from_def intro: exI [of _ 0])
next
  case (step q r)
  then have "drained_from p q" "drained_from q r" using drained_from_step [of lt q r] by (auto simp: drained_from_def)
  then show ?case by (rule drained_from_trans)
qed

text \<open>The schedule of \<open>pool_shutdown\<close>: every move is a step of a worker, the workers are out of the mutex
  before the notification, and each join leaves its worker stopped and the others where they were.\<close>

lemma pool_workers_rtranclp: "(pool_worker_step lt)\<^sup>*\<^sup>* p q \<Longrightarrow> (pool_step lt)\<^sup>*\<^sup>* p q"
  by (induction rule: rtranclp_induct) (auto intro: rtranclp.rtrancl_into_rtrancl pool_step.worker)

lemma own_steps_pool: "(worker_own_step lt)\<^sup>*\<^sup>* p q \<Longrightarrow> (pool_worker_step lt)\<^sup>*\<^sup>* p q"
  by (induction rule: rtranclp_induct) (auto intro: rtranclp.rtrancl_into_rtrancl pool_worker_step.own)

lemma leave_mutex_spec:
  assumes "wp_shutdown p" "i < length (wp_workers p)"
  shows "(worker_own_step lt)\<^sup>*\<^sup>* p (leave_mutex i p) \<and> wp_shutdown (leave_mutex i p)
     \<and> (\<exists>c. \<not> locked c \<and> wp_workers (leave_mutex i p) = (wp_workers p)[i := c])"
proof (cases "wp_workers p ! i")
  case Testing
  let ?q = "worker_goto i Past_wait p"
  have "worker_own_step lt p ?q" using worker_own_step.test_predicate [OF assms(2) Testing, of lt] assms(1)
    by (simp add: worker_predicate_def)
  moreover have "worker_own_step lt ?q (worker_flag_test i ?q)" using assms(2) by (intro worker_own_step.flag_test) simp_all
  ultimately have "(worker_own_step lt)\<^sup>*\<^sup>* p (worker_flag_test i ?q)" by (rule two_steps)
  with Testing assms show ?thesis by (auto simp: leave_mutex_def worker_sections intro!: exI [of _ At_loop])
next
  case Past_wait
  from worker_own_step.flag_test [OF assms(2) this, of lt] Past_wait assms show ?thesis
    by (auto simp: leave_mutex_def worker_sections intro!: exI [of _ At_loop])
next
  case Falling_asleep
  from worker_own_step.sleep [OF assms(2) this, of lt] Falling_asleep assms show ?thesis
    by (auto simp: leave_mutex_def worker_sections intro!: exI [of _ Asleep])
next
  case Past_check
  from worker_own_step.take [OF assms(2) this, of lt] Past_check assms show ?thesis
    by (cases "wp_request_queue p")
      (auto simp: leave_mutex_def worker_take_def intro: exI [of _ At_loop] exI [of _ "Holding r" for r])
qed (use assms list_update_id [of "wp_workers p" i] in \<open>auto simp: leave_mutex_def intro!: exI [of _ "wp_workers p ! i"]\<close>)

lemma fold_leave_mutex_spec:
  assumes "wp_shutdown p" "set is \<subseteq> {..<length (wp_workers p)}"
  shows "(worker_own_step lt)\<^sup>*\<^sup>* p (fold leave_mutex is p) \<and> wp_shutdown (fold leave_mutex is p)
     \<and> length (wp_workers (fold leave_mutex is p)) = length (wp_workers p)
     \<and> (\<forall>i < length (wp_workers p). i \<in> set is \<or> \<not> locked (wp_workers p ! i) \<longrightarrow> \<not> locked (wp_workers (fold leave_mutex is p) ! i))"
  using assms
proof (induction "is" arbitrary: p)
  case (Cons i "is")
  obtain c where sp: "(worker_own_step lt)\<^sup>*\<^sup>* p (leave_mutex i p)" "wp_shutdown (leave_mutex i p)" "\<not> locked c"
      "wp_workers (leave_mutex i p) = (wp_workers p)[i := c]"
    using leave_mutex_spec [of p i lt] Cons.prems by auto
  have "\<not> locked (wp_workers (leave_mutex i p) ! k)" if "k < length (wp_workers p)" "k = i \<or> \<not> locked (wp_workers p ! k)" for k
    using that sp by (cases "k = i") auto
  with Cons.IH [of "leave_mutex i p"] sp Cons.prems show ?case by (auto intro: rtranclp_trans)
qed simp

definition awake :: "worker_pool \<Rightarrow> bool" where
  "awake p \<longleftrightarrow> list_all (\<lambda>c. \<not> locked c \<and> c \<noteq> Asleep) (wp_workers p)"

lemma awake_update: "awake p \<Longrightarrow> wp_workers q = (wp_workers p)[i := Stopped] \<Longrightarrow> awake q"
  by (auto simp: awake_def list_all_iff dest: set_update_subset_insert [THEN subsetD])

lemma join_worker_spec:
  assumes "join_worker lt i (p, w) = (p', w')" "wp_shutdown p" "i < length (wp_workers p)" "awake p"
  shows "(worker_own_step lt)\<^sup>*\<^sup>* p p' \<and> wp_workers p' = (wp_workers p)[i := Stopped] \<and> wp_shutdown p'"
proof (cases "wp_workers p ! i")
  case At_loop
  with assms worker_own_step.loop_test [OF assms(3) At_loop, of lt] show ?thesis
    by (auto simp: join_worker_def worker_sections)
next
  case Locking
  let ?p1 = "worker_goto i Testing p" and ?p2 = "worker_goto i Past_wait (worker_goto i Testing p)"
  let ?p3 = "worker_goto i At_loop ?p2"
  have "mutex_free p" using assms(4) by (simp add: awake_def mutex_free_def list_all_iff)
  with Locking assms(3) have "worker_own_step lt p ?p1" by (metis worker_own_step.lock worker_lock_def)
  moreover have "worker_own_step lt ?p1 ?p2"
    using worker_own_step.test_predicate [of i ?p1 lt] assms(2,3) by (simp add: worker_predicate_def)
  moreover have "worker_own_step lt ?p2 ?p3"
    using worker_own_step.flag_test [of i ?p2 lt] assms(2,3) by (simp add: worker_flag_test_def)
  moreover have "worker_own_step lt ?p3 (worker_goto i Stopped ?p3)"
    using worker_own_step.loop_test [of i ?p3 lt] assms(2,3) by (simp add: worker_loop_test_def)
  moreover have "p' = worker_goto i Stopped ?p3" using assms(1,2) Locking by (simp add: join_worker_def worker_sections)
  ultimately have "(worker_own_step lt)\<^sup>*\<^sup>* p p'" using rtranclp_trans [OF two_steps two_steps] by simp
  with \<open>p' = _\<close> assms(2) show ?thesis by simp
next
  case (Holding r)
  let ?q = "fst (worker_process lt i p w)"
  have q: "wp_workers ?q = (wp_workers p)[i := At_loop]" "wp_shutdown ?q" using assms Holding by (simp_all add: worker_process_frame)
  have "worker_own_step lt p ?q" by (rule worker_own_step.process [OF assms(3) Holding])
  moreover have "worker_own_step lt ?q (worker_loop_test i ?q)" using q assms(3) by (intro worker_own_step.loop_test) simp_all
  moreover have "p' = worker_loop_test i ?q" using assms(1) Holding by (simp add: join_worker_def split: prod.splits)
  ultimately have "(worker_own_step lt)\<^sup>*\<^sup>* p p'" using two_steps by simp
  with \<open>p' = _\<close> q show ?thesis by (simp add: worker_loop_test_def)
next
  case Stopped
  with assms show ?thesis by (simp add: join_worker_def) (metis list_update_id)
qed (use assms(3,4) in \<open>auto simp: awake_def list_all_length\<close>)

lemma fold_join_worker_spec:
  assumes "fold (join_worker lt) is (p, w) = (p', w')" "wp_shutdown p" "set is \<subseteq> {..<length (wp_workers p)}" "awake p"
  shows "(worker_own_step lt)\<^sup>*\<^sup>* p p' \<and> length (wp_workers p') = length (wp_workers p) \<and> wp_shutdown p'
     \<and> (\<forall>i < length (wp_workers p). i \<in> set is \<or> wp_workers p ! i = Stopped \<longrightarrow> wp_workers p' ! i = Stopped)"
  using assms
proof (induction "is" arbitrary: p w)
  case (Cons i "is")
  obtain q v where j: "join_worker lt i (p, w) = (q, v)" by (metis surj_pair)
  have sp: "(worker_own_step lt)\<^sup>*\<^sup>* p q \<and> wp_workers q = (wp_workers p)[i := Stopped] \<and> wp_shutdown q"
    by (rule join_worker_spec [OF j]) (use Cons in simp_all)
  have "fold (join_worker lt) is (q, v) = (p', w')" "set is \<subseteq> {..<length (wp_workers q)}"
    using Cons.prems j sp by auto
  moreover have "awake q" using awake_update [OF Cons.prems(4)] sp by blast
  ultimately have ih: "(worker_own_step lt)\<^sup>*\<^sup>* q p' \<and> length (wp_workers p') = length (wp_workers q) \<and> wp_shutdown p'
     \<and> (\<forall>i < length (wp_workers q). i \<in> set is \<or> wp_workers q ! i = Stopped \<longrightarrow> wp_workers p' ! i = Stopped)"
    using Cons.IH sp by blast
  have "wp_workers q ! k = Stopped" if "k < length (wp_workers p)" "k = i \<or> wp_workers p ! k = Stopped" for k
    using that sp by (cases "k = i") auto
  with ih sp show ?case by (auto intro: rtranclp_trans)
qed simp

lemma queue_notify: "wp_request_queue (shutdown_notify p) = wp_request_queue p"
  by (simp add: shutdown_notify_def)

lemma count_sleepy_notify: "count_pc sleepy (shutdown_notify p) = count_pc (\<lambda>c. c = Falling_asleep) p"
proof -
  have "length (filter sleepy (map (\<lambda>c. if c = Asleep then Locking else c) cs)) = length (filter (\<lambda>c. c = Falling_asleep) cs)" for cs
    by (induction cs) (auto simp: sleepy_def)
  then show ?thesis by (simp add: count_pc_def shutdown_notify_def del: filter_map)
qed

lemma count_check_notify: "count_pc (\<lambda>c. c = Past_check) (shutdown_notify p) = count_pc (\<lambda>c. c = Past_check) p"
proof -
  have "length (filter (\<lambda>c. c = Past_check) (map (\<lambda>c. if c = Asleep then Locking else c) cs))
      = length (filter (\<lambda>c. c = Past_check) cs)" for cs
    by (induction cs) auto
  then show ?thesis by (simp add: count_pc_def shutdown_notify_def del: filter_map)
qed

section \<open>Properties\<close>

text \<open>C5: No request is lost or counted twice under any interleaving of the main thread's calls
  with any number of workers: in every reachable state of the pool the number of queued requests
  reported by \<^verbatim>\<open>get_stats\<close> is the sum of the processed ones, the failed ones, those still in the queue
  and those a worker is holding.\<close>

theorem pool_conservation:
  "reachable (\<lambda>p. \<exists>n t. p = new_worker_pool n t) (pool_step lt) p \<Longrightarrow>
   (case pool_get_stats p of (total_queued, total_processed, successful, failed, timeout) \<Rightarrow>
      total_queued = total_processed + failed + int (pool_queue_size p) + int (in_flight p))"
  by (drule wp.inv_reachable) (simp add: pool_ok_def pool_get_stats_def total_failed_def)

theorem pool_conservation_witness:
  "case pool_get_stats (snd (queue_request 0 ''ab'' 1 ''DHT'' (new_worker_pool 2 20))) of
     (total_queued, total_processed, successful, failed, timeout) \<Rightarrow>
      total_queued = total_processed + failed
        + int (pool_queue_size (snd (queue_request 0 ''ab'' 1 ''DHT'' (new_worker_pool 2 20))))
        + int (in_flight (snd (queue_request 0 ''ab'' 1 ''DHT'' (new_worker_pool 2 20))))"
  by (rule pool_conservation [where lt = demo_lt])
    (rule reachable.move, rule reachable.start, blast, rule pool_step.queue,
      simp add: mutex_free_def new_worker_pool_def list_all_iff)

text \<open>C12: What follows the \<^verbatim>\<open>notify_all\<close> of \<^verbatim>\<open>shutdown\<close>, which is called without the queue mutex, in any reachable state
  and under any interleaving of the workers: no run of worker steps, wake-ups included, is longer
  than six times the number of workers; the workers can do nothing more of their own exactly when
  each of them has left its loop or sleeps; at most one of them sleeps, and only if one had found the
  queue empty and was about to sleep when the notification was sent, so without such a worker the
  joins return; and at most one request is still taken from the queue, and only if a worker had
  already passed the test of the flag.\<close>

theorem pool_shutdown_outcome:
  assumes "reachable (\<lambda>p. \<exists>n t. p = new_worker_pool n t) (pool_step lt) p" "wp_shutdown p"
    "(pool_worker_step lt ^^ n) (shutdown_notify p) q"
  shows "n \<le> 6 * length (wp_workers p)
     \<and> ((\<nexists>q'. worker_own_step lt q q') \<longleftrightarrow> (\<forall>c \<in> set (wp_workers q). c = Stopped \<or> c = Asleep))
     \<and> length (filter (\<lambda>c. c = Asleep) (wp_workers q)) \<le> (if Falling_asleep \<in> set (wp_workers p) then 1 else 0)
     \<and> (\<exists>k \<le> (if Past_check \<in> set (wp_workers p) then 1 else 0). wp_request_queue q = drop k (wp_request_queue p))"
proof -
  let ?p = "shutdown_notify p"
  have sd: "wp_shutdown ?p" using assms(2) by (simp add: shutdown_notify_def)
  have one: "count_pc P p \<le> (if c \<in> set (wp_workers p) then 1 else 0)" if "\<And>d. P d \<longleftrightarrow> d = c" "locked c" for P c
  proof -
    have "count_pc P p \<le> length (filter locked (wp_workers p))"
      unfolding count_pc_def by (rule length_filter_mono) (simp add: that)
    also have "\<dots> \<le> 1" using wp.inv_reachable [OF assms(1)] by (simp add: pool_ok_def)
    finally show ?thesis using that(1) by (auto simp: count_pc_def filter_empty_conv)
  qed
  have d: "drained_from ?p q" using drained_from_run [OF relpowp_imp_rtranclp [OF assms(3)] sd] .
  have "length (filter (\<lambda>c. c = Asleep) (wp_workers q)) \<le> count_pc sleepy q"
    unfolding count_pc_def by (rule length_filter_mono) (simp add: sleepy_def)
  also have "\<dots> \<le> count_pc sleepy ?p" using d by (simp add: drained_from_def)
  also have "\<dots> = count_pc (\<lambda>c. c = Falling_asleep) p" by (rule count_sleepy_notify)
  also have "\<dots> \<le> (if Falling_asleep \<in> set (wp_workers p) then 1 else 0)" by (rule one) simp_all
  finally have asleep: "length (filter (\<lambda>c. c = Asleep) (wp_workers q)) \<le> \<dots>" .
  from d obtain k where "k + count_pc (\<lambda>c. c = Past_check) q \<le> count_pc (\<lambda>c. c = Past_check) p"
      "wp_request_queue q = drop k (wp_request_queue p)"
    using queue_notify [of p] by (auto simp: drained_from_def count_check_notify)
  with one [of "\<lambda>c. c = Past_check" Past_check]
  have queue: "\<exists>k \<le> (if Past_check \<in> set (wp_workers p) then 1 else 0). wp_request_queue q = drop k (wp_request_queue p)"
    by (intro exI [of _ k]) (auto split: if_splits)
  from wp_drain.drain_bounded [OF assms(3) sd] shutdown_measure_bound [of ?p]
  have "n \<le> 6 * length (wp_workers p)" "wp_shutdown q" by (auto simp: shutdown_notify_def)
  with wp_own.drain_stuck_iff [of q lt] asleep queue show ?thesis by (simp add: resting_def list_all_iff)
qed

theorem pool_shutdown_outcome_witness:
  "let p = shutdown_begin (new_worker_pool 2 20); q = worker_goto 0 Stopped (shutdown_notify p) in
   (1::nat) \<le> 6 * length (wp_workers p)
     \<and> ((\<nexists>q'. worker_own_step demo_lt q q') \<longleftrightarrow> (\<forall>c \<in> set (wp_workers q). c = Stopped \<or> c = Asleep))
     \<and> length (filter (\<lambda>c. c = Asleep) (wp_workers q)) \<le> (if Falling_asleep \<in> set (wp_workers p) then 1 else 0)
     \<and> (\<exists>k \<le> (if Past_check \<in> set (wp_workers p) then 1 else 0). wp_request_queue q = drop k (wp_request_queue p))"
  unfolding Let_def
proof (rule pool_shutdown_outcome)
  show "reachable (\<lambda>p. \<exists>n t. p = new_worker_pool n t) (pool_step demo_lt) (shutdown_begin (new_worker_pool 2 20))"
    by (rule reachable.move, rule reachable.start, blast, rule pool_step.begin_shutdown)
  show "wp_shutdown (shutdown_begin (new_worker_pool 2 20))" by (simp add: shutdown_begin_def)
  show "(pool_worker_step demo_lt ^^ 1) (shutdown_notify (shutdown_begin (new_worker_pool 2 20)))
      (worker_goto 0 Stopped (shutdown_notify (shutdown_begin (new_worker_pool 2 20))))"
    using pool_worker_step.own [OF worker_own_step.loop_test [of 0 "shutdown_notify (shutdown_begin (new_worker_pool 2 20))" demo_lt]]
    by (simp only: relpowp_1) (simp add: worker_loop_test_def shutdown_notify_def shutdown_begin_def new_worker_pool_def)
qed

text \<open>C40: A worker can sleep through \<^verbatim>\<open>shutdown\<close>, in a pool of any size: a worker finds the queue empty, \<^verbatim>\<open>shutdown\<close> sets the flag and notifies before it sleeps, and it then
  sleeps. From then on no worker can move without a spurious wake-up, and the caller of
  \<^verbatim>\<open>shutdown\<close> waits in \<^verbatim>\<open>join\<close> for the one that sleeps.\<close>

theorem pool_shutdown_can_hang:
  assumes "0 < n"
  shows "\<exists>p q. (pool_step lt)\<^sup>*\<^sup>* (new_worker_pool n t) p \<and> wp_shutdown p \<and> (worker_own_step lt)\<^sup>*\<^sup>* (shutdown_notify p) q
     \<and> wp_workers q ! 0 = Asleep \<and> (\<nexists>q'. worker_own_step lt q q')"
proof -
  let ?a = "new_worker_pool n t"
  let ?b = "worker_goto 0 Locking ?a"
  let ?c = "worker_goto 0 Testing ?b"
  let ?d = "worker_goto 0 Falling_asleep ?c"
  let ?p = "shutdown_begin ?d"
  let ?q = "worker_sleep 0 (shutdown_notify ?p)"
  have w: "0 < length (wp_workers ?a)" "wp_workers ?a ! 0 = At_loop" "mutex_free ?b" "\<not> wp_shutdown ?a" "wp_request_queue ?a = []"
    using assms by (auto simp: new_worker_pool_def mutex_free_def list_all_length nth_list_update)
  have "worker_own_step lt ?a ?b" using worker_own_step.loop_test [OF w(1,2), of lt] w(4) by (simp add: worker_loop_test_def)
  moreover have "worker_own_step lt ?b ?c" using worker_own_step.lock [of 0 ?b lt] w by (simp add: worker_lock_def)
  moreover have "worker_own_step lt ?c ?d" using worker_own_step.test_predicate [of 0 ?c lt] w by (simp add: worker_predicate_def)
  ultimately have "(worker_own_step lt)\<^sup>*\<^sup>* ?a ?d" by (rule rtranclp.rtrancl_into_rtrancl [OF two_steps])
  then have run: "(pool_step lt)\<^sup>*\<^sup>* ?a ?p"
    by (meson own_steps_pool pool_workers_rtranclp pool_step.begin_shutdown rtranclp.rtrancl_into_rtrancl)
  have sleep: "worker_own_step lt (shutdown_notify ?p) ?q"
    by (rule worker_own_step.sleep) (use w in \<open>simp_all add: shutdown_notify_def shutdown_begin_def\<close>)
  have "wp_workers ?q ! 0 = Asleep" "wp_shutdown ?q" using w by (simp_all add: worker_sleep_def shutdown_notify_def shutdown_begin_def)
  moreover from this(2) obtain q where q: "(worker_own_step lt)\<^sup>*\<^sup>* ?q q" "resting q" using wp_own.drain_completes by blast
  ultimately have "wp_workers q ! 0 = Asleep" using own_keeps_asleep_steps by blast
  moreover have "(worker_own_step lt)\<^sup>*\<^sup>* (shutdown_notify ?p) q" using sleep q(1) by (rule converse_rtranclp_into_rtranclp)
  moreover have "wp_shutdown ?p" by (simp add: shutdown_begin_def)
  ultimately show ?thesis using run resting_no_own_step [OF q(2)] by blast
qed

theorem pool_shutdown_can_hang_witness:
  "\<exists>p q. (pool_step demo_lt)\<^sup>*\<^sup>* (new_worker_pool 10 20) p \<and> wp_shutdown p
     \<and> (worker_own_step demo_lt)\<^sup>*\<^sup>* (shutdown_notify p) q
     \<and> wp_workers q ! 0 = Asleep \<and> (\<nexists>q'. worker_own_step demo_lt q q')"
  by (rule pool_shutdown_can_hang) simp

text \<open>On the schedule of \<open>pool_shutdown\<close>, \<^verbatim>\<open>shutdown\<close> is a run of the machine that ends with every worker
  stopped and no pending request, a second call does nothing, and afterwards \<^verbatim>\<open>queue_request\<close> refuses
  every request and leaves the pool unchanged.\<close>

theorem pool_shutdown_spec:
  assumes "pool_shutdown lt p w = (p', w')" "\<not> wp_shutdown p"
  shows "(pool_step lt)\<^sup>*\<^sup>* p p' \<and> all_stopped p' \<and> pool_active_requests p' = 0
     \<and> pool_shutdown lt p' w' = (p', w')
     \<and> queue_request now h pr src p' = (False, p')"
proof -
  let ?b = "shutdown_begin p"
  let ?is = "[0..<length (wp_workers p)]"
  let ?m = "fold leave_mutex ?is ?b"
  have m: "(worker_own_step lt)\<^sup>*\<^sup>* ?b ?m" "wp_shutdown ?m" "length (wp_workers ?m) = length (wp_workers p)" "mutex_free ?m"
    using fold_leave_mutex_spec [of ?b ?is lt] by (auto simp: shutdown_begin_def mutex_free_def list_all_length atLeast0LessThan)
  obtain q where f: "fold (join_worker lt) ?is (shutdown_notify ?m, w) = (q, w')" and p': "p' = shutdown_finish q"
    using assms by (auto simp: pool_shutdown_def split: prod.splits)
  have "awake (shutdown_notify ?m)" using m(4) by (auto simp: awake_def mutex_free_def shutdown_notify_def list_all_iff)
  then have q: "(worker_own_step lt)\<^sup>*\<^sup>* (shutdown_notify ?m) q" "all_stopped q" "wp_shutdown q"
    using fold_join_worker_spec [OF f] m by (auto simp: shutdown_notify_def all_stopped_def list_all_length atLeast0LessThan)
  have "pool_step lt p ?b" by (rule pool_step.begin_shutdown)
  moreover have "(pool_step lt)\<^sup>*\<^sup>* ?b ?m" by (intro pool_workers_rtranclp own_steps_pool m)
  moreover have "pool_step lt ?m (shutdown_notify ?m)" by (rule pool_step.notify)
  moreover have "(pool_step lt)\<^sup>*\<^sup>* (shutdown_notify ?m) q" by (intro pool_workers_rtranclp own_steps_pool q)
  moreover have "pool_step lt q p'" unfolding p' by (rule pool_step.finish_shutdown [OF q(3,2)])
  ultimately have "(pool_step lt)\<^sup>*\<^sup>* p p'"
    by (meson converse_rtranclp_into_rtranclp rtranclp.rtrancl_into_rtrancl rtranclp_trans)
  with q show ?thesis
    by (simp add: p' shutdown_finish_def all_stopped_def pool_active_requests_def pool_shutdown_def queue_request_def)
qed

theorem pool_shutdown_spec_witness:
  "\<exists>p' w'. pool_shutdown demo_lt (new_worker_pool 2 20) demo_start = (p', w') \<and>
     (pool_step demo_lt)\<^sup>*\<^sup>* (new_worker_pool 2 20) p' \<and> all_stopped p' \<and> pool_active_requests p' = 0
     \<and> pool_shutdown demo_lt p' w' = (p', w')
     \<and> queue_request 0 ''ab'' 1 ''DHT'' p' = (False, p')"
proof -
  obtain p' w' where e: "pool_shutdown demo_lt (new_worker_pool 2 20) demo_start = (p', w')" by (metis surj_pair)
  show ?thesis using pool_shutdown_spec [OF e, of 0 "''ab''" 1 "''DHT''"] e
    by (simp add: new_worker_pool_def)
qed

text \<open>\<^verbatim>\<open>handle_metadata_received\<close> for a pending request counts the success once in every worker's statistics,
  so the total that \<^verbatim>\<open>get_stats\<close> reports grows by the number of workers per received torrent.\<close>

theorem pool_success_counted_per_worker:
  fixes p :: worker_pool
  assumes "smap_find (wp_pending_requests p) h \<noteq> None"
  shows "fst (snd (snd (pool_get_stats (pool_handle_metadata_received h p)))) =
       fst (snd (snd (pool_get_stats p))) + int (length (wp_worker_stats p))
     \<and> smap_find (wp_pending_requests (pool_handle_metadata_received h p)) h = None"
proof -
  have "(\<Sum>s\<leftarrow>xs. ws_successful s + 1) = (\<Sum>s\<leftarrow>xs. ws_successful s) + int (length xs)" for xs :: "worker_stats list"
    by (induction xs) auto
  with assms show ?thesis by (auto simp: pool_get_stats_def pool_handle_metadata_received_def comp_def)
qed

theorem pool_success_counted_per_worker_witness:
  "fst (snd (snd (pool_get_stats (pool_handle_metadata_received ''a'' ((new_worker_pool 3 20)\<lparr>wp_pending_requests := [(''a'', 0)]\<rparr>))))) =
     fst (snd (snd (pool_get_stats ((new_worker_pool 3 20)\<lparr>wp_pending_requests := [(''a'', 0)]\<rparr>))))
       + int (length (wp_worker_stats ((new_worker_pool 3 20)\<lparr>wp_pending_requests := [(''a'', 0)]\<rparr>)))
   \<and> smap_find (wp_pending_requests (pool_handle_metadata_received ''a'' ((new_worker_pool 3 20)\<lparr>wp_pending_requests := [(''a'', 0)]\<rparr>))) ''a'' = None"
  by (rule pool_success_counted_per_worker) (simp add: new_worker_pool_def)

text \<open>After \<^verbatim>\<open>cleanup_timeouts\<close>, a call of \<^verbatim>\<open>get_timed_out_requests\<close> returns just the requests that expired
  between the two calls: none when they read the same time. A caller that wants the expired
  hashes, as the crawler's main loop does, therefore has to ask before it cleans up.\<close>

theorem cleanup_hides_timed_out:
  "fst (pool_get_timed_out_requests now' (cleanup_timeouts now p)) =
     map fst (filter (\<lambda>e. \<not> pool_timed_out now p e \<and> pool_timed_out now' p e) (wp_pending_requests p))
   \<and> fst (pool_get_timed_out_requests now (cleanup_timeouts now p)) = []"
proof -
  have "pool_timed_out t (count_timeouts hs q) e = pool_timed_out t q e" for t hs q e
    by (simp add: pool_timed_out_def)
  moreover have "pool_timed_out t (p\<lparr>wp_pending_requests := m\<rparr>) e = pool_timed_out t p e" for t m e
    by (simp add: pool_timed_out_def)
  ultimately show ?thesis
    by (simp add: cleanup_timeouts_def pool_get_timed_out_requests_def conj_commute cong: filter_cong)
qed

end
