(* ===== verification/Concurrent_Dht.thy ===== *)
theory Concurrent_Dht
  imports External_World State_Machine "HOL-Library.Multiset"
begin

text \<open>
  \<^verbatim>\<open>ConcurrentDHTManager\<close> of \<^verbatim>\<open>concurrent_dht_manager.hpp\<close>: worker threads that generate random hashes and ask
  the DHT for them. Each worker has a program counter; one step runs one worker from one access
  of shared data to the next (the flags, the mutex-protected set of queried hashes, the atomic
  counters), or one section of a call of the main thread. The state is paired with the list of
  hashes for which \<^verbatim>\<open>dht_get_peers\<close> was called, latest first, which is what the network sees. The query
  and progress callbacks belong to the caller; their calls are recorded.
\<close>

section \<open>Definitions\<close>

record dht_query =
  dq_hash_str :: string
  dq_queued_time :: time

text \<open>
  Where a worker is: created but not counted yet, at the test of the \<^verbatim>\<open>while\<close> loop, at the test of the
  \<^verbatim>\<open>for\<close> loop with index \<open>k\<close>, past that test and generating its hash, having claimed the hash, having
  counted it as generated, after the \<^verbatim>\<open>for\<close> loop, out of its loop. A worker past a test of the flags
  acts on it however much later it comes to do so.
\<close>

datatype dht_pc = Created | Loop_head | Iterating nat | Generating nat | Claimed nat string | Generated nat string
  | Reporting | Finished

record dht_manager =
  cm_workers :: "dht_pc list"
  cm_running :: bool
  cm_shutdown_requested :: bool
  cm_total_queries_sent :: int
  cm_queries_generated :: int
  cm_worker_count :: int
  cm_num_workers :: nat
  cm_query_delay_ms :: int
  cm_query_callback :: bool
  cm_progress_callback :: bool
  cm_query_calls :: "dht_query list"
  cm_progress_calls :: nat
  cm_queried_hashes :: "string set"

definition new_dht_manager :: "nat \<Rightarrow> dht_manager" where
  "new_dht_manager num_workers = \<lparr>cm_workers = [], cm_running = False, cm_shutdown_requested = False,
     cm_total_queries_sent = 0, cm_queries_generated = 0, cm_worker_count = 0, cm_num_workers = num_workers,
     cm_query_delay_ms = 10, cm_query_callback = False, cm_progress_callback = False,
     cm_query_calls = [], cm_progress_calls = 0, cm_queried_hashes = {}\<rparr>"

definition cm_start :: "dht_manager \<Rightarrow> dht_manager" where
  "cm_start m =
     (if cm_running m then m
      else m\<lparr>cm_running := True, cm_shutdown_requested := False,
             cm_workers := cm_workers m @ replicate (cm_num_workers m) Created\<rparr>)"

text \<open>\<^verbatim>\<open>stop\<close>: raising the flag, and what follows the joins.\<close>

definition cm_stop_begin :: "dht_manager \<Rightarrow> dht_manager" where
  "cm_stop_begin m = (if cm_running m then m\<lparr>cm_shutdown_requested := True\<rparr> else m)"

definition cm_stop_finish :: "dht_manager \<Rightarrow> dht_manager" where
  "cm_stop_finish m = m\<lparr>cm_workers := [], cm_running := False\<rparr>"

definition cm_set_query_callback :: "bool \<Rightarrow> dht_manager \<Rightarrow> dht_manager" where
  "cm_set_query_callback callback m = m\<lparr>cm_query_callback := callback\<rparr>"

definition cm_set_progress_callback :: "bool \<Rightarrow> dht_manager \<Rightarrow> dht_manager" where
  "cm_set_progress_callback callback m = m\<lparr>cm_progress_callback := callback\<rparr>"

definition cm_set_query_delay :: "int \<Rightarrow> dht_manager \<Rightarrow> dht_manager" where
  "cm_set_query_delay delay_ms m = m\<lparr>cm_query_delay_ms := delay_ms\<rparr>"

definition cm_keep_going :: "dht_manager \<Rightarrow> bool" where
  "cm_keep_going m \<longleftrightarrow> cm_running m \<and> \<not> cm_shutdown_requested m"

definition cm_goto :: "nat \<Rightarrow> dht_pc \<Rightarrow> dht_manager \<Rightarrow> dht_manager" where
  "cm_goto i c m = m\<lparr>cm_workers := (cm_workers m)[i := c]\<rparr>"

text \<open>\<^verbatim>\<open>worker_thread\<close>: counting the worker, and the head of its loop.\<close>

definition worker_enter :: "nat \<Rightarrow> dht_manager \<Rightarrow> dht_manager" where
  "worker_enter i m = cm_goto i Loop_head (m\<lparr>cm_worker_count := cm_worker_count m + 1\<rparr>)"

definition worker_loop_head :: "nat \<Rightarrow> dht_manager \<Rightarrow> dht_manager" where
  "worker_loop_head i m =
     (if cm_keep_going m then cm_goto i (Iterating 0) m
      else cm_goto i Finished (m\<lparr>cm_worker_count := cm_worker_count m - 1\<rparr>))"

text \<open>
  \<^verbatim>\<open>generate_and_send_queries\<close>: the test of the loop, the claim of a random hash under the mutex (a hash
  already claimed is skipped), the count, the two session calls with their exception handler, and
  the progress callback after the loop.
\<close>

definition queries_per_iteration :: nat where
  "queries_per_iteration = 5"

definition worker_for_test :: "nat \<Rightarrow> nat \<Rightarrow> dht_manager \<Rightarrow> dht_manager" where
  "worker_for_test i k m =
     (if k < queries_per_iteration \<and> cm_keep_going m then cm_goto i (Generating k) m else cm_goto i Reporting m)"

definition worker_claim :: "nat \<Rightarrow> nat \<Rightarrow> string \<Rightarrow> dht_manager \<Rightarrow> dht_manager" where
  "worker_claim i k hash_str m =
     (if hash_str \<in> cm_queried_hashes m then cm_goto i (Iterating (k + 1)) m
      else cm_goto i (Claimed k hash_str) (m\<lparr>cm_queried_hashes := insert hash_str (cm_queried_hashes m)\<rparr>))"

definition worker_count_generated :: "nat \<Rightarrow> nat \<Rightarrow> string \<Rightarrow> dht_manager \<Rightarrow> dht_manager" where
  "worker_count_generated i k hash_str m =
     cm_goto i (Generated k hash_str) (m\<lparr>cm_queries_generated := cm_queries_generated m + 1\<rparr>)"

definition worker_send ::
  "('w, 'p, 'h) libtorrent \<Rightarrow> nat \<Rightarrow> nat \<Rightarrow> string \<Rightarrow> time \<Rightarrow> dht_manager \<Rightarrow> 'w \<Rightarrow> dht_manager \<times> 'w" where
  "worker_send lt i k hash_str now m w =
     (case dht_get_peers lt hash_str w of
        (Some e, w1) \<Rightarrow> (cm_goto i (Iterating (k + 1)) m, w1)
      | (None, w1) \<Rightarrow>
          (case dht_get_item lt hash_str w1 of
             (Some e, w2) \<Rightarrow> (cm_goto i (Iterating (k + 1)) m, w2)
           | (None, w2) \<Rightarrow>
               (cm_goto i (Iterating (k + 1))
                  (m\<lparr>cm_total_queries_sent := cm_total_queries_sent m + 2,
                     cm_query_calls := (if cm_query_callback m
                       then \<lparr>dq_hash_str = hash_str, dq_queued_time = now\<rparr> # cm_query_calls m
                       else cm_query_calls m)\<rparr>), w2)))"

definition worker_report :: "nat \<Rightarrow> dht_manager \<Rightarrow> dht_manager" where
  "worker_report i m = cm_goto i Loop_head
     (if cm_progress_callback m \<and> cm_queries_generated m mod 100 = 0
      then m\<lparr>cm_progress_calls := cm_progress_calls m + 1\<rparr> else m)"

section \<open>The machine\<close>

type_synonym dht_state = "dht_manager \<times> string list"

inductive dht_worker_step :: "('w, 'p, 'h) libtorrent \<Rightarrow> dht_state \<Rightarrow> dht_state \<Rightarrow> bool"
  for lt :: "('w, 'p, 'h) libtorrent" where
  enter: "i < length (cm_workers m) \<Longrightarrow> cm_workers m ! i = Created \<Longrightarrow>
    dht_worker_step lt (m, sent) (worker_enter i m, sent)"
| loop_head: "i < length (cm_workers m) \<Longrightarrow> cm_workers m ! i = Loop_head \<Longrightarrow>
    dht_worker_step lt (m, sent) (worker_loop_head i m, sent)"
| for_test: "i < length (cm_workers m) \<Longrightarrow> cm_workers m ! i = Iterating k \<Longrightarrow>
    dht_worker_step lt (m, sent) (worker_for_test i k m, sent)"
| claim: "i < length (cm_workers m) \<Longrightarrow> cm_workers m ! i = Generating k \<Longrightarrow>
    dht_worker_step lt (m, sent) (worker_claim i k (fst (random_bytes lt 20 w)) m, sent)"
| generated: "i < length (cm_workers m) \<Longrightarrow> cm_workers m ! i = Claimed k h \<Longrightarrow>
    dht_worker_step lt (m, sent) (worker_count_generated i k h m, sent)"
| send: "i < length (cm_workers m) \<Longrightarrow> cm_workers m ! i = Generated k h \<Longrightarrow>
    dht_worker_step lt (m, sent) (fst (worker_send lt i k h now m w), h # sent)"
| report: "i < length (cm_workers m) \<Longrightarrow> cm_workers m ! i = Reporting \<Longrightarrow>
    dht_worker_step lt (m, sent) (worker_report i m, sent)"

definition cm_all_finished :: "dht_manager \<Rightarrow> bool" where
  "cm_all_finished m \<longleftrightarrow> list_all (\<lambda>c. c = Finished) (cm_workers m)"

inductive dht_step :: "('w, 'p, 'h) libtorrent \<Rightarrow> dht_state \<Rightarrow> dht_state \<Rightarrow> bool"
  for lt :: "('w, 'p, 'h) libtorrent" where
  worker: "dht_worker_step lt s t \<Longrightarrow> dht_step lt s t"
| start: "dht_step lt (m, sent) (cm_start m, sent)"
| stop_begin: "dht_step lt (m, sent) (cm_stop_begin m, sent)"
| stop_finish: "cm_running m \<Longrightarrow> cm_shutdown_requested m \<Longrightarrow> cm_all_finished m \<Longrightarrow>
    dht_step lt (m, sent) (cm_stop_finish m, sent)"
| query_callback: "dht_step lt (m, sent) (cm_set_query_callback c m, sent)"
| progress_callback: "dht_step lt (m, sent) (cm_set_progress_callback c m, sent)"
| query_delay: "dht_step lt (m, sent) (cm_set_query_delay d m, sent)"

section \<open>The invariant\<close>

definition counted :: "dht_pc \<Rightarrow> bool" where
  "counted c \<longleftrightarrow> c \<noteq> Created \<and> c \<noteq> Finished"

definition is_claimed :: "dht_pc \<Rightarrow> bool" where
  "is_claimed c \<longleftrightarrow> (case c of Claimed k h \<Rightarrow> True | _ \<Rightarrow> False)"

definition is_generated :: "dht_pc \<Rightarrow> bool" where
  "is_generated c \<longleftrightarrow> (case c of Generated k h \<Rightarrow> True | _ \<Rightarrow> False)"

text \<open>The hashes the workers hold but have not sent.\<close>

definition held :: "dht_pc \<Rightarrow> string list" where
  "held c = (case c of Claimed k h \<Rightarrow> [h] | Generated k h \<Rightarrow> [h] | _ \<Rightarrow> [])"

definition unsent :: "dht_manager \<Rightarrow> string list" where
  "unsent m = concat (map held (cm_workers m))"

definition dht_ok :: "dht_state \<Rightarrow> bool" where
  "dht_ok s = (case s of (m, sent) \<Rightarrow>
     mset_set (cm_queried_hashes m) = mset (unsent m) + mset sent
     \<and> finite (cm_queried_hashes m)
     \<and> (\<forall>h \<in> cm_queried_hashes m. length h = 20)
     \<and> cm_worker_count m = int (length (filter counted (cm_workers m)))
     \<and> cm_queries_generated m = int (length sent + length (filter is_generated (cm_workers m)))
     \<and> 0 \<le> cm_total_queries_sent m \<and> cm_total_queries_sent m \<le> 2 * int (length sent)
     \<and> (\<not> cm_running m \<longrightarrow> cm_workers m = []))"

lemmas pc_defs = counted_def is_claimed_def is_generated_def held_def

lemma mset_concat_update:
  "i < length xs \<Longrightarrow> mset (concat (map f (xs[i := y]))) + mset (f (xs ! i)) = mset (concat (map f xs)) + mset (f y)"
proof (induction xs arbitrary: i)
  case (Cons x xs)
  then show ?case by (cases i) auto
qed simp

text \<open>The effect of a worker's move on what the invariant counts.\<close>

lemma goto_counts:
  assumes "i < length (cm_workers m)" "cm_workers m ! i = a"
  shows "length (filter counted ((cm_workers m)[i := b])) + (if counted a then 1 else 0)
       = length (filter counted (cm_workers m)) + (if counted b then 1 else 0)"
    and "length (filter is_generated ((cm_workers m)[i := b])) + (if is_generated a then 1 else 0)
       = length (filter is_generated (cm_workers m)) + (if is_generated b then 1 else 0)"
    and "mset (concat (map held ((cm_workers m)[i := b]))) + mset (held a) = mset (unsent m) + mset (held b)"
  using assms filter_length_update [of i "cm_workers m"] mset_concat_update [of i "cm_workers m" held b]
  by (auto simp: unsent_def)

lemma dht_ok_worker_step: "dht_worker_step lt s t \<Longrightarrow> dht_ok s \<Longrightarrow> dht_ok t"
proof (induction rule: dht_worker_step.induct)
  case (enter i m sent)
  then show ?case using goto_counts [OF enter(1,2), of Loop_head]
    by (simp add: dht_ok_def worker_enter_def cm_goto_def unsent_def) (auto simp: pc_defs)
next
  case (loop_head i m sent)
  then show ?case using goto_counts [OF loop_head(1,2), of "Iterating 0"] goto_counts [OF loop_head(1,2), of Finished]
    by (simp add: dht_ok_def worker_loop_head_def cm_goto_def unsent_def) (auto simp: pc_defs)
next
  case (for_test i m k sent)
  then show ?case using goto_counts [OF for_test(1,2), of "Generating k"] goto_counts [OF for_test(1,2), of Reporting]
    by (simp add: dht_ok_def worker_for_test_def cm_goto_def unsent_def) (auto simp: pc_defs)
next
  case (claim i m k sent w)
  let ?h = "fst (random_bytes lt 20 w)"
  have "length ?h = 20" by (rule length_random_bytes)
  with claim show ?case
    using goto_counts [OF claim(1,2), of "Iterating (k + 1)"]
      goto_counts [OF claim(1,2), of "Claimed k ?h"]
    by (simp add: dht_ok_def worker_claim_def cm_goto_def unsent_def) (auto simp: pc_defs)
next
  case (generated i m k h sent)
  then show ?case using goto_counts [OF generated(1,2), of "Generated k h"]
    by (simp add: dht_ok_def worker_count_generated_def cm_goto_def unsent_def) (auto simp: pc_defs)
next
  case (send i m k h sent now w)
  then show ?case using goto_counts [OF send(1,2), of "Iterating (k + 1)"]
    by (simp add: dht_ok_def worker_send_def cm_goto_def unsent_def split: option.splits prod.splits)
      (auto simp: pc_defs)
next
  case (report i m sent)
  then show ?case using goto_counts [OF report(1,2), of Loop_head]
    by (simp add: dht_ok_def worker_report_def cm_goto_def unsent_def) (auto simp: pc_defs)
qed

lemma dht_ok_step: "dht_step lt s t \<Longrightarrow> dht_ok s \<Longrightarrow> dht_ok t"
proof (induction rule: dht_step.induct)
  case (worker s t)
  then show ?case by (rule dht_ok_worker_step)
next
  case (start m sent)
  then show ?case by (simp add: dht_ok_def cm_start_def unsent_def) (simp add: pc_defs)
next
  case (stop_finish m sent)
  then have "filter counted (cm_workers m) = []" "filter is_generated (cm_workers m) = []" "unsent m = []"
    by (auto simp: cm_all_finished_def list_all_iff filter_empty_conv unsent_def pc_defs)
  with stop_finish show ?case by (simp add: dht_ok_def cm_stop_finish_def unsent_def)
qed (auto simp: dht_ok_def unsent_def cm_stop_begin_def cm_set_query_callback_def
    cm_set_progress_callback_def cm_set_query_delay_def)

definition dht_init :: "dht_state \<Rightarrow> bool" where
  "dht_init s \<longleftrightarrow> (\<exists>n. s = (new_dht_manager n, []))"

interpretation cm: invariant_system dht_init "dht_step lt" dht_ok
  for lt :: "('w, 'p, 'h) libtorrent"
proof
  show "dht_ok s" if "dht_init s" for s
    using that by (auto simp: dht_init_def dht_ok_def new_dht_manager_def unsent_def)
qed (rule dht_ok_step)

section \<open>Stopping\<close>

definition pc_work :: "dht_pc \<Rightarrow> nat" where
  "pc_work c = (case c of Finished \<Rightarrow> 0 | Loop_head \<Rightarrow> 1 | Created \<Rightarrow> 2 | Reporting \<Rightarrow> 2 | Iterating k \<Rightarrow> 3
     | Generated k h \<Rightarrow> 4 | Claimed k h \<Rightarrow> 5 | Generating k \<Rightarrow> 6)"

lemma pc_work_simps [simp]:
  "pc_work Finished = 0" "pc_work Loop_head = 1" "pc_work Created = 2" "pc_work Reporting = 2" "pc_work (Iterating k) = 3"
  "pc_work (Generated k h) = 4" "pc_work (Claimed k h) = 5" "pc_work (Generating k) = 6"
  by (simp_all add: pc_work_def)

text \<open>The workers past the test of the \<^verbatim>\<open>for\<close> loop that have not sent their query.\<close>

definition past_test :: "dht_pc \<Rightarrow> bool" where
  "past_test c \<longleftrightarrow> (case c of Generating k \<Rightarrow> True | Claimed k h \<Rightarrow> True | Generated k h \<Rightarrow> True | _ \<Rightarrow> False)"

lemma past_test_simps [simp]:
  "past_test (Generating k)" "past_test (Claimed k h)" "past_test (Generated k h)"
  "\<not> past_test Created" "\<not> past_test Loop_head" "\<not> past_test (Iterating k)" "\<not> past_test Reporting" "\<not> past_test Finished"
  by (simp_all add: past_test_def)

definition cm_work :: "dht_state \<Rightarrow> nat" where
  "cm_work s = (\<Sum>c\<leftarrow>cm_workers (fst s). pc_work c)"

definition cm_stopping :: "dht_state \<Rightarrow> bool" where
  "cm_stopping s \<longleftrightarrow> cm_shutdown_requested (fst s)"

lemma cm_work_bound: "cm_work s \<le> 6 * length (cm_workers (fst s))"
  unfolding cm_work_def by (rule sum_list_le_bound) (simp add: pc_work_def split: dht_pc.splits)

text \<open>A worker's step while the flag is raised moves one counter down, and sends a query only when it
  leaves the part of the loop past the test.\<close>

lemma stopping_move:
  assumes "dht_worker_step lt s t" "cm_stopping s"
  obtains i c new where "i < length (cm_workers (fst s))" "cm_workers (fst t) = (cm_workers (fst s))[i := c]" "cm_stopping t"
    "pc_work c < pc_work (cm_workers (fst s) ! i)" "snd t = new @ snd s"
    "length new + (if past_test c then 1 else 0) \<le> (if past_test (cm_workers (fst s) ! i) then 1 else 0)"
  using assms
proof (cases rule: dht_worker_step.cases)
  case (loop_head i m sent)
  then show thesis using that [of i Finished "[]"] assms(2)
    by (simp add: cm_stopping_def worker_loop_head_def cm_keep_going_def cm_goto_def)
next
  case (for_test i m k sent)
  then show thesis using that [of i Reporting "[]"] assms(2)
    by (simp add: cm_stopping_def worker_for_test_def cm_keep_going_def cm_goto_def)
next
  case (claim i m k sent w)
  let ?h = "fst (random_bytes lt 20 w)"
  show thesis
    using claim that [of i "Iterating (k + 1)" "[]"] that [of i "Claimed k ?h" "[]"] assms(2)
    by (cases "?h \<in> cm_queried_hashes m") (simp_all add: cm_stopping_def worker_claim_def cm_goto_def)
next
  case (send i m k h sent now w)
  then show thesis using that [of i "Iterating (k + 1)" "[h]"] assms(2)
    by (simp add: cm_stopping_def worker_send_def cm_goto_def split: option.splits prod.splits)
next
  case (report i m sent)
  then show thesis using that [of i Loop_head "[]"] assms(2)
    by (simp add: cm_stopping_def worker_report_def cm_goto_def split: if_splits)
qed (use that [of _ _ "[]"] assms(2) in \<open>simp_all add: cm_stopping_def worker_enter_def worker_count_generated_def cm_goto_def\<close>)

lemma cm_drain_step:
  assumes "dht_worker_step lt s t" "cm_stopping s"
  shows "cm_stopping t \<and> cm_work t < cm_work s"
  using assms
proof (cases rule: stopping_move)
  case (1 i c new)
  with sum_list_nat_update [OF 1(1), of pc_work c] show ?thesis by (simp add: cm_work_def)
qed

definition cm_past_test :: "dht_state \<Rightarrow> nat" where
  "cm_past_test s = length (filter past_test (cm_workers (fst s)))"

lemma stopping_sends_few:
  assumes "(dht_worker_step lt)\<^sup>*\<^sup>* s t" "cm_stopping s"
  shows "cm_stopping t \<and> (\<exists>new. snd t = new @ snd s \<and> length new + cm_past_test t \<le> cm_past_test s)"
  using assms
proof (induction rule: rtranclp_induct)
  case (step t u)
  then obtain new where t: "cm_stopping t" "snd t = new @ snd s" "length new + cm_past_test t \<le> cm_past_test s" by blast
  from step(2) t(1) show ?case
  proof (cases rule: stopping_move)
    case (1 i c new')
    with t filter_length_update [OF 1(1), of past_test c] show ?thesis
      by (intro conjI exI [of _ "new' @ new"]) (auto simp: cm_past_test_def split: if_splits)
  qed
qed simp

lemma cm_drain_enabled: "\<not> cm_all_finished m \<Longrightarrow> \<exists>t. dht_worker_step lt (m, sent) t"
proof -
  assume "\<not> cm_all_finished m"
  then obtain i where i: "i < length (cm_workers m)" "cm_workers m ! i \<noteq> Finished"
    by (auto simp: cm_all_finished_def list_all_length)
  then show ?thesis
    by (cases "cm_workers m ! i") (blast intro: dht_worker_step.intros [OF i(1)])+
qed

interpretation cm_drain: draining_system "dht_worker_step lt" cm_stopping cm_work "\<lambda>s. cm_all_finished (fst s)"
  for lt :: "('w, 'p, 'h) libtorrent"
proof
  show "\<not> dht_worker_step lt s t" if "cm_all_finished (fst s)" for s t
    using that by (auto simp: cm_all_finished_def list_all_length elim!: dht_worker_step.cases)
  show "\<exists>t. dht_worker_step lt s t" if "cm_stopping s" "\<not> cm_all_finished (fst s)" for s
    using cm_drain_enabled [OF that(2), of lt "snd s"] by simp
qed (rule cm_drain_step)

section \<open>Properties\<close>

text \<open>C4: However the worker threads interleave, no hash is asked for twice: in every reachable state
  the hashes passed to \<^verbatim>\<open>dht_get_peers\<close> are pairwise distinct 20-byte strings that were claimed
  before, \<^verbatim>\<open>get_total_queries_sent\<close> is at most twice \<^verbatim>\<open>get_queries_generated\<close>, which is at most the number of claimed hashes,
  and \<^verbatim>\<open>get_active_workers\<close> is the number of workers inside their loops.\<close>

theorem dht_no_duplicate_queries:
  assumes "reachable dht_init (dht_step lt) (m, sent)"
  shows "distinct sent \<and> set sent \<subseteq> cm_queried_hashes m \<and> (\<forall>h \<in> set sent. length h = 20)
     \<and> cm_total_queries_sent m \<le> 2 * cm_queries_generated m
     \<and> cm_queries_generated m \<le> int (card (cm_queried_hashes m))
     \<and> cm_worker_count m = int (length (filter counted (cm_workers m)))"
proof -
  have ok: "dht_ok (m, sent)" using assms by (rule cm.inv_reachable)
  then have q: "mset_set (cm_queried_hashes m) = mset (unsent m) + mset sent" and fin: "finite (cm_queried_hashes m)"
    by (simp_all add: dht_ok_def)
  have le: "mset sent \<subseteq># mset_set (cm_queried_hashes m)" using q by simp
  have "count (mset sent) h \<le> 1" for h
  proof -
    have "count (mset_set (cm_queried_hashes m)) h \<le> 1" by (simp add: count_mset_set')
    with mset_subset_eq_count [OF le, of h] show ?thesis by linarith
  qed
  then have "distinct sent" by (auto simp: distinct_count_atmost_1 Suc_le_eq count_eq_zero_iff intro: le_antisym)
  moreover have "set sent \<subseteq> cm_queried_hashes m" using set_mset_mono [OF le] fin by simp
  moreover have "card (cm_queried_hashes m) = length (unsent m) + length sent"
    using arg_cong [OF q, of size] by simp
  moreover have "length (filter is_generated xs) \<le> length (concat (map held xs))" for xs
    by (induction xs) (auto simp: pc_defs split: dht_pc.splits)
  ultimately show ?thesis using ok by (auto simp: dht_ok_def unsent_def)
qed

theorem dht_no_duplicate_queries_witness:
  "\<exists>(m :: dht_manager) sent. sent \<noteq> [] \<and> distinct sent \<and> set sent \<subseteq> cm_queried_hashes m \<and> (\<forall>h \<in> set sent. length h = 20)
     \<and> cm_total_queries_sent m \<le> 2 * cm_queries_generated m
     \<and> cm_queries_generated m \<le> int (card (cm_queried_hashes m))
     \<and> cm_worker_count m = int (length (filter counted (cm_workers m)))"
proof -
  define h where "h = fst (random_bytes demo_lt 20 demo_start)"
  define m1 where "m1 = worker_loop_head 0 (worker_enter 0 (cm_start (new_dht_manager 1)))"
  define m2 where "m2 = worker_for_test 0 0 m1"
  define m3 where "m3 = worker_count_generated 0 0 h (worker_claim 0 0 h m2)"
  define m where "m = fst (worker_send demo_lt 0 0 h 0 m3 demo_start)"
  note ev = m_def m3_def m2_def m1_def worker_for_test_def worker_claim_def worker_count_generated_def worker_loop_head_def worker_enter_def
    cm_start_def new_dht_manager_def cm_goto_def cm_keep_going_def queries_per_iteration_def
  have "reachable dht_init (dht_step demo_lt) (new_dht_manager 1, [])"
    by (rule reachable.start) (auto simp: dht_init_def)
  then have "reachable dht_init (dht_step demo_lt) (cm_start (new_dht_manager 1), [])"
    by (rule reachable.move) (rule dht_step.start)
  then have "reachable dht_init (dht_step demo_lt) (worker_enter 0 (cm_start (new_dht_manager 1)), [])"
    by (rule reachable.move) (rule dht_step.worker, rule dht_worker_step.enter, simp_all add: ev)
  then have "reachable dht_init (dht_step demo_lt) (m1, [])"
    unfolding m1_def by (rule reachable.move) (rule dht_step.worker, rule dht_worker_step.loop_head, simp_all add: ev)
  then have "reachable dht_init (dht_step demo_lt) (m2, [])"
    unfolding m2_def by (rule reachable.move) (rule dht_step.worker, rule dht_worker_step.for_test, simp_all add: ev)
  then have "reachable dht_init (dht_step demo_lt) (worker_claim 0 0 h m2, [])"
    unfolding h_def by (rule reachable.move) (rule dht_step.worker, rule dht_worker_step.claim, simp_all add: ev)
  then have "reachable dht_init (dht_step demo_lt) (m3, [])"
    unfolding m3_def by (rule reachable.move) (rule dht_step.worker, rule dht_worker_step.generated, simp_all add: ev)
  then have "reachable dht_init (dht_step demo_lt) (m, [h])"
    unfolding m_def by (rule reachable.move) (rule dht_step.worker, rule dht_worker_step.send, simp_all add: ev)
  from dht_no_duplicate_queries [OF this] show ?thesis by (intro exI [of _ m] exI [of _ "[h]"]) simp
qed

text \<open>C13: \<^verbatim>\<open>stop\<close> returns: once it has raised the shutdown flag no run of worker steps is longer than six
  times the number of workers, a run cannot get stuck before every worker has left its loop, and
  from a reachable state the active worker count is then zero. Each worker still sends at most one
  query, and only if it had passed the test of its loop before the flag was raised.\<close>

theorem dht_stop_terminates:
  assumes "reachable dht_init (dht_step lt) s" "cm_stopping s" "(dht_worker_step lt ^^ n) s t"
  shows "n \<le> 6 * length (cm_workers (fst s)) \<and> ((\<nexists>u. dht_worker_step lt t u) \<longleftrightarrow> cm_all_finished (fst t))
     \<and> (cm_all_finished (fst t) \<longrightarrow> cm_worker_count (fst t) = 0)
     \<and> (\<exists>new. snd t = new @ snd s \<and> length new \<le> length (filter past_test (cm_workers (fst s))))"
proof -
  have run: "(dht_worker_step lt)\<^sup>*\<^sup>* s t" using assms(3) by (rule relpowp_imp_rtranclp)
  have "dht_ok s" using assms(1) by (rule cm.inv_reachable)
  moreover have "(dht_step lt)\<^sup>*\<^sup>* s t"
    using run mono_rtranclp [of "dht_worker_step lt" "dht_step lt"] dht_step.worker by metis
  ultimately have "dht_ok t" by (metis cm.inv_steps)
  then have "cm_all_finished (fst t) \<longrightarrow> cm_worker_count (fst t) = 0"
    by (auto simp: dht_ok_def cm_all_finished_def list_all_iff filter_empty_conv counted_def split: prod.splits)
  moreover have "\<exists>new. snd t = new @ snd s \<and> length new \<le> length (filter past_test (cm_workers (fst s)))"
    using stopping_sends_few [OF run assms(2)] unfolding cm_past_test_def by (meson add_leD1)
  ultimately show ?thesis
    using cm_drain.drain_bounded [OF assms(3,2)] cm_work_bound [of s] cm_drain.drain_stuck_iff [of t lt] by auto
qed

theorem dht_stop_terminates_witness:
  "let s = (cm_stop_begin (cm_start (new_dht_manager 1)), [] :: string list);
       t = (worker_enter 0 (cm_stop_begin (cm_start (new_dht_manager 1))), [] :: string list) in
   (1::nat) \<le> 6 * length (cm_workers (fst s)) \<and> ((\<nexists>u. dht_worker_step demo_lt t u) \<longleftrightarrow> cm_all_finished (fst t))
     \<and> (\<exists>new. snd t = new @ snd s \<and> length new \<le> length (filter past_test (cm_workers (fst s))))"
proof -
  have "reachable dht_init (dht_step demo_lt) (new_dht_manager 1, [])"
    by (rule reachable.start) (auto simp: dht_init_def)
  then have "reachable dht_init (dht_step demo_lt) (cm_start (new_dht_manager 1), [])"
    by (rule reachable.move) (rule dht_step.start)
  then have r: "reachable dht_init (dht_step demo_lt) (cm_stop_begin (cm_start (new_dht_manager 1)), [])"
    by (rule reachable.move) (rule dht_step.stop_begin)
  have s: "cm_stopping (cm_stop_begin (cm_start (new_dht_manager 1)), [])"
    by (simp add: cm_stopping_def cm_stop_begin_def cm_start_def new_dht_manager_def)
  have m: "(dht_worker_step demo_lt ^^ 1) (cm_stop_begin (cm_start (new_dht_manager 1)), [])
     (worker_enter 0 (cm_stop_begin (cm_start (new_dht_manager 1))), [])"
    by (simp only: relpowp_1, rule dht_worker_step.enter)
      (simp_all add: cm_stop_begin_def cm_start_def new_dht_manager_def)
  note t = dht_stop_terminates [OF r s m]
  show ?thesis unfolding Let_def
    by (intro conjI) (rule conjunct1 [OF t], rule conjunct1 [OF conjunct2 [OF t]],
      rule conjunct2 [OF conjunct2 [OF conjunct2 [OF t]]])
qed

end
