(* ===== verification/Bep51_Indexer.thy ===== *)
theory Bep51_Indexer
  imports Std_Containers External_World State_Machine "HOL-Library.Word"
begin

text \<open>
  \<^verbatim>\<open>BEP51DHTIndexer\<close> of \<^verbatim>\<open>bep51_dht_indexer.hpp\<close>: building and sending \<^verbatim>\<open>sample_infohashes\<close> queries and collecting what the
  responses carry. The two \<^verbatim>\<open>std::set\<close> members are maps to unit, so that the getters, which copy
  them in iteration order, are their key lists. The function-local static counter behind
  \<^verbatim>\<open>generate_transaction_id\<close>, an \<^verbatim>\<open>atomic<int>\<close> whose increment wraps, is a 32-bit word of the state.
\<close>

section \<open>Definitions\<close>

record bep51_response =
  br_infohashes :: "string list"
  br_nodes :: "string list"
  br_interval :: int
  br_num_total :: int

record bep51_indexer =
  bi_session :: bool
  bi_total_queries :: int
  bi_successful_queries :: int
  bi_infohashes_collected :: int
  bi_collected_infohashes :: "(string, unit) smap"
  bi_known_nodes :: "(string, unit) smap"
  bi_transaction_counter :: "32 word"

definition new_bep51_indexer :: "bool \<Rightarrow> bep51_indexer" where
  "new_bep51_indexer session = \<lparr>bi_session = session, bi_total_queries = 0, bi_successful_queries = 0,
     bi_infohashes_collected = 0, bi_collected_infohashes = [], bi_known_nodes = [], bi_transaction_counter = 0\<rparr>"

definition generate_transaction_id :: "bep51_indexer \<Rightarrow> string \<times> bep51_indexer" where
  "generate_transaction_id b =
     (to_string (sint (bi_transaction_counter b)), b\<lparr>bi_transaction_counter := bi_transaction_counter b + 1\<rparr>)"

definition generate_random_id :: "('w, 'p, 'h) libtorrent \<Rightarrow> 'w \<Rightarrow> string \<times> 'w" where
  "generate_random_id lt w = random_bytes lt 20 w"

text \<open>The message, a bencoded dictionary: its entries are kept in key order.\<close>

definition sample_query :: "string \<Rightarrow> string \<Rightarrow> string \<Rightarrow> lt_entry" where
  "sample_query transaction_id node_id target = Entry_dict
     [(''a'', Entry_dict [(''id'', Entry_string node_id), (''target'', Entry_string target)]),
      (''q'', Entry_string ''sample_infohashes''),
      (''t'', Entry_string transaction_id),
      (''y'', Entry_string ''q'')]"

definition query_sample_infohashes ::
  "('w, 'p, 'h) libtorrent \<Rightarrow> string \<Rightarrow> string \<Rightarrow> bep51_indexer \<Rightarrow> 'w \<Rightarrow> bool \<times> bep51_indexer \<times> 'w" where
  "query_sample_infohashes lt node_id target_id b w =
     (if \<not> bi_session b then (False, b, w)
      else
        let (tid, b1) = generate_transaction_id b;
            (target, w1) = (if target_id \<noteq> [] then (target_id, w) else generate_random_id lt w)
        in case dht_put_item lt (sample_query tid node_id target) w1 of
             (Some e, w2) \<Rightarrow> (False, b1, w2)
           | (None, w2) \<Rightarrow> (True, b1\<lparr>bi_total_queries := bi_total_queries b1 + 1\<rparr>, w2))"

fun insert_all :: "string list \<Rightarrow> (string, unit) smap \<Rightarrow> (string, unit) smap" where
  "insert_all [] m = m"
| "insert_all (x # xs) m = insert_all xs (smap_update x () m)"

fun insert_nodes :: "string list \<Rightarrow> (string, unit) smap \<Rightarrow> (string, unit) smap" where
  "insert_nodes [] m = m"
| "insert_nodes (n # ns) m = insert_nodes ns (if 20 \<le> length n then smap_update (take 20 n) () m else m)"

definition handle_bep51_response :: "string \<Rightarrow> bep51_response \<Rightarrow> bep51_indexer \<Rightarrow> bep51_indexer" where
  "handle_bep51_response node_id response b =
     b\<lparr>bi_successful_queries := bi_successful_queries b + 1,
       bi_infohashes_collected := bi_infohashes_collected b + int (length (br_infohashes response)),
       bi_collected_infohashes := insert_all (br_infohashes response) (bi_collected_infohashes b),
       bi_known_nodes := insert_nodes (br_nodes response) (bi_known_nodes b)\<rparr>"

definition get_collected_infohashes :: "bep51_indexer \<Rightarrow> string list" where
  "get_collected_infohashes b = map fst (bi_collected_infohashes b)"

definition get_known_nodes :: "bep51_indexer \<Rightarrow> string list" where
  "get_known_nodes b = map fst (bi_known_nodes b)"

definition get_unique_infohashes :: "bep51_indexer \<Rightarrow> nat" where
  "get_unique_infohashes b = length (bi_collected_infohashes b)"

definition get_known_nodes_count :: "bep51_indexer \<Rightarrow> nat" where
  "get_known_nodes_count b = length (bi_known_nodes b)"

text \<open>The success rate of \<^verbatim>\<open>print_statistics\<close>.\<close>

definition bep51_success_rate :: "bep51_indexer \<Rightarrow> int" where
  "bep51_success_rate b =
     (if bi_total_queries b > 0 then int_div (bi_successful_queries b * 100) (bi_total_queries b) else 0)"

inductive bep51_step :: "('w, 'p, 'h) libtorrent \<Rightarrow> bep51_indexer \<Rightarrow> bep51_indexer \<Rightarrow> bool"
  for lt :: "('w, 'p, 'h) libtorrent" where
  query: "query_sample_infohashes lt node_id target_id b w = (r, b', w') \<Longrightarrow> bep51_step lt b b'"
| response: "bep51_step lt b (handle_bep51_response node_id response b)"

section \<open>Lemmas\<close>

lemma insert_all_ok: "smap_ok m \<Longrightarrow> smap_ok (insert_all xs m)"
  by (induction xs m rule: insert_all.induct) auto

lemma insert_all_keys: "set (map fst (insert_all xs m)) = set (map fst m) \<union> set xs"
  by (induction xs m rule: insert_all.induct) (auto simp: smap_update_keys [unfolded set_map])

lemma insert_all_length: "smap_ok m \<Longrightarrow> length (insert_all xs m) \<le> length m + length xs"
proof (induction xs m rule: insert_all.induct)
  case (2 x xs m)
  then show ?case using smap_size_update [of m x "()"] by (simp split: if_splits)
qed simp

lemma insert_nodes_eq: "insert_nodes ns m = insert_all (map (take 20) (filter (\<lambda>n. 20 \<le> length n) ns)) m"
  by (induction ns m rule: insert_nodes.induct) auto

definition bep51_ok :: "bep51_indexer \<Rightarrow> bool" where
  "bep51_ok b \<longleftrightarrow> smap_ok (bi_collected_infohashes b) \<and> smap_ok (bi_known_nodes b)
     \<and> int (get_unique_infohashes b) \<le> bi_infohashes_collected b
     \<and> (\<forall>n \<in> set (get_known_nodes b). length n = 20)"

lemma bep51_ok_response: "bep51_ok b \<Longrightarrow> bep51_ok (handle_bep51_response node_id r b)"
  using insert_all_length [of "bi_collected_infohashes b" "br_infohashes r"]
    insert_all_keys [of "map (take 20) (filter (\<lambda>n. 20 \<le> length n) (br_nodes r))" "bi_known_nodes b"]
  by (auto simp: bep51_ok_def handle_bep51_response_def insert_nodes_eq insert_all_ok get_unique_infohashes_def
      get_known_nodes_def)

lemma bep51_ok_query:
  "query_sample_infohashes lt n t b w = (r, b', w') \<Longrightarrow> bep51_ok b \<Longrightarrow> bep51_ok b'"
  by (auto simp: bep51_ok_def query_sample_infohashes_def generate_transaction_id_def get_unique_infohashes_def
      get_known_nodes_def Let_def split: if_splits prod.splits option.splits)

interpretation bep51: invariant_system "\<lambda>b. \<exists>s. b = new_bep51_indexer s" "bep51_step lt" bep51_ok
  for lt :: "('w, 'p, 'h) libtorrent"
proof
  show "bep51_ok b" if "\<exists>s. b = new_bep51_indexer s" for b
    using that by (auto simp: bep51_ok_def new_bep51_indexer_def get_unique_infohashes_def get_known_nodes_def)
  show "bep51_ok b'" if "bep51_ok b" "bep51_step lt b b'" for b b'
    using that(2,1) by (induction rule: bep51_step.induct) (auto intro: bep51_ok_query bep51_ok_response)
qed

text \<open>The \<open>n\<close>-th of a run of queries, whatever the session answers and whatever else happens between them.\<close>

inductive query_run :: "('w, 'p, 'h) libtorrent \<Rightarrow> bep51_indexer \<Rightarrow> nat \<Rightarrow> bep51_indexer \<Rightarrow> bool"
  for lt :: "('w, 'p, 'h) libtorrent" where
  none: "query_run lt b 0 b"
| query: "query_run lt b n b1 \<Longrightarrow> query_sample_infohashes lt node_id target_id b1 w = (r, b2, w') \<Longrightarrow>
    query_run lt b (Suc n) b2"
| response: "query_run lt b n b1 \<Longrightarrow> query_run lt b n (handle_bep51_response node_id response b1)"

lemma query_sample_counter:
  assumes "query_sample_infohashes lt node_id target_id b w = (r, b', w')" "bi_session b"
  shows "bi_transaction_counter b' = bi_transaction_counter b + 1 \<and> bi_session b'"
  using assms
  by (auto simp: query_sample_infohashes_def generate_transaction_id_def Let_def split: prod.splits option.splits)

lemma query_run_counter:
  "query_run lt b n b' \<Longrightarrow> bi_session b \<Longrightarrow>
   bi_transaction_counter b' = bi_transaction_counter b + of_nat n \<and> bi_session b'"
proof (induction rule: query_run.induct)
  case (query b n b1 node_id target_id w r b2 w')
  with query_sample_counter show ?case by fastforce
qed (auto simp: handle_bep51_response_def)

section \<open>Properties\<close>

text \<open>C19: In every reachable state the indexer's collections are what the responses brought: handling a
  response leaves, in strictly ascending order, exactly the old and the new infohashes and the old
  nodes with the first 20 bytes of every new node of at least 20 bytes; all known nodes have 20
  bytes, and there are never more unique infohashes than collected ones.\<close>

theorem bep51_collections:
  assumes "reachable (\<lambda>b. \<exists>s. b = new_bep51_indexer s) (bep51_step lt) b"
  shows "(let b' = handle_bep51_response node_id r b in
       sorted_wrt (<) (get_collected_infohashes b')
     \<and> set (get_collected_infohashes b') = set (get_collected_infohashes b) \<union> set (br_infohashes r)
     \<and> sorted_wrt (<) (get_known_nodes b')
     \<and> set (get_known_nodes b') = set (get_known_nodes b) \<union> take 20 ` {n \<in> set (br_nodes r). 20 \<le> length n}
     \<and> (\<forall>n \<in> set (get_known_nodes b'). length n = 20)
     \<and> int (get_unique_infohashes b') \<le> bi_infohashes_collected b')"
proof -
  define b' where "b' = handle_bep51_response node_id r b"
  have "bep51_ok b'" unfolding b'_def using assms by (intro bep51_ok_response bep51.inv_reachable)
  moreover have "set (get_collected_infohashes b') = set (get_collected_infohashes b) \<union> set (br_infohashes r)"
    "set (get_known_nodes b') = set (get_known_nodes b) \<union> take 20 ` {n \<in> set (br_nodes r). 20 \<le> length n}"
    unfolding b'_def
    by (simp_all add: get_collected_infohashes_def get_known_nodes_def handle_bep51_response_def
        insert_all_keys [unfolded set_map] insert_nodes_eq)
  ultimately show ?thesis
    by (simp add: b'_def Let_def bep51_ok_def smap_ok_def get_collected_infohashes_def get_known_nodes_def)
qed

theorem bep51_collections_witness:
  "let b = new_bep51_indexer True; r = \<lparr>br_infohashes = [''b'', ''a'', ''b''], br_nodes = [''short''], br_interval = 0, br_num_total = 0\<rparr>;
       b' = handle_bep51_response ''n'' r b in
       sorted_wrt (<) (get_collected_infohashes b')
     \<and> set (get_collected_infohashes b') = set (get_collected_infohashes b) \<union> set (br_infohashes r)
     \<and> sorted_wrt (<) (get_known_nodes b')
     \<and> set (get_known_nodes b') = set (get_known_nodes b) \<union> take 20 ` {n \<in> set (br_nodes r). 20 \<le> length n}
     \<and> (\<forall>n \<in> set (get_known_nodes b'). length n = 20)
     \<and> int (get_unique_infohashes b') \<le> bi_infohashes_collected b'"
  unfolding Let_def
  by (rule bep51_collections [where lt = demo_lt, unfolded Let_def], rule reachable.start, blast)

text \<open>Transaction ids do not repeat within a full turn of the 32-bit counter: with a session, a
  query that is preceded by \<open>n\<close> others since \<open>b\<close>, for \<open>n\<close> between 1 and \<open>2\<^sup>3\<^sup>2 - 1\<close>, carries another id than
  the query sent in \<open>b\<close>, sent or failed, with any responses in between; at \<open>2\<^sup>3\<^sup>2\<close> the id repeats.\<close>

theorem bep51_transaction_ids:
  assumes "query_run lt b n b'" "bi_session b"
  shows "(0 < n \<longrightarrow> n < 2 ^ 32 \<longrightarrow> fst (generate_transaction_id b') \<noteq> fst (generate_transaction_id b))
     \<and> (n = 2 ^ 32 \<longrightarrow> fst (generate_transaction_id b') = fst (generate_transaction_id b))"
proof -
  have c: "bi_transaction_counter b' = bi_transaction_counter b + of_nat n"
    using query_run_counter [OF assms] by simp
  have "(of_nat n :: 32 word) = 0 \<longleftrightarrow> 2 ^ 32 dvd n"
    by (simp add: word_of_nat_eq_0_iff)
  then have "bi_transaction_counter b' = bi_transaction_counter b \<longleftrightarrow> 2 ^ 32 dvd n" by (simp add: c)
  moreover have "fst (generate_transaction_id b') = fst (generate_transaction_id b)
      \<longleftrightarrow> bi_transaction_counter b' = bi_transaction_counter b"
    by (simp add: generate_transaction_id_def to_string_inj word_eq_iff_signed [symmetric])
  ultimately show ?thesis by (auto dest: dvd_imp_le)
qed

theorem bep51_transaction_ids_witness:
  "\<exists>b'. fst (generate_transaction_id b') \<noteq> fst (generate_transaction_id (new_bep51_indexer True))"
proof -
  obtain r b' w' where q: "query_sample_infohashes demo_lt ''n'' ''t'' (new_bep51_indexer True) demo_start = (r, b', w')"
    by (metis surj_pair)
  have "query_run demo_lt (new_bep51_indexer True) 1 b'"
    using query_run.query [OF query_run.none q] by simp
  from bep51_transaction_ids [OF this] show ?thesis by (auto simp: new_bep51_indexer_def)
qed

end
