(* ===== verification/Rate_Limiter.thy ===== *)
theory Rate_Limiter
  imports External_World
begin

text \<open>
  \<^verbatim>\<open>RateLimitedDHTManager\<close> of \<^verbatim>\<open>smart_dht_crawler.hpp\<close>: a queue of the times of the accepted queries
  of the last second, a limit on its length, and a second limit on a burst window. The locale
  \<open>window_gate\<close> states what a sliding-window limiter does in one call and derives that no window
  holds more than the limit; \<open>rate_gate\<close> interprets it on \<open>send_query\<close>.
\<close>

section \<open>Definitions\<close>

record rate_limiter =
  rl_queries_per_second :: int
  rl_burst_limit :: int
  rl_burst_window_ms :: int
  rl_query_timestamps :: "time list"
  rl_total_queries :: int
  rl_blocked_queries :: int

definition new_rate_limiter :: rate_limiter where
  "new_rate_limiter = \<lparr>rl_queries_per_second = 10, rl_burst_limit = 50, rl_burst_window_ms = 5000,
     rl_query_timestamps = [], rl_total_queries = 0, rl_blocked_queries = 0\<rparr>"

text \<open>The call into the session by query type; an unknown type sends nothing and still succeeds.\<close>

definition dht_send :: "('w, 'p, 'h) libtorrent \<Rightarrow> string \<Rightarrow> string \<Rightarrow> 'w \<Rightarrow> exn option \<times> 'w" where
  "dht_send lt target query_type w =
     (if query_type = ''get_peers'' then dht_get_peers lt target w
      else if query_type = ''get_item'' then dht_get_item lt target w
      else (None, w))"

definition send_query ::
  "('w, 'p, 'h) libtorrent \<Rightarrow> string \<Rightarrow> string \<Rightarrow> rate_limiter \<Rightarrow> 'w \<Rightarrow> bool \<times> rate_limiter \<times> 'w" where
  "send_query lt target query_type r w =
     (let (now, w1) = steady_now lt w;
          stamps = dropWhile (\<lambda>t. now - t > 1000000000) (rl_query_timestamps r);
          r1 = r\<lparr>rl_query_timestamps := stamps\<rparr>
      in if length stamps \<ge> to_size_t (rl_queries_per_second r)
         then (False, r1\<lparr>rl_blocked_queries := rl_blocked_queries r + 1\<rparr>, w1)
         else
           (let burst_start = now - rl_burst_window_ms r * 1000000;
                burst_count = int (length (filter (\<lambda>t. t > burst_start) stamps))
            in if burst_count \<ge> rl_burst_limit r
               then (False, r1\<lparr>rl_blocked_queries := rl_blocked_queries r + 1\<rparr>, w1)
               else
                 (case dht_send lt target query_type w1 of
                    (Some e, w2) \<Rightarrow> (False, r1, w2)
                  | (None, w2) \<Rightarrow>
                      (True, r1\<lparr>rl_query_timestamps := stamps @ [now], rl_total_queries := rl_total_queries r + 1\<rparr>, w2))))"

definition set_rate_limit :: "int \<Rightarrow> rate_limiter \<Rightarrow> rate_limiter" where
  "set_rate_limit queries_per_second r = r\<lparr>rl_queries_per_second := queries_per_second\<rparr>"

definition set_burst_limit :: "int \<Rightarrow> int \<Rightarrow> rate_limiter \<Rightarrow> rate_limiter" where
  "set_burst_limit burst_limit window_ms r = r\<lparr>rl_burst_limit := burst_limit, rl_burst_window_ms := window_ms\<rparr>"

section \<open>Sliding windows\<close>

text \<open>The times a gate admits in a sequence of calls, and how many of them a window holds.\<close>

primrec admitted :: "('i \<Rightarrow> 's \<Rightarrow> bool \<times> 's) \<Rightarrow> ('i \<Rightarrow> time) \<Rightarrow> 'i list \<Rightarrow> 's \<Rightarrow> time list" where
  "admitted admit time_of [] s = []"
| "admitted admit time_of (i # is) s =
     (if fst (admit i s) then [time_of i] else []) @ admitted admit time_of is (snd (admit i s))"

definition in_window :: "int \<Rightarrow> time \<Rightarrow> time list \<Rightarrow> nat" where
  "in_window window t xs = length (filter (\<lambda>x. t \<le> x \<and> x \<le> t + window) xs)"

lemma in_window_append: "in_window window t (xs @ ys) = in_window window t xs + in_window window t ys"
  by (simp add: in_window_def)

text \<open>
  A gate that keeps the time stamps of what it admitted: in a call at \<open>time_of i\<close> it forgets a
  prefix older than \<open>window\<close>, admits only when fewer than \<open>limit\<close> stamps are left, and then appends
  the current time.
\<close>

locale window_gate =
  fixes admit :: "'i \<Rightarrow> 's \<Rightarrow> bool \<times> 's"
    and time_of :: "'i \<Rightarrow> time"
    and stamps :: "'s \<Rightarrow> time list"
    and inv :: "'s \<Rightarrow> bool"
    and limit :: nat
    and window :: int
  assumes admit_stamps: "inv s \<Longrightarrow> stamps (snd (admit i s)) =
      dropWhile (\<lambda>t. time_of i - t > window) (stamps s) @ (if fst (admit i s) then [time_of i] else [])"
    and admit_below: "inv s \<Longrightarrow> fst (admit i s) \<Longrightarrow>
      length (dropWhile (\<lambda>t. time_of i - t > window) (stamps s)) < limit"
    and inv_admit: "inv s \<Longrightarrow> inv (snd (admit i s))"
begin

text \<open>
  \<open>past\<close> is what was admitted before, split into the forgotten part \<open>old\<close> and the stamps. Every
  forgotten time is more than a window older than the coming calls.
\<close>

lemma admitted_window:
  assumes "inv s"
    and "\<forall>i \<in> set is. \<forall>x \<in> set old. time_of i - x > window"
    and "sorted (map time_of is)"
    and "\<And>t. in_window window t (old @ stamps s) \<le> limit"
  shows "in_window window t (old @ stamps s @ admitted admit time_of is s) \<le> limit"
  using assms
proof (induction "is" arbitrary: s old t)
  case Nil
  then show ?case by simp
next
  case (Cons i "is")
  let ?now = "time_of i" and ?s = "snd (admit i s)"
  let ?old = "takeWhile (\<lambda>t. ?now - t > window) (stamps s)"
  let ?keep = "dropWhile (\<lambda>t. ?now - t > window) (stamps s)"
  let ?new = "if fst (admit i s) then [?now] else []"
  have split: "stamps s = ?old @ ?keep" by simp
  have st: "stamps ?s = ?keep @ ?new" by (rule admit_stamps [OF Cons.prems(1)])
  have later: "\<forall>j \<in> set is. ?now \<le> time_of j" using Cons.prems(3) by simp
  have old: "\<forall>x \<in> set (old @ ?old). ?now - x > window"
    using Cons.prems(2) by (auto dest: set_takeWhileD)
  have win: "in_window window u ((old @ ?old) @ stamps ?s) \<le> limit" for u
  proof (cases "fst (admit i s) \<and> u \<le> ?now \<and> ?now \<le> u + window")
    case True
    have "filter (\<lambda>x. u \<le> x \<and> x \<le> u + window) (old @ ?old) = []"
      unfolding filter_empty_conv
    proof
      fix x assume "x \<in> set (old @ ?old)"
      with old have "?now - x > window" by blast
      with True show "\<not> (u \<le> x \<and> x \<le> u + window)" by linarith
    qed
    then have "in_window window u (old @ ?old) = 0" by (simp add: in_window_def)
    moreover have "in_window window u ?keep \<le> length ?keep" by (simp add: in_window_def)
    moreover have "length ?keep < limit" using admit_below [OF Cons.prems(1)] True by blast
    moreover have "in_window window u ?new \<le> 1" by (simp add: in_window_def)
    ultimately show ?thesis by (simp add: st in_window_append)
  next
    case False
    then have "in_window window u ?new = 0" by (auto simp: in_window_def)
    then have "in_window window u ((old @ ?old) @ stamps ?s) = in_window window u old + in_window window u (?old @ ?keep)"
      unfolding st in_window_append by simp
    then show ?thesis using Cons.prems(4) [of u] by (simp add: in_window_append)
  qed
  have "in_window window t ((old @ ?old) @ stamps ?s @ admitted admit time_of is ?s) \<le> limit"
  proof (rule Cons.IH)
    show "inv ?s" by (rule inv_admit [OF Cons.prems(1)])
    show "\<forall>i \<in> set is. \<forall>x \<in> set (old @ ?old). time_of i - x > window"
      using old later by fastforce
    show "sorted (map time_of is)" using Cons.prems(3) by simp
    show "in_window window t ((old @ ?old) @ stamps ?s) \<le> limit" for t by (rule win)
  qed
  moreover have "old @ stamps s @ admitted admit time_of (i # is) s = (old @ ?old) @ stamps ?s @ admitted admit time_of is ?s"
    using split by (simp add: st)
  ultimately show ?case by (simp only:)
qed

lemma admitted_from_empty:
  assumes "inv s" "stamps s = []" "sorted (map time_of is)"
  shows "in_window window t (admitted admit time_of is s) \<le> limit"
  using admitted_window [of s "is" "[]" t] assms by (simp add: in_window_def)

end

section \<open>The limiter is a sliding-window gate\<close>

text \<open>One call as the locale sees it: the arguments, the world at the call, the limiter.\<close>

definition gate_admit :: "('w, 'p, 'h) libtorrent \<Rightarrow> string \<times> string \<times> 'w \<Rightarrow> rate_limiter \<Rightarrow> bool \<times> rate_limiter" where
  "gate_admit lt i r = (case i of (target, ty, w) \<Rightarrow> (case send_query lt target ty r w of (ok, r', w') \<Rightarrow> (ok, r')))"

definition gate_time :: "('w, 'p, 'h) libtorrent \<Rightarrow> string \<times> string \<times> 'w \<Rightarrow> time" where
  "gate_time lt i = (case i of (target, ty, w) \<Rightarrow> fst (steady_now lt w))"

lemmas send_query_simps = send_query_def gate_admit_def gate_time_def Let_def split_beta

interpretation rate_gate: window_gate "gate_admit lt" "gate_time lt" rl_query_timestamps
  "\<lambda>r. to_size_t (rl_queries_per_second r) = L" L 1000000000
  for lt :: "('w, 'p, 'h) libtorrent" and L :: nat
  by unfold_locales (auto simp: send_query_simps split: if_splits option.splits)

text \<open>The times of the queries a sequence of calls sends.\<close>

fun sent_times :: "('w, 'p, 'h) libtorrent \<Rightarrow> (string \<times> string \<times> 'w) list \<Rightarrow> rate_limiter \<Rightarrow> time list" where
  "sent_times lt [] r = []"
| "sent_times lt ((target, ty, w) # calls) r =
     (case send_query lt target ty r w of
        (ok, r', w') \<Rightarrow> (if ok then [fst (steady_now lt w)] else []) @ sent_times lt calls r')"

lemma sent_times_admitted: "sent_times lt calls r = admitted (gate_admit lt) (gate_time lt) calls r"
proof (induction calls arbitrary: r)
  case Nil
  then show ?case by simp
next
  case (Cons c calls)
  obtain target ty w where c: "c = (target, ty, w)" by (metis prod_cases3)
  obtain ok r' w' where "send_query lt target ty r w = (ok, r', w')" by (metis prod_cases3)
  with Cons.IH [of r'] show ?case
    by (simp add: c gate_admit_def gate_time_def)
qed

section \<open>Properties\<close>

text \<open>C17: However many queries are attempted and whatever else happens between the calls, no window
  of one second contains more accepted queries than the configured rate, provided the clock does
  not run backwards.\<close>

theorem rate_limit_sliding_window:
  assumes "sorted (map (\<lambda>(target, ty, w). fst (steady_now lt w)) calls)"
    and "rl_query_timestamps r = []"
  shows "length (filter (\<lambda>x. t \<le> x \<and> x \<le> t + 1000000000) (sent_times lt calls r))
    \<le> to_size_t (rl_queries_per_second r)"
proof -
  have "sorted (map (gate_time lt) calls)"
    using assms(1) by (simp add: gate_time_def [abs_def])
  from rate_gate.admitted_from_empty [OF refl assms(2) this, of t]
  show ?thesis by (simp add: in_window_def sent_times_admitted)
qed

theorem rate_limit_sliding_window_witness:
  "length (filter (\<lambda>x. 0 \<le> x \<and> x \<le> 0 + 1000000000)
     (sent_times demo_lt (replicate 12 (''h'', ''get_peers'', demo_start)) new_rate_limiter)) \<le> 10"
  using rate_limit_sliding_window [of demo_lt "replicate 12 (''h'', ''get_peers'', demo_start)" new_rate_limiter 0]
  by (simp add: new_rate_limiter_def to_size_t_def)

text \<open>The burst window has no effect: while the rate does not exceed the burst limit (10 against 50
  as constructed), no choice of the window length changes the outcome of a call, because the queue
  of time stamps never reaches further back than one second.\<close>

theorem burst_window_has_no_effect:
  assumes "0 \<le> rl_queries_per_second r" and "rl_queries_per_second r \<le> rl_burst_limit r"
    and "rl_queries_per_second r < 2 ^ 64"
  shows "send_query lt target ty (r\<lparr>rl_burst_window_ms := v\<rparr>) w =
    (case send_query lt target ty r w of (ok, r', w') \<Rightarrow> (ok, r'\<lparr>rl_burst_window_ms := v\<rparr>, w'))"
proof -
  let ?ts = "dropWhile (\<lambda>t. fst (steady_now lt w) - t > 1000000000) (rl_query_timestamps r)"
  have "int (length (filter P ?ts)) < rl_burst_limit r" if "length ?ts < to_size_t (rl_queries_per_second r)" for P
  proof -
    have "length (filter P ?ts) \<le> length ?ts" by (rule length_filter_le)
    moreover have "to_size_t (rl_queries_per_second r) = nat (rl_queries_per_second r)"
      using assms by (intro to_size_t_nonneg) auto
    ultimately show ?thesis using that assms(1,2) by linarith
  qed
  then have "\<not> rl_burst_limit r \<le> int (length (filter P ?ts))"
    if "\<not> to_size_t (rl_queries_per_second r) \<le> length ?ts" for P
    using that by (meson not_le)
  then show ?thesis
    by (auto simp: send_query_def Let_def split_beta split: option.splits)
qed

theorem burst_window_has_no_effect_witness:
  "send_query demo_lt ''h'' ''get_peers'' (new_rate_limiter\<lparr>rl_burst_window_ms := 0\<rparr>) demo_start =
   (case send_query demo_lt ''h'' ''get_peers'' new_rate_limiter demo_start of
      (ok, r', w') \<Rightarrow> (ok, r'\<lparr>rl_burst_window_ms := 0\<rparr>, w'))"
  by (rule burst_window_has_no_effect) (simp_all add: new_rate_limiter_def)

end
