(* ===== verification/Sliding_Window.thy ===== *)
theory Sliding_Window
  imports Main "HOL-Library.Sublist"
begin

text \<open>
  Buffers that forget: several classes append to a vector and erase its first element when the vector has grown
  past a limit. The interface \<open>sliding_window\<close> says what one call does to the buffer; it follows that the buffer always
  holds the last entries of everything that was ever appended.
\<close>

definition last_n :: "nat \<Rightarrow> 'a list \<Rightarrow> 'a list" where
  "last_n n xs = drop (length xs - n) xs"

lemma last_n_short [simp]: "length xs \<le> n \<Longrightarrow> last_n n xs = xs"
  by (simp add: last_n_def)

lemma length_last_n [simp]: "length (last_n n xs) = min n (length xs)"
  by (simp add: last_n_def)

lemma last_n_push: "(let ys = last_n n xs @ [x] in if length ys > n then tl ys else ys) = last_n n (xs @ [x])"
proof (cases "length xs < n")
  case False
  then have "tl (last_n n xs @ [x]) = last_n n (xs @ [x])"
    by (cases "n = 0") (auto simp: last_n_def tl_append2 Suc_diff_le drop_Suc tl_drop)
  with False show ?thesis by (simp add: Let_def)
qed (simp add: Let_def)

text \<open>\<^verbatim>\<open>v.push_back(x); if (v.size() > limit) v.erase(v.begin());\<close>\<close>

definition push_limited :: "nat \<Rightarrow> 'a list \<Rightarrow> 'a \<Rightarrow> 'a list" where
  "push_limited limit v x = (let v' = v @ [x] in if length v' > limit then tl v' else v')"

lemma map_push_limited: "map f (push_limited n v x) = push_limited n (map f v) (f x)"
  by (simp add: push_limited_def Let_def map_tl)

lemma push_limited_last_n: "push_limited n (last_n n xs) x = last_n n (xs @ [x])"
  using last_n_push [of n xs x] by (simp add: push_limited_def)

lemma last_last_n: "0 < n \<Longrightarrow> xs \<noteq> [] \<Longrightarrow> last_n n xs \<noteq> [] \<and> last (last_n n xs) = last xs"
proof -
  assume "0 < n" "xs \<noteq> []"
  then have "length xs - n < length xs" by simp
  then show ?thesis by (simp add: last_n_def last_drop)
qed

lemma last_n_map: "last_n n (map f xs) = map f (last_n n xs)"
  by (simp add: last_n_def drop_map)

locale sliding_window =
  fixes push :: "'s \<Rightarrow> 'op \<Rightarrow> 's" and window :: "'s \<Rightarrow> 'a list" and limit :: "'s \<Rightarrow> nat" and entry :: "'op \<Rightarrow> 'a option"
  assumes limit_push: "limit (push s op) = limit s"
    and window_push: "window (push s op) =
      (case entry op of None \<Rightarrow> window s
       | Some x \<Rightarrow> (let ys = window s @ [x] in if length ys > limit s then tl ys else ys))"
begin

lemma window_history:
  "window s = last_n (limit s) hist \<Longrightarrow> window (foldl push s ops) = last_n (limit s) (hist @ List.map_filter entry ops)"
proof (induction ops arbitrary: s hist)
  case (Cons op ops)
  have "window (push s op) = last_n (limit s) (hist @ List.map_filter entry [op])"
    using Cons.prems last_n_push [of "limit s" hist] by (auto simp: window_push map_filter_simps split: option.splits)
  from Cons.IH [of "push s op", unfolded limit_push, OF this] show ?case
    by (simp add: map_filter_simps split: option.splits)
qed (simp add: map_filter_simps)

lemma window_bound: "length (window s) \<le> limit s \<Longrightarrow> length (window (foldl push s ops)) \<le> limit s"
  using window_history [of s "window s" ops] by simp

end

text \<open>
  A buffer of this kind from which entries are also removed by age. The entries that are recent
  enough come last in the history; of these the buffer keeps every one that is among the last
  \<open>limit\<close>, and what it holds is a part of the history within the limit.
\<close>

definition retained :: "('a \<Rightarrow> bool) \<Rightarrow> nat \<Rightarrow> 'a list \<Rightarrow> 'a list \<Rightarrow> bool" where
  "retained recent limit hist l \<longleftrightarrow> subseq l hist \<and> length l \<le> limit \<and> subseq (filter recent (last_n limit hist)) l"

lemma subseq_head_position: "subseq (y # ys) xs \<Longrightarrow> y \<in> set (take (length xs - length ys) xs)"
proof (induction xs)
  case (Cons x xs)
  show ?case
  proof (cases "subseq (y # ys) xs")
    case True
    with Cons.IH have "y \<in> set (take (length xs - length ys) xs)" by simp
    moreover have "length ys < length xs" using list_emb_length [OF True] by simp
    ultimately show ?thesis by (simp add: Suc_diff_le less_imp_le)
  next
    case False
    with Cons.prems have "y = x" "subseq ys xs" by (auto split: if_splits)
    with list_emb_length [of _ ys xs] show ?thesis by (simp add: Suc_diff_le)
  qed
qed simp

lemma retained_sweep:
  assumes "retained P n hist l" "subseq l' l" "\<And>x. Q x \<Longrightarrow> P x" "subseq (filter Q l) l'"
  shows "retained Q n hist l'"
proof -
  have "filter Q (filter P (last_n n hist)) = filter Q (last_n n hist)" using assms(3) by (auto simp: filter_filter intro: filter_cong)
  then have "subseq (filter Q (last_n n hist)) (filter Q l)" using assms(1) subseq_filter [of "filter P (last_n n hist)" l Q] by (simp add: retained_def)
  moreover have "length l' \<le> length l" using assms(2) by (rule list_emb_length)
  ultimately show ?thesis using assms by (auto simp: retained_def intro: subseq_order.trans)
qed

lemma retained_push:
  assumes "retained P n hist l" and down: "\<And>xs x ys. hist = xs @ x # ys \<Longrightarrow> \<not> P x \<Longrightarrow> \<forall>y \<in> set xs. \<not> P y"
  shows "retained P n (hist @ [m]) (push_limited n l m)"
proof -
  let ?F = "filter P (last_n n hist)"
  have sub: "subseq l hist" "length l \<le> n" "subseq ?F l" using assms(1) by (simp_all add: retained_def)
  have fm: "subseq (filter P [m]) [m]" by simp
  show ?thesis
  proof (cases "length l < n")
    case True
    have "subseq (drop (Suc k) hist) (drop k hist)" for k
      using suffix_drop [of 1 "drop k hist"] by (simp add: suffix_imp_subseq)
    then have "subseq (last_n n (hist @ [m])) (last_n n hist @ [m])"
      using True by (cases "length hist < n") (simp_all add: last_n_def Suc_diff_le)
    from subseq_filter [OF this, of P] have "subseq (filter P (last_n n (hist @ [m]))) (?F @ filter P [m])" by simp
    also have "subseq \<dots> (l @ [m])" using list_emb_append_mono [OF sub(3) fm] .
    finally show ?thesis using sub True list_emb_append_mono [OF sub(1), of "[m]" "[m]"] by (simp add: retained_def push_limited_def)
  next
    case False
    then have len: "length l = n" "n \<le> length hist" using sub list_emb_length [OF sub(1)] by auto
    show ?thesis
    proof (cases l)
      case Nil
      with len sub show ?thesis by (simp add: retained_def push_limited_def last_n_def)
    next
      case (Cons y ys)
      have n: "n = Suc (length ys)" using len Cons by simp
      obtain x xs where x: "last_n n hist = x # xs" "hist = take (length hist - n) hist @ x # xs"
        using len n by (cases "last_n n hist") (auto simp: last_n_def, metis append_take_drop_id)
      have "subseq (filter P xs) ys"
      proof (cases "P x")
        case True
        then have "subseq (x # filter P xs) (y # ys)" using sub(3) x(1) Cons by simp
        then show ?thesis by (auto split: if_splits intro: subseq_Cons')
      next
        case False
        have "y \<in> set (take (length hist - length ys) hist)" using subseq_head_position [of y ys hist] sub(1) Cons by simp
        moreover have "take (length hist - length ys) hist = take (length hist - n) hist @ [x]"
          using x(1) n len(2) nth_via_drop [of "length hist - n" hist x xs]
            take_Suc_conv_app_nth [of "length hist - n" hist] by (simp add: last_n_def Suc_diff_Suc)
        ultimately have "\<not> P y" using down [OF x(2) False] False by auto
        then have "y \<notin> set (filter P xs)" by simp
        moreover have "subseq (filter P xs) (y # ys)" using sub(3) x(1) Cons False by simp
        ultimately show ?thesis by (cases "filter P xs") (auto split: if_splits)
      qed
      moreover have "last_n n (hist @ [m]) = xs @ [m]"
      proof -
        have "drop (Suc (length hist - n)) hist = xs" using x(1) by (simp add: last_n_def drop_Suc flip: tl_drop)
        moreover have "Suc (length hist) - n = Suc (length hist - n)" "Suc (length hist - n) \<le> length hist" using len(2) n by simp_all
        ultimately show ?thesis by (simp add: last_n_def)
      qed
      ultimately show ?thesis
        using fm list_emb_append_mono [of _ "filter P xs" ys "filter P [m]" "[m]"] sub(1) Cons n
        by (auto simp: retained_def push_limited_def intro: list_emb_append_mono subseq_Cons')
    qed
  qed
qed

lemma retained_all:
  assumes "retained P n hist l" "\<forall>x \<in> set hist. P x"
  shows "l = last_n n hist"
proof -
  have "filter P (last_n n hist) = last_n n hist" using assms(2) by (auto simp: filter_id_conv last_n_def dest: in_set_dropD)
  then have "subseq (last_n n hist) l" using assms(1) by (simp add: retained_def)
  moreover have "length l \<le> length (last_n n hist)" using assms(1) list_emb_length by (auto simp: retained_def)
  ultimately show ?thesis by (metis subseq_same_length list_emb_length le_antisym)
qed

text \<open>Counting with \<^verbatim>\<open>counts[key]++\<close> over a vector: the entry of a key is the number of its occurrences.\<close>

fun count_into :: "('k \<rightharpoonup> int) \<Rightarrow> 'k list \<Rightarrow> ('k \<rightharpoonup> int)" where
  "count_into counts [] = counts"
| "count_into counts (k # ks) = count_into (counts(k \<mapsto> (case counts k of Some n \<Rightarrow> n | None \<Rightarrow> 0) + 1)) ks"

lemma count_into_exact:
  "count_into counts ks k =
     (if k \<in> set ks then Some ((case counts k of Some n \<Rightarrow> n | None \<Rightarrow> 0) + int (count_list ks k)) else counts k)"
  by (induction ks arbitrary: counts) (auto simp: count_list_0_iff split: option.splits)

end
