(* ===== verification/Smart_Crawler.thy ===== *)
theory Smart_Crawler
  imports Complex_Main Rate_Limiter Hash_Format Sliding_Window
begin

text \<open>
  \<^verbatim>\<open>PassiveObservationManager\<close> and \<^verbatim>\<open>SmartDHTCrawler\<close> of \<^verbatim>\<open>smart_dht_crawler.hpp\<close>: the crawler records
  the hashes it sees, keeps the last 1000 observations, and queries the well-seeded and the recent
  ones through the rate limiter. \<^verbatim>\<open>double\<close> values are rationals; the constant 0.1 is the rational
  value of the double nearest to it.
\<close>

section \<open>Definitions\<close>

record observed_info =
  ob_infohash :: string
  ob_source :: string
  ob_observed_time :: time
  ob_peer_count :: int
  ob_peer_addresses :: "string list"

record passive_observer =
  po_observations :: "observed_info list"
  po_unique_set :: "string set"
  po_total_observations :: int
  po_unique_infohashes :: int

definition new_passive_observer :: passive_observer where
  "new_passive_observer = \<lparr>po_observations = [], po_unique_set = {}, po_total_observations = 0, po_unique_infohashes = 0\<rparr>"

definition record_observation :: "time \<Rightarrow> string \<Rightarrow> string \<Rightarrow> int \<Rightarrow> string list \<Rightarrow> passive_observer \<Rightarrow> passive_observer" where
  "record_observation now infohash source peer_count peers p =
     (let info = \<lparr>ob_infohash = infohash, ob_source = source, ob_observed_time = now,
                  ob_peer_count = peer_count, ob_peer_addresses = peers\<rparr>;
          obs = po_observations p @ [info];
          p1 = p\<lparr>po_total_observations := po_total_observations p + 1\<rparr>;
          p2 = (if infohash \<notin> po_unique_set p1
                then p1\<lparr>po_unique_set := insert infohash (po_unique_set p1),
                        po_unique_infohashes := po_unique_infohashes p1 + 1\<rparr>
                else p1)
      in p2\<lparr>po_observations := if length obs > 1000 then tl obs else obs\<rparr>)"

definition get_high_value_infohashes :: "int \<Rightarrow> passive_observer \<Rightarrow> string list" where
  "get_high_value_infohashes min_peers p =
     map ob_infohash (filter (\<lambda>ob. ob_peer_count ob \<ge> min_peers) (po_observations p))"

definition get_recent_infohashes :: "time \<Rightarrow> int \<Rightarrow> passive_observer \<Rightarrow> string list" where
  "get_recent_infohashes now minutes p =
     map ob_infohash (filter (\<lambda>ob. ob_observed_time ob > now - minutes * 60000000000) (po_observations p))"

record smart_crawler =
  sc_rate_limiter :: rate_limiter
  sc_passive_observer :: passive_observer
  sc_adaptive_rate :: bool
  sc_base_rate :: int
  sc_max_rate :: int
  sc_success_threshold :: rat

definition double_0_1 :: rat where
  "double_0_1 = 3602879701896397 / 36028797018963968"

definition new_smart_crawler :: smart_crawler where
  "new_smart_crawler = \<lparr>sc_rate_limiter = new_rate_limiter, sc_passive_observer = new_passive_observer,
     sc_adaptive_rate = True, sc_base_rate = 5, sc_max_rate = 20, sc_success_threshold = double_0_1\<rparr>"

definition adjust_rate_based_on_success :: "rat \<Rightarrow> smart_crawler \<Rightarrow> smart_crawler" where
  "adjust_rate_based_on_success success_rate s =
     (if \<not> sc_adaptive_rate s then s
      else if success_rate > sc_success_threshold s then
        (let current_rate = rl_total_queries (sc_rate_limiter s)
         in if current_rate < sc_max_rate s
            then s\<lparr>sc_rate_limiter := set_rate_limit (current_rate + 1) (sc_rate_limiter s)\<rparr> else s)
      else if success_rate < sc_success_threshold s / 2 then
        (let current_rate = rl_total_queries (sc_rate_limiter s)
         in if current_rate > sc_base_rate s
            then s\<lparr>sc_rate_limiter := set_rate_limit (current_rate - 1) (sc_rate_limiter s)\<rparr> else s)
      else s)"

definition get_priority_infohashes :: "time \<Rightarrow> smart_crawler \<Rightarrow> string list" where
  "get_priority_infohashes now s =
     sorted_list_of_set (set (get_high_value_infohashes 3 (sc_passive_observer s))
       \<union> set (get_recent_infohashes now 10 (sc_passive_observer s)))"

text \<open>
  The loop over the priority hashes. \<^verbatim>\<open>std::stoi\<close> may throw on a 40-character string that is not
  hexadecimal; the exception leaves \<^verbatim>\<open>send_smart_queries\<close> with the queries sent so far.
\<close>

fun send_priority_queries ::
  "('w, 'p, 'h) libtorrent \<Rightarrow> string list \<Rightarrow> smart_crawler \<Rightarrow> 'w \<Rightarrow> exn option \<times> smart_crawler \<times> 'w" where
  "send_priority_queries lt [] s w = (None, s, w)"
| "send_priority_queries lt (hash_str # hs) s w =
     (if length hash_str = 40 then
        (case hex_pairs_to_bytes hash_str of
           Inl e \<Rightarrow> (Some e, s, w)
         | Inr target \<Rightarrow>
             (case send_query lt target ''get_peers'' (sc_rate_limiter s) w of
                (ok, r, w1) \<Rightarrow> send_priority_queries lt hs (s\<lparr>sc_rate_limiter := r\<rparr>) w1))
      else send_priority_queries lt hs s w)"

fun send_random_queries :: "('w, 'p, 'h) libtorrent \<Rightarrow> nat \<Rightarrow> smart_crawler \<Rightarrow> 'w \<Rightarrow> smart_crawler \<times> 'w" where
  "send_random_queries lt 0 s w = (s, w)"
| "send_random_queries lt (Suc n) s w =
     (let (target, w1) = random_bytes lt 20 w
      in case send_query lt target ''get_peers'' (sc_rate_limiter s) w1 of
           (ok, r, w2) \<Rightarrow> send_random_queries lt n (s\<lparr>sc_rate_limiter := r\<rparr>) w2)"

definition send_smart_queries ::
  "('w, 'p, 'h) libtorrent \<Rightarrow> smart_crawler \<Rightarrow> 'w \<Rightarrow> exn option \<times> smart_crawler \<times> 'w" where
  "send_smart_queries lt s w =
     (let (now, w1) = steady_now lt w;
          priority_hashes = get_priority_infohashes now s
      in case send_priority_queries lt priority_hashes s w1 of
           (Some e, s1, w2) \<Rightarrow> (Some e, s1, w2)
         | (None, s1, w2) \<Rightarrow>
             if priority_hashes = []
             then (case send_random_queries lt 3 s1 w2 of (s2, w3) \<Rightarrow> (None, s2, w3))
             else (None, s1, w2))"

definition record_incoming_observation :: "time \<Rightarrow> string \<Rightarrow> string \<Rightarrow> int \<Rightarrow> string list \<Rightarrow> smart_crawler \<Rightarrow> smart_crawler" where
  "record_incoming_observation now infohash source peer_count peers s =
     s\<lparr>sc_passive_observer := record_observation now infohash source peer_count peers (sc_passive_observer s)\<rparr>"

section \<open>The observation buffer\<close>

text \<open>The observation a call records, and the buffer after a sequence of calls.\<close>

fun record_all :: "observed_info list \<Rightarrow> passive_observer \<Rightarrow> passive_observer" where
  "record_all [] p = p"
| "record_all (ob # obs) p =
     record_all obs (record_observation (ob_observed_time ob) (ob_infohash ob) (ob_source ob)
                       (ob_peer_count ob) (ob_peer_addresses ob) p)"

lemma record_observation_fields:
  fixes p :: passive_observer and ob :: observed_info
  defines "p' \<equiv> record_observation (ob_observed_time ob) (ob_infohash ob) (ob_source ob) (ob_peer_count ob) (ob_peer_addresses ob) p"
  shows "po_observations p' = (if length (po_observations p) \<ge> 1000 then tl (po_observations p @ [ob]) else po_observations p @ [ob])"
    and "po_unique_set p' = insert (ob_infohash ob) (po_unique_set p)"
    and "po_total_observations p' = po_total_observations p + 1"
    and "po_unique_infohashes p' = (if ob_infohash ob \<in> po_unique_set p then po_unique_infohashes p else po_unique_infohashes p + 1)"
  unfolding p'_def by (cases ob; auto simp: record_observation_def Let_def)+

text \<open>The abstract view: the whole history, of which the observer shows the last 1000.\<close>

definition observer_of :: "observed_info list \<Rightarrow> passive_observer" where
  "observer_of os = \<lparr>po_observations = drop (length os - 1000) os, po_unique_set = ob_infohash ` set os,
     po_total_observations = int (length os), po_unique_infohashes = int (card (ob_infohash ` set os))\<rparr>"

lemma record_observer_of:
  "record_observation (ob_observed_time ob) (ob_infohash ob) (ob_source ob) (ob_peer_count ob) (ob_peer_addresses ob)
     (observer_of os) = observer_of (os @ [ob])"
proof (rule passive_observer.equality)
  let ?p = "record_observation (ob_observed_time ob) (ob_infohash ob) (ob_source ob) (ob_peer_count ob) (ob_peer_addresses ob) (observer_of os)"
  show "po_observations ?p = po_observations (observer_of (os @ [ob]))"
    using last_n_push [of 1000 os ob]
    by (simp add: record_observation_fields) (simp add: observer_of_def last_n_def Let_def not_less split: if_splits)
qed (simp_all add: record_observation_fields, auto simp: observer_of_def card_insert_if)

lemma record_all_observer_of: "record_all os (observer_of hist) = observer_of (hist @ os)"
  by (induction os arbitrary: hist) (simp_all add: record_observer_of)

lemma observer_of_Nil: "observer_of [] = new_passive_observer"
  by (simp add: observer_of_def new_passive_observer_def)

section \<open>Sending smart queries\<close>

text \<open>A hash string as the alert handlers record it: the hex form of 20 bytes.\<close>

definition recorded_hash :: "string \<Rightarrow> bool" where
  "recorded_hash h \<longleftrightarrow> (\<exists>b. length b = 20 \<and> h = binary_to_hex b)"

lemma send_priority_queries_no_exn:
  "\<forall>h \<in> set hs. recorded_hash h \<Longrightarrow> fst (send_priority_queries lt hs s w) = None"
proof (induction hs arbitrary: s w)
  case Nil
  then show ?case by simp
next
  case (Cons h hs)
  then obtain b where "h = binary_to_hex b" by (auto simp: recorded_hash_def)
  with Cons show ?case by (simp add: hex_pairs_to_bytes_binary_to_hex split_beta)
qed

lemma send_query_frame [frame_laws]:
  "rl_queries_per_second (fst (snd (send_query lt target ty r w))) = rl_queries_per_second r"
  by (simp add: send_query_def Let_def split_beta split: option.splits)

lemma send_priority_queries_frame [frame_laws]:
  "sc_passive_observer (fst (snd (send_priority_queries lt hs s w))) = sc_passive_observer s
   \<and> rl_queries_per_second (sc_rate_limiter (fst (snd (send_priority_queries lt hs s w)))) = rl_queries_per_second (sc_rate_limiter s)"
proof (induction hs arbitrary: s w)
  case (Cons h hs)
  then show ?case
    by (auto simp: split_beta send_query_frame split: sum.splits)
qed simp

lemma send_random_queries_frame [frame_laws]:
  "sc_passive_observer (fst (send_random_queries lt n s w)) = sc_passive_observer s
   \<and> rl_queries_per_second (sc_rate_limiter (fst (send_random_queries lt n s w))) = rl_queries_per_second (sc_rate_limiter s)"
  by (induction n arbitrary: s w) (simp_all add: split_beta Let_def send_query_frame)

lemma set_get_priority_infohashes:
  "set (get_priority_infohashes now s) \<subseteq> ob_infohash ` set (po_observations (sc_passive_observer s))"
  by (auto simp: get_priority_infohashes_def get_high_value_infohashes_def get_recent_infohashes_def)

section \<open>Properties\<close>

text \<open>C18: After any sequence of recorded observations the observer holds the last 1000 of them in
  order, the total counts all of them, and the unique counter is the number of distinct hashes
  ever seen, evicted ones included.\<close>

theorem observer_refines_history:
  "record_all os new_passive_observer =
     \<lparr>po_observations = drop (length os - 1000) os, po_unique_set = ob_infohash ` set os,
      po_total_observations = int (length os), po_unique_infohashes = int (card (ob_infohash ` set os))\<rparr>"
  using record_all_observer_of [of os "[]"] by (simp add: observer_of_Nil) (simp add: observer_of_def)

text \<open>The rate adjustment reads the total number of queries where it means the current rate:
  on a poor success rate it sets the limit to the total minus one, so after more than 21 queries
  the decrease leaves the limit above the configured maximum rate.\<close>

theorem poor_success_raises_rate:
  assumes "sc_adaptive_rate s" and "0 < sc_success_threshold s"
    and "success_rate < sc_success_threshold s / 2"
    and "sc_base_rate s < rl_total_queries (sc_rate_limiter s)"
    and "sc_max_rate s + 1 < rl_total_queries (sc_rate_limiter s)"
  shows "rl_queries_per_second (sc_rate_limiter (adjust_rate_based_on_success success_rate s))
      = rl_total_queries (sc_rate_limiter s) - 1
    \<and> sc_max_rate s < rl_queries_per_second (sc_rate_limiter (adjust_rate_based_on_success success_rate s))"
proof -
  have "\<not> sc_success_threshold s < success_rate" using assms(2,3) by linarith
  with assms show ?thesis by (simp add: adjust_rate_based_on_success_def set_rate_limit_def)
qed

theorem poor_success_raises_rate_witness:
  "sc_max_rate new_smart_crawler <
     rl_queries_per_second (sc_rate_limiter (adjust_rate_based_on_success 0
       (new_smart_crawler\<lparr>sc_rate_limiter := new_rate_limiter\<lparr>rl_total_queries := 500\<rparr>\<rparr>)))"
  using poor_success_raises_rate [of "new_smart_crawler\<lparr>sc_rate_limiter := new_rate_limiter\<lparr>rl_total_queries := 500\<rparr>\<rparr>" 0]
  by (simp add: new_smart_crawler_def double_0_1_def)

text \<open>While every recorded observation is the hex form of 20 bytes, as the alert handlers record
  it, \<^verbatim>\<open>send_smart_queries\<close> never throws, and it changes neither the observations nor the rate.\<close>

theorem send_smart_queries_safe:
  assumes "\<forall>ob \<in> set (po_observations (sc_passive_observer s)). recorded_hash (ob_infohash ob)"
  shows "fst (send_smart_queries lt s w) = None
    \<and> sc_passive_observer (fst (snd (send_smart_queries lt s w))) = sc_passive_observer s
    \<and> rl_queries_per_second (sc_rate_limiter (fst (snd (send_smart_queries lt s w)))) = rl_queries_per_second (sc_rate_limiter s)"
proof -
  let ?hs = "get_priority_infohashes (fst (steady_now lt w)) s"
  have "\<forall>h \<in> set ?hs. recorded_hash h"
    using set_get_priority_infohashes [of "fst (steady_now lt w)" s] assms by auto
  then have "fst (send_priority_queries lt ?hs s w') = None" for w' by (rule send_priority_queries_no_exn)
  then show ?thesis
    using send_priority_queries_frame [of lt ?hs s "snd (steady_now lt w)"]
    by (simp add: send_smart_queries_def Let_def split_beta send_random_queries_frame)
qed

theorem send_smart_queries_safe_witness:
  "fst (send_smart_queries demo_lt (record_incoming_observation 0 (binary_to_hex (replicate 20 CHR ''q'')) ''peer_reply'' 5 []
     new_smart_crawler) demo_start) = None"
proof -
  let ?s = "record_incoming_observation 0 (binary_to_hex (replicate 20 CHR ''q'')) ''peer_reply'' 5 [] new_smart_crawler"
  have "recorded_hash (binary_to_hex (replicate 20 CHR ''q''))"
    unfolding recorded_hash_def by (rule exI [of _ "replicate 20 CHR ''q''"]) simp
  then have "\<forall>ob \<in> set (po_observations (sc_passive_observer ?s)). recorded_hash (ob_infohash ob)"
    by (simp add: record_incoming_observation_def record_observation_def new_smart_crawler_def new_passive_observer_def Let_def)
  from send_smart_queries_safe [OF this, of demo_lt demo_start] show ?thesis by blast
qed

text \<open>The hashes chosen for querying are exactly those with at least three peers or seen in the
  last ten minutes, each once, in ascending order.\<close>

theorem priority_infohashes_spec:
  "sorted (get_priority_infohashes now s) \<and> distinct (get_priority_infohashes now s)
   \<and> set (get_priority_infohashes now s) =
       {ob_infohash ob | ob. ob \<in> set (po_observations (sc_passive_observer s))
          \<and> (3 \<le> ob_peer_count ob \<or> now - 600000000000 < ob_observed_time ob)}"
  by (auto simp: get_priority_infohashes_def get_high_value_infohashes_def get_recent_infohashes_def)

end
