(* ===== verification/Crawler_State.thy ===== *)
theory Crawler_State
  imports Mysql_Connection Metadata_Downloader Metadata_Extraction Worker_Pool Concurrent_Dht Bep51_Indexer Smart_Crawler
begin

text \<open>
  The state of \<^verbatim>\<open>DHTTorrentCrawler\<close> (\<^verbatim>\<open>dht_crawler.cpp\<close>), its constructor, the log filter, and \<^verbatim>\<open>initialize\<close> with the setup of
  the two metadata modes. The session is always present after the constructor, so the components
  that hold a pointer to it are created with one. What the crawler reads from libtorrent beyond
  the calls of \<open>libtorrent\<close> (alerts, torrent files), from the file system and from uninitialised
  members is the parameter \<open>alert_source\<close>. The worker pool is an owning pointer: \<open>None\<close> once it is
  reset; a use of the reset pointer is recorded in \<open>cr_null_deref\<close>.
\<close>

section \<open>Definitions\<close>

datatype 'h alert =
    Dht_get_peers_reply string "(string \<times> int) list"
  | Dht_announce string
  | Dht_immutable_item string
  | Metadata_received 'h
  | Dht_bootstrap
  | Other_alert string

record ('w, 'h) alert_source =
  al_pop_alerts :: "'w \<Rightarrow> 'h alert list \<times> 'w"
  al_torrent_file :: "'h \<Rightarrow> 'w \<Rightarrow> exn + torrent_info option"
  al_info_hash :: "'h \<Rightarrow> string"
  al_read_lines :: "string \<Rightarrow> 'w \<Rightarrow> string list option"
  al_sleep :: "int \<Rightarrow> 'w \<Rightarrow> 'w"
  al_indeterminate :: "'w \<Rightarrow> int \<times> int \<times> nat"

record 'h crawler =
  cr_mysql :: mysql_connection
  cr_discovered_torrents :: "(string, discovered_torrent) smap"
  cr_queried_hashes :: "string set"
  cr_metadata_requested :: "string set"
  cr_running :: bool
  cr_shutdown_requested :: bool
  cr_total_queries :: int
  cr_torrents_found :: int
  cr_peers_found :: int
  cr_metadata_fetched :: int
  cr_metadata_only_mode :: bool
  cr_metadata_hash_list :: "string list"
  cr_metadata_database_mode :: bool
  cr_metadata_db_offset :: int
  cr_metadata_db_total_records :: int
  cr_metadata_db_processed :: int
  cr_debug_mode :: bool
  cr_verbose_mode :: bool
  cr_metadata_log_mode :: bool
  cr_metadata_manager :: metadata_manager
  cr_metadata_downloader :: "'h downloader"
  cr_metadata_worker_pool :: "worker_pool option"
  cr_concurrent_dht :: dht_manager
  cr_use_concurrent_mode :: bool
  cr_bep51_indexer :: bep51_indexer
  cr_use_bep51_mode :: bool
  cr_smart_crawler :: smart_crawler
  cr_use_smart_mode :: bool
  cr_null_deref :: bool

definition new_crawler :: "'w mysql_api \<Rightarrow> mysql_config \<Rightarrow> 'h crawler" where
  "new_crawler api config = \<lparr>
     cr_mysql = new_mysql_connection api config,
     cr_discovered_torrents = [], cr_queried_hashes = {}, cr_metadata_requested = {},
     cr_running = False, cr_shutdown_requested = False,
     cr_total_queries = 0, cr_torrents_found = 0, cr_peers_found = 0, cr_metadata_fetched = 0,
     cr_metadata_only_mode = False, cr_metadata_hash_list = [],
     cr_metadata_database_mode = cf_metadata_database_mode config,
     cr_metadata_db_offset = 0, cr_metadata_db_total_records = 0, cr_metadata_db_processed = 0,
     cr_debug_mode = cf_debug_mode config, cr_verbose_mode = cf_verbose_mode config,
     cr_metadata_log_mode = cf_metadata_log_mode config,
     cr_metadata_manager = new_metadata_manager,
     cr_metadata_downloader = new_downloader True,
     cr_metadata_worker_pool = Some (new_worker_pool 10 20),
     cr_concurrent_dht = cm_set_progress_callback True (cm_set_query_callback True
       (new_dht_manager (nat (cf_num_workers config)))),
     cr_use_concurrent_mode = cf_concurrent_mode config,
     cr_bep51_indexer = new_bep51_indexer True,
     cr_use_bep51_mode = cf_bep51_mode config,
     cr_smart_crawler = new_smart_crawler,
     cr_use_smart_mode = True,
     cr_null_deref = False\<rparr>"

text \<open>The log callback: which messages are printed, and with which prefix.\<close>

definition is_metadata_log :: "string \<Rightarrow> bool" where
  "is_metadata_log message \<longleftrightarrow>
     contains_str message ''Metadata'' \<or> contains_str message ''metadata'' \<or> contains_str message ''METADATA'' \<or>
     contains_str message ''[MetadataManager]'' \<or> contains_str message ''[MetadataDownloader]'' \<or>
     contains_str message ''MetadataWorkerPool'' \<or> contains_str message ''*** METADATA'' \<or>
     contains_str message ''Metadata request'' \<or> contains_str message ''Metadata success'' \<or>
     contains_str message ''Metadata failure'' \<or> contains_str message ''Metadata timeout'' \<or>
     contains_str message ''Queued metadata'' \<or> contains_str message ''Metadata received'' \<or>
     contains_str message ''Extracted comprehensive metadata'' \<or>
     contains_str message ''Cleaned up timed out request'' \<or>
     contains_str message ''Worker'' \<and> contains_str message ''metadata''"

definition log_output :: "'h crawler \<Rightarrow> string \<Rightarrow> string option" where
  "log_output c message =
     (if cr_metadata_log_mode c then
        (if is_metadata_log message then Some (''[METADATA_LOG] '' @ message) else None)
      else if cr_debug_mode c then Some (''[DEBUG] '' @ message) else None)"

text \<open>
  \<^verbatim>\<open>erase(0, find_first_not_of(...))\<close> followed by \<^verbatim>\<open>erase(find_last_not_of(...) + 1)\<close>; \<^verbatim>\<open>npos\<close> erases everything, as an exhausted
  \<open>dropWhile\<close> does.
\<close>

definition trim_char :: "char \<Rightarrow> bool" where
  "trim_char c \<longleftrightarrow> c = CHR '' '' \<or> c = CHR 0x09 \<or> c = CHR 0x0D \<or> c = CHR 0x0A"

definition trim :: "string \<Rightarrow> string" where
  "trim s = rev (dropWhile trim_char (rev (dropWhile trim_char s)))"

text \<open>\<^verbatim>\<open>std::getline\<close> with a delimiter, to the end of the stream: an empty rest yields no piece.\<close>

fun getline_all :: "char \<Rightarrow> string \<Rightarrow> string \<Rightarrow> string list" where
  "getline_all d acc [] = (if acc = [] then [] else [rev acc])"
| "getline_all d acc (c # cs) = (if c = d then rev acc # getline_all d [] cs else getline_all d (c # acc) cs)"

definition add_hashes :: "string list \<Rightarrow> 'h crawler \<Rightarrow> 'h crawler" where
  "add_hashes pieces c = c\<lparr>cr_metadata_hash_list := cr_metadata_hash_list c @ filter (\<lambda>h. h \<noteq> []) (map trim pieces)\<rparr>"

definition setup_metadata_only_mode :: "('w, 'h) alert_source \<Rightarrow> 'h crawler \<Rightarrow> 'w \<Rightarrow> 'h crawler" where
  "setup_metadata_only_mode al c w =
     (let c1 = c\<lparr>cr_metadata_only_mode := True\<rparr>;
          hashes_str = cf_metadata_hashes (mc_config (cr_mysql c))
      in if contains_str hashes_str ''.txt'' \<or> contains_str hashes_str ''.csv'' then
           (case al_read_lines al hashes_str w of None \<Rightarrow> c1 | Some lines \<Rightarrow> add_hashes lines c1)
         else add_hashes (getline_all (CHR '','') [] hashes_str) c1)"

definition load_metadata_database_batch :: "'w mysql_api \<Rightarrow> 'h crawler \<Rightarrow> 'w \<Rightarrow> 'h crawler \<times> 'w" where
  "load_metadata_database_batch api c w =
     (case get_torrents_with_missing_metadata api (cr_mysql c) 100 (cr_metadata_db_offset c) w of
        (batch_hashes, w1) \<Rightarrow>
          if batch_hashes = [] then (c\<lparr>cr_shutdown_requested := True\<rparr>, w1)
          else (c\<lparr>cr_metadata_hash_list := cr_metadata_hash_list c @ batch_hashes,
                  cr_metadata_db_offset := cr_metadata_db_offset c + int (length batch_hashes)\<rparr>, w1))"

definition setup_metadata_database_mode :: "'w mysql_api \<Rightarrow> 'h crawler \<Rightarrow> 'w \<Rightarrow> 'h crawler \<times> 'w" where
  "setup_metadata_database_mode api c w =
     (case get_total_torrents_with_missing_metadata api (cr_mysql c) w of
        (total_records, w1) \<Rightarrow>
          let c1 = c\<lparr>cr_metadata_only_mode := True, cr_metadata_db_total_records := total_records\<rparr>
          in if total_records = 0 then (c1\<lparr>cr_shutdown_requested := True\<rparr>, w1)
             else load_metadata_database_batch api c1 w1)"

text \<open>The wait for the DHT bootstrap: at most 30 rounds of one second. Alerts popped here are dropped.\<close>

fun bootstrap_wait :: "('w, 'h) alert_source \<Rightarrow> nat \<Rightarrow> 'w \<Rightarrow> bool \<times> 'w" where
  "bootstrap_wait al 0 w = (False, w)"
| "bootstrap_wait al (Suc n) w =
     (case al_pop_alerts al w of
        (alerts, w1) \<Rightarrow>
          if Dht_bootstrap \<in> set alerts then (True, w1) else bootstrap_wait al n (al_sleep al 1000 w1))"

definition initialize :: "('w, 'h) alert_source \<Rightarrow> 'w mysql_api \<Rightarrow> 'h crawler \<Rightarrow> 'w \<Rightarrow> bool \<times> 'h crawler \<times> 'w" where
  "initialize al api c w =
     (case mysql_connect api (cr_mysql c) w of
        (ok, mc, w1) \<Rightarrow>
          let c1 = c\<lparr>cr_mysql := mc\<rparr>;
              w2 = (if ok then w1 else snd (log_error api mc ''DHTTorrentCrawler::initialize'' [] (- 1)
                      ''MySQL connection failed'' [] ''WARNING'' ''Running in test mode'' w1));
              (ready, w3) = bootstrap_wait al 30 w2;
              c2 = (if cf_metadata_hashes (mc_config mc) \<noteq> [] then setup_metadata_only_mode al c1 w3 else c1);
              (c3, w4) = (if cf_metadata_database_mode (mc_config mc)
                          then setup_metadata_database_mode api c2 w3 else (c2, w3))
          in (True, c3, w4))"

section \<open>Lemmas\<close>

text \<open>The log filter tests four substrings in effect; the other disjuncts imply one of them.\<close>

lemma contains_str_sub: "contains_str s t \<Longrightarrow> contains_str t u \<Longrightarrow> contains_str s u"
  by (metis append.assoc contains_str_iff)

lemma is_metadata_log_eq:
  "is_metadata_log m \<longleftrightarrow> contains_str m ''Metadata'' \<or> contains_str m ''metadata'' \<or> contains_str m ''METADATA''
     \<or> contains_str m ''Cleaned up timed out request''"
proof -
  have "contains_str ''[MetadataManager]'' ''Metadata''" "contains_str ''[MetadataDownloader]'' ''Metadata''"
    "contains_str ''MetadataWorkerPool'' ''Metadata''" "contains_str ''*** METADATA'' ''METADATA''"
    "contains_str ''Metadata request'' ''Metadata''" "contains_str ''Metadata success'' ''Metadata''"
    "contains_str ''Metadata failure'' ''Metadata''" "contains_str ''Metadata timeout'' ''Metadata''"
    "contains_str ''Queued metadata'' ''metadata''" "contains_str ''Metadata received'' ''Metadata''"
    "contains_str ''Extracted comprehensive metadata'' ''metadata''"
    by simp_all
  then show ?thesis unfolding is_metadata_log_def by (blast intro: contains_str_sub)
qed

end
