(* ===== verification/Content_Type.thy ===== *)
theory Content_Type
  imports Crawler_Prelude
begin

text \<open>
  \<^verbatim>\<open>determineContentType\<close> of \<^verbatim>\<open>dht_crawler.cpp\<close>: the content type of a torrent from the extensions of its files.
\<close>

section \<open>Definitions\<close>

definition file_extension :: "string \<Rightarrow> string option" where
  "file_extension filename =
     (case find_last_of (CHR ''.'') filename of
        None \<Rightarrow> None
      | Some dot_pos \<Rightarrow> Some (map tolower (drop (dot_pos + 1) filename)))"

text \<open>The set of extensions; only membership in it is used.\<close>

fun extensions :: "string list \<Rightarrow> string list" where
  "extensions [] = []"
| "extensions (f # fs) = (case file_extension f of None \<Rightarrow> extensions fs | Some ext \<Rightarrow> ext # extensions fs)"

definition video_exts :: "string list" where
  "video_exts = [''mp4'', ''avi'', ''mkv'', ''mov'', ''wmv'', ''flv'', ''webm'', ''m4v'', ''3gp'', ''mpg'', ''mpeg'']"

definition audio_exts :: "string list" where
  "audio_exts = [''mp3'', ''flac'', ''wav'', ''aac'', ''ogg'', ''wma'', ''m4a'', ''opus'']"

definition software_exts :: "string list" where
  "software_exts = [''exe'', ''msi'', ''dmg'', ''pkg'', ''deb'', ''rpm'', ''app'', ''iso'', ''bin'']"

definition doc_exts :: "string list" where
  "doc_exts = [''pdf'', ''doc'', ''docx'', ''txt'', ''rtf'', ''odt'', ''ppt'', ''pptx'', ''xls'', ''xlsx'']"

definition image_exts :: "string list" where
  "image_exts = [''jpg'', ''jpeg'', ''png'', ''gif'', ''bmp'', ''tiff'', ''svg'', ''webp'']"

definition archive_exts :: "string list" where
  "archive_exts = [''zip'', ''rar'', ''7z'', ''tar'', ''gz'', ''bz2'', ''xz'']"

definition any_in :: "string list \<Rightarrow> string list \<Rightarrow> bool" where
  "any_in exts table \<longleftrightarrow> list_ex (\<lambda>ext. ext \<in> set table) exts"

definition determine_content_type :: "string list \<Rightarrow> string" where
  "determine_content_type file_names =
     (let exts = extensions file_names in
      if file_names = [] then ''unknown''
      else if any_in exts video_exts then ''video''
      else if any_in exts audio_exts then ''audio''
      else if any_in exts software_exts then ''software''
      else if any_in exts doc_exts then ''document''
      else if any_in exts image_exts then ''image''
      else if any_in exts archive_exts then ''archive''
      else ''other'')"

section \<open>Lemmas\<close>

text \<open>The order in which the code tries the types.\<close>

definition type_rank :: "string \<Rightarrow> nat" where
  "type_rank t = (if t = ''video'' then 0 else if t = ''audio'' then 1 else if t = ''software'' then 2
     else if t = ''document'' then 3 else if t = ''image'' then 4 else if t = ''archive'' then 5 else 6)"

lemma extensions_append: "extensions (fs @ gs) = extensions fs @ extensions gs"
  by (induction fs) (auto split: option.splits)

lemma set_extensions: "set (extensions fs) = {e. \<exists>f \<in> set fs. file_extension f = Some e}"
  by (induction fs) (auto split: option.splits)

lemma any_in_append: "any_in (xs @ ys) t \<longleftrightarrow> any_in xs t \<or> any_in ys t"
  by (simp add: any_in_def)

lemma any_in_set: "set xs = set ys \<Longrightarrow> any_in xs t = any_in ys t"
  by (simp add: any_in_def list_ex_iff)

lemma tolower_toupper: "tolower (toupper c) = tolower c"
proof -
  have "code c < 256" by simp
  then show ?thesis by (auto simp: tolower_def toupper_def)
qed

lemma toupper_dot: "toupper c = CHR ''.'' \<longleftrightarrow> c = CHR ''.''"
proof
  assume h: "toupper c = CHR ''.''"
  show "c = CHR ''.''"
  proof (cases "97 \<le> code c \<and> code c \<le> 122")
    case True
    then have "code c - 32 < 256" by linarith
    with True have "code (toupper c) = code c - 32" by (simp add: toupper_def)
    with h have "code c - 32 = 46" by simp
    with True show ?thesis by linarith
  next
    case False
    with h show ?thesis by (metis toupper_def)
  qed
qed (simp add: toupper_def)

lemma find_last_of_toupper: "find_last_of (CHR ''.'') (map toupper s) = find_last_of (CHR ''.'') s"
  by (induction s) (auto simp: toupper_dot split: option.splits)

lemma file_extension_toupper: "file_extension (map toupper f) = file_extension f"
  by (auto simp: file_extension_def find_last_of_toupper drop_map tolower_toupper split: option.splits)

lemma extensions_toupper: "extensions (map (map toupper) fs) = extensions fs"
  by (induction fs) (auto simp: file_extension_toupper split: option.splits)

section \<open>Properties\<close>

text \<open>The content type is compositional: two non-empty file lists together have the type of the one
  that comes first in the order video, audio, software, document, image, archive, other; hence it
  depends neither on the order of the files nor on duplicates, and it ignores the case of the names.\<close>

theorem content_type_compositional:
  assumes "fs \<noteq> []" "gs \<noteq> []"
  shows "determine_content_type (fs @ gs) =
       (if type_rank (determine_content_type fs) \<le> type_rank (determine_content_type gs)
        then determine_content_type fs else determine_content_type gs)
     \<and> (set fs = set gs \<longrightarrow> determine_content_type fs = determine_content_type gs)
     \<and> determine_content_type (map (map toupper) fs) = determine_content_type fs"
proof -
  have "determine_content_type fs = determine_content_type gs" if "set fs = set gs"
  proof -
    have "any_in (extensions fs) = any_in (extensions gs)"
      using that by (intro ext any_in_set) (simp add: set_extensions)
    with assms show ?thesis by (simp add: determine_content_type_def Let_def)
  qed
  moreover have "determine_content_type (map (map toupper) fs) = determine_content_type fs"
    by (simp add: determine_content_type_def Let_def extensions_toupper)
  ultimately show ?thesis using assms
    by (simp add: determine_content_type_def Let_def extensions_append any_in_append type_rank_def)
qed

theorem content_type_compositional_witness:
  "determine_content_type ([''A.MP3'', ''b.mkv''] @ [''b.mkv'', ''A.MP3'']) = determine_content_type [''A.MP3'', ''b.mkv'']
   \<and> determine_content_type [''A.MP3'', ''b.mkv''] = determine_content_type [''b.mkv'', ''A.MP3'']"
proof -
  note t = content_type_compositional [of "[''A.MP3'', ''b.mkv'']" "[''b.mkv'', ''A.MP3'']"]
  have e: "determine_content_type [''A.MP3'', ''b.mkv''] = determine_content_type [''b.mkv'', ''A.MP3'']"
    using t by auto
  show ?thesis using t unfolding e by simp
qed

end
