(* ===== verification/Crawler_Handlers.thy ===== *)
theory Crawler_Handlers
  imports Crawler_State Content_Type
begin

text \<open>
  The alert handlers and the periodic work of \<^verbatim>\<open>DHTTorrentCrawler\<close> (\<^verbatim>\<open>dht_crawler.cpp\<close>): discovery through peers
  replies, announces and items, metadata requests through the downloader and the worker pool,
  received metadata, BEP 51 sampling, the removal of timed-out requests and the shutdown.
  Console output is left out.
\<close>

section \<open>Definitions\<close>

subsection \<open>Discovery\<close>

definition hash_to_hex :: "string \<Rightarrow> string" where
  "hash_to_hex hash_binary = concat (map hex_byte hash_binary)"

text \<open>The torrent record the three discovery handlers fill in.\<close>

definition discovered_record :: "string \<Rightarrow> string \<Rightarrow> string \<Rightarrow> string list \<Rightarrow> time \<Rightarrow> time \<Rightarrow> discovered_torrent" where
  "discovered_record hash_str name source peers t1 t2 = \<lparr>
     dt_info_hash = hash_str, dt_name = name, dt_size = 0, dt_num_files = 0, dt_peers = peers, dt_file_names = [],
     dt_file_sizes = [], dt_comment = [], dt_created_by = [], dt_creation_date = 0, dt_encoding = [], dt_piece_length = 0,
     dt_num_pieces = 0, dt_trackers = [], dt_private_torrent = False, dt_magnet_link = magnet_prefix @ hash_str,
     dt_announce_url = [], dt_announce_list = [], dt_content_type = [], dt_language = [], dt_category = [],
     dt_seeders_count = 0, dt_leechers_count = 0, dt_download_speed = 0, dt_discovered_time = t1, dt_last_seen_time = t2,
     dt_source = source, dt_metadata_received = False, dt_timed_out = False\<rparr>"

text \<open>Storing in memory and in the database: the torrent counts as found whether or not the store succeeds.\<close>

definition store_discovered :: "'w mysql_api \<Rightarrow> discovered_torrent \<Rightarrow> 'h crawler \<Rightarrow> 'w \<Rightarrow> 'h crawler \<times> 'w" where
  "store_discovered api torrent c w =
     (let c1 = c\<lparr>cr_discovered_torrents := smap_update (dt_info_hash torrent) torrent (cr_discovered_torrents c)\<rparr>;
          w1 = (if mc_connected (cr_mysql c) then snd (store_torrent api (cr_mysql c) torrent w) else w)
      in (c1\<lparr>cr_torrents_found := cr_torrents_found c + 1\<rparr>, w1))"

definition auto_queue_metadata :: "('w, 'p, 'h) libtorrent \<Rightarrow> string \<Rightarrow> int \<Rightarrow> string \<Rightarrow> 'h crawler \<Rightarrow> 'w \<Rightarrow> 'h crawler \<times> 'w" where
  "auto_queue_metadata lt hash_str priority source c w =
     (if hash_str \<in> cr_metadata_requested c then (c, w)
      else case request_metadata lt hash_str priority source (cr_metadata_downloader c) w of
          (ok, d, w1) \<Rightarrow>
            (if ok then c\<lparr>cr_metadata_downloader := d, cr_metadata_requested := insert hash_str (cr_metadata_requested c)\<rparr>
             else c\<lparr>cr_metadata_downloader := d\<rparr>, w1))"

definition peer_text :: "string \<times> int \<Rightarrow> string" where
  "peer_text peer = fst peer @ '':'' @ to_string (snd peer)"

definition handle_peer_reply ::
  "('w, 'p, 'h) libtorrent \<Rightarrow> 'w mysql_api \<Rightarrow> string \<Rightarrow> (string \<times> int) list \<Rightarrow> 'h crawler \<Rightarrow> 'w \<Rightarrow> 'h crawler \<times> 'w" where
  "handle_peer_reply lt api hash_binary alert_peers c w =
     (let hash_str = hash_to_hex hash_binary;
          (t1, w1) = steady_now lt w;
          (t2, w2) = steady_now lt w1;
          torrent = discovered_record hash_str ''Unknown Torrent'' ''DHT_PEERS'' (map peer_text alert_peers) t1 t2;
          c1 = c\<lparr>cr_peers_found := cr_peers_found c + int (length alert_peers)\<rparr>;
          (c2, w3) = (if cr_use_smart_mode c1 then
                        let (t3, w3) = steady_now lt w2
                        in (c1\<lparr>cr_smart_crawler := record_incoming_observation t3 hash_str ''peer_reply''
                              (int (length (dt_peers torrent))) (dt_peers torrent) (cr_smart_crawler c1)\<rparr>, w3)
                      else (c1, w2));
          (c3, w4) = store_discovered api torrent c2 w3
      in auto_queue_metadata lt hash_str 3 ''DHT_PEERS'' c3 w4)"

definition handle_announce ::
  "('w, 'p, 'h) libtorrent \<Rightarrow> 'w mysql_api \<Rightarrow> string \<Rightarrow> 'h crawler \<Rightarrow> 'w \<Rightarrow> 'h crawler \<times> 'w" where
  "handle_announce lt api hash_binary c w =
     (let hash_str = hash_to_hex hash_binary;
          (t1, w1) = steady_now lt w;
          (t2, w2) = steady_now lt w1;
          torrent = discovered_record hash_str ''Announced Torrent'' ''DHT_ANNOUNCE'' [] t1 t2;
          (c1, w3) = store_discovered api torrent c w2
      in auto_queue_metadata lt hash_str 2 ''DHT_ANNOUNCE'' c1 w3)"

definition handle_immutable_item ::
  "('w, 'p, 'h) libtorrent \<Rightarrow> 'w mysql_api \<Rightarrow> string \<Rightarrow> 'h crawler \<Rightarrow> 'w \<Rightarrow> 'h crawler \<times> 'w" where
  "handle_immutable_item lt api hash_binary c w =
     (let hash_str = hash_to_hex hash_binary;
          (t1, w1) = steady_now lt w;
          (t2, w2) = steady_now lt w1;
          torrent = discovered_record hash_str ''DHT Item'' ''DHT_ITEM'' [] t1 t2;
          (c1, w3) = store_discovered api torrent c w2
      in auto_queue_metadata lt hash_str 1 ''DHT_ITEM'' c1 w3)"

subsection \<open>Metadata requests\<close>

definition request_metadata_for_hash :: "('w, 'p, 'h) libtorrent \<Rightarrow> string \<Rightarrow> 'h crawler \<Rightarrow> 'w \<Rightarrow> 'h crawler \<times> 'w" where
  "request_metadata_for_hash lt hash c w =
     (let c1 = c\<lparr>cr_metadata_manager := log_metadata_request (cr_metadata_manager c)\<rparr>
      in case request_metadata lt hash 4 ''MANUAL'' (cr_metadata_downloader c1) w of
           (True, d, w1) \<Rightarrow>
             (c1\<lparr>cr_metadata_downloader := d, cr_metadata_requested := insert hash (cr_metadata_requested c1)\<rparr>, w1)
         | (False, d, w1) \<Rightarrow>
             (c1\<lparr>cr_metadata_manager := log_metadata_failure (cr_metadata_manager c1),
                 cr_metadata_downloader := log_failure d,
                 cr_metadata_requested := insert hash (cr_metadata_requested c1)\<rparr>, w1))"

fun request_all :: "('w, 'p, 'h) libtorrent \<Rightarrow> string list \<Rightarrow> 'h crawler \<Rightarrow> 'w \<Rightarrow> 'h crawler \<times> 'w" where
  "request_all lt [] c w = (c, w)"
| "request_all lt (h # hs) c w = (case request_metadata_for_hash lt h c w of (c1, w1) \<Rightarrow> request_all lt hs c1 w1)"

definition source_priority :: "string \<Rightarrow> int" where
  "source_priority source = (if source = ''DHT_PEERS'' then 3 else if source = ''DHT_ANNOUNCE'' then 2 else 1)"

text \<open>The clock is read only when a request object is built.\<close>

definition pool_queue_request ::
  "('w, 'p, 'h) libtorrent \<Rightarrow> string \<Rightarrow> int \<Rightarrow> string \<Rightarrow> worker_pool \<Rightarrow> 'w \<Rightarrow> bool \<times> worker_pool \<times> 'w" where
  "pool_queue_request lt info_hash priority source p w =
     (if wp_shutdown p \<or> smap_find (wp_pending_requests p) info_hash \<noteq> None
      then (case queue_request 0 info_hash priority source p of (ok, p1) \<Rightarrow> (ok, p1, w))
      else let (now, w1) = steady_now lt w in case queue_request now info_hash priority source p of (ok, p1) \<Rightarrow> (ok, p1, w1))"

fun request_discovered_loop ::
  "('w, 'p, 'h) libtorrent \<Rightarrow> nat \<Rightarrow> discovered_torrent list \<Rightarrow> worker_pool \<Rightarrow> 'h crawler \<Rightarrow> 'w \<Rightarrow> worker_pool \<times> 'h crawler \<times> 'w" where
  "request_discovered_loop lt requested [] p c w = (p, c, w)"
| "request_discovered_loop lt requested (torrent # ts) p c w =
     (if requested \<ge> 20 then (p, c, w)
      else if \<not> dt_metadata_received torrent \<and> dt_info_hash torrent \<notin> cr_metadata_requested c then
        (case pool_queue_request lt (dt_info_hash torrent) (source_priority (dt_source torrent)) (dt_source torrent) p w of
           (True, p1, w1) \<Rightarrow>
             request_discovered_loop lt (requested + 1) ts p1
               (c\<lparr>cr_metadata_requested := insert (dt_info_hash torrent) (cr_metadata_requested c)\<rparr>) w1
         | (False, p1, w1) \<Rightarrow>
             request_discovered_loop lt requested ts p1
               (c\<lparr>cr_metadata_manager := log_metadata_failure (cr_metadata_manager c),
                  cr_metadata_requested := insert (dt_info_hash torrent) (cr_metadata_requested c)\<rparr>) w1)
      else request_discovered_loop lt requested ts p c w)"

definition request_metadata_for_discovered_torrents :: "('w, 'p, 'h) libtorrent \<Rightarrow> 'h crawler \<Rightarrow> 'w \<Rightarrow> 'h crawler \<times> 'w" where
  "request_metadata_for_discovered_torrents lt c w =
     (case cr_metadata_worker_pool c of
        None \<Rightarrow> (c\<lparr>cr_null_deref := True\<rparr>, w)
      | Some p \<Rightarrow>
          (case request_discovered_loop lt 0 (map snd (cr_discovered_torrents c)) p c w of
             (p1, c1, w1) \<Rightarrow> (c1\<lparr>cr_metadata_worker_pool := Some p1\<rparr>, w1)))"

fun mark_all_timed_out :: "'w mysql_api \<Rightarrow> string list \<Rightarrow> 'h crawler \<Rightarrow> 'w \<Rightarrow> 'w" where
  "mark_all_timed_out api [] c w = w"
| "mark_all_timed_out api (h # hs) c w = mark_all_timed_out api hs c (snd (mark_torrent_timed_out api (cr_mysql c) h w))"

text \<open>The pool clean-up of the crawling loops: first \<^verbatim>\<open>cleanup_timeouts\<close>, then \<^verbatim>\<open>get_timed_out_requests\<close>.\<close>

definition clean_up_worker_pool :: "('w, 'p, 'h) libtorrent \<Rightarrow> 'w mysql_api \<Rightarrow> 'h crawler \<Rightarrow> 'w \<Rightarrow> 'h crawler \<times> 'w" where
  "clean_up_worker_pool lt api c w =
     (case cr_metadata_worker_pool c of
        None \<Rightarrow> (c\<lparr>cr_null_deref := True\<rparr>, w)
      | Some p \<Rightarrow>
          let (t1, w1) = steady_now lt w;
              p1 = cleanup_timeouts t1 p;
              (t2, w2) = steady_now lt w1
          in case pool_get_timed_out_requests t2 p1 of
               (timed_out, p2) \<Rightarrow> (c\<lparr>cr_metadata_worker_pool := Some p2\<rparr>, mark_all_timed_out api timed_out c w2))"

text \<open>The pool check of the metadata-only loop in database mode.\<close>

definition mark_timed_out_requests :: "('w, 'p, 'h) libtorrent \<Rightarrow> 'w mysql_api \<Rightarrow> 'h crawler \<Rightarrow> 'w \<Rightarrow> 'h crawler \<times> 'w" where
  "mark_timed_out_requests lt api c w =
     (case cr_metadata_worker_pool c of
        None \<Rightarrow> (c\<lparr>cr_null_deref := True\<rparr>, w)
      | Some p \<Rightarrow>
          let (t1, w1) = steady_now lt w
          in case pool_get_timed_out_requests t1 p of
               (timed_out, p1) \<Rightarrow> (c\<lparr>cr_metadata_worker_pool := Some p1\<rparr>, mark_all_timed_out api timed_out c w1))"

subsection \<open>Received metadata\<close>

definition exn_what :: "exn \<Rightarrow> string" where
  "exn_what e = (case e of Invalid_argument \<Rightarrow> ''stoi'' | Out_of_range \<Rightarrow> ''stoi'' | Std_exception s \<Rightarrow> s)"

text \<open>
  In metadata-only mode the record is default-constructed: the members without an initialiser
  that the handler does not assign keep indeterminate values.
\<close>

definition metadata_only_record :: "string \<Rightarrow> int \<times> int \<times> nat \<Rightarrow> time \<Rightarrow> time \<Rightarrow> discovered_torrent" where
  "metadata_only_record hash_str junk t1 t2 =
     (discovered_record hash_str [] ''METADATA_ONLY'' [] t1 t2)
       \<lparr>dt_magnet_link := [], dt_seeders_count := fst junk, dt_leechers_count := fst (snd junk), dt_download_speed := snd (snd junk)\<rparr>"

definition fill_metadata :: "enhanced_metadata \<Rightarrow> time \<Rightarrow> discovered_torrent \<Rightarrow> discovered_torrent" where
  "fill_metadata m now torrent = torrent
     \<lparr>dt_magnet_link := em_magnet_link m, dt_name := em_name m, dt_size := em_total_size m, dt_num_files := em_num_files m,
      dt_num_pieces := em_num_pieces m, dt_piece_length := to_size_t (em_piece_length m), dt_comment := em_comment m,
      dt_created_by := em_created_by m, dt_creation_date := em_creation_date m, dt_private_torrent := em_private_torrent m,
      dt_metadata_received := True, dt_last_seen_time := now, dt_file_names := em_file_names m, dt_file_sizes := em_file_sizes m,
      dt_trackers := em_trackers m, dt_announce_list := em_trackers m,
      dt_announce_url := (case em_trackers m of [] \<Rightarrow> dt_announce_url torrent | url # _ \<Rightarrow> url),
      dt_content_type := determine_content_type (em_file_names m)\<rparr>"

text \<open>The database update and the counters after it.\<close>

definition save_metadata :: "'w mysql_api \<Rightarrow> string \<Rightarrow> discovered_torrent \<Rightarrow> 'h crawler \<Rightarrow> 'w \<Rightarrow> 'h crawler \<times> 'w" where
  "save_metadata api hash_str torrent c w =
     (if mc_connected (cr_mysql c) then
        (if cr_metadata_database_mode c then
           (case update_torrent_metadata api (cr_mysql c) hash_str torrent w of
              (db_success, w1) \<Rightarrow>
                (c\<lparr>cr_metadata_db_processed := cr_metadata_db_processed c + (if db_success then 1 else 0),
                   cr_metadata_fetched := cr_metadata_fetched c + 1\<rparr>, w1))
         else
           (case store_torrent api (cr_mysql c) torrent w of
              (db_success, w1) \<Rightarrow> (c\<lparr>cr_metadata_fetched := cr_metadata_fetched c + 1\<rparr>, w1)))
      else (c, w))"

definition notify_received :: "('w, 'p, 'h) libtorrent \<Rightarrow> string \<Rightarrow> 'h crawler \<Rightarrow> 'w \<Rightarrow> 'h crawler \<times> 'w" where
  "notify_received lt hash_str c w =
     (let c1 = c\<lparr>cr_metadata_manager := log_metadata_success (cr_metadata_manager c)\<rparr>
      in case handle_metadata_received lt hash_str (cr_metadata_downloader c1) w of
           (d, w1) \<Rightarrow>
             let c2 = c1\<lparr>cr_metadata_downloader := log_success d\<rparr>
             in (case cr_metadata_worker_pool c2 of
                   None \<Rightarrow> (c2\<lparr>cr_null_deref := True\<rparr>, w1)
                 | Some p \<Rightarrow> (c2\<lparr>cr_metadata_worker_pool := Some (pool_handle_metadata_received hash_str p)\<rparr>, w1)))"

definition crawler_handle_metadata_received ::
  "('w, 'p, 'h) libtorrent \<Rightarrow> ('w, 'h) alert_source \<Rightarrow> 'w mysql_api \<Rightarrow> 'h \<Rightarrow> 'h crawler \<Rightarrow> 'w \<Rightarrow> 'h crawler \<times> 'w" where
  "crawler_handle_metadata_received lt al api handle c w =
     (let fn = ''DHTTorrentCrawler::handleMetadataReceived''
      in case al_torrent_file al handle w of
        Inl e \<Rightarrow> (c, snd (log_exception api (cr_mysql c) fn [] (exn_what e) [] w))
      | Inr None \<Rightarrow> (c, snd (log_error api (cr_mysql c) fn [] (- 1) ''torrent_info is null'' [] ''WARNING'' [] w))
      | Inr (Some ti) \<Rightarrow>
          (let hash_str = hash_to_hex (al_info_hash al handle);
               (c1, w1) = notify_received lt hash_str c w;
               metadata = extract_comprehensive_metadata ti hash_str;
               (found, w2) =
                 (if cr_metadata_only_mode c1 then
                    let (t1, wa) = steady_now lt w1; (t2, wb) = steady_now lt wa
                    in (Some (metadata_only_record hash_str (al_indeterminate al w1) t1 t2), wb)
                  else (smap_find (cr_discovered_torrents c1) hash_str, w1))
           in case found of
                None \<Rightarrow> (c1, w2)
              | Some torrent0 \<Rightarrow>
                  (let (now, w3) = steady_now lt w2;
                       torrent = fill_metadata metadata now torrent0;
                       (c2, w4) = save_metadata api hash_str torrent c1 w3
                   in case remove_torrent lt handle w4 of
                        (None, w5) \<Rightarrow> (c2, w5)
                      | (Some e, w5) \<Rightarrow> (c2, snd (log_exception api (cr_mysql c2) fn [] (exn_what e) [] w5)))))"

subsection \<open>Alerts\<close>

definition handle_alert ::
  "('w, 'p, 'h) libtorrent \<Rightarrow> ('w, 'h) alert_source \<Rightarrow> 'w mysql_api \<Rightarrow> 'h alert \<Rightarrow> 'h crawler \<Rightarrow> 'w \<Rightarrow> 'h crawler \<times> 'w" where
  "handle_alert lt al api alert c w =
     (case alert of
        Dht_get_peers_reply h peers \<Rightarrow> if peers \<noteq> [] then handle_peer_reply lt api h peers c w else (c, w)
      | Dht_announce h \<Rightarrow> handle_announce lt api h c w
      | Dht_immutable_item h \<Rightarrow> handle_immutable_item lt api h c w
      | Metadata_received handle \<Rightarrow> crawler_handle_metadata_received lt al api handle c w
      | Dht_bootstrap \<Rightarrow> (c, w)
      | Other_alert m \<Rightarrow> (c, w))"

fun handle_alerts ::
  "('w, 'p, 'h) libtorrent \<Rightarrow> ('w, 'h) alert_source \<Rightarrow> 'w mysql_api \<Rightarrow> 'h alert list \<Rightarrow> 'h crawler \<Rightarrow> 'w \<Rightarrow> 'h crawler \<times> 'w" where
  "handle_alerts lt al api [] c w = (c, w)"
| "handle_alerts lt al api (a # alerts) c w =
     (case handle_alert lt al api a c w of (c1, w1) \<Rightarrow> handle_alerts lt al api alerts c1 w1)"

definition process_alerts ::
  "('w, 'p, 'h) libtorrent \<Rightarrow> ('w, 'h) alert_source \<Rightarrow> 'w mysql_api \<Rightarrow> 'h crawler \<Rightarrow> 'w \<Rightarrow> 'h crawler \<times> 'w" where
  "process_alerts lt al api c w =
     (case al_pop_alerts al w of (alerts, w1) \<Rightarrow> handle_alerts lt al api alerts c w1)"

subsection \<open>BEP 51\<close>

fun query_nodes :: "('w, 'p, 'h) libtorrent \<Rightarrow> string list \<Rightarrow> bep51_indexer \<Rightarrow> 'w \<Rightarrow> bep51_indexer \<times> 'w" where
  "query_nodes lt [] b w = (b, w)"
| "query_nodes lt (n # ns) b w =
     (case query_sample_infohashes lt n [] b w of (ok, b1, w1) \<Rightarrow> query_nodes lt ns b1 w1)"

fun query_bootstrap_nodes :: "('w, 'p, 'h) libtorrent \<Rightarrow> string list \<Rightarrow> bep51_indexer \<Rightarrow> 'w \<Rightarrow> bep51_indexer \<times> 'w" where
  "query_bootstrap_nodes lt [] b w = (b, w)"
| "query_bootstrap_nodes lt (node # nodes) b w =
     (let (node_id, w1) = random_bytes lt 20 w
      in case query_sample_infohashes lt node_id [] b w1 of (ok, b1, w2) \<Rightarrow> query_bootstrap_nodes lt nodes b1 w2)"

definition bootstrap_nodes :: "string list" where
  "bootstrap_nodes = [''router.bittorrent.com'', ''dht.transmissionbt.com'', ''router.utorrent.com'']"

fun queue_collected :: "('w, 'p, 'h) libtorrent \<Rightarrow> string list \<Rightarrow> 'h crawler \<Rightarrow> 'w \<Rightarrow> 'h crawler \<times> 'w" where
  "queue_collected lt [] c w = (c, w)"
| "queue_collected lt (h # hs) c w =
     (case auto_queue_metadata lt (hash_to_hex h) 5 ''BEP51'' c w of (c1, w1) \<Rightarrow> queue_collected lt hs c1 w1)"

definition query_bep51_infohashes :: "('w, 'p, 'h) libtorrent \<Rightarrow> 'h crawler \<Rightarrow> 'w \<Rightarrow> 'h crawler \<times> 'w" where
  "query_bep51_infohashes lt c w =
     (if \<not> cr_use_bep51_mode c then (c, w)
      else
        let known_nodes = get_known_nodes (cr_bep51_indexer c);
            (b, w1) = (if known_nodes = [] then query_bootstrap_nodes lt bootstrap_nodes (cr_bep51_indexer c) w
                       else query_nodes lt (take 10 known_nodes) (cr_bep51_indexer c) w);
            c1 = c\<lparr>cr_bep51_indexer := b\<rparr>
        in queue_collected lt (get_collected_infohashes b) c1 w1)"

subsection \<open>Switches and shutdown\<close>

definition crawler_stop :: "'h crawler \<Rightarrow> 'h crawler" where
  "crawler_stop c = c\<lparr>cr_shutdown_requested := True, cr_running := False\<rparr>"

definition set_concurrent_mode :: "bool \<Rightarrow> 'h crawler \<Rightarrow> 'h crawler" where
  "set_concurrent_mode enabled c = c\<lparr>cr_use_concurrent_mode := enabled\<rparr>"

definition set_bep51_mode :: "bool \<Rightarrow> 'h crawler \<Rightarrow> 'h crawler" where
  "set_bep51_mode enabled c = c\<lparr>cr_use_bep51_mode := enabled\<rparr>"

definition graceful_shutdown :: "('w, 'p, 'h) libtorrent \<Rightarrow> 'h crawler \<Rightarrow> 'w \<Rightarrow> 'h crawler \<times> 'w" where
  "graceful_shutdown lt c w =
     (case cr_metadata_worker_pool c of
        None \<Rightarrow> (c, w)
      | Some p \<Rightarrow> (case pool_shutdown lt p w of (p1, w1) \<Rightarrow> (c\<lparr>cr_metadata_worker_pool := None\<rparr>, w1)))"

end
