(* ===== verification/Crawler_Invariant.thy ===== *)
theory Crawler_Invariant
  imports Crawler_Handlers
begin

text \<open>
  The invariant of the crawler, over every order of its operations and every interleaving with the
  threads of the worker pool and of the DHT manager.
\<close>

section \<open>The invariant\<close>

text \<open>A pool that nothing was ever queued in.\<close>

definition pool_unused :: "worker_pool \<Rightarrow> bool" where
  "pool_unused p \<longleftrightarrow> wp_request_queue p = [] \<and> wp_pending_requests p = [] \<and> wp_total_queued p = 0
     \<and> list_all (\<lambda>c. \<not> holding c) (wp_workers p)"

text \<open>
  Each discovered torrent is stored under its own hash, without metadata, and its metadata is
  already requested, except for the hashes of \<open>X\<close>, whose discovery is being handled.
\<close>

definition torrents_ok :: "string set \<Rightarrow> 'h crawler \<Rightarrow> bool" where
  "torrents_ok X c \<longleftrightarrow> smap_ok (cr_discovered_torrents c)
     \<and> (\<forall>(h, t) \<in> set (cr_discovered_torrents c). dt_info_hash t = h \<and> \<not> dt_metadata_received t
          \<and> (h \<in> cr_metadata_requested c \<or> h \<in> X))
     \<and> int (length (cr_discovered_torrents c)) \<le> cr_torrents_found c"

definition crawler_inv :: "string set \<Rightarrow> 'h crawler \<Rightarrow> bool" where
  "crawler_inv X c \<longleftrightarrow> torrents_ok X c \<and> dl_session (cr_metadata_downloader c) \<and> downloader_ok (cr_metadata_downloader c)
     \<and> (\<forall>p. cr_metadata_worker_pool c = Some p \<longrightarrow> pool_unused p) \<and> bep51_ok (cr_bep51_indexer c)"

abbreviation crawler_ok :: "'h crawler \<Rightarrow> bool" where
  "crawler_ok \<equiv> crawler_inv {}"

section \<open>What the operations keep\<close>

lemma request_metadata_session:
  "dl_session d \<Longrightarrow> fst (request_metadata lt h p s d w) \<and> dl_session (fst (snd (request_metadata lt h p s d w)))"
  by (simp add: request_metadata_def split_beta process_queue_frame)

lemma handle_metadata_session: "dl_session (fst (handle_metadata_received lt h d w)) = dl_session d"
  by (simp add: handle_metadata_received_def process_queue_frame)

lemma downloader_adjust: "dl_session (adjust_concurrent_limit d) = dl_session d"
    "downloader_ok (adjust_concurrent_limit d) = downloader_ok d"
  by (simp_all add: adjust_concurrent_limit_def)

lemma torrents_ok_requested:
  "torrents_ok (insert h X) c \<Longrightarrow> torrents_ok X (c\<lparr>cr_metadata_requested := insert h (cr_metadata_requested c)\<rparr>)"
  by (auto simp: torrents_ok_def)

lemma torrents_ok_mono: "torrents_ok X c \<Longrightarrow> X \<subseteq> Y \<Longrightarrow> torrents_ok Y c"
  by (auto simp: torrents_ok_def)

lemma crawler_inv_mono: "crawler_inv X c \<Longrightarrow> X \<subseteq> Y \<Longrightarrow> crawler_inv Y c"
  by (auto simp: crawler_inv_def intro: torrents_ok_mono)

lemma crawler_inv_store:
  assumes "crawler_inv X c" "store_discovered api t c w = (c', w')" "\<not> dt_metadata_received t"
  shows "crawler_inv (insert (dt_info_hash t) X) c'"
proof -
  have "torrents_ok X c" using assms(1) by (simp add: crawler_inv_def)
  then have "torrents_ok (insert (dt_info_hash t) X) c'"
    using assms(2,3) smap_size_update [of "cr_discovered_torrents c" "dt_info_hash t" t]
    by (auto simp: torrents_ok_def store_discovered_def Let_def smap_set_update)
  with assms show ?thesis by (auto simp: crawler_inv_def store_discovered_def Let_def)
qed

lemma crawler_inv_auto_queue:
  assumes "crawler_inv (insert h X) c" "auto_queue_metadata lt h p s c w = (c', w')"
  shows "crawler_inv X c'"
proof (cases "h \<in> cr_metadata_requested c")
  case True
  with assms show ?thesis by (auto simp: auto_queue_metadata_def crawler_inv_def torrents_ok_def)
next
  case False
  obtain ok d w1 where r: "request_metadata lt h p s (cr_metadata_downloader c) w = (ok, d, w1)" by (metis surj_pair)
  have d: "ok" "dl_session d" "downloader_ok d"
    using assms(1) request_metadata_session [of "cr_metadata_downloader c" lt h p s w]
      downloader_ok_request_metadata [of "cr_metadata_downloader c" lt h p s w] r by (auto simp: crawler_inv_def)
  with assms False r have "c' = c\<lparr>cr_metadata_downloader := d, cr_metadata_requested := insert h (cr_metadata_requested c)\<rparr>"
    by (simp add: auto_queue_metadata_def)
  with assms(1) d torrents_ok_requested [of h X c] show ?thesis by (simp add: crawler_inv_def torrents_ok_def)
qed

text \<open>Fields the invariant does not read.\<close>

lemma crawler_inv_fields [simp]:
  "crawler_inv X (c\<lparr>cr_peers_found := a1\<rparr>) = crawler_inv X c"
  "crawler_inv X (c\<lparr>cr_smart_crawler := a2\<rparr>) = crawler_inv X c"
  "crawler_inv X (c\<lparr>cr_metadata_manager := a3\<rparr>) = crawler_inv X c"
  "crawler_inv X (c\<lparr>cr_null_deref := a4\<rparr>) = crawler_inv X c"
  "crawler_inv X (c\<lparr>cr_metadata_fetched := a5\<rparr>) = crawler_inv X c"
  "crawler_inv X (c\<lparr>cr_metadata_db_processed := a6\<rparr>) = crawler_inv X c"
  "crawler_inv X (c\<lparr>cr_running := a7\<rparr>) = crawler_inv X c"
  "crawler_inv X (c\<lparr>cr_shutdown_requested := a8\<rparr>) = crawler_inv X c"
  "crawler_inv X (c\<lparr>cr_use_concurrent_mode := a7\<rparr>) = crawler_inv X c"
  "crawler_inv X (c\<lparr>cr_use_bep51_mode := a8\<rparr>) = crawler_inv X c"
  "crawler_inv X (c\<lparr>cr_concurrent_dht := a9\<rparr>) = crawler_inv X c"
  "crawler_inv X (c\<lparr>cr_metadata_hash_list := b1\<rparr>) = crawler_inv X c"
  "crawler_inv X (c\<lparr>cr_metadata_db_offset := a5\<rparr>) = crawler_inv X c"
  "crawler_inv X (c\<lparr>cr_metadata_only_mode := a7\<rparr>) = crawler_inv X c"
  "crawler_inv X (c\<lparr>cr_metadata_db_total_records := a5\<rparr>) = crawler_inv X c"
  "crawler_inv X (c\<lparr>cr_queried_hashes := b2\<rparr>) = crawler_inv X c"
  "crawler_inv X (c\<lparr>cr_total_queries := a5\<rparr>) = crawler_inv X c"
  "crawler_inv X (c\<lparr>cr_mysql := b3\<rparr>) = crawler_inv X c"
  by (simp_all add: crawler_inv_def torrents_ok_def)

lemma crawler_inv_requested: "crawler_inv X c \<Longrightarrow> crawler_inv X (c\<lparr>cr_metadata_requested := insert h (cr_metadata_requested c)\<rparr>)"
  by (auto simp: crawler_inv_def torrents_ok_def)

lemma crawler_inv_downloader:
  "crawler_inv X c \<Longrightarrow> dl_session d \<Longrightarrow> downloader_ok d \<Longrightarrow> crawler_inv X (c\<lparr>cr_metadata_downloader := d\<rparr>)"
  by (simp add: crawler_inv_def torrents_ok_def)

lemma crawler_inv_pool:
  "crawler_inv X c \<Longrightarrow> (\<And>q. p = Some q \<Longrightarrow> pool_unused q) \<Longrightarrow> crawler_inv X (c\<lparr>cr_metadata_worker_pool := p\<rparr>)"
  by (simp add: crawler_inv_def torrents_ok_def)

lemma discovered_record_simps [simp]:
  "dt_info_hash (discovered_record h n s ps t1 t2) = h"
  "\<not> dt_metadata_received (discovered_record h n s ps t1 t2)"
  by (simp_all add: discovered_record_def)

text \<open>Storing a discovered torrent and queueing its metadata request.\<close>

lemma crawler_inv_discover:
  assumes "crawler_ok c" "dt_info_hash t = h" "\<not> dt_metadata_received t"
  shows "crawler_ok (fst (case store_discovered api t c w of (c1, w1) \<Rightarrow> auto_queue_metadata lt h p s c1 w1))"
proof -
  obtain c1 w1 where s: "store_discovered api t c w = (c1, w1)" by (metis surj_pair)
  obtain c2 w2 where q: "auto_queue_metadata lt h p s c1 w1 = (c2, w2)" by (metis surj_pair)
  have "crawler_inv {h} c1" using crawler_inv_store [OF assms(1) s assms(3)] assms(2) by simp
  from crawler_inv_auto_queue [OF this q] show ?thesis by (simp add: s q)
qed

lemma crawler_inv_peer_reply: "crawler_ok c \<Longrightarrow> crawler_ok (fst (handle_peer_reply lt api h ps c w))"
  unfolding handle_peer_reply_def Let_def
  by (simp only: split_beta [where prod = "steady_now _ _"] if_distrib [where f = "case_prod _"] prod.case)
    (auto intro!: crawler_inv_discover [unfolded split_beta] simp: split_beta)

lemma crawler_inv_announce: "crawler_ok c \<Longrightarrow> crawler_ok (fst (handle_announce lt api h c w))"
  unfolding handle_announce_def Let_def
  by (auto intro!: crawler_inv_discover [unfolded split_beta] simp: split_beta)

lemma crawler_inv_item: "crawler_ok c \<Longrightarrow> crawler_ok (fst (handle_immutable_item lt api h c w))"
  unfolding handle_immutable_item_def Let_def
  by (auto intro!: crawler_inv_discover [unfolded split_beta] simp: split_beta)

lemma crawler_inv_request_hash:
  assumes "crawler_ok c"
  shows "crawler_ok (fst (request_metadata_for_hash lt h c w))"
proof -
  let ?c = "c\<lparr>cr_metadata_manager := log_metadata_request (cr_metadata_manager c)\<rparr>"
  obtain ok d w1 where r: "request_metadata lt h 4 ''MANUAL'' (cr_metadata_downloader c) w = (ok, d, w1)" by (metis surj_pair)
  have d: "ok" "dl_session d" "downloader_ok d"
    using assms(1) request_metadata_session [of "cr_metadata_downloader c" lt h 4 "''MANUAL''" w]
      downloader_ok_request_metadata [of "cr_metadata_downloader c" lt h 4 "''MANUAL''" w] r by (auto simp: crawler_inv_def)
  have "crawler_ok (?c\<lparr>cr_metadata_downloader := d, cr_metadata_requested := insert h (cr_metadata_requested ?c)\<rparr>)"
    using crawler_inv_requested [of "{}" "?c\<lparr>cr_metadata_downloader := d\<rparr>" h] crawler_inv_downloader [of "{}" ?c d] assms d
    by simp
  with d r show ?thesis by (simp add: request_metadata_for_hash_def)
qed

lemma crawler_inv_request_all: "crawler_ok c \<Longrightarrow> crawler_ok (fst (request_all lt hs c w))"
proof (induction hs arbitrary: c w)
  case (Cons h hs)
  then show ?case using crawler_inv_request_hash [of c lt h w] by (auto split: prod.splits)
qed simp

text \<open>The pool: nothing is left for it to request, so it stays unused.\<close>

lemma request_discovered_nothing:
  "(\<And>t. t \<in> set ts \<Longrightarrow> dt_info_hash t \<in> cr_metadata_requested c) \<Longrightarrow>
   request_discovered_loop lt n ts p c w = (p, c, w)"
  by (induction ts arbitrary: n) auto

lemma request_discovered_noop:
  assumes "crawler_ok c"
  shows "request_metadata_for_discovered_torrents lt c w =
    (if cr_metadata_worker_pool c = None then (c\<lparr>cr_null_deref := True\<rparr>, w) else (c, w))"
proof -
  have "dt_info_hash t \<in> cr_metadata_requested c" if "t \<in> set (map snd (cr_discovered_torrents c))" for t
    using that assms by (force simp: crawler_inv_def torrents_ok_def)
  note n = request_discovered_nothing [OF this, of "map snd (cr_discovered_torrents c)", simplified]
  show ?thesis
    by (cases "cr_metadata_worker_pool c") (auto simp: request_metadata_for_discovered_torrents_def n)
qed

lemma pool_unused_timed_out:
  "pool_unused p \<Longrightarrow> pool_get_timed_out_requests t p = ([], p)"
  by (simp add: pool_unused_def pool_get_timed_out_requests_def)

lemma pool_unused_cleanup: "pool_unused p \<Longrightarrow> cleanup_timeouts t p = p"
  by (simp add: cleanup_timeouts_def pool_unused_timed_out)

lemma pool_unused_received: "pool_unused p \<Longrightarrow> pool_handle_metadata_received h p = p"
  by (simp add: pool_unused_def pool_handle_metadata_received_def)

lemma pool_unused_goto: "pool_unused p \<Longrightarrow> \<not> holding c \<Longrightarrow> pool_unused (worker_goto i c p)"
  by (auto simp: pool_unused_def list_all_iff dest: set_update_subset_insert [THEN subsetD])

lemma pool_unused_own_step: "worker_own_step lt p q \<Longrightarrow> pool_unused p \<Longrightarrow> pool_unused q"
proof (induction rule: worker_own_step.induct)
  case (take i p)
  then show ?case using pool_unused_goto [of p At_loop i] by (simp add: worker_take_def pool_unused_def)
next
  case (process i p r w)
  then show ?case by (auto simp: pool_unused_def list_all_length)
qed (auto simp: worker_sections intro: pool_unused_goto)

lemma pool_unused_worker_step: "pool_worker_step lt p q \<Longrightarrow> pool_unused p \<Longrightarrow> pool_unused q"
  by (induction rule: pool_worker_step.induct) (auto simp: worker_wake_def intro: pool_unused_own_step pool_unused_goto)

lemma crawler_inv_clean_up: "crawler_ok c \<Longrightarrow> crawler_ok (fst (clean_up_worker_pool lt api c w))"
  by (cases "cr_metadata_worker_pool c")
    (auto simp: clean_up_worker_pool_def split_beta crawler_inv_def torrents_ok_def pool_unused_cleanup pool_unused_timed_out)

lemma crawler_inv_mark: "crawler_ok c \<Longrightarrow> crawler_ok (fst (mark_timed_out_requests lt api c w))"
  by (cases "cr_metadata_worker_pool c")
    (auto simp: mark_timed_out_requests_def split_beta crawler_inv_def torrents_ok_def pool_unused_timed_out)

lemma crawler_inv_notify:
  assumes "crawler_ok c"
  shows "crawler_ok (fst (notify_received lt h c w))"
proof -
  let ?d = "log_success (fst (handle_metadata_received lt h (cr_metadata_downloader c) w))"
  have "dl_session ?d" "downloader_ok ?d"
    using assms downloader_ok_received [of "cr_metadata_downloader c" lt h w]
    by (simp_all add: crawler_inv_def log_success_def handle_metadata_session)
  with assms have "crawler_ok (c\<lparr>cr_metadata_manager := log_metadata_success (cr_metadata_manager c), cr_metadata_downloader := ?d\<rparr>)"
    using crawler_inv_downloader [of "{}" "c\<lparr>cr_metadata_manager := log_metadata_success (cr_metadata_manager c)\<rparr>" ?d] by simp
  moreover have "\<forall>p. cr_metadata_worker_pool c = Some p \<longrightarrow> pool_unused p" using assms by (simp add: crawler_inv_def)
  ultimately show ?thesis
    by (auto simp: notify_received_def Let_def split_beta pool_unused_received intro!: crawler_inv_pool split: option.splits)
qed

lemma crawler_inv_save: "crawler_ok c \<Longrightarrow> crawler_ok (fst (save_metadata api h t c w))"
  by (simp add: save_metadata_def split_beta)

lemma crawler_inv_metadata: "crawler_ok c \<Longrightarrow> crawler_ok (fst (crawler_handle_metadata_received lt al api hd' c w))"
  unfolding crawler_handle_metadata_received_def Let_def
  by (auto simp: split_beta intro!: crawler_inv_save crawler_inv_notify split: sum.splits option.splits)

lemma crawler_inv_alert: "crawler_ok c \<Longrightarrow> crawler_ok (fst (handle_alert lt al api a c w))"
  by (simp add: handle_alert_def crawler_inv_peer_reply crawler_inv_announce crawler_inv_item crawler_inv_metadata split: alert.splits)

lemma crawler_inv_alerts: "crawler_ok c \<Longrightarrow> crawler_ok (fst (handle_alerts lt al api as c w))"
proof (induction "as" arbitrary: c w)
  case (Cons a "as")
  then show ?case using crawler_inv_alert [of c lt al api a w] by (auto split: prod.splits)
qed simp

lemma crawler_inv_process_alerts: "crawler_ok c \<Longrightarrow> crawler_ok (fst (process_alerts lt al api c w))"
  by (simp add: process_alerts_def crawler_inv_alerts split: prod.splits)

lemma crawler_inv_queue_collected: "crawler_ok c \<Longrightarrow> crawler_ok (fst (queue_collected lt hs c w))"
proof (induction hs arbitrary: c w)
  case (Cons h hs)
  obtain c1 w1 where q: "auto_queue_metadata lt (hash_to_hex h) 5 ''BEP51'' c w = (c1, w1)" by (metis surj_pair)
  have "crawler_inv {hash_to_hex h} c" using Cons.prems by (rule crawler_inv_mono) simp
  from crawler_inv_auto_queue [OF this q] Cons.IH [of c1 w1] q show ?case by simp
qed simp

lemma bep51_ok_query_nodes: "bep51_ok b \<Longrightarrow> bep51_ok (fst (query_nodes lt ns b w))"
proof (induction ns arbitrary: b w)
  case (Cons n ns)
  then show ?case using bep51_ok_query by (fastforce split: prod.splits)
qed simp

lemma bep51_ok_query_bootstrap: "bep51_ok b \<Longrightarrow> bep51_ok (fst (query_bootstrap_nodes lt ns b w))"
proof (induction ns arbitrary: b w)
  case (Cons n ns)
  then show ?case using bep51_ok_query by (fastforce simp: Let_def split: prod.splits)
qed simp

lemma crawler_inv_bep51: "crawler_ok c \<Longrightarrow> bep51_ok b \<Longrightarrow> crawler_ok (c\<lparr>cr_bep51_indexer := b\<rparr>)"
  by (simp add: crawler_inv_def torrents_ok_def)

lemma crawler_inv_query_bep51: "crawler_ok c \<Longrightarrow> crawler_ok (fst (query_bep51_infohashes lt c w))"
proof -
  assume c: "crawler_ok c"
  then have "bep51_ok (cr_bep51_indexer c)" by (simp add: crawler_inv_def)
  with c show ?thesis
    by (auto simp: query_bep51_infohashes_def Let_def split_beta
        intro!: crawler_inv_queue_collected crawler_inv_bep51 bep51_ok_query_nodes bep51_ok_query_bootstrap)
qed

lemma crawler_inv_adjust:
  "crawler_ok c \<Longrightarrow> crawler_ok (c\<lparr>cr_metadata_downloader := adjust_concurrent_limit (cr_metadata_downloader c)\<rparr>)"
  by (simp add: crawler_inv_def torrents_ok_def downloader_adjust)

lemma crawler_inv_load: "crawler_ok c \<Longrightarrow> crawler_ok (fst (load_metadata_database_batch api c w))"
  by (simp add: load_metadata_database_batch_def split_beta)

lemma crawler_inv_initialize: "crawler_ok c \<Longrightarrow> crawler_ok (fst (snd (initialize al api c w)))"
proof -
  assume c: "crawler_ok c"
  have only: "crawler_ok x \<Longrightarrow> crawler_ok (setup_metadata_only_mode al x v)" for x v
    by (simp add: setup_metadata_only_mode_def add_hashes_def Let_def split: option.splits)
  have db: "crawler_ok x \<Longrightarrow> crawler_ok (fst (setup_metadata_database_mode api x v))" for x v
    by (simp add: setup_metadata_database_mode_def Let_def split_beta crawler_inv_load)
  from c show ?thesis by (auto simp: initialize_def Let_def split_beta intro!: only db)
qed

lemma crawler_inv_shutdown: "crawler_ok c \<Longrightarrow> crawler_ok (fst (graceful_shutdown lt c w))"
  by (auto simp: graceful_shutdown_def split_beta intro!: crawler_inv_pool split: option.splits)

lemma crawler_ok_new: "crawler_ok (new_crawler api config)"
  by (simp add: crawler_inv_def torrents_ok_def new_crawler_def bep51_ok_def new_bep51_indexer_def get_unique_infohashes_def
      get_known_nodes_def pool_unused_def new_worker_pool_def list_all_iff)

section \<open>The machine\<close>

text \<open>
  Any operation of the main thread, any step of a worker of the pool, any step of the DHT manager's
  threads or of the calls that control them, and the signal handler, at any time.
\<close>

inductive crawler_step ::
  "('w, 'p, 'h) libtorrent \<Rightarrow> ('w, 'h) alert_source \<Rightarrow> 'w mysql_api \<Rightarrow> 'h crawler \<Rightarrow> 'h crawler \<Rightarrow> bool"
  for lt :: "('w, 'p, 'h) libtorrent" and al :: "('w, 'h) alert_source" and api :: "'w mysql_api" where
  init: "crawler_step lt al api c (fst (snd (initialize al api c w)))"
| alert: "crawler_step lt al api c (fst (handle_alert lt al api a c w))"
| request_hash: "crawler_step lt al api c (fst (request_metadata_for_hash lt h c w))"
| request_discovered: "crawler_step lt al api c (fst (request_metadata_for_discovered_torrents lt c w))"
| clean_up: "crawler_step lt al api c (fst (clean_up_worker_pool lt api c w))"
| mark: "crawler_step lt al api c (fst (mark_timed_out_requests lt api c w))"
| bep51: "crawler_step lt al api c (fst (query_bep51_infohashes lt c w))"
| smart: "crawler_step lt al api c (c\<lparr>cr_smart_crawler := fst (snd (send_smart_queries lt (cr_smart_crawler c) w))\<rparr>)"
| adjust: "crawler_step lt al api c (c\<lparr>cr_metadata_downloader := adjust_concurrent_limit (cr_metadata_downloader c)\<rparr>)"
| load: "crawler_step lt al api c (fst (load_metadata_database_batch api c w))"
| stop: "crawler_step lt al api c (crawler_stop c)"
| concurrent_mode: "crawler_step lt al api c (set_concurrent_mode b c)"
| bep51_mode: "crawler_step lt al api c (set_bep51_mode b c)"
| shutdown: "crawler_step lt al api c (fst (graceful_shutdown lt c w))"
| pool_thread: "cr_metadata_worker_pool c = Some p \<Longrightarrow> pool_worker_step lt p p' \<Longrightarrow>
    crawler_step lt al api c (c\<lparr>cr_metadata_worker_pool := Some p'\<rparr>)"
| dht_thread: "dht_step lt (cr_concurrent_dht c, sent) (m, sent') \<Longrightarrow> crawler_step lt al api c (c\<lparr>cr_concurrent_dht := m\<rparr>)"

lemma crawler_ok_step: "crawler_step lt al api c c' \<Longrightarrow> crawler_ok c \<Longrightarrow> crawler_ok c'"
proof (induction rule: crawler_step.induct)
  case (request_discovered c w)
  then show ?case by (simp add: request_discovered_noop)
next
  case (pool_thread c p p')
  then have "pool_unused p'" using pool_unused_worker_step [of lt p p'] by (simp add: crawler_inv_def)
  with pool_thread show ?case by (intro crawler_inv_pool) auto
qed (simp_all add: crawler_inv_initialize crawler_inv_alert crawler_inv_request_hash crawler_inv_clean_up crawler_inv_mark
    crawler_inv_query_bep51 crawler_inv_adjust crawler_inv_load crawler_stop_def set_concurrent_mode_def set_bep51_mode_def
    crawler_inv_shutdown)

definition crawler_init :: "'w mysql_api \<Rightarrow> 'h crawler \<Rightarrow> bool" where
  "crawler_init api c \<longleftrightarrow> (\<exists>config. c = new_crawler api config)"

interpretation crawler: invariant_system "crawler_init api" "crawler_step lt al api" crawler_ok
  for lt :: "('w, 'p, 'h) libtorrent" and al :: "('w, 'h) alert_source" and api :: "'w mysql_api"
proof
  show "crawler_ok c" if "crawler_init api c" for c :: "'h crawler"
    using that by (auto simp: crawler_init_def crawler_ok_new)
qed (rule crawler_ok_step)

section \<open>Received metadata\<close>

lemma notify_received_effect:
  fixes c :: "'h crawler"
  assumes c': "c' = fst (notify_received lt h c w)"
  shows "dl_success_count (cr_metadata_downloader c') = dl_success_count (cr_metadata_downloader c) + 2"
    and "cr_metadata_fetched c' = cr_metadata_fetched c" and "cr_mysql c' = cr_mysql c"
    and "cr_metadata_only_mode c' = cr_metadata_only_mode c" and "cr_discovered_torrents c' = cr_discovered_torrents c"
    and "cr_metadata_database_mode c' = cr_metadata_database_mode c"
  by (auto simp: c' notify_received_def handle_metadata_received_def log_success_def Let_def split_beta process_queue_frame
      split: option.splits)

lemma save_metadata_effect:
  fixes c :: "'h crawler"
  assumes c': "c' = fst (save_metadata api h t c w)"
  shows "cr_metadata_fetched c' = cr_metadata_fetched c + (if mc_connected (cr_mysql c) then 1 else 0)"
    and "cr_metadata_downloader c' = cr_metadata_downloader c" and "cr_discovered_torrents c' = cr_discovered_torrents c"
  by (auto simp: c' save_metadata_def split_beta)

section \<open>Properties\<close>

text \<open>C1: In every state the crawler can reach, whatever alerts arrive in whatever order and however the
  threads interleave, each discovered torrent is stored under its own hash, its metadata was already
  requested, and its \<^verbatim>\<open>metadata_received\<close> flag in memory is false, also after its metadata arrived; there are at
  least as many torrents counted as found as are stored.\<close>

theorem discovered_torrents_requested:
  assumes "reachable (crawler_init api) (crawler_step lt al api) c"
  shows "(\<forall>h t. smap_find (cr_discovered_torrents c) h = Some t \<longrightarrow>
            dt_info_hash t = h \<and> h \<in> cr_metadata_requested c \<and> \<not> dt_metadata_received t)
     \<and> int (length (cr_discovered_torrents c)) \<le> cr_torrents_found c"
proof -
  have ok: "torrents_ok {} c" using crawler.inv_reachable [OF assms] by (simp add: crawler_inv_def)
  show ?thesis
  proof (intro conjI allI impI)
    fix h t assume "smap_find (cr_discovered_torrents c) h = Some t"
    then have "(h, t) \<in> set (cr_discovered_torrents c)" by (rule map_of_SomeD)
    with ok show "dt_info_hash t = h" "h \<in> cr_metadata_requested c" "\<not> dt_metadata_received t"
      by (auto simp: torrents_ok_def)
  qed (use ok in \<open>simp add: torrents_ok_def\<close>)
qed

definition demo_source :: "(demo_world, string) alert_source" where
  "demo_source = \<lparr>al_pop_alerts = (\<lambda>w. ([], w)), al_torrent_file = (\<lambda>h w. Inr None), al_info_hash = (\<lambda>h. h),
     al_read_lines = (\<lambda>s w. None), al_sleep = (\<lambda>ms w. w), al_indeterminate = (\<lambda>w. (0, 0, 0))\<rparr>"

definition offline_api :: "demo_world mysql_api" where
  "offline_api = \<lparr>my_init = False, my_real_connect = (\<lambda>cf w. (False, w)), my_query = (\<lambda>q w. (True, w)),
     my_errno = (\<lambda>w. 0), my_error = (\<lambda>w. []), my_store_result = (\<lambda>w. (None, w)), my_escape = mysql_escape,
     my_format_time = (\<lambda>t. []), my_thread_id = [], my_process_id = 0\<rparr>"

definition demo_crawler :: "string crawler" where
  "demo_crawler = new_crawler offline_api default_config"

definition demo_announced :: "string crawler" where
  "demo_announced = fst (handle_announce demo_lt offline_api ''A'' demo_crawler demo_start)"

lemma demo_crawler_reachable:
  "reachable (crawler_init offline_api) (crawler_step demo_lt demo_source offline_api) demo_crawler"
  by (rule reachable.start) (auto simp: crawler_init_def demo_crawler_def)

lemma announced_reachable:
  "reachable (crawler_init offline_api) (crawler_step demo_lt demo_source offline_api) demo_announced"
  using reachable.move [OF demo_crawler_reachable crawler_step.alert [of demo_lt demo_source offline_api _ "Dht_announce ''A''" demo_start]]
  by (simp add: handle_alert_def demo_announced_def)

lemma demo_announced_torrents:
  "cr_discovered_torrents demo_announced =
     [(''41'', discovered_record ''41'' ''Announced Torrent'' ''DHT_ANNOUNCE'' [] 0 1000000000)]"
  by (simp add: demo_announced_def handle_announce_def demo_crawler_def new_crawler_def store_discovered_def auto_queue_metadata_def
      hash_to_hex_def hex_byte_def hex_chars_def demo_lt_def demo_start_def discovered_record_def split_beta Let_def)

theorem discovered_torrents_requested_witness:
  "smap_find (cr_discovered_torrents demo_announced) ''41'' \<noteq> None
   \<and> ''41'' \<in> cr_metadata_requested demo_announced
   \<and> int (length (cr_discovered_torrents demo_announced)) \<le> cr_torrents_found demo_announced"
  using discovered_torrents_requested [OF announced_reachable] by (simp add: demo_announced_torrents)

text \<open>C2: The worker pool is never used: in every reachable state nothing was ever queued in it, no worker
  holds a request and none is pending, and \<^verbatim>\<open>requestMetadataForDiscoveredTorrents\<close>, the only function that queues requests there, leaves
  the crawler as it is, because the discovery handlers have already handed every hash to the
  downloader; the pool's clean-up consequently never finds a timed-out torrent.\<close>

theorem worker_pool_never_used:
  assumes "reachable (crawler_init api) (crawler_step lt al api) c" "cr_metadata_worker_pool c = Some p"
  shows "pool_unused p \<and> request_metadata_for_discovered_torrents lt c w = (c, w)
     \<and> fst (pool_get_timed_out_requests now p) = []"
proof -
  have ok: "crawler_ok c" by (rule crawler.inv_reachable [OF assms(1)])
  with assms(2) have "pool_unused p" by (simp add: crawler_inv_def)
  with ok assms(2) show ?thesis by (simp add: request_discovered_noop pool_unused_timed_out)
qed

theorem worker_pool_never_used_witness:
  "pool_unused (new_worker_pool 10 20)
   \<and> request_metadata_for_discovered_torrents demo_lt demo_crawler demo_start = (demo_crawler, demo_start)
   \<and> fst (pool_get_timed_out_requests 0 (new_worker_pool 10 20)) = []"
  by (rule worker_pool_never_used [OF demo_crawler_reachable]) (simp add: demo_crawler_def new_crawler_def)

text \<open>A metadata alert for a torrent the crawler knows counts two successes in the downloader and counts
  as fetched exactly when the database is connected, whether or not the store succeeded; without a
  database it is never counted. For an unknown torrent outside metadata-only mode the handler
  returns early: the successes are counted, the torrent stays in the session and nothing is stored.\<close>

theorem metadata_received_counters:
  fixes c :: "'h crawler"
  assumes "al_torrent_file al handle w = Inr (Some ti)"
  shows "let r = crawler_handle_metadata_received lt al api handle c w; hash_str = hash_to_hex (al_info_hash al handle) in
       dl_success_count (cr_metadata_downloader (fst r)) = dl_success_count (cr_metadata_downloader c) + 2
     \<and> (cr_metadata_only_mode c \<or> smap_find (cr_discovered_torrents c) hash_str \<noteq> None \<longrightarrow>
          cr_metadata_fetched (fst r) = cr_metadata_fetched c + (if mc_connected (cr_mysql c) then 1 else 0))
     \<and> (\<not> cr_metadata_only_mode c \<and> smap_find (cr_discovered_torrents c) hash_str = None \<longrightarrow>
          r = notify_received lt hash_str c w \<and> cr_metadata_fetched (fst r) = cr_metadata_fetched c)
     \<and> cr_discovered_torrents (fst r) = cr_discovered_torrents c"
  using assms unfolding crawler_handle_metadata_received_def Let_def
  by (auto simp: split_beta notify_received_effect [OF refl] save_metadata_effect [OF refl] split: option.splits)

definition demo_info :: torrent_info where
  "demo_info = \<lparr>ti_name = ''n'', ti_total_size = 1, ti_num_files = 1, ti_num_pieces = 1, ti_piece_length = 1, ti_comment = [],
     ti_creator = [], ti_creation_date = 0, ti_priv = False, ti_magnet_uri = [], ti_trackers = [], ti_files = [], ti_web_seeds = []\<rparr>"

theorem metadata_received_counters_witness:
  "let r = crawler_handle_metadata_received demo_lt (demo_source\<lparr>al_torrent_file := \<lambda>h w. Inr (Some demo_info)\<rparr>)
             offline_api ''A'' demo_crawler demo_start
   in dl_success_count (cr_metadata_downloader (fst r)) = 2 \<and> cr_discovered_torrents (fst r) = []"
proof -
  have "al_torrent_file (demo_source\<lparr>al_torrent_file := \<lambda>h w. Inr (Some demo_info)\<rparr>) ''A'' demo_start = Inr (Some demo_info)"
    by simp
  note m = metadata_received_counters [OF this, where lt = demo_lt and api = offline_api and c = demo_crawler, unfolded Let_def]
  have c: "dl_success_count (cr_metadata_downloader demo_crawler) = 0" "cr_discovered_torrents demo_crawler = []"
    by (simp_all add: demo_crawler_def new_crawler_def new_downloader_def)
  show ?thesis unfolding Let_def using conjunct1 [OF m] conjunct2 [OF conjunct2 [OF conjunct2 [OF m]]]
    by (simp only: c add_0)
qed

end
