(* ===== verification/Crawler_Main.thy ===== *)
theory Crawler_Main
  imports Crawler_Invariant
begin

text \<open>
  \<^verbatim>\<open>startCrawling\<close> of \<^verbatim>\<open>dht_crawler.cpp\<close>: the metadata-only loop, the concurrent loop and the sequential loop. The loops
  run until a flag changes or a limit is reached, possibly for ever, so they are partial functions:
  \<open>None\<close> stands for a run that does not end. What other threads do (the workers of the pool, the
  threads of the DHT manager, the signal handler) happens between two passes of a loop and is the
  parameter \<open>env\<close>. An exception that leaves a pass is returned with the state.
\<close>

section \<open>Definitions\<close>

type_synonym ('w, 'h) env = "'h crawler \<Rightarrow> 'w \<Rightarrow> 'h crawler \<times> 'w"

text \<open>
  The indices of \<^verbatim>\<open>for (size_t i = size() - 50; i < size(); ++i)\<close>: the subtraction is on 64-bit unsigned numbers
  and wraps when there are fewer than 50 hashes.
\<close>

definition refill_start :: "nat \<Rightarrow> 64 word" where
  "refill_start n = of_nat n - 50"

definition refill_indices :: "nat \<Rightarrow> nat list" where
  "refill_indices n = [unat (refill_start n) ..< n]"

definition refill_queue :: "('w, 'p, 'h) libtorrent \<Rightarrow> 'w mysql_api \<Rightarrow> 'h crawler \<Rightarrow> 'w \<Rightarrow> 'h crawler \<times> 'w" where
  "refill_queue lt api c w =
     (case load_metadata_database_batch api c w of
        (c1, w1) \<Rightarrow>
          if cr_metadata_hash_list c1 \<noteq> [] then
            request_all lt (map (\<lambda>i. cr_metadata_hash_list c1 ! i) (refill_indices (length (cr_metadata_hash_list c1)))) c1 w1
          else (c1, w1))"

text \<open>One pass of the metadata-only loop; true when it breaks.\<close>

definition metadata_only_pass ::
  "('w, 'p, 'h) libtorrent \<Rightarrow> ('w, 'h) alert_source \<Rightarrow> 'w mysql_api \<Rightarrow> time \<Rightarrow> 'h crawler \<Rightarrow> 'w \<Rightarrow> bool \<times> 'h crawler \<times> 'w" where
  "metadata_only_pass lt al api start_time c w =
     (let (c1, w1) = process_alerts lt al api c w;
          (now, w2) = steady_now lt w1;
          elapsed_seconds = int_div (now - start_time) 1000000000;
          (c2, w3) = (if cr_metadata_database_mode c1 then mark_timed_out_requests lt api c1 w2 else (c1, w2));
          (c3, w4) = (if cr_metadata_database_mode c2 \<and> length (cr_metadata_hash_list c2) < 50
                      then refill_queue lt api c2 w3 else (c2, w3))
      in if elapsed_seconds \<ge> 300 then (True, c3, w4)
         else if cr_metadata_database_mode c3 then
           (if cr_metadata_db_processed c3 \<ge> cr_metadata_db_total_records c3 \<or> cr_metadata_hash_list c3 = []
            then (True, c3, w4) else (False, c3, al_sleep al 100 w4))
         else if cr_metadata_fetched c3 \<ge> int (length (cr_metadata_hash_list c3)) then (True, c3, w4)
         else (False, c3, al_sleep al 100 w4))"

partial_function (option) metadata_only_loop ::
  "('w, 'p, 'h) libtorrent \<Rightarrow> ('w, 'h) alert_source \<Rightarrow> 'w mysql_api \<Rightarrow> ('w, 'h) env \<Rightarrow> time \<Rightarrow> 'h crawler \<Rightarrow> 'w \<Rightarrow> ('h crawler \<times> 'w) option" where
  "metadata_only_loop lt al api env start_time c w =
     (case env c w of
        (c0, w0) \<Rightarrow>
          if cr_running c0 \<and> \<not> cr_shutdown_requested c0 then
            (case metadata_only_pass lt al api start_time c0 w0 of
               (stop, c1, w1) \<Rightarrow> if stop then Some (c1, w1) else metadata_only_loop lt al api env start_time c1 w1)
          else Some (c0, w0))"

text \<open>What every \<open>n\<close>-th pass does.\<close>

definition every :: "int \<Rightarrow> int \<Rightarrow> ('h crawler \<Rightarrow> 'w \<Rightarrow> 'h crawler \<times> 'w) \<Rightarrow> 'h crawler \<Rightarrow> 'w \<Rightarrow> 'h crawler \<times> 'w" where
  "every n k f c w = (if k mod n = 0 then f c w else (c, w))"

definition adjust_limit :: "'h crawler \<Rightarrow> 'w \<Rightarrow> 'h crawler \<times> 'w" where
  "adjust_limit c w = (c\<lparr>cr_metadata_downloader := adjust_concurrent_limit (cr_metadata_downloader c)\<rparr>, w)"

text \<open>The progress report reads the clock, and in verbose mode asks the worker pool for its queue.\<close>

definition report_progress :: "('w, 'p, 'h) libtorrent \<Rightarrow> 'h crawler \<Rightarrow> 'w \<Rightarrow> 'h crawler \<times> 'w" where
  "report_progress lt c w =
     (if cr_verbose_mode c \<and> cr_metadata_worker_pool c = None then c\<lparr>cr_null_deref := True\<rparr> else c, snd (steady_now lt w))"

definition smart_queries :: "('w, 'p, 'h) libtorrent \<Rightarrow> 'h crawler \<Rightarrow> 'w \<Rightarrow> exn option \<times> 'h crawler \<times> 'w" where
  "smart_queries lt c w =
     (case send_smart_queries lt (cr_smart_crawler c) w of (e, s, w1) \<Rightarrow> (e, c\<lparr>cr_smart_crawler := s\<rparr>, w1))"

definition concurrent_pass ::
  "('w, 'p, 'h) libtorrent \<Rightarrow> ('w, 'h) alert_source \<Rightarrow> 'w mysql_api \<Rightarrow> int \<Rightarrow> 'h crawler \<Rightarrow> 'w \<Rightarrow> exn option \<times> 'h crawler \<times> 'w" where
  "concurrent_pass lt al api progress_counter c w =
     (let k = progress_counter;
          (c1, w1) = process_alerts lt al api c w;
          (c2, w2) = every 5 k (request_metadata_for_discovered_torrents lt) c1 w1;
          (c3, w3) = every 30 k (query_bep51_infohashes lt) c2 w2;
          (e, c4, w4) = (if k mod 20 = 0 \<and> cr_use_smart_mode c3 then smart_queries lt c3 w3 else (None, c3, w3))
      in case e of
           Some ex \<Rightarrow> (Some ex, c4, w4)
         | None \<Rightarrow>
             (let (c5, w5) = every 3 k (clean_up_worker_pool lt api) c4 w4;
                  (c6, w6) = every 50 k adjust_limit c5 w5;
                  (c7, w7) = every 100 (k + 1) (report_progress lt) c6 w6
              in (None, c7, al_sleep al 50 w7)))"

partial_function (option) concurrent_loop ::
  "('w, 'p, 'h) libtorrent \<Rightarrow> ('w, 'h) alert_source \<Rightarrow> 'w mysql_api \<Rightarrow> ('w, 'h) env \<Rightarrow> int \<Rightarrow> int \<Rightarrow> 'h crawler \<Rightarrow> 'w
     \<Rightarrow> (exn option \<times> 'h crawler \<times> 'w) option" where
  "concurrent_loop lt al api env max_queries progress_counter c w =
     (case env c w of
        (c0, w0) \<Rightarrow>
          if cr_running c0 \<and> \<not> cr_shutdown_requested c0
             \<and> (max_queries < 0 \<or> cm_total_queries_sent (cr_concurrent_dht c0) < max_queries) then
            (case concurrent_pass lt al api progress_counter c0 w0 of
               (e, c1, w1) \<Rightarrow>
                 if e \<noteq> None then Some (e, c1, w1)
                 else concurrent_loop lt al api env max_queries (progress_counter + 1) c1 w1)
          else Some (None, c0, w0))"

text \<open>One pass of the sequential loop; a hash that was queried before is skipped without counting.\<close>

definition sequential_query :: "('w, 'p, 'h) libtorrent \<Rightarrow> string \<Rightarrow> 'h crawler \<Rightarrow> 'w \<Rightarrow> 'h crawler \<times> 'w" where
  "sequential_query lt hash_str c w =
     (let c1 = c\<lparr>cr_queried_hashes := insert hash_str (cr_queried_hashes c)\<rparr>
      in case dht_get_peers lt hash_str w of
           (Some e, w1) \<Rightarrow> (c1, w1)
         | (None, w1) \<Rightarrow>
             (case dht_get_item lt hash_str w1 of
                (Some e, w2) \<Rightarrow> (c1, w2)
              | (None, w2) \<Rightarrow> (c1\<lparr>cr_total_queries := cr_total_queries c1 + 2\<rparr>, w2)))"

definition sequential_pass ::
  "('w, 'p, 'h) libtorrent \<Rightarrow> ('w, 'h) alert_source \<Rightarrow> 'w mysql_api \<Rightarrow> int \<Rightarrow> 'h crawler \<Rightarrow> 'w \<Rightarrow> int \<times> 'h crawler \<times> 'w" where
  "sequential_pass lt al api query_count c w =
     (let (hash_str, w0) = random_bytes lt 20 w
      in if hash_str \<in> cr_queried_hashes c then (query_count, c, w0)
         else
           let k = query_count;
               (c1, w1) = sequential_query lt hash_str c w0;
               (c2, w2) = process_alerts lt al api c1 w1;
               (c3, w3) = every 10 k (request_metadata_for_discovered_torrents lt) c2 w2;
               (c4, w4) = every 5 k (clean_up_worker_pool lt api) c3 w3;
               (c5, w5) = every 25 k adjust_limit c4 w4;
               (c6, w6) = every 100 (k + 1) (report_progress lt) c5 w5
           in (k + 1, c6, al_sleep al 100 w6))"

partial_function (option) sequential_loop ::
  "('w, 'p, 'h) libtorrent \<Rightarrow> ('w, 'h) alert_source \<Rightarrow> 'w mysql_api \<Rightarrow> ('w, 'h) env \<Rightarrow> int \<Rightarrow> int \<Rightarrow> 'h crawler \<Rightarrow> 'w
     \<Rightarrow> (exn option \<times> 'h crawler \<times> 'w) option" where
  "sequential_loop lt al api env max_queries query_count c w =
     (case env c w of
        (c0, w0) \<Rightarrow>
          if cr_running c0 \<and> \<not> cr_shutdown_requested c0 \<and> (max_queries < 0 \<or> query_count < max_queries) then
            (case sequential_pass lt al api query_count c0 w0 of
               (k, c1, w1) \<Rightarrow> sequential_loop lt al api env max_queries k c1 w1)
          else Some (None, c0, w0))"

text \<open>
  \<^verbatim>\<open>ConcurrentDHTManager::stop\<close> as the caller sees it: the flag is raised, the threads run to their end (the
  environment), the manager is reset.
\<close>

definition stop_concurrent_dht :: "('w, 'h) env \<Rightarrow> 'h crawler \<Rightarrow> 'w \<Rightarrow> 'h crawler \<times> 'w" where
  "stop_concurrent_dht env c w =
     (if \<not> cm_running (cr_concurrent_dht c) then (c, w)
      else case env (c\<lparr>cr_concurrent_dht := cm_stop_begin (cr_concurrent_dht c)\<rparr>) w of
             (c1, w1) \<Rightarrow> (c1\<lparr>cr_concurrent_dht := cm_stop_finish (cr_concurrent_dht c1)\<rparr>, w1))"

text \<open>What follows the two crawling loops when no exception left them.\<close>

definition finish_crawling ::
  "('w, 'p, 'h) libtorrent \<Rightarrow> ('w, 'h) env \<Rightarrow> bool \<Rightarrow> exn option \<times> 'h crawler \<times> 'w \<Rightarrow> exn option \<times> 'h crawler \<times> 'w" where
  "finish_crawling lt env concurrent r =
     (case r of (e, c2, w2) \<Rightarrow>
        if e \<noteq> None then r
        else case (if concurrent then stop_concurrent_dht env c2 w2 else (c2, w2)) of
               (c3, w3) \<Rightarrow> (None, c3\<lparr>cr_running := False\<rparr>, snd (steady_now lt w3)))"

definition start_crawling ::
  "('w, 'p, 'h) libtorrent \<Rightarrow> ('w, 'h) alert_source \<Rightarrow> 'w mysql_api \<Rightarrow> ('w, 'h) env \<Rightarrow> int \<Rightarrow> 'h crawler \<Rightarrow> 'w
     \<Rightarrow> (exn option \<times> 'h crawler \<times> 'w) option" where
  "start_crawling lt al api env max_queries c w =
     (let c0 = c\<lparr>cr_running := True\<rparr>
      in if cr_metadata_only_mode c0 then
           (case request_all lt (cr_metadata_hash_list c0) c0 w of
              (c1, w1) \<Rightarrow>
                let (start_time, w2) = steady_now lt w1
                in map_option (\<lambda>(c2, w3). case graceful_shutdown lt c2 w3 of (c3, w4) \<Rightarrow> (None, c3, w4))
                     (metadata_only_loop lt al api env start_time c1 w2))
         else
           let (start_time, w1) = steady_now lt w
           in map_option (finish_crawling lt env (cr_use_concurrent_mode c0))
                (if cr_use_concurrent_mode c0
                 then concurrent_loop lt al api env max_queries 0 (c0\<lparr>cr_concurrent_dht := cm_start (cr_concurrent_dht c0)\<rparr>) w1
                 else sequential_loop lt al api env max_queries 0 c0 w1))"

section \<open>The hash list\<close>

fun join_commas :: "string list \<Rightarrow> string" where
  "join_commas [] = []"
| "join_commas [p] = p"
| "join_commas (p # ps) = p @ CHR '','' # join_commas ps"

lemma getline_all_piece:
  "CHR '','' \<notin> set p \<Longrightarrow> getline_all (CHR '','') acc (p @ CHR '','' # s) = (rev acc @ p) # getline_all (CHR '','') [] s"
  by (induction p arbitrary: acc) auto

lemma getline_all_last:
  "CHR '','' \<notin> set p \<Longrightarrow> getline_all (CHR '','') acc p = (if acc = [] \<and> p = [] then [] else [rev acc @ p])"
  by (induction p arbitrary: acc) auto

lemma trim_Nil [simp]: "trim [] = []"
  by (simp add: trim_def)

lemma getline_all_join:
  "list_all (\<lambda>p. CHR '','' \<notin> set p) ps \<Longrightarrow>
   filter (\<lambda>h. h \<noteq> []) (map trim (getline_all (CHR '','') [] (join_commas ps))) = filter (\<lambda>h. h \<noteq> []) (map trim ps)"
proof (induction ps rule: join_commas.induct)
  case (2 p)
  then show ?case using getline_all_last [of p "[]"] by simp
next
  case (3 p p' ps)
  then show ?case using getline_all_piece [of p "[]" "join_commas (p' # ps)"] by simp
qed simp

lemma trim_ends:
  assumes "trim s \<noteq> []"
  shows "\<not> trim_char (hd (trim s))" and "\<not> trim_char (last (trim s))"
proof -
  let ?a = "dropWhile trim_char s"
  let ?b = "dropWhile trim_char (rev ?a)"
  have b: "?b \<noteq> []" using assms by (simp add: trim_def)
  then show "\<not> trim_char (last (trim s))" by (simp add: trim_def last_rev hd_dropWhile)
  have a: "?a \<noteq> []" using b by (metis dropWhile.simps(1) rev.simps(1))
  obtain u where "rev ?a = u @ ?b" by (metis takeWhile_dropWhile_id)
  then have "?a = rev ?b @ rev u" by (metis rev_append rev_rev_ident)
  then have "hd (rev ?b) = hd ?a" using b by (metis hd_append2 rev_is_Nil_conv)
  with hd_dropWhile [OF a] show "\<not> trim_char (hd (trim s))" by (simp add: trim_def)
qed

section \<open>The refill loop\<close>

lemma refill_start_unat:
  assumes "n < 2 ^ 64"
  shows "unat (refill_start n) = (if n < 50 then n + 2 ^ 64 - 50 else n - 50)"
proof -
  have n: "unat (of_nat n :: 64 word) = n" using assms by (simp add: unsigned_of_nat take_bit_nat_eq_self)
  have k: "unat (50 :: 64 word) = 50" by simp
  have "unat (refill_start n) = (if 50 \<le> n then n - 50 else n + 2 ^ 64 - 50)"
    unfolding refill_start_def unat_sub_if' n k by simp
  then show ?thesis by (simp only: not_less [symmetric] if_not_P split: if_splits) auto
qed

lemma refill_indices_eq:
  assumes "n < 2 ^ 64"
  shows "refill_indices n = (if n < 50 then [] else [n - 50 ..< n])"
  using refill_start_unat [OF assms] by (simp add: refill_indices_def)

lemma map_nth_suffix: "map (\<lambda>i. xs ! i) [length xs - k ..< length xs] = drop (length xs - k) xs"
  by (rule nth_equalityI) auto

section \<open>A run never uses the pool after its reset\<close>

text \<open>The pool pointer is set and was never used while unset.\<close>

definition live :: "'h crawler \<Rightarrow> bool" where
  "live c \<longleftrightarrow> \<not> cr_null_deref c \<and> cr_metadata_worker_pool c \<noteq> None"

lemma live_fields [simp]:
  "live (c\<lparr>cr_metadata_downloader := d\<rparr>) = live c" "live (c\<lparr>cr_metadata_requested := r\<rparr>) = live c"
  "live (c\<lparr>cr_metadata_manager := m\<rparr>) = live c" "live (c\<lparr>cr_discovered_torrents := ts\<rparr>) = live c"
  "live (c\<lparr>cr_torrents_found := i\<rparr>) = live c" "live (c\<lparr>cr_peers_found := i\<rparr>) = live c"
  "live (c\<lparr>cr_smart_crawler := s\<rparr>) = live c" "live (c\<lparr>cr_bep51_indexer := b\<rparr>) = live c"
  "live (c\<lparr>cr_metadata_fetched := i\<rparr>) = live c" "live (c\<lparr>cr_metadata_db_processed := i\<rparr>) = live c"
  "live (c\<lparr>cr_running := x\<rparr>) = live c" "live (c\<lparr>cr_shutdown_requested := x\<rparr>) = live c"
  "live (c\<lparr>cr_metadata_hash_list := hs\<rparr>) = live c" "live (c\<lparr>cr_metadata_db_offset := i\<rparr>) = live c"
  "live (c\<lparr>cr_queried_hashes := q\<rparr>) = live c" "live (c\<lparr>cr_total_queries := i\<rparr>) = live c"
  "live (c\<lparr>cr_concurrent_dht := cd\<rparr>) = live c"
  by (simp_all add: live_def)

lemma live_pool [simp]: "live (c\<lparr>cr_metadata_worker_pool := Some p\<rparr>) \<longleftrightarrow> \<not> cr_null_deref c"
  by (simp add: live_def)

lemma live_null: "live c \<Longrightarrow> \<not> cr_null_deref c"
  by (simp add: live_def)

lemma live_SomeE: "live c \<Longrightarrow> (\<And>p. cr_metadata_worker_pool c = Some p \<Longrightarrow> \<not> cr_null_deref c \<Longrightarrow> thesis) \<Longrightarrow> thesis"
  by (auto simp: live_def)

lemma live_auto_queue: "live c \<Longrightarrow> live (fst (auto_queue_metadata lt h p s c w))"
  by (simp add: auto_queue_metadata_def split_beta)

lemma live_store: "live c \<Longrightarrow> live (fst (store_discovered api t c w))"
  by (simp add: store_discovered_def Let_def)

lemma live_discovery:
  "live c \<Longrightarrow> live (fst (handle_peer_reply lt api h ps c w))"
  "live c \<Longrightarrow> live (fst (handle_announce lt api h c w))"
  "live c \<Longrightarrow> live (fst (handle_immutable_item lt api h c w))"
  unfolding handle_peer_reply_def handle_announce_def handle_immutable_item_def Let_def
  by (auto simp: split_beta intro!: live_auto_queue live_store)

lemma live_notify: "live c \<Longrightarrow> live (fst (notify_received lt h c w))"
  by (erule live_SomeE) (simp add: notify_received_def Let_def split_beta)

lemma live_save: "live c \<Longrightarrow> live (fst (save_metadata api h t c w))"
  by (simp add: save_metadata_def split_beta)

lemma live_metadata: "live c \<Longrightarrow> live (fst (crawler_handle_metadata_received lt al api hd' c w))"
  unfolding crawler_handle_metadata_received_def Let_def
  by (auto simp: split_beta intro!: live_save live_notify split: sum.splits option.splits)

lemma live_alert: "live c \<Longrightarrow> live (fst (handle_alert lt al api a c w))"
  by (simp add: handle_alert_def live_discovery live_metadata split: alert.splits)

lemma live_process_alerts: "live c \<Longrightarrow> live (fst (process_alerts lt al api c w))"
proof -
  have "live x \<Longrightarrow> live (fst (handle_alerts lt al api as x v))" for "as" x v
  proof (induction "as" arbitrary: x v)
    case (Cons a "as")
    then show ?case using live_alert [of x lt al api a v] by (auto split: prod.splits)
  qed simp
  then show "live c \<Longrightarrow> live (fst (process_alerts lt al api c w))" by (simp add: process_alerts_def split: prod.splits)
qed

lemma live_request_all: "live c \<Longrightarrow> live (fst (request_all lt hs c w))"
proof (induction hs arbitrary: c w)
  case (Cons h hs)
  have "live (fst (request_metadata_for_hash lt h c w))"
    using Cons.prems by (simp add: request_metadata_for_hash_def Let_def split: prod.splits bool.splits)
  with Cons.IH show ?case by (auto split: prod.splits)
qed simp

lemma live_request_discovered:
  "crawler_ok c \<Longrightarrow> live c \<Longrightarrow> live (fst (request_metadata_for_discovered_torrents lt c w))"
  by (simp add: request_discovered_noop) (simp add: live_def)

lemma live_clean_up: "live c \<Longrightarrow> live (fst (clean_up_worker_pool lt api c w))"
  by (erule live_SomeE) (simp add: clean_up_worker_pool_def Let_def split_beta)

lemma live_mark: "live c \<Longrightarrow> live (fst (mark_timed_out_requests lt api c w))"
  by (erule live_SomeE) (simp add: mark_timed_out_requests_def split_beta)

lemma live_query_bep51: "live c \<Longrightarrow> live (fst (query_bep51_infohashes lt c w))"
proof -
  have "live x \<Longrightarrow> live (fst (queue_collected lt hs x v))" for hs x v
  proof (induction hs arbitrary: x v)
    case (Cons h hs)
    then show ?case using live_auto_queue [of x lt "hash_to_hex h" 5 "''BEP51''" v] by (auto split: prod.splits)
  qed simp
  then show "live c \<Longrightarrow> live (fst (query_bep51_infohashes lt c w))"
    by (simp add: query_bep51_infohashes_def Let_def split_beta)
qed

lemma live_load: "live c \<Longrightarrow> live (fst (load_metadata_database_batch api c w))"
  by (simp add: load_metadata_database_batch_def split_beta)

text \<open>What the loops need: the invariant and a live pool.\<close>

definition run_ok :: "'h crawler \<Rightarrow> bool" where
  "run_ok c \<longleftrightarrow> crawler_ok c \<and> live c"

lemmas run_ok_ops = crawler_inv_process_alerts live_process_alerts crawler_inv_request_all live_request_all
  crawler_inv_clean_up live_clean_up crawler_inv_mark live_mark crawler_inv_query_bep51 live_query_bep51
  crawler_inv_load live_load live_request_discovered crawler_inv_adjust

lemma run_ok_request_discovered: "run_ok c \<Longrightarrow> run_ok (fst (request_metadata_for_discovered_torrents lt c w))"
  by (simp add: run_ok_def request_discovered_noop) (simp add: live_def)

lemma run_ok_every: "run_ok c \<Longrightarrow> (\<And>x v. run_ok x \<Longrightarrow> run_ok (fst (f x v))) \<Longrightarrow> run_ok (fst (every n k f c w))"
  by (simp add: every_def)

lemma run_ok_refill: "run_ok c \<Longrightarrow> run_ok (fst (refill_queue lt api c w))"
  by (auto simp: run_ok_def refill_queue_def split_beta intro!: run_ok_ops)

text \<open>A sequence of operations, one after the other.\<close>

lemma run_ok_bind:
  "run_ok (fst p) \<Longrightarrow> (\<And>x v. run_ok x \<Longrightarrow> run_ok (fst (snd (f x v)))) \<Longrightarrow> run_ok (fst (snd (case p of (x, v) \<Rightarrow> f x v)))"
  by (cases p) simp

lemma run_ok_bind3:
  "run_ok (fst (snd p)) \<Longrightarrow> (\<And>e x v. run_ok x \<Longrightarrow> run_ok (fst (snd (f e x v)))) \<Longrightarrow>
   run_ok (fst (snd (case p of (e, x, v) \<Rightarrow> f e x v)))"
  by (cases p) simp

lemma run_ok_read: "(\<And>v. run_ok (fst (snd (f (fst p) v)))) \<Longrightarrow> run_ok (fst (snd (case p of (x, v) \<Rightarrow> f x v)))"
  by (cases p) simp

lemma run_ok_report: "run_ok c \<Longrightarrow> report_progress lt c w = (c, snd (steady_now lt w))"
  by (simp add: run_ok_def live_def report_progress_def)

lemma run_ok_single:
  "run_ok c \<Longrightarrow> run_ok (fst (process_alerts lt al api c w))"
  "run_ok c \<Longrightarrow> run_ok (fst (mark_timed_out_requests lt api c w))"
  "run_ok c \<Longrightarrow> run_ok (fst (query_bep51_infohashes lt c w))"
  "run_ok c \<Longrightarrow> run_ok (fst (clean_up_worker_pool lt api c w))"
  "run_ok c \<Longrightarrow> run_ok (fst (adjust_limit c w))"
  "run_ok c \<Longrightarrow> run_ok (fst (report_progress lt c w))"
  "run_ok c \<Longrightarrow> run_ok (fst (snd (smart_queries lt c w)))"
  "run_ok c \<Longrightarrow> run_ok (fst (sequential_query lt h c w))"
  by (simp_all add: run_ok_def run_ok_ops adjust_limit_def run_ok_report smart_queries_def sequential_query_def Let_def
      split_beta split: option.splits)

lemmas run_ok_intros = run_ok_every run_ok_single run_ok_request_discovered run_ok_refill

lemma run_ok_metadata_only_pass: "run_ok c \<Longrightarrow> run_ok (fst (snd (metadata_only_pass lt al api t c w)))"
  unfolding metadata_only_pass_def Let_def
  apply (rule run_ok_bind)
   apply (erule run_ok_single)
  apply (rule run_ok_read)
  apply (rule run_ok_bind)
   apply (simp add: run_ok_single)
  apply (rule run_ok_bind)
   apply (simp add: run_ok_refill)
  apply simp
  done

lemma run_ok_concurrent_pass: "run_ok c \<Longrightarrow> run_ok (fst (snd (concurrent_pass lt al api k c w)))"
  unfolding concurrent_pass_def Let_def
  apply (rule run_ok_bind)
   apply (erule run_ok_single)
  apply (rule run_ok_bind)
   apply (simp add: run_ok_intros)
  apply (rule run_ok_bind)
   apply (simp add: run_ok_intros)
  apply (rule run_ok_bind3)
   apply (simp add: run_ok_single)
  apply (auto intro!: run_ok_bind run_ok_intros split: option.splits)
  done

lemma run_ok_sequential_pass: "run_ok c \<Longrightarrow> run_ok (fst (snd (sequential_pass lt al api k c w)))"
  unfolding sequential_pass_def Let_def
  apply (rule run_ok_read)
  apply (split if_split, intro conjI impI)
   apply simp
  apply (auto intro!: run_ok_bind run_ok_intros)
  done

section \<open>Whole runs\<close>

text \<open>What the other threads can do to the crawler between two passes.\<close>

inductive thread_step :: "('w, 'p, 'h) libtorrent \<Rightarrow> 'h crawler \<Rightarrow> 'h crawler \<Rightarrow> bool"
  for lt :: "('w, 'p, 'h) libtorrent" where
  pool_thread: "cr_metadata_worker_pool c = Some p \<Longrightarrow> pool_worker_step lt p p' \<Longrightarrow>
    thread_step lt c (c\<lparr>cr_metadata_worker_pool := Some p'\<rparr>)"
| dht_thread: "dht_worker_step lt (cr_concurrent_dht c, sent) (m, sent') \<Longrightarrow> thread_step lt c (c\<lparr>cr_concurrent_dht := m\<rparr>)"
| signal: "thread_step lt c (crawler_stop c)"

definition env_threads :: "('w, 'p, 'h) libtorrent \<Rightarrow> ('w, 'h) env \<Rightarrow> bool" where
  "env_threads lt env \<longleftrightarrow> (\<forall>c w. (thread_step lt)\<^sup>*\<^sup>* c (fst (env c w)))"

lemma run_ok_thread_step: "thread_step lt c c' \<Longrightarrow> run_ok c \<Longrightarrow> run_ok c'"
proof (induction rule: thread_step.induct)
  case (pool_thread c p p')
  then have "pool_unused p'" using pool_unused_worker_step [of lt p p'] by (simp add: run_ok_def crawler_inv_def)
  with pool_thread show ?case by (auto simp: run_ok_def live_null intro!: crawler_inv_pool)
qed (simp_all add: run_ok_def crawler_stop_def)

lemma run_ok_env: "env_threads lt env \<Longrightarrow> run_ok c \<Longrightarrow> run_ok (fst (env c w))"
proof -
  assume "env_threads lt env" "run_ok c"
  have "run_ok d" if "(thread_step lt)\<^sup>*\<^sup>* c d" for d
    using that \<open>run_ok c\<close> by (induction rule: rtranclp_induct) (auto intro: run_ok_thread_step)
  with \<open>env_threads lt env\<close> show ?thesis by (simp add: env_threads_def)
qed

lemma run_ok_metadata_only_loop:
  assumes "metadata_only_loop lt al api env t c w = Some r" "env_threads lt env" "run_ok c"
  shows "run_ok (fst r)"
  using assms
proof (induction rule: metadata_only_loop.raw_induct [rotated, consumes 1, case_names pass])
  case (pass loop lt al api env t c w r)
  obtain c0 w0 where e: "env c w = (c0, w0)" by (metis surj_pair)
  obtain stop c1 w1 where p: "metadata_only_pass lt al api t c0 w0 = (stop, c1, w1)" by (metis surj_pair)
  have c0: "run_ok c0" using run_ok_env [OF pass(3,4), of w] e by simp
  then have c1: "run_ok c1" using run_ok_metadata_only_pass [of c0 lt al api t w0] p by simp
  have "(if cr_running c0 \<and> \<not> cr_shutdown_requested c0 then if stop then Some (c1, w1) else loop lt al api env t c1 w1
      else Some (c0, w0)) = Some r" using pass(2) unfolding e prod.case p .
  with c0 c1 pass(1) [OF _ pass(3)] show ?case by (auto split: if_splits)
qed

lemma run_ok_concurrent_loop:
  assumes "concurrent_loop lt al api env mq k c w = Some r" "env_threads lt env" "run_ok c"
  shows "run_ok (fst (snd r))"
  using assms
proof (induction rule: concurrent_loop.raw_induct [rotated, consumes 1, case_names pass])
  case (pass loop lt al api env mq k c w r)
  obtain c0 w0 where e: "env c w = (c0, w0)" by (metis surj_pair)
  obtain ex c1 w1 where p: "concurrent_pass lt al api k c0 w0 = (ex, c1, w1)" by (metis surj_pair)
  have c0: "run_ok c0" using run_ok_env [OF pass(3,4), of w] e by simp
  then have c1: "run_ok c1" using run_ok_concurrent_pass [of c0 lt al api k w0] p by simp
  have "(if cr_running c0 \<and> \<not> cr_shutdown_requested c0 \<and> (mq < 0 \<or> cm_total_queries_sent (cr_concurrent_dht c0) < mq)
      then if ex \<noteq> None then Some (ex, c1, w1) else loop lt al api env mq (k + 1) c1 w1
      else Some (None, c0, w0)) = Some r" using pass(2) unfolding e prod.case p .
  with c0 c1 pass(1) [OF _ pass(3)] show ?case by (auto split: if_splits)
qed

lemma run_ok_sequential_loop:
  assumes "sequential_loop lt al api env mq k c w = Some r" "env_threads lt env" "run_ok c"
  shows "run_ok (fst (snd r))"
  using assms
proof (induction rule: sequential_loop.raw_induct [rotated, consumes 1, case_names pass])
  case (pass loop lt al api env mq k c w r)
  obtain c0 w0 where e: "env c w = (c0, w0)" by (metis surj_pair)
  obtain k1 c1 w1 where p: "sequential_pass lt al api k c0 w0 = (k1, c1, w1)" by (metis surj_pair)
  have c0: "run_ok c0" using run_ok_env [OF pass(3,4), of w] e by simp
  then have c1: "run_ok c1" using run_ok_sequential_pass [of c0 lt al api k w0] p by simp
  have "(if cr_running c0 \<and> \<not> cr_shutdown_requested c0 \<and> (mq < 0 \<or> k < mq) then loop lt al api env mq k1 c1 w1
      else Some (None, c0, w0)) = Some r" using pass(2) unfolding e prod.case p .
  with c0 c1 pass(1) [OF _ pass(3)] show ?case by (auto split: if_splits)
qed

lemma run_ok_stop_dht: "env_threads lt env \<Longrightarrow> run_ok c \<Longrightarrow> run_ok (fst (stop_concurrent_dht env c w))"
proof -
  assume env: "env_threads lt env" and c: "run_ok c"
  then have "run_ok (c\<lparr>cr_concurrent_dht := cm_stop_begin (cr_concurrent_dht c)\<rparr>)" by (simp add: run_ok_def)
  from run_ok_env [OF env this] c show ?thesis by (auto simp: stop_concurrent_dht_def run_ok_def split_beta)
qed

lemma shutdown_after_run:
  assumes "run_ok c"
  shows "crawler_ok (fst (graceful_shutdown lt c w)) \<and> \<not> cr_null_deref (fst (graceful_shutdown lt c w))
     \<and> cr_metadata_worker_pool (fst (graceful_shutdown lt c w)) = None"
  using assms crawler_inv_shutdown [of c lt w]
  by (auto simp: run_ok_def graceful_shutdown_def split_beta elim!: live_SomeE)

lemma run_ok_finish:
  "env_threads lt env \<Longrightarrow> run_ok (fst (snd r)) \<Longrightarrow> run_ok (fst (snd (finish_crawling lt env b r)))"
proof -
  assume env: "env_threads lt env" and r: "run_ok (fst (snd r))"
  have "run_ok (fst (if b then stop_concurrent_dht env (fst (snd r)) (snd (snd r)) else snd r))"
    using r run_ok_stop_dht [OF env r] by simp
  with r show ?thesis by (auto simp: finish_crawling_def split_beta run_ok_def)
qed

text \<open>After \<^verbatim>\<open>startCrawling\<close>: still running with a live pool, or shut down.\<close>

lemma start_crawling_ok:
  assumes run: "start_crawling lt al api env mq c w = Some (e, c', w')" and env: "env_threads lt env" and c: "run_ok c"
  shows "crawler_ok c' \<and> \<not> cr_null_deref c'"
proof -
  have c0: "run_ok (c\<lparr>cr_running := True\<rparr>)" using c by (simp add: run_ok_def)
  show ?thesis
  proof (cases "cr_metadata_only_mode c")
    case True
    obtain c1 w1 where r: "request_all lt (cr_metadata_hash_list c) (c\<lparr>cr_running := True\<rparr>) w = (c1, w1)" by (metis surj_pair)
    have c1: "run_ok c1" using c0 crawler_inv_request_all live_request_all r by (metis fst_conv run_ok_def)
    from run True r obtain x where "metadata_only_loop lt al api env (fst (steady_now lt w1)) c1 (snd (steady_now lt w1)) = Some x"
      "c' = fst (graceful_shutdown lt (fst x) (snd x))"
      by (auto simp: start_crawling_def split_beta)
    with shutdown_after_run [OF run_ok_metadata_only_loop [OF this(1) env c1], of lt "snd x"] show ?thesis by simp
  next
    case False
    let ?d = "c\<lparr>cr_running := True, cr_concurrent_dht := cm_start (cr_concurrent_dht (c\<lparr>cr_running := True\<rparr>))\<rparr>"
    have d: "run_ok ?d" using c by (simp add: run_ok_def)
    from run False obtain x where
      l: "(if cr_use_concurrent_mode c then concurrent_loop lt al api env mq 0 ?d (snd (steady_now lt w))
           else sequential_loop lt al api env mq 0 (c\<lparr>cr_running := True\<rparr>) (snd (steady_now lt w))) = Some x"
      and f: "finish_crawling lt env (cr_use_concurrent_mode c) x = (e, c', w')"
      by (auto simp: start_crawling_def split_beta Let_def)
    have "run_ok (fst (snd x))"
      using l run_ok_concurrent_loop [OF _ env d] run_ok_sequential_loop [OF _ env c0] by (metis (full_types))
    from run_ok_finish [OF env this, of "cr_use_concurrent_mode c"] have "run_ok c'" by (simp add: f)
    then show ?thesis by (simp add: run_ok_def live_null)
  qed
qed

section \<open>Properties\<close>

text \<open>The hash list given on the command line is split at its commas: for pieces without commas, joined
  by commas into a string that names no \<^verbatim>\<open>.txt\<close> or \<^verbatim>\<open>.csv\<close> file, \<^verbatim>\<open>setupMetadataOnlyMode\<close> appends to the list exactly the
  trimmed pieces that are not empty, in their order, and none of them starts or ends with white space.\<close>

theorem metadata_hash_list_parsed:
  assumes "cf_metadata_hashes (mc_config (cr_mysql c)) = join_commas ps" "list_all (\<lambda>p. CHR '','' \<notin> set p) ps"
    and "\<not> contains_str (join_commas ps) ''.txt''" "\<not> contains_str (join_commas ps) ''.csv''"
  shows "cr_metadata_hash_list (setup_metadata_only_mode al c w) = cr_metadata_hash_list c @ filter (\<lambda>h. h \<noteq> []) (map trim ps)
     \<and> cr_metadata_only_mode (setup_metadata_only_mode al c w)
     \<and> (\<forall>h \<in> set (filter (\<lambda>h. h \<noteq> []) (map trim ps)). \<not> trim_char (hd h) \<and> \<not> trim_char (last h))"
  using assms getline_all_join [OF assms(2)] trim_ends
  by (auto simp: setup_metadata_only_mode_def add_hashes_def Let_def)

theorem metadata_hash_list_parsed_witness:
  "cr_metadata_hash_list (setup_metadata_only_mode demo_source
       (demo_crawler\<lparr>cr_mysql := demo_connection\<lparr>mc_config := default_config\<lparr>cf_metadata_hashes := '' ab,cd ,''\<rparr>\<rparr>\<rparr>) demo_start)
     = cr_metadata_hash_list (demo_crawler\<lparr>cr_mysql := demo_connection\<lparr>mc_config := default_config\<lparr>cf_metadata_hashes := '' ab,cd ,''\<rparr>\<rparr>\<rparr>)
         @ filter (\<lambda>h. h \<noteq> []) (map trim ['' ab'', ''cd '', []])"
  by (rule conjunct1 [OF metadata_hash_list_parsed]) simp_all

text \<open>C16: The refill of database mode requests the last 50 hashes of the list when it holds at least 50; when
  it holds fewer after a new batch was loaded, the unsigned subtraction in the loop's start index wraps
  to \<open>2\<^sup>6\<^sup>4 + n - 50\<close> and none of the loaded hashes is requested.\<close>

theorem database_refill_requests:
  assumes "load_metadata_database_batch api c w = (c1, w1)" "length (cr_metadata_hash_list c1) < 2 ^ 64"
  shows "refill_queue lt api c w =
     (if length (cr_metadata_hash_list c1) < 50 then (c1, w1)
      else request_all lt (drop (length (cr_metadata_hash_list c1) - 50) (cr_metadata_hash_list c1)) c1 w1)"
  using assms(1) map_nth_suffix [of "cr_metadata_hash_list c1" 50]
  by (auto simp: refill_queue_def refill_indices_eq [OF assms(2)])

theorem database_refill_requests_witness:
  "refill_queue demo_lt offline_api demo_crawler demo_start =
     (if length (cr_metadata_hash_list (demo_crawler\<lparr>cr_shutdown_requested := True\<rparr>)) < 50
      then (demo_crawler\<lparr>cr_shutdown_requested := True\<rparr>, demo_start)
      else request_all demo_lt (drop (length (cr_metadata_hash_list (demo_crawler\<lparr>cr_shutdown_requested := True\<rparr>)) - 50)
        (cr_metadata_hash_list (demo_crawler\<lparr>cr_shutdown_requested := True\<rparr>))) (demo_crawler\<lparr>cr_shutdown_requested := True\<rparr>) demo_start)"
  by (rule database_refill_requests)
    (simp_all add: load_metadata_database_batch_def demo_crawler_def new_crawler_def new_mysql_connection_def
      get_torrents_with_missing_metadata_def log_error_def Let_def)

text \<open>A run that is stopped by a signal at once returns.\<close>

lemma stopped_run:
  "start_crawling demo_lt demo_source offline_api (\<lambda>c w. (crawler_stop c, w)) mq c w \<noteq> None" if "\<not> cr_metadata_only_mode c"
  using that
  by (simp add: start_crawling_def Let_def split_beta)
    (subst concurrent_loop.simps sequential_loop.simps, simp add: crawler_stop_def)+

lemma stop_env_threads: "env_threads lt (\<lambda>c w. (crawler_stop c, w))"
  by (auto simp: env_threads_def intro: thread_step.signal)

lemma demo_initialized: "\<not> cr_metadata_only_mode (fst (snd (initialize demo_source offline_api (new_crawler offline_api default_config) demo_start)))"
  by (simp add: initialize_def Let_def split_beta new_crawler_def new_mysql_connection_def mysql_connect_def offline_api_def
      log_error_def default_config_def)

text \<open>C3: A whole run is safe: for every configuration, whatever the session, the database and the other
  threads do, if \<^verbatim>\<open>startCrawling\<close> on an initialised crawler returns or throws, the worker pool was never used after its
  release, the discovered torrents satisfy the invariant of the crawler, the \<^verbatim>\<open>gracefulShutdown\<close> that \<^verbatim>\<open>main\<close> calls next
  releases the pool, and a further call changes nothing.\<close>

theorem run_is_safe:
  assumes "start_crawling lt al api env mq (fst (snd (initialize al api (new_crawler api config) w0))) w = Some (e, c, w1)"
    and "env_threads lt env"
  shows "let r = graceful_shutdown lt c w1 in
       \<not> cr_null_deref c \<and> crawler_ok c \<and> \<not> cr_null_deref (fst r) \<and> cr_metadata_worker_pool (fst r) = None
       \<and> graceful_shutdown lt (fst r) (snd r) = r"
proof -
  have "live (fst (snd (initialize al api (new_crawler api config) w0)))"
    by (simp add: initialize_def Let_def split_beta setup_metadata_only_mode_def setup_metadata_database_mode_def add_hashes_def
        load_metadata_database_batch_def live_def new_crawler_def split: option.splits)
  then have "run_ok (fst (snd (initialize al api (new_crawler api config) w0)))"
    using crawler_inv_initialize [OF crawler_ok_new] by (simp add: run_ok_def)
  from start_crawling_ok [OF assms this] show ?thesis
    by (auto simp: graceful_shutdown_def Let_def split_beta split: option.splits)
qed

theorem run_is_safe_witness:
  "\<exists>e c w1. start_crawling demo_lt demo_source offline_api (\<lambda>c w. (crawler_stop c, w)) (- 1)
       (fst (snd (initialize demo_source offline_api (new_crawler offline_api default_config) demo_start))) demo_start = Some (e, c, w1)
     \<and> (let r = graceful_shutdown demo_lt c w1 in
          \<not> cr_null_deref c \<and> crawler_ok c \<and> \<not> cr_null_deref (fst r) \<and> cr_metadata_worker_pool (fst r) = None
          \<and> graceful_shutdown demo_lt (fst r) (snd r) = r)"
proof -
  obtain e c w1 where r: "start_crawling demo_lt demo_source offline_api (\<lambda>c w. (crawler_stop c, w)) (- 1)
       (fst (snd (initialize demo_source offline_api (new_crawler offline_api default_config) demo_start))) demo_start = Some (e, c, w1)"
    using stopped_run [OF demo_initialized, of "- 1" demo_start] by (metis option.exhaust surj_pair)
  from run_is_safe [OF r stop_env_threads] r show ?thesis by blast
qed

end
