(* ===== verification/Command_Line.thy ===== *)
theory Command_Line
  imports Crawler_Main
begin

text \<open>
  \<^verbatim>\<open>main\<close> of \<^verbatim>\<open>dht_crawler.cpp\<close>: the command line, the defaults, the run of the crawler and its exit code; the signal
  handler and the library check. The options are parsed by a loop over the argument vector whose index
  a value option advances; here the loop recurses over the remaining arguments. \<^verbatim>\<open>std::stoi\<close> is called
  outside any \<^verbatim>\<open>try\<close> block: its exceptions end the program (\<open>Uncaught\<close>).
\<close>

section \<open>Definitions\<close>

record options =
  op_config :: mysql_config
  op_max_queries :: int

definition default_options :: options where
  "default_options = \<lparr>op_config = default_config, op_max_queries = - 1\<rparr>"

text \<open>How parsing ends: an exit with a code, an uncaught exception, or the options.\<close>

datatype parse_result = Exit int | Uncaught exn | Parsed options

definition on_config :: "(mysql_config \<Rightarrow> mysql_config) \<Rightarrow> options \<Rightarrow> options" where
  "on_config f opts = opts\<lparr>op_config := f (op_config opts)\<rparr>"

text \<open>An option without a value, if \<open>arg\<close> is one; \<open>--help\<close> and \<open>--test-missing-libs\<close> leave the program.\<close>

definition flag_option :: "string \<Rightarrow> (options \<Rightarrow> parse_result) option" where
  "flag_option arg =
     (if arg = ''--help'' \<or> arg = ''--test-missing-libs'' then Some (\<lambda>opts. Exit 0)
      else if arg = ''--metadata_database'' then Some (\<lambda>opts. Parsed (on_config (\<lambda>c. c\<lparr>cf_metadata_database_mode := True\<rparr>) opts))
      else if arg = ''--debug'' then Some (\<lambda>opts. Parsed (on_config (\<lambda>c. c\<lparr>cf_debug_mode := True\<rparr>) opts))
      else if arg = ''--verbose'' then Some (\<lambda>opts. Parsed (on_config (\<lambda>c. c\<lparr>cf_verbose_mode := True\<rparr>) opts))
      else if arg = ''--metadata_log'' then Some (\<lambda>opts. Parsed (on_config (\<lambda>c. c\<lparr>cf_metadata_log_mode := True\<rparr>) opts))
      else if arg = ''--sequential'' then Some (\<lambda>opts. Parsed (on_config (\<lambda>c. c\<lparr>cf_concurrent_mode := False\<rparr>) opts))
      else if arg = ''--no-bep51'' then Some (\<lambda>opts. Parsed (on_config (\<lambda>c. c\<lparr>cf_bep51_mode := False\<rparr>) opts))
      else None)"

definition with_int :: "string \<Rightarrow> (int \<Rightarrow> parse_result) \<Rightarrow> parse_result" where
  "with_int value k = (case stoi 10 value of Inl e \<Rightarrow> Uncaught e | Inr n \<Rightarrow> k n)"

text \<open>An option that takes the next argument as its value.\<close>

definition value_option :: "string \<Rightarrow> (string \<Rightarrow> options \<Rightarrow> parse_result) option" where
  "value_option arg =
     (if arg = ''--server'' then Some (\<lambda>v opts. Parsed (on_config (\<lambda>c. c\<lparr>cf_server := v\<rparr>) opts))
      else if arg = ''--port'' then Some (\<lambda>v opts. with_int v (\<lambda>n. Parsed (on_config (\<lambda>c. c\<lparr>cf_port := n\<rparr>) opts)))
      else if arg = ''--user'' then Some (\<lambda>v opts. Parsed (on_config (\<lambda>c. c\<lparr>cf_user := v\<rparr>) opts))
      else if arg = ''--password'' then Some (\<lambda>v opts. Parsed (on_config (\<lambda>c. c\<lparr>cf_password := v\<rparr>) opts))
      else if arg = ''--database'' then Some (\<lambda>v opts. Parsed (on_config (\<lambda>c. c\<lparr>cf_database := v\<rparr>) opts))
      else if arg = ''--queries'' then Some (\<lambda>v opts. with_int v (\<lambda>n. Parsed (opts\<lparr>op_max_queries := n\<rparr>)))
      else if arg = ''--metadata'' then Some (\<lambda>v opts. Parsed (on_config (\<lambda>c. c\<lparr>cf_metadata_hashes := v\<rparr>) opts))
      else if arg = ''--workers'' then Some (\<lambda>v opts. with_int v (\<lambda>n.
        if n < 1 \<or> n > 16 then Exit 1 else Parsed (on_config (\<lambda>c. c\<lparr>cf_num_workers := n\<rparr>) opts)))
      else None)"

fun parse_args :: "string list \<Rightarrow> options \<Rightarrow> parse_result" where
  "parse_args [] opts = Parsed opts"
| "parse_args [arg] opts =
     (case flag_option arg of None \<Rightarrow> Exit 1 | Some f \<Rightarrow> f opts)"
| "parse_args (arg # v # args) opts =
     (case flag_option arg of
        Some f \<Rightarrow> (case f opts of Parsed opts' \<Rightarrow> parse_args (v # args) opts' | r \<Rightarrow> r)
      | None \<Rightarrow>
          (case value_option arg of
             Some g \<Rightarrow> (case g v opts of Parsed opts' \<Rightarrow> parse_args args opts' | r \<Rightarrow> r)
           | None \<Rightarrow> Exit 1))"

text \<open>Test mode and the default server.\<close>

definition complete_config :: "mysql_config \<Rightarrow> mysql_config" where
  "complete_config c =
     (let c1 = (if cf_user c = [] \<or> cf_password c = [] \<or> cf_database c = []
                then c\<lparr>cf_user := ''test'', cf_password := ''test'', cf_database := ''test''\<rparr> else c)
      in if cf_server c1 = [] then c1\<lparr>cf_server := ''localhost''\<rparr> else c1)"

definition parse_command_line :: "string list \<Rightarrow> parse_result" where
  "parse_command_line args =
     (if args = [] then Exit 0
      else case parse_args args default_options of
          Parsed opts \<Rightarrow> Parsed (on_config complete_config opts)
        | r \<Rightarrow> r)"

text \<open>
  The body of the \<^verbatim>\<open>try\<close> block and its handler, which logs through a connection of its own. \<open>None\<close> is a run that
  does not end; the result is the exit code. The four strings of the handler's configuration are literals
  in the source; the model takes them as the parameter \<open>fallback\<close>.
\<close>

definition log_fatal :: "'w mysql_api \<Rightarrow> mysql_config \<Rightarrow> exn \<Rightarrow> 'w \<Rightarrow> 'w" where
  "log_fatal api fallback e w =
     (case mysql_connect api (new_mysql_connection api fallback) w of
        (ok, mc, w1) \<Rightarrow> if ok then snd (log_exception api mc ''main'' [] (exn_what e) [] w1) else w1)"

definition run_crawler ::
  "('w, 'p, 'h) libtorrent \<Rightarrow> ('w, 'h) alert_source \<Rightarrow> 'w mysql_api \<Rightarrow> ('w, 'h) env \<Rightarrow> mysql_config \<Rightarrow> options \<Rightarrow> 'w \<Rightarrow> (int \<times> 'w) option" where
  "run_crawler lt al api env fallback opts w =
     (case initialize al api (new_crawler api (op_config opts)) w of
        (ok, c, w1) \<Rightarrow>
          if \<not> ok then Some (1, w1)
          else map_option
                 (\<lambda>(e, c1, w2). case e of
                      Some ex \<Rightarrow> (1, log_fatal api fallback ex w2)
                    | None \<Rightarrow> (case graceful_shutdown lt c1 w2 of (c2, w3) \<Rightarrow> (0, w3)))
                 (start_crawling lt al api env (op_max_queries opts) c w1))"

text \<open>The signals of \<^verbatim>\<open>signalHandler\<close>; all three of them stop the crawler.\<close>

datatype signal = SIGINT | SIGTSTP | SIGTERM | Other_signal int

definition signal_handler :: "signal \<Rightarrow> 'h crawler option \<Rightarrow> 'h crawler option" where
  "signal_handler s g_crawler =
     (case s of
        SIGINT \<Rightarrow> map_option crawler_stop g_crawler
      | SIGTSTP \<Rightarrow> map_option crawler_stop g_crawler
      | SIGTERM \<Rightarrow> map_option crawler_stop g_crawler
      | Other_signal n \<Rightarrow> g_crawler)"

record library_status =
  ls_libtorrent_available :: bool
  ls_mysql_available :: bool
  ls_libtorrent_version :: string
  ls_mysql_version :: string
  ls_platform :: string

text \<open>The preprocessor's choices are the arguments: the platform and the two \<^verbatim>\<open>DISABLE\<close> macros.\<close>

definition check_libraries :: "string \<Rightarrow> bool \<Rightarrow> bool \<Rightarrow> library_status" where
  "check_libraries platform disable_libtorrent disable_mysql = \<lparr>
     ls_libtorrent_available = \<not> disable_libtorrent, ls_mysql_available = \<not> disable_mysql,
     ls_libtorrent_version = (if disable_libtorrent then ''unknown'' else ''2.0+''),
     ls_mysql_version = (if disable_mysql then ''unknown'' else ''available''),
     ls_platform = (if platform \<in> {''linux'', ''macos'', ''windows''} then platform else ''unknown'')\<rparr>"

definition check_libraries_test_mode :: "bool \<Rightarrow> bool \<Rightarrow> library_status \<Rightarrow> library_status" where
  "check_libraries_test_mode simulate_missing_libtorrent simulate_missing_mysql status =
     (let s1 = (if simulate_missing_libtorrent
                then status\<lparr>ls_libtorrent_available := False, ls_libtorrent_version := ''NOT FOUND''\<rparr> else status)
      in if simulate_missing_mysql then s1\<lparr>ls_mysql_available := False, ls_mysql_version := ''NOT FOUND''\<rparr> else s1)"

section \<open>Printing a command line\<close>

text \<open>An argument list for given options; the strings may hold anything, the numbers are in range.\<close>

definition print_value :: "string \<Rightarrow> string \<Rightarrow> string \<Rightarrow> string list" where
  "print_value name v dflt = (if v = dflt then [] else [name, v])"

definition print_int :: "string \<Rightarrow> int \<Rightarrow> int \<Rightarrow> string list" where
  "print_int name n dflt = (if n = dflt then [] else [name, to_string n])"

definition print_flag :: "string \<Rightarrow> bool \<Rightarrow> string list" where
  "print_flag name b = (if b then [name] else [])"

definition options_to_args :: "options \<Rightarrow> string list" where
  "options_to_args opts = (let c = op_config opts in
     print_value ''--server'' (cf_server c) [] @ print_int ''--port'' (cf_port c) 3306 @
     print_value ''--user'' (cf_user c) [] @ print_value ''--password'' (cf_password c) [] @
     print_value ''--database'' (cf_database c) [] @ print_int ''--queries'' (op_max_queries opts) (- 1) @
     print_value ''--metadata'' (cf_metadata_hashes c) [] @ print_int ''--workers'' (cf_num_workers c) 4 @
     print_flag ''--metadata_database'' (cf_metadata_database_mode c) @ print_flag ''--debug'' (cf_debug_mode c) @
     print_flag ''--verbose'' (cf_verbose_mode c) @ print_flag ''--metadata_log'' (cf_metadata_log_mode c) @
     print_flag ''--sequential'' (\<not> cf_concurrent_mode c) @ print_flag ''--no-bep51'' (\<not> cf_bep51_mode c))"

lemma parse_flag:
  "flag_option a = Some f \<Longrightarrow> f opts = Parsed opts' \<Longrightarrow> parse_args (a # rest) opts = parse_args rest opts'"
  by (cases rest) auto

lemma parse_value:
  "flag_option a = None \<Longrightarrow> value_option a = Some g \<Longrightarrow> g v opts = Parsed opts' \<Longrightarrow>
   parse_args (a # v # rest) opts = parse_args rest opts'"
  by simp

text \<open>One printed option, read back.\<close>

lemma parse_print_value:
  "flag_option name = None \<Longrightarrow> value_option name = Some (\<lambda>v opts. Parsed (upd v opts)) \<Longrightarrow> upd dflt opts = opts \<Longrightarrow>
   parse_args (print_value name v dflt @ rest) opts = parse_args rest (upd v opts)"
  by (auto simp: print_value_def parse_value)

lemma parse_print_int:
  "flag_option name = None \<Longrightarrow> value_option name = Some (\<lambda>v opts. with_int v (\<lambda>n. res n opts)) \<Longrightarrow> upd dflt opts = opts \<Longrightarrow>
   int32 n \<Longrightarrow> res n opts = Parsed (upd n opts) \<Longrightarrow>
   parse_args (print_int name n dflt @ rest) opts = parse_args rest (upd n opts)"
  by (auto simp: print_int_def parse_value with_int_def stoi_to_string)

lemma parse_print_flag:
  "flag_option name = Some (\<lambda>opts. Parsed (upd opts)) \<Longrightarrow>
   parse_args (print_flag name b @ rest) opts = parse_args rest (if b then upd opts else opts)"
  by (auto simp: print_flag_def parse_flag)

lemmas option_tables = flag_option_def value_option_def

lemma parse_print_flag_last:
  "flag_option name = Some (\<lambda>opts. Parsed (upd opts)) \<Longrightarrow>
   parse_args (print_flag name b) opts = Parsed (if b then upd opts else opts)"
  using parse_print_flag [of name upd b "[]"] by simp

lemma print_server: "cf_server (op_config opts) = d \<Longrightarrow>
  parse_args (print_value ''--server'' v d @ rest) opts = parse_args rest (on_config (\<lambda>c. c\<lparr>cf_server := v\<rparr>) opts)"
  by (rule parse_print_value [where upd = "\<lambda>v. on_config (\<lambda>c. c\<lparr>cf_server := v\<rparr>)"]) (auto simp: option_tables on_config_def)

lemma print_user: "cf_user (op_config opts) = d \<Longrightarrow>
  parse_args (print_value ''--user'' v d @ rest) opts = parse_args rest (on_config (\<lambda>c. c\<lparr>cf_user := v\<rparr>) opts)"
  by (rule parse_print_value [where upd = "\<lambda>v. on_config (\<lambda>c. c\<lparr>cf_user := v\<rparr>)"]) (auto simp: option_tables on_config_def)

lemma print_password: "cf_password (op_config opts) = d \<Longrightarrow>
  parse_args (print_value ''--password'' v d @ rest) opts = parse_args rest (on_config (\<lambda>c. c\<lparr>cf_password := v\<rparr>) opts)"
  by (rule parse_print_value [where upd = "\<lambda>v. on_config (\<lambda>c. c\<lparr>cf_password := v\<rparr>)"]) (auto simp: option_tables on_config_def)

lemma print_database: "cf_database (op_config opts) = d \<Longrightarrow>
  parse_args (print_value ''--database'' v d @ rest) opts = parse_args rest (on_config (\<lambda>c. c\<lparr>cf_database := v\<rparr>) opts)"
  by (rule parse_print_value [where upd = "\<lambda>v. on_config (\<lambda>c. c\<lparr>cf_database := v\<rparr>)"]) (auto simp: option_tables on_config_def)

lemma print_metadata: "cf_metadata_hashes (op_config opts) = d \<Longrightarrow>
  parse_args (print_value ''--metadata'' v d @ rest) opts = parse_args rest (on_config (\<lambda>c. c\<lparr>cf_metadata_hashes := v\<rparr>) opts)"
  by (rule parse_print_value [where upd = "\<lambda>v. on_config (\<lambda>c. c\<lparr>cf_metadata_hashes := v\<rparr>)"]) (auto simp: option_tables on_config_def)

lemma print_port: "cf_port (op_config opts) = d \<Longrightarrow> int32 n \<Longrightarrow>
  parse_args (print_int ''--port'' n d @ rest) opts = parse_args rest (on_config (\<lambda>c. c\<lparr>cf_port := n\<rparr>) opts)"
  by (rule parse_print_int [where upd = "\<lambda>n. on_config (\<lambda>c. c\<lparr>cf_port := n\<rparr>)" and
        res = "\<lambda>n opts. Parsed (on_config (\<lambda>c. c\<lparr>cf_port := n\<rparr>) opts)"]) (auto simp: option_tables on_config_def)

lemma print_queries: "op_max_queries opts = d \<Longrightarrow> int32 n \<Longrightarrow>
  parse_args (print_int ''--queries'' n d @ rest) opts = parse_args rest (opts\<lparr>op_max_queries := n\<rparr>)"
  by (rule parse_print_int [where upd = "\<lambda>n opts. opts\<lparr>op_max_queries := n\<rparr>" and
        res = "\<lambda>n opts. Parsed (opts\<lparr>op_max_queries := n\<rparr>)"]) (auto simp: option_tables)

lemma print_workers: "cf_num_workers (op_config opts) = d \<Longrightarrow> 1 \<le> n \<Longrightarrow> n \<le> 16 \<Longrightarrow>
  parse_args (print_int ''--workers'' n d @ rest) opts = parse_args rest (on_config (\<lambda>c. c\<lparr>cf_num_workers := n\<rparr>) opts)"
  by (rule parse_print_int [where upd = "\<lambda>n. on_config (\<lambda>c. c\<lparr>cf_num_workers := n\<rparr>)" and
        res = "\<lambda>n opts. if n < 1 \<or> n > 16 then Exit 1 else Parsed (on_config (\<lambda>c. c\<lparr>cf_num_workers := n\<rparr>) opts)"])
    (auto simp: option_tables on_config_def int32_def)

lemma print_flags:
  "parse_args (print_flag ''--metadata_database'' b @ rest) opts
     = parse_args rest (if b then on_config (\<lambda>c. c\<lparr>cf_metadata_database_mode := True\<rparr>) opts else opts)"
  "parse_args (print_flag ''--debug'' b @ rest) opts
     = parse_args rest (if b then on_config (\<lambda>c. c\<lparr>cf_debug_mode := True\<rparr>) opts else opts)"
  "parse_args (print_flag ''--verbose'' b @ rest) opts
     = parse_args rest (if b then on_config (\<lambda>c. c\<lparr>cf_verbose_mode := True\<rparr>) opts else opts)"
  "parse_args (print_flag ''--metadata_log'' b @ rest) opts
     = parse_args rest (if b then on_config (\<lambda>c. c\<lparr>cf_metadata_log_mode := True\<rparr>) opts else opts)"
  "parse_args (print_flag ''--sequential'' b @ rest) opts
     = parse_args rest (if b then on_config (\<lambda>c. c\<lparr>cf_concurrent_mode := False\<rparr>) opts else opts)"
  "parse_args (print_flag ''--no-bep51'' b) opts
     = Parsed (if b then on_config (\<lambda>c. c\<lparr>cf_bep51_mode := False\<rparr>) opts else opts)"
  by (rule parse_print_flag parse_print_flag_last, simp add: flag_option_def)+

section \<open>What parsing guarantees\<close>

definition options_ok :: "options \<Rightarrow> bool" where
  "options_ok opts \<longleftrightarrow> 1 \<le> cf_num_workers (op_config opts) \<and> cf_num_workers (op_config opts) \<le> 16"

lemma flag_option_ok: "flag_option a = Some f \<Longrightarrow> options_ok opts \<Longrightarrow> f opts = Parsed opts' \<Longrightarrow> options_ok opts'"
  by (auto simp: flag_option_def options_ok_def on_config_def split: if_splits)

lemma value_option_ok: "value_option a = Some g \<Longrightarrow> options_ok opts \<Longrightarrow> g v opts = Parsed opts' \<Longrightarrow> options_ok opts'"
  by (auto simp: value_option_def options_ok_def on_config_def with_int_def split: if_splits sum.splits)

lemma parse_args_ok: "parse_args args opts = Parsed opts' \<Longrightarrow> options_ok opts \<Longrightarrow> options_ok opts'"
proof (induction args opts rule: parse_args.induct)
  case (3 arg v args opts)
  show ?case
  proof (cases "flag_option arg")
    case (Some f)
    then show ?thesis using 3 flag_option_ok [OF Some, of opts] by (cases "f opts") (auto)
  next
    case None
    then show ?thesis
    proof (cases "value_option arg")
      case (Some g)
      with None show ?thesis using 3 value_option_ok [OF Some, of opts v] by (cases "g v opts") (auto)
    qed (use 3 None in \<open>simp\<close>)
  qed
qed (auto dest: flag_option_ok split: option.splits)

definition failure_ok :: "parse_result \<Rightarrow> bool" where
  "failure_ok r = (case r of Exit n \<Rightarrow> n = 0 \<or> n = 1 | Uncaught e \<Rightarrow> e = Invalid_argument \<or> e = Out_of_range | Parsed _ \<Rightarrow> True)"

lemma stoi_exceptions: "stoi b s = Inl e \<Longrightarrow> e = Invalid_argument \<or> e = Out_of_range"
  by (auto simp: stoi_def Let_def split: if_splits)

lemma flag_option_failure: "flag_option a = Some f \<Longrightarrow> failure_ok (f opts)"
  by (auto simp: flag_option_def failure_ok_def split: if_splits)

lemma value_option_failure: "value_option a = Some g \<Longrightarrow> failure_ok (g v opts)"
  by (auto simp: value_option_def failure_ok_def with_int_def dest: stoi_exceptions split: if_splits sum.splits)

lemma parse_args_failure: "failure_ok (parse_args args opts)"
proof (induction args opts rule: parse_args.induct)
  case (3 arg v args opts)
  show ?case
  proof (cases "flag_option arg")
    case (Some f)
    then show ?thesis using 3 flag_option_failure [OF Some, of opts] by (cases "f opts") (auto simp: failure_ok_def)
  next
    case None
    then show ?thesis
    proof (cases "value_option arg")
      case (Some g)
      with None show ?thesis using 3 value_option_failure [OF Some, of v opts] by (cases "g v opts") (auto simp: failure_ok_def)
    qed (use 3 None in \<open>simp add: failure_ok_def\<close>)
  qed
qed (auto simp: failure_ok_def dest: flag_option_failure split: option.splits)

section \<open>Properties\<close>

text \<open>C15: Every configuration with port and query limit in the range of \<^verbatim>\<open>int\<close> and 1 to 16 workers can be given on the
  command line: parsing the arguments printed for it yields it again, whatever its strings contain,
  also strings that look like options.\<close>

theorem command_line_round_trip:
  assumes "int32 (cf_port (op_config opts))" "int32 (op_max_queries opts)" "options_ok opts"
  shows "parse_args (options_to_args opts) default_options = Parsed opts"
proof -
  have w: "1 \<le> cf_num_workers (op_config opts)" "cf_num_workers (op_config opts) \<le> 16"
    using assms(3) by (simp_all add: options_ok_def)
  show ?thesis
    using assms(1,2) w
    unfolding options_to_args_def Let_def append_assoc
    by (simp add: print_server print_port print_user print_password print_database print_queries print_metadata print_workers
        print_flags default_options_def default_config_def on_config_def)
qed

theorem command_line_round_trip_witness:
  "parse_args (options_to_args (default_options\<lparr>op_max_queries := 7\<rparr>)) default_options = Parsed (default_options\<lparr>op_max_queries := 7\<rparr>)"
  by (rule command_line_round_trip) (simp_all add: default_options_def default_config_def int32_def options_ok_def)

text \<open>When the command line is accepted the configuration is usable: between 1 and 16 workers, a server,
  and a user, password and database that are either all given or all replaced by the test account;
  in every other case the program ends with exit code 0 or 1 or with an uncaught exception of \<^verbatim>\<open>std::stoi\<close>.\<close>

theorem parsed_configuration_usable:
  "case parse_command_line args of
     Parsed opts \<Rightarrow> options_ok opts \<and> cf_server (op_config opts) \<noteq> [] \<and> cf_user (op_config opts) \<noteq> []
       \<and> cf_password (op_config opts) \<noteq> [] \<and> cf_database (op_config opts) \<noteq> []
   | Exit n \<Rightarrow> n = 0 \<or> n = 1
   | Uncaught e \<Rightarrow> e = Invalid_argument \<or> e = Out_of_range"
proof (cases "parse_command_line args")
  case (Parsed opts)
  then obtain o1 where p: "parse_args args default_options = Parsed o1" "opts = on_config complete_config o1"
    by (auto simp: parse_command_line_def split: if_splits parse_result.splits)
  have "options_ok o1" by (rule parse_args_ok [OF p(1)]) (simp add: options_ok_def default_options_def default_config_def)
  with Parsed p(2) show ?thesis by (auto simp: on_config_def complete_config_def options_ok_def Let_def)
next
  case (Exit n)
  with parse_args_failure [of args default_options] show ?thesis
    by (auto simp: parse_command_line_def failure_ok_def split: if_splits parse_result.splits)
next
  case (Uncaught e)
  with parse_args_failure [of args default_options] show ?thesis
    by (auto simp: parse_command_line_def failure_ok_def split: if_splits parse_result.splits)
qed

text \<open>The program's exit code is that of its run: when the crawler's run ends, the code is 0 after a run
  that no exception left, and then the pool was shut down; it is 1 when an exception left the run.
  The handler for Ctrl-Z does what the handlers for Ctrl-C and SIGTERM do: it stops the crawler for good,
  so the next test of either crawling loop ends it.\<close>

theorem exit_code_and_signals:
  assumes "run_crawler lt al api env fallback opts w = Some (rc, w')"
  shows "(\<exists>c w1 e c1 w2. initialize al api (new_crawler api (op_config opts)) w = (True, c, w1)
       \<and> start_crawling lt al api env (op_max_queries opts) c w1 = Some (e, c1, w2)
       \<and> (rc = 0 \<longleftrightarrow> e = None) \<and> (rc = 1 \<longleftrightarrow> e \<noteq> None))
     \<and> (\<forall>c. signal_handler SIGTSTP (Some c) = signal_handler SIGINT (Some c)
         \<and> concurrent_loop lt al api (\<lambda>c w. (the (signal_handler SIGTSTP (Some c)), w)) mq k c w = Some (None, crawler_stop c, w)
         \<and> sequential_loop lt al api (\<lambda>c w. (the (signal_handler SIGTSTP (Some c)), w)) mq k c w = Some (None, crawler_stop c, w))"
proof (rule conjI)
  obtain ok c w1 where i: "initialize al api (new_crawler api (op_config opts)) w = (ok, c, w1)" by (metis surj_pair)
  have "ok" using i by (auto simp: initialize_def Let_def split_beta)
  with i assms show "\<exists>c w1 e c1 w2. initialize al api (new_crawler api (op_config opts)) w = (True, c, w1)
       \<and> start_crawling lt al api env (op_max_queries opts) c w1 = Some (e, c1, w2)
       \<and> (rc = 0 \<longleftrightarrow> e = None) \<and> (rc = 1 \<longleftrightarrow> e \<noteq> None)"
    by (auto simp: run_crawler_def split: option.splits prod.splits)
  show "\<forall>c. signal_handler SIGTSTP (Some c) = signal_handler SIGINT (Some c)
         \<and> concurrent_loop lt al api (\<lambda>c w. (the (signal_handler SIGTSTP (Some c)), w)) mq k c w = Some (None, crawler_stop c, w)
         \<and> sequential_loop lt al api (\<lambda>c w. (the (signal_handler SIGTSTP (Some c)), w)) mq k c w = Some (None, crawler_stop c, w)"
    by (simp add: signal_handler_def concurrent_loop.simps sequential_loop.simps) (simp add: crawler_stop_def)
qed

theorem exit_code_and_signals_witness:
  "\<exists>rc w'. run_crawler demo_lt demo_source offline_api (\<lambda>c w. (crawler_stop c, w)) default_config default_options demo_start = Some (rc, w')
     \<and> (rc = 0 \<or> rc = 1)"
proof -
  have "run_crawler demo_lt demo_source offline_api (\<lambda>c w. (crawler_stop c, w)) default_config default_options demo_start \<noteq> None"
    using stopped_run [OF demo_initialized, of "- 1"] by (simp add: run_crawler_def default_options_def split_beta del: not_None_eq)
  then obtain rc w' where r: "run_crawler demo_lt demo_source offline_api (\<lambda>c w. (crawler_stop c, w)) default_config default_options demo_start = Some (rc, w')"
    by auto
  with conjunct1 [OF exit_code_and_signals [OF r]] show ?thesis by auto
qed

end
