(* ===== verification/Routing_Table.thy ===== *)
theory Routing_Table
  imports Complex_Main Std_Containers External_World
begin

unbundle bit_operations_syntax

text \<open>
  \<^verbatim>\<open>RoutingTableManager\<close> of \<^verbatim>\<open>routing_table_manager.cpp\<close> and its header. Nodes are reached through shared pointers from
  the registry and from the buckets, so they live in a store \<open>rt_heap\<close>: a pointer is an index into it
  and a node changed through one pointer is changed for all. A bucket is reached through its key only.
  The clock is the parameter \<open>clk\<close>, read where the code reads it. Scores are exact quotients of
  \<^verbatim>\<open>int\<close> counters and the thresholds exact decimals: two different quotients of 32-bit numbers lie further
  apart than the rounding of \<^verbatim>\<open>double\<close>, so the comparisons come out as in the code. \<^verbatim>\<open>char\<close> is signed, as on
  the platforms the build targets. Each operation holds the bucket mutex from start to end and is one step.
  The \<^verbatim>\<open>metadata\<close> maps of nodes and buckets and the statistics members that no function touches are left out.
\<close>

section \<open>Definitions\<close>

datatype node_status = GOOD | UNKNOWN | BAD | QUESTIONABLE | EVICTED

datatype bucket_status = ACTIVE | INACTIVE | FULL | SPLIT | MERGED

record routing_config =
  rc_max_routing_table_size :: nat
  rc_max_bucket_size :: nat
  rc_min_bucket_size :: nat
  rc_node_timeout :: int
  rc_ping_interval :: int
  rc_enable_bucket_splitting :: bool
  rc_enable_bucket_merging :: bool
  rc_enable_node_eviction :: bool
  rc_enable_quality_assessment :: bool
  rc_good_threshold :: rat
  rc_bad_threshold :: rat
  rc_max_eviction_attempts :: int
  rc_eviction_delay :: int

definition default_routing_config :: routing_config where
  "default_routing_config = \<lparr>rc_max_routing_table_size = 8000, rc_max_bucket_size = 8, rc_min_bucket_size = 4,
     rc_node_timeout = 300000, rc_ping_interval = 300000, rc_enable_bucket_splitting = True,
     rc_enable_bucket_merging = True, rc_enable_node_eviction = True, rc_enable_quality_assessment = True,
     rc_good_threshold = 8 / 10, rc_bad_threshold = 3 / 10, rc_max_eviction_attempts = 3, rc_eviction_delay = 1000\<rparr>"

record dht_node =
  dn_node_id :: string
  dn_ip_address :: string
  dn_port :: int
  dn_status :: node_status
  dn_last_seen :: time
  dn_last_ping :: time
  dn_last_response :: time
  dn_distance :: string
  dn_bucket_index :: int
  dn_bucket_distance :: int
  dn_quality_score :: rat
  dn_ping_attempts :: int
  dn_successful_pings :: int
  dn_failed_pings :: int
  dn_avg_response_time :: int
  dn_min_response_time :: int
  dn_max_response_time :: int
  dn_total_queries :: int
  dn_successful_queries :: int
  dn_failed_queries :: int
  dn_timeout_queries :: int
  dn_is_evictable :: bool
  dn_eviction_time :: time
  dn_eviction_attempts :: int

record routing_bucket =
  rb_bucket_index :: int
  rb_bucket_distance :: int
  rb_status :: bucket_status
  rb_nodes :: "nat list"
  rb_last_updated :: time
  rb_last_split :: time
  rb_last_merge :: time
  rb_total_nodes_added :: int
  rb_total_nodes_removed :: int
  rb_total_nodes_evicted :: int
  rb_avg_quality_score :: rat
  rb_avg_response_time :: int

record routing_statistics =
  rs_total_nodes :: int
  rs_good_nodes :: int
  rs_unknown_nodes :: int
  rs_bad_nodes :: int
  rs_questionable_nodes :: int
  rs_evicted_nodes :: int
  rs_total_buckets :: int
  rs_active_buckets :: int
  rs_full_buckets :: int
  rs_split_buckets :: int
  rs_merged_buckets :: int
  rs_avg_quality_score :: rat
  rs_avg_response_time :: int
  rs_last_update :: time

record routing_table =
  rt_config :: routing_config
  rt_our_node_id :: string
  rt_buckets :: "(int, routing_bucket) smap"
  rt_registry :: "(string, nat) smap"
  rt_heap :: "dht_node list"
  rt_stats :: routing_statistics

subsection \<open>Distances\<close>

definition xor_char :: "char \<Rightarrow> char \<Rightarrow> char" where
  "xor_char a b = char_of (code a XOR code b)"

definition calculate_xor_distance :: "string \<Rightarrow> string \<Rightarrow> string" where
  "calculate_xor_distance node_id1 node_id2 =
     (if length node_id1 \<noteq> length node_id2 then [] else map2 xor_char node_id1 node_id2)"

text \<open>\<^verbatim>\<open>__builtin_clz\<close>: the leading zero bits of a 32-bit \<^verbatim>\<open>unsigned int\<close>, to which the byte is promoted.\<close>

definition builtin_clz :: "nat \<Rightarrow> nat" where
  "builtin_clz x = length (takeWhile (\<lambda>i. \<not> bit x i) (rev [0..<32]))"

fun first_bit_index :: "nat \<Rightarrow> string \<Rightarrow> int" where
  "first_bit_index i [] = 0"
| "first_bit_index i (c # cs) = (if code c \<noteq> 0 then int (i * 8 + builtin_clz (code c)) else first_bit_index (Suc i) cs)"

definition calculate_bucket_index :: "string \<Rightarrow> string \<Rightarrow> int" where
  "calculate_bucket_index our_node_id node_id =
     (let distance = calculate_xor_distance our_node_id node_id
      in if distance = [] then -1 else first_bit_index 0 distance)"

text \<open>The shifts act on a 32-bit \<^verbatim>\<open>int\<close>; what leaves it on the left is lost.\<close>

definition calculate_bucket_distance :: "string \<Rightarrow> string \<Rightarrow> int" where
  "calculate_bucket_distance our_node_id node_id =
     (let distance = calculate_xor_distance our_node_id node_id
      in if distance = [] then -1
         else sint (foldl (\<lambda>dist c. push_bit 8 dist OR of_nat (code c)) (0 :: 32 word) distance))"

definition signed_char :: "char \<Rightarrow> int" where
  "signed_char c = (if code c < 128 then int (code c) else int (code c) - 256)"

fun distance_less :: "string \<Rightarrow> string \<Rightarrow> bool" where
  "distance_less (a # as) (b # bs) =
     (if signed_char a < signed_char b then True
      else if signed_char a > signed_char b then False else distance_less as bs)"
| "distance_less _ _ = False"

definition is_node_closer :: "string \<Rightarrow> string \<Rightarrow> string \<Rightarrow> bool" where
  "is_node_closer our_node_id node_id1 node_id2 =
     (let distance1 = calculate_xor_distance our_node_id node_id1;
          distance2 = calculate_xor_distance our_node_id node_id2
      in if distance1 = [] \<or> distance2 = [] then False else distance_less distance1 distance2)"

definition is_valid_node_id :: "string \<Rightarrow> bool" where
  "is_valid_node_id node_id \<longleftrightarrow> length node_id = 20"

definition is_valid_ip_address :: "string \<Rightarrow> bool" where
  "is_valid_ip_address ip_address \<longleftrightarrow> ip_address \<noteq> [] \<and> find_char (CHR ''.'') ip_address \<noteq> None"

definition is_valid_port :: "int \<Rightarrow> bool" where
  "is_valid_port port \<longleftrightarrow> port > 0 \<and> port \<le> 65535"

subsection \<open>Buckets\<close>

definition create_bucket :: "'w clock \<Rightarrow> int \<Rightarrow> int \<Rightarrow> routing_table \<Rightarrow> 'w \<Rightarrow> routing_table \<times> 'w" where
  "create_bucket clk bucket_index bucket_distance rt w =
     (let (t1, w1) = clk w; (t2, w2) = clk w1; (t3, w3) = clk w2;
          bucket = \<lparr>rb_bucket_index = bucket_index, rb_bucket_distance = bucket_distance, rb_status = ACTIVE, rb_nodes = [],
                    rb_last_updated = t1, rb_last_split = t2, rb_last_merge = t3, rb_total_nodes_added = 0, rb_total_nodes_removed = 0,
                    rb_total_nodes_evicted = 0, rb_avg_quality_score = 0, rb_avg_response_time = 0\<rparr>
      in (rt\<lparr>rt_buckets := smap_update bucket_index bucket (rt_buckets rt)\<rparr>, w3))"

fun create_buckets :: "'w clock \<Rightarrow> int list \<Rightarrow> routing_table \<Rightarrow> 'w \<Rightarrow> routing_table \<times> 'w" where
  "create_buckets clk [] rt w = (rt, w)"
| "create_buckets clk (i # is) rt w = (case create_bucket clk i i rt w of (rt1, w1) \<Rightarrow> create_buckets clk is rt1 w1)"

definition initialize_routing_buckets :: "'w clock \<Rightarrow> routing_table \<Rightarrow> 'w \<Rightarrow> routing_table \<times> 'w" where
  "initialize_routing_buckets clk rt w = create_buckets clk [0..7] rt w"

definition empty_routing_statistics :: routing_statistics where
  "empty_routing_statistics = \<lparr>rs_total_nodes = 0, rs_good_nodes = 0, rs_unknown_nodes = 0, rs_bad_nodes = 0,
     rs_questionable_nodes = 0, rs_evicted_nodes = 0, rs_total_buckets = 0, rs_active_buckets = 0, rs_full_buckets = 0,
     rs_split_buckets = 0, rs_merged_buckets = 0, rs_avg_quality_score = 0, rs_avg_response_time = 0, rs_last_update = 0\<rparr>"

text \<open>\<open>junk\<close> is the value of the one statistics member without an initialiser.\<close>

definition new_routing_table :: "'w clock \<Rightarrow> int \<Rightarrow> string \<Rightarrow> routing_config \<Rightarrow> 'w \<Rightarrow> routing_table \<times> 'w" where
  "new_routing_table clk junk our_node_id config w =
     initialize_routing_buckets clk
       \<lparr>rt_config = config, rt_our_node_id = our_node_id, rt_buckets = [], rt_registry = [], rt_heap = [],
        rt_stats = empty_routing_statistics\<lparr>rs_avg_response_time := junk\<rparr>\<rparr> w"

definition destroy_bucket :: "int \<Rightarrow> routing_table \<Rightarrow> routing_table" where
  "destroy_bucket bucket_index rt = rt\<lparr>rt_buckets := smap_erase bucket_index (rt_buckets rt)\<rparr>"

definition should_split_bucket :: "routing_config \<Rightarrow> routing_bucket \<Rightarrow> bool" where
  "should_split_bucket config bucket \<longleftrightarrow> length (rb_nodes bucket) \<ge> rc_max_bucket_size config \<and> rc_enable_bucket_splitting config"

definition should_merge_bucket :: "routing_config \<Rightarrow> routing_bucket \<Rightarrow> bool" where
  "should_merge_bucket config bucket \<longleftrightarrow> length (rb_nodes bucket) < rc_min_bucket_size config \<and> rc_enable_bucket_merging config"

abbreviation node_at :: "routing_table \<Rightarrow> nat \<Rightarrow> dht_node" where
  "node_at rt a \<equiv> rt_heap rt ! a"

definition modify_node :: "nat \<Rightarrow> (dht_node \<Rightarrow> dht_node) \<Rightarrow> routing_table \<Rightarrow> routing_table" where
  "modify_node a f rt = rt\<lparr>rt_heap := (rt_heap rt)[a := f (node_at rt a)]\<rparr>"

fun modify_nodes :: "nat list \<Rightarrow> (dht_node \<Rightarrow> dht_node) \<Rightarrow> routing_table \<Rightarrow> routing_table" where
  "modify_nodes [] f rt = rt"
| "modify_nodes (a # as) f rt = modify_nodes as f (modify_node a f rt)"

text \<open>\<^verbatim>\<open>splitBucket\<close>: the new bucket replaces whatever the table holds at the next index.\<close>

definition split_bucket :: "'w clock \<Rightarrow> routing_bucket \<Rightarrow> routing_table \<Rightarrow> 'w \<Rightarrow> routing_table \<times> 'w" where
  "split_bucket clk bucket rt w =
     (if \<not> should_split_bucket (rt_config rt) bucket then (rt, w)
      else
        let new_bucket_index = rb_bucket_index bucket + 1;
            (rt1, w1) = create_bucket clk new_bucket_index new_bucket_index rt w;
            moved = filter (\<lambda>a. dn_bucket_index (node_at rt a) = new_bucket_index) (rb_nodes bucket);
            kept = filter (\<lambda>a. dn_bucket_index (node_at rt a) \<noteq> new_bucket_index) (rb_nodes bucket);
            (t, w2) = clk w1;
            new_bucket = the (smap_find (rt_buckets rt1) new_bucket_index)
        in (rt1\<lparr>rt_buckets := smap_update (rb_bucket_index bucket) (bucket\<lparr>rb_nodes := kept, rb_status := SPLIT, rb_last_split := t\<rparr>)
              (smap_update new_bucket_index (new_bucket\<lparr>rb_nodes := rb_nodes new_bucket @ moved\<rparr>) (rt_buckets rt1))\<rparr>, w2))"

definition merge_bucket :: "'w clock \<Rightarrow> routing_bucket \<Rightarrow> routing_table \<Rightarrow> 'w \<Rightarrow> routing_table \<times> 'w" where
  "merge_bucket clk bucket rt w =
     (if \<not> should_merge_bucket (rt_config rt) bucket then (rt, w)
      else
        let parent_bucket_index = rb_bucket_index bucket - 1
        in case smap_find (rt_buckets rt) parent_bucket_index of
             None \<Rightarrow> (rt, w)
           | Some parent \<Rightarrow>
               (let rt1 = modify_nodes (rb_nodes bucket) (\<lambda>n. n\<lparr>dn_bucket_index := parent_bucket_index\<rparr>) rt;
                    rt2 = destroy_bucket (rb_bucket_index bucket) rt1;
                    (t, w1) = clk w
                in (rt2\<lparr>rt_buckets := smap_update parent_bucket_index
                      (parent\<lparr>rb_nodes := rb_nodes parent @ rb_nodes bucket, rb_status := MERGED, rb_last_merge := t\<rparr>)
                      (rt_buckets rt2)\<rparr>, w1)))"

text \<open>
  The range-based \<^verbatim>\<open>for\<close> of \<^verbatim>\<open>monitorRoutingTable\<close>. The iterator stands at a key; it advances to the next key of the map as the
  body left it. When the body erased the element under the iterator, advancing it is undefined
  behaviour: \<open>Some None\<close>. The outer \<open>None\<close> is a loop that never ends (a bucket size limit of 0 makes every
  new bucket split).
\<close>

definition next_key :: "int \<Rightarrow> (int, 'a) smap \<Rightarrow> int option" where
  "next_key k m = (case filter (\<lambda>p. k < fst p) m of [] \<Rightarrow> None | p # _ \<Rightarrow> Some (fst p))"

definition first_key :: "(int, 'a) smap \<Rightarrow> int option" where
  "first_key m = (case m of [] \<Rightarrow> None | p # _ \<Rightarrow> Some (fst p))"

definition monitor_bucket :: "'w clock \<Rightarrow> routing_bucket \<Rightarrow> routing_table \<Rightarrow> 'w \<Rightarrow> routing_table \<times> 'w" where
  "monitor_bucket clk bucket rt w =
     (if should_split_bucket (rt_config rt) bucket then split_bucket clk bucket rt w
      else if should_merge_bucket (rt_config rt) bucket then merge_bucket clk bucket rt w
      else (rt, w))"

partial_function (option) monitor_loop ::
  "'w clock \<Rightarrow> int option \<Rightarrow> routing_table \<Rightarrow> 'w \<Rightarrow> (routing_table \<times> 'w) option option" where
  "monitor_loop clk it rt w =
     (case it of
        None \<Rightarrow> Some (Some (rt, w))
      | Some k \<Rightarrow>
          (case smap_find (rt_buckets rt) k of
             None \<Rightarrow> Some None
           | Some bucket \<Rightarrow>
               (case monitor_bucket clk bucket rt w of
                  (rt1, w1) \<Rightarrow>
                    if smap_find (rt_buckets rt1) k = None then Some None
                    else monitor_loop clk (next_key k (rt_buckets rt1)) rt1 w1)))"

definition monitor_routing_table :: "'w clock \<Rightarrow> routing_table \<Rightarrow> 'w \<Rightarrow> (routing_table \<times> 'w) option option" where
  "monitor_routing_table clk rt w = monitor_loop clk (first_key (rt_buckets rt)) rt w"

subsection \<open>Nodes\<close>

definition determine_node_status :: "routing_config \<Rightarrow> dht_node \<Rightarrow> node_status" where
  "determine_node_status config node =
     (if dn_quality_score node \<ge> rc_good_threshold config then GOOD
      else if dn_quality_score node \<le> rc_bad_threshold config then BAD else UNKNOWN)"

definition update_node_quality :: "routing_config \<Rightarrow> bool \<Rightarrow> int \<Rightarrow> dht_node \<Rightarrow> dht_node" where
  "update_node_quality config success response_time node =
     (let n1 = (if success then
                  node\<lparr>dn_successful_pings := dn_successful_pings node + 1, dn_avg_response_time := response_time,
                       dn_min_response_time := min (dn_min_response_time node) response_time,
                       dn_max_response_time := max (dn_max_response_time node) response_time\<rparr>
                else node\<lparr>dn_failed_pings := dn_failed_pings node + 1\<rparr>);
          n2 = n1\<lparr>dn_ping_attempts := dn_ping_attempts n1 + 1\<rparr>;
          n3 = (if dn_ping_attempts n2 > 0
                then n2\<lparr>dn_quality_score := of_int (dn_successful_pings n2) / of_int (dn_ping_attempts n2)\<rparr> else n2)
      in n3\<lparr>dn_status := determine_node_status config n3\<rparr>)"

definition new_node :: "string \<Rightarrow> string \<Rightarrow> string \<Rightarrow> int \<Rightarrow> time \<Rightarrow> time \<Rightarrow> dht_node" where
  "new_node our_node_id node_id ip_address port t1 t2 = \<lparr>
     dn_node_id = node_id, dn_ip_address = ip_address, dn_port = port, dn_status = UNKNOWN, dn_last_seen = t1,
     dn_last_ping = t1, dn_last_response = t1, dn_distance = calculate_xor_distance our_node_id node_id,
     dn_bucket_index = calculate_bucket_index our_node_id node_id,
     dn_bucket_distance = calculate_bucket_distance our_node_id node_id, dn_quality_score = 1 / 2,
     dn_ping_attempts = 0, dn_successful_pings = 0, dn_failed_pings = 0, dn_avg_response_time = 0, dn_min_response_time = 0,
     dn_max_response_time = 0, dn_total_queries = 0, dn_successful_queries = 0, dn_failed_queries = 0,
     dn_timeout_queries = 0, dn_is_evictable = True, dn_eviction_time = t2, dn_eviction_attempts = 0\<rparr>"

definition add_node :: "'w clock \<Rightarrow> string \<Rightarrow> string \<Rightarrow> int \<Rightarrow> routing_table \<Rightarrow> 'w \<Rightarrow> bool \<times> routing_table \<times> 'w" where
  "add_node clk node_id ip_address port rt w =
     (if \<not> is_valid_node_id node_id \<or> \<not> is_valid_ip_address ip_address \<or> \<not> is_valid_port port then (False, rt, w)
      else if smap_find (rt_registry rt) node_id \<noteq> None then (False, rt, w)
      else
        let (t1, w1) = clk w; (t2, w2) = clk w1;
            node = new_node (rt_our_node_id rt) node_id ip_address port t1 t2;
            a = length (rt_heap rt);
            rt1 = rt\<lparr>rt_heap := rt_heap rt @ [node], rt_registry := smap_update node_id a (rt_registry rt)\<rparr>
        in if dn_bucket_index node \<ge> 0 then
             (case smap_find (rt_buckets rt1) (dn_bucket_index node) of
                None \<Rightarrow> (True, rt1, w2)
              | Some bucket \<Rightarrow>
                  let (t3, w3) = clk w2
                  in (True, rt1\<lparr>rt_buckets := smap_update (dn_bucket_index node)
                        (bucket\<lparr>rb_nodes := rb_nodes bucket @ [a], rb_last_updated := t3\<rparr>) (rt_buckets rt1)\<rparr>, w3))
           else (True, rt1, w2))"

definition add_node_with_quality ::
  "'w clock \<Rightarrow> string \<Rightarrow> string \<Rightarrow> int \<Rightarrow> rat \<Rightarrow> int \<Rightarrow> routing_table \<Rightarrow> 'w \<Rightarrow> bool \<times> routing_table \<times> 'w" where
  "add_node_with_quality clk node_id ip_address port quality_score response_time rt w =
     (case add_node clk node_id ip_address port rt w of
        (False, rt1, w1) \<Rightarrow> (False, rt1, w1)
      | (True, rt1, w1) \<Rightarrow>
          (case smap_find (rt_registry rt1) node_id of
             None \<Rightarrow> (True, rt1, w1)
           | Some a \<Rightarrow>
               (True, modify_node a (\<lambda>n. update_node_quality (rt_config rt1) True response_time
                  (n\<lparr>dn_quality_score := quality_score, dn_avg_response_time := response_time,
                     dn_min_response_time := response_time, dn_max_response_time := response_time\<rparr>)) rt1, w1)))"

text \<open>Taking a pointer out of the bucket that the node's index names.\<close>

definition unlink_node :: "nat \<Rightarrow> routing_table \<Rightarrow> routing_table" where
  "unlink_node a rt =
     (let i = dn_bucket_index (node_at rt a)
      in if i \<ge> 0 then
           (case smap_find (rt_buckets rt) i of
              None \<Rightarrow> rt
            | Some bucket \<Rightarrow> rt\<lparr>rt_buckets := smap_update i (bucket\<lparr>rb_nodes := removeAll a (rb_nodes bucket)\<rparr>) (rt_buckets rt)\<rparr>)
         else rt)"

definition remove_node :: "string \<Rightarrow> routing_table \<Rightarrow> bool \<times> routing_table" where
  "remove_node node_id rt =
     (case smap_find (rt_registry rt) node_id of
        None \<Rightarrow> (False, rt)
      | Some a \<Rightarrow>
          let rt1 = unlink_node a rt in (True, rt1\<lparr>rt_registry := smap_erase node_id (rt_registry rt1)\<rparr>))"

definition update_node :: "'w clock \<Rightarrow> string \<Rightarrow> bool \<Rightarrow> int \<Rightarrow> routing_table \<Rightarrow> 'w \<Rightarrow> bool \<times> routing_table \<times> 'w" where
  "update_node clk node_id success response_time rt w =
     (case smap_find (rt_registry rt) node_id of
        None \<Rightarrow> (False, rt, w)
      | Some a \<Rightarrow>
          let (t, w1) = clk w
          in (True, modify_node a (\<lambda>n.
                let n1 = n\<lparr>dn_last_seen := t\<rparr>;
                    n2 = (if success then n1\<lparr>dn_last_response := t, dn_successful_queries := dn_successful_queries n1 + 1\<rparr>
                          else n1\<lparr>dn_failed_queries := dn_failed_queries n1 + 1\<rparr>);
                    n3 = n2\<lparr>dn_total_queries := dn_total_queries n2 + 1\<rparr>
                in update_node_quality (rt_config rt) success response_time n3) rt, w1))"

definition update_node_status :: "string \<Rightarrow> node_status \<Rightarrow> routing_table \<Rightarrow> bool \<times> routing_table" where
  "update_node_status node_id status rt =
     (case smap_find (rt_registry rt) node_id of
        None \<Rightarrow> (False, rt)
      | Some a \<Rightarrow> (True, modify_node a (\<lambda>n. n\<lparr>dn_status := status\<rparr>) rt))"

definition evict_node :: "'w clock \<Rightarrow> nat \<Rightarrow> routing_table \<Rightarrow> 'w \<Rightarrow> routing_table \<times> 'w" where
  "evict_node clk a rt w =
     (let (t, w1) = clk w;
          rt1 = modify_node a (\<lambda>n. n\<lparr>dn_status := EVICTED, dn_eviction_time := t,
                                     dn_eviction_attempts := dn_eviction_attempts n + 1\<rparr>) rt;
          rt2 = unlink_node a rt1
      in (rt2\<lparr>rt_registry := smap_erase (dn_node_id (node_at rt2 a)) (rt_registry rt2)\<rparr>, w1))"

text \<open>\<^verbatim>\<open>std::min_element\<close> by the time last seen: the first of the oldest.\<close>

fun oldest :: "dht_node list \<Rightarrow> nat \<Rightarrow> nat list \<Rightarrow> nat" where
  "oldest heap m [] = m"
| "oldest heap m (a # as) = oldest heap (if dn_last_seen (heap ! a) < dn_last_seen (heap ! m) then a else m) as"

definition find_evictable_node :: "routing_table \<Rightarrow> routing_bucket \<Rightarrow> nat option" where
  "find_evictable_node rt bucket =
     (case filter (\<lambda>a. dn_is_evictable (node_at rt a) \<and> dn_status (node_at rt a) = BAD) (rb_nodes bucket) of
        a # _ \<Rightarrow> Some a
      | [] \<Rightarrow> (case rb_nodes bucket of [] \<Rightarrow> None | a # as \<Rightarrow> Some (oldest (rt_heap rt) a as)))"

definition is_node_expired :: "routing_config \<Rightarrow> time \<Rightarrow> dht_node \<Rightarrow> bool" where
  "is_node_expired config now node \<longleftrightarrow> now - dn_last_seen node > rc_node_timeout config * 1000000"

text \<open>Each test of a node reads the clock.\<close>

fun keep_fresh :: "'w clock \<Rightarrow> routing_table \<Rightarrow> nat list \<Rightarrow> 'w \<Rightarrow> nat list \<times> 'w" where
  "keep_fresh clk rt [] w = ([], w)"
| "keep_fresh clk rt (a # as) w =
     (let (now, w1) = clk w; (rest, w2) = keep_fresh clk rt as w1
      in (if is_node_expired (rt_config rt) now (node_at rt a) then rest else a # rest, w2))"

fun clean_buckets :: "'w clock \<Rightarrow> routing_table \<Rightarrow> (int, routing_bucket) smap \<Rightarrow> 'w \<Rightarrow> (int, routing_bucket) smap \<times> 'w" where
  "clean_buckets clk rt [] w = ([], w)"
| "clean_buckets clk rt ((k, b) # m) w =
     (let (nodes, w1) = keep_fresh clk rt (rb_nodes b) w; (m', w2) = clean_buckets clk rt m w1
      in ((k, b\<lparr>rb_nodes := nodes\<rparr>) # m', w2))"

definition cleanup_expired_nodes :: "'w clock \<Rightarrow> routing_table \<Rightarrow> 'w \<Rightarrow> routing_table \<times> 'w" where
  "cleanup_expired_nodes clk rt w =
     (let (now, w1) = clk w; (m, w2) = clean_buckets clk rt (rt_buckets rt) w1 in (rt\<lparr>rt_buckets := m\<rparr>, w2))"

fun clean_registry :: "'w clock \<Rightarrow> routing_table \<Rightarrow> (string, nat) smap \<Rightarrow> 'w \<Rightarrow> int \<times> (string, nat) smap \<times> 'w" where
  "clean_registry clk rt [] w = (0, [], w)"
| "clean_registry clk rt ((h, a) # m) w =
     (let (now, w1) = clk w; (n, m', w2) = clean_registry clk rt m w1
      in if is_node_expired (rt_config rt) now (node_at rt a) then (n + 1, m', w2) else (n, (h, a) # m', w2))"

definition clear_expired_nodes :: "'w clock \<Rightarrow> routing_table \<Rightarrow> 'w \<Rightarrow> int \<times> routing_table \<times> 'w" where
  "clear_expired_nodes clk rt w =
     (let (now, w1) = clk w; (n, m, w2) = clean_registry clk rt (rt_registry rt) w1 in (n, rt\<lparr>rt_registry := m\<rparr>, w2))"

definition clear_routing_table :: "'w clock \<Rightarrow> routing_table \<Rightarrow> 'w \<Rightarrow> routing_table \<times> 'w" where
  "clear_routing_table clk rt w = initialize_routing_buckets clk (rt\<lparr>rt_registry := [], rt_buckets := []\<rparr>) w"

definition optimized_status :: "routing_config \<Rightarrow> routing_bucket \<Rightarrow> bucket_status" where
  "optimized_status config bucket =
     (if length (rb_nodes bucket) \<ge> rc_max_bucket_size config then FULL
      else if length (rb_nodes bucket) < rc_min_bucket_size config then INACTIVE else ACTIVE)"

definition optimize_routing_table :: "routing_table \<Rightarrow> routing_table" where
  "optimize_routing_table rt = rt
     \<lparr>rt_registry := filter (\<lambda>(h, a). dn_status (node_at rt a) \<noteq> BAD) (rt_registry rt),
      rt_buckets := map (\<lambda>(k, b). (k, b\<lparr>rb_status := optimized_status (rt_config rt) b\<rparr>)) (rt_buckets rt)\<rparr>"

definition force_bucket_split :: "'w clock \<Rightarrow> int \<Rightarrow> routing_table \<Rightarrow> 'w \<Rightarrow> bool \<times> routing_table \<times> 'w" where
  "force_bucket_split clk bucket_index rt w =
     (case smap_find (rt_buckets rt) bucket_index of
        None \<Rightarrow> (False, rt, w) | Some bucket \<Rightarrow> (True, split_bucket clk bucket rt w))"

definition force_bucket_merge :: "'w clock \<Rightarrow> int \<Rightarrow> routing_table \<Rightarrow> 'w \<Rightarrow> bool \<times> routing_table \<times> 'w" where
  "force_bucket_merge clk bucket_index rt w =
     (case smap_find (rt_buckets rt) bucket_index of
        None \<Rightarrow> (False, rt, w) | Some bucket \<Rightarrow> (True, merge_bucket clk bucket rt w))"

definition force_node_eviction :: "'w clock \<Rightarrow> string \<Rightarrow> routing_table \<Rightarrow> 'w \<Rightarrow> bool \<times> routing_table \<times> 'w" where
  "force_node_eviction clk node_id rt w =
     (case smap_find (rt_registry rt) node_id of
        None \<Rightarrow> (False, rt, w) | Some a \<Rightarrow> (True, evict_node clk a rt w))"

text \<open>\<^verbatim>\<open>redistributeNodes\<close>: a node with a foreign index moves to that bucket, or is dropped when there is none.\<close>

fun redistribute_loop :: "routing_table \<Rightarrow> int \<Rightarrow> nat list \<Rightarrow> (int, routing_bucket) smap \<Rightarrow> (int, routing_bucket) smap" where
  "redistribute_loop rt i [] m = m"
| "redistribute_loop rt i (a # as) m =
     (let j = dn_bucket_index (node_at rt a)
      in redistribute_loop rt i as
           (if j = i then m
            else case smap_find m j of None \<Rightarrow> m | Some t \<Rightarrow> smap_update j (t\<lparr>rb_nodes := rb_nodes t @ [a]\<rparr>) m))"

definition redistribute_nodes :: "routing_bucket \<Rightarrow> routing_table \<Rightarrow> routing_table" where
  "redistribute_nodes bucket rt =
     (let i = rb_bucket_index bucket;
          kept = filter (\<lambda>a. dn_bucket_index (node_at rt a) = i) (rb_nodes bucket)
      in rt\<lparr>rt_buckets := smap_update i (bucket\<lparr>rb_nodes := kept\<rparr>) (redistribute_loop rt i (rb_nodes bucket) (rt_buckets rt))\<rparr>)"

end
