(* ===== verification/Monitor_Thread.thy ===== *)
theory Monitor_Thread
  imports Main
begin

text \<open>
  The background thread that \<^verbatim>\<open>RoutingTableManager\<close>, \<^verbatim>\<open>MetadataPieceManager\<close>, \<^verbatim>\<open>PerformanceMonitor\<close>, \<^verbatim>\<open>TimeoutManager\<close> and
  \<^verbatim>\<open>RequestCacheManager\<close> start in their constructors: a stop flag, whether the
  \<^verbatim>\<open>std::thread\<close> object is joinable (it is until the destructor joins it), and whether the thread is
  still in its loop. The five classes have the same code for it. The interface \<open>monitored_service\<close> is what their
  \<^verbatim>\<open>start\<close>, \<^verbatim>\<open>stop\<close> and other operations do to the thread; it is interpreted on all five.
\<close>

section \<open>Definitions\<close>

record monitor =
  mn_should_stop :: bool
  mn_joinable :: bool
  mn_in_loop :: bool

definition monitor_created :: monitor where
  "monitor_created = \<lparr>mn_should_stop = False, mn_joinable = True, mn_in_loop = True\<rparr>"

definition monitor_start :: "monitor \<Rightarrow> monitor" where
  "monitor_start m =
     (let m1 = m\<lparr>mn_should_stop := False\<rparr>
      in if \<not> mn_joinable m1 then m1\<lparr>mn_joinable := True, mn_in_loop := True\<rparr> else m1)"

definition monitor_stop :: "monitor \<Rightarrow> monitor" where
  "monitor_stop m = m\<lparr>mn_should_stop := True\<rparr>"

definition monitor_is_running :: "monitor \<Rightarrow> bool" where
  "monitor_is_running m \<longleftrightarrow> \<not> mn_should_stop m \<and> mn_joinable m"

text \<open>The thread wakes up: it leaves its loop when the flag is set.\<close>

definition monitor_wake :: "monitor \<Rightarrow> monitor" where
  "monitor_wake m = (if mn_should_stop m then m\<lparr>mn_in_loop := False\<rparr> else m)"

section \<open>The interface\<close>

locale monitored_service =
  fixes thread :: "'s \<Rightarrow> monitor" and start :: "'s \<Rightarrow> 's" and stop :: "'s \<Rightarrow> 's"
    and wake :: "'s \<Rightarrow> 's \<Rightarrow> bool" and operation :: "'s \<Rightarrow> 's \<Rightarrow> bool"
  assumes thread_start: "thread (start s) = monitor_start (thread s)"
    and thread_stop: "thread (stop s) = monitor_stop (thread s)"
    and thread_wake: "wake s t \<Longrightarrow> mn_in_loop (thread s) \<and> thread t = monitor_wake (thread s)"
    and thread_operation: "operation s t \<Longrightarrow> thread t = thread s"
begin

abbreviation serve :: "'s \<Rightarrow> 's \<Rightarrow> bool" where
  "serve \<equiv> \<lambda>s t. t = start s \<or> t = stop s \<or> wake s t \<or> operation s t"

lemma joinable_serve: "serve s t \<Longrightarrow> mn_joinable (thread s) \<Longrightarrow> mn_joinable (thread t)"
  by (auto simp: thread_start thread_stop thread_operation monitor_start_def monitor_stop_def monitor_wake_def
      dest: thread_wake)

lemma dead_serve: "serve s t \<Longrightarrow> mn_joinable (thread s) \<Longrightarrow> \<not> mn_in_loop (thread s) \<Longrightarrow> \<not> mn_in_loop (thread t)"
  by (auto simp: thread_start thread_stop thread_operation monitor_start_def monitor_stop_def dest: thread_wake)

lemma never_revived:
  assumes "serve\<^sup>*\<^sup>* s t" "mn_joinable (thread s)" "\<not> mn_in_loop (thread s)"
  shows "mn_joinable (thread t) \<and> \<not> mn_in_loop (thread t) \<and> monitor_is_running (thread (start t)) \<and> (\<nexists>u. wake t u)"
proof -
  from assms have "mn_joinable (thread t) \<and> \<not> mn_in_loop (thread t)"
  proof (induction rule: rtranclp_induct)
    case (step t u)
    then show ?case using joinable_serve [OF step(2)] dead_serve [OF step(2)] by blast
  qed simp
  then show ?thesis
    by (auto simp: thread_start monitor_start_def monitor_is_running_def dest: thread_wake)
qed

end

end
