(* ===== verification/Routing_Queries.thy ===== *)
theory Routing_Queries
  imports Routing_Table Monitor_Thread
begin

text \<open>
  The rest of \<^verbatim>\<open>RoutingTableManager\<close>: queries, statistics, the integrity check and the repair, and the monitor thread. \<^verbatim>\<open>std::sort\<close>
  is an insertion sort by the same comparison. \<^verbatim>\<open>std::random_shuffle\<close> is the parameter \<open>shuffle\<close>.
\<close>

section \<open>Definitions\<close>

subsection \<open>Queries\<close>

definition get_node :: "string \<Rightarrow> routing_table \<Rightarrow> nat option" where
  "get_node node_id rt = smap_find (rt_registry rt) node_id"

definition get_nodes_by_status :: "node_status \<Rightarrow> routing_table \<Rightarrow> nat list" where
  "get_nodes_by_status status rt = filter (\<lambda>a. dn_status (node_at rt a) = status) (map snd (rt_registry rt))"

definition get_nodes_in_bucket :: "int \<Rightarrow> routing_table \<Rightarrow> nat list" where
  "get_nodes_in_bucket bucket_index rt =
     (case smap_find (rt_buckets rt) bucket_index of Some bucket \<Rightarrow> rb_nodes bucket | None \<Rightarrow> [])"

fun insert_by :: "('a \<Rightarrow> 'a \<Rightarrow> bool) \<Rightarrow> 'a \<Rightarrow> 'a list \<Rightarrow> 'a list" where
  "insert_by before x [] = [x]"
| "insert_by before x (y # ys) = (if before y x then y # insert_by before x ys else x # y # ys)"

definition sort_by :: "('a \<Rightarrow> 'a \<Rightarrow> bool) \<Rightarrow> 'a list \<Rightarrow> 'a list" where
  "sort_by before xs = foldr (insert_by before) xs []"

definition resize_to :: "int \<Rightarrow> 'a list \<Rightarrow> 'a list" where
  "resize_to count xs = (if count > 0 \<and> count < int (length xs) then take (nat count) xs else xs)"

definition get_closest_nodes :: "string \<Rightarrow> int \<Rightarrow> routing_table \<Rightarrow> nat list" where
  "get_closest_nodes target_id count rt =
     resize_to count (sort_by (\<lambda>a b. is_node_closer (rt_our_node_id rt) (dn_node_id (node_at rt a)) (dn_node_id (node_at rt b)))
       (map snd (rt_registry rt)))"

definition get_random_nodes :: "(nat list \<Rightarrow> nat list) \<Rightarrow> int \<Rightarrow> routing_table \<Rightarrow> nat list" where
  "get_random_nodes shuffle count rt = resize_to count (shuffle (map snd (rt_registry rt)))"

definition get_good_nodes :: "int \<Rightarrow> routing_table \<Rightarrow> nat list" where
  "get_good_nodes count rt = get_nodes_by_status GOOD rt"

definition get_nodes_needing_ping :: "time \<Rightarrow> routing_table \<Rightarrow> string list" where
  "get_nodes_needing_ping now rt =
     map fst (filter (\<lambda>(h, a). now - dn_last_ping (node_at rt a) > rc_ping_interval (rt_config rt) * 1000000) (rt_registry rt))"

definition has_node :: "string \<Rightarrow> routing_table \<Rightarrow> bool" where
  "has_node node_id rt \<longleftrightarrow> smap_find (rt_registry rt) node_id \<noteq> None"

definition is_node_good :: "string \<Rightarrow> routing_table \<Rightarrow> bool" where
  "is_node_good node_id rt =
     (case smap_find (rt_registry rt) node_id of None \<Rightarrow> False | Some a \<Rightarrow> dn_status (node_at rt a) = GOOD)"

definition is_node_bad :: "string \<Rightarrow> routing_table \<Rightarrow> bool" where
  "is_node_bad node_id rt =
     (case smap_find (rt_registry rt) node_id of None \<Rightarrow> False | Some a \<Rightarrow> dn_status (node_at rt a) = BAD)"

definition get_node_status :: "string \<Rightarrow> routing_table \<Rightarrow> node_status" where
  "get_node_status node_id rt =
     (case smap_find (rt_registry rt) node_id of Some a \<Rightarrow> dn_status (node_at rt a) | None \<Rightarrow> UNKNOWN)"

definition get_node_quality_score :: "string \<Rightarrow> routing_table \<Rightarrow> rat" where
  "get_node_quality_score node_id rt =
     (case smap_find (rt_registry rt) node_id of Some a \<Rightarrow> dn_quality_score (node_at rt a) | None \<Rightarrow> 0)"

definition get_node_distance :: "string \<Rightarrow> routing_table \<Rightarrow> string" where
  "get_node_distance node_id rt =
     (case smap_find (rt_registry rt) node_id of Some a \<Rightarrow> dn_distance (node_at rt a) | None \<Rightarrow> [])"

definition get_routing_table_size :: "routing_table \<Rightarrow> nat" where
  "get_routing_table_size rt = length (rt_registry rt)"

definition get_bucket_count :: "routing_table \<Rightarrow> int" where
  "get_bucket_count rt = int (length (rt_buckets rt))"

text \<open>Counting with \<^verbatim>\<open>stats[key]++\<close>: a missing entry starts at 0.\<close>

definition count_key :: "'k::linorder \<Rightarrow> ('k, int) smap \<Rightarrow> ('k, int) smap" where
  "count_key k m = smap_update k ((case smap_find m k of Some n \<Rightarrow> n | None \<Rightarrow> 0) + 1) m"

definition get_node_statistics_by_ip :: "routing_table \<Rightarrow> (string, int) smap" where
  "get_node_statistics_by_ip rt = foldl (\<lambda>m (h, a). count_key (dn_ip_address (node_at rt a)) m) [] (rt_registry rt)"

definition bucket_counts :: "routing_table \<Rightarrow> routing_bucket \<Rightarrow> (string, int) smap" where
  "bucket_counts rt bucket =
     (let with_status = (\<lambda>s. int (length (filter (\<lambda>a. dn_status (node_at rt a) = s) (rb_nodes bucket))))
      in [(''active_nodes'', 0), (''bad_nodes'', with_status BAD), (''good_nodes'', with_status GOOD),
          (''total_nodes'', int (length (rb_nodes bucket)))])"

definition get_bucket_statistics :: "routing_table \<Rightarrow> (int, (string, int) smap) smap" where
  "get_bucket_statistics rt = map (\<lambda>(k, b). (k, bucket_counts rt b)) (rt_buckets rt)"

subsection \<open>Statistics\<close>

definition count_status :: "node_status \<Rightarrow> routing_statistics \<Rightarrow> routing_statistics" where
  "count_status status s =
     (case status of
        GOOD \<Rightarrow> s\<lparr>rs_good_nodes := rs_good_nodes s + 1\<rparr>
      | UNKNOWN \<Rightarrow> s\<lparr>rs_unknown_nodes := rs_unknown_nodes s + 1\<rparr>
      | BAD \<Rightarrow> s\<lparr>rs_bad_nodes := rs_bad_nodes s + 1\<rparr>
      | QUESTIONABLE \<Rightarrow> s\<lparr>rs_questionable_nodes := rs_questionable_nodes s + 1\<rparr>
      | EVICTED \<Rightarrow> s\<lparr>rs_evicted_nodes := rs_evicted_nodes s + 1\<rparr>)"

text \<open>The accumulators of the loop: the statistics, the sum of the scores, the sum and the number of the positive response times.\<close>

type_synonym stats_acc = "routing_statistics \<times> rat \<times> int \<times> int"

fun count_nodes :: "routing_table \<Rightarrow> nat list \<Rightarrow> stats_acc \<Rightarrow> stats_acc" where
  "count_nodes rt [] acc = acc"
| "count_nodes rt (a # as) (s, q, r, n) =
     (let node = node_at rt a;
          s1 = count_status (dn_status node) (s\<lparr>rs_total_nodes := rs_total_nodes s + 1\<rparr>)
      in count_nodes rt as
           (s1, q + dn_quality_score node,
            (if dn_avg_response_time node > 0 then r + dn_avg_response_time node else r),
            (if dn_avg_response_time node > 0 then n + 1 else n)))"

definition count_bucket :: "routing_config \<Rightarrow> routing_bucket \<Rightarrow> routing_statistics \<Rightarrow> routing_statistics" where
  "count_bucket config b s =
     (let s1 = s\<lparr>rs_total_buckets := rs_total_buckets s + 1\<rparr>;
          s2 = (if rb_status b = ACTIVE then s1\<lparr>rs_active_buckets := rs_active_buckets s1 + 1\<rparr> else s1);
          s3 = (if length (rb_nodes b) \<ge> rc_max_bucket_size config then s2\<lparr>rs_full_buckets := rs_full_buckets s2 + 1\<rparr> else s2);
          s4 = (if rb_status b = SPLIT then s3\<lparr>rs_split_buckets := rs_split_buckets s3 + 1\<rparr> else s3)
      in if rb_status b = MERGED then s4\<lparr>rs_merged_buckets := rs_merged_buckets s4 + 1\<rparr> else s4)"

fun count_buckets :: "routing_table \<Rightarrow> (int, routing_bucket) smap \<Rightarrow> stats_acc \<Rightarrow> stats_acc" where
  "count_buckets rt [] acc = acc"
| "count_buckets rt ((k, b) # m) (s, q, r, n) =
     count_buckets rt m (count_nodes rt (rb_nodes b) (count_bucket (rt_config rt) b s, q, r, n))"

definition update_statistics :: "'w clock \<Rightarrow> routing_table \<Rightarrow> 'w \<Rightarrow> routing_table \<times> 'w" where
  "update_statistics clk rt w =
     (let s0 = (rt_stats rt)\<lparr>rs_total_nodes := 0, rs_good_nodes := 0, rs_unknown_nodes := 0, rs_bad_nodes := 0,
                 rs_questionable_nodes := 0, rs_evicted_nodes := 0, rs_total_buckets := 0, rs_active_buckets := 0,
                 rs_full_buckets := 0, rs_split_buckets := 0, rs_merged_buckets := 0\<rparr>;
          (s1, q, r, n) = count_buckets rt (rt_buckets rt) (s0, 0, 0, 0);
          s2 = (if rs_total_nodes s1 > 0 then s1\<lparr>rs_avg_quality_score := q / of_int (rs_total_nodes s1)\<rparr> else s1);
          s3 = (if n > 0 then s2\<lparr>rs_avg_response_time := int_div r n\<rparr> else s2);
          (t, w1) = clk w
      in (rt\<lparr>rt_stats := s3\<lparr>rs_last_update := t\<rparr>\<rparr>, w1))"

definition reset_statistics :: "routing_table \<Rightarrow> routing_table" where
  "reset_statistics rt = rt\<lparr>rt_stats := empty_routing_statistics\<rparr>"

definition update_config :: "routing_config \<Rightarrow> routing_table \<Rightarrow> routing_table" where
  "update_config config rt = rt\<lparr>rt_config := config\<rparr>"

definition set_max_routing_table_size :: "nat \<Rightarrow> routing_table \<Rightarrow> routing_table" where
  "set_max_routing_table_size max_size rt = rt\<lparr>rt_config := (rt_config rt)\<lparr>rc_max_routing_table_size := max_size\<rparr>\<rparr>"

definition get_routing_efficiency :: "routing_table \<Rightarrow> rat" where
  "get_routing_efficiency rt =
     (if rs_total_nodes (rt_stats rt) = 0 then 0
      else of_int (rs_good_nodes (rt_stats rt)) / of_int (rs_total_nodes (rt_stats rt)))"

definition get_node_utilization :: "routing_table \<Rightarrow> rat" where
  "get_node_utilization rt =
     (if rc_max_routing_table_size (rt_config rt) = 0 then 0
      else of_int (rs_total_nodes (rt_stats rt)) / of_nat (rc_max_routing_table_size (rt_config rt)))"

definition get_routing_table_recommendations :: "routing_table \<Rightarrow> string list" where
  "get_routing_table_recommendations rt =
     (if of_nat (get_routing_table_size rt) < (of_nat (rc_max_routing_table_size (rt_config rt)) :: rat) * (1 / 2)
      then [''Consider adding more bootstrap nodes to increase routing table size''] else []) @
     (if get_routing_efficiency rt < 7 / 10
      then [''Routing efficiency is low, consider improving node quality assessment''] else []) @
     (if get_node_utilization rt > 9 / 10
      then [''Routing table is nearly full, consider increasing max size or improving eviction''] else [])"

subsection \<open>Integrity\<close>

definition node_in_place :: "routing_table \<Rightarrow> nat \<Rightarrow> bool" where
  "node_in_place rt a =
     (if dn_bucket_index (node_at rt a) \<ge> 0 then
        (case smap_find (rt_buckets rt) (dn_bucket_index (node_at rt a)) of
           None \<Rightarrow> True
         | Some bucket \<Rightarrow> a \<in> set (rb_nodes bucket))
      else True)"

definition validate_routing_table_integrity :: "routing_table \<Rightarrow> bool" where
  "validate_routing_table_integrity rt \<longleftrightarrow> list_all (\<lambda>(h, a). node_in_place rt a) (rt_registry rt)"

definition get_routing_table_issues :: "routing_table \<Rightarrow> string list" where
  "get_routing_table_issues rt =
     (if \<not> validate_routing_table_integrity rt then [''Routing table integrity check failed''] else []) @
     (if get_routing_efficiency rt < 1 / 2 then [''Low routing efficiency''] else []) @
     (if get_node_utilization rt > 95 / 100 then [''Routing table nearly full''] else [])"

definition repair_routing_table :: "'w clock \<Rightarrow> routing_table \<Rightarrow> 'w \<Rightarrow> int \<times> routing_table \<times> 'w" where
  "repair_routing_table clk rt w =
     (let (n1, rt1, w1) =
            (if \<not> validate_routing_table_integrity rt
             then (case clear_routing_table clk rt w of (rt', w') \<Rightarrow> (1, rt', w')) else (0, rt, w))
      in if get_routing_efficiency rt1 < 1 / 2
         then (case clear_expired_nodes clk rt1 w1 of (n2, rt2, w2) \<Rightarrow> (n1 + n2, rt2, w2))
         else (n1, rt1, w1))"

definition node_status_to_string :: "node_status \<Rightarrow> string" where
  "node_status_to_string status =
     (case status of GOOD \<Rightarrow> ''GOOD'' | UNKNOWN \<Rightarrow> ''UNKNOWN'' | BAD \<Rightarrow> ''BAD''
      | QUESTIONABLE \<Rightarrow> ''QUESTIONABLE'' | EVICTED \<Rightarrow> ''EVICTED'')"

definition bucket_status_to_string :: "bucket_status \<Rightarrow> string" where
  "bucket_status_to_string status =
     (case status of ACTIVE \<Rightarrow> ''ACTIVE'' | INACTIVE \<Rightarrow> ''INACTIVE'' | FULL \<Rightarrow> ''FULL''
      | SPLIT \<Rightarrow> ''SPLIT'' | MERGED \<Rightarrow> ''MERGED'')"

subsection \<open>The service\<close>

record routing_service =
  rv_table :: routing_table
  rv_monitor :: monitor

definition routing_start :: "routing_service \<Rightarrow> routing_service" where
  "routing_start s = s\<lparr>rv_monitor := monitor_start (rv_monitor s)\<rparr>"

definition routing_stop :: "routing_service \<Rightarrow> routing_service" where
  "routing_stop s = s\<lparr>rv_monitor := monitor_stop (rv_monitor s)\<rparr>"

definition routing_is_running :: "routing_service \<Rightarrow> bool" where
  "routing_is_running s \<longleftrightarrow> monitor_is_running (rv_monitor s)"

text \<open>One pass of \<^verbatim>\<open>routingMonitorLoop\<close> after the wait; \<open>None\<close> and \<open>Some None\<close> as for \<^const>\<open>monitor_routing_table\<close>.\<close>

definition routing_monitor_pass :: "'w clock \<Rightarrow> routing_service \<Rightarrow> 'w \<Rightarrow> (routing_service \<times> 'w) option option" where
  "routing_monitor_pass clk s w =
     (let s1 = s\<lparr>rv_monitor := monitor_wake (rv_monitor s)\<rparr>
      in if mn_should_stop (rv_monitor s) then Some (Some (s1, w))
         else case monitor_routing_table clk (rv_table s) w of
             None \<Rightarrow> None
           | Some None \<Rightarrow> Some None
           | Some (Some (rt1, w1)) \<Rightarrow>
               (case cleanup_expired_nodes clk rt1 w1 of
                  (rt2, w2) \<Rightarrow>
                    (case update_statistics clk rt2 w2 of (rt3, w3) \<Rightarrow> Some (Some (s1\<lparr>rv_table := rt3\<rparr>, w3)))))"

end
