(* ===== verification/Routing_Distance.thy ===== *)
theory Routing_Distance
  imports Routing_Queries "HOL-Library.Multiset"
begin

text \<open>
  The distances of the routing table: the XOR metric, the bucket index in terms of the leading zero bits of
  the distance, the order that \<^verbatim>\<open>isNodeCloser\<close> gives to node ids, and sorting by an order.
\<close>

section \<open>The XOR metric\<close>

lemma code_xor_less: "code (a::char) XOR code b < (256::nat)"
  using take_bit_nat_less_exp [of 8 "code a XOR code b"] by (simp add: take_bit_xor take_bit_nat_eq_self)

lemma code_xor_char [simp]: "code (xor_char a b) = (code a XOR code b :: nat)"
  using code_xor_less [of a b] by (simp add: xor_char_def)

lemma xor_char_cancel [simp]: "xor_char a (xor_char a b) = b"
proof -
  have "code (xor_char a (xor_char a b)) = (code b :: nat)" by (simp flip: xor.assoc)
  then show ?thesis by (metis char_of_code)
qed

lemma xor_char_commute: "xor_char a b = xor_char b a"
  by (simp add: xor_char_def xor.commute)

lemma xor_char_zero_iff: "code (xor_char a b) = (0::nat) \<longleftrightarrow> a = b"
proof
  assume "code (xor_char a b) = (0::nat)"
  then have "xor_char a b = xor_char a a" by (metis char_of_code code_xor_char xor_self_eq)
  then show "a = b" by (metis xor_char_cancel)
qed (simp)

lemma distance_cancel:
  "length a = length b \<Longrightarrow> calculate_xor_distance a (calculate_xor_distance a b) = b"
  by (induction a b rule: list_induct2) (auto simp: calculate_xor_distance_def)

lemma distance_commute: "calculate_xor_distance a b = calculate_xor_distance b a"
proof (cases "length a = length b")
  case True
  then show ?thesis by (induction a b rule: list_induct2) (auto simp: calculate_xor_distance_def xor_char_commute)
qed (simp add: calculate_xor_distance_def)

lemma length_distance: "length (calculate_xor_distance a b) = (if length a = length b then length a else 0)"
  by (simp add: calculate_xor_distance_def)

lemma distance_zero_iff:
  "length a = length b \<Longrightarrow> list_all (\<lambda>c. code c = (0::nat)) (calculate_xor_distance a b) \<longleftrightarrow> a = b"
  by (induction a b rule: list_induct2) (auto simp: calculate_xor_distance_def xor_char_zero_iff simp del: code_xor_char)

section \<open>Bucket indices\<close>

definition byte_bits :: "char \<Rightarrow> bool list" where
  "byte_bits c = map (bit (code c)) (rev [0..<8])"

definition leading_zero_bits :: "string \<Rightarrow> nat" where
  "leading_zero_bits s = length (takeWhile Not (concat (map byte_bits s)))"

lemma high_bits_zero: "x < 256 \<Longrightarrow> 8 \<le> i \<Longrightarrow> \<not> bit (x::nat) i"
  using bit_take_bit_iff [of 8 x i] by (simp add: take_bit_nat_eq_self)

lemma builtin_clz_byte: "builtin_clz (code c) = 24 + length (takeWhile Not (byte_bits c))"
proof -
  have "rev [0..<32] = rev [8..<32] @ rev [0..<8]" by (simp add: upt_rec)
  moreover have "\<forall>i \<in> set (rev [8..<32]). \<not> bit (code c :: nat) i" by (auto simp: high_bits_zero)
  ultimately show ?thesis
    by (simp add: builtin_clz_def byte_bits_def takeWhile_append2 takeWhile_map comp_def)
qed

lemma byte_bits_nonzero: "code c \<noteq> (0::nat) \<Longrightarrow> \<exists>b \<in> set (byte_bits c). b"
proof (rule ccontr)
  assume "code c \<noteq> (0::nat)" "\<not> (\<exists>b \<in> set (byte_bits c). b)"
  then have "\<not> bit (code c :: nat) i" for i
    by (cases "i < 8") (auto simp: byte_bits_def high_bits_zero)
  then show False using \<open>code c \<noteq> 0\<close> by (metis bit_eqI bit_0_eq bot_fun_def bot_bool_def)
qed

lemma byte_bits_zero: "code c = (0::nat) \<Longrightarrow> byte_bits c = replicate 8 False"
  by (simp add: byte_bits_def upt_rec numeral_eq_Suc)

lemma leading_zero_bits_Cons:
  "leading_zero_bits (c # s) =
     (if code c \<noteq> (0::nat) then length (takeWhile Not (byte_bits c)) else 8 + leading_zero_bits s)"
proof (cases "code c = (0::nat)")
  case False
  then obtain b where "b \<in> set (byte_bits c)" "\<not> Not b" using byte_bits_nonzero by blast
  then have "takeWhile Not (byte_bits c @ x) = takeWhile Not (byte_bits c)" for x by (rule takeWhile_append1)
  with False show ?thesis by (simp add: leading_zero_bits_def)
qed (simp add: leading_zero_bits_def byte_bits_zero takeWhile_append2 numeral_eq_Suc)

lemma first_bit_index_leading:
  "\<not> list_all (\<lambda>c. code c = (0::nat)) s \<Longrightarrow> first_bit_index i s = int (8 * i + 24 + leading_zero_bits s)"
  by (induction i s rule: first_bit_index.induct)
    (auto simp: leading_zero_bits_Cons builtin_clz_byte simp del: of_nat_add)

lemma first_bit_index_zero: "list_all (\<lambda>c. code c = (0::nat)) s \<Longrightarrow> first_bit_index i s = 0"
  by (induction i s rule: first_bit_index.induct) auto

lemma leading_zero_bits_bound:
  "\<not> list_all (\<lambda>c. code c = (0::nat)) s \<Longrightarrow> leading_zero_bits s < 8 * length s"
proof (induction s)
  case (Cons c s)
  have "length (takeWhile Not (byte_bits c)) < 8" if "code c \<noteq> (0::nat)"
  proof -
    have "takeWhile Not (byte_bits c) \<noteq> byte_bits c" using byte_bits_nonzero [OF that] by (auto simp: takeWhile_eq_all_conv)
    moreover have "length (takeWhile Not (byte_bits c)) \<le> length (byte_bits c)" by (rule length_takeWhile_le)
    moreover have "length (byte_bits c) = 8" by (simp add: byte_bits_def)
    ultimately show ?thesis by (metis le_neq_implies_less takeWhile_dropWhile_id append_eq_conv_conj take_all_iff)
  qed
  with Cons show ?case by (auto simp: leading_zero_bits_Cons)
qed simp

lemma bucket_index_own: "a \<noteq> [] \<Longrightarrow> calculate_bucket_index a a = 0"
  using distance_zero_iff [of a a] length_distance [of a a]
  by (auto simp: calculate_bucket_index_def Let_def first_bit_index_zero)

lemma bucket_index_other:
  assumes "length a = length b" "a \<noteq> b"
  shows "calculate_bucket_index a b = int (24 + leading_zero_bits (calculate_xor_distance a b))"
proof -
  have "calculate_xor_distance a b \<noteq> []" using assms length_distance [of a b] by auto
  then show ?thesis
    using assms by (simp add: calculate_bucket_index_def Let_def first_bit_index_leading distance_zero_iff)
qed

lemma bucket_index_length: "length a \<noteq> length b \<Longrightarrow> calculate_bucket_index a b = -1"
  by (simp add: calculate_bucket_index_def calculate_xor_distance_def)

text \<open>Only the own id can have an index of one of the eight initial buckets.\<close>

lemma small_bucket_index:
  assumes "length b = 20" "0 \<le> calculate_bucket_index a b" "calculate_bucket_index a b \<le> 7"
  shows "b = a \<and> calculate_bucket_index a b = 0"
proof -
  have len: "length a = length b" using assms(2) bucket_index_length [of a b] by (cases "length a = length b") auto
  with bucket_index_other [of a b] assms(3) have "a = b" by (cases "a = b") auto
  moreover have "a \<noteq> []" using len assms(1) by auto
  ultimately show ?thesis by (simp add: bucket_index_own)
qed

section \<open>The order of nodes\<close>

lemma signed_char_inject: "signed_char a = signed_char b \<longleftrightarrow> a = b"
proof
  assume "signed_char a = signed_char b"
  then have "code a = (code b :: nat)"
    using code_less_256 [of a] code_less_256 [of b] by (simp add: signed_char_def split: if_splits; linarith)
  then show "a = b" by (metis char_of_code)
qed simp

lemma distance_less_irrefl: "\<not> distance_less s s"
  by (induction s) auto

lemma distance_less_trans: "distance_less r s \<Longrightarrow> distance_less s t \<Longrightarrow> distance_less r t"
proof (induction r s arbitrary: t rule: distance_less.induct)
  case (1 a as b bs)
  then show ?case by (cases t) (auto split: if_splits)
qed auto

lemma distance_less_total: "length s = length t \<Longrightarrow> s \<noteq> t \<Longrightarrow> distance_less s t \<or> distance_less t s"
  by (induction s t rule: list_induct2) (auto simp: signed_char_inject not_less order.order_iff_strict)

lemma distance_inject:
  "length a = length b \<Longrightarrow> length a = length c \<Longrightarrow> calculate_xor_distance a b = calculate_xor_distance a c \<longleftrightarrow> b = c"
  by (metis distance_cancel)

lemma closer_irrefl: "\<not> is_node_closer u a a"
  by (simp add: is_node_closer_def Let_def distance_less_irrefl)

lemma closer_trans: "is_node_closer u a b \<Longrightarrow> is_node_closer u b c \<Longrightarrow> is_node_closer u a c"
  by (auto simp: is_node_closer_def Let_def split: if_splits intro: distance_less_trans)

lemma closer_total:
  assumes "length u = length a" "length u = length b" "u \<noteq> []" "a \<noteq> b"
  shows "is_node_closer u a b \<or> is_node_closer u b a"
proof -
  have "calculate_xor_distance u a \<noteq> []" "calculate_xor_distance u b \<noteq> []"
    using assms length_distance [of u a] length_distance [of u b] by auto
  moreover have "calculate_xor_distance u a \<noteq> calculate_xor_distance u b" using assms by (simp add: distance_inject)
  ultimately show ?thesis
    using distance_less_total [of "calculate_xor_distance u a" "calculate_xor_distance u b"] assms
    by (simp add: is_node_closer_def Let_def length_distance)
qed

section \<open>Sorting\<close>

text \<open>
  Sorting a list by an order that is total on it: the result is the only sorted permutation of the
  list, whatever algorithm computes it.
\<close>

locale total_order_on_list =
  fixes before :: "'a \<Rightarrow> 'a \<Rightarrow> bool" and dom_set :: "'a set"
  assumes irrefl: "\<not> before x x"
    and trans: "before x y \<Longrightarrow> before y z \<Longrightarrow> before x z"
    and total: "x \<in> dom_set \<Longrightarrow> y \<in> dom_set \<Longrightarrow> x \<noteq> y \<Longrightarrow> before x y \<or> before y x"
begin

lemma mset_insert_by: "mset (insert_by before x xs) = add_mset x (mset xs)"
  by (induction xs) auto

lemma mset_sort_by: "mset (sort_by before xs) = mset xs"
  by (induction xs) (auto simp: sort_by_def mset_insert_by)

lemma set_insert_by: "set (insert_by before x xs) = insert x (set xs)"
  using mset_insert_by [of x xs] by (metis set_mset_add_mset_insert set_mset_mset)

lemma sorted_insert_by:
  "sorted_wrt before xs \<Longrightarrow> x \<notin> set xs \<Longrightarrow> insert x (set xs) \<subseteq> dom_set \<Longrightarrow> sorted_wrt before (insert_by before x xs)"
proof (induction xs)
  case (Cons y ys)
  show ?case
  proof (cases "before y x")
    case True
    with Cons show ?thesis by (auto simp: set_insert_by)
  next
    case False
    with Cons.prems total [of x y] have "before x y" by auto
    with Cons.prems trans have "\<forall>z \<in> set (y # ys). before x z" by auto
    with False Cons.prems show ?thesis by auto
  qed
qed simp

lemma sorted_sort_by: "distinct xs \<Longrightarrow> set xs \<subseteq> dom_set \<Longrightarrow> sorted_wrt before (sort_by before xs)"
proof (induction xs)
  case (Cons x xs)
  have "set (sort_by before xs) = set xs" using mset_sort_by [of xs] by (metis set_mset_mset)
  with Cons show ?case
    using sorted_insert_by [of "sort_by before xs" x] by (auto simp: sort_by_def)
qed (simp add: sort_by_def)

lemma sorted_unique: "sorted_wrt before xs \<Longrightarrow> sorted_wrt before ys \<Longrightarrow> mset xs = mset ys \<Longrightarrow> xs = ys"
proof (induction xs arbitrary: ys)
  case (Cons x xs)
  then obtain y ys' where ys: "ys = y # ys'" by (cases ys) auto
  have sets: "set (x # xs) = set (y # ys')" using Cons.prems(3) ys by (metis set_mset_mset)
  have "x = y"
  proof (rule ccontr)
    assume "x \<noteq> y"
    with sets have "y \<in> set xs" "x \<in> set ys'" by auto
    with Cons.prems ys have "before x y" "before y x" by auto
    with trans irrefl show False by blast
  qed
  with Cons ys show ?case by auto
qed simp

lemma sort_by_unique:
  "distinct xs \<Longrightarrow> set xs \<subseteq> dom_set \<Longrightarrow> mset ys = mset xs \<and> sorted_wrt before ys \<longleftrightarrow> ys = sort_by before xs"
  using sorted_unique [of ys "sort_by before xs"] sorted_sort_by mset_sort_by by metis

end

end
