(* ===== verification/Routing_Invariant.thy ===== *)
theory Routing_Invariant
  imports Routing_Distance State_Machine
begin

text \<open>
  The routing table as a state machine: every public operation and every defined pass of the monitor
  thread. The invariant says what the buckets can hold; the properties follow from it.
\<close>

section \<open>The machine\<close>

inductive routing_step :: "'w clock \<Rightarrow> routing_table \<Rightarrow> routing_table \<Rightarrow> bool" for clk :: "'w clock" where
  add: "routing_step clk rt (fst (snd (add_node clk node_id ip port rt w)))"
| add_quality: "routing_step clk rt (fst (snd (add_node_with_quality clk node_id ip port q r rt w)))"
| remove: "routing_step clk rt (snd (remove_node node_id rt))"
| update: "routing_step clk rt (fst (snd (update_node clk node_id success r rt w)))"
| status: "routing_step clk rt (snd (update_node_status node_id st rt))"
| monitor: "monitor_routing_table clk rt w = Some (Some (rt', w')) \<Longrightarrow> routing_step clk rt rt'"
| cleanup: "routing_step clk rt (fst (cleanup_expired_nodes clk rt w))"
| statistics: "routing_step clk rt (fst (update_statistics clk rt w))"
| reset: "routing_step clk rt (reset_statistics rt)"
| config: "0 < rc_max_bucket_size config \<Longrightarrow> routing_step clk rt (update_config config rt)"
| max_size: "routing_step clk rt (set_max_routing_table_size n rt)"
| clear: "routing_step clk rt (fst (clear_routing_table clk rt w))"
| expire: "routing_step clk rt (fst (snd (clear_expired_nodes clk rt w)))"
| optimize: "routing_step clk rt (optimize_routing_table rt)"
| split: "routing_step clk rt (fst (snd (force_bucket_split clk k rt w)))"
| merge: "routing_step clk rt (fst (snd (force_bucket_merge clk k rt w)))"
| evict: "routing_step clk rt (fst (snd (force_node_eviction clk node_id rt w)))"
| repair: "routing_step clk rt (fst (snd (repair_routing_table clk rt w)))"

definition routing_init :: "'w clock \<Rightarrow> routing_table \<Rightarrow> bool" where
  "routing_init clk rt \<longleftrightarrow> (\<exists>junk our_node_id config w. 0 < rc_max_bucket_size config \<and>
     rt = fst (new_routing_table clk junk our_node_id config w))"

section \<open>The invariant\<close>

text \<open>
  A bucket of the table: the eight initial keys are the only ones, only bucket 0 holds nodes, and
  they are nodes with the table's own id.
\<close>

definition bucket_ok :: "routing_table \<Rightarrow> int \<Rightarrow> routing_bucket \<Rightarrow> bool" where
  "bucket_ok rt k b \<longleftrightarrow> rb_bucket_index b = k \<and> 0 \<le> k \<and> k \<le> 7 \<and> (k \<noteq> 0 \<longrightarrow> rb_nodes b = [])
     \<and> (\<forall>a \<in> set (rb_nodes b). a < length (rt_heap rt) \<and> dn_node_id (node_at rt a) = rt_our_node_id rt)"

definition node_ok :: "string \<Rightarrow> dht_node \<Rightarrow> bool" where
  "node_ok our_node_id n \<longleftrightarrow> length (dn_node_id n) = 20 \<and> dn_bucket_index n = calculate_bucket_index our_node_id (dn_node_id n)"

definition buckets_ok :: "routing_table \<Rightarrow> bool" where
  "buckets_ok rt \<longleftrightarrow> smap_ok (rt_buckets rt) \<and> (\<forall>k b. smap_find (rt_buckets rt) k = Some b \<longrightarrow> bucket_ok rt k b)"

definition registry_ok :: "routing_table \<Rightarrow> bool" where
  "registry_ok rt \<longleftrightarrow> smap_ok (rt_registry rt)
     \<and> (\<forall>h a. smap_find (rt_registry rt) h = Some a \<longrightarrow> a < length (rt_heap rt) \<and> dn_node_id (node_at rt a) = h)"

definition table_ok :: "routing_table \<Rightarrow> bool" where
  "table_ok rt \<longleftrightarrow> 0 < rc_max_bucket_size (rt_config rt) \<and> buckets_ok rt \<and> registry_ok rt
     \<and> list_all (node_ok (rt_our_node_id rt)) (rt_heap rt)"

lemma table_okD:
  assumes "table_ok rt"
  shows "0 < rc_max_bucket_size (rt_config rt)" "smap_ok (rt_buckets rt)" "smap_ok (rt_registry rt)"
    and "smap_find (rt_buckets rt) k = Some b \<Longrightarrow> bucket_ok rt k b"
    and "smap_find (rt_registry rt) h = Some a \<Longrightarrow> a < length (rt_heap rt)"
    and "smap_find (rt_registry rt) h = Some a \<Longrightarrow> dn_node_id (node_at rt a) = h"
    and "a < length (rt_heap rt) \<Longrightarrow> node_ok (rt_our_node_id rt) (node_at rt a)"
  using assms by (auto simp: table_ok_def buckets_ok_def registry_ok_def list_all_length)

subsection \<open>Changes that keep it\<close>

text \<open>A node may change in everything but its id and its index.\<close>

definition keeps_identity :: "(dht_node \<Rightarrow> dht_node) \<Rightarrow> bool" where
  "keeps_identity f \<longleftrightarrow> (\<forall>n. dn_node_id (f n) = dn_node_id n \<and> dn_bucket_index (f n) = dn_bucket_index n)"

lemma modify_node_simps [simp]:
  "rt_config (modify_node a f rt) = rt_config rt" "rt_our_node_id (modify_node a f rt) = rt_our_node_id rt"
  "rt_buckets (modify_node a f rt) = rt_buckets rt" "rt_registry (modify_node a f rt) = rt_registry rt"
  "length (rt_heap (modify_node a f rt)) = length (rt_heap rt)" "rt_stats (modify_node a f rt) = rt_stats rt"
  by (simp_all add: modify_node_def)

lemma node_at_modify:
  "a < length (rt_heap rt) \<Longrightarrow> node_at (modify_node a f rt) b = (if a = b then f (node_at rt b) else node_at rt b)"
  by (simp add: modify_node_def nth_list_update)

lemma identity_modify:
  assumes "keeps_identity f" "b < length (rt_heap rt)"
  shows "dn_node_id (node_at (modify_node a f rt) b) = dn_node_id (node_at rt b)"
    and "dn_bucket_index (node_at (modify_node a f rt) b) = dn_bucket_index (node_at rt b)"
  using assms by (cases "a < length (rt_heap rt)"; auto simp: modify_node_def nth_list_update keeps_identity_def)+

lemma table_ok_modify: "keeps_identity f \<Longrightarrow> table_ok rt \<Longrightarrow> table_ok (modify_node a f rt)"
  unfolding table_ok_def buckets_ok_def registry_ok_def bucket_ok_def list_all_length node_ok_def
  by (simp add: identity_modify)

lemma table_ok_stats: "table_ok rt \<Longrightarrow> table_ok (rt\<lparr>rt_stats := s\<rparr>)"
  by (auto simp: table_ok_def buckets_ok_def registry_ok_def bucket_ok_def)

lemma table_ok_config: "table_ok rt \<Longrightarrow> 0 < rc_max_bucket_size c \<Longrightarrow> table_ok (rt\<lparr>rt_config := c\<rparr>)"
  by (auto simp: table_ok_def buckets_ok_def registry_ok_def bucket_ok_def)

lemma table_ok_registry:
  "table_ok rt \<Longrightarrow> smap_ok m \<Longrightarrow> map_of m \<subseteq>\<^sub>m map_of (rt_registry rt) \<Longrightarrow> table_ok (rt\<lparr>rt_registry := m\<rparr>)"
  by (auto simp: table_ok_def buckets_ok_def registry_ok_def bucket_ok_def map_le_def dom_def)

lemma table_ok_bucket_update:
  assumes "table_ok rt" "bucket_ok rt k b"
  shows "table_ok (rt\<lparr>rt_buckets := smap_update k b (rt_buckets rt)\<rparr>)"
  using assms by (auto simp: table_ok_def buckets_ok_def registry_ok_def bucket_ok_def)

lemma table_ok_bucket_erase: "table_ok rt \<Longrightarrow> table_ok (rt\<lparr>rt_buckets := smap_erase k (rt_buckets rt)\<rparr>)"
  by (auto simp: table_ok_def buckets_ok_def registry_ok_def bucket_ok_def)

lemma bucket_ok_nodes:
  "bucket_ok rt k b \<Longrightarrow> rb_bucket_index b' = rb_bucket_index b \<Longrightarrow> set (rb_nodes b') \<subseteq> set (rb_nodes b) \<Longrightarrow> bucket_ok rt k b'"
  by (auto simp: bucket_ok_def)

subsection \<open>The operations keep it\<close>

lemma create_bucket_ok:
  assumes "table_ok rt" "0 \<le> k" "k \<le> 7"
  shows "table_ok (fst (create_bucket clk k d rt w))"
  using table_ok_bucket_update [OF assms(1), of k] assms(2,3)
  by (auto simp: create_bucket_def bucket_ok_def split: prod.splits)

lemma create_buckets_ok:
  "table_ok rt \<Longrightarrow> set is \<subseteq> {0..7} \<Longrightarrow> table_ok (fst (create_buckets clk is rt w))"
proof (induction "is" arbitrary: rt w)
  case (Cons i "is")
  then have "table_ok (fst (create_bucket clk i i rt w))" by (intro create_bucket_ok) auto
  with Cons show ?case by (simp add: case_prod_beta)
qed simp

lemma initialize_ok: "table_ok rt \<Longrightarrow> table_ok (fst (initialize_routing_buckets clk rt w))"
  by (auto simp: initialize_routing_buckets_def intro: create_buckets_ok)

lemma new_table_ok: "0 < rc_max_bucket_size config \<Longrightarrow> table_ok (fst (new_routing_table clk junk u config w))"
  unfolding new_routing_table_def
  by (rule initialize_ok) (simp add: table_ok_def buckets_ok_def registry_ok_def)

lemma clear_routing_table_ok: "table_ok rt \<Longrightarrow> table_ok (fst (clear_routing_table clk rt w))"
  unfolding clear_routing_table_def
  by (rule initialize_ok) (simp add: table_ok_def buckets_ok_def registry_ok_def)

lemma update_node_quality_identity:
  "dn_node_id (update_node_quality c s r n) = dn_node_id n" "dn_bucket_index (update_node_quality c s r n) = dn_bucket_index n"
  by (simp_all add: update_node_quality_def Let_def)

lemma add_node_ok:
  assumes "table_ok rt"
  shows "table_ok (fst (snd (add_node clk node_id ip port rt w)))"
proof (cases "is_valid_node_id node_id \<and> smap_find (rt_registry rt) node_id = None")
  case True
  let ?a = "length (rt_heap rt)"
  have grown: "table_ok (rt\<lparr>rt_heap := rt_heap rt @ [n], rt_registry := smap_update node_id ?a (rt_registry rt)\<rparr>)" (is "table_ok (?rt1 n)")
    if "dn_node_id n = node_id" "dn_bucket_index n = calculate_bucket_index (rt_our_node_id rt) node_id" for n
    using assms True that
    by (auto simp: table_ok_def buckets_ok_def registry_ok_def bucket_ok_def node_ok_def is_valid_node_id_def nth_append less_Suc_eq)
  have linked: "table_ok ((?rt1 n)\<lparr>rt_buckets := smap_update (dn_bucket_index n)
       (b\<lparr>rb_nodes := rb_nodes b @ [?a], rb_last_updated := t\<rparr>) (rt_buckets rt)\<rparr>)"
    if n: "dn_node_id n = node_id" "dn_bucket_index n = calculate_bucket_index (rt_our_node_id rt) node_id"
      and b: "smap_find (rt_buckets rt) (dn_bucket_index n) = Some b" for n b t
  proof -
    from table_okD(4) [OF assms b] have "bucket_ok rt (dn_bucket_index n) b" .
    with n True small_bucket_index [of node_id "rt_our_node_id rt"]
    have "bucket_ok (?rt1 n) (dn_bucket_index n) (b\<lparr>rb_nodes := rb_nodes b @ [?a], rb_last_updated := t\<rparr>)"
      by (auto simp: bucket_ok_def is_valid_node_id_def nth_append)
    from table_ok_bucket_update [OF grown [OF n] this] show ?thesis by simp
  qed
  show ?thesis
    using grown linked assms by (auto simp: add_node_def Let_def new_node_def split: prod.splits option.splits)
qed (use assms in \<open>auto simp: add_node_def\<close>)

lemma add_node_with_quality_ok:
  "table_ok rt \<Longrightarrow> table_ok (fst (snd (add_node_with_quality clk node_id ip port q r rt w)))"
  using add_node_ok [of rt clk node_id ip port w]
  by (auto simp: add_node_with_quality_def keeps_identity_def update_node_quality_identity
      intro!: table_ok_modify split: prod.splits bool.splits option.splits)

lemma unlink_node_ok: "table_ok rt \<Longrightarrow> table_ok (unlink_node a rt)"
  unfolding unlink_node_def Let_def
  by (auto split: option.splits intro!: table_ok_bucket_update bucket_ok_nodes [OF table_okD(4)])

lemma unlink_node_simps [simp]:
  "rt_registry (unlink_node a rt) = rt_registry rt" "rt_heap (unlink_node a rt) = rt_heap rt"
  "rt_our_node_id (unlink_node a rt) = rt_our_node_id rt" "rt_config (unlink_node a rt) = rt_config rt"
  by (auto simp: unlink_node_def Let_def split: option.splits)

lemma map_le_erase: "map_of (smap_erase (k :: 'k::linorder) m) \<subseteq>\<^sub>m map_of m"
  by (auto simp: map_le_def)

lemma remove_node_ok: "table_ok rt \<Longrightarrow> table_ok (snd (remove_node node_id rt))"
  using unlink_node_ok [of rt]
  by (auto simp: remove_node_def Let_def map_le_def split: option.splits intro!: table_ok_registry dest: table_okD(3))

lemma update_node_ok: "table_ok rt \<Longrightarrow> table_ok (fst (snd (update_node clk node_id s r rt w)))"
  by (auto simp: update_node_def Let_def keeps_identity_def update_node_quality_identity
      intro!: table_ok_modify split: option.splits prod.splits)

lemma update_node_status_ok: "table_ok rt \<Longrightarrow> table_ok (snd (update_node_status node_id st rt))"
  by (auto simp: update_node_status_def keeps_identity_def intro!: table_ok_modify split: option.splits)

lemma evict_node_ok: "table_ok rt \<Longrightarrow> table_ok (fst (evict_node clk a rt w))"
proof -
  assume ok: "table_ok rt"
  have "table_ok (unlink_node a (modify_node a (\<lambda>n. n\<lparr>dn_status := EVICTED, dn_eviction_time := t,
           dn_eviction_attempts := dn_eviction_attempts n + 1\<rparr>) rt))" for t
    by (intro unlink_node_ok table_ok_modify ok) (simp add: keeps_identity_def)
  then show ?thesis
    using table_okD(3) [OF ok] by (auto simp: evict_node_def Let_def map_le_def intro!: table_ok_registry split: prod.splits)
qed

text \<open>Only bucket 0 can be split, and only the others can be merged; a merged bucket is empty.\<close>

lemma split_bucket_ok:
  assumes "table_ok rt" "smap_find (rt_buckets rt) k = Some b"
  shows "table_ok (fst (split_bucket clk b rt w))"
proof (cases "should_split_bucket (rt_config rt) b")
  case True
  have ok: "bucket_ok rt k b" by (rule table_okD(4) [OF assms])
  with True table_okD(1) [OF assms(1)] have k: "k = 0" "rb_bucket_index b = 0"
    by (auto simp: bucket_ok_def should_split_bucket_def)
  have moved: "filter (\<lambda>a. dn_bucket_index (node_at rt a) = 1) (rb_nodes b) = []"
    using ok table_okD(7) [OF assms(1)] bucket_index_own [of "rt_our_node_id rt"]
    by (auto simp: filter_empty_conv bucket_ok_def node_ok_def) (metis list.size(3) zero_neq_numeral zero_neq_one)
  define rt1 where "rt1 = fst (create_bucket clk 1 1 rt w)"
  have ok1: "table_ok rt1" unfolding rt1_def by (rule create_bucket_ok [OF assms(1)]) simp_all
  have rt1: "rt_heap rt1 = rt_heap rt" "rt_our_node_id rt1 = rt_our_node_id rt"
    by (simp_all add: rt1_def create_bucket_def case_prod_beta)
  obtain c where c: "smap_find (rt_buckets rt1) 1 = Some c" "rb_bucket_index c = 1" "rb_nodes c = []"
    by (simp add: rt1_def create_bucket_def case_prod_beta)
  have "bucket_ok rt1 1 c" by (rule table_okD(4) [OF ok1 c(1)])
  then have rt2: "table_ok (rt1\<lparr>rt_buckets := smap_update 1 (c\<lparr>rb_nodes := []\<rparr>) (rt_buckets rt1)\<rparr>)" (is "table_ok ?rt2")
    by (intro table_ok_bucket_update ok1) (simp add: bucket_ok_def)
  have old: "bucket_ok ?rt2 0 (b\<lparr>rb_nodes := ns, rb_status := SPLIT, rb_last_split := t\<rparr>)"
    if "set ns \<subseteq> set (rb_nodes b)" for ns t
    using ok k that rt1 by (auto simp: bucket_ok_def)
  have "table_ok (?rt2\<lparr>rt_buckets := smap_update 0 (b\<lparr>rb_nodes := ns, rb_status := SPLIT, rb_last_split := t\<rparr>) (rt_buckets ?rt2)\<rparr>)"
    if "set ns \<subseteq> set (rb_nodes b)" for ns t
    by (rule table_ok_bucket_update [OF rt2 old [OF that]])
  then show ?thesis using True k moved c
    by (simp add: split_bucket_def Let_def case_prod_beta flip: rt1_def)
qed (simp add: split_bucket_def assms)

lemma merge_bucket_ok:
  assumes "table_ok rt" "smap_find (rt_buckets rt) k = Some b"
  shows "table_ok (fst (merge_bucket clk b rt w))"
proof (cases "smap_find (rt_buckets rt) (k - 1)")
  case (Some p)
  have b: "bucket_ok rt k b" and p: "bucket_ok rt (k - 1) p"
    using table_okD(4) [OF assms(1)] assms(2) Some by auto
  then have k: "rb_nodes b = []" "rb_bucket_index b = k" by (auto simp: bucket_ok_def)
  have erased: "table_ok (rt\<lparr>rt_buckets := smap_erase k (rt_buckets rt)\<rparr>)" (is "table_ok ?rt1")
    by (rule table_ok_bucket_erase [OF assms(1)])
  have "bucket_ok ?rt1 (k - 1) (p\<lparr>rb_nodes := rb_nodes p, rb_status := MERGED, rb_last_merge := t\<rparr>)" for t
    using p by (simp add: bucket_ok_def)
  from table_ok_bucket_update [OF erased this] show ?thesis
    using k Some assms(1) by (simp add: merge_bucket_def Let_def destroy_bucket_def case_prod_beta)
qed (use assms table_okD(4) [OF assms] in \<open>auto simp: merge_bucket_def Let_def bucket_ok_def\<close>)

lemma monitor_bucket_ok:
  "table_ok rt \<Longrightarrow> smap_find (rt_buckets rt) k = Some b \<Longrightarrow> table_ok (fst (monitor_bucket clk b rt w))"
  by (simp add: monitor_bucket_def split_bucket_ok merge_bucket_ok)

lemma monitor_loop_ok:
  "monitor_loop clk it rt w = Some r \<Longrightarrow> table_ok rt \<Longrightarrow> r = Some (rt', w') \<Longrightarrow> table_ok rt'"
proof (induction arbitrary: rt' w' rule: monitor_loop.raw_induct [rotated, consumes 1, case_names pass])
  case (pass loop clk it rt w r)
  show ?case
  proof (cases it)
    case None
    with pass show ?thesis by simp
  next
    case (Some k)
    show ?thesis
    proof (cases "smap_find (rt_buckets rt) k")
      case None
      with pass Some show ?thesis by simp
    next
      case (Some b)
      obtain rt1 w1 where m: "monitor_bucket clk b rt w = (rt1, w1)" by fastforce
      have "table_ok rt1" using monitor_bucket_ok [OF pass(3) Some, of clk w] m by simp
      moreover have "(if smap_find (rt_buckets rt1) k = None then Some None else loop clk (next_key k (rt_buckets rt1)) rt1 w1) = Some r"
        using pass(2) \<open>it = Some k\<close> Some m by simp
      ultimately show ?thesis using pass(1) [of clk _ rt1 w1 r] pass(4) by (auto split: if_splits)
    qed
  qed
qed

lemma keep_fresh_subset: "set (fst (keep_fresh clk rt as w)) \<subseteq> set as"
  by (induction "as" arbitrary: w) (auto simp: case_prod_beta Let_def)

lemma clean_buckets_keys: "map fst (fst (clean_buckets clk rt m w)) = map fst m"
  by (induction m arbitrary: w) (auto simp: case_prod_beta Let_def)

lemma clean_buckets_find:
  "smap_find (fst (clean_buckets clk rt m w)) k = Some b' \<Longrightarrow>
     \<exists>b. smap_find m k = Some b \<and> rb_bucket_index b' = rb_bucket_index b \<and> set (rb_nodes b') \<subseteq> set (rb_nodes b)"
proof (induction m arbitrary: w)
  case (Cons p m)
  show ?case
    using Cons.prems Cons.IH keep_fresh_subset [of clk rt "rb_nodes (snd p)" w]
    by (cases p) (auto simp: case_prod_beta Let_def split: if_splits)
qed simp

lemma table_ok_shrink_buckets:
  assumes "table_ok rt" "smap_ok m"
    and "\<And>k b'. smap_find m k = Some b' \<Longrightarrow> \<exists>b. smap_find (rt_buckets rt) k = Some b
           \<and> rb_bucket_index b' = rb_bucket_index b \<and> set (rb_nodes b') \<subseteq> set (rb_nodes b)"
  shows "table_ok (rt\<lparr>rt_buckets := m\<rparr>)"
proof -
  have "bucket_ok rt k b'" if b: "smap_find m k = Some b'" for k b'
  proof -
    obtain b where "smap_find (rt_buckets rt) k = Some b" "rb_bucket_index b' = rb_bucket_index b"
      "set (rb_nodes b') \<subseteq> set (rb_nodes b)" using assms(3) [OF b] by blast
    then show ?thesis using bucket_ok_nodes table_okD(4) [OF assms(1)] by blast
  qed
  with assms(1,2) show ?thesis by (auto simp: table_ok_def buckets_ok_def registry_ok_def bucket_ok_def)
qed

lemma cleanup_expired_nodes_ok: "table_ok rt \<Longrightarrow> table_ok (fst (cleanup_expired_nodes clk rt w))"
  using table_ok_shrink_buckets [of rt] clean_buckets_find
  by (auto simp: cleanup_expired_nodes_def case_prod_beta Let_def smap_ok_def clean_buckets_keys
      dest: table_okD(2) intro!: table_ok_shrink_buckets)

lemma clean_registry_sub:
  "smap_ok m \<Longrightarrow> smap_ok (fst (snd (clean_registry clk rt m w))) \<and> set (fst (snd (clean_registry clk rt m w))) \<subseteq> set m"
proof (induction m arbitrary: w)
  case (Cons p m)
  then have "smap_ok m" by (simp add: smap_ok_def)
  from Cons.IH [OF this, of "snd (clk w)"] Cons.prems show ?case
    by (cases p) (auto simp: case_prod_beta Let_def smap_ok_def subset_iff)
qed simp

lemma map_le_subset: "smap_ok m \<Longrightarrow> smap_ok m' \<Longrightarrow> set m' \<subseteq> set m \<Longrightarrow> map_of m' \<subseteq>\<^sub>m map_of m"
  by (metis (no_types, lifting) domIff map_le_def option.exhaust smap_in_find subset_iff)

lemma clear_expired_nodes_ok: "table_ok rt \<Longrightarrow> table_ok (fst (snd (clear_expired_nodes clk rt w)))"
  using clean_registry_sub [of "rt_registry rt" clk rt "snd (clk w)"] table_okD(3) [of rt]
  by (auto simp: clear_expired_nodes_def case_prod_beta Let_def intro!: table_ok_registry map_le_subset)

lemma optimize_ok: "table_ok rt \<Longrightarrow> table_ok (optimize_routing_table rt)"
proof -
  assume ok: "table_ok rt"
  let ?m = "map (\<lambda>(k, b). (k, b\<lparr>rb_status := optimized_status (rt_config rt) b\<rparr>)) (rt_buckets rt)"
  have keys: "map fst ?m = map fst (rt_buckets rt)" by (simp add: case_prod_beta comp_def)
  have "smap_find ?m k = map_option (\<lambda>b. b\<lparr>rb_status := optimized_status (rt_config rt) b\<rparr>) (smap_find (rt_buckets rt) k)" for k
    by (simp add: map_of_map)
  then have "table_ok (rt\<lparr>rt_buckets := ?m\<rparr>)"
    using ok table_okD(2) [OF ok] by (intro table_ok_shrink_buckets) (simp_all only: smap_ok_def keys, auto)
  then have "table_ok ((rt\<lparr>rt_buckets := ?m\<rparr>)\<lparr>rt_registry := filter (\<lambda>(h, a). dn_status (node_at rt a) \<noteq> BAD) (rt_registry rt)\<rparr>)"
    using table_okD(3) [OF ok] by (intro table_ok_registry map_le_subset) auto
  then show ?thesis by (cases rt) (simp add: optimize_routing_table_def)
qed

lemma repair_ok: "table_ok rt \<Longrightarrow> table_ok (fst (snd (repair_routing_table clk rt w)))"
  using clear_routing_table_ok [of rt clk w]
  by (auto simp: repair_routing_table_def Let_def case_prod_beta intro: clear_expired_nodes_ok)

lemma routing_step_ok: "table_ok rt \<Longrightarrow> routing_step clk rt rt' \<Longrightarrow> table_ok rt'"
proof (erule routing_step.cases, goal_cases)
  case (6 rt w rt' w')
  then show ?case using monitor_loop_ok by (metis monitor_routing_table_def)
next
  case (8 rt w)
  then show ?case by (simp add: update_statistics_def Let_def case_prod_beta table_ok_stats)
qed (auto simp: reset_statistics_def update_config_def set_max_routing_table_size_def force_bucket_split_def force_bucket_merge_def
    force_node_eviction_def add_node_ok add_node_with_quality_ok remove_node_ok update_node_ok update_node_status_ok
    cleanup_expired_nodes_ok clear_routing_table_ok clear_expired_nodes_ok optimize_ok repair_ok table_ok_stats
    split_bucket_ok merge_bucket_ok evict_node_ok table_okD(1) intro!: table_ok_config split: option.splits)

interpretation routing: invariant_system "routing_init clk" "routing_step clk" table_ok
  by unfold_locales (auto simp: routing_init_def new_table_ok intro: routing_step_ok)

end
