(* ===== verification/Routing_Properties.thy ===== *)
theory Routing_Properties
  imports Routing_Invariant
begin

text \<open>
  What the routing table does: the buckets it never fills, the monitor pass that is undefined, the
  registry as a refinement of a finite map, the closest nodes, integrity and repair, scores and
  statistics, and the monitor thread that cannot be restarted.
\<close>

section \<open>The registry as a map\<close>

text \<open>The abstract view: a node id is mapped to its node.\<close>

definition table_map :: "routing_table \<Rightarrow> string \<Rightarrow> dht_node option" where
  "table_map rt h = map_option (node_at rt) (smap_find (rt_registry rt) h)"

lemma table_map_modify:
  assumes "table_ok rt" "smap_find (rt_registry rt) h = Some a"
  shows "table_map (modify_node a f rt) = (table_map rt)(h \<mapsto> f (node_at rt a))"
proof
  fix g
  have "b \<noteq> a" if "smap_find (rt_registry rt) g = Some b" "g \<noteq> h" for b
    using table_okD(6) [OF assms(1)] assms(2) that by metis
  then show "table_map (modify_node a f rt) g = ((table_map rt)(h \<mapsto> f (node_at rt a))) g"
    using assms(2) table_okD(5) [OF assms]
    by (cases "smap_find (rt_registry rt) g") (auto simp: table_map_def node_at_modify)
qed

lemma table_map_buckets: "table_map (rt\<lparr>rt_buckets := m\<rparr>) = table_map rt"
  by (simp add: table_map_def fun_eq_iff)

lemma table_map_unlink: "table_map (unlink_node a rt) = table_map rt"
  by (simp add: table_map_def fun_eq_iff)

lemma table_map_erase: "table_map (rt\<lparr>rt_registry := smap_erase h (rt_registry rt)\<rparr>) = (table_map rt)(h := None)"
  by (auto simp: table_map_def fun_eq_iff)

lemma table_map_grow:
  assumes "table_ok rt"
  shows "table_map (rt\<lparr>rt_heap := rt_heap rt @ [n], rt_registry := smap_update h (length (rt_heap rt)) (rt_registry rt)\<rparr>)
     = (table_map rt)(h \<mapsto> n)"
proof
  fix g
  show "table_map (rt\<lparr>rt_heap := rt_heap rt @ [n], rt_registry := smap_update h (length (rt_heap rt)) (rt_registry rt)\<rparr>) g
     = ((table_map rt)(h \<mapsto> n)) g"
    using table_okD(5) [OF assms, of g]
    by (cases "smap_find (rt_registry rt) g") (auto simp: table_map_def nth_append)
qed

lemma table_map_add_node:
  assumes "table_ok rt"
  shows "table_map (fst (snd (add_node clk h ip port rt w))) =
     (if fst (add_node clk h ip port rt w)
      then (table_map rt)(h \<mapsto> new_node (rt_our_node_id rt) h ip port (fst (clk w)) (fst (clk (snd (clk w))))) else table_map rt)"
  by (auto simp: add_node_def Let_def case_prod_beta table_map_buckets table_map_grow [OF assms] split: option.splits)

lemma add_node_result:
  "fst (add_node clk h ip port rt w) \<longleftrightarrow>
     is_valid_node_id h \<and> is_valid_ip_address ip \<and> is_valid_port port \<and> h \<notin> dom (table_map rt)"
  by (auto simp: add_node_def Let_def case_prod_beta table_map_def split: option.splits)

lemma table_map_remove:
  "table_map (snd (remove_node h rt)) = (table_map rt)(h := None) \<and> (fst (remove_node h rt) \<longleftrightarrow> h \<in> dom (table_map rt))"
proof (cases "smap_find (rt_registry rt) h")
  case (Some a)
  then show ?thesis
    using table_map_erase [of h "unlink_node a rt"] by (simp add: remove_node_def Let_def table_map_unlink) (auto simp: table_map_def)
qed (auto simp: remove_node_def table_map_def fun_eq_iff)

lemma table_map_evict:
  assumes "table_ok rt"
  shows "table_map (fst (snd (force_node_eviction clk h rt w))) = (table_map rt)(h := None)
     \<and> (fst (force_node_eviction clk h rt w) \<longleftrightarrow> h \<in> dom (table_map rt))"
proof (cases "smap_find (rt_registry rt) h")
  case (Some a)
  let ?f = "\<lambda>n. n\<lparr>dn_status := EVICTED, dn_eviction_time := fst (clk w), dn_eviction_attempts := dn_eviction_attempts n + 1\<rparr>"
  have id: "dn_node_id (node_at (modify_node a ?f rt) a) = h"
    using table_okD(5,6) [OF assms Some] by (simp add: node_at_modify)
  have "table_map ((unlink_node a (modify_node a ?f rt))\<lparr>rt_registry := smap_erase h (rt_registry rt)\<rparr>) = (table_map rt)(h := None)"
    using table_map_erase [of h "unlink_node a (modify_node a ?f rt)"]
    by (simp add: table_map_unlink table_map_modify [OF assms Some])
  then show ?thesis using id Some
    by (simp add: force_node_eviction_def evict_node_def Let_def case_prod_beta) (auto simp: table_map_def)
qed (auto simp: force_node_eviction_def table_map_def fun_eq_iff)

section \<open>Sorting the registered nodes\<close>

definition registered :: "routing_table \<Rightarrow> nat set" where
  "registered rt = {a. length (dn_node_id (node_at rt a)) = length (rt_our_node_id rt) \<and> rt_our_node_id rt \<noteq> []
     \<and> smap_find (rt_registry rt) (dn_node_id (node_at rt a)) = Some a}"

interpretation by_distance: total_order_on_list
  "\<lambda>a b. is_node_closer (rt_our_node_id rt) (dn_node_id (node_at rt a)) (dn_node_id (node_at rt b))" "registered rt"
proof
  fix a b assume "a \<in> registered rt" "b \<in> registered rt" "a \<noteq> b"
  moreover from this have "dn_node_id (node_at rt a) \<noteq> dn_node_id (node_at rt b)" by (auto simp: registered_def)
  ultimately show "is_node_closer (rt_our_node_id rt) (dn_node_id (node_at rt a)) (dn_node_id (node_at rt b))
     \<or> is_node_closer (rt_our_node_id rt) (dn_node_id (node_at rt b)) (dn_node_id (node_at rt a))"
    by (intro closer_total) (auto simp: registered_def)
qed (auto simp: closer_irrefl intro: closer_trans)

section \<open>The monitor pass\<close>

lemma keys_update_present: "smap_ok m \<Longrightarrow> smap_find m k \<noteq> None \<Longrightarrow> map fst (smap_update k v m) = map fst m"
proof -
  assume m: "smap_ok m" "smap_find m k \<noteq> None"
  then have "dom (map_of (smap_update k v m)) = dom (map_of m)" by auto
  with m show ?thesis using smap.keys_eq_sorted_list smap.ok_update by metis
qed

lemma split_keys:
  assumes "table_ok rt" "map fst (rt_buckets rt) = [0..7]" "smap_find (rt_buckets rt) 0 = Some b"
  shows "map fst (rt_buckets (fst (split_bucket clk b rt w))) = [0..7]"
proof -
  have m: "smap_ok (rt_buckets rt)" by (rule table_okD(2) [OF assms(1)])
  have b: "rb_bucket_index b = 0" using table_okD(4) [OF assms(1,3)] by (simp add: bucket_ok_def)
  have "1 \<in> set (map fst (rt_buckets rt))" unfolding assms(2) by simp
  then have one: "smap_find (rt_buckets rt) 1 \<noteq> None" by (auto simp: map_of_eq_None_iff)
  show ?thesis
    using b m one assms(2,3)
    by (simp add: split_bucket_def Let_def case_prod_beta create_bucket_def keys_update_present smap_ok_update)
qed

lemma empty_bucket:
  assumes "table_ok rt" "smap_find (rt_buckets rt) k = Some b" "k \<noteq> 0"
  shows "rb_nodes b = []" "rb_bucket_index b = k"
  using table_okD(4) [OF assms(1,2)] assms(3) by (auto simp: bucket_ok_def)

lemma merge_erases:
  assumes "table_ok rt" "smap_find (rt_buckets rt) 1 = Some b" "smap_find (rt_buckets rt) 0 = Some p"
    and "0 < rc_min_bucket_size (rt_config rt)" "rc_enable_bucket_merging (rt_config rt)"
  shows "smap_find (rt_buckets (fst (monitor_bucket clk b rt w))) 1 = None"
  using empty_bucket [OF assms(1,2)] table_okD(1) [OF assms(1)] assms(3-5)
  by (simp add: monitor_bucket_def should_split_bucket_def should_merge_bucket_def merge_bucket_def destroy_bucket_def Let_def
      case_prod_beta)

lemma next_key_one: "map fst m = [0..7] \<Longrightarrow> next_key 0 m = Some 1"
proof -
  assume "map fst m = [0..7]"
  moreover have "[0..7] = [0, 1, 2, 3, 4, 5, 6, 7 :: int]" by (simp add: upto_rec1)
  ultimately show ?thesis by (auto simp: next_key_def map_eq_Cons_conv)
qed

lemma first_key_zero: "map fst m = [0..7] \<Longrightarrow> first_key m = Some 0"
  by (cases m) (auto simp: first_key_def upto_rec1)

lemma keys_find: "map fst m = [0..7] \<Longrightarrow> 0 \<le> k \<Longrightarrow> k \<le> 7 \<Longrightarrow> \<exists>b. smap_find m k = Some b"
proof -
  assume "map fst m = [0..7]" "0 \<le> k" "k \<le> 7"
  then have "k \<in> set (map fst m)" by simp
  then show ?thesis by (metis list.set_map map_of_eq_None_iff not_None_eq)
qed

lemma monitor_bucket_zero:
  assumes "table_ok rt" "map fst (rt_buckets rt) = [0..7]" "smap_find (rt_buckets rt) 0 = Some b"
  shows "map fst (rt_buckets (fst (monitor_bucket clk b rt w))) = [0..7]
     \<and> rt_config (fst (monitor_bucket clk b rt w)) = rt_config rt"
proof -
  have b: "rb_bucket_index b = 0" using table_okD(4) [OF assms(1,3)] by (simp add: bucket_ok_def)
  have "-1 \<notin> set (map fst (rt_buckets rt))" unfolding assms(2) by simp
  then have "smap_find (rt_buckets rt) (-1) = None" by (simp add: map_of_eq_None_iff)
  moreover have "rt_config (fst (split_bucket clk b rt w)) = rt_config rt"
    by (simp add: split_bucket_def Let_def case_prod_beta create_bucket_def)
  ultimately show ?thesis
    using b assms(2) split_keys [OF assms, of clk w] by (simp add: monitor_bucket_def merge_bucket_def Let_def)
qed

section \<open>Statistics\<close>

definition status_sum :: "routing_statistics \<Rightarrow> int" where
  "status_sum s = rs_good_nodes s + rs_unknown_nodes s + rs_bad_nodes s + rs_questionable_nodes s + rs_evicted_nodes s"

lemma count_status_sum: "status_sum (count_status st s) = status_sum s + 1" "rs_total_nodes (count_status st s) = rs_total_nodes s"
  "rs_total_buckets (count_status st s) = rs_total_buckets s"
  by (cases st; simp add: count_status_def status_sum_def)+

lemma status_sum_total [simp]: "status_sum (s\<lparr>rs_total_nodes := n\<rparr>) = status_sum s"
  by (simp add: status_sum_def)

lemma count_nodes_sum:
  "rs_total_nodes (fst (count_nodes rt as acc)) = rs_total_nodes (fst acc) + int (length as)
   \<and> status_sum (fst (count_nodes rt as acc)) = status_sum (fst acc) + int (length as)
   \<and> rs_total_buckets (fst (count_nodes rt as acc)) = rs_total_buckets (fst acc)"
  by (induction rt "as" acc rule: count_nodes.induct) (auto simp: Let_def count_status_sum)

lemma count_bucket_sum: "rs_total_nodes (count_bucket c b s) = rs_total_nodes s" "status_sum (count_bucket c b s) = status_sum s"
  "rs_total_buckets (count_bucket c b s) = rs_total_buckets s + 1"
  by (simp_all add: count_bucket_def Let_def status_sum_def)

lemma count_buckets_sum:
  "rs_total_nodes (fst (count_buckets rt m acc)) = rs_total_nodes (fst acc) + (\<Sum>(k, b)\<leftarrow>m. int (length (rb_nodes b)))
   \<and> status_sum (fst (count_buckets rt m acc)) = status_sum (fst acc) + (\<Sum>(k, b)\<leftarrow>m. int (length (rb_nodes b)))
   \<and> rs_total_buckets (fst (count_buckets rt m acc)) = rs_total_buckets (fst acc) + int (length m)"
proof (induction rt m acc rule: count_buckets.induct)
  case (2 rt k b m s q r n)
  show ?case
    using 2 count_nodes_sum [of rt "rb_nodes b" "(count_bucket (rt_config rt) b s, q, r, n)"]
    by (auto simp: count_bucket_sum)
qed simp

lemma update_statistics_sum:
  fixes clk :: "'w clock"
  defines "st \<equiv> \<lambda>rt w. rt_stats (fst (update_statistics clk rt w))"
  shows "rs_total_nodes (st rt w) = (\<Sum>(k, b)\<leftarrow>rt_buckets rt. int (length (rb_nodes b)))"
    and "status_sum (st rt w) = rs_total_nodes (st rt w)"
    and "rs_total_buckets (st rt w) = int (length (rt_buckets rt))"
  using count_buckets_sum [of rt "rt_buckets rt"]
  by (simp_all add: st_def update_statistics_def Let_def case_prod_beta status_sum_def)

section \<open>Properties\<close>

abbreviation routing_reachable :: "'w clock \<Rightarrow> routing_table \<Rightarrow> bool" where
  "routing_reachable clk rt \<equiv> reachable (routing_init clk) (routing_step clk) rt"

definition own_id :: string where
  "own_id = replicate 20 CHR ''u''"

definition peer_id :: string where
  "peer_id = CHR ''v'' # replicate 19 CHR ''u''"

definition demo_table :: routing_table where
  "demo_table = fst (new_routing_table demo_tick 0 own_id default_routing_config demo_start)"

lemma routing_initI: "0 < rc_max_bucket_size config \<Longrightarrow> routing_init clk (fst (new_routing_table clk junk u config w))"
  by (auto simp: routing_init_def)

lemma demo_table_reachable: "routing_reachable demo_tick demo_table"
  unfolding demo_table_def by (rule reachable.start, rule routing_initI) (simp add: default_routing_config_def)

lemma create_buckets_keys:
  "smap_ok (rt_buckets rt) \<Longrightarrow> set (map fst (rt_buckets (fst (create_buckets clk is rt w)))) = set is \<union> set (map fst (rt_buckets rt))
     \<and> smap_ok (rt_buckets (fst (create_buckets clk is rt w)))"
proof (induction "is" arbitrary: rt w)
  case (Cons i "is")
  have "smap_ok (rt_buckets (fst (create_bucket clk i i rt w)))"
    "set (map fst (rt_buckets (fst (create_bucket clk i i rt w)))) = insert i (set (map fst (rt_buckets rt)))"
    using Cons.prems by (simp_all add: create_bucket_def case_prod_beta Let_def smap_update_keys [simplified])
  with Cons.IH [of "fst (create_bucket clk i i rt w)" "snd (create_bucket clk i i rt w)"] show ?case
    by (auto simp: case_prod_beta)
qed simp

lemma new_table_keys: "map fst (rt_buckets (fst (new_routing_table clk junk u config w))) = [0..7]"
proof -
  let ?m = "rt_buckets (fst (new_routing_table clk junk u config w))"
  have "set (map fst ?m) = {0..7}" "smap_ok ?m"
    using create_buckets_keys [of _ clk "[0..7]"]
    by (simp_all add: new_routing_table_def initialize_routing_buckets_def)
  then have "map fst ?m = sorted_list_of_set {0..7}"
    by (metis smap.keys_eq_sorted_list smap.set_keys)
  also have "\<dots> = [0..7]" by (simp add: sorted_list_of_set.idem_if_sorted_distinct flip: set_upto)
  finally show ?thesis .
qed

lemma create_buckets_frame [simp]:
  "rt_registry (fst (create_buckets clk is rt w)) = rt_registry rt \<and> rt_heap (fst (create_buckets clk is rt w)) = rt_heap rt
   \<and> rt_our_node_id (fst (create_buckets clk is rt w)) = rt_our_node_id rt \<and> rt_config (fst (create_buckets clk is rt w)) = rt_config rt"
  by (induction "is" arbitrary: rt w) (simp_all add: case_prod_beta create_bucket_def)

lemma new_table_simps [simp]:
  "rt_registry (fst (new_routing_table clk junk u config w)) = []" "rt_heap (fst (new_routing_table clk junk u config w)) = []"
  "rt_our_node_id (fst (new_routing_table clk junk u config w)) = u" "rt_config (fst (new_routing_table clk junk u config w)) = config"
  by (simp_all add: new_routing_table_def initialize_routing_buckets_def)

definition demo_peers :: routing_table where
  "demo_peers = fst (snd (add_node demo_tick peer_id ''1.2.3.4'' 6881 demo_table demo_start))"

lemma demo_peers_reachable: "routing_reachable demo_tick demo_peers"
  unfolding demo_peers_def by (rule reachable.move [OF demo_table_reachable routing_step.add])

lemma demo_peers_registry: "get_node peer_id demo_peers = Some 0" "rt_our_node_id demo_peers = own_id"
  by (simp_all add: get_node_def demo_peers_def demo_table_def add_node_def is_valid_node_id_def is_valid_ip_address_def
      is_valid_port_def peer_id_def Let_def case_prod_beta split: option.splits)

text \<open>In every reachable state the buckets of the routing table hold no peer: only bucket 0 can hold nodes and
  they carry the table's own id. The bucket index of any other node is at least 24 (or -1), while the keys of
  the buckets are 0 to 7, so every registered peer names a bucket that does not exist.\<close>

theorem routing_buckets_hold_no_peers:
  assumes "routing_reachable clk rt"
  shows "(\<forall>k. \<forall>a \<in> set (get_nodes_in_bucket k rt). k = 0 \<and> dn_node_id (node_at rt a) = rt_our_node_id rt)
     \<and> (\<forall>h a. get_node h rt = Some a \<and> h \<noteq> rt_our_node_id rt \<longrightarrow>
          (dn_bucket_index (node_at rt a) = -1 \<or> 24 \<le> dn_bucket_index (node_at rt a))
          \<and> smap_find (rt_buckets rt) (dn_bucket_index (node_at rt a)) = None)"
proof -
  have ok: "table_ok rt" using assms by (rule routing.inv_reachable)
  show ?thesis
  proof (intro conjI allI impI ballI)
    fix k a assume "a \<in> set (get_nodes_in_bucket k rt)"
    then obtain b where b: "smap_find (rt_buckets rt) k = Some b" "a \<in> set (rb_nodes b)"
      by (cases "smap_find (rt_buckets rt) k") (auto simp: get_nodes_in_bucket_def)
    then show "k = 0" "dn_node_id (node_at rt a) = rt_our_node_id rt"
      using table_okD(4) [OF ok b(1)] by (auto simp: bucket_ok_def)
  next
    fix h a assume h: "get_node h rt = Some a \<and> h \<noteq> rt_our_node_id rt"
    then have "a < length (rt_heap rt)" "dn_node_id (node_at rt a) = h"
      using table_okD(5,6) [OF ok, of h] by (auto simp: get_node_def)
    then have len: "length h = 20" and i: "dn_bucket_index (node_at rt a) = calculate_bucket_index (rt_our_node_id rt) h"
      using table_okD(7) [OF ok, of a] by (auto simp: node_ok_def)
    then show *: "dn_bucket_index (node_at rt a) = -1 \<or> 24 \<le> dn_bucket_index (node_at rt a)"
      using h bucket_index_other [of "rt_our_node_id rt" h] bucket_index_length [of "rt_our_node_id rt" h]
      by (cases "length (rt_our_node_id rt) = length h") auto
    show "smap_find (rt_buckets rt) (dn_bucket_index (node_at rt a)) = None"
      using * table_okD(4) [OF ok, of "dn_bucket_index (node_at rt a)"]
      by (cases "smap_find (rt_buckets rt) (dn_bucket_index (node_at rt a))") (auto simp: bucket_ok_def)
  qed
qed

theorem routing_buckets_hold_no_peers_witness:
  "get_node peer_id demo_peers = Some 0 \<and> smap_find (rt_buckets demo_peers) (dn_bucket_index (node_at demo_peers 0)) = None"
proof -
  have "peer_id \<noteq> own_id" by (simp add: peer_id_def own_id_def numeral_eq_Suc)
  then show ?thesis using routing_buckets_hold_no_peers [OF demo_peers_reachable] demo_peers_registry by simp
qed

text \<open>C21: With the default settings a pass of the monitor thread has undefined behaviour: in every reachable state
  that has its eight buckets, as the constructor creates them, bucket 1 is empty and is merged into bucket 0, which erases
  the element that the loop's iterator stands on.\<close>

theorem monitor_pass_undefined:
  assumes "routing_reachable clk rt" "map fst (rt_buckets rt) = [0..7]"
    and "0 < rc_min_bucket_size (rt_config rt)" "rc_enable_bucket_merging (rt_config rt)"
  shows "monitor_routing_table clk rt w = Some None"
proof -
  have ok: "table_ok rt" using assms(1) by (rule routing.inv_reachable)
  obtain b0 where b0: "smap_find (rt_buckets rt) 0 = Some b0" using keys_find [OF assms(2), of 0] by auto
  obtain rt1 w1 where m0: "monitor_bucket clk b0 rt w = (rt1, w1)" by fastforce
  have rt1: "table_ok rt1" "map fst (rt_buckets rt1) = [0..7]" "rt_config rt1 = rt_config rt"
    using monitor_bucket_ok [OF ok b0, of clk w] monitor_bucket_zero [OF ok assms(2) b0, of clk w] m0 by auto
  obtain c0 b1 where c0: "smap_find (rt_buckets rt1) 0 = Some c0" and b1: "smap_find (rt_buckets rt1) 1 = Some b1"
    using keys_find [OF rt1(2), of 0] keys_find [OF rt1(2), of 1] by auto
  have "smap_find (rt_buckets (fst (monitor_bucket clk b1 rt1 w1))) 1 = None"
    using merge_erases [OF rt1(1) b1 c0] assms(3,4) rt1(3) by simp
  then have "monitor_loop clk (Some 1) rt1 w1 = Some None"
    by (subst monitor_loop.simps) (simp add: b1 case_prod_beta)
  then have "monitor_loop clk (Some 0) rt w = Some None"
    by (subst monitor_loop.simps) (simp add: b0 m0 c0 next_key_one [OF rt1(2)])
  then show ?thesis by (simp add: monitor_routing_table_def first_key_zero [OF assms(2)])
qed

theorem monitor_pass_undefined_witness: "monitor_routing_table demo_tick demo_table demo_start = Some None"
  by (rule monitor_pass_undefined [OF demo_table_reachable])
    (simp_all add: demo_table_def new_table_keys default_routing_config_def)

text \<open>C20: The registry refines a finite map from node ids to nodes: in every reachable state \<^verbatim>\<open>addNode\<close> maps a valid new id to
  the node it creates and refuses everything else, \<^verbatim>\<open>removeNode\<close> and eviction unmap an id, and the updates of one node
  through its shared pointer change the entry of that id and no other.\<close>

theorem routing_table_refines_map:
  assumes "routing_reachable clk rt"
  shows "fst (add_node clk h ip port rt w) =
       (is_valid_node_id h \<and> is_valid_ip_address ip \<and> is_valid_port port \<and> h \<notin> dom (table_map rt))
     \<and> table_map (fst (snd (add_node clk h ip port rt w))) =
         (if fst (add_node clk h ip port rt w)
          then (table_map rt)(h \<mapsto> new_node (rt_our_node_id rt) h ip port (fst (clk w)) (fst (clk (snd (clk w))))) else table_map rt)
     \<and> fst (remove_node h rt) = (h \<in> dom (table_map rt)) \<and> table_map (snd (remove_node h rt)) = (table_map rt)(h := None)
     \<and> table_map (fst (snd (force_node_eviction clk h rt w))) = (table_map rt)(h := None)
     \<and> table_map (snd (update_node_status h st rt)) =
         (case table_map rt h of None \<Rightarrow> table_map rt | Some n \<Rightarrow> (table_map rt)(h \<mapsto> n\<lparr>dn_status := st\<rparr>))
     \<and> (\<forall>g. g \<noteq> h \<longrightarrow> table_map (fst (snd (update_node clk h success r rt w))) g = table_map rt g)"
proof -
  have ok: "table_ok rt" using assms by (rule routing.inv_reachable)
  have "table_map (snd (update_node_status h st rt)) =
     (case table_map rt h of None \<Rightarrow> table_map rt | Some n \<Rightarrow> (table_map rt)(h \<mapsto> n\<lparr>dn_status := st\<rparr>))"
    using table_map_modify [OF ok]
    by (cases "smap_find (rt_registry rt) h") (simp_all add: update_node_status_def table_map_def [of rt h])
  moreover have "table_map (fst (snd (update_node clk h success r rt w))) g = table_map rt g" if "g \<noteq> h" for g
    using that table_map_modify [OF ok]
    by (cases "smap_find (rt_registry rt) h") (simp_all add: update_node_def case_prod_beta)
  ultimately show ?thesis
    using add_node_result [of clk h ip port rt w] table_map_add_node [OF ok, of clk h ip port w] table_map_remove [of h rt]
      table_map_evict [OF ok, of clk h w] by blast
qed

theorem routing_table_refines_map_witness:
  "\<not> fst (add_node demo_tick peer_id ''1.2.3.4'' 6881 demo_peers demo_start)
   \<and> table_map (snd (remove_node peer_id demo_peers)) = (table_map demo_peers)(peer_id := None)"
  using routing_table_refines_map [OF demo_peers_reachable, of peer_id "''1.2.3.4''" 6881 demo_start GOOD True 0]
    demo_peers_registry(1) by (auto simp: table_map_def get_node_def)

text \<open>\<^verbatim>\<open>calculateBucketIndex\<close> is -1 for ids of another length, 0 for the own id, and otherwise 24 plus the number of leading
  zero bits of the XOR distance: the byte is promoted to a 32-bit number before its leading zeros are
  counted. For ids of 20 bytes the indices run from 24 to 183. The distance is symmetric and taking it twice gives the id back.\<close>

theorem bucket_index_counts_leading_zeros:
  "calculate_bucket_index a b =
     (if length a \<noteq> length b \<or> a = [] then -1 else if a = b then 0 else int (24 + leading_zero_bits (calculate_xor_distance a b)))
   \<and> calculate_bucket_index a b < int (24 + 8 * length a)
   \<and> calculate_xor_distance a b = calculate_xor_distance b a
   \<and> (length a \<noteq> length b \<or> calculate_xor_distance a (calculate_xor_distance a b) = b)"
proof -
  have "calculate_bucket_index [] [] = -1" by (simp add: calculate_bucket_index_def calculate_xor_distance_def)
  then have i: "calculate_bucket_index a b =
     (if length a \<noteq> length b \<or> a = [] then -1 else if a = b then 0 else int (24 + leading_zero_bits (calculate_xor_distance a b)))"
    using bucket_index_length [of a b] bucket_index_own [of a] bucket_index_other [of a b] by auto
  have "leading_zero_bits (calculate_xor_distance a b) < 8 * length a" if "length a = length b" "a \<noteq> b"
    using leading_zero_bits_bound [of "calculate_xor_distance a b"] that by (simp add: distance_zero_iff length_distance)
  with i show ?thesis by (auto simp: distance_commute distance_cancel)
qed

theorem bucket_index_counts_leading_zeros_witness: "calculate_bucket_index peer_id own_id < 184"
  using bucket_index_counts_leading_zeros [of peer_id own_id] by (simp add: peer_id_def)

text \<open>\<^verbatim>\<open>getClosestNodes\<close> does not look at its target: in a reachable table with a 20-byte own id the result for any target is the
  first \<open>n\<close> nodes of the one list that contains every registered node once, ordered by the distance to the
  table's own id, where distances are compared byte by byte as signed numbers.\<close>

theorem closest_nodes_ignore_target:
  assumes "routing_reachable clk rt" "length (rt_our_node_id rt) = 20"
    and "mset xs = mset (map snd (rt_registry rt))"
    and "sorted_wrt (\<lambda>a b. is_node_closer (rt_our_node_id rt) (dn_node_id (node_at rt a)) (dn_node_id (node_at rt b))) xs"
  shows "get_closest_nodes target n rt = (if 0 < n then take (nat n) xs else xs)"
proof -
  have ok: "table_ok rt" using assms(1) by (rule routing.inv_reachable)
  have reg: "smap_find (rt_registry rt) (dn_node_id (node_at rt a)) = Some a \<and> length (dn_node_id (node_at rt a)) = 20"
    if "a \<in> set (map snd (rt_registry rt))" for a
  proof -
    from that obtain h where "smap_find (rt_registry rt) h = Some a"
      using smap_in_find [OF table_okD(3) [OF ok]] by auto
    then show ?thesis using table_okD(5-7) [OF ok] by (force simp: node_ok_def)
  qed
  have dist: "distinct (map snd (rt_registry rt))"
  proof (rule distinct_map [THEN iffD2], intro conjI inj_onI)
    show "distinct (rt_registry rt)"
      using smap.keys_distinct [OF table_okD(3) [OF ok]] by (simp add: distinct_map)
    fix p q assume "p \<in> set (rt_registry rt)" "q \<in> set (rt_registry rt)" "snd p = snd q"
    then show "p = q" using smap_in_find [OF table_okD(3) [OF ok]] table_okD(6) [OF ok] by (metis prod.collapse)
  qed
  have sub: "set (map snd (rt_registry rt)) \<subseteq> registered rt" using reg assms(2) by (auto simp: registered_def)
  have "xs = sort_by (\<lambda>a b. is_node_closer (rt_our_node_id rt) (dn_node_id (node_at rt a)) (dn_node_id (node_at rt b)))
     (map snd (rt_registry rt))"
    by (rule by_distance.sort_by_unique [OF dist sub, THEN iffD1]) (intro conjI assms(3,4))
  then show ?thesis by (auto simp: get_closest_nodes_def resize_to_def)
qed

theorem closest_nodes_ignore_target_witness:
  "get_closest_nodes peer_id 8 demo_peers = [0]"
proof -
  have reg: "rt_registry demo_peers = [(peer_id, 0)]"
    by (simp add: demo_peers_def demo_table_def add_node_def is_valid_node_id_def is_valid_ip_address_def
      is_valid_port_def peer_id_def Let_def case_prod_beta split: option.splits)
  have "length (rt_our_node_id demo_peers) = 20" by (simp add: demo_peers_registry own_id_def)
  from closest_nodes_ignore_target [OF demo_peers_reachable this, of "[0]" peer_id 8] show ?thesis by (simp add: reg)
qed

lemma validate_subset:
  "validate_routing_table_integrity rt \<Longrightarrow> set m \<subseteq> set (rt_registry rt) \<Longrightarrow> validate_routing_table_integrity (rt\<lparr>rt_registry := m\<rparr>)"
proof -
  have "node_in_place (rt\<lparr>rt_registry := m\<rparr>) = node_in_place rt" by (simp add: node_in_place_def fun_eq_iff)
  moreover assume "validate_routing_table_integrity rt" "set m \<subseteq> set (rt_registry rt)"
  ultimately show ?thesis by (auto simp: validate_routing_table_integrity_def list_all_iff)
qed

lemma clean_registry_subset: "set (fst (snd (clean_registry clk rt m w))) \<subseteq> set m"
  by (induction m arbitrary: w) (fastforce simp: case_prod_beta Let_def split: if_splits)+

lemma validate_repair: "validate_routing_table_integrity (fst (snd (repair_routing_table clk rt w)))"
proof -
  have expire: "validate_routing_table_integrity (fst (snd (clear_expired_nodes clk rt' w')))"
    if "validate_routing_table_integrity rt'" for rt' w'
    using validate_subset [OF that clean_registry_subset] by (simp add: clear_expired_nodes_def case_prod_beta Let_def)
  have "validate_routing_table_integrity (fst (clear_routing_table clk rt w))"
    by (simp add: clear_routing_table_def initialize_routing_buckets_def validate_routing_table_integrity_def)
  with expire show ?thesis by (simp add: repair_routing_table_def Let_def case_prod_beta)
qed

text \<open>The integrity check says nothing about the peers: in a reachable table that does not contain its own id it always
  succeeds, although no registered node is in any bucket; and after \<^verbatim>\<open>repairRoutingTable\<close> it succeeds in any case.\<close>

theorem integrity_check_and_repair:
  assumes "routing_reachable clk rt" "\<not> has_node (rt_our_node_id rt) rt"
  shows "validate_routing_table_integrity rt \<and> validate_routing_table_integrity (fst (snd (repair_routing_table clk rt' w)))"
proof -
  have ok: "table_ok rt" using assms(1) by (rule routing.inv_reachable)
  have "node_in_place rt a" if "(h, a) \<in> set (rt_registry rt)" for h a
  proof -
    have h: "smap_find (rt_registry rt) h = Some a" using that smap_in_find [OF table_okD(3) [OF ok]] by simp
    with assms(2) have "h \<noteq> rt_our_node_id rt" by (auto simp: has_node_def)
    moreover have "node_ok (rt_our_node_id rt) (node_at rt a)" "dn_node_id (node_at rt a) = h"
      using table_okD(5-7) [OF ok] h by auto
    ultimately have "smap_find (rt_buckets rt) (dn_bucket_index (node_at rt a)) = None"
      using small_bucket_index [of h "rt_our_node_id rt"] table_okD(4) [OF ok, of "dn_bucket_index (node_at rt a)"]
      by (cases "smap_find (rt_buckets rt) (dn_bucket_index (node_at rt a))") (auto simp: node_ok_def bucket_ok_def)
    then show ?thesis by (simp add: node_in_place_def)
  qed
  then have "validate_routing_table_integrity rt" by (auto simp: validate_routing_table_integrity_def list_all_iff)
  then show ?thesis by (intro conjI validate_repair)
qed

theorem integrity_check_and_repair_witness:
  "validate_routing_table_integrity demo_peers
   \<and> validate_routing_table_integrity (fst (snd (repair_routing_table demo_tick demo_peers demo_start)))"
proof (rule integrity_check_and_repair [OF demo_peers_reachable])
  have "own_id \<noteq> peer_id" by (simp add: peer_id_def own_id_def numeral_eq_Suc)
  then show "\<not> has_node (rt_our_node_id demo_peers) demo_peers"
    by (simp add: has_node_def demo_peers_registry, simp add: demo_peers_def demo_table_def add_node_def is_valid_node_id_def
      is_valid_ip_address_def is_valid_port_def Let_def case_prod_beta split: option.splits)
qed

text \<open>\<^verbatim>\<open>addNodeWithQuality\<close> ignores the score it is given: a node it adds to a reachable table gets the score 1, whatever
  the argument, and is classified from that score; its response times are the given ones.\<close>

theorem given_quality_is_overwritten:
  assumes "routing_reachable clk rt" "fst (add_node clk h ip port rt w)"
  shows "\<exists>n. table_map (fst (snd (add_node_with_quality clk h ip port q r rt w))) h = Some n
     \<and> dn_quality_score n = 1 \<and> dn_status n = (if rc_good_threshold (rt_config rt) \<le> 1 then GOOD
          else if 1 \<le> rc_bad_threshold (rt_config rt) then BAD else UNKNOWN)
     \<and> dn_avg_response_time n = r \<and> dn_min_response_time n = r \<and> dn_max_response_time n = r"
proof -
  have ok: "table_ok rt" using assms(1) by (rule routing.inv_reachable)
  let ?rt1 = "fst (snd (add_node clk h ip port rt w))"
  have ok1: "table_ok ?rt1" by (rule add_node_ok [OF ok])
  let ?n = "new_node (rt_our_node_id rt) h ip port (fst (clk w)) (fst (clk (snd (clk w))))"
  have "table_map ?rt1 h = Some ?n" using table_map_add_node [OF ok, of clk h ip port w] assms(2) by simp
  then obtain a where a: "smap_find (rt_registry ?rt1) h = Some a" "node_at ?rt1 a = ?n" by (auto simp: table_map_def)
  have config: "rt_config ?rt1 = rt_config rt" by (simp add: add_node_def Let_def case_prod_beta split: option.splits)
  have "add_node_with_quality clk h ip port q r rt w = (True, modify_node a (\<lambda>n. update_node_quality (rt_config ?rt1) True r
      (n\<lparr>dn_quality_score := q, dn_avg_response_time := r, dn_min_response_time := r, dn_max_response_time := r\<rparr>)) ?rt1,
      snd (snd (add_node clk h ip port rt w)))"
    using assms(2) a(1) by (cases "add_node clk h ip port rt w") (auto simp: add_node_with_quality_def)
  then show ?thesis
    using table_map_modify [OF ok1 a(1)] a(2) config
    by (simp add: update_node_quality_def new_node_def determine_node_status_def Let_def)
qed

theorem given_quality_is_overwritten_witness:
  "\<exists>n. table_map (fst (snd (add_node_with_quality demo_tick peer_id ''1.2.3.4'' 6881 (1 / 10) 7 demo_table demo_start))) peer_id = Some n
     \<and> dn_quality_score n = 1 \<and> dn_status n = GOOD"
proof -
  have "fst (add_node demo_tick peer_id ''1.2.3.4'' 6881 demo_table demo_start)"
    by (simp add: add_node_result domIff table_map_def demo_table_def is_valid_node_id_def is_valid_ip_address_def is_valid_port_def peer_id_def)
  from given_quality_is_overwritten [OF demo_table_reachable this, of "1 / 10" 7]
  show ?thesis by (auto simp: demo_table_def default_routing_config_def)
qed

text \<open>The statistics count what is in the buckets: the five status counters add up to the total, which is the number of
  pointers in the buckets, and there are as many buckets as keys. For a reachable table without its own id the total is
  therefore 0 and so is the routing efficiency, however many peers are registered.\<close>

theorem statistics_count_buckets_only:
  fixes clk :: "'w clock"
  assumes "routing_reachable clk rt" "\<forall>a \<in> set (get_nodes_in_bucket 0 rt). dn_node_id (node_at rt a) \<noteq> rt_our_node_id rt"
  shows "let rt' = fst (update_statistics clk rt w); s = rt_stats rt' in
       rs_total_nodes s = rs_good_nodes s + rs_unknown_nodes s + rs_bad_nodes s + rs_questionable_nodes s + rs_evicted_nodes s
     \<and> rs_total_nodes s = 0 \<and> rs_total_buckets s = int (length (rt_buckets rt)) \<and> get_routing_efficiency rt' = 0"
proof -
  have ok: "table_ok rt" using assms(1) by (rule routing.inv_reachable)
  have "rb_nodes b = []" if "(k, b) \<in> set (rt_buckets rt)" for k b
  proof -
    have b: "smap_find (rt_buckets rt) k = Some b" using that smap_in_find [OF table_okD(2) [OF ok]] by simp
    with assms(2) table_okD(4) [OF ok b] show ?thesis
      by (cases "rb_nodes b") (force simp: bucket_ok_def get_nodes_in_bucket_def)+
  qed
  then have "map (\<lambda>(k, b). int (length (rb_nodes b))) (rt_buckets rt) = map (\<lambda>p. 0) (rt_buckets rt)" by auto
  then have "(\<Sum>(k, b)\<leftarrow>rt_buckets rt. int (length (rb_nodes b))) = sum_list (map (\<lambda>p. 0) (rt_buckets rt))" by (rule arg_cong)
  then have "(\<Sum>(k, b)\<leftarrow>rt_buckets rt. int (length (rb_nodes b))) = 0" by (simp only: sum_list_0)
  then show ?thesis
    using update_statistics_sum [of clk rt w] by (simp add: Let_def status_sum_def get_routing_efficiency_def)
qed

theorem statistics_count_buckets_only_witness:
  "rs_total_nodes (rt_stats (fst (update_statistics demo_tick demo_table demo_start))) = 0
   \<and> rs_total_buckets (rt_stats (fst (update_statistics demo_tick demo_table demo_start))) = int (length (rt_buckets demo_table))"
proof -
  have "\<forall>a \<in> set (get_nodes_in_bucket 0 demo_table). dn_node_id (node_at demo_table a) \<noteq> rt_our_node_id demo_table"
    using table_okD(4) [OF routing.inv_reachable [OF demo_table_reachable], of 0]
    by (cases "smap_find (rt_buckets demo_table) 0") (auto simp: get_nodes_in_bucket_def bucket_ok_def demo_table_def)
  from statistics_count_buckets_only [OF demo_table_reachable this, of demo_start] show ?thesis by (simp add: Let_def)
qed

section \<open>The monitor thread\<close>

inductive routing_wake :: "'w clock \<Rightarrow> routing_service \<Rightarrow> routing_service \<Rightarrow> bool" for clk :: "'w clock" where
  "mn_in_loop (rv_monitor s) \<Longrightarrow> routing_monitor_pass clk s w = Some (Some (t, w')) \<Longrightarrow> routing_wake clk s t"

inductive routing_operation :: "'w clock \<Rightarrow> routing_service \<Rightarrow> routing_service \<Rightarrow> bool" for clk :: "'w clock" where
  "routing_step clk (rv_table s) rt \<Longrightarrow> routing_operation clk s (s\<lparr>rv_table := rt\<rparr>)"

interpretation routing_monitor: monitored_service rv_monitor routing_start routing_stop "routing_wake clk" "routing_operation clk"
proof
  fix s t
  assume "routing_wake clk s t"
  then show "mn_in_loop (rv_monitor s) \<and> rv_monitor t = monitor_wake (rv_monitor s)"
    by cases (auto simp: routing_monitor_pass_def Let_def split: if_splits option.splits prod.splits)
qed (auto simp: routing_start_def routing_stop_def elim: routing_operation.cases)

text \<open>Everything that can happen to the service.\<close>

definition routing_call :: "'w clock \<Rightarrow> routing_service \<Rightarrow> routing_service \<Rightarrow> bool" where
  "routing_call clk s t \<longleftrightarrow> t = routing_start s \<or> t = routing_stop s \<or> routing_wake clk s t \<or> routing_operation clk s t"

lemma routing_never_revived:
  "(routing_call clk)\<^sup>*\<^sup>* s t \<Longrightarrow> mn_joinable (rv_monitor s) \<Longrightarrow> \<not> mn_in_loop (rv_monitor s) \<Longrightarrow>
     routing_is_running (routing_start t) \<and> (\<nexists>u. routing_wake clk t u)"
  using routing_monitor.never_revived [of clk s t] by (simp add: routing_call_def [abs_def] routing_is_running_def)

end
