(* ===== verification/Piece_Manager.thy ===== *)
theory Piece_Manager
  imports Complex_Main Std_Containers Hash_Format External_World Monitor_Thread
begin

text \<open>
  \<^verbatim>\<open>MetadataPieceManager\<close> of \<^verbatim>\<open>metadata_piece_manager.cpp\<close> and its header: the pieces of the metadata of each torrent, by info hash and
  piece index. A piece is reached through one slot of the map only, so the map holds the pieces
  themselves. \<^verbatim>\<open>pieces_[info_hash]\<close> inserts an empty map when the hash is new; so do the operations here. SHA-1 (OpenSSL) and the
  clock are parameters. Members that are value-initialised and not assigned are zero. Scores are
  exact quotients. No function of the source adds an assembly, so the manager has none; configuration members that no
  function reads are left out.
\<close>

section \<open>Definitions\<close>

datatype piece_status = MISSING | REQUESTED | RECEIVED | VALIDATED | INVALID | DUPLICATE | CORRUPTED | EXPIRED

record piece_config =
  pc_max_piece_size :: nat
  pc_max_total_size :: nat
  pc_piece_timeout :: int

definition default_piece_config :: piece_config where
  "default_piece_config = \<lparr>pc_max_piece_size = 16384, pc_max_total_size = 1024 * 1024, pc_piece_timeout = 30000\<rparr>"

record metadata_piece =
  mp_info_hash :: string
  mp_piece_index :: int
  mp_status :: piece_status
  mp_data :: string
  mp_checksum :: string
  mp_created_at :: time
  mp_updated_at :: time
  mp_expires_at :: time
  mp_request_count :: int
  mp_retry_count :: int
  mp_last_request :: time
  mp_last_response :: time
  mp_quality_score :: rat
  mp_validation_attempts :: int
  mp_successful_validations :: int
  mp_failed_validations :: int
  mp_metadata :: "(string, string) smap"

record piece_statistics =
  ps_total_pieces :: int
  ps_missing_pieces :: int
  ps_requested_pieces :: int
  ps_received_pieces :: int
  ps_validated_pieces :: int
  ps_invalid_pieces :: int
  ps_duplicate_pieces :: int
  ps_corrupted_pieces :: int
  ps_expired_pieces :: int
  ps_avg_quality_score :: rat
  ps_last_update :: time

type_synonym piece_map = "(int, metadata_piece) smap"

record piece_manager =
  pm_config :: piece_config
  pm_pieces :: "(string, piece_map) smap"
  pm_stats :: piece_statistics

definition empty_piece_statistics :: piece_statistics where
  "empty_piece_statistics = \<lparr>ps_total_pieces = 0, ps_missing_pieces = 0, ps_requested_pieces = 0, ps_received_pieces = 0,
     ps_validated_pieces = 0, ps_invalid_pieces = 0, ps_duplicate_pieces = 0, ps_corrupted_pieces = 0,
     ps_expired_pieces = 0, ps_avg_quality_score = 0, ps_last_update = 0\<rparr>"

definition new_piece_manager :: "piece_config \<Rightarrow> piece_manager" where
  "new_piece_manager config = \<lparr>pm_config = config, pm_pieces = [], pm_stats = empty_piece_statistics\<rparr>"

subsection \<open>Validity\<close>

definition is_valid_info_hash :: "string \<Rightarrow> bool" where
  "is_valid_info_hash info_hash \<longleftrightarrow> length info_hash = 40"

definition is_valid_piece_index :: "int \<Rightarrow> bool" where
  "is_valid_piece_index piece_index \<longleftrightarrow> piece_index \<ge> 0"

definition is_valid_piece_data :: "piece_config \<Rightarrow> string \<Rightarrow> bool" where
  "is_valid_piece_data config data \<longleftrightarrow> data \<noteq> [] \<and> length data \<le> pc_max_piece_size config"

definition validate_piece_data :: "piece_config \<Rightarrow> string \<Rightarrow> bool" where
  "validate_piece_data config data \<longleftrightarrow> data \<noteq> [] \<and> length data \<le> pc_max_piece_size config"

definition calculate_piece_checksum :: "(string \<Rightarrow> string) \<Rightarrow> string \<Rightarrow> string" where
  "calculate_piece_checksum sha1 data = concat (map hex_byte (sha1 data))"

definition update_piece_quality :: "bool \<Rightarrow> metadata_piece \<Rightarrow> metadata_piece" where
  "update_piece_quality success piece =
     (let p1 = (if success then piece\<lparr>mp_successful_validations := mp_successful_validations piece + 1\<rparr>
                else piece\<lparr>mp_failed_validations := mp_failed_validations piece + 1\<rparr>);
          p2 = p1\<lparr>mp_validation_attempts := mp_validation_attempts p1 + 1\<rparr>
      in if mp_validation_attempts p2 > 0
         then p2\<lparr>mp_quality_score := of_int (mp_successful_validations p2) / of_int (mp_validation_attempts p2)\<rparr> else p2)"

definition determine_piece_status :: "piece_config \<Rightarrow> metadata_piece \<Rightarrow> piece_status" where
  "determine_piece_status config piece =
     (if mp_status piece = RECEIVED \<and> mp_data piece = [] then MISSING
      else if mp_status piece = RECEIVED \<and> mp_data piece \<noteq> [] then
        (if validate_piece_data config (mp_data piece) then VALIDATED else INVALID)
      else mp_status piece)"

subsection \<open>Pieces\<close>

text \<open>\<^verbatim>\<open>pieces_[info_hash]\<close>, and writing one slot of it.\<close>

definition pieces_of :: "string \<Rightarrow> piece_manager \<Rightarrow> piece_map" where
  "pieces_of info_hash pm = (case smap_find (pm_pieces pm) info_hash of Some m \<Rightarrow> m | None \<Rightarrow> [])"

definition put_pieces :: "string \<Rightarrow> piece_map \<Rightarrow> piece_manager \<Rightarrow> piece_manager" where
  "put_pieces info_hash m pm = pm\<lparr>pm_pieces := smap_update info_hash m (pm_pieces pm)\<rparr>"

definition put_piece :: "string \<Rightarrow> int \<Rightarrow> metadata_piece \<Rightarrow> piece_manager \<Rightarrow> piece_manager" where
  "put_piece info_hash piece_index piece pm =
     put_pieces info_hash (smap_update piece_index piece (pieces_of info_hash pm)) pm"

definition add_piece ::
  "(string \<Rightarrow> string) \<Rightarrow> 'w clock \<Rightarrow> string \<Rightarrow> int \<Rightarrow> string \<Rightarrow> piece_manager \<Rightarrow> 'w \<Rightarrow> bool \<times> piece_manager \<times> 'w" where
  "add_piece sha1 clk info_hash piece_index data pm w =
     (if \<not> is_valid_info_hash info_hash \<or> \<not> is_valid_piece_index piece_index \<or> \<not> is_valid_piece_data (pm_config pm) data
      then (False, pm, w)
      else
        let (t, w1) = clk w;
            piece = \<lparr>mp_info_hash = info_hash, mp_piece_index = piece_index, mp_status = RECEIVED, mp_data = data,
              mp_checksum = calculate_piece_checksum sha1 data, mp_created_at = t, mp_updated_at = t,
              mp_expires_at = t + pc_piece_timeout (pm_config pm) * 1000000, mp_request_count = 0, mp_retry_count = 0,
              mp_last_request = 0, mp_last_response = 0, mp_quality_score = 1, mp_validation_attempts = 0,
              mp_successful_validations = 0, mp_failed_validations = 0, mp_metadata = []\<rparr>
        in (True, put_piece info_hash piece_index piece pm, w1))"

definition request_piece :: "'w clock \<Rightarrow> string \<Rightarrow> int \<Rightarrow> piece_manager \<Rightarrow> 'w \<Rightarrow> bool \<times> piece_manager \<times> 'w" where
  "request_piece clk info_hash piece_index pm w =
     (if \<not> is_valid_info_hash info_hash \<or> \<not> is_valid_piece_index piece_index then (False, pm, w)
      else case smap_find (pieces_of info_hash pm) piece_index of
          Some piece \<Rightarrow>
            (if mp_status piece = REQUESTED then (False, pm, w)
             else let (t, w1) = clk w
                  in (True, put_piece info_hash piece_index
                       (piece\<lparr>mp_status := REQUESTED, mp_request_count := mp_request_count piece + 1, mp_last_request := t\<rparr>) pm, w1))
        | None \<Rightarrow>
            let (t, w1) = clk w;
                piece = \<lparr>mp_info_hash = info_hash, mp_piece_index = piece_index, mp_status = REQUESTED, mp_data = [],
                  mp_checksum = [], mp_created_at = t, mp_updated_at = t,
                  mp_expires_at = t + pc_piece_timeout (pm_config pm) * 1000000, mp_request_count = 1, mp_retry_count = 0,
                  mp_last_request = t, mp_last_response = 0, mp_quality_score = 0, mp_validation_attempts = 0,
                  mp_successful_validations = 0, mp_failed_validations = 0, mp_metadata = []\<rparr>
            in (True, put_piece info_hash piece_index piece pm, w1))"

text \<open>The common shape of the four marking operations: the slot must exist; the clock is read when it does.\<close>

definition mark_piece ::
  "'w clock \<Rightarrow> string \<Rightarrow> int \<Rightarrow> (time \<Rightarrow> metadata_piece \<Rightarrow> metadata_piece) \<Rightarrow> piece_manager \<Rightarrow> 'w \<Rightarrow> bool \<times> piece_manager \<times> 'w" where
  "mark_piece clk info_hash piece_index f pm w =
     (case smap_find (pieces_of info_hash pm) piece_index of
        Some piece \<Rightarrow> let (t, w1) = clk w in (True, put_piece info_hash piece_index (f t piece) pm, w1)
      | None \<Rightarrow> (False, put_pieces info_hash (pieces_of info_hash pm) pm, w))"

definition mark_piece_received ::
  "(string \<Rightarrow> string) \<Rightarrow> 'w clock \<Rightarrow> string \<Rightarrow> int \<Rightarrow> string \<Rightarrow> piece_manager \<Rightarrow> 'w \<Rightarrow> bool \<times> piece_manager \<times> 'w" where
  "mark_piece_received sha1 clk info_hash piece_index data pm w =
     (if \<not> is_valid_info_hash info_hash \<or> \<not> is_valid_piece_index piece_index \<or> \<not> is_valid_piece_data (pm_config pm) data
      then (False, pm, w)
      else mark_piece clk info_hash piece_index (\<lambda>t piece. update_piece_quality True
        (piece\<lparr>mp_status := RECEIVED, mp_data := data, mp_checksum := calculate_piece_checksum sha1 data, mp_updated_at := t,
               mp_expires_at := t + pc_piece_timeout (pm_config pm) * 1000000\<rparr>)) pm w)"

definition mark_piece_invalid :: "'w clock \<Rightarrow> string \<Rightarrow> int \<Rightarrow> piece_manager \<Rightarrow> 'w \<Rightarrow> bool \<times> piece_manager \<times> 'w" where
  "mark_piece_invalid clk info_hash piece_index pm w =
     (if \<not> is_valid_info_hash info_hash \<or> \<not> is_valid_piece_index piece_index then (False, pm, w)
      else mark_piece clk info_hash piece_index (\<lambda>t piece. update_piece_quality False
        (piece\<lparr>mp_status := INVALID, mp_updated_at := t\<rparr>)) pm w)"

definition mark_piece_duplicate :: "'w clock \<Rightarrow> string \<Rightarrow> int \<Rightarrow> piece_manager \<Rightarrow> 'w \<Rightarrow> bool \<times> piece_manager \<times> 'w" where
  "mark_piece_duplicate clk info_hash piece_index pm w =
     (if \<not> is_valid_info_hash info_hash \<or> \<not> is_valid_piece_index piece_index then (False, pm, w)
      else mark_piece clk info_hash piece_index (\<lambda>t piece. piece\<lparr>mp_status := DUPLICATE, mp_updated_at := t\<rparr>) pm w)"

definition mark_piece_corrupted :: "'w clock \<Rightarrow> string \<Rightarrow> int \<Rightarrow> piece_manager \<Rightarrow> 'w \<Rightarrow> bool \<times> piece_manager \<times> 'w" where
  "mark_piece_corrupted clk info_hash piece_index pm w =
     (if \<not> is_valid_info_hash info_hash \<or> \<not> is_valid_piece_index piece_index then (False, pm, w)
      else mark_piece clk info_hash piece_index (\<lambda>t piece. update_piece_quality False
        (piece\<lparr>mp_status := CORRUPTED, mp_updated_at := t\<rparr>)) pm w)"

subsection \<open>Lookups\<close>

definition get_piece :: "string \<Rightarrow> int \<Rightarrow> piece_manager \<Rightarrow> metadata_piece option" where
  "get_piece info_hash piece_index pm =
     (case smap_find (pm_pieces pm) info_hash of Some m \<Rightarrow> smap_find m piece_index | None \<Rightarrow> None)"

definition get_pieces :: "string \<Rightarrow> piece_manager \<Rightarrow> piece_map" where
  "get_pieces info_hash pm = (case smap_find (pm_pieces pm) info_hash of Some m \<Rightarrow> m | None \<Rightarrow> [])"

definition get_pieces_by_status :: "string \<Rightarrow> piece_status \<Rightarrow> piece_manager \<Rightarrow> int list" where
  "get_pieces_by_status info_hash status pm =
     (case smap_find (pm_pieces pm) info_hash of
        Some m \<Rightarrow> map fst (filter (\<lambda>(i, p). mp_status p = status) m) | None \<Rightarrow> [])"

definition has_piece :: "string \<Rightarrow> int \<Rightarrow> piece_manager \<Rightarrow> bool" where
  "has_piece info_hash piece_index pm \<longleftrightarrow> get_piece info_hash piece_index pm \<noteq> None"

definition is_piece_complete :: "string \<Rightarrow> int \<Rightarrow> piece_manager \<Rightarrow> bool" where
  "is_piece_complete info_hash piece_index pm =
     (case get_piece info_hash piece_index pm of Some p \<Rightarrow> mp_data p \<noteq> [] | None \<Rightarrow> False)"

definition piece_has_status :: "piece_status \<Rightarrow> string \<Rightarrow> int \<Rightarrow> piece_manager \<Rightarrow> bool" where
  "piece_has_status status info_hash piece_index pm =
     (case get_piece info_hash piece_index pm of Some p \<Rightarrow> mp_status p = status | None \<Rightarrow> False)"

definition get_piece_status :: "string \<Rightarrow> int \<Rightarrow> piece_manager \<Rightarrow> piece_status" where
  "get_piece_status info_hash piece_index pm =
     (case get_piece info_hash piece_index pm of Some p \<Rightarrow> mp_status p | None \<Rightarrow> MISSING)"

definition get_piece_data :: "string \<Rightarrow> int \<Rightarrow> piece_manager \<Rightarrow> string" where
  "get_piece_data info_hash piece_index pm = (case get_piece info_hash piece_index pm of Some p \<Rightarrow> mp_data p | None \<Rightarrow> [])"

definition get_piece_checksum :: "string \<Rightarrow> int \<Rightarrow> piece_manager \<Rightarrow> string" where
  "get_piece_checksum info_hash piece_index pm = (case get_piece info_hash piece_index pm of Some p \<Rightarrow> mp_checksum p | None \<Rightarrow> [])"

definition get_piece_quality_score :: "string \<Rightarrow> int \<Rightarrow> piece_manager \<Rightarrow> rat" where
  "get_piece_quality_score info_hash piece_index pm =
     (case get_piece info_hash piece_index pm of Some p \<Rightarrow> mp_quality_score p | None \<Rightarrow> 0)"

definition get_piece_request_count :: "string \<Rightarrow> int \<Rightarrow> piece_manager \<Rightarrow> int" where
  "get_piece_request_count info_hash piece_index pm =
     (case get_piece info_hash piece_index pm of Some p \<Rightarrow> mp_request_count p | None \<Rightarrow> 0)"

definition get_piece_expiration_time :: "string \<Rightarrow> int \<Rightarrow> piece_manager \<Rightarrow> time" where
  "get_piece_expiration_time info_hash piece_index pm =
     (case get_piece info_hash piece_index pm of Some p \<Rightarrow> mp_expires_at p | None \<Rightarrow> 0)"

text \<open>The metadata operations change the piece through the pointer that \<^verbatim>\<open>getPiece\<close> returned.\<close>

definition change_piece :: "string \<Rightarrow> int \<Rightarrow> (metadata_piece \<Rightarrow> metadata_piece) \<Rightarrow> piece_manager \<Rightarrow> bool \<times> piece_manager" where
  "change_piece info_hash piece_index f pm =
     (case get_piece info_hash piece_index pm of
        Some p \<Rightarrow> (True, put_piece info_hash piece_index (f p) pm) | None \<Rightarrow> (False, pm))"

definition set_piece_metadata :: "string \<Rightarrow> int \<Rightarrow> string \<Rightarrow> string \<Rightarrow> piece_manager \<Rightarrow> bool \<times> piece_manager" where
  "set_piece_metadata info_hash piece_index key val pm =
     change_piece info_hash piece_index (\<lambda>p. p\<lparr>mp_metadata := smap_update key val (mp_metadata p)\<rparr>) pm"

definition remove_piece_metadata :: "string \<Rightarrow> int \<Rightarrow> string \<Rightarrow> piece_manager \<Rightarrow> bool \<times> piece_manager" where
  "remove_piece_metadata info_hash piece_index key pm =
     change_piece info_hash piece_index (\<lambda>p. p\<lparr>mp_metadata := smap_erase key (mp_metadata p)\<rparr>) pm"

definition clear_piece_metadata :: "string \<Rightarrow> int \<Rightarrow> piece_manager \<Rightarrow> bool \<times> piece_manager" where
  "clear_piece_metadata info_hash piece_index pm = change_piece info_hash piece_index (\<lambda>p. p\<lparr>mp_metadata := []\<rparr>) pm"

definition force_piece_validation :: "string \<Rightarrow> int \<Rightarrow> piece_manager \<Rightarrow> bool \<times> piece_manager" where
  "force_piece_validation info_hash piece_index pm =
     (case get_piece info_hash piece_index pm of
        None \<Rightarrow> (False, pm)
      | Some p \<Rightarrow>
          if mp_data p = [] then (False, pm)
          else if validate_piece_data (pm_config pm) (mp_data p)
          then (True, put_piece info_hash piece_index (update_piece_quality True (p\<lparr>mp_status := VALIDATED\<rparr>)) pm)
          else (False, put_piece info_hash piece_index (update_piece_quality False (p\<lparr>mp_status := INVALID\<rparr>)) pm))"

subsection \<open>Expiry\<close>

fun monitor_piece_map :: "'w clock \<Rightarrow> piece_config \<Rightarrow> piece_map \<Rightarrow> 'w \<Rightarrow> piece_map \<times> 'w" where
  "monitor_piece_map clk config [] w = ([], w)"
| "monitor_piece_map clk config ((i, p) # m) w =
     (let (p1, w1) = (if mp_status p = REQUESTED then
                        let (now, w1) = clk w
                        in (if now - mp_last_request p > pc_piece_timeout config * 1000000 then p\<lparr>mp_status := EXPIRED\<rparr> else p, w1)
                      else (p, w));
          (m1, w2) = monitor_piece_map clk config m w1
      in ((i, p1) # m1, w2))"

fun monitor_all_pieces :: "'w clock \<Rightarrow> piece_config \<Rightarrow> (string, piece_map) smap \<Rightarrow> 'w \<Rightarrow> (string, piece_map) smap \<times> 'w" where
  "monitor_all_pieces clk config [] w = ([], w)"
| "monitor_all_pieces clk config ((h, m) # ms) w =
     (let (m1, w1) = monitor_piece_map clk config m w; (ms1, w2) = monitor_all_pieces clk config ms w1
      in ((h, m1) # ms1, w2))"

definition monitor_pieces :: "'w clock \<Rightarrow> piece_manager \<Rightarrow> 'w \<Rightarrow> piece_manager \<times> 'w" where
  "monitor_pieces clk pm w =
     (case monitor_all_pieces clk (pm_config pm) (pm_pieces pm) w of (ms, w1) \<Rightarrow> (pm\<lparr>pm_pieces := ms\<rparr>, w1))"

definition is_piece_expired :: "time \<Rightarrow> metadata_piece \<Rightarrow> bool" where
  "is_piece_expired now piece \<longleftrightarrow> now > mp_expires_at piece"

text \<open>The loops of \<^verbatim>\<open>cleanupExpiredPieces\<close> and \<^verbatim>\<open>clearExpiredPieces\<close>, with the number of erased pieces; each test reads the clock.\<close>

fun drop_expired :: "'w clock \<Rightarrow> piece_map \<Rightarrow> 'w \<Rightarrow> int \<times> piece_map \<times> 'w" where
  "drop_expired clk [] w = (0, [], w)"
| "drop_expired clk ((i, p) # m) w =
     (let (now, w1) = clk w; (n, m1, w2) = drop_expired clk m w1
      in if is_piece_expired now p then (n + 1, m1, w2) else (n, (i, p) # m1, w2))"

fun drop_all_expired :: "'w clock \<Rightarrow> (string, piece_map) smap \<Rightarrow> 'w \<Rightarrow> int \<times> (string, piece_map) smap \<times> 'w" where
  "drop_all_expired clk [] w = (0, [], w)"
| "drop_all_expired clk ((h, m) # ms) w =
     (let (n1, m1, w1) = drop_expired clk m w; (n2, ms1, w2) = drop_all_expired clk ms w1
      in (n1 + n2, (h, m1) # ms1, w2))"

definition clear_expired_pieces :: "'w clock \<Rightarrow> piece_manager \<Rightarrow> 'w \<Rightarrow> int \<times> piece_manager \<times> 'w" where
  "clear_expired_pieces clk pm w =
     (let (now, w1) = clk w; (n, ms, w2) = drop_all_expired clk (pm_pieces pm) w1 in (n, pm\<lparr>pm_pieces := ms\<rparr>, w2))"

definition cleanup_expired_pieces :: "'w clock \<Rightarrow> piece_manager \<Rightarrow> 'w \<Rightarrow> piece_manager \<times> 'w" where
  "cleanup_expired_pieces clk pm w =
     (let (now, w1) = clk w; (n, ms, w2) = drop_all_expired clk (pm_pieces pm) w1 in (pm\<lparr>pm_pieces := ms\<rparr>, w2))"

text \<open>There are no assemblies to erase; the clock is read.\<close>

definition cleanup_expired_assemblies :: "'w clock \<Rightarrow> piece_manager \<Rightarrow> 'w \<Rightarrow> piece_manager \<times> 'w" where
  "cleanup_expired_assemblies clk pm w = (pm, snd (clk w))"

definition clear_pieces :: "string \<Rightarrow> piece_manager \<Rightarrow> int \<times> piece_manager" where
  "clear_pieces info_hash pm =
     (case smap_find (pm_pieces pm) info_hash of
        Some m \<Rightarrow> (int (length m), pm\<lparr>pm_pieces := smap_erase info_hash (pm_pieces pm)\<rparr>) | None \<Rightarrow> (0, pm))"

definition clear_all_pieces :: "piece_manager \<Rightarrow> int \<times> piece_manager" where
  "clear_all_pieces pm = (\<Sum>(h, m)\<leftarrow>pm_pieces pm. int (length m), pm\<lparr>pm_pieces := []\<rparr>)"

definition force_piece_cleanup :: "string \<Rightarrow> int \<Rightarrow> piece_manager \<Rightarrow> bool \<times> piece_manager" where
  "force_piece_cleanup info_hash piece_index pm =
     (case smap_find (pm_pieces pm) info_hash of
        None \<Rightarrow> (False, pm)
      | Some m \<Rightarrow>
          if smap_find m piece_index = None then (False, pm)
          else (True, put_pieces info_hash (smap_erase piece_index m) pm))"

subsection \<open>Counts and statistics\<close>

definition get_piece_count :: "string \<Rightarrow> piece_manager \<Rightarrow> int" where
  "get_piece_count info_hash pm = (case smap_find (pm_pieces pm) info_hash of Some m \<Rightarrow> int (length m) | None \<Rightarrow> 0)"

definition get_piece_count_by_status :: "string \<Rightarrow> piece_status \<Rightarrow> piece_manager \<Rightarrow> int" where
  "get_piece_count_by_status info_hash status pm = int (length (get_pieces_by_status info_hash status pm))"

definition get_total_piece_count :: "piece_manager \<Rightarrow> int" where
  "get_total_piece_count pm = (\<Sum>(h, m)\<leftarrow>pm_pieces pm. int (length m))"

definition get_total_piece_count_by_status :: "piece_status \<Rightarrow> piece_manager \<Rightarrow> int" where
  "get_total_piece_count_by_status status pm =
     (\<Sum>(h, m)\<leftarrow>pm_pieces pm. int (length (filter (\<lambda>(i, p). mp_status p = status) m)))"

definition get_piece_completion_ratio :: "string \<Rightarrow> piece_manager \<Rightarrow> rat" where
  "get_piece_completion_ratio info_hash pm =
     (if get_piece_count info_hash pm = 0 then 0
      else of_int (get_piece_count_by_status info_hash RECEIVED pm + get_piece_count_by_status info_hash VALIDATED pm)
           / of_int (get_piece_count info_hash pm))"

definition get_piece_validity_ratio :: "string \<Rightarrow> piece_manager \<Rightarrow> rat" where
  "get_piece_validity_ratio info_hash pm =
     (if get_piece_count info_hash pm = 0 then 0
      else of_int (get_piece_count_by_status info_hash VALIDATED pm) / of_int (get_piece_count info_hash pm))"

definition get_piece_quality_ratio :: "string \<Rightarrow> piece_manager \<Rightarrow> rat" where
  "get_piece_quality_ratio info_hash pm =
     (case smap_find (pm_pieces pm) info_hash of
        None \<Rightarrow> 0
      | Some m \<Rightarrow> if m = [] then 0 else (\<Sum>(i, p)\<leftarrow>m. mp_quality_score p) / of_nat (length m))"

definition get_piece_statistics :: "string \<Rightarrow> piece_manager \<Rightarrow> (string, int) smap" where
  "get_piece_statistics info_hash pm =
     (let n = (\<lambda>s. get_piece_count_by_status info_hash s pm)
      in [(''corrupted_pieces'', n CORRUPTED), (''duplicate_pieces'', n DUPLICATE), (''expired_pieces'', n EXPIRED),
          (''invalid_pieces'', n INVALID), (''missing_pieces'', n MISSING), (''received_pieces'', n RECEIVED),
          (''requested_pieces'', n REQUESTED), (''total_pieces'', get_piece_count info_hash pm),
          (''validated_pieces'', n VALIDATED)])"

definition get_piece_statistics_by_info_hash :: "piece_manager \<Rightarrow> (string, int) smap" where
  "get_piece_statistics_by_info_hash pm = map (\<lambda>(h, m). (h, int (length m))) (pm_pieces pm)"

definition count_piece_status :: "piece_status \<Rightarrow> piece_statistics \<Rightarrow> piece_statistics" where
  "count_piece_status status s =
     (case status of
        MISSING \<Rightarrow> s\<lparr>ps_missing_pieces := ps_missing_pieces s + 1\<rparr>
      | REQUESTED \<Rightarrow> s\<lparr>ps_requested_pieces := ps_requested_pieces s + 1\<rparr>
      | RECEIVED \<Rightarrow> s\<lparr>ps_received_pieces := ps_received_pieces s + 1\<rparr>
      | VALIDATED \<Rightarrow> s\<lparr>ps_validated_pieces := ps_validated_pieces s + 1\<rparr>
      | INVALID \<Rightarrow> s\<lparr>ps_invalid_pieces := ps_invalid_pieces s + 1\<rparr>
      | DUPLICATE \<Rightarrow> s\<lparr>ps_duplicate_pieces := ps_duplicate_pieces s + 1\<rparr>
      | CORRUPTED \<Rightarrow> s\<lparr>ps_corrupted_pieces := ps_corrupted_pieces s + 1\<rparr>
      | EXPIRED \<Rightarrow> s\<lparr>ps_expired_pieces := ps_expired_pieces s + 1\<rparr>)"

text \<open>The accumulators: the statistics, the sum of the scores and the number of pieces with a score.\<close>

fun count_pieces :: "metadata_piece list \<Rightarrow> piece_statistics \<times> rat \<times> int \<Rightarrow> piece_statistics \<times> rat \<times> int" where
  "count_pieces [] acc = acc"
| "count_pieces (p # ps) (s, q, n) =
     count_pieces ps (count_piece_status (mp_status p) (s\<lparr>ps_total_pieces := ps_total_pieces s + 1\<rparr>), q + mp_quality_score p, n + 1)"

definition all_pieces :: "piece_manager \<Rightarrow> metadata_piece list" where
  "all_pieces pm = concat (map (\<lambda>(h, m). map snd m) (pm_pieces pm))"

definition update_piece_statistics :: "'w clock \<Rightarrow> piece_manager \<Rightarrow> 'w \<Rightarrow> piece_manager \<times> 'w" where
  "update_piece_statistics clk pm w =
     (let s0 = (pm_stats pm)\<lparr>ps_total_pieces := 0, ps_missing_pieces := 0, ps_requested_pieces := 0, ps_received_pieces := 0,
                 ps_validated_pieces := 0, ps_invalid_pieces := 0, ps_duplicate_pieces := 0, ps_corrupted_pieces := 0,
                 ps_expired_pieces := 0\<rparr>;
          (s1, q, n) = count_pieces (all_pieces pm) (s0, 0, 0);
          s2 = (if n > 0 then s1\<lparr>ps_avg_quality_score := q / of_int n\<rparr> else s1);
          (t, w1) = clk w
      in (pm\<lparr>pm_stats := s2\<lparr>ps_last_update := t\<rparr>\<rparr>, w1))"

definition reset_piece_statistics :: "piece_manager \<Rightarrow> piece_manager" where
  "reset_piece_statistics pm = pm\<lparr>pm_stats := empty_piece_statistics\<rparr>"

definition update_piece_config :: "piece_config \<Rightarrow> piece_manager \<Rightarrow> piece_manager" where
  "update_piece_config config pm = pm\<lparr>pm_config := config\<rparr>"

subsection \<open>Integrity\<close>

definition piece_intact :: "piece_config \<Rightarrow> metadata_piece \<Rightarrow> bool" where
  "piece_intact config p \<longleftrightarrow>
     \<not> length (mp_data p) > pc_max_piece_size config \<and> \<not> (mp_quality_score p < 0 \<or> mp_quality_score p > 1)"

definition validate_piece_manager_integrity :: "piece_manager \<Rightarrow> bool" where
  "validate_piece_manager_integrity pm \<longleftrightarrow> list_all (piece_intact (pm_config pm)) (all_pieces pm)"

text \<open>
  \<^verbatim>\<open>getTotalPieceCount() > max_total_size / max_piece_size * 10\<close> in \<^verbatim>\<open>size_t\<close> arithmetic; \<open>None\<close> is the division by zero.
\<close>

definition too_many_pieces :: "piece_manager \<Rightarrow> bool option" where
  "too_many_pieces pm =
     (if pc_max_piece_size (pm_config pm) = 0 then None
      else Some (to_size_t (get_total_piece_count pm) >
        (pc_max_total_size (pm_config pm) div pc_max_piece_size (pm_config pm) * 10) mod 2 ^ 64))"

definition get_piece_manager_issues :: "piece_manager \<Rightarrow> string list option" where
  "get_piece_manager_issues pm =
     (case too_many_pieces pm of
        None \<Rightarrow> None
      | Some many \<Rightarrow>
          Some ((if \<not> validate_piece_manager_integrity pm then [''Piece manager integrity check failed''] else []) @
            (if many then [''Too many pieces collected''] else []) @
            (if of_int (get_total_piece_count_by_status INVALID pm) > of_int (get_total_piece_count pm) * (1 / 2 :: rat)
             then [''High invalid piece rate''] else [])))"

definition repair_piece_manager :: "'w clock \<Rightarrow> piece_manager \<Rightarrow> 'w \<Rightarrow> (int \<times> piece_manager \<times> 'w) option" where
  "repair_piece_manager clk pm w =
     (let (n1, pm1) = (if \<not> validate_piece_manager_integrity pm then clear_all_pieces pm else (0, pm))
      in case too_many_pieces pm1 of
           None \<Rightarrow> None
         | Some many \<Rightarrow>
             if many then (case clear_expired_pieces clk pm1 w of (n2, pm2, w1) \<Rightarrow> Some (n1 + n2, pm2, w1))
             else Some (n1, pm1, w))"

subsection \<open>The service\<close>

record piece_service =
  pv_manager :: piece_manager
  pv_monitor :: monitor

definition piece_start :: "piece_service \<Rightarrow> piece_service" where
  "piece_start s = s\<lparr>pv_monitor := monitor_start (pv_monitor s)\<rparr>"

definition piece_stop :: "piece_service \<Rightarrow> piece_service" where
  "piece_stop s = s\<lparr>pv_monitor := monitor_stop (pv_monitor s)\<rparr>"

definition piece_is_running :: "piece_service \<Rightarrow> bool" where
  "piece_is_running s \<longleftrightarrow> monitor_is_running (pv_monitor s)"

text \<open>One pass of \<^verbatim>\<open>pieceMonitorLoop\<close> after the wait.\<close>

definition piece_monitor_pass :: "'w clock \<Rightarrow> piece_service \<Rightarrow> 'w \<Rightarrow> piece_service \<times> 'w" where
  "piece_monitor_pass clk s w =
     (let s1 = s\<lparr>pv_monitor := monitor_wake (pv_monitor s)\<rparr>
      in if mn_should_stop (pv_monitor s) then (s1, w)
         else case monitor_pieces clk (pv_manager s) w of
           (pm1, w1) \<Rightarrow>
             (case cleanup_expired_pieces clk pm1 w1 of
                (pm2, w2) \<Rightarrow>
                  (case cleanup_expired_assemblies clk pm2 w2 of
                     (pm3, w3) \<Rightarrow>
                       (case update_piece_statistics clk pm3 w3 of (pm4, w4) \<Rightarrow> (s1\<lparr>pv_manager := pm4\<rparr>, w4)))))"

end
