(* ===== verification/Piece_Properties.thy ===== *)
theory Piece_Properties
  imports Piece_Manager State_Machine
begin

text \<open>
  The piece manager as a machine over the manager and the outside world: every public operation, the
  parts of the monitor pass, and the passing of time. The invariant has a part about the pieces and a
  part about their times, which holds when the clock does not run backwards and the timeout is never
  changed. The machine has the set \<open>C\<close> of the configurations that the manager is given, by its
  constructor or by \<^verbatim>\<open>updateConfig\<close>, as a parameter; \<open>UNIV\<close> is no restriction.
\<close>

section \<open>The machine\<close>

inductive piece_step :: "piece_config set \<Rightarrow> (string \<Rightarrow> string) \<Rightarrow> 'w clock \<Rightarrow> piece_manager \<times> 'w \<Rightarrow> piece_manager \<times> 'w \<Rightarrow> bool"
  for C :: "piece_config set" and sha1 :: "string \<Rightarrow> string" and clk :: "'w clock" where
  add: "piece_step C sha1 clk (pm, w) (snd (add_piece sha1 clk h i d pm w))"
| request: "piece_step C sha1 clk (pm, w) (snd (request_piece clk h i pm w))"
| received: "piece_step C sha1 clk (pm, w) (snd (mark_piece_received sha1 clk h i d pm w))"
| invalid: "piece_step C sha1 clk (pm, w) (snd (mark_piece_invalid clk h i pm w))"
| duplicate: "piece_step C sha1 clk (pm, w) (snd (mark_piece_duplicate clk h i pm w))"
| corrupted: "piece_step C sha1 clk (pm, w) (snd (mark_piece_corrupted clk h i pm w))"
| set_metadata: "piece_step C sha1 clk (pm, w) (snd (set_piece_metadata h i k v pm), w)"
| remove_metadata: "piece_step C sha1 clk (pm, w) (snd (remove_piece_metadata h i k pm), w)"
| clear_metadata: "piece_step C sha1 clk (pm, w) (snd (clear_piece_metadata h i pm), w)"
| validate: "piece_step C sha1 clk (pm, w) (snd (force_piece_validation h i pm), w)"
| monitor: "piece_step C sha1 clk (pm, w) (monitor_pieces clk pm w)"
| cleanup: "piece_step C sha1 clk (pm, w) (cleanup_expired_pieces clk pm w)"
| expire: "piece_step C sha1 clk (pm, w) (snd (clear_expired_pieces clk pm w))"
| clear: "piece_step C sha1 clk (pm, w) (snd (clear_pieces h pm), w)"
| clear_all: "piece_step C sha1 clk (pm, w) (snd (clear_all_pieces pm), w)"
| erase: "piece_step C sha1 clk (pm, w) (snd (force_piece_cleanup h i pm), w)"
| statistics: "piece_step C sha1 clk (pm, w) (update_piece_statistics clk pm w)"
| reset: "piece_step C sha1 clk (pm, w) (reset_piece_statistics pm, w)"
| repair: "repair_piece_manager clk pm w = Some (n, pm', w') \<Longrightarrow> piece_step C sha1 clk (pm, w) (pm', w')"
| config: "c \<in> C \<Longrightarrow> piece_step C sha1 clk (pm, w) (update_piece_config c pm, w)"
| tick: "fst (clk w) \<le> fst (clk w') \<Longrightarrow> piece_step C sha1 clk (pm, w) (pm, w')"

definition piece_init :: "piece_config set \<Rightarrow> piece_manager \<times> 'w \<Rightarrow> bool" where
  "piece_init C s \<longleftrightarrow> (\<exists>config \<in> C. \<exists>w. s = (new_piece_manager config, w))"

section \<open>The invariant\<close>

definition scores_ok :: "metadata_piece \<Rightarrow> bool" where
  "scores_ok p \<longleftrightarrow> 0 \<le> mp_successful_validations p \<and> 0 \<le> mp_failed_validations p
     \<and> mp_validation_attempts p = mp_successful_validations p + mp_failed_validations p
     \<and> 0 \<le> mp_quality_score p \<and> mp_quality_score p \<le> 1"

definition times_ok :: "'w clock \<Rightarrow> piece_config \<Rightarrow> 'w \<Rightarrow> metadata_piece \<Rightarrow> bool" where
  "times_ok clk c w p \<longleftrightarrow> mp_expires_at p \<le> fst (clk w) + pc_piece_timeout c * 1000000
     \<and> (mp_status p = REQUESTED \<longrightarrow> mp_expires_at p \<le> mp_last_request p + pc_piece_timeout c * 1000000)
     \<and> (mp_status p = EXPIRED \<longrightarrow> mp_expires_at p < fst (clk w))"

text \<open>Data that one of the configurations allowed, and configurations with one timeout.\<close>

definition fits :: "piece_config set \<Rightarrow> string \<Rightarrow> bool" where
  "fits C d \<longleftrightarrow> (\<exists>c \<in> C. length d \<le> pc_max_piece_size c)"

definition same_timeout :: "piece_config set \<Rightarrow> bool" where
  "same_timeout C \<longleftrightarrow> (\<forall>c \<in> C. \<forall>c' \<in> C. pc_piece_timeout c = pc_piece_timeout c')"

lemma fits_current: "c \<in> C \<Longrightarrow> length d \<le> pc_max_piece_size c \<Longrightarrow> fits C d"
  by (auto simp: fits_def)

lemma same_timeoutD: "same_timeout C \<Longrightarrow> c \<in> C \<Longrightarrow> c' \<in> C \<Longrightarrow> pc_piece_timeout c = pc_piece_timeout c'"
  unfolding same_timeout_def by blast

definition piece_ok :: "piece_config set \<Rightarrow> 'w clock \<Rightarrow> piece_config \<Rightarrow> 'w \<Rightarrow> string \<Rightarrow> int \<Rightarrow> metadata_piece \<Rightarrow> bool" where
  "piece_ok C clk c w h i p \<longleftrightarrow> mp_info_hash p = h \<and> mp_piece_index p = i \<and> is_valid_info_hash h \<and> is_valid_piece_index i
     \<and> fits C (mp_data p) \<and> scores_ok p \<and> (mono_clock clk \<and> same_timeout C \<longrightarrow> times_ok clk c w p)"

definition maps_ok :: "piece_manager \<Rightarrow> bool" where
  "maps_ok pm \<longleftrightarrow> smap_ok (pm_pieces pm) \<and> (\<forall>h m. smap_find (pm_pieces pm) h = Some m \<longrightarrow> smap_ok m)"

definition manager_ok :: "piece_config set \<Rightarrow> 'w clock \<Rightarrow> piece_manager \<times> 'w \<Rightarrow> bool" where
  "manager_ok C clk s \<longleftrightarrow> maps_ok (fst s) \<and> pm_config (fst s) \<in> C
     \<and> (\<forall>h i p. get_piece h i (fst s) = Some p \<longrightarrow> piece_ok C clk (pm_config (fst s)) (snd s) h i p)"

lemma manager_fits: "manager_ok C clk (pm, w) \<Longrightarrow> length d \<le> pc_max_piece_size (pm_config pm) \<Longrightarrow> fits C d"
  using fits_current [of "pm_config pm" C d] by (simp add: manager_ok_def)

lemma piece_ok_later: "later clk w w' \<Longrightarrow> piece_ok C clk c w h i p \<Longrightarrow> piece_ok C clk c w' h i p"
  by (auto simp: piece_ok_def times_ok_def later_def)

subsection \<open>The store as a map\<close>

lemma get_piece_pieces_of: "get_piece h i pm = smap_find (pieces_of h pm) i"
  by (simp add: get_piece_def pieces_of_def split: option.splits)

lemma get_piece_put [simp]:
  "get_piece h' i' (put_piece h i p pm) = (if h' = h \<and> i' = i then Some p else get_piece h' i' pm)"
  by (auto simp: get_piece_pieces_of put_piece_def put_pieces_def) (auto simp: pieces_of_def)

lemma get_piece_put_same [simp]: "get_piece h' i' (put_pieces h (pieces_of h pm) pm) = get_piece h' i' pm"
  by (auto simp: get_piece_def put_pieces_def pieces_of_def split: option.splits)

lemma maps_ok_pieces_of: "maps_ok pm \<Longrightarrow> smap_ok (pieces_of h pm)"
  by (auto simp: maps_ok_def pieces_of_def split: option.splits)

lemma maps_ok_put_pieces: "maps_ok pm \<Longrightarrow> smap_ok m \<Longrightarrow> maps_ok (put_pieces h m pm)"
  by (auto simp: maps_ok_def put_pieces_def)

lemma maps_ok_put [simp, intro]: "maps_ok pm \<Longrightarrow> maps_ok (put_piece h i p pm)"
  by (auto simp: put_piece_def intro: maps_ok_put_pieces dest: maps_ok_pieces_of)

lemma put_config [simp]: "pm_config (put_piece h i p pm) = pm_config pm" "pm_config (put_pieces h m pm) = pm_config pm"
  by (simp_all add: put_piece_def put_pieces_def)

lemma manager_ok_put:
  assumes "manager_ok C clk (pm, w)" "piece_ok C clk (pm_config pm) w' h i p" "later clk w w'"
  shows "manager_ok C clk (put_piece h i p pm, w')"
  using assms by (auto simp: manager_ok_def intro: piece_ok_later)

lemma manager_ok_later: "manager_ok C clk (pm, w) \<Longrightarrow> later clk w w' \<Longrightarrow> manager_ok C clk (pm, w')"
  by (auto simp: manager_ok_def intro: piece_ok_later)

lemma manager_ok_same:
  "manager_ok C clk (pm, w) \<Longrightarrow> pm_pieces pm' = pm_pieces pm \<Longrightarrow> pm_config pm' = pm_config pm \<Longrightarrow> manager_ok C clk (pm', w)"
  by (auto simp: manager_ok_def maps_ok_def get_piece_def)

text \<open>Pieces that disappear do no harm.\<close>

lemma manager_ok_shrink:
  assumes "manager_ok C clk (pm, w)" "maps_ok pm'" "pm_config pm' = pm_config pm" "later clk w w'"
    and "\<And>h i p. get_piece h i pm' = Some p \<Longrightarrow> get_piece h i pm = Some p"
  shows "manager_ok C clk (pm', w')"
  using assms by (auto simp: manager_ok_def intro: piece_ok_later)

subsection \<open>The operations keep it\<close>

lemma update_piece_quality_frame [simp]:
  "mp_info_hash (update_piece_quality s p) = mp_info_hash p" "mp_piece_index (update_piece_quality s p) = mp_piece_index p"
  "mp_data (update_piece_quality s p) = mp_data p" "mp_status (update_piece_quality s p) = mp_status p"
  "mp_expires_at (update_piece_quality s p) = mp_expires_at p" "mp_last_request (update_piece_quality s p) = mp_last_request p"
  "mp_checksum (update_piece_quality s p) = mp_checksum p"
  by (simp_all add: update_piece_quality_def Let_def)

lemma scores_ok_frame [simp]:
  "scores_ok (p\<lparr>mp_status := st\<rparr>) = scores_ok p" "scores_ok (p\<lparr>mp_data := d\<rparr>) = scores_ok p"
  "scores_ok (p\<lparr>mp_checksum := d\<rparr>) = scores_ok p" "scores_ok (p\<lparr>mp_updated_at := t\<rparr>) = scores_ok p"
  "scores_ok (p\<lparr>mp_expires_at := t\<rparr>) = scores_ok p" "scores_ok (p\<lparr>mp_request_count := n\<rparr>) = scores_ok p"
  "scores_ok (p\<lparr>mp_last_request := t\<rparr>) = scores_ok p" "scores_ok (p\<lparr>mp_metadata := m\<rparr>) = scores_ok p"
  by (simp_all add: scores_ok_def)

lemma scores_ok_update [simp]: "scores_ok p \<Longrightarrow> scores_ok (update_piece_quality s p)"
  by (auto simp: scores_ok_def update_piece_quality_def Let_def divide_le_eq_1 zero_le_divide_iff)

lemma times_ok_quality [simp]: "times_ok clk c w (update_piece_quality s p) = times_ok clk c w p"
  by (simp add: times_ok_def)

lemma mark_piece_ok:
  assumes "manager_ok C clk (pm, w)"
    and "\<And>t p. t = fst (clk w) \<Longrightarrow> piece_ok C clk (pm_config pm) (snd (clk w)) h i p \<Longrightarrow> piece_ok C clk (pm_config pm) (snd (clk w)) h i (f t p)"
  shows "manager_ok C clk (snd (mark_piece clk h i f pm w))"
proof (cases "get_piece h i pm")
  case None
  then have "snd (mark_piece clk h i f pm w) = (put_pieces h (pieces_of h pm) pm, w)"
    by (simp add: mark_piece_def get_piece_pieces_of)
  moreover have "manager_ok C clk (put_pieces h (pieces_of h pm) pm, w)"
    using assms(1) by (auto simp: manager_ok_def intro!: maps_ok_put_pieces maps_ok_pieces_of)
  ultimately show ?thesis by simp
next
  case (Some p)
  then have "piece_ok C clk (pm_config pm) w h i p" using assms(1) by (simp add: manager_ok_def)
  from piece_ok_later [OF later_clock this] assms(2) have "piece_ok C clk (pm_config pm) (snd (clk w)) h i (f (fst (clk w)) p)" by simp
  from manager_ok_put [OF assms(1) this later_clock] Some show ?thesis
    by (simp add: mark_piece_def get_piece_pieces_of case_prod_beta)
qed

lemma marks_ok:
  assumes "manager_ok C clk (pm, w)"
  shows "manager_ok C clk (snd (mark_piece_received sha1 clk h i d pm w))"
    and "manager_ok C clk (snd (mark_piece_invalid clk h i pm w))"
    and "manager_ok C clk (snd (mark_piece_duplicate clk h i pm w))"
    and "manager_ok C clk (snd (mark_piece_corrupted clk h i pm w))"
  unfolding mark_piece_received_def mark_piece_invalid_def mark_piece_duplicate_def mark_piece_corrupted_def
  using assms mono_clockD [of clk w] manager_fits [OF assms, of d]
  by (auto intro!: mark_piece_ok simp: piece_ok_def times_ok_def is_valid_piece_data_def)

lemma add_piece_ok:
  assumes "manager_ok C clk (pm, w)"
  shows "manager_ok C clk (snd (add_piece sha1 clk h i d pm w))"
  using assms manager_fits [OF assms, of d]
  by (auto simp: add_piece_def Let_def case_prod_beta intro!: manager_ok_put [OF assms])
    (auto simp: piece_ok_def times_ok_def scores_ok_def is_valid_piece_data_def dest: mono_clockD)

lemma request_piece_ok:
  assumes "manager_ok C clk (pm, w)"
  shows "manager_ok C clk (snd (request_piece clk h i pm w))"
proof -
  have "piece_ok C clk (pm_config pm) (snd (clk w)) h i (p\<lparr>mp_status := REQUESTED, mp_request_count := n, mp_last_request := fst (clk w)\<rparr>)"
    if "get_piece h i pm = Some p" for p n
    using assms that mono_clockD [of clk w] by (fastforce simp: manager_ok_def piece_ok_def times_ok_def)
  moreover have "piece_ok C clk (pm_config pm) (snd (clk w)) h i p"
    if "mp_info_hash p = h" "mp_piece_index p = i" "is_valid_info_hash h" "is_valid_piece_index i" "mp_data p = []" "scores_ok p"
      "mp_status p = REQUESTED" "mp_expires_at p = fst (clk w) + pc_piece_timeout (pm_config pm) * 1000000" "mp_last_request p = fst (clk w)" for p
    using that mono_clockD [of clk w] manager_fits [OF assms, of "[]"] by (auto simp: piece_ok_def times_ok_def)
  ultimately show ?thesis
    using assms
    by (auto simp: request_piece_def Let_def case_prod_beta get_piece_pieces_of scores_ok_def
        intro!: manager_ok_put [OF assms] split: option.splits)
qed

lemma change_piece_ok:
  assumes "manager_ok C clk (pm, w)" "\<And>p. piece_ok C clk (pm_config pm) w h i p \<Longrightarrow> piece_ok C clk (pm_config pm) w h i (f p)"
  shows "manager_ok C clk (snd (change_piece h i f pm), w)"
  using assms by (auto simp: change_piece_def manager_ok_def split: option.splits)

lemma metadata_ok:
  assumes "manager_ok C clk (pm, w)"
  shows "manager_ok C clk (snd (set_piece_metadata h i k v pm), w)" "manager_ok C clk (snd (remove_piece_metadata h i k pm), w)"
    "manager_ok C clk (snd (clear_piece_metadata h i pm), w)"
  unfolding set_piece_metadata_def remove_piece_metadata_def clear_piece_metadata_def
  by (auto intro!: change_piece_ok [OF assms] simp: piece_ok_def times_ok_def)

lemma force_piece_validation_ok:
  assumes "manager_ok C clk (pm, w)"
  shows "manager_ok C clk (snd (force_piece_validation h i pm), w)"
proof -
  have "piece_ok C clk (pm_config pm) w h i (update_piece_quality s (p\<lparr>mp_status := st\<rparr>))"
    if "get_piece h i pm = Some p" "st \<noteq> REQUESTED" "st \<noteq> EXPIRED" for p s st
    using assms that by (auto simp: manager_ok_def piece_ok_def times_ok_def)
  then show ?thesis
    using assms by (auto simp: force_piece_validation_def intro!: manager_ok_put [OF assms] split: option.splits)
qed

text \<open>The monitor: each piece is tested at some later time; a requested one may expire then.\<close>

definition monitored :: "'w clock \<Rightarrow> piece_config \<Rightarrow> 'w \<Rightarrow> 'w \<Rightarrow> metadata_piece \<Rightarrow> metadata_piece \<Rightarrow> bool" where
  "monitored clk c w w' p p' \<longleftrightarrow> p' = p \<or> (\<exists>v. later clk w v \<and> later clk (snd (clk v)) w' \<and> mp_status p = REQUESTED
     \<and> fst (clk v) - mp_last_request p > pc_piece_timeout c * 1000000 \<and> p' = p\<lparr>mp_status := EXPIRED\<rparr>)"

lemma monitored_extend:
  "monitored clk c w w' p p' \<Longrightarrow> later clk u w \<Longrightarrow> later clk w' v' \<Longrightarrow> monitored clk c u v' p p'"
  unfolding monitored_def by (meson later_trans)

text \<open>Two maps with the same keys and related values.\<close>

definition slots_related :: "('v \<Rightarrow> 'v \<Rightarrow> bool) \<Rightarrow> ('k, 'v) smap \<Rightarrow> ('k, 'v) smap \<Rightarrow> bool" where
  "slots_related R = list_all2 (\<lambda>x y. fst x = fst y \<and> R (snd x) (snd y))"

lemma slots_related_keys: "slots_related R m m' \<Longrightarrow> map fst m' = map fst m"
  unfolding slots_related_def by (induction rule: list_all2_induct) auto

lemma slots_related_find:
  "slots_related R m m' \<Longrightarrow> smap_find m' k = Some v' \<Longrightarrow> \<exists>v. smap_find m k = Some v \<and> R v v'"
  unfolding slots_related_def by (induction rule: list_all2_induct) (auto split: if_splits)

lemma slots_related_mono: "slots_related R m m' \<Longrightarrow> (\<And>v v'. R v v' \<Longrightarrow> S v v') \<Longrightarrow> slots_related S m m'"
  unfolding slots_related_def by (auto elim!: list_all2_mono)

lemma slots_related_Nil [simp]: "slots_related R [] []"
  by (simp add: slots_related_def)

lemma slots_related_Cons [simp]:
  "slots_related R ((k, v) # m) ((k', v') # m') \<longleftrightarrow> k = k' \<and> R v v' \<and> slots_related R m m'"
  by (auto simp: slots_related_def)

lemma monitor_piece_map_spec:
  "later clk w (snd (monitor_piece_map clk c m w))
   \<and> slots_related (monitored clk c w (snd (monitor_piece_map clk c m w))) m (fst (monitor_piece_map clk c m w))"
proof (induction m arbitrary: w)
  case (Cons x m)
  obtain i p where x: "x = (i, p)" by fastforce
  let ?w1 = "if mp_status p = REQUESTED then snd (clk w) else w"
  let ?p1 = "if mp_status p = REQUESTED \<and> fst (clk w) - mp_last_request p > pc_piece_timeout c * 1000000 then p\<lparr>mp_status := EXPIRED\<rparr> else p"
  let ?r = "monitor_piece_map clk c m ?w1"
  have r: "monitor_piece_map clk c (x # m) w = ((i, ?p1) # fst ?r, snd ?r)"
    by (simp add: x case_prod_beta Let_def)
  have l1: "later clk w ?w1" by simp
  have IH: "later clk ?w1 (snd ?r)" "slots_related (monitored clk c ?w1 (snd ?r)) m (fst ?r)" by (simp_all add: Cons.IH)
  have "monitored clk c w (snd ?r) p ?p1" using IH(1) by (auto simp: monitored_def)
  moreover have "slots_related (monitored clk c w (snd ?r)) m (fst ?r)"
    by (rule slots_related_mono [OF IH(2)]) (rule monitored_extend [OF _ l1 later_refl])
  ultimately show ?case using later_trans [OF l1 IH(1)] unfolding r by (simp add: x)
qed simp

lemma monitor_all_pieces_spec:
  "later clk w (snd (monitor_all_pieces clk c ms w))
   \<and> slots_related (slots_related (monitored clk c w (snd (monitor_all_pieces clk c ms w)))) ms (fst (monitor_all_pieces clk c ms w))"
proof (induction ms arbitrary: w)
  case (Cons x ms)
  obtain h m where x: "x = (h, m)" by fastforce
  let ?a = "monitor_piece_map clk c m w"
  let ?r = "monitor_all_pieces clk c ms (snd ?a)"
  have r: "monitor_all_pieces clk c (x # ms) w = ((h, fst ?a) # fst ?r, snd ?r)" by (simp add: x case_prod_beta Let_def)
  have a: "later clk w (snd ?a)" "slots_related (monitored clk c w (snd ?a)) m (fst ?a)"
    by (simp_all add: monitor_piece_map_spec)
  have IH: "later clk (snd ?a) (snd ?r)" "slots_related (slots_related (monitored clk c (snd ?a) (snd ?r))) ms (fst ?r)"
    by (simp_all add: Cons.IH)
  have "slots_related (monitored clk c w (snd ?r)) m (fst ?a)"
    by (rule slots_related_mono [OF a(2)]) (rule monitored_extend [OF _ later_refl IH(1)])
  moreover have "slots_related (slots_related (monitored clk c w (snd ?r))) ms (fst ?r)"
    by (rule slots_related_mono [OF IH(2)], erule slots_related_mono) (rule monitored_extend [OF _ a(1) later_refl])
  ultimately show ?case using later_trans [OF a(1) IH(1)] unfolding r by (simp add: x)
qed simp

lemma monitored_ok:
  assumes "monitored clk c w w' p p'" "piece_ok C clk c w h i p" "later clk w w'"
  shows "piece_ok C clk c w' h i p'"
proof (cases "p' = p")
  case True
  then show ?thesis using assms(2,3) by (auto intro: piece_ok_later)
next
  case False
  then obtain v where v: "later clk w v" "later clk (snd (clk v)) w'" "mp_status p = REQUESTED"
    "fst (clk v) - mp_last_request p > pc_piece_timeout c * 1000000" "p' = p\<lparr>mp_status := EXPIRED\<rparr>"
    using assms(1) by (auto simp: monitored_def)
  have "mp_expires_at p < fst (clk w')" if mono: "mono_clock clk" and same: "same_timeout C"
  proof -
    have "mp_expires_at p < fst (clk v)" using assms(2) mono same v(3,4) by (auto simp: piece_ok_def times_ok_def)
    also have "\<dots> \<le> fst (clk (snd (clk v)))" by (rule mono_clockD [OF mono])
    also have "\<dots> \<le> fst (clk w')" using v(2) mono by (simp add: later_def)
    finally show ?thesis .
  qed
  then show ?thesis using assms(2,3) v(5) by (auto simp: piece_ok_def times_ok_def later_def)
qed

lemma get_piece_related:
  assumes "slots_related (slots_related R) (pm_pieces pm) ms" "get_piece h i (pm\<lparr>pm_pieces := ms\<rparr>) = Some p'"
  shows "\<exists>p. get_piece h i pm = Some p \<and> R p p'"
proof -
  obtain m' where m': "smap_find ms h = Some m'" "smap_find m' i = Some p'"
    using assms(2) by (cases "smap_find ms h") (auto simp: get_piece_def)
  from slots_related_find [OF assms(1) m'(1)] obtain m where m: "smap_find (pm_pieces pm) h = Some m" "slots_related R m m'" by blast
  from slots_related_find [OF m(2) m'(2)] m(1) show ?thesis by (auto simp: get_piece_def)
qed

lemma maps_ok_related:
  assumes "slots_related (slots_related R) (pm_pieces pm) ms" "maps_ok pm"
  shows "maps_ok (pm\<lparr>pm_pieces := ms\<rparr>)"
proof -
  have "smap_ok m'" if m': "smap_find ms h = Some m'" for h m'
    using slots_related_find [OF assms(1) m'] slots_related_keys assms(2) by (fastforce simp: maps_ok_def smap_ok_def)
  with assms slots_related_keys [OF assms(1)] show ?thesis by (auto simp: maps_ok_def smap_ok_def)
qed

lemma monitor_pieces_ok:
  assumes "manager_ok C clk (pm, w)"
  shows "manager_ok C clk (monitor_pieces clk pm w)"
proof -
  let ?r = "monitor_all_pieces clk (pm_config pm) (pm_pieces pm) w"
  have spec: "later clk w (snd ?r)" "slots_related (slots_related (monitored clk (pm_config pm) w (snd ?r))) (pm_pieces pm) (fst ?r)"
    by (simp_all add: monitor_all_pieces_spec)
  have "piece_ok C clk (pm_config pm) (snd ?r) h i p'" if g: "get_piece h i (pm\<lparr>pm_pieces := fst ?r\<rparr>) = Some p'" for h i p'
    using get_piece_related [OF spec(2) g] monitored_ok [OF _ _ spec(1)] assms by (auto simp: manager_ok_def)
  moreover have "maps_ok (pm\<lparr>pm_pieces := fst ?r\<rparr>)" using maps_ok_related [OF spec(2)] assms by (simp add: manager_ok_def)
  ultimately show ?thesis using assms by (simp add: monitor_pieces_def case_prod_beta manager_ok_def)
qed

text \<open>Erasing: what stays was not expired at some later reading of the clock.\<close>

definition fresh_after :: "'w clock \<Rightarrow> 'w \<Rightarrow> metadata_piece \<Rightarrow> bool" where
  "fresh_after clk w p \<longleftrightarrow> (\<exists>v. later clk w v \<and> \<not> is_piece_expired (fst (clk v)) p)"

lemma fresh_after_earlier: "fresh_after clk v p \<Longrightarrow> later clk w v \<Longrightarrow> fresh_after clk w p"
  unfolding fresh_after_def by (meson later_trans)

lemma drop_expired_spec:
  "later clk w (snd (snd (drop_expired clk m w)))
   \<and> fst (drop_expired clk m w) = int (length m) - int (length (fst (snd (drop_expired clk m w))))
   \<and> (\<forall>x \<in> set (fst (snd (drop_expired clk m w))). x \<in> set m \<and> fresh_after clk w (snd x))
   \<and> (smap_ok m \<longrightarrow> smap_ok (fst (snd (drop_expired clk m w))))"
proof (induction m arbitrary: w)
  case (Cons x m)
  obtain i p where x: "x = (i, p)" by fastforce
  let ?r = "drop_expired clk m (snd (clk w))"
  have IH: "later clk (snd (clk w)) (snd (snd ?r))" "fst ?r = int (length m) - int (length (fst (snd ?r)))"
    "\<forall>y \<in> set (fst (snd ?r)). y \<in> set m \<and> fresh_after clk (snd (clk w)) (snd y)" "smap_ok m \<longrightarrow> smap_ok (fst (snd ?r))"
    using Cons.IH [of "snd (clk w)"] by simp_all
  have fresh: "\<forall>y \<in> set (fst (snd ?r)). y \<in> set m \<and> fresh_after clk w (snd y)"
    using IH(3) fresh_after_earlier [of clk "snd (clk w)" _ w] by simp
  have "fresh_after clk w p" if "\<not> is_piece_expired (fst (clk w)) p" using that by (auto simp: fresh_after_def)
  moreover have "smap_ok (x # m) \<longrightarrow> smap_ok (x # fst (snd ?r))" using IH(4) fresh by (auto simp: smap_ok_def)
  ultimately show ?case
    using IH(1,2,4) fresh later_trans [OF later_clock IH(1)] by (auto simp: x case_prod_beta Let_def smap_ok_def)
qed simp

lemma drop_all_expired_spec:
  "later clk w (snd (snd (drop_all_expired clk ms w)))
   \<and> fst (drop_all_expired clk ms w) = (\<Sum>(h, m)\<leftarrow>ms. int (length m)) - (\<Sum>(h, m)\<leftarrow>fst (snd (drop_all_expired clk ms w)). int (length m))
   \<and> slots_related (\<lambda>m m'. (smap_ok m \<longrightarrow> smap_ok m') \<and> (\<forall>x \<in> set m'. x \<in> set m \<and> fresh_after clk w (snd x)))
       ms (fst (snd (drop_all_expired clk ms w)))"
proof (induction ms arbitrary: w)
  case (Cons x ms)
  obtain h m where x: "x = (h, m)" by fastforce
  let ?a = "drop_expired clk m w"
  let ?r = "drop_all_expired clk ms (snd (snd ?a))"
  note a = drop_expired_spec [of clk w m]
  note IH = Cons.IH [of "snd (snd ?a)"]
  have la: "later clk w (snd (snd ?a))" and lr: "later clk (snd (snd ?a)) (snd (snd ?r))" using a IH by simp_all
  have "slots_related (\<lambda>m m'. (smap_ok m \<longrightarrow> smap_ok m') \<and> (\<forall>x \<in> set m'. x \<in> set m \<and> fresh_after clk w (snd x))) ms (fst (snd ?r))"
    by (rule slots_related_mono [OF IH [THEN conjunct2, THEN conjunct2]]) (auto intro: fresh_after_earlier [OF _ la])
  then show ?case using a IH later_trans [OF la lr] by (auto simp: x case_prod_beta Let_def)
qed simp

lemma drop_all_pieces:
  assumes "maps_ok pm"
  defines "ms \<equiv> \<lambda>clk w. fst (snd (drop_all_expired clk (pm_pieces pm) w))"
  shows "maps_ok (pm\<lparr>pm_pieces := ms clk w\<rparr>)"
    and "get_piece h i (pm\<lparr>pm_pieces := ms clk w\<rparr>) = Some p \<Longrightarrow> get_piece h i pm = Some p \<and> fresh_after clk w p"
proof -
  have rel: "slots_related (\<lambda>m m'. (smap_ok m \<longrightarrow> smap_ok m') \<and> (\<forall>x \<in> set m'. x \<in> set m \<and> fresh_after clk w (snd x)))
       (pm_pieces pm) (ms clk w)" using drop_all_expired_spec [of clk w "pm_pieces pm"] by (simp add: ms_def)
  have sub: "\<exists>m. smap_find (pm_pieces pm) h = Some m \<and> smap_ok m \<and> smap_ok m' \<and> (\<forall>x \<in> set m'. x \<in> set m \<and> fresh_after clk w (snd x))"
    if "smap_find (ms clk w) h = Some m'" for h m'
    using slots_related_find [OF rel that] assms(1) by (auto simp: maps_ok_def)
  then show "maps_ok (pm\<lparr>pm_pieces := ms clk w\<rparr>)"
    using slots_related_keys [OF rel] assms(1) by (auto simp: maps_ok_def smap_ok_def)
  assume "get_piece h i (pm\<lparr>pm_pieces := ms clk w\<rparr>) = Some p"
  then obtain m' where m': "smap_find (ms clk w) h = Some m'" "smap_find m' i = Some p"
    by (cases "smap_find (ms clk w) h") (auto simp: get_piece_def)
  then show "get_piece h i pm = Some p \<and> fresh_after clk w p"
    using sub [OF m'(1)] map_of_SomeD [OF m'(2)] by (fastforce simp: get_piece_def smap_in_find)
qed

lemma drop_all_expired_ok:
  assumes "manager_ok C clk (pm, w)"
  shows "manager_ok C clk (pm\<lparr>pm_pieces := fst (snd (drop_all_expired clk (pm_pieces pm) (snd (clk w))))\<rparr>,
     snd (snd (drop_all_expired clk (pm_pieces pm) (snd (clk w)))))"
proof (rule manager_ok_shrink [OF assms])
  have ok: "maps_ok pm" using assms by (simp add: manager_ok_def)
  show "maps_ok (pm\<lparr>pm_pieces := fst (snd (drop_all_expired clk (pm_pieces pm) (snd (clk w))))\<rparr>)"
    by (rule drop_all_pieces(1) [OF ok])
  show "get_piece h i pm = Some p"
    if "get_piece h i (pm\<lparr>pm_pieces := fst (snd (drop_all_expired clk (pm_pieces pm) (snd (clk w))))\<rparr>) = Some p" for h i p
    using drop_all_pieces(2) [OF ok that] by blast
  show "later clk w (snd (snd (drop_all_expired clk (pm_pieces pm) (snd (clk w)))))"
    by (rule later_trans [OF later_clock conjunct1 [OF drop_all_expired_spec]])
qed simp

lemma clear_expired_ok:
  assumes "manager_ok C clk (pm, w)"
  shows "manager_ok C clk (snd (clear_expired_pieces clk pm w))" "manager_ok C clk (cleanup_expired_pieces clk pm w)"
  using drop_all_expired_ok [OF assms] by (simp_all add: clear_expired_pieces_def cleanup_expired_pieces_def case_prod_beta)

lemma removals_ok:
  assumes "manager_ok C clk (pm, w)"
  shows "manager_ok C clk (snd (clear_pieces h pm), w)" "manager_ok C clk (snd (clear_all_pieces pm), w)"
    "manager_ok C clk (snd (force_piece_cleanup h i pm), w)"
proof -
  have ok: "maps_ok pm" using assms by (simp add: manager_ok_def)
  show "manager_ok C clk (snd (clear_pieces h pm), w)"
    using assms ok
    by (auto simp: clear_pieces_def maps_ok_def get_piece_def split: option.splits if_splits intro!: manager_ok_shrink [OF assms])
  show "manager_ok C clk (snd (clear_all_pieces pm), w)"
    using assms by (auto simp: clear_all_pieces_def maps_ok_def get_piece_def intro!: manager_ok_shrink [OF assms])
  show "manager_ok C clk (snd (force_piece_cleanup h i pm), w)"
  proof (cases "smap_find (pm_pieces pm) h")
    case (Some m)
    have "smap_ok (smap_erase i m)" using ok Some by (auto simp: maps_ok_def)
    from maps_ok_put_pieces [OF ok this] have "maps_ok (put_pieces h (smap_erase i m) pm)" .
    then show ?thesis using assms Some
      by (auto simp: force_piece_cleanup_def put_pieces_def get_piece_def split: option.splits if_splits
          intro!: manager_ok_shrink [OF assms])
  qed (simp add: force_piece_cleanup_def assms)
qed

lemma manager_ok_stats: "manager_ok C clk (pm, w) \<Longrightarrow> manager_ok C clk (pm\<lparr>pm_stats := s\<rparr>, w)"
  by (erule manager_ok_same) simp_all

lemma update_piece_statistics_ok: "manager_ok C clk (pm, w) \<Longrightarrow> manager_ok C clk (update_piece_statistics clk pm w)"
  unfolding update_piece_statistics_def Let_def case_prod_beta
  by (intro manager_ok_stats) (erule manager_ok_later [OF _ later_clock])

lemma config_ok: "manager_ok C clk (pm, w) \<Longrightarrow> c \<in> C \<Longrightarrow> manager_ok C clk (update_piece_config c pm, w)"
  using same_timeoutD [of C c "pm_config pm"]
  by (auto simp: manager_ok_def maps_ok_def update_piece_config_def get_piece_def piece_ok_def times_ok_def)

lemma repair_pieces_ok:
  assumes "manager_ok C clk (pm, w)" "repair_piece_manager clk pm w = Some (n, pm', w')"
  shows "manager_ok C clk (pm', w')"
proof -
  let ?pm1 = "snd (if \<not> validate_piece_manager_integrity pm then clear_all_pieces pm else (0, pm))"
  have ok: "manager_ok C clk (?pm1, w)" using assms(1) removals_ok(2) [OF assms(1)] by simp
  have "(pm', w') = (?pm1, w) \<or> (pm', w') = snd (clear_expired_pieces clk ?pm1 w)"
    using assms(2) by (simp add: repair_piece_manager_def case_prod_beta Let_def split: option.splits if_splits)
  then show ?thesis using ok clear_expired_ok(1) [OF ok] by (elim disjE) (simp_all only:)
qed

lemma piece_step_ok: "manager_ok C clk s \<Longrightarrow> piece_step C sha1 clk s t \<Longrightarrow> manager_ok C clk t"
  by (erule piece_step.cases)
    (auto simp: add_piece_ok request_piece_ok marks_ok metadata_ok force_piece_validation_ok monitor_pieces_ok clear_expired_ok
      removals_ok update_piece_statistics_ok config_ok reset_piece_statistics_def later_def
      intro: repair_pieces_ok manager_ok_same manager_ok_later)

lemma piece_init_ok: "piece_init C s \<Longrightarrow> manager_ok C clk s"
  by (auto simp: piece_init_def new_piece_manager_def manager_ok_def maps_ok_def get_piece_def)

interpretation pieces: invariant_system "piece_init C" "piece_step C sha1 clk" "manager_ok C clk"
  by unfold_locales (auto intro: piece_init_ok piece_step_ok)

section \<open>Counting\<close>

lemma sum_by_status:
  "(\<Sum>s\<leftarrow>[MISSING, REQUESTED, RECEIVED, VALIDATED, INVALID, DUPLICATE, CORRUPTED, EXPIRED].
      int (length (filter (\<lambda>(i, p). mp_status p = s) m))) = int (length m)"
proof (induction m)
  case (Cons x m)
  then show ?case by (cases x; cases "mp_status (snd x)") auto
qed simp

lemma total_by_status:
  "get_total_piece_count pm = (\<Sum>s\<leftarrow>[MISSING, REQUESTED, RECEIVED, VALIDATED, INVALID, DUPLICATE, CORRUPTED, EXPIRED].
     get_total_piece_count_by_status s pm)"
proof -
  have "(\<Sum>(h, m)\<leftarrow>ms. int (length m)) = (\<Sum>s\<leftarrow>[MISSING, REQUESTED, RECEIVED, VALIDATED, INVALID, DUPLICATE, CORRUPTED, EXPIRED].
     (\<Sum>(h, m)\<leftarrow>ms. int (length (filter (\<lambda>(i, p). mp_status p = s) m))))" for ms :: "(string, piece_map) smap"
  proof (induction ms)
    case (Cons x ms)
    then show ?case using sum_by_status [of "snd x"] by (cases x) simp
  qed simp
  then show ?thesis by (simp add: get_total_piece_count_def get_total_piece_count_by_status_def)
qed

definition piece_status_sum :: "piece_statistics \<Rightarrow> int" where
  "piece_status_sum s = ps_missing_pieces s + ps_requested_pieces s + ps_received_pieces s + ps_validated_pieces s
     + ps_invalid_pieces s + ps_duplicate_pieces s + ps_corrupted_pieces s + ps_expired_pieces s"

lemma count_pieces_sum:
  "ps_total_pieces (fst (count_pieces ps acc)) = ps_total_pieces (fst acc) + int (length ps)
   \<and> piece_status_sum (fst (count_pieces ps acc)) = piece_status_sum (fst acc) + int (length ps)"
proof (induction ps acc rule: count_pieces.induct)
  case (2 p ps s q n)
  have "piece_status_sum (count_piece_status (mp_status p) (s\<lparr>ps_total_pieces := k\<rparr>)) = piece_status_sum s + 1"
    "ps_total_pieces (count_piece_status (mp_status p) (s\<lparr>ps_total_pieces := k\<rparr>)) = k" for k
    by (cases "mp_status p"; simp add: count_piece_status_def piece_status_sum_def)+
  with 2 show ?case by simp
qed simp

lemma length_all_pieces: "int (length (all_pieces pm)) = get_total_piece_count pm"
proof -
  have "int (length (concat (map (\<lambda>(h, m). map snd m) ms))) = (\<Sum>(h, m)\<leftarrow>ms. int (length m))" for ms :: "(string, piece_map) smap"
    by (induction ms) auto
  then show ?thesis by (simp add: all_pieces_def get_total_piece_count_def)
qed

lemma status_count_bound: "get_piece_count_by_status h s pm + (if t = s then 0 else get_piece_count_by_status h t pm) \<le> get_piece_count h pm"
proof -
  have "length (filter (\<lambda>(i, p). mp_status p = s) m) + (if t = s then 0 else length (filter (\<lambda>(i, p). mp_status p = t) m)) \<le> length m"
    for m :: piece_map by (induction m) auto
  then show ?thesis
    by (cases "smap_find (pm_pieces pm) h")
      (auto simp: get_piece_count_by_status_def get_pieces_by_status_def get_piece_count_def simp flip: of_nat_add split: if_splits)
qed

section \<open>Properties\<close>

abbreviation piece_reachable :: "piece_config set \<Rightarrow> (string \<Rightarrow> string) \<Rightarrow> 'w clock \<Rightarrow> piece_manager \<times> 'w \<Rightarrow> bool" where
  "piece_reachable C sha1 clk s \<equiv> reachable (piece_init C) (piece_step C sha1 clk) s"

lemma all_pieces_get:
  assumes "maps_ok pm" "p \<in> set (all_pieces pm)"
  shows "\<exists>h i. get_piece h i pm = Some p"
proof -
  obtain h m i where m: "(h, m) \<in> set (pm_pieces pm)" and i: "(i, p) \<in> set m" using assms(2) by (auto simp: all_pieces_def)
  have "smap_find (pm_pieces pm) h = Some m" using m assms(1) by (simp add: maps_ok_def smap_in_find)
  moreover from this have "smap_find m i = Some p" using i assms(1) by (auto simp: maps_ok_def smap_in_find)
  ultimately show ?thesis by (intro exI [of _ h] exI [of _ i]) (simp add: get_piece_def)
qed

lemma get_in_all_pieces: "get_piece h i pm = Some p \<Longrightarrow> p \<in> set (all_pieces pm)"
  by (force simp: all_pieces_def get_piece_def dest: map_of_SomeD split: option.splits)

lemma cleanup_survivors:
  assumes "maps_ok pm" "get_piece h i (fst (cleanup_expired_pieces clk pm w)) = Some p"
  shows "get_piece h i pm = Some p \<and> fresh_after clk w p"
proof -
  have "get_piece h i pm = Some p \<and> fresh_after clk (snd (clk w)) p"
    using drop_all_pieces(2) [OF assms(1)] assms(2) by (simp add: cleanup_expired_pieces_def case_prod_beta)
  then show ?thesis using fresh_after_earlier [of clk "snd (clk w)" p w] by simp
qed

lemma cleanup_removes_past:
  assumes "maps_ok pm" "mono_clock clk" "get_piece h i pm = Some p" "mp_expires_at p < fst (clk w)"
  shows "get_piece h i (fst (cleanup_expired_pieces clk pm w)) = None"
proof (rule ccontr)
  assume "get_piece h i (fst (cleanup_expired_pieces clk pm w)) \<noteq> None"
  then have "fresh_after clk w p" using cleanup_survivors [OF assms(1)] assms(3) by force
  then show False using assms(2,4) by (auto simp: fresh_after_def later_def is_piece_expired_def)
qed

definition demo_hash :: string where
  "demo_hash = replicate 40 CHR ''a''"

definition demo_pieces :: "piece_manager \<times> demo_world" where
  "demo_pieces = snd (add_piece id demo_tick demo_hash 3 ''data'' (new_piece_manager default_piece_config) demo_start)"

lemma demo_pieces_reachable: "piece_reachable {default_piece_config} id demo_tick demo_pieces"
  unfolding demo_pieces_def
proof (rule reachable.move)
  show "piece_reachable {default_piece_config} id demo_tick (new_piece_manager default_piece_config, demo_start)"
    by (rule reachable.start) (auto simp: piece_init_def)
qed (rule piece_step.add)

lemma demo_config: "pm_config (fst demo_pieces) = default_piece_config"
  by (simp add: demo_pieces_def add_piece_def new_piece_manager_def case_prod_beta)

lemma demo_piece: "get_piece demo_hash 3 (fst demo_pieces) \<noteq> None"
  by (simp add: demo_pieces_def add_piece_def is_valid_info_hash_def is_valid_piece_index_def is_valid_piece_data_def
      demo_hash_def default_piece_config_def new_piece_manager_def case_prod_beta)

text \<open>C22: Whatever configurations \<open>C\<close> the piece manager is given over its life, in every reachable state each piece is stored under its
  own info hash of 40 characters and its own non-negative index, its data fit the size limit of one of these configurations,
  and its validation attempts are its successes and failures. The integrity check fails only for pieces above the limit of
  the current configuration (never for a score outside 0 to 1), so it succeeds as long as no configuration had a higher
  limit than the current one.\<close>

theorem piece_manager_integrity:
  assumes "piece_reachable C sha1 clk s"
  shows "(\<forall>h i p. get_piece h i (fst s) = Some p \<longrightarrow> mp_info_hash p = h \<and> mp_piece_index p = i \<and> length h = 40 \<and> 0 \<le> i
          \<and> (\<exists>c \<in> C. length (mp_data p) \<le> pc_max_piece_size c)
          \<and> mp_validation_attempts p = mp_successful_validations p + mp_failed_validations p)
     \<and> (validate_piece_manager_integrity (fst s)
          \<longleftrightarrow> (\<forall>h i p. get_piece h i (fst s) = Some p \<longrightarrow> length (mp_data p) \<le> pc_max_piece_size (pm_config (fst s))))
     \<and> ((\<forall>c \<in> C. pc_max_piece_size c \<le> pc_max_piece_size (pm_config (fst s))) \<longrightarrow> validate_piece_manager_integrity (fst s))"
proof -
  let ?max = "pc_max_piece_size (pm_config (fst s))"
  have ok: "manager_ok C clk s" using assms by (rule pieces.inv_reachable)
  then have maps: "maps_ok (fst s)" by (simp add: manager_ok_def)
  have piece: "piece_ok C clk (pm_config (fst s)) (snd s) h i p" if "get_piece h i (fst s) = Some p" for h i p
    using ok that by (simp add: manager_ok_def)
  have "0 \<le> mp_quality_score p \<and> mp_quality_score p \<le> 1" if "get_piece h i (fst s) = Some p" for h i p
    using piece [OF that] by (simp add: piece_ok_def scores_ok_def)
  then have check: "validate_piece_manager_integrity (fst s) \<longleftrightarrow>
      (\<forall>h i p. get_piece h i (fst s) = Some p \<longrightarrow> length (mp_data p) \<le> ?max)"
    unfolding validate_piece_manager_integrity_def list_all_iff piece_intact_def not_less not_le
    by (meson all_pieces_get [OF maps] get_in_all_pieces not_less)
  moreover have "length (mp_data p) \<le> ?max" if "\<forall>c \<in> C. pc_max_piece_size c \<le> ?max" "get_piece h i (fst s) = Some p" for h i p
    using piece [OF that(2)] that(1) by (fastforce simp: piece_ok_def fits_def)
  ultimately show ?thesis
    using piece by (auto simp: piece_ok_def fits_def scores_ok_def is_valid_info_hash_def is_valid_piece_index_def)
qed

theorem piece_manager_integrity_witness: "validate_piece_manager_integrity (fst demo_pieces) \<and> length demo_hash = 40"
  using piece_manager_integrity [OF demo_pieces_reachable] demo_piece demo_config by fastforce

text \<open>A lower limit is applied to pieces that are already stored: when one of them is above it, the integrity check fails
  after \<^verbatim>\<open>updateConfig\<close>, and \<^verbatim>\<open>repairPieceManager\<close> then erases every piece of every torrent.\<close>

theorem lowered_limit_clears_store:
  assumes "piece_reachable C sha1 clk (pm, w)" "get_piece h i pm = Some p"
    "pc_max_piece_size c < length (mp_data p)" "0 < pc_max_piece_size c"
  shows "\<exists>n w'. repair_piece_manager clk (update_piece_config c pm) w = Some (n, snd (clear_all_pieces (update_piece_config c pm)), w')
     \<and> get_piece h' i' (snd (clear_all_pieces (update_piece_config c pm))) = None"
proof -
  let ?pm = "update_piece_config c pm"
  have "get_piece h i ?pm = Some p" using assms(2) by (simp add: update_piece_config_def get_piece_def)
  from get_in_all_pieces [OF this] assms(3) have "\<not> validate_piece_manager_integrity ?pm"
    by (auto simp: validate_piece_manager_integrity_def list_all_iff piece_intact_def update_piece_config_def)
  with assms(4) show ?thesis
    by (simp add: repair_piece_manager_def clear_all_pieces_def update_piece_config_def too_many_pieces_def get_piece_def
        get_total_piece_count_def to_size_t_def Let_def case_prod_beta split: if_splits)
qed

theorem lowered_limit_clears_store_witness:
  "\<exists>n w'. repair_piece_manager demo_tick (update_piece_config (default_piece_config\<lparr>pc_max_piece_size := 3\<rparr>) (fst demo_pieces)) (snd demo_pieces)
      = Some (n, snd (clear_all_pieces (update_piece_config (default_piece_config\<lparr>pc_max_piece_size := 3\<rparr>) (fst demo_pieces))), w')
     \<and> get_piece demo_hash 3 (snd (clear_all_pieces (update_piece_config (default_piece_config\<lparr>pc_max_piece_size := 3\<rparr>) (fst demo_pieces)))) = None"
proof -
  obtain p where p: "get_piece demo_hash 3 (fst demo_pieces) = Some p" "mp_data p = ''data''"
    by (auto simp: demo_pieces_def add_piece_def is_valid_info_hash_def is_valid_piece_index_def is_valid_piece_data_def demo_hash_def
      default_piece_config_def new_piece_manager_def case_prod_beta)
  have r: "piece_reachable {default_piece_config} id demo_tick (fst demo_pieces, snd demo_pieces)" using demo_pieces_reachable by simp
  show ?thesis by (rule lowered_limit_clears_store [OF r p(1)]) (simp_all add: p(2))
qed

text \<open>The store is a map from hash and index to pieces: \<^verbatim>\<open>addPiece\<close> accepts exactly the valid arguments and afterwards the
  piece has the given data and its SHA-1 checksum in hex; \<^verbatim>\<open>markPieceReceived\<close> fills in a piece that exists and refuses the others;
  no other piece changes; clearing a hash removes its pieces and reports their number; erasing a piece removes it.\<close>

theorem piece_store_is_a_map:
  assumes "is_valid_info_hash h" "is_valid_piece_index i" "is_valid_piece_data (pm_config pm) d"
  shows "fst (add_piece sha1 clk h i d pm w)
     \<and> get_piece_data h i (fst (snd (add_piece sha1 clk h i d pm w))) = d
     \<and> get_piece_checksum h i (fst (snd (add_piece sha1 clk h i d pm w))) = concat (map hex_byte (sha1 d))
     \<and> fst (mark_piece_received sha1 clk h i d pm w) = has_piece h i pm
     \<and> get_piece_data h i (fst (snd (mark_piece_received sha1 clk h i d pm w))) = (if has_piece h i pm then d else [])
     \<and> (h' \<noteq> h \<or> i' \<noteq> i \<longrightarrow> get_piece h' i' (fst (snd (add_piece sha1 clk h i d pm w))) = get_piece h' i' pm
         \<and> get_piece h' i' (fst (snd (mark_piece_received sha1 clk h i d pm w))) = get_piece h' i' pm)
     \<and> fst (clear_pieces h pm) = get_piece_count h pm \<and> get_piece h i' (snd (clear_pieces h pm)) = None
     \<and> fst (force_piece_cleanup h i pm) = has_piece h i pm \<and> get_piece h i (snd (force_piece_cleanup h i pm)) = None"
proof -
  have mark: "mark_piece_received sha1 clk h i d pm w = mark_piece clk h i (\<lambda>t piece. update_piece_quality True
        (piece\<lparr>mp_status := RECEIVED, mp_data := d, mp_checksum := calculate_piece_checksum sha1 d, mp_updated_at := t,
               mp_expires_at := t + pc_piece_timeout (pm_config pm) * 1000000\<rparr>)) pm w"
    using assms by (simp add: mark_piece_received_def)
  have received: "fst (mark_piece_received sha1 clk h i d pm w) = has_piece h i pm
     \<and> get_piece_data h i (fst (snd (mark_piece_received sha1 clk h i d pm w))) = (if has_piece h i pm then d else [])
     \<and> (h' \<noteq> h \<or> i' \<noteq> i \<longrightarrow> get_piece h' i' (fst (snd (mark_piece_received sha1 clk h i d pm w))) = get_piece h' i' pm)"
    by (cases "get_piece h i pm") (auto simp: mark mark_piece_def get_piece_data_def has_piece_def case_prod_beta
        simp flip: get_piece_pieces_of)
  have added: "fst (add_piece sha1 clk h i d pm w)
     \<and> get_piece_data h i (fst (snd (add_piece sha1 clk h i d pm w))) = d
     \<and> get_piece_checksum h i (fst (snd (add_piece sha1 clk h i d pm w))) = concat (map hex_byte (sha1 d))
     \<and> (h' \<noteq> h \<or> i' \<noteq> i \<longrightarrow> get_piece h' i' (fst (snd (add_piece sha1 clk h i d pm w))) = get_piece h' i' pm)"
    using assms by (auto simp: add_piece_def case_prod_beta get_piece_data_def get_piece_checksum_def calculate_piece_checksum_def)
  have "fst (clear_pieces h pm) = get_piece_count h pm \<and> get_piece h i' (snd (clear_pieces h pm)) = None"
    by (auto simp: clear_pieces_def get_piece_count_def get_piece_def split: option.splits)
  moreover have "fst (force_piece_cleanup h i pm) = has_piece h i pm \<and> get_piece h i (snd (force_piece_cleanup h i pm)) = None"
    by (auto simp: force_piece_cleanup_def has_piece_def get_piece_def put_pieces_def split: option.splits)
  ultimately show ?thesis using received added by blast
qed

theorem piece_store_is_a_map_witness:
  "get_piece_data demo_hash 3 (fst (snd (add_piece id demo_tick demo_hash 3 ''data'' (new_piece_manager default_piece_config) demo_start))) = ''data''"
  using piece_store_is_a_map [of demo_hash 3 "new_piece_manager default_piece_config" "''data''" id demo_tick demo_start demo_hash 3]
  by (simp add: is_valid_info_hash_def is_valid_piece_index_def is_valid_piece_data_def demo_hash_def default_piece_config_def
      new_piece_manager_def)

text \<open>With a clock that does not run backwards, no piece marked as expired survives a clean-up: in every reachable state the
  expiry time of a piece with the status \<^verbatim>\<open>EXPIRED\<close> has already passed, as long as no configuration changes the timeout. The status is therefore never seen after a pass of the
  monitor thread, which marks and cleans up in one go.\<close>

theorem expired_pieces_never_survive:
  assumes "mono_clock clk" "piece_reachable C sha1 clk s" "same_timeout C"
  shows "get_pieces_by_status h EXPIRED (fst (cleanup_expired_pieces clk (fst s) (snd s))) = []"
proof -
  have ok: "manager_ok C clk s" using assms(2) by (rule pieces.inv_reachable)
  then have maps: "maps_ok (fst s)" by (simp add: manager_ok_def)
  let ?pm = "fst (cleanup_expired_pieces clk (fst s) (snd s))"
  have none: "mp_status p \<noteq> EXPIRED" if g: "get_piece h i ?pm = Some p" for i p
  proof
    assume e: "mp_status p = EXPIRED"
    have old: "get_piece h i (fst s) = Some p" using cleanup_survivors [OF maps g] by blast
    then have "mp_expires_at p < fst (clk (snd s))" using ok assms(1,3) e by (auto simp: manager_ok_def piece_ok_def times_ok_def)
    from cleanup_removes_past [OF maps assms(1) old this] g show False by simp
  qed
  have "maps_ok ?pm" using clear_expired_ok(2) [of C clk "fst s" "snd s"] ok by (simp add: manager_ok_def)
  then have "mp_status p \<noteq> EXPIRED" if "smap_find (pm_pieces ?pm) h = Some m" "(i, p) \<in> set m" for m i p
    using none [of i p] that smap_in_find [of m i p] by (auto simp: get_piece_def maps_ok_def)
  then show ?thesis by (auto simp: get_pieces_by_status_def filter_empty_conv split: option.splits)
qed

theorem expired_pieces_never_survive_witness:
  "get_pieces_by_status demo_hash EXPIRED (fst (cleanup_expired_pieces demo_tick (fst demo_pieces) (snd demo_pieces))) = []"
  by (rule expired_pieces_never_survive [OF demo_tick_mono demo_pieces_reachable]) (simp add: same_timeout_def)

text \<open>Requesting a piece again does not renew it: \<^verbatim>\<open>requestPiece\<close> on a piece that is not being requested succeeds and marks it as requested
  now, but keeps its old expiry time; when that has passed, the next clean-up erases the piece that was just requested.\<close>

theorem requesting_again_keeps_expiry:
  assumes "mono_clock clk" "piece_reachable C sha1 clk (pm, w)" "get_piece h i pm = Some p" "mp_status p \<noteq> REQUESTED"
    and "mp_expires_at p < fst (clk w)"
  shows "let (ok, pm1, w1) = request_piece clk h i pm w in
       ok \<and> piece_has_status REQUESTED h i pm1 \<and> get_piece_expiration_time h i pm1 = mp_expires_at p
     \<and> get_piece h i (fst (cleanup_expired_pieces clk pm1 w1)) = None"
proof -
  have ok: "manager_ok C clk (pm, w)" using assms(2) by (rule pieces.inv_reachable)
  let ?p1 = "p\<lparr>mp_status := REQUESTED, mp_request_count := mp_request_count p + 1, mp_last_request := fst (clk w)\<rparr>"
  have valid: "is_valid_info_hash h" "is_valid_piece_index i" using ok assms(3) by (auto simp: manager_ok_def piece_ok_def)
  have r: "request_piece clk h i pm w = (True, put_piece h i ?p1 pm, snd (clk w))"
    using valid assms(3,4) by (simp add: request_piece_def case_prod_beta flip: get_piece_pieces_of)
  have "get_piece h i (fst (cleanup_expired_pieces clk (put_piece h i ?p1 pm) (snd (clk w)))) = None"
  proof (rule cleanup_removes_past [OF _ assms(1)])
    show "maps_ok (put_piece h i ?p1 pm)" using ok by (simp add: manager_ok_def)
    show "get_piece h i (put_piece h i ?p1 pm) = Some ?p1" by simp
    show "mp_expires_at ?p1 < fst (clk (snd (clk w)))" using assms(5) mono_clockD [OF assms(1), of w] by simp
  qed
  then show ?thesis by (simp add: r piece_has_status_def get_piece_expiration_time_def)
qed

definition late_world :: demo_world where
  "late_world = demo_start\<lparr>dw_clock := 31000000000\<rparr>"

theorem requesting_again_keeps_expiry_witness:
  "let (ok, pm1, w1) = request_piece demo_tick demo_hash 3 (fst demo_pieces) late_world in
     ok \<and> get_piece demo_hash 3 (fst (cleanup_expired_pieces demo_tick pm1 w1)) = None"
proof -
  have "piece_reachable {default_piece_config} id demo_tick (fst demo_pieces, late_world)"
    using reachable.move [OF demo_pieces_reachable] piece_step.tick [of demo_tick "snd demo_pieces" late_world "{default_piece_config}" id "fst demo_pieces"]
    by (simp add: demo_tick_def demo_lt_def late_world_def demo_pieces_def add_piece_def demo_start_def case_prod_beta)
  moreover obtain p where "get_piece demo_hash 3 (fst demo_pieces) = Some p" "mp_status p \<noteq> REQUESTED" "mp_expires_at p < fst (demo_tick late_world)"
    by (auto simp: demo_pieces_def add_piece_def is_valid_info_hash_def is_valid_piece_index_def is_valid_piece_data_def demo_hash_def
      default_piece_config_def new_piece_manager_def case_prod_beta demo_tick_def demo_lt_def demo_start_def late_world_def)
  ultimately show ?thesis
    using requesting_again_keeps_expiry [OF demo_tick_mono, of "{default_piece_config}" id "fst demo_pieces" late_world demo_hash 3 p]
    by (simp add: case_prod_beta)
qed

text \<open>The counters partition the pieces: the eight status counts add up to the total, in the query functions and in the statistics
  that the monitor thread computes, and the completion ratio of a torrent lies between 0 and 1.\<close>

theorem piece_counts_partition:
  fixes clk :: "'w clock"
  shows "let s = pm_stats (fst (update_piece_statistics clk pm w)) in
       get_total_piece_count pm = (\<Sum>st\<leftarrow>[MISSING, REQUESTED, RECEIVED, VALIDATED, INVALID, DUPLICATE, CORRUPTED, EXPIRED].
         get_total_piece_count_by_status st pm)
     \<and> ps_total_pieces s = get_total_piece_count pm
     \<and> ps_total_pieces s = ps_missing_pieces s + ps_requested_pieces s + ps_received_pieces s + ps_validated_pieces s
         + ps_invalid_pieces s + ps_duplicate_pieces s + ps_corrupted_pieces s + ps_expired_pieces s
     \<and> 0 \<le> get_piece_completion_ratio h pm \<and> get_piece_completion_ratio h pm \<le> 1"
proof -
  let ?zero = "(pm_stats pm)\<lparr>ps_total_pieces := 0, ps_missing_pieces := 0, ps_requested_pieces := 0, ps_received_pieces := 0,
     ps_validated_pieces := 0, ps_invalid_pieces := 0, ps_duplicate_pieces := 0, ps_corrupted_pieces := 0, ps_expired_pieces := 0\<rparr>"
  let ?s = "pm_stats (fst (update_piece_statistics clk pm w))"
  have zero: "piece_status_sum ?zero = 0" "ps_total_pieces ?zero = 0" by (simp_all add: piece_status_sum_def)
  have "ps_total_pieces ?s = ps_total_pieces (fst (count_pieces (all_pieces pm) (?zero, 0, 0)))"
    "piece_status_sum ?s = piece_status_sum (fst (count_pieces (all_pieces pm) (?zero, 0, 0)))"
    by (simp_all add: update_piece_statistics_def Let_def case_prod_beta piece_status_sum_def)
  then have stats: "ps_total_pieces ?s = get_total_piece_count pm" "piece_status_sum ?s = get_total_piece_count pm"
    using count_pieces_sum [of "all_pieces pm" "(?zero, 0, 0)"] zero length_all_pieces [of pm] by simp_all
  have "0 \<le> get_piece_completion_ratio h pm \<and> get_piece_completion_ratio h pm \<le> 1"
  proof -
    let ?n = "get_piece_count h pm" and ?r = "get_piece_count_by_status h RECEIVED pm + get_piece_count_by_status h VALIDATED pm"
    have "?r \<le> ?n" "0 \<le> ?r" "0 \<le> ?n"
      using status_count_bound [of h RECEIVED pm VALIDATED]
      by (simp_all add: get_piece_count_by_status_def get_piece_count_def split: option.splits)
    then show ?thesis by (simp add: get_piece_completion_ratio_def divide_le_eq_1 zero_le_divide_iff flip: of_int_add)
  qed
  then show ?thesis using stats total_by_status [of pm] unfolding Let_def piece_status_sum_def by simp
qed

section \<open>The monitor thread\<close>

inductive piece_wake :: "'w clock \<Rightarrow> piece_service \<Rightarrow> piece_service \<Rightarrow> bool" for clk :: "'w clock" where
  "mn_in_loop (pv_monitor s) \<Longrightarrow> piece_wake clk s (fst (piece_monitor_pass clk s w))"

inductive piece_operation :: "(string \<Rightarrow> string) \<Rightarrow> 'w clock \<Rightarrow> piece_service \<Rightarrow> piece_service \<Rightarrow> bool"
  for sha1 :: "string \<Rightarrow> string" and clk :: "'w clock" where
  "piece_step UNIV sha1 clk (pv_manager s, w) (pm, w') \<Longrightarrow> piece_operation sha1 clk s (s\<lparr>pv_manager := pm\<rparr>)"

interpretation piece_thread: monitored_service pv_monitor piece_start piece_stop "piece_wake clk" "piece_operation sha1 clk"
proof
  fix s t
  assume "piece_wake clk s t"
  then show "mn_in_loop (pv_monitor s) \<and> pv_monitor t = monitor_wake (pv_monitor s)"
    by cases (auto simp: piece_monitor_pass_def Let_def case_prod_beta)
qed (auto simp: piece_start_def piece_stop_def elim: piece_operation.cases)

text \<open>Everything that can happen to the service.\<close>

definition piece_call :: "(string \<Rightarrow> string) \<Rightarrow> 'w clock \<Rightarrow> piece_service \<Rightarrow> piece_service \<Rightarrow> bool" where
  "piece_call sha1 clk s t \<longleftrightarrow> t = piece_start s \<or> t = piece_stop s \<or> piece_wake clk s t \<or> piece_operation sha1 clk s t"

lemma piece_never_revived:
  "(piece_call sha1 clk)\<^sup>*\<^sup>* s t \<Longrightarrow> mn_joinable (pv_monitor s) \<Longrightarrow> \<not> mn_in_loop (pv_monitor s) \<Longrightarrow>
     piece_is_running (piece_start t) \<and> (\<nexists>u. piece_wake clk t u)"
  using piece_thread.never_revived [of clk sha1 s t] by (simp add: piece_call_def [abs_def] piece_is_running_def)

end
