(* ===== verification/Performance_Config.thy ===== *)
theory Performance_Config
  imports Complex_Main Std_Containers
begin

text \<open>
  \<^verbatim>\<open>PerformanceConfig\<close> of \<^verbatim>\<open>performance_config.cpp\<close> and its header: a key-value store of settings, the optimisation profiles, and the
  file format in which the settings are saved and loaded. The static members of the class are a record. A file
  system is a map from names to contents; a file that cannot be opened for writing is not \<open>writable\<close>. The warnings that
  the validation prints are values. The static constants of the header are read by no function and are left out.
\<close>

section \<open>Definitions\<close>

datatype optimization_profile = BALANCED | HIGH_THROUGHPUT | LOW_LATENCY | LOW_MEMORY | LOW_CPU

record performance_config =
  pf_config :: "(string, string) smap"
  pf_thresholds :: "(string, rat) smap"
  pf_limits :: "(string, nat) smap"
  pf_profile :: optimization_profile
  pf_monitoring :: bool

definition initial_performance_config :: performance_config where
  "initial_performance_config = \<lparr>pf_config = [], pf_thresholds = [], pf_limits = [], pf_profile = BALANCED, pf_monitoring = True\<rparr>"

subsection \<open>Settings\<close>

definition set_config :: "string \<Rightarrow> string \<Rightarrow> performance_config \<Rightarrow> performance_config" where
  "set_config key value c = c\<lparr>pf_config := smap_update key value (pf_config c)\<rparr>"

definition get_config :: "string \<Rightarrow> performance_config \<Rightarrow> string" where
  "get_config key c = (case smap_find (pf_config c) key of Some v \<Rightarrow> v | None \<Rightarrow> [])"

definition enable_performance_monitoring :: "bool \<Rightarrow> performance_config \<Rightarrow> performance_config" where
  "enable_performance_monitoring enable c = c\<lparr>pf_monitoring := enable\<rparr>"

definition set_performance_threshold :: "string \<Rightarrow> rat \<Rightarrow> performance_config \<Rightarrow> performance_config" where
  "set_performance_threshold metric threshold c = c\<lparr>pf_thresholds := smap_update metric threshold (pf_thresholds c)\<rparr>"

definition get_performance_threshold :: "string \<Rightarrow> performance_config \<Rightarrow> rat" where
  "get_performance_threshold metric c = (case smap_find (pf_thresholds c) metric of Some t \<Rightarrow> t | None \<Rightarrow> 0)"

definition set_resource_limit :: "string \<Rightarrow> nat \<Rightarrow> performance_config \<Rightarrow> performance_config" where
  "set_resource_limit resource limit c = c\<lparr>pf_limits := smap_update resource limit (pf_limits c)\<rparr>"

definition get_resource_limit :: "string \<Rightarrow> performance_config \<Rightarrow> nat" where
  "get_resource_limit resource c = (case smap_find (pf_limits c) resource of Some l \<Rightarrow> l | None \<Rightarrow> 0)"

subsection \<open>Profiles\<close>

text \<open>The calls of \<^verbatim>\<open>setConfig\<close> in each case of the switch, in order.\<close>

fun profile_settings :: "optimization_profile \<Rightarrow> (string \<times> string) list" where
  "profile_settings BALANCED =
     [(''max_connections'', ''200''), (''max_active_connections'', ''1000''), (''connection_timeout_ms'', ''30000''),
      (''metadata_timeout_ms'', ''120000''), (''max_worker_threads'', ''8''), (''cache_size'', ''10000''),
      (''db_connection_pool_size'', ''10'')]"
| "profile_settings HIGH_THROUGHPUT =
     [(''max_connections'', ''500''), (''max_active_connections'', ''2000''), (''connection_timeout_ms'', ''60000''),
      (''metadata_timeout_ms'', ''300000''), (''max_worker_threads'', ''16''), (''cache_size'', ''50000''),
      (''db_connection_pool_size'', ''20''), (''db_batch_size'', ''5000'')]"
| "profile_settings LOW_LATENCY =
     [(''max_connections'', ''100''), (''max_active_connections'', ''500''), (''connection_timeout_ms'', ''10000''),
      (''metadata_timeout_ms'', ''30000''), (''max_worker_threads'', ''4''), (''cache_size'', ''5000''),
      (''db_connection_pool_size'', ''5''), (''db_batch_size'', ''100'')]"
| "profile_settings LOW_MEMORY =
     [(''max_connections'', ''50''), (''max_active_connections'', ''200''), (''connection_timeout_ms'', ''15000''),
      (''metadata_timeout_ms'', ''60000''), (''max_worker_threads'', ''2''), (''cache_size'', ''1000''),
      (''db_connection_pool_size'', ''3''), (''db_batch_size'', ''50'')]"
| "profile_settings LOW_CPU =
     [(''max_connections'', ''100''), (''max_active_connections'', ''500''), (''connection_timeout_ms'', ''45000''),
      (''metadata_timeout_ms'', ''180000''), (''max_worker_threads'', ''2''), (''cache_size'', ''2000''),
      (''db_connection_pool_size'', ''5''), (''db_batch_size'', ''200'')]"

definition apply_profile_settings :: "optimization_profile \<Rightarrow> performance_config \<Rightarrow> performance_config" where
  "apply_profile_settings profile c = foldl (\<lambda>c (key, value). set_config key value c) c (profile_settings profile)"

definition set_optimization_profile :: "optimization_profile \<Rightarrow> performance_config \<Rightarrow> performance_config" where
  "set_optimization_profile profile c = apply_profile_settings profile (c\<lparr>pf_profile := profile\<rparr>)"

definition optimize_for_high_throughput :: "performance_config \<Rightarrow> performance_config" where
  "optimize_for_high_throughput = set_optimization_profile HIGH_THROUGHPUT"

definition optimize_for_low_latency :: "performance_config \<Rightarrow> performance_config" where
  "optimize_for_low_latency = set_optimization_profile LOW_LATENCY"

definition optimize_for_memory_usage :: "performance_config \<Rightarrow> performance_config" where
  "optimize_for_memory_usage = set_optimization_profile LOW_MEMORY"

definition optimize_for_cpu_usage :: "performance_config \<Rightarrow> performance_config" where
  "optimize_for_cpu_usage = set_optimization_profile LOW_CPU"

subsection \<open>Validation\<close>

datatype config_warning = Outside_range string int int int | Invalid_value string string

definition validate_int :: "performance_config \<Rightarrow> string \<times> int \<times> int \<Rightarrow> config_warning list" where
  "validate_int c = (\<lambda>(key, min_val, max_val).
     (case smap_find (pf_config c) key of
        None \<Rightarrow> []
      | Some text \<Rightarrow>
          (case stoi 10 text of
             Inr value \<Rightarrow> if value < min_val \<or> value > max_val then [Outside_range key value min_val max_val] else []
           | Inl e \<Rightarrow> [Invalid_value key text])))"

definition config_ranges :: "(string \<times> int \<times> int) list" where
  "config_ranges = [(''max_connections'', 1, 1000), (''max_active_connections'', 1, 10000), (''connection_timeout_ms'', 1000, 300000),
     (''metadata_timeout_ms'', 5000, 600000), (''max_worker_threads'', 1, 32), (''cache_size'', 100, 100000),
     (''db_connection_pool_size'', 1, 50), (''db_batch_size'', 10, 10000)]"

definition validate_config :: "performance_config \<Rightarrow> config_warning list" where
  "validate_config c = concat (map (validate_int c) config_ranges)"

subsection \<open>Files\<close>

abbreviation newline :: char where "newline \<equiv> CHR 0x0A"

text \<open>\<^verbatim>\<open>std::getline\<close> until it fails: the last line counts only when it is not empty.\<close>

function getlines :: "string \<Rightarrow> string list" where
  "getlines s =
     (case s of [] \<Rightarrow> []
      | _ \<Rightarrow> (case find_char newline s of None \<Rightarrow> [s] | Some i \<Rightarrow> take i s # getlines (drop (Suc i) s)))"
  by pat_completeness auto
termination
  by (relation "measure length") (auto dest: find_char_Some)

declare getlines.simps [simp del]

definition is_blank :: "char \<Rightarrow> bool" where
  "is_blank c \<longleftrightarrow> c = CHR '' '' \<or> c = CHR 0x09"

text \<open>\<^verbatim>\<open>find_first_not_of\<close> and \<^verbatim>\<open>find_last_not_of\<close> of \<^verbatim>\<open>" \t"\<close>, and the two calls of \<^verbatim>\<open>erase\<close>: the first removes everything when the
  position is \<^verbatim>\<open>npos\<close>, and so does the second, since \<^verbatim>\<open>npos + 1\<close> is 0.\<close>

fun find_first_not_blank :: "string \<Rightarrow> nat option" where
  "find_first_not_blank [] = None"
| "find_first_not_blank (c # cs) = (if is_blank c then map_option Suc (find_first_not_blank cs) else Some 0)"

fun find_last_not_blank :: "string \<Rightarrow> nat option" where
  "find_last_not_blank [] = None"
| "find_last_not_blank (c # cs) =
     (case find_last_not_blank cs of Some i \<Rightarrow> Some (Suc i) | None \<Rightarrow> if is_blank c then None else Some 0)"

definition trim_blanks :: "string \<Rightarrow> string" where
  "trim_blanks s =
     (let s1 = (case find_first_not_blank s of Some i \<Rightarrow> drop i s | None \<Rightarrow> [])
      in case find_last_not_blank s1 of Some j \<Rightarrow> take (j + 1) s1 | None \<Rightarrow> [])"

definition parse_line :: "string \<Rightarrow> (string \<times> string) option" where
  "parse_line line =
     (case line of [] \<Rightarrow> None
      | c # _ \<Rightarrow>
          if c = CHR ''#'' then None
          else map_option (\<lambda>pos. (trim_blanks (take pos line), trim_blanks (drop (pos + 1) line))) (find_char CHR ''='' line))"

fun load_lines :: "string list \<Rightarrow> (string, string) smap \<Rightarrow> (string, string) smap" where
  "load_lines [] m = m"
| "load_lines (l # ls) m = load_lines ls (case parse_line l of Some (key, value) \<Rightarrow> smap_update key value m | None \<Rightarrow> m)"

type_synonym files = "string \<rightharpoonup> string"

definition load_config_from_file :: "files \<Rightarrow> string \<Rightarrow> performance_config \<Rightarrow> performance_config \<times> config_warning list" where
  "load_config_from_file fs filename c =
     (case fs filename of
        None \<Rightarrow> (c, [])
      | Some text \<Rightarrow> let c1 = c\<lparr>pf_config := load_lines (getlines text) (pf_config c)\<rparr> in (c1, validate_config c1))"

definition config_text :: "(string, string) smap \<Rightarrow> string" where
  "config_text m = ''# Performance Configuration File'' @ [newline] @ ''# Generated automatically'' @ [newline] @ [newline]
     @ concat (map (\<lambda>(key, value). key @ ''='' @ value @ [newline]) m)"

definition save_config_to_file :: "(string \<Rightarrow> bool) \<Rightarrow> string \<Rightarrow> performance_config \<Rightarrow> files \<Rightarrow> files" where
  "save_config_to_file writable filename c fs = (if writable filename then fs(filename \<mapsto> config_text (pf_config c)) else fs)"

section \<open>Reading back what was written\<close>

definition trimmed :: "string \<Rightarrow> bool" where
  "trimmed s \<longleftrightarrow> s = [] \<or> \<not> is_blank (s ! 0) \<and> \<not> is_blank (last s)"

lemma getlines_line: "newline \<notin> set l \<Longrightarrow> getlines (l @ newline # s) = l # getlines s"
proof -
  assume "newline \<notin> set l"
  then have "find_char newline (l @ newline # s) = Some (length l)" by (rule find_char_append)
  moreover obtain c cs where "l @ newline # s = c # cs" by (cases l) auto
  ultimately have "getlines (l @ newline # s) = take (length l) (l @ newline # s) # getlines (drop (Suc (length l)) (l @ newline # s))"
    by (simp only: getlines.simps [of "c # cs"] list.case option.case)
  then show ?thesis by simp
qed

lemma getlines_Nil [simp]: "getlines [] = []"
  by (simp add: getlines.simps)

lemma getlines_lines: "list_all (\<lambda>l. newline \<notin> set l) ls \<Longrightarrow> getlines (concat (map (\<lambda>l. l @ [newline]) ls)) = ls"
  by (induction ls) (simp_all add: getlines_line)

lemma find_last_not_blank_last: "s \<noteq> [] \<Longrightarrow> \<not> is_blank (last s) \<Longrightarrow> find_last_not_blank s = Some (length s - 1)"
  by (induction s) (auto split: if_splits)

lemma trim_blanks_id: "trimmed s \<Longrightarrow> trim_blanks s = s"
  using find_last_not_blank_last [of s]
  by (cases s) (auto simp: trim_blanks_def trimmed_def simp del: find_last_not_blank.simps(2))

lemma parse_line_setting:
  assumes "CHR ''='' \<notin> set key" "key = [] \<or> key ! 0 \<noteq> CHR ''#''"
  shows "parse_line (key @ CHR ''='' # v) = Some (trim_blanks key, trim_blanks v)"
  using assms find_char_append [of "CHR ''=''" key v]
  by (cases key) (auto simp: parse_line_def)

lemma load_lines_map_of: "map_of (load_lines ls m) = map_of m ++ map_of (rev (List.map_filter parse_line ls))"
  by (induction ls m rule: load_lines.induct)
    (auto simp: map_filter_simps map_add_def fun_eq_iff split: option.splits)

lemma load_lines_ok: "smap_ok m \<Longrightarrow> smap_ok (load_lines ls m)"
  by (induction ls m rule: load_lines.induct) (auto split: option.splits)

text \<open>The settings that survive: no line break, no \<^verbatim>\<open>=\<close> and no leading \<^verbatim>\<open>#\<close> in the key, and no blank at either end.\<close>

definition saveable :: "string \<times> string \<Rightarrow> bool" where
  "saveable = (\<lambda>(key, value). newline \<notin> set key \<and> newline \<notin> set value \<and> CHR ''='' \<notin> set key
     \<and> (key = [] \<or> key ! 0 \<noteq> CHR ''#'') \<and> trimmed key \<and> trimmed value)"

definition config_lines :: "(string, string) smap \<Rightarrow> string list" where
  "config_lines m = [''# Performance Configuration File'', ''# Generated automatically'', []]
     @ map (\<lambda>(key, value). key @ CHR ''='' # value) m"

lemma config_text_lines: "config_text m = concat (map (\<lambda>l. l @ [newline]) (config_lines m))"
  by (simp add: config_text_def config_lines_def case_prod_unfold o_def)

lemma getlines_config_text: "list_all saveable m \<Longrightarrow> getlines (config_text m) = config_lines m"
  unfolding config_text_lines
  by (rule getlines_lines) (auto simp: config_lines_def saveable_def list_all_iff)

lemma parse_config_lines: "list_all saveable m \<Longrightarrow> List.map_filter parse_line (config_lines m) = m"
proof -
  have "List.map_filter parse_line (map (\<lambda>(key, value). key @ CHR ''='' # value) m) = m" if "list_all saveable m"
    using that parse_line_setting [of "[]", simplified]
    by (induction m) (auto simp: map_filter_simps saveable_def parse_line_setting trim_blanks_id)
  then show "list_all saveable m \<Longrightarrow> ?thesis" by (simp add: config_lines_def map_filter_simps parse_line_def)
qed

lemma map_of_rev_smap: "smap_ok m \<Longrightarrow> map_of (rev m) = map_of m"
proof -
  assume "smap_ok m"
  then have "distinct (map fst m)" by (rule smap.keys_distinct)
  then have "map_of (rev m) k = Some v \<longleftrightarrow> map_of m k = Some v" for k v
    using map_of_eq_Some_iff [of "rev m" k v] map_of_eq_Some_iff [of m k v] by (simp flip: rev_map)
  then show ?thesis by (intro ext) (metis option.exhaust)
qed

lemma load_saved_lines:
  assumes "smap_ok m" "list_all saveable m"
  shows "map_of (load_lines (getlines (config_text m)) m0) = map_of m0 ++ map_of m"
  using assms by (simp add: getlines_config_text load_lines_map_of parse_config_lines map_of_rev_smap)

lemma apply_profile_map_of:
  "map_of (pf_config (set_optimization_profile profile c)) = map_of (pf_config c) ++ map_of (profile_settings profile)"
  by (cases profile) (auto simp: set_optimization_profile_def apply_profile_settings_def set_config_def fun_eq_iff map_add_def)

section \<open>Properties\<close>

text \<open>C24: A configuration that is saved and loaded again is the same: into any configuration, the saved settings are taken over and the
  others stay; into the initial one, the settings are exactly the saved ones. It needs a writable file and settings that the
  line format can carry: no line break, no \<^verbatim>\<open>=\<close> and no leading \<^verbatim>\<open>#\<close> in a key, no blank at the ends of a key or value.\<close>

theorem config_file_round_trip:
  assumes "writable filename" "smap_ok (pf_config c)" "list_all saveable (pf_config c)"
  shows "map_of (pf_config (fst (load_config_from_file (save_config_to_file writable filename c fs) filename c0)))
       = map_of (pf_config c0) ++ map_of (pf_config c)
     \<and> fst (load_config_from_file (save_config_to_file writable filename c fs) filename initial_performance_config)
       = initial_performance_config\<lparr>pf_config := pf_config c\<rparr>"
proof -
  have "load_lines (getlines (config_text (pf_config c))) [] = pf_config c"
    by (rule smap_eqI) (simp_all add: assms load_lines_ok load_saved_lines)
  then show ?thesis
    using assms by (simp add: load_config_from_file_def save_config_to_file_def load_saved_lines Let_def initial_performance_config_def)
qed

definition demo_settings :: performance_config where
  "demo_settings = set_config ''cache_size'' ''5000'' initial_performance_config"

theorem config_file_round_trip_witness:
  "fst (load_config_from_file (save_config_to_file (\<lambda>_. True) ''perf.conf'' demo_settings Map.empty) ''perf.conf'' initial_performance_config)
     = demo_settings"
  using config_file_round_trip [of "\<lambda>_. True" "''perf.conf''" demo_settings Map.empty]
  by (simp add: demo_settings_def set_config_def initial_performance_config_def smap_ok_def saveable_def trimmed_def is_blank_def)

text \<open>Each profile sets its settings and no others, and what it sets passes the validation: after any profile there is no
  warning, except that \<^verbatim>\<open>BALANCED\<close> does not set the batch size, so the one of the profile before it stays, checked or not.\<close>

theorem profiles_pass_validation:
  "map_of (pf_config (set_optimization_profile profile c)) = map_of (pf_config c) ++ map_of (profile_settings profile)
   \<and> validate_config (set_optimization_profile profile c)
     = (if profile = BALANCED then validate_int c (''db_batch_size'', 10, 10000) else [])
   \<and> get_config ''db_batch_size'' (set_optimization_profile BALANCED (set_optimization_profile HIGH_THROUGHPUT c)) = ''5000''"
proof -
  have "validate_config (set_optimization_profile profile c)
     = (if profile = BALANCED then validate_int c (''db_batch_size'', 10, 10000) else [])"
    by (cases profile)
      (simp_all add: validate_config_def validate_int_def config_ranges_def apply_profile_map_of map_add_def stoi_def isspace_def
        digit_value_def digits_value_def)
  moreover have "get_config ''db_batch_size'' (set_optimization_profile BALANCED (set_optimization_profile HIGH_THROUGHPUT c)) = ''5000''"
    by (simp add: get_config_def apply_profile_map_of map_add_def)
  ultimately show ?thesis by (simp add: apply_profile_map_of)
qed

end
