(* ===== verification/Performance_Monitor.thy ===== *)
theory Performance_Monitor
  imports Complex_Main Std_Containers External_World Monitor_Thread
begin

text \<open>
  \<^verbatim>\<open>PerformanceMonitor\<close> of \<^verbatim>\<open>performance_monitor.cpp\<close> and its header: for each name the list of recorded metrics, the alerts, the
  statistics, and the monitor thread. The counter of \<^verbatim>\<open>generateAlertId\<close> is static in the source and a member here. Members of the
  configuration, of the statistics and of the alerts that no function reads or writes are left out, and so are the exports to files.
  \<^verbatim>\<open>double\<close> values are rationals, the limits of the type and the constant 0.8 being their exact values.
\<close>

section \<open>Definitions\<close>

datatype metric_type = COUNTER | GAUGE | HISTOGRAM | TIMER | RATE | PERCENTILE

datatype alert_level = INFO | WARNING | ERROR | CRITICAL

text \<open>The value of the enumerator; it orders the keys of \<^verbatim>\<open>std::map<MetricType, int>\<close>.\<close>

fun metric_ordinal :: "metric_type \<Rightarrow> nat" where
  "metric_ordinal COUNTER = 0"
| "metric_ordinal GAUGE = 1"
| "metric_ordinal HISTOGRAM = 2"
| "metric_ordinal TIMER = 3"
| "metric_ordinal RATE = 4"
| "metric_ordinal PERCENTILE = 5"

lemma metric_ordinal_inj: "metric_ordinal a = metric_ordinal b \<longleftrightarrow> a = b"
  by (cases a; cases b) simp_all

instantiation metric_type :: linorder
begin

definition less_eq_metric_type :: "metric_type \<Rightarrow> metric_type \<Rightarrow> bool" where
  "less_eq_metric_type a b \<longleftrightarrow> metric_ordinal a \<le> metric_ordinal b"

definition less_metric_type :: "metric_type \<Rightarrow> metric_type \<Rightarrow> bool" where
  "less_metric_type a b \<longleftrightarrow> metric_ordinal a < metric_ordinal b"

instance
  by standard (auto simp: less_eq_metric_type_def less_metric_type_def simp flip: metric_ordinal_inj)

end

definition double_0_8 :: rat where
  "double_0_8 = 3602879701896397 / 4503599627370496"

definition double_max :: rat where
  "double_max = (2 ^ 53 - 1) * 2 ^ 971"

definition double_min :: rat where
  "double_min = 1 / 2 ^ 1022"

record monitor_config =
  mc_metrics_retention :: int
  mc_performance_threshold :: rat
  mc_max_metrics_per_type :: int
  mc_max_alerts_per_level :: int

definition default_monitor_config :: monitor_config where
  "default_monitor_config = \<lparr>mc_metrics_retention = 3600000, mc_performance_threshold = double_0_8,
     mc_max_metrics_per_type = 1000, mc_max_alerts_per_level = 100\<rparr>"

record metric =
  me_name :: string
  me_type :: metric_type
  me_value :: rat
  me_timestamp :: time
  me_labels :: "(string, string) smap"
  me_metadata :: "(string, string) smap"

record performance_alert =
  al_id :: string
  al_level :: alert_level
  al_message :: string
  al_metric_name :: string
  al_threshold :: rat
  al_current_value :: rat
  al_timestamp :: time
  al_labels :: "(string, string) smap"
  al_metadata :: "(string, string) smap"

record monitor_statistics =
  ms_total_metrics :: int
  ms_counter_metrics :: int
  ms_gauge_metrics :: int
  ms_histogram_metrics :: int
  ms_timer_metrics :: int
  ms_rate_metrics :: int
  ms_percentile_metrics :: int
  ms_total_alerts :: int
  ms_info_alerts :: int
  ms_warning_alerts :: int
  ms_error_alerts :: int
  ms_critical_alerts :: int
  ms_avg_metric_value :: rat
  ms_min_metric_value :: rat
  ms_max_metric_value :: rat
  ms_avg_metric_age :: int
  ms_min_metric_age :: int
  ms_max_metric_age :: int
  ms_last_update :: time

definition empty_monitor_statistics :: monitor_statistics where
  "empty_monitor_statistics = \<lparr>ms_total_metrics = 0, ms_counter_metrics = 0, ms_gauge_metrics = 0, ms_histogram_metrics = 0,
     ms_timer_metrics = 0, ms_rate_metrics = 0, ms_percentile_metrics = 0, ms_total_alerts = 0, ms_info_alerts = 0,
     ms_warning_alerts = 0, ms_error_alerts = 0, ms_critical_alerts = 0, ms_avg_metric_value = 0, ms_min_metric_value = 0,
     ms_max_metric_value = 0, ms_avg_metric_age = 0, ms_min_metric_age = 0, ms_max_metric_age = 0, ms_last_update = 0\<rparr>"

record performance_monitor =
  pn_config :: monitor_config
  pn_metrics :: "(string, metric list) smap"
  pn_alerts :: "performance_alert list"
  pn_stats :: monitor_statistics
  pn_alert_counter :: int

definition new_performance_monitor :: "monitor_config \<Rightarrow> performance_monitor" where
  "new_performance_monitor config =
     \<lparr>pn_config = config, pn_metrics = [], pn_alerts = [], pn_stats = empty_monitor_statistics, pn_alert_counter = 0\<rparr>"

subsection \<open>Recording\<close>

text \<open>The six recording methods differ in the type and the value; the rest of their bodies is the same.\<close>

definition metrics_of :: "string \<Rightarrow> performance_monitor \<Rightarrow> metric list" where
  "metrics_of name pn = (case smap_find (pn_metrics pn) name of Some l \<Rightarrow> l | None \<Rightarrow> [])"

definition push_metric :: "metric \<Rightarrow> performance_monitor \<Rightarrow> performance_monitor" where
  "push_metric m pn =
     (let l = metrics_of (me_name m) pn @ [m];
          l1 = (if length l > to_size_t (mc_max_metrics_per_type (pn_config pn)) then tl l else l)
      in pn\<lparr>pn_metrics := smap_update (me_name m) l1 (pn_metrics pn)\<rparr>)"

definition record_metric ::
  "'w clock \<Rightarrow> metric_type \<Rightarrow> (string, string) smap \<Rightarrow> string \<Rightarrow> rat \<Rightarrow> (string, string) smap \<Rightarrow> performance_monitor \<Rightarrow> 'w \<Rightarrow>
     bool \<times> performance_monitor \<times> 'w" where
  "record_metric clk type metadata name val labels pn w =
     (let (t, w1) = clk w
      in (True, push_metric \<lparr>me_name = name, me_type = type, me_value = val, me_timestamp = t, me_labels = labels,
                              me_metadata = metadata\<rparr> pn, w1))"

definition record_counter ::
  "'w clock \<Rightarrow> string \<Rightarrow> rat \<Rightarrow> (string, string) smap \<Rightarrow> performance_monitor \<Rightarrow> 'w \<Rightarrow> bool \<times> performance_monitor \<times> 'w" where
  "record_counter clk = record_metric clk COUNTER []"

definition record_gauge ::
  "'w clock \<Rightarrow> string \<Rightarrow> rat \<Rightarrow> (string, string) smap \<Rightarrow> performance_monitor \<Rightarrow> 'w \<Rightarrow> bool \<times> performance_monitor \<times> 'w" where
  "record_gauge clk = record_metric clk GAUGE []"

definition record_histogram ::
  "'w clock \<Rightarrow> string \<Rightarrow> rat \<Rightarrow> (string, string) smap \<Rightarrow> performance_monitor \<Rightarrow> 'w \<Rightarrow> bool \<times> performance_monitor \<times> 'w" where
  "record_histogram clk = record_metric clk HISTOGRAM []"

definition record_timer ::
  "'w clock \<Rightarrow> string \<Rightarrow> int \<Rightarrow> (string, string) smap \<Rightarrow> performance_monitor \<Rightarrow> 'w \<Rightarrow> bool \<times> performance_monitor \<times> 'w" where
  "record_timer clk name duration = record_metric clk TIMER [] name (of_int duration)"

definition record_rate ::
  "'w clock \<Rightarrow> string \<Rightarrow> rat \<Rightarrow> (string, string) smap \<Rightarrow> performance_monitor \<Rightarrow> 'w \<Rightarrow> bool \<times> performance_monitor \<times> 'w" where
  "record_rate clk = record_metric clk RATE []"

text \<open>\<^verbatim>\<open>std::to_string(double)\<close>: six decimals, rounded to the nearest, ties to the even digit.\<close>

definition round_half_even :: "rat \<Rightarrow> int" where
  "round_half_even q =
     (let f = \<lfloor>q\<rfloor>; d = q - of_int f
      in if d < 1 / 2 then f else if d > 1 / 2 then f + 1 else if even f then f else f + 1)"

definition pad_zeros :: "nat \<Rightarrow> string \<Rightarrow> string" where
  "pad_zeros n s = replicate (n - length s) CHR ''0'' @ s"

definition to_string_double :: "rat \<Rightarrow> string" where
  "to_string_double x =
     (let n = nat (round_half_even (\<bar>x\<bar> * 1000000))
      in (if x < 0 then ''-'' else []) @ show_nat (n div 1000000) @ ''.'' @ pad_zeros 6 (show_nat (n mod 1000000)))"

definition record_percentile ::
  "'w clock \<Rightarrow> string \<Rightarrow> rat \<Rightarrow> rat \<Rightarrow> (string, string) smap \<Rightarrow> performance_monitor \<Rightarrow> 'w \<Rightarrow> bool \<times> performance_monitor \<times> 'w" where
  "record_percentile clk name val percentile =
     record_metric clk PERCENTILE [(''percentile'', to_string_double percentile)] name val"

subsection \<open>Queries\<close>

definition get_metrics :: "string \<Rightarrow> performance_monitor \<Rightarrow> metric list" where
  "get_metrics name pn = (case smap_find (pn_metrics pn) name of Some l \<Rightarrow> l | None \<Rightarrow> [])"

text \<open>\<^verbatim>\<open>it != metrics_.end() && !it->second.empty()\<close>, and the last metric then.\<close>

definition latest_metric :: "string \<Rightarrow> performance_monitor \<Rightarrow> metric option" where
  "latest_metric name pn =
     (case smap_find (pn_metrics pn) name of Some l \<Rightarrow> (if l \<noteq> [] then Some (last l) else None) | None \<Rightarrow> None)"

definition get_latest_metric_value :: "string \<Rightarrow> performance_monitor \<Rightarrow> rat" where
  "get_latest_metric_value name pn = (case latest_metric name pn of Some m \<Rightarrow> me_value m | None \<Rightarrow> 0)"

definition sum_values :: "metric list \<Rightarrow> rat" where
  "sum_values l = foldl (\<lambda>sum m. sum + me_value m) 0 l"

definition get_metric_average_value :: "string \<Rightarrow> performance_monitor \<Rightarrow> rat" where
  "get_metric_average_value name pn =
     (case smap_find (pn_metrics pn) name of
        Some l \<Rightarrow> (if l \<noteq> [] then sum_values l / of_nat (length l) else 0) | None \<Rightarrow> 0)"

definition get_metric_minimum_value :: "string \<Rightarrow> performance_monitor \<Rightarrow> rat" where
  "get_metric_minimum_value name pn =
     (case smap_find (pn_metrics pn) name of
        Some l \<Rightarrow> (if l \<noteq> [] then foldl (\<lambda>v m. min v (me_value m)) (me_value (l ! 0)) l else 0) | None \<Rightarrow> 0)"

definition get_metric_maximum_value :: "string \<Rightarrow> performance_monitor \<Rightarrow> rat" where
  "get_metric_maximum_value name pn =
     (case smap_find (pn_metrics pn) name of
        Some l \<Rightarrow> (if l \<noteq> [] then foldl (\<lambda>v m. max v (me_value m)) (me_value (l ! 0)) l else 0) | None \<Rightarrow> 0)"

definition get_metric_sum_value :: "string \<Rightarrow> performance_monitor \<Rightarrow> rat" where
  "get_metric_sum_value name pn =
     (case smap_find (pn_metrics pn) name of Some l \<Rightarrow> (if l \<noteq> [] then sum_values l else 0) | None \<Rightarrow> 0)"

definition get_metric_count :: "string \<Rightarrow> performance_monitor \<Rightarrow> int" where
  "get_metric_count name pn = (case smap_find (pn_metrics pn) name of Some l \<Rightarrow> int (length l) | None \<Rightarrow> 0)"

definition get_metric_type :: "string \<Rightarrow> performance_monitor \<Rightarrow> metric_type" where
  "get_metric_type name pn = (case latest_metric name pn of Some m \<Rightarrow> me_type m | None \<Rightarrow> COUNTER)"

definition get_metric_labels :: "string \<Rightarrow> performance_monitor \<Rightarrow> (string, string) smap" where
  "get_metric_labels name pn = (case latest_metric name pn of Some m \<Rightarrow> me_labels m | None \<Rightarrow> [])"

definition get_metric_metadata :: "string \<Rightarrow> performance_monitor \<Rightarrow> (string, string) smap" where
  "get_metric_metadata name pn = (case latest_metric name pn of Some m \<Rightarrow> me_metadata m | None \<Rightarrow> [])"

text \<open>The three operations that change the metadata of the latest metric.\<close>

definition change_latest :: "string \<Rightarrow> ((string, string) smap \<Rightarrow> (string, string) smap) \<Rightarrow> performance_monitor \<Rightarrow> bool \<times> performance_monitor" where
  "change_latest name f pn =
     (case smap_find (pn_metrics pn) name of
        Some l \<Rightarrow>
          (if l \<noteq> [] then
             (True, pn\<lparr>pn_metrics := smap_update name (butlast l @ [(last l)\<lparr>me_metadata := f (me_metadata (last l))\<rparr>]) (pn_metrics pn)\<rparr>)
           else (False, pn))
      | None \<Rightarrow> (False, pn))"

definition set_metric_metadata :: "string \<Rightarrow> string \<Rightarrow> string \<Rightarrow> performance_monitor \<Rightarrow> bool \<times> performance_monitor" where
  "set_metric_metadata name key val = change_latest name (smap_update key val)"

definition remove_metric_metadata :: "string \<Rightarrow> string \<Rightarrow> performance_monitor \<Rightarrow> bool \<times> performance_monitor" where
  "remove_metric_metadata name key = change_latest name (smap_erase key)"

definition clear_metric_metadata :: "string \<Rightarrow> performance_monitor \<Rightarrow> bool \<times> performance_monitor" where
  "clear_metric_metadata name = change_latest name (\<lambda>_. [])"

definition has_metric :: "string \<Rightarrow> performance_monitor \<Rightarrow> bool" where
  "has_metric name pn \<longleftrightarrow> smap_find (pn_metrics pn) name \<noteq> None"

definition get_all_metric_names :: "performance_monitor \<Rightarrow> string list" where
  "get_all_metric_names pn = map fst (pn_metrics pn)"

definition get_metrics_by_type :: "metric_type \<Rightarrow> performance_monitor \<Rightarrow> string list" where
  "get_metrics_by_type type pn = map fst (filter (\<lambda>(name, l). l \<noteq> [] \<and> me_type (last l) = type) (pn_metrics pn))"

text \<open>The loop over the wanted pairs, which stops at the first that does not match.\<close>

fun matches_all :: "(string \<times> string) list \<Rightarrow> (string, string) smap \<Rightarrow> bool" where
  "matches_all [] have \<longleftrightarrow> True"
| "matches_all ((key, val) # wanted) have \<longleftrightarrow>
     (case smap_find have key of None \<Rightarrow> False | Some v \<Rightarrow> if v \<noteq> val then False else matches_all wanted have)"

definition get_metrics_by_labels :: "(string, string) smap \<Rightarrow> performance_monitor \<Rightarrow> string list" where
  "get_metrics_by_labels labels pn =
     map fst (filter (\<lambda>(name, l). l \<noteq> [] \<and> matches_all labels (me_labels (last l))) (pn_metrics pn))"

definition get_metrics_by_metadata :: "(string, string) smap \<Rightarrow> performance_monitor \<Rightarrow> string list" where
  "get_metrics_by_metadata metadata pn =
     map fst (filter (\<lambda>(name, l). l \<noteq> [] \<and> matches_all metadata (me_metadata (last l))) (pn_metrics pn))"

definition get_metric_count_by_type :: "metric_type \<Rightarrow> performance_monitor \<Rightarrow> int" where
  "get_metric_count_by_type type pn = int (length (filter (\<lambda>(name, l). l \<noteq> [] \<and> me_type (last l) = type) (pn_metrics pn)))"

definition get_metric_count_by_labels :: "(string, string) smap \<Rightarrow> performance_monitor \<Rightarrow> int" where
  "get_metric_count_by_labels labels pn = int (length (get_metrics_by_labels labels pn))"

definition get_metric_count_by_metadata :: "(string, string) smap \<Rightarrow> performance_monitor \<Rightarrow> int" where
  "get_metric_count_by_metadata metadata pn = int (length (get_metrics_by_metadata metadata pn))"

definition get_total_metric_count :: "performance_monitor \<Rightarrow> int" where
  "get_total_metric_count pn = (\<Sum>(name, l)\<leftarrow>pn_metrics pn. int (length l))"

definition get_metric_statistics :: "string \<Rightarrow> performance_monitor \<Rightarrow> (string, rat) smap" where
  "get_metric_statistics name pn =
     [(''average'', get_metric_average_value name pn), (''count'', of_int (get_metric_count name pn)),
      (''latest'', get_latest_metric_value name pn), (''maximum'', get_metric_maximum_value name pn),
      (''minimum'', get_metric_minimum_value name pn), (''sum'', get_metric_sum_value name pn)]"

definition get_metric_statistics_by_name :: "performance_monitor \<Rightarrow> (string, int) smap" where
  "get_metric_statistics_by_name pn = map (\<lambda>(name, l). (name, int (length l))) (pn_metrics pn)"

definition count_type :: "metric_type \<Rightarrow> (metric_type, int) smap \<Rightarrow> (metric_type, int) smap" where
  "count_type type stats = smap_update type ((case smap_find stats type of Some n \<Rightarrow> n | None \<Rightarrow> 0) + 1) stats"

definition get_metric_statistics_by_type :: "performance_monitor \<Rightarrow> (metric_type, int) smap" where
  "get_metric_statistics_by_type pn =
     foldl (\<lambda>stats (name, l). if l \<noteq> [] then count_type (me_type (last l)) stats else stats) [] (pn_metrics pn)"

subsection \<open>Expiry\<close>

definition is_metric_expired :: "'w clock \<Rightarrow> monitor_config \<Rightarrow> metric \<Rightarrow> 'w \<Rightarrow> bool \<times> 'w" where
  "is_metric_expired clk config m w =
     (let (now, w1) = clk w in (now - me_timestamp m > mc_metrics_retention config * 1000000, w1))"

fun drop_expired_metrics :: "'w clock \<Rightarrow> monitor_config \<Rightarrow> metric list \<Rightarrow> 'w \<Rightarrow> int \<times> metric list \<times> 'w" where
  "drop_expired_metrics clk config [] w = (0, [], w)"
| "drop_expired_metrics clk config (m # ms) w =
     (case is_metric_expired clk config m w of
        (expired, w1) \<Rightarrow>
          (case drop_expired_metrics clk config ms w1 of
             (n, ms', w2) \<Rightarrow> if expired then (n + 1, ms', w2) else (n, m # ms', w2)))"

fun sweep_metrics ::
  "'w clock \<Rightarrow> monitor_config \<Rightarrow> (string \<times> metric list) list \<Rightarrow> 'w \<Rightarrow> int \<times> (string \<times> metric list) list \<times> 'w" where
  "sweep_metrics clk config [] w = (0, [], w)"
| "sweep_metrics clk config ((name, l) # rest) w =
     (case drop_expired_metrics clk config l w of
        (n, l', w1) \<Rightarrow> (case sweep_metrics clk config rest w1 of (n', rest', w2) \<Rightarrow> (n + n', (name, l') # rest', w2)))"

text \<open>Both clean-ups read the clock once before the loop and do not use what it shows.\<close>

definition clear_expired_metrics :: "'w clock \<Rightarrow> performance_monitor \<Rightarrow> 'w \<Rightarrow> int \<times> performance_monitor \<times> 'w" where
  "clear_expired_metrics clk pn w =
     (case sweep_metrics clk (pn_config pn) (pn_metrics pn) (snd (clk w)) of (n, m, w2) \<Rightarrow> (n, pn\<lparr>pn_metrics := m\<rparr>, w2))"

definition cleanup_expired_metrics :: "'w clock \<Rightarrow> performance_monitor \<Rightarrow> 'w \<Rightarrow> performance_monitor \<times> 'w" where
  "cleanup_expired_metrics clk pn w =
     (case sweep_metrics clk (pn_config pn) (pn_metrics pn) (snd (clk w)) of (n, m, w2) \<Rightarrow> (pn\<lparr>pn_metrics := m\<rparr>, w2))"

definition clear_metrics :: "string \<Rightarrow> performance_monitor \<Rightarrow> int \<times> performance_monitor" where
  "clear_metrics name pn =
     (case smap_find (pn_metrics pn) name of
        Some l \<Rightarrow> (int (length l), pn\<lparr>pn_metrics := smap_erase name (pn_metrics pn)\<rparr>) | None \<Rightarrow> (0, pn))"

definition clear_all_metrics :: "performance_monitor \<Rightarrow> int \<times> performance_monitor" where
  "clear_all_metrics pn = ((\<Sum>(name, l)\<leftarrow>pn_metrics pn. int (length l)), pn\<lparr>pn_metrics := []\<rparr>)"

definition force_cleanup :: "'w clock \<Rightarrow> performance_monitor \<Rightarrow> 'w \<Rightarrow> performance_monitor \<times> 'w" where
  "force_cleanup clk pn w = snd (clear_expired_metrics clk pn w)"

definition force_metric_cleanup :: "string \<Rightarrow> performance_monitor \<Rightarrow> bool \<times> performance_monitor" where
  "force_metric_cleanup name pn = (case clear_metrics name pn of (n, pn1) \<Rightarrow> (n > 0, pn1))"

definition optimize_performance_monitor :: "'w clock \<Rightarrow> performance_monitor \<Rightarrow> 'w \<Rightarrow> performance_monitor \<times> 'w" where
  "optimize_performance_monitor clk pn w = snd (clear_expired_metrics clk pn w)"

subsection \<open>Alerts\<close>

definition generate_alert_id :: "'w clock \<Rightarrow> performance_monitor \<Rightarrow> 'w \<Rightarrow> string \<times> performance_monitor \<times> 'w" where
  "generate_alert_id clk pn w =
     (let (now, w1) = clk w;
          timestamp = int_div now 1000000
      in (''ALERT_'' @ to_string timestamp @ ''_'' @ to_string (pn_alert_counter pn),
          pn\<lparr>pn_alert_counter := pn_alert_counter pn + 1\<rparr>, w1))"

definition raise_alert ::
  "'w clock \<Rightarrow> alert_level \<Rightarrow> string \<Rightarrow> string \<Rightarrow> rat \<Rightarrow> rat \<Rightarrow> (string, string) smap \<Rightarrow> (string, string) smap \<Rightarrow>
     performance_monitor \<Rightarrow> 'w \<Rightarrow> performance_monitor \<times> 'w" where
  "raise_alert clk level message name threshold current labels metadata pn w =
     (case generate_alert_id clk pn w of
        (i, pn1, w1) \<Rightarrow>
          let (t, w2) = clk w1;
              alert = \<lparr>al_id = i, al_level = level, al_message = message, al_metric_name = name, al_threshold = threshold,
                al_current_value = current, al_timestamp = t, al_labels = labels, al_metadata = metadata\<rparr>
          in (pn1\<lparr>pn_alerts := pn_alerts pn1 @ [alert]\<rparr>, w2))"

fun check_thresholds ::
  "'w clock \<Rightarrow> rat \<Rightarrow> (string \<times> metric list) list \<Rightarrow> performance_monitor \<Rightarrow> 'w \<Rightarrow> performance_monitor \<times> 'w" where
  "check_thresholds clk threshold [] pn w = (pn, w)"
| "check_thresholds clk threshold ((name, l) # rest) pn w =
     (if l \<noteq> [] \<and> me_value (last l) > threshold then
        (case raise_alert clk WARNING (''Performance threshold exceeded for metric: '' @ name) name threshold (me_value (last l))
                (me_labels (last l)) (me_metadata (last l)) pn w of
           (pn1, w1) \<Rightarrow> check_thresholds clk threshold rest pn1 w1)
      else check_thresholds clk threshold rest pn w)"

definition check_performance_thresholds :: "'w clock \<Rightarrow> performance_monitor \<Rightarrow> 'w \<Rightarrow> performance_monitor \<times> 'w" where
  "check_performance_thresholds clk pn w =
     check_thresholds clk (mc_performance_threshold (pn_config pn)) (pn_metrics pn) pn w"

definition generate_performance_alerts :: "'w clock \<Rightarrow> performance_monitor \<Rightarrow> 'w \<Rightarrow> performance_monitor \<times> 'w" where
  "generate_performance_alerts clk pn w =
     (if ms_total_metrics (pn_stats pn) > mc_max_metrics_per_type (pn_config pn)
      then raise_alert clk CRITICAL ''Too many metrics collected'' ''system'' (of_int (mc_max_metrics_per_type (pn_config pn)))
             (of_int (ms_total_metrics (pn_stats pn))) [] [] pn w
      else (pn, w))"

text \<open>\<^verbatim>\<open>analyzePerformanceTrends\<close> and \<^verbatim>\<open>optimizePerformance\<close> have empty bodies.\<close>

definition monitor_performance :: "'w clock \<Rightarrow> performance_monitor \<Rightarrow> 'w \<Rightarrow> performance_monitor \<times> 'w" where
  "monitor_performance clk pn w =
     (case check_performance_thresholds clk pn w of (pn1, w1) \<Rightarrow> generate_performance_alerts clk pn1 w1)"

subsection \<open>Statistics\<close>

definition count_metric_type :: "metric_type \<Rightarrow> monitor_statistics \<Rightarrow> monitor_statistics" where
  "count_metric_type type s =
     (case type of
        COUNTER \<Rightarrow> s\<lparr>ms_counter_metrics := ms_counter_metrics s + 1\<rparr>
      | GAUGE \<Rightarrow> s\<lparr>ms_gauge_metrics := ms_gauge_metrics s + 1\<rparr>
      | HISTOGRAM \<Rightarrow> s\<lparr>ms_histogram_metrics := ms_histogram_metrics s + 1\<rparr>
      | TIMER \<Rightarrow> s\<lparr>ms_timer_metrics := ms_timer_metrics s + 1\<rparr>
      | RATE \<Rightarrow> s\<lparr>ms_rate_metrics := ms_rate_metrics s + 1\<rparr>
      | PERCENTILE \<Rightarrow> s\<lparr>ms_percentile_metrics := ms_percentile_metrics s + 1\<rparr>)"

definition count_alert_level :: "alert_level \<Rightarrow> monitor_statistics \<Rightarrow> monitor_statistics" where
  "count_alert_level level s =
     (case level of
        INFO \<Rightarrow> s\<lparr>ms_info_alerts := ms_info_alerts s + 1\<rparr>
      | WARNING \<Rightarrow> s\<lparr>ms_warning_alerts := ms_warning_alerts s + 1\<rparr>
      | ERROR \<Rightarrow> s\<lparr>ms_error_alerts := ms_error_alerts s + 1\<rparr>
      | CRITICAL \<Rightarrow> s\<lparr>ms_critical_alerts := ms_critical_alerts s + 1\<rparr>)"

text \<open>The local accumulators of \<^verbatim>\<open>updateStatistics\<close>.\<close>

record metric_sums =
  sm_total_value :: rat
  sm_min_value :: rat
  sm_max_value :: rat
  sm_total_age :: int
  sm_min_age :: int
  sm_max_age :: int

definition metric_age :: "time \<Rightarrow> metric \<Rightarrow> int" where
  "metric_age now m = int_div (now - me_timestamp m) 1000000"

fun tally_metrics :: "time \<Rightarrow> metric list \<Rightarrow> monitor_statistics \<times> metric_sums \<Rightarrow> monitor_statistics \<times> metric_sums" where
  "tally_metrics now [] acc = acc"
| "tally_metrics now (m # ms) (s, a) =
     tally_metrics now ms
       (count_metric_type (me_type m) (s\<lparr>ms_total_metrics := ms_total_metrics s + 1\<rparr>),
        \<lparr>sm_total_value = sm_total_value a + me_value m, sm_min_value = min (sm_min_value a) (me_value m),
         sm_max_value = max (sm_max_value a) (me_value m), sm_total_age = sm_total_age a + metric_age now m,
         sm_min_age = min (sm_min_age a) (metric_age now m), sm_max_age = max (sm_max_age a) (metric_age now m)\<rparr>)"

fun tally_alerts :: "performance_alert list \<Rightarrow> monitor_statistics \<Rightarrow> monitor_statistics" where
  "tally_alerts [] s = s"
| "tally_alerts (al # als) s = tally_alerts als (count_alert_level (al_level al) (s\<lparr>ms_total_alerts := ms_total_alerts s + 1\<rparr>))"

definition all_metrics :: "performance_monitor \<Rightarrow> metric list" where
  "all_metrics pn = concat (map snd (pn_metrics pn))"

definition zero_counts :: "monitor_statistics \<Rightarrow> monitor_statistics" where
  "zero_counts s = s\<lparr>ms_total_metrics := 0, ms_counter_metrics := 0, ms_gauge_metrics := 0, ms_histogram_metrics := 0,
     ms_timer_metrics := 0, ms_rate_metrics := 0, ms_percentile_metrics := 0, ms_total_alerts := 0, ms_info_alerts := 0,
     ms_warning_alerts := 0, ms_error_alerts := 0, ms_critical_alerts := 0\<rparr>"

definition empty_sums :: metric_sums where
  "empty_sums = \<lparr>sm_total_value = 0, sm_min_value = double_max, sm_max_value = double_min, sm_total_age = 0,
     sm_min_age = 2 ^ 63 - 1, sm_max_age = 0\<rparr>"

definition update_monitor_statistics :: "'w clock \<Rightarrow> performance_monitor \<Rightarrow> 'w \<Rightarrow> performance_monitor \<times> 'w" where
  "update_monitor_statistics clk pn w =
     (let (now, w1) = clk w;
          (s1, a) = tally_metrics now (all_metrics pn) (zero_counts (pn_stats pn), empty_sums);
          s2 = (if ms_total_metrics s1 > 0 then
                  s1\<lparr>ms_avg_metric_value := sm_total_value a / of_int (ms_total_metrics s1), ms_min_metric_value := sm_min_value a,
                     ms_max_metric_value := sm_max_value a, ms_avg_metric_age := int_div (sm_total_age a) (ms_total_metrics s1),
                     ms_min_metric_age := sm_min_age a, ms_max_metric_age := sm_max_age a\<rparr>
                else s1);
          s3 = tally_alerts (pn_alerts pn) s2
      in (pn\<lparr>pn_stats := s3\<lparr>ms_last_update := now\<rparr>\<rparr>, w1))"

definition reset_monitor_statistics :: "performance_monitor \<Rightarrow> performance_monitor" where
  "reset_monitor_statistics pn = pn\<lparr>pn_stats := empty_monitor_statistics\<rparr>"

definition update_monitor_config :: "monitor_config \<Rightarrow> performance_monitor \<Rightarrow> performance_monitor" where
  "update_monitor_config config pn = pn\<lparr>pn_config := config\<rparr>"

definition get_performance_monitor_recommendations :: "performance_monitor \<Rightarrow> string list" where
  "get_performance_monitor_recommendations pn =
     (if get_total_metric_count pn > mc_max_metrics_per_type (pn_config pn) * 10
      then [''Consider reducing metric collection frequency''] else []) @
     (if ms_total_alerts (pn_stats pn) > mc_max_alerts_per_level (pn_config pn) * 5
      then [''High alert count, consider adjusting thresholds''] else []) @
     (if ms_avg_metric_value (pn_stats pn) > mc_performance_threshold (pn_config pn) * 2
      then [''Performance metrics are consistently high''] else [])"

definition get_performance_monitor_performance_metrics :: "performance_monitor \<Rightarrow> (string, rat) smap" where
  "get_performance_monitor_performance_metrics pn =
     [(''avg_metric_value'', ms_avg_metric_value (pn_stats pn)), (''performance_threshold'', mc_performance_threshold (pn_config pn)),
      (''total_alerts'', of_int (ms_total_alerts (pn_stats pn))), (''total_metrics'', of_int (get_total_metric_count pn))]"

subsection \<open>Integrity\<close>

definition validate_performance_monitor_integrity :: "performance_monitor \<Rightarrow> bool" where
  "validate_performance_monitor_integrity pn \<longleftrightarrow>
     list_all (\<lambda>(name, l). list_all (\<lambda>m. \<not> (me_value m < 0 \<or> me_value m > 1000000000)) l) (pn_metrics pn)"

definition get_performance_monitor_issues :: "performance_monitor \<Rightarrow> string list" where
  "get_performance_monitor_issues pn =
     (if \<not> validate_performance_monitor_integrity pn then [''Performance monitor integrity check failed''] else []) @
     (if get_total_metric_count pn > mc_max_metrics_per_type (pn_config pn) * 10 then [''Too many metrics collected''] else []) @
     (if ms_total_alerts (pn_stats pn) > mc_max_alerts_per_level (pn_config pn) * 5 then [''Too many alerts generated''] else [])"

definition repair_performance_monitor :: "'w clock \<Rightarrow> performance_monitor \<Rightarrow> 'w \<Rightarrow> int \<times> performance_monitor \<times> 'w" where
  "repair_performance_monitor clk pn w =
     (let (n1, pn1) = (if \<not> validate_performance_monitor_integrity pn then clear_all_metrics pn else (0, pn))
      in if get_total_metric_count pn1 > mc_max_metrics_per_type (pn_config pn1) * 10
         then (case clear_expired_metrics clk pn1 w of (n2, pn2, w1) \<Rightarrow> (n1 + n2, pn2, w1))
         else (n1, pn1, w))"

fun metric_type_to_string :: "metric_type \<Rightarrow> string" where
  "metric_type_to_string COUNTER = ''COUNTER''"
| "metric_type_to_string GAUGE = ''GAUGE''"
| "metric_type_to_string HISTOGRAM = ''HISTOGRAM''"
| "metric_type_to_string TIMER = ''TIMER''"
| "metric_type_to_string RATE = ''RATE''"
| "metric_type_to_string PERCENTILE = ''PERCENTILE''"

fun alert_level_to_string :: "alert_level \<Rightarrow> string" where
  "alert_level_to_string INFO = ''INFO''"
| "alert_level_to_string WARNING = ''WARNING''"
| "alert_level_to_string ERROR = ''ERROR''"
| "alert_level_to_string CRITICAL = ''CRITICAL''"

subsection \<open>The service\<close>

record performance_service =
  pfs_monitor :: performance_monitor
  pfs_thread :: monitor

definition performance_start :: "performance_service \<Rightarrow> performance_service" where
  "performance_start s = s\<lparr>pfs_thread := monitor_start (pfs_thread s)\<rparr>"

definition performance_stop :: "performance_service \<Rightarrow> performance_service" where
  "performance_stop s = s\<lparr>pfs_thread := monitor_stop (pfs_thread s)\<rparr>"

definition performance_is_running :: "performance_service \<Rightarrow> bool" where
  "performance_is_running s \<longleftrightarrow> monitor_is_running (pfs_thread s)"

text \<open>What a pass of \<^verbatim>\<open>monitorLoop\<close> does to the monitor, and the pass with the stop flag.\<close>

definition monitor_cycle :: "'w clock \<Rightarrow> performance_monitor \<Rightarrow> 'w \<Rightarrow> performance_monitor \<times> 'w" where
  "monitor_cycle clk pn w =
     (case monitor_performance clk pn w of
        (pn1, w1) \<Rightarrow> (case cleanup_expired_metrics clk pn1 w1 of (pn2, w2) \<Rightarrow> update_monitor_statistics clk pn2 w2))"

definition performance_monitor_pass :: "'w clock \<Rightarrow> performance_service \<Rightarrow> 'w \<Rightarrow> performance_service \<times> 'w" where
  "performance_monitor_pass clk s w =
     (let s1 = s\<lparr>pfs_thread := monitor_wake (pfs_thread s)\<rparr>
      in if mn_should_stop (pfs_thread s) then (s1, w)
         else case monitor_cycle clk (pfs_monitor s) w of (pn1, w1) \<Rightarrow> (s1\<lparr>pfs_monitor := pn1\<rparr>, w1))"

end
