(* ===== verification/Monitor_Properties.thy ===== *)
theory Monitor_Properties
  imports Performance_Monitor State_Machine Sliding_Window "HOL-Library.Sublist"
begin

text \<open>
  The performance monitor under every order of calls and of the sections of its thread: the recorded metrics as a sliding window
  over everything recorded, the alerts and their identifiers, the statistics, the clean-up and the repair.
\<close>

section \<open>The machine\<close>

text \<open>A step is a call, or one of the functions that the monitor thread runs in turn.\<close>

inductive monitor_step :: "'w clock \<Rightarrow> performance_monitor \<times> 'w \<Rightarrow> performance_monitor \<times> 'w \<Rightarrow> bool" for clk :: "'w clock" where
  record_any: "monitor_step clk (pn, w) (snd (record_metric clk type metadata name val labels pn w))"
| change_metadata: "monitor_step clk (pn, w) (snd (change_latest name f pn), w)"
| clear_expired: "monitor_step clk (pn, w) (snd (clear_expired_metrics clk pn w))"
| clear_name: "monitor_step clk (pn, w) (snd (clear_metrics name pn), w)"
| clear_all: "monitor_step clk (pn, w) (snd (clear_all_metrics pn), w)"
| repair: "monitor_step clk (pn, w) (snd (repair_performance_monitor clk pn w))"
| reset: "monitor_step clk (pn, w) (reset_monitor_statistics pn, w)"
| config: "monitor_step clk (pn, w) (update_monitor_config c pn, w)"
| thresholds: "monitor_step clk (pn, w) (check_performance_thresholds clk pn w)"
| alerts: "monitor_step clk (pn, w) (generate_performance_alerts clk pn w)"
| cleanup: "monitor_step clk (pn, w) (cleanup_expired_metrics clk pn w)"
| statistics: "monitor_step clk (pn, w) (update_monitor_statistics clk pn w)"
| tick: "monitor_step clk (pn, w) (pn, w')"

definition monitor_init :: "performance_monitor \<times> 'w \<Rightarrow> bool" where
  "monitor_init s \<longleftrightarrow> (\<exists>config w. s = (new_performance_monitor config, w))"

section \<open>Recording\<close>

lemma metrics_of_push:
  "metrics_of n (push_metric m pn) =
     (if n = me_name m
      then let l = metrics_of n pn @ [m] in if length l > to_size_t (mc_max_metrics_per_type (pn_config pn)) then tl l else l
      else metrics_of n pn)"
  by (simp add: metrics_of_def push_metric_def Let_def)

lemma push_metric_frame [frame_laws]:
  "pn_config (push_metric m pn) = pn_config pn" "pn_alerts (push_metric m pn) = pn_alerts pn"
  "pn_stats (push_metric m pn) = pn_stats pn" "pn_alert_counter (push_metric m pn) = pn_alert_counter pn"
  by (simp_all add: push_metric_def Let_def)

text \<open>A call of a recording method, and what of the metric does not depend on the clock.\<close>

type_synonym recorded = "metric_type \<times> (string, string) smap \<times> rat \<times> (string, string) smap"
type_synonym record_call = "string \<times> recorded"

definition record_op :: "'w clock \<Rightarrow> performance_monitor \<times> 'w \<Rightarrow> record_call \<Rightarrow> performance_monitor \<times> 'w" where
  "record_op clk s = (\<lambda>(name, type, metadata, val, labels). snd (record_metric clk type metadata name val labels (fst s) (snd s)))"

definition recorded_part :: "metric \<Rightarrow> recorded" where
  "recorded_part m = (me_type m, me_metadata m, me_value m, me_labels m)"

definition call_entry :: "string \<Rightarrow> record_call \<Rightarrow> recorded option" where
  "call_entry n = (\<lambda>(name, r). if name = n then Some r else None)"

definition metric_window :: "string \<Rightarrow> performance_monitor \<times> 'w \<Rightarrow> recorded list" where
  "metric_window n s = map recorded_part (metrics_of n (fst s))"

definition metric_limit :: "performance_monitor \<times> 'w \<Rightarrow> nat" where
  "metric_limit s = to_size_t (mc_max_metrics_per_type (pn_config (fst s)))"

interpretation metric_log: sliding_window "record_op clk" "metric_window n" metric_limit "call_entry n"
proof
  fix s :: "performance_monitor \<times> 'a" and c :: record_call
  obtain name type metadata val labels where c: "c = (name, type, metadata, val, labels)" by (cases c) auto
  show "metric_limit (record_op clk s c) = metric_limit s"
    by (simp add: c record_op_def record_metric_def metric_limit_def case_prod_beta frame_laws)
  show "metric_window n (record_op clk s c) =
      (case call_entry n c of None \<Rightarrow> metric_window n s
       | Some x \<Rightarrow> (let ys = metric_window n s @ [x] in if length ys > metric_limit s then tl ys else ys))"
    by (simp add: c record_op_def record_metric_def metric_limit_def metric_window_def call_entry_def metrics_of_push
        recorded_part_def case_prod_beta Let_def map_tl)
qed

section \<open>Alerts\<close>

definition alert_id :: "int \<Rightarrow> int \<Rightarrow> string" where
  "alert_id timestamp n = ''ALERT_'' @ to_string timestamp @ ''_'' @ to_string n"

lemma to_string_chars: "CHR ''_'' \<notin> set (to_string i)"
  using show_nat_isdigit [of "nat i"] show_nat_isdigit [of "nat (- i)"]
  by (auto simp: to_string_def list_all_iff isdigit_def)

lemma alert_id_inj: "alert_id t m = alert_id u n \<longleftrightarrow> t = u \<and> m = n"
  using append_Cons_eq_iff [of "CHR ''_''" "to_string t" "to_string m" "to_string u" "to_string n"] to_string_chars
  by (simp add: alert_id_def to_string_inj)

lemma raise_alert_frame [frame_laws]:
  "pn_config (fst (raise_alert clk lv msg n th cur ls md pn w)) = pn_config pn"
  "pn_metrics (fst (raise_alert clk lv msg n th cur ls md pn w)) = pn_metrics pn"
  "pn_stats (fst (raise_alert clk lv msg n th cur ls md pn w)) = pn_stats pn"
  "pn_alert_counter (fst (raise_alert clk lv msg n th cur ls md pn w)) = pn_alert_counter pn + 1"
  by (simp_all add: raise_alert_def generate_alert_id_def Let_def case_prod_beta)

lemma raise_alert_alerts:
  obtains a t where "pn_alerts (fst (raise_alert clk lv msg n th cur ls md pn w)) = pn_alerts pn @ [a]"
    "al_id a = alert_id t (pn_alert_counter pn)"
proof (rule that)
  let ?a = "last (pn_alerts (fst (raise_alert clk lv msg n th cur ls md pn w)))"
  show "pn_alerts (fst (raise_alert clk lv msg n th cur ls md pn w)) = pn_alerts pn @ [?a]"
    "al_id ?a = alert_id (int_div (fst (clk w)) 1000000) (pn_alert_counter pn)"
    by (simp_all add: raise_alert_def generate_alert_id_def Let_def case_prod_beta alert_id_def)
qed

definition over_threshold :: "rat \<Rightarrow> string \<times> metric list \<Rightarrow> bool" where
  "over_threshold th = (\<lambda>(name, l). l \<noteq> [] \<and> me_value (last l) > th)"

text \<open>The identifiers count: the \<open>i\<close>-th alert carries the number \<open>i\<close>, and the counter is the number of alerts.\<close>

definition alerts_ok :: "performance_monitor \<Rightarrow> bool" where
  "alerts_ok pn \<longleftrightarrow> pn_alert_counter pn = int (length (pn_alerts pn))
     \<and> (\<forall>i < length (pn_alerts pn). \<exists>t. al_id (pn_alerts pn ! i) = alert_id t (int i))"

lemma alerts_ok_distinct: "alerts_ok pn \<Longrightarrow> distinct (map al_id (pn_alerts pn))"
proof -
  assume ok: "alerts_ok pn"
  have "i = j" if "i < length (pn_alerts pn)" "j < length (pn_alerts pn)" "al_id (pn_alerts pn ! i) = al_id (pn_alerts pn ! j)" for i j
    using ok that unfolding alerts_ok_def by (metis alert_id_inj of_nat_eq_iff)
  then show ?thesis by (auto simp: distinct_conv_nth)
qed

lemma raise_alert_step:
  "prefix (pn_alerts pn) (pn_alerts (fst (raise_alert clk lv msg n th cur ls md pn w)))
   \<and> length (pn_alerts (fst (raise_alert clk lv msg n th cur ls md pn w))) = Suc (length (pn_alerts pn))
   \<and> (alerts_ok pn \<longrightarrow> alerts_ok (fst (raise_alert clk lv msg n th cur ls md pn w)))"
proof (rule raise_alert_alerts [of clk lv msg n th cur ls md pn w])
  fix a t
  assume "pn_alerts (fst (raise_alert clk lv msg n th cur ls md pn w)) = pn_alerts pn @ [a]" "al_id a = alert_id t (pn_alert_counter pn)"
  then show ?thesis by (auto simp: alerts_ok_def frame_laws nth_append less_Suc_eq)
qed

lemma check_thresholds_frame [frame_laws]:
  "pn_config (fst (check_thresholds clk th l pn w)) = pn_config pn \<and> pn_metrics (fst (check_thresholds clk th l pn w)) = pn_metrics pn
   \<and> pn_stats (fst (check_thresholds clk th l pn w)) = pn_stats pn"
  by (induction clk th l pn w rule: check_thresholds.induct) (auto simp: case_prod_beta frame_laws)

lemma check_thresholds_alerts:
  "prefix (pn_alerts pn) (pn_alerts (fst (check_thresholds clk th l pn w)))
   \<and> length (pn_alerts (fst (check_thresholds clk th l pn w))) = length (pn_alerts pn) + length (filter (over_threshold th) l)
   \<and> (alerts_ok pn \<longrightarrow> alerts_ok (fst (check_thresholds clk th l pn w)))"
proof (induction l arbitrary: pn w)
  case (Cons e rest)
  obtain name l where e: "e = (name, l)" by (cases e)
  show ?case
  proof (cases "over_threshold th e")
    case True
    define r where "r = raise_alert clk WARNING (''Performance threshold exceeded for metric: '' @ name) name th (me_value (last l))
                (me_labels (last l)) (me_metadata (last l)) pn w"
    have eq: "check_thresholds clk th (e # rest) pn w = check_thresholds clk th rest (fst r) (snd r)"
      using True by (simp add: e over_threshold_def r_def case_prod_beta)
    have "prefix (pn_alerts pn) (pn_alerts (fst r))" "length (pn_alerts (fst r)) = Suc (length (pn_alerts pn))"
      "alerts_ok pn \<longrightarrow> alerts_ok (fst r)" by (simp_all add: r_def raise_alert_step)
    with Cons.IH [of "fst r" "snd r"] True show ?thesis
      unfolding eq by (auto intro: prefix_order.trans)
  next
    case False
    with Cons.IH [of pn w] show ?thesis by (auto simp: e over_threshold_def)
  qed
qed simp

lemma generate_alerts_alerts:
  "prefix (pn_alerts pn) (pn_alerts (fst (generate_performance_alerts clk pn w)))
   \<and> length (pn_alerts (fst (generate_performance_alerts clk pn w))) = length (pn_alerts pn)
       + (if ms_total_metrics (pn_stats pn) > mc_max_metrics_per_type (pn_config pn) then 1 else 0)
   \<and> (alerts_ok pn \<longrightarrow> alerts_ok (fst (generate_performance_alerts clk pn w)))"
  by (simp add: generate_performance_alerts_def raise_alert_step)

section \<open>Expiry\<close>

text \<open>What a clean-up between the times \<open>t\<close> and \<open>t'\<close> makes of a list: it keeps the order, nothing that was too old at the beginning,
  and everything that is recent enough at the end.\<close>

definition swept :: "int \<Rightarrow> time \<Rightarrow> time \<Rightarrow> metric list \<Rightarrow> metric list \<Rightarrow> bool" where
  "swept retention t t' l l' \<longleftrightarrow> subseq l' l \<and> (\<forall>m \<in> set l'. t - me_timestamp m \<le> retention)
     \<and> (\<forall>m \<in> set l. t' - me_timestamp m \<le> retention \<longrightarrow> m \<in> set l')"

lemma swept_mono: "swept r t t' l l' \<Longrightarrow> u \<le> t \<Longrightarrow> t' \<le> u' \<Longrightarrow> swept r u u' l l'"
  by (force simp: swept_def)

lemma drop_expired_metrics_spec:
  assumes "mono_clock clk" "drop_expired_metrics clk config l w = (n, l', w')"
  shows "fst (clk w) \<le> fst (clk w') \<and> n = int (length l) - int (length l')
    \<and> swept (mc_metrics_retention config * 1000000) (fst (clk w)) (fst (clk w')) l l'"
  using assms(2)
proof (induction l arbitrary: w n l')
  case (Cons m ms)
  obtain k ms' where r: "drop_expired_metrics clk config ms (snd (clk w)) = (k, ms', w')"
    using Cons.prems by (cases "drop_expired_metrics clk config ms (snd (clk w))")
      (auto simp: is_metric_expired_def case_prod_beta split: if_splits)
  note IH = Cons.IH [OF r]
  have c: "fst (clk w) \<le> fst (clk (snd (clk w)))" using assms(1) by (rule mono_clockD)
  then have s: "swept (mc_metrics_retention config * 1000000) (fst (clk w)) (fst (clk w')) ms ms'"
    using IH swept_mono by blast
  show ?case
    using Cons.prems IH c s r
    by (auto simp: is_metric_expired_def case_prod_beta swept_def split: if_splits)
qed (simp add: swept_def)

lemma sweep_metrics_spec:
  assumes "mono_clock clk" "sweep_metrics clk config ms w = (n, ms', w')"
  shows "fst (clk w) \<le> fst (clk w') \<and> n = (\<Sum>(k, l)\<leftarrow>ms. int (length l)) - (\<Sum>(k, l)\<leftarrow>ms'. int (length l))
    \<and> list_all2 (\<lambda>(k, l) (k', l'). k' = k \<and> swept (mc_metrics_retention config * 1000000) (fst (clk w)) (fst (clk w')) l l') ms ms'"
  using assms(2)
proof (induction ms arbitrary: w n ms')
  case (Cons e rest)
  obtain k l where e: "e = (k, l)" by (cases e)
  obtain i l' w1 where d: "drop_expired_metrics clk config l w = (i, l', w1)" by (metis prod_cases3)
  obtain j rest' where r: "sweep_metrics clk config rest w1 = (j, rest', w')" "n = i + j" "ms' = (k, l') # rest'"
    using Cons.prems d by (auto simp: e split: prod.splits)
  note D = drop_expired_metrics_spec [OF assms(1) d] and R = Cons.IH [OF r(1)]
  have "list_all2 (\<lambda>(k, l) (k', l'). k' = k \<and> swept (mc_metrics_retention config * 1000000) (fst (clk w)) (fst (clk w')) l l') rest rest'"
    using R D by (elim conjE list_all2_mono) (auto intro: swept_mono)
  moreover have "swept (mc_metrics_retention config * 1000000) (fst (clk w)) (fst (clk w')) l l'"
    using D R swept_mono by blast
  ultimately show ?case using D R by (simp add: e r)
qed simp

text \<open>Without a law for the clock the keys stay and the lists shrink.\<close>

lemma drop_expired_subseq: "subseq (fst (snd (drop_expired_metrics clk config l w))) l"
  by (induction l arbitrary: w) (auto simp: case_prod_beta)

lemma sweep_metrics_shrinks:
  "list_all2 (\<lambda>(k, l) (k', l'). k' = k \<and> subseq l' l) ms (fst (snd (sweep_metrics clk config ms w)))"
  by (induction ms arbitrary: w) (auto simp: case_prod_beta drop_expired_subseq)

lemma same_keys_lookup:
  "list_all2 (\<lambda>(k, l) (k', l'). k' = k \<and> P l l') ms ms' \<Longrightarrow>
     map fst ms' = map fst ms \<and> rel_option P (map_of ms k) (map_of ms' k)"
  by (induction ms ms' rule: list_all2_induct) auto

text \<open>What a clean-up keeps, with its multiplicity: every metric that is still recent when it ends.\<close>

lemma drop_expired_keeps_recent:
  assumes "mono_clock clk" "drop_expired_metrics clk config l w = (n, l', w')"
  shows "subseq (filter (\<lambda>m. fst (clk w') - me_timestamp m \<le> mc_metrics_retention config * 1000000) l) l'"
  using assms(2)
proof (induction l arbitrary: w n l')
  case (Cons m ms)
  obtain k ms' where r: "drop_expired_metrics clk config ms (snd (clk w)) = (k, ms', w')"
    using Cons.prems by (cases "drop_expired_metrics clk config ms (snd (clk w))")
      (auto simp: is_metric_expired_def case_prod_beta split: if_splits)
  have "fst (clk w) \<le> fst (clk w')"
    using mono_clockD [OF assms(1), of w] drop_expired_metrics_spec [OF assms(1) r] by simp
  with Cons.prems Cons.IH [OF r] r show ?case
    by (auto simp: is_metric_expired_def case_prod_beta split: if_splits)
qed simp

lemma sweep_keeps_recent:
  assumes "mono_clock clk" "sweep_metrics clk config ms w = (k, ms', w')"
  shows "subseq (case map_of ms' n of Some l \<Rightarrow> l | None \<Rightarrow> []) (case map_of ms n of Some l \<Rightarrow> l | None \<Rightarrow> [])
     \<and> subseq (filter (\<lambda>m. fst (clk w') - me_timestamp m \<le> mc_metrics_retention config * 1000000)
         (case map_of ms n of Some l \<Rightarrow> l | None \<Rightarrow> [])) (case map_of ms' n of Some l \<Rightarrow> l | None \<Rightarrow> [])"
  using assms(2)
proof (induction ms arbitrary: w k ms')
  case (Cons e rest)
  obtain name l where e: "e = (name, l)" by (cases e)
  obtain i l' w1 where d: "drop_expired_metrics clk config l w = (i, l', w1)" by (metis prod_cases3)
  obtain j rest' where r: "sweep_metrics clk config rest w1 = (j, rest', w')" "ms' = (name, l') # rest'"
    using Cons.prems d by (auto simp: e split: prod.splits)
  let ?old = "\<lambda>t m. t - me_timestamp m \<le> mc_metrics_retention config * 1000000"
  have time: "fst (clk w1) \<le> fst (clk w')" using sweep_metrics_spec [OF assms(1) r(1)] by simp
  have "filter (?old (fst (clk w'))) (filter (?old (fst (clk w1))) l) = filter (?old (fst (clk w'))) l"
    using time by (auto simp: filter_filter intro: filter_cong)
  with subseq_filter [OF drop_expired_keeps_recent [OF assms(1) d], of "?old (fst (clk w'))"]
  have "subseq (filter (?old (fst (clk w'))) l) l'" using subseq_filter_left subseq_order.trans by metis
  moreover have "subseq l' l" using drop_expired_subseq [of clk config l w] d by simp
  ultimately show ?case using Cons.IH [OF r(1)] by (simp add: e r(2))
qed simp

section \<open>The invariant\<close>

definition metrics_ok :: "performance_monitor \<Rightarrow> bool" where
  "metrics_ok pn \<longleftrightarrow> smap_ok (pn_metrics pn) \<and> (\<forall>n. \<forall>m \<in> set (metrics_of n pn). me_name m = n)"

definition monitor_ok :: "performance_monitor \<times> 'w \<Rightarrow> bool" where
  "monitor_ok s \<longleftrightarrow> metrics_ok (fst s) \<and> alerts_ok (fst s)"

lemma alerts_ok_cong: "pn_alerts q = pn_alerts pn \<Longrightarrow> pn_alert_counter q = pn_alert_counter pn \<Longrightarrow> alerts_ok q = alerts_ok pn"
  by (simp add: alerts_ok_def)

lemma metrics_ok_cong: "pn_metrics q = pn_metrics pn \<Longrightarrow> metrics_ok q = metrics_ok pn"
  by (simp add: metrics_ok_def metrics_of_def)

lemma metrics_okI: "smap_ok (pn_metrics pn) \<Longrightarrow> (\<And>n m. m \<in> set (metrics_of n pn) \<Longrightarrow> me_name m = n) \<Longrightarrow> metrics_ok pn"
  by (simp add: metrics_ok_def)

lemma metrics_okD: "metrics_ok pn \<Longrightarrow> m \<in> set (metrics_of n pn) \<Longrightarrow> me_name m = n"
  unfolding metrics_ok_def by blast

lemma metrics_ok_smap: "metrics_ok pn \<Longrightarrow> smap_ok (pn_metrics pn)"
  by (simp only: metrics_ok_def)

lemma set_tl_subset: "set (tl xs) \<subseteq> set xs"
  by (cases xs) auto

lemma metrics_ok_push:
  assumes "metrics_ok pn"
  shows "metrics_ok (push_metric m pn)"
proof (rule metrics_okI)
  show "smap_ok (pn_metrics (push_metric m pn))"
    using metrics_ok_smap [OF assms] by (simp add: push_metric_def Let_def)
  fix n x
  assume x: "x \<in> set (metrics_of n (push_metric m pn))"
  have "set (metrics_of n (push_metric m pn)) \<subseteq> set (metrics_of n pn) \<union> (if n = me_name m then {m} else {})"
    using set_tl_subset [of "metrics_of n pn @ [m]"] by (auto simp: metrics_of_push Let_def)
  with x consider "x \<in> set (metrics_of n pn)" | "x = m" "n = me_name m" by (auto split: if_splits)
  then show "me_name x = n" by cases (use assms metrics_okD in blast)+
qed

lemma subseq_subset: "subseq xs ys \<Longrightarrow> set xs \<subseteq> set ys"
  by (auto elim: list_emb_set)

lemma metrics_ok_swept:
  assumes "metrics_ok pn" "list_all2 (\<lambda>(k, l) (k', l'). k' = k \<and> subseq l' l) (pn_metrics pn) ms"
  shows "metrics_ok (pn\<lparr>pn_metrics := ms\<rparr>)"
proof -
  note look = same_keys_lookup [OF assms(2)]
  have "set (metrics_of n (pn\<lparr>pn_metrics := ms\<rparr>)) \<subseteq> set (metrics_of n pn)" for n
    using look [of n] by (cases "map_of (pn_metrics pn) n"; cases "map_of ms n") (auto simp: metrics_of_def dest: subseq_subset)
  then have "me_name x = n" if "x \<in> set (metrics_of n (pn\<lparr>pn_metrics := ms\<rparr>))" for n x
    using that metrics_okD [OF assms(1)] by blast
  then show ?thesis
    using metrics_ok_smap [OF assms(1)] look [of undefined] by (intro metrics_okI) (simp_all add: smap_ok_def)
qed

lemma clear_expired_eq:
  "pn_metrics (fst (snd (clear_expired_metrics clk pn w))) = fst (snd (sweep_metrics clk (pn_config pn) (pn_metrics pn) (snd (clk w))))"
  "pn_alerts (fst (snd (clear_expired_metrics clk pn w))) = pn_alerts pn"
  "pn_alert_counter (fst (snd (clear_expired_metrics clk pn w))) = pn_alert_counter pn"
  "fst (cleanup_expired_metrics clk pn w) = fst (snd (clear_expired_metrics clk pn w))"
  by (simp_all add: clear_expired_metrics_def cleanup_expired_metrics_def case_prod_beta)

lemma metrics_ok_clear_expired: "metrics_ok pn \<Longrightarrow> metrics_ok (fst (snd (clear_expired_metrics clk pn w)))"
  using metrics_ok_swept [OF _ sweep_metrics_shrinks, of pn clk "pn_config pn" "snd (clk w)"]
  by (simp add: clear_expired_metrics_def case_prod_beta)

lemma change_latest_ok:
  assumes "metrics_ok pn"
  shows "metrics_ok (snd (change_latest name f pn))"
proof (rule metrics_okI)
  show "smap_ok (pn_metrics (snd (change_latest name f pn)))"
    using metrics_ok_smap [OF assms] by (auto simp: change_latest_def split: option.splits)
  fix n m
  assume "m \<in> set (metrics_of n (snd (change_latest name f pn)))"
  then obtain m' where "m' \<in> set (metrics_of n pn)" "me_name m = me_name m'"
    by (force simp: change_latest_def metrics_of_def split: option.splits if_splits dest: in_set_butlastD intro: last_in_set)
  then show "me_name m = n" using metrics_okD [OF assms] by simp
qed

lemma metrics_of_clear:
  "metrics_of n (snd (clear_metrics name pn)) = (if n = name then [] else metrics_of n pn)"
  "metrics_of n (snd (clear_all_metrics pn)) = []"
  by (simp_all add: clear_metrics_def clear_all_metrics_def metrics_of_def split: option.splits)

lemma clear_ok:
  assumes "metrics_ok pn"
  shows "metrics_ok (snd (clear_metrics name pn))" "metrics_ok (snd (clear_all_metrics pn))"
proof -
  show "metrics_ok (snd (clear_metrics name pn))"
  proof (rule metrics_okI)
    show "smap_ok (pn_metrics (snd (clear_metrics name pn)))"
      using metrics_ok_smap [OF assms] by (simp add: clear_metrics_def split: option.splits)
  qed (simp add: metrics_of_clear metrics_okD [OF assms] split: if_splits)
  show "metrics_ok (snd (clear_all_metrics pn))"
    by (rule metrics_okI) (simp_all add: metrics_of_clear, simp add: clear_all_metrics_def)
qed

lemma quiet_frame [frame_laws]:
  "pn_alerts (snd (change_latest name f pn)) = pn_alerts pn" "pn_alert_counter (snd (change_latest name f pn)) = pn_alert_counter pn"
  "pn_alerts (snd (clear_metrics name pn)) = pn_alerts pn" "pn_alert_counter (snd (clear_metrics name pn)) = pn_alert_counter pn"
  "pn_alerts (snd (clear_all_metrics pn)) = pn_alerts pn" "pn_alert_counter (snd (clear_all_metrics pn)) = pn_alert_counter pn"
  "pn_alerts (fst (update_monitor_statistics clk pn w)) = pn_alerts pn"
  "pn_alert_counter (fst (update_monitor_statistics clk pn w)) = pn_alert_counter pn"
  "pn_metrics (fst (update_monitor_statistics clk pn w)) = pn_metrics pn"
  "pn_metrics (fst (generate_performance_alerts clk pn w)) = pn_metrics pn"
  by (simp_all add: change_latest_def clear_metrics_def clear_all_metrics_def update_monitor_statistics_def Let_def case_prod_beta
      generate_performance_alerts_def frame_laws split: option.splits)

text \<open>The repair is a composition of the two clean-ups.\<close>

lemma repair_cases:
  assumes "P (pn, w)" "P (snd (clear_all_metrics pn), w)" "P (snd (clear_expired_metrics clk pn w))"
    "P (snd (clear_expired_metrics clk (snd (clear_all_metrics pn)) w))"
  shows "P (snd (repair_performance_monitor clk pn w))"
  using assms by (auto simp: repair_performance_monitor_def case_prod_beta Let_def)

text \<open>The operations that raise no alert.\<close>

lemma quiet_ok:
  "monitor_ok s \<Longrightarrow> (metrics_ok (fst s) \<Longrightarrow> metrics_ok (fst t)) \<Longrightarrow> pn_alerts (fst t) = pn_alerts (fst s) \<Longrightarrow>
     pn_alert_counter (fst t) = pn_alert_counter (fst s) \<Longrightarrow> monitor_ok t \<and> prefix (pn_alerts (fst s)) (pn_alerts (fst t))"
  by (simp add: monitor_ok_def alerts_ok_cong [of "fst t" "fst s"])

lemma repair_monitor_ok:
  assumes "monitor_ok (pn, w)"
  shows "monitor_ok (snd (repair_performance_monitor clk pn w))
     \<and> prefix (pn_alerts pn) (pn_alerts (fst (snd (repair_performance_monitor clk pn w))))"
  by (rule repair_cases [where P = "\<lambda>s. monitor_ok s \<and> prefix (pn_alerts pn) (pn_alerts (fst s))"];
      rule quiet_ok [OF assms, unfolded fst_conv])
    (simp_all add: clear_ok metrics_ok_clear_expired clear_expired_eq frame_laws)

lemma record_metric_ok:
  "metrics_ok pn \<Longrightarrow> metrics_ok (fst (snd (record_metric clk type metadata name val labels pn w)))"
  "pn_alerts (fst (snd (record_metric clk type metadata name val labels pn w))) = pn_alerts pn"
  "pn_alert_counter (fst (snd (record_metric clk type metadata name val labels pn w))) = pn_alert_counter pn"
  by (simp_all add: record_metric_def case_prod_beta metrics_ok_push frame_laws)

lemma settings_ok:
  "metrics_ok pn \<Longrightarrow> metrics_ok (reset_monitor_statistics pn)" "metrics_ok pn \<Longrightarrow> metrics_ok (update_monitor_config c pn)"
  "metrics_ok pn \<Longrightarrow> metrics_ok (fst (update_monitor_statistics clk pn w))"
  "pn_alerts (reset_monitor_statistics pn) = pn_alerts pn" "pn_alerts (update_monitor_config c pn) = pn_alerts pn"
  "pn_alert_counter (reset_monitor_statistics pn) = pn_alert_counter pn"
  "pn_alert_counter (update_monitor_config c pn) = pn_alert_counter pn"
  by (auto simp: reset_monitor_statistics_def update_monitor_config_def frame_laws elim!: metrics_ok_cong [THEN iffD2, rotated])

lemma raising_ok:
  assumes "monitor_ok (pn, w)"
  shows "monitor_ok (check_performance_thresholds clk pn w) \<and> prefix (pn_alerts pn) (pn_alerts (fst (check_performance_thresholds clk pn w)))"
    and "monitor_ok (generate_performance_alerts clk pn w) \<and> prefix (pn_alerts pn) (pn_alerts (fst (generate_performance_alerts clk pn w)))"
  using check_thresholds_alerts [of pn clk "mc_performance_threshold (pn_config pn)" "pn_metrics pn" w] generate_alerts_alerts [of pn clk w] assms
  by (simp_all add: monitor_ok_def check_performance_thresholds_def frame_laws metrics_ok_cong [of "fst (check_thresholds _ _ _ pn _)" pn]
      metrics_ok_cong [of "fst (generate_performance_alerts clk pn w)" pn])

lemma monitor_step_ok:
  assumes "monitor_step clk s t" "monitor_ok s"
  shows "monitor_ok t \<and> prefix (pn_alerts (fst s)) (pn_alerts (fst t))"
  using assms
proof cases
  case (repair pn w)
  then show ?thesis using repair_monitor_ok [of pn w clk] assms(2) by simp
next
  case (thresholds pn w)
  then show ?thesis using raising_ok [of pn w clk] assms(2) by simp
next
  case (alerts pn w)
  then show ?thesis using raising_ok [of pn w clk] assms(2) by simp
qed (rule quiet_ok [OF assms(2)]; simp add: record_metric_ok change_latest_ok clear_ok metrics_ok_clear_expired clear_expired_eq
    frame_laws settings_ok)+

interpretation performance: invariant_system monitor_init "monitor_step clk" monitor_ok
proof
  show "monitor_ok s" if "monitor_init s" for s :: "performance_monitor \<times> 'a"
    using that by (auto simp: monitor_init_def monitor_ok_def new_performance_monitor_def metrics_ok_def metrics_of_def alerts_ok_def)
  show "monitor_ok t" if "monitor_ok s" "monitor_step clk s t" for s t
    using monitor_step_ok [OF that(2,1)] by blast
qed

abbreviation monitor_reachable :: "'w clock \<Rightarrow> performance_monitor \<times> 'w \<Rightarrow> bool" where
  "monitor_reachable clk s \<equiv> reachable monitor_init (monitor_step clk) s"

section \<open>Statistics\<close>

definition type_sum :: "monitor_statistics \<Rightarrow> int" where
  "type_sum s = ms_counter_metrics s + ms_gauge_metrics s + ms_histogram_metrics s + ms_timer_metrics s + ms_rate_metrics s
     + ms_percentile_metrics s"

definition level_sum :: "monitor_statistics \<Rightarrow> int" where
  "level_sum s = ms_info_alerts s + ms_warning_alerts s + ms_error_alerts s + ms_critical_alerts s"

lemma count_metric_type_sum [counter_laws]:
  "type_sum (count_metric_type ty s) = type_sum s + 1" "ms_total_metrics (count_metric_type ty s) = ms_total_metrics s"
  by (cases ty; simp add: count_metric_type_def type_sum_def)+

lemma count_alert_level_sum [counter_laws]:
  "level_sum (count_alert_level lv s) = level_sum s + 1" "ms_total_alerts (count_alert_level lv s) = ms_total_alerts s"
  "ms_total_metrics (count_alert_level lv s) = ms_total_metrics s" "type_sum (count_alert_level lv s) = type_sum s"
  "ms_avg_metric_value (count_alert_level lv s) = ms_avg_metric_value s"
  "ms_min_metric_value (count_alert_level lv s) = ms_min_metric_value s"
  "ms_max_metric_value (count_alert_level lv s) = ms_max_metric_value s"
  by (cases lv; simp add: count_alert_level_def level_sum_def type_sum_def)+

lemma total_update [counter_laws]:
  "type_sum (s\<lparr>ms_total_metrics := k\<rparr>) = type_sum s" "level_sum (s\<lparr>ms_total_alerts := k\<rparr>) = level_sum s"
  "type_sum (s\<lparr>ms_total_alerts := k\<rparr>) = type_sum s"
  by (simp_all add: type_sum_def level_sum_def)

lemma tally_metrics_counts:
  "ms_total_metrics (fst (tally_metrics now ms acc)) = ms_total_metrics (fst acc) + int (length ms)
   \<and> type_sum (fst (tally_metrics now ms acc)) = type_sum (fst acc) + int (length ms)"
proof (induction ms arbitrary: acc)
  case (Cons m ms)
  obtain s a where "acc = (s, a)" by (cases acc)
  with Cons show ?case by (simp add: counter_laws)
qed simp

lemma tally_metrics_sums:
  "sm_total_value (snd (tally_metrics now ms acc)) = sm_total_value (snd acc) + sum_list (map me_value ms)
   \<and> sm_min_value (snd (tally_metrics now ms acc)) = Min (insert (sm_min_value (snd acc)) (me_value ` set ms))
   \<and> sm_max_value (snd (tally_metrics now ms acc)) = Max (insert (sm_max_value (snd acc)) (me_value ` set ms))"
proof (induction ms arbitrary: acc)
  case (Cons m ms)
  obtain s a where "acc = (s, a)" by (cases acc)
  with Cons show ?case by (cases "ms = []") (simp_all add: min.assoc max.assoc ac_simps)
qed simp

lemma tally_alerts_counts:
  "ms_total_alerts (tally_alerts als s) = ms_total_alerts s + int (length als)
   \<and> level_sum (tally_alerts als s) = level_sum s + int (length als)
   \<and> ms_total_metrics (tally_alerts als s) = ms_total_metrics s \<and> type_sum (tally_alerts als s) = type_sum s
   \<and> ms_avg_metric_value (tally_alerts als s) = ms_avg_metric_value s
   \<and> ms_min_metric_value (tally_alerts als s) = ms_min_metric_value s
   \<and> ms_max_metric_value (tally_alerts als s) = ms_max_metric_value s"
  by (induction als arbitrary: s) (auto simp: counter_laws)

lemma length_all_metrics: "int (length (all_metrics pn)) = get_total_metric_count pn"
proof -
  have "int (length (concat (map snd xs))) = (\<Sum>(k, l)\<leftarrow>xs. int (length l))" for xs :: "(string \<times> metric list) list"
    by (induction xs) auto
  then show ?thesis by (simp add: all_metrics_def get_total_metric_count_def)
qed

lemma statistics_fields:
  fixes clk :: "'w clock" and pn :: performance_monitor and w :: 'w
  defines "s \<equiv> pn_stats (fst (update_monitor_statistics clk pn w))" and "vs \<equiv> map me_value (all_metrics pn)"
  shows "ms_total_metrics s = get_total_metric_count pn \<and> type_sum s = get_total_metric_count pn
     \<and> ms_total_alerts s = int (length (pn_alerts pn)) \<and> level_sum s = int (length (pn_alerts pn))
     \<and> (vs \<noteq> [] \<longrightarrow> ms_avg_metric_value s = sum_list vs / of_nat (length vs)
         \<and> ms_min_metric_value s = Min (insert double_max (set vs)) \<and> ms_max_metric_value s = Max (insert double_min (set vs)))"
proof -
  let ?z = "zero_counts (pn_stats pn)" and ?now = "fst (clk w)"
  let ?r = "tally_metrics ?now (all_metrics pn) (?z, empty_sums)"
  have z: "ms_total_metrics ?z = 0" "type_sum ?z = 0" "ms_total_alerts ?z = 0" "level_sum ?z = 0"
    by (simp_all add: zero_counts_def type_sum_def level_sum_def)
  have alerts: "ms_total_alerts (fst (tally_metrics ?now ms acc)) = ms_total_alerts (fst acc)
      \<and> level_sum (fst (tally_metrics ?now ms acc)) = level_sum (fst acc)" for ms acc
  proof (induction ms arbitrary: acc)
    case (Cons m ms)
    obtain u a where "acc = (u, a)" by (cases acc)
    with Cons show ?case by (cases "me_type m") (simp_all add: count_metric_type_def level_sum_def)
  qed simp
  have upd: "type_sum (u\<lparr>ms_avg_metric_value := p, ms_min_metric_value := q, ms_max_metric_value := r, ms_avg_metric_age := i,
      ms_min_metric_age := j, ms_max_metric_age := k\<rparr>) = type_sum u"
    "level_sum (u\<lparr>ms_avg_metric_value := p, ms_min_metric_value := q, ms_max_metric_value := r, ms_avg_metric_age := i,
      ms_min_metric_age := j, ms_max_metric_age := k\<rparr>) = level_sum u"
    "type_sum (u\<lparr>ms_last_update := i\<rparr>) = type_sum u" "level_sum (u\<lparr>ms_last_update := i\<rparr>) = level_sum u" for u p q r i j k
    by (simp_all add: type_sum_def level_sum_def)
  have len: "get_total_metric_count pn = int (length (all_metrics pn))" using length_all_metrics by simp
  have pos: "0 < ms_total_metrics (fst ?r) \<longleftrightarrow> all_metrics pn \<noteq> []"
    using tally_metrics_counts [of ?now "all_metrics pn" "(?z, empty_sums)"] z by simp
  show ?thesis
    using tally_metrics_counts [of ?now "all_metrics pn" "(?z, empty_sums)"] tally_metrics_sums [of ?now "all_metrics pn" "(?z, empty_sums)"]
    by (simp add: s_def vs_def update_monitor_statistics_def Let_def case_prod_beta tally_alerts_counts alerts upd z len pos empty_sums_def)
qed

section \<open>Integrity\<close>

lemma validate_all_metrics:
  "validate_performance_monitor_integrity pn \<longleftrightarrow> list_all (\<lambda>m. 0 \<le> me_value m \<and> me_value m \<le> 1000000000) (all_metrics pn)"
  by (fastforce simp: validate_performance_monitor_integrity_def all_metrics_def list_all_iff not_less)

lemma validate_swept:
  assumes "list_all2 (\<lambda>(k, l) (k', l'). k' = k \<and> subseq l' l) (pn_metrics pn) (pn_metrics pn')" "validate_performance_monitor_integrity pn"
  shows "validate_performance_monitor_integrity pn'"
proof -
  have "set (concat (map snd ys)) \<subseteq> set (concat (map snd xs))"
    if "list_all2 (\<lambda>(k, l) (k', l'). k' = k \<and> subseq l' l) xs ys" for xs ys :: "(string \<times> metric list) list"
    using that by (induction rule: list_all2_induct) (auto dest!: subseq_subset)
  from this [OF assms(1)] assms(2) show ?thesis unfolding validate_all_metrics all_metrics_def list_all_iff by blast
qed

lemma repair_restores: "validate_performance_monitor_integrity (fst (snd (repair_performance_monitor clk pn w)))"
proof -
  have swept: "validate_performance_monitor_integrity (fst (snd (clear_expired_metrics clk q w)))"
    if "validate_performance_monitor_integrity q" for q
    using validate_swept [OF _ that] sweep_metrics_shrinks [of "pn_metrics q" clk "pn_config q" "snd (clk w)"]
    by (simp add: clear_expired_metrics_def case_prod_beta)
  have all: "validate_performance_monitor_integrity (snd (clear_all_metrics pn))"
    by (simp add: validate_performance_monitor_integrity_def clear_all_metrics_def)
  show ?thesis
    by (cases "validate_performance_monitor_integrity pn")
      (simp_all add: repair_performance_monitor_def Let_def case_prod_beta swept all)
qed

section \<open>Recording beside the monitor thread\<close>

text \<open>
  Runs in which metrics are recorded while the thread that the constructor started goes on with its
  work: the recorded metrics in order, and the state. Besides the recording methods there are the
  functions of the monitor loop, \<^verbatim>\<open>clearExpiredMetrics\<close> and the passing of time, in any order.
\<close>

inductive recording_run :: "'w clock \<Rightarrow> monitor_config \<Rightarrow> metric list \<Rightarrow> performance_monitor \<times> 'w \<Rightarrow> bool"
  for clk :: "'w clock" and config :: monitor_config where
  construct: "recording_run clk config [] (new_performance_monitor config, w)"
| record_any: "recording_run clk config hist (pn, w) \<Longrightarrow>
    recording_run clk config
      (hist @ [\<lparr>me_name = name, me_type = type, me_value = val, me_timestamp = fst (clk w), me_labels = labels, me_metadata = metadata\<rparr>])
      (snd (record_metric clk type metadata name val labels pn w))"
| thresholds: "recording_run clk config hist (pn, w) \<Longrightarrow> recording_run clk config hist (check_performance_thresholds clk pn w)"
| alerts: "recording_run clk config hist (pn, w) \<Longrightarrow> recording_run clk config hist (generate_performance_alerts clk pn w)"
| cleanup: "recording_run clk config hist (pn, w) \<Longrightarrow> recording_run clk config hist (cleanup_expired_metrics clk pn w)"
| statistics: "recording_run clk config hist (pn, w) \<Longrightarrow> recording_run clk config hist (update_monitor_statistics clk pn w)"
| clear_expired: "recording_run clk config hist (pn, w) \<Longrightarrow> recording_run clk config hist (snd (clear_expired_metrics clk pn w))"
| elapse: "recording_run clk config hist (pn, w) \<Longrightarrow> fst (clk w) \<le> fst (clk w') \<Longrightarrow> recording_run clk config hist (pn, w')"

definition recent_at :: "monitor_config \<Rightarrow> time \<Rightarrow> metric \<Rightarrow> bool" where
  "recent_at config t m \<longleftrightarrow> t - me_timestamp m \<le> mc_metrics_retention config * 1000000"

definition recorded_under :: "string \<Rightarrow> metric list \<Rightarrow> metric list" where
  "recorded_under n hist = filter (\<lambda>m. me_name m = n) hist"

definition window_ok :: "'w clock \<Rightarrow> monitor_config \<Rightarrow> metric list \<Rightarrow> performance_monitor \<times> 'w \<Rightarrow> bool" where
  "window_ok clk config hist s \<longleftrightarrow> pn_config (fst s) = config \<and> sorted (map me_timestamp hist)
     \<and> (\<forall>m \<in> set hist. me_timestamp m \<le> fst (clk (snd s)))
     \<and> (\<forall>n. retained (recent_at config (fst (clk (snd s)))) (to_size_t (mc_max_metrics_per_type config))
          (recorded_under n hist) (metrics_of n (fst s)))"

lemma recent_at_earlier: "recent_at config t' m \<Longrightarrow> t \<le> t' \<Longrightarrow> recent_at config t m"
  by (simp add: recent_at_def)

lemma retained_later:
  "retained (recent_at config t) n hist l \<Longrightarrow> t \<le> t' \<Longrightarrow> retained (recent_at config t') n hist l"
  by (erule retained_sweep) (auto intro: recent_at_earlier)

lemma window_ok_later:
  assumes "window_ok clk config hist (pn, w)" "pn_metrics pn' = pn_metrics pn" "pn_config pn' = pn_config pn"
    "fst (clk w) \<le> fst (clk w')"
  shows "window_ok clk config hist (pn', w')"
  using assms by (auto simp: window_ok_def metrics_of_def intro: retained_later order_trans)

lemma raise_alert_time: "mono_clock clk \<Longrightarrow> fst (clk w) \<le> fst (clk (snd (raise_alert clk lv msg n th cur ls md pn w)))"
  using mono_clockD [of clk w] mono_clockD [of clk "snd (clk w)"]
  by (simp add: raise_alert_def generate_alert_id_def Let_def case_prod_beta)

lemma check_thresholds_time:
  assumes "mono_clock clk"
  shows "fst (clk w) \<le> fst (clk (snd (check_thresholds clk th l pn w)))"
proof (induction l arbitrary: pn w)
  case (Cons e rest)
  obtain name l where e: "e = (name, l)" by (cases e)
  define r where "r = raise_alert clk WARNING (''Performance threshold exceeded for metric: '' @ name) name th (me_value (last l))
              (me_labels (last l)) (me_metadata (last l)) pn w"
  have "fst (clk w) \<le> fst (clk (snd r))" unfolding r_def by (rule raise_alert_time [OF assms])
  note over = order_trans [OF this Cons.IH [of "snd r" "fst r"]]
  have "check_thresholds clk th (e # rest) pn w =
      (if l \<noteq> [] \<and> me_value (last l) > th then check_thresholds clk th rest (fst r) (snd r) else check_thresholds clk th rest pn w)"
    by (simp add: e r_def case_prod_beta)
  with over Cons.IH [of w pn] show ?case by (simp only: split: if_split) simp
qed simp

lemma window_ok_sweep:
  assumes "window_ok clk config hist (pn, w)" "mono_clock clk"
    and "sweep_metrics clk config (pn_metrics pn) (snd (clk w)) = (k, ms, w')"
  shows "window_ok clk config hist (pn\<lparr>pn_metrics := ms\<rparr>, w')"
proof -
  let ?n = "to_size_t (mc_max_metrics_per_type config)"
  have time: "fst (clk w) \<le> fst (clk w')"
    using mono_clockD [OF assms(2), of w] sweep_metrics_spec [OF assms(2,3)] by simp
  have "retained (recent_at config (fst (clk w'))) ?n (recorded_under n hist) (metrics_of n (pn\<lparr>pn_metrics := ms\<rparr>))" for n
  proof -
    have old: "retained (recent_at config (fst (clk w))) ?n (recorded_under n hist) (metrics_of n pn)"
      using assms(1) by (simp add: window_ok_def)
    have "subseq (metrics_of n (pn\<lparr>pn_metrics := ms\<rparr>)) (metrics_of n pn)
        \<and> subseq (filter (recent_at config (fst (clk w'))) (metrics_of n pn)) (metrics_of n (pn\<lparr>pn_metrics := ms\<rparr>))"
      using sweep_keeps_recent [OF assms(2,3), of n] by (simp add: metrics_of_def recent_at_def [abs_def])
    then show ?thesis using retained_sweep [OF old] recent_at_earlier [OF _ time] by blast
  qed
  with assms(1) time show ?thesis by (auto simp: window_ok_def intro: order_trans)
qed

lemma window_ok_record:
  assumes "window_ok clk config hist (pn, w)" "mono_clock clk" "me_timestamp m = fst (clk w)"
  shows "window_ok clk config (hist @ [m]) (push_metric m pn, snd (clk w))"
proof -
  let ?n = "to_size_t (mc_max_metrics_per_type config)" and ?t = "fst (clk (snd (clk w)))"
  have time: "fst (clk w) \<le> ?t" by (rule mono_clockD [OF assms(2)])
  have cfg: "pn_config pn = config" and sort: "sorted (map me_timestamp hist)"
    and past: "\<forall>m \<in> set hist. me_timestamp m \<le> fst (clk w)" using assms(1) by (simp_all add: window_ok_def)
  have "retained (recent_at config ?t) ?n (recorded_under n (hist @ [m])) (metrics_of n (push_metric m pn))" for n
  proof -
    have old: "retained (recent_at config ?t) ?n (recorded_under n hist) (metrics_of n pn)"
      using assms(1) time by (auto simp: window_ok_def intro: retained_later)
    have "sorted (map me_timestamp (recorded_under n hist))" unfolding recorded_under_def by (rule sorted_filter [OF sort])
    then have down: "\<forall>y \<in> set xs. \<not> recent_at config ?t y" if "recorded_under n hist = xs @ x # ys" "\<not> recent_at config ?t x" for xs x ys
      using that by (fastforce simp: recent_at_def sorted_append)
    have "retained (recent_at config ?t) ?n (recorded_under n hist @ [m]) (push_limited ?n (metrics_of n pn) m)"
      by (rule retained_push [OF old]) (rule down)
    with old show ?thesis
      by (cases "n = me_name m") (simp_all add: recorded_under_def metrics_of_push push_limited_def cfg Let_def)
  qed
  with sort past time assms(3) cfg show ?thesis by (auto simp: window_ok_def sorted_append push_metric_frame)
qed

lemma recording_run_ok:
  assumes "recording_run clk config hist s" "mono_clock clk"
  shows "window_ok clk config hist s"
  using assms(1)
proof (induction rule: recording_run.induct)
  case (construct w)
  then show ?case
    by (simp add: window_ok_def retained_def recorded_under_def metrics_of_def new_performance_monitor_def last_n_def)
next
  case (record_any hist pn w name type val labels metadata)
  then show ?case by (simp add: record_metric_def case_prod_beta window_ok_record assms(2))
next
  case (thresholds hist pn w)
  from window_ok_later [OF thresholds(2), of "fst (check_performance_thresholds clk pn w)" "snd (check_performance_thresholds clk pn w)"]
  show ?case using check_thresholds_time [OF assms(2)] check_thresholds_frame [of clk _ "pn_metrics pn" pn w]
    by (simp add: check_performance_thresholds_def)
next
  case (alerts hist pn w)
  then show ?case
    using window_ok_later [OF alerts(2), of "fst (generate_performance_alerts clk pn w)" "snd (generate_performance_alerts clk pn w)"]
      raise_alert_time [OF assms(2)] by (simp add: generate_performance_alerts_def frame_laws split: if_splits)
next
  case (cleanup hist pn w)
  have cfg: "pn_config pn = config" using cleanup(2) by (simp add: window_ok_def)
  obtain k ms w' where r: "sweep_metrics clk config (pn_metrics pn) (snd (clk w)) = (k, ms, w')" by (metis prod_cases3)
  from window_ok_sweep [OF cleanup(2) assms(2) r] r cfg show ?case by (simp add: cleanup_expired_metrics_def)
next
  case (statistics hist pn w)
  from window_ok_later [OF this(2), of "fst (update_monitor_statistics clk pn w)" "snd (update_monitor_statistics clk pn w)"]
  show ?case using mono_clockD [OF assms(2), of w] by (simp add: update_monitor_statistics_def Let_def case_prod_beta)
next
  case (clear_expired hist pn w)
  have cfg: "pn_config pn = config" using clear_expired(2) by (simp add: window_ok_def)
  obtain k ms w' where r: "sweep_metrics clk config (pn_metrics pn) (snd (clk w)) = (k, ms, w')" by (metis prod_cases3)
  from window_ok_sweep [OF clear_expired(2) assms(2) r] r cfg show ?case by (simp add: clear_expired_metrics_def)
next
  case (elapse hist pn w w')
  then show ?case by (blast intro: window_ok_later)
qed

section \<open>Properties\<close>

text \<open>C23: What \<^verbatim>\<open>getMetrics\<close> returns while the monitor thread removes old metrics beside the recording. With a clock that does
  not run backwards, after any interleaving of the recording methods with the functions of the monitor loop,
  \<^verbatim>\<open>clearExpiredMetrics\<close> and the passing of time (and no other change to the monitor), the result for a name is in the
  order of recording, is never longer than \<^verbatim>\<open>max_metrics_per_type\<close>, holds only metrics recorded under that name, and holds
  every one of the last \<^verbatim>\<open>max_metrics_per_type\<close> of these that is not older than \<^verbatim>\<open>metrics_retention\<close>; while nothing
  recorded under the name is that old, it is exactly those. The limit is compared as a \<^verbatim>\<open>size_t\<close>, so a negative
  one never erases anything.\<close>

theorem metrics_window_with_retention:
  fixes clk :: "'w clock"
  assumes "mono_clock clk" "recording_run clk config hist (pn, w)"
  shows "let limit = to_size_t (mc_max_metrics_per_type config);
             recorded = filter (\<lambda>m. me_name m = n) hist;
             recent = (\<lambda>m. fst (clk w) - me_timestamp m \<le> mc_metrics_retention config * 1000000)
     in subseq (get_metrics n pn) recorded \<and> length (get_metrics n pn) \<le> limit
      \<and> subseq (filter recent (last_n limit recorded)) (get_metrics n pn)
      \<and> ((\<forall>m \<in> set recorded. recent m) \<longrightarrow> get_metrics n pn = last_n limit recorded)"
proof -
  have r: "retained (\<lambda>m. fst (clk w) - me_timestamp m \<le> mc_metrics_retention config * 1000000)
      (to_size_t (mc_max_metrics_per_type config)) (filter (\<lambda>m. me_name m = n) hist) (get_metrics n pn)"
    using recording_run_ok [OF assms(2,1)]
    by (simp add: window_ok_def recorded_under_def recent_at_def [abs_def] get_metrics_def metrics_of_def)
  then show ?thesis using retained_all [OF r] by (simp add: Let_def retained_def)
qed

text \<open>Between two passes of the monitor thread the metrics of a name are a sliding window: after any sequence of calls of the
  recording methods on a new monitor, \<^verbatim>\<open>getMetrics\<close> returns the last \<^verbatim>\<open>max_metrics_per_type\<close> of the metrics
  recorded under that name, in order, whatever was recorded under other names.\<close>

theorem metrics_are_sliding_window:
  fixes clk :: "'w clock"
  shows "map recorded_part (get_metrics n (fst (foldl (record_op clk) (new_performance_monitor config, w) calls)))
     = last_n (to_size_t (mc_max_metrics_per_type config)) (map snd (filter (\<lambda>c. fst c = n) calls))"
proof -
  have "metric_window n (new_performance_monitor config, w) = []"
    by (simp add: metric_window_def metrics_of_def new_performance_monitor_def)
  moreover have "List.map_filter (call_entry n) calls = map snd (filter (\<lambda>c. fst c = n) calls)"
    by (induction calls) (auto simp: map_filter_simps call_entry_def)
  moreover have "metric_limit (new_performance_monitor config, w) = to_size_t (mc_max_metrics_per_type config)"
    by (simp add: metric_limit_def new_performance_monitor_def)
  ultimately show ?thesis
    using metric_log.window_history [of n "(new_performance_monitor config, w)" "[]" clk calls]
    by (simp add: metric_window_def metrics_of_def get_metrics_def)
qed

text \<open>Alerts accumulate. In every reachable state their identifiers are distinct and every metric is stored under its own name; no
  operation ever removes an alert, although the configuration has a limit and a retention time for them; and each cycle of the monitor
  thread adds one more for every name whose latest value is above the threshold, as long as it stays there.\<close>

theorem alerts_accumulate:
  assumes "monitor_reachable clk (pn, w)" "monitor_step clk (pn, w) (pn', w')"
  shows "distinct (map al_id (pn_alerts pn)) \<and> (\<forall>m \<in> set (get_metrics n pn). me_name m = n)
     \<and> prefix (pn_alerts pn) (pn_alerts pn')
     \<and> length (pn_alerts (fst (monitor_cycle clk pn w))) = length (pn_alerts pn)
         + length (filter (\<lambda>(name, l). l \<noteq> [] \<and> me_value (last l) > mc_performance_threshold (pn_config pn)) (pn_metrics pn))
         + (if ms_total_metrics (pn_stats pn) > mc_max_metrics_per_type (pn_config pn) then 1 else 0)"
proof -
  have ok: "monitor_ok (pn, w)" using assms(1) by (rule performance.inv_reachable)
  then have "distinct (map al_id (pn_alerts pn))" by (simp add: monitor_ok_def alerts_ok_distinct)
  moreover have "\<forall>m \<in> set (get_metrics n pn). me_name m = n"
    using ok metrics_okD [of pn] by (simp add: monitor_ok_def get_metrics_def metrics_of_def)
  moreover have "prefix (pn_alerts pn) (pn_alerts pn')" using monitor_step_ok [OF assms(2) ok] by simp
  moreover have "length (pn_alerts (fst (monitor_cycle clk pn w))) = length (pn_alerts pn)
      + length (filter (over_threshold (mc_performance_threshold (pn_config pn))) (pn_metrics pn))
      + (if ms_total_metrics (pn_stats pn) > mc_max_metrics_per_type (pn_config pn) then 1 else 0)"
    by (simp only: check_thresholds_alerts generate_alerts_alerts monitor_cycle_def monitor_performance_def check_performance_thresholds_def case_prod_beta clear_expired_eq frame_laws)
  ultimately show ?thesis by (simp add: over_threshold_def)
qed

definition demo_monitor :: performance_monitor where
  "demo_monitor = fst (snd (record_gauge demo_tick ''load'' 2 [] (new_performance_monitor default_monitor_config) demo_start))"

definition demo_monitor_world :: demo_world where
  "demo_monitor_world = snd (snd (record_gauge demo_tick ''load'' 2 [] (new_performance_monitor default_monitor_config) demo_start))"

lemma demo_monitor_eq:
  "demo_monitor = \<lparr>pn_config = default_monitor_config, pn_metrics = [(''load'', [\<lparr>me_name = ''load'', me_type = GAUGE, me_value = 2,
     me_timestamp = 0, me_labels = [], me_metadata = []\<rparr>])], pn_alerts = [], pn_stats = empty_monitor_statistics, pn_alert_counter = 0\<rparr>"
  by (simp add: demo_monitor_def record_gauge_def record_metric_def push_metric_def metrics_of_def new_performance_monitor_def
      default_monitor_config_def to_size_t_def case_prod_beta demo_tick_def demo_lt_def demo_start_def)

lemma demo_monitor_reachable: "monitor_reachable demo_tick (demo_monitor, demo_monitor_world)"
proof (rule reachable.move)
  show "monitor_reachable demo_tick (new_performance_monitor default_monitor_config, demo_start)"
    by (rule reachable.start) (auto simp: monitor_init_def)
  show "monitor_step demo_tick (new_performance_monitor default_monitor_config, demo_start) (demo_monitor, demo_monitor_world)"
    unfolding demo_monitor_def demo_monitor_world_def prod.collapse record_gauge_def by (rule monitor_step.record_any)
qed

theorem alerts_accumulate_witness:
  "distinct (map al_id (pn_alerts demo_monitor)) \<and> length (pn_alerts (fst (monitor_cycle demo_tick demo_monitor demo_monitor_world))) = 1"
  using alerts_accumulate [OF demo_monitor_reachable monitor_step.tick [of demo_tick demo_monitor demo_monitor_world demo_monitor_world]]
  by (simp add: demo_monitor_eq default_monitor_config_def double_0_8_def empty_monitor_statistics_def)

text \<open>The statistics that the monitor thread computes: the total is the number of stored metrics and the sum of the counts by type, the alert
  counts add up likewise, and with at least one metric the average and the minimum are those of the stored values. The maximum is
  not: its loop starts from \<^verbatim>\<open>std::numeric_limits<double>::min()\<close>, the smallest positive number, so that when no value is
  positive the reported maximum exceeds every value.\<close>

theorem monitor_statistics_exact:
  fixes clk :: "'w clock" and pn :: performance_monitor and w :: 'w
  defines "s \<equiv> pn_stats (fst (update_monitor_statistics clk pn w))" and "vs \<equiv> map me_value (all_metrics pn)"
  assumes "vs \<noteq> []" "list_all (\<lambda>v. v \<le> double_max) vs"
  shows "ms_total_metrics s = get_total_metric_count pn
     \<and> ms_total_metrics s = ms_counter_metrics s + ms_gauge_metrics s + ms_histogram_metrics s + ms_timer_metrics s + ms_rate_metrics s
         + ms_percentile_metrics s
     \<and> ms_total_alerts s = int (length (pn_alerts pn))
     \<and> ms_total_alerts s = ms_info_alerts s + ms_warning_alerts s + ms_error_alerts s + ms_critical_alerts s
     \<and> ms_avg_metric_value s = sum_list vs / of_nat (length vs) \<and> ms_min_metric_value s = Min (set vs)
     \<and> ms_max_metric_value s = max double_min (Max (set vs))
     \<and> (list_all (\<lambda>v. v \<le> 0) vs \<longrightarrow> list_all (\<lambda>v. v < ms_max_metric_value s) vs)"
proof -
  note f = statistics_fields [of clk pn w, folded s_def vs_def]
  have "Min (set vs) \<le> double_max" using assms(3,4) by (meson List.finite_set Min_in list_all_iff set_empty)
  then have "Min (insert double_max (set vs)) = Min (set vs)" using assms(3) by (simp del: Min_insert add: Min_insert [of "set vs"] min.absorb2)
  moreover have mx: "Max (insert double_min (set vs)) = max double_min (Max (set vs))" using assms(3) by simp
  moreover have "list_all (\<lambda>v. v < max double_min (Max (set vs))) vs" if "list_all (\<lambda>v. v \<le> 0) vs"
  proof -
    have "0 < double_min" by (simp add: double_min_def)
    then show ?thesis using that by (auto simp: list_all_iff less_max_iff_disj intro: le_less_trans)
  qed
  ultimately show ?thesis using f assms(3) by (simp add: type_sum_def level_sum_def)
qed

theorem monitor_statistics_exact_witness:
  "ms_avg_metric_value (pn_stats (fst (update_monitor_statistics demo_tick demo_monitor demo_monitor_world))) = 2
   \<and> ms_total_metrics (pn_stats (fst (update_monitor_statistics demo_tick demo_monitor demo_monitor_world))) = 1"
  using monitor_statistics_exact [of demo_monitor demo_tick demo_monitor_world]
  by (simp add: demo_monitor_eq all_metrics_def double_max_def get_total_metric_count_def)

text \<open>With a clock that does not run backwards, a clean-up leaves no metric that was too old when it began, keeps every metric that is
  still recent enough when it ends, keeps the order within each name, and reports how many it erased. A repair afterwards
  leaves a monitor that passes its own integrity check.\<close>

theorem expired_metrics_cleared:
  assumes "mono_clock clk" "clear_expired_metrics clk pn w = (k, pn', w')"
  shows "k = get_total_metric_count pn - get_total_metric_count pn' \<and> subseq (get_metrics n pn') (get_metrics n pn)
     \<and> (\<forall>m \<in> set (get_metrics n pn'). fst (clk w) - me_timestamp m \<le> mc_metrics_retention (pn_config pn) * 1000000)
     \<and> (\<forall>m \<in> set (get_metrics n pn). fst (clk w') - me_timestamp m \<le> mc_metrics_retention (pn_config pn) * 1000000
          \<longrightarrow> m \<in> set (get_metrics n pn'))
     \<and> validate_performance_monitor_integrity (fst (snd (repair_performance_monitor clk pn' w')))"
proof -
  let ?R = "mc_metrics_retention (pn_config pn) * 1000000"
  obtain ms where r: "sweep_metrics clk (pn_config pn) (pn_metrics pn) (snd (clk w)) = (k, ms, w')" "pn' = pn\<lparr>pn_metrics := ms\<rparr>"
    using assms(2) by (auto simp: clear_expired_metrics_def split: prod.splits)
  note S = sweep_metrics_spec [OF assms(1) r(1)]
  have "rel_option (swept ?R (fst (clk (snd (clk w)))) (fst (clk w'))) (map_of (pn_metrics pn) n) (map_of ms n)"
    using S same_keys_lookup [of "swept ?R (fst (clk (snd (clk w)))) (fst (clk w'))" "pn_metrics pn" ms n] by simp
  then have "swept ?R (fst (clk (snd (clk w)))) (fst (clk w')) (get_metrics n pn) (get_metrics n pn')"
    by (cases "map_of (pn_metrics pn) n"; cases "map_of ms n") (auto simp: get_metrics_def r swept_def)
  then have "swept ?R (fst (clk w)) (fst (clk w')) (get_metrics n pn) (get_metrics n pn')"
    using mono_clockD [OF assms(1), of w] swept_mono by blast
  moreover have "k = get_total_metric_count pn - get_total_metric_count pn'" using S by (simp add: r get_total_metric_count_def)
  ultimately show ?thesis using repair_restores [of clk pn' w'] unfolding swept_def by blast
qed

definition late_monitor_world :: demo_world where
  "late_monitor_world = demo_start\<lparr>dw_clock := 4000000000000\<rparr>"

theorem expired_metrics_cleared_witness:
  "\<exists>k pn' w'. clear_expired_metrics demo_tick demo_monitor late_monitor_world = (k, pn', w') \<and> get_metrics ''load'' pn' = []
     \<and> k = get_total_metric_count demo_monitor - get_total_metric_count pn'"
proof -
  obtain k pn' w' where r: "clear_expired_metrics demo_tick demo_monitor late_monitor_world = (k, pn', w')" by (metis prod_cases3)
  note t = expired_metrics_cleared [OF demo_tick_mono r, of "''load''"]
  have "me_timestamp m = 0" if "m \<in> set (get_metrics ''load'' demo_monitor)" for m
    using that by (simp add: demo_monitor_eq get_metrics_def)
  moreover have "set (get_metrics ''load'' pn') \<subseteq> set (get_metrics ''load'' demo_monitor)" using t subseq_subset by blast
  moreover have "fst (demo_tick late_monitor_world) > mc_metrics_retention (pn_config demo_monitor) * 1000000"
    by (simp add: demo_monitor_eq demo_tick_def demo_lt_def late_monitor_world_def default_monitor_config_def)
  ultimately have "get_metrics ''load'' pn' = []" using t by (cases "get_metrics ''load'' pn'") force+
  with r t show ?thesis by blast
qed

definition demo_metric :: metric where
  "demo_metric = \<lparr>me_name = ''load'', me_type = GAUGE, me_value = 2, me_timestamp = 0, me_labels = [], me_metadata = []\<rparr>"

theorem metrics_window_with_retention_witness:
  "get_metrics ''load'' demo_monitor = last_n 1000 [demo_metric]
   \<and> subseq (get_metrics ''load'' (fst (cleanup_expired_metrics demo_tick demo_monitor late_monitor_world))) [demo_metric]"
proof (intro conjI)
  let ?s = "cleanup_expired_metrics demo_tick demo_monitor late_monitor_world"
  have a: "recording_run demo_tick default_monitor_config [] (new_performance_monitor default_monitor_config, demo_start)"
    by (rule recording_run.construct)
  have b: "recording_run demo_tick default_monitor_config [demo_metric] (demo_monitor, demo_monitor_world)"
    using recording_run.record_any [OF a, of "''load''" GAUGE 2 "[]" "[]"]
    by (simp add: demo_monitor_def demo_monitor_world_def record_gauge_def demo_metric_def demo_tick_def demo_lt_def demo_start_def)
  have "fst (demo_tick demo_monitor_world) \<le> fst (demo_tick late_monitor_world)"
    by (simp add: demo_monitor_world_def record_gauge_def record_metric_def case_prod_beta late_monitor_world_def
        demo_tick_def demo_lt_def demo_start_def)
  from recording_run.cleanup [OF recording_run.elapse [OF b this]]
  have c: "recording_run demo_tick default_monitor_config [demo_metric] (fst ?s, snd ?s)" by simp
  note limit = default_monitor_config_def to_size_t_def
  show "subseq (get_metrics ''load'' (fst ?s)) [demo_metric]"
    using metrics_window_with_retention [OF demo_tick_mono c, of "''load''"] by (simp add: Let_def demo_metric_def)
  show "get_metrics ''load'' demo_monitor = last_n 1000 [demo_metric]"
    using metrics_window_with_retention [OF demo_tick_mono b, of "''load''"]
    by (simp add: Let_def demo_metric_def limit demo_monitor_world_def record_gauge_def record_metric_def case_prod_beta
        demo_tick_def demo_lt_def demo_start_def)
qed


section \<open>The monitor thread\<close>

inductive performance_wake :: "'w clock \<Rightarrow> performance_service \<Rightarrow> performance_service \<Rightarrow> bool" for clk :: "'w clock" where
  "mn_in_loop (pfs_thread s) \<Longrightarrow> performance_wake clk s (fst (performance_monitor_pass clk s w))"

inductive performance_operation :: "'w clock \<Rightarrow> performance_service \<Rightarrow> performance_service \<Rightarrow> bool" for clk :: "'w clock" where
  "monitor_step clk (pfs_monitor s, w) (pn, w') \<Longrightarrow> performance_operation clk s (s\<lparr>pfs_monitor := pn\<rparr>)"

interpretation performance_thread:
  monitored_service pfs_thread performance_start performance_stop "performance_wake clk" "performance_operation clk"
proof
  fix s t
  assume "performance_wake clk s t"
  then show "mn_in_loop (pfs_thread s) \<and> pfs_thread t = monitor_wake (pfs_thread s)"
    by cases (auto simp: performance_monitor_pass_def Let_def case_prod_beta)
qed (auto simp: performance_start_def performance_stop_def elim: performance_operation.cases)

text \<open>Everything that can happen to the service.\<close>

definition performance_call :: "'w clock \<Rightarrow> performance_service \<Rightarrow> performance_service \<Rightarrow> bool" where
  "performance_call clk s t \<longleftrightarrow>
     t = performance_start s \<or> t = performance_stop s \<or> performance_wake clk s t \<or> performance_operation clk s t"

lemma performance_never_revived:
  "(performance_call clk)\<^sup>*\<^sup>* s t \<Longrightarrow> mn_joinable (pfs_thread s) \<Longrightarrow> \<not> mn_in_loop (pfs_thread s) \<Longrightarrow>
     performance_is_running (performance_start t) \<and> (\<nexists>u. performance_wake clk t u)"
  using performance_thread.never_revived [of clk s t] by (simp add: performance_call_def [abs_def] performance_is_running_def)

end
