(* ===== verification/Performance_Optimizer.thy ===== *)
theory Performance_Optimizer
  imports Complex_Main Std_Containers External_World State_Machine Sliding_Window
begin

text \<open>
  \<^verbatim>\<open>PerformanceOptimizer\<close> of \<^verbatim>\<open>performance_optimizer.cpp\<close> and its header: the history of performance metrics, the alerts, and the settings it
  tunes. The number of cores that \<^verbatim>\<open>std::thread::hardware_concurrency\<close> returns is the parameter \<open>cores\<close>. A callback acts on the outside world
  and may throw; one that calls back into the optimizer is not covered. Log output, the report text and the two file operations, which
  read and print floating-point numbers, are left out. \<^verbatim>\<open>double\<close> values are rationals.
\<close>

section \<open>Definitions\<close>

datatype optimization_strategy = ADAPTIVE | MANUAL | PROFILE_BASED | ML_BASED

record performance_metrics =
  om_cpu_usage_percent :: rat
  om_memory_usage_mb :: rat
  om_network_throughput_mbps :: rat
  om_average_response_time_ms :: rat
  om_success_rate_percent :: rat
  om_active_connections :: int
  om_queued_requests :: int
  om_timestamp :: time

type_synonym 'w callback = "'w \<Rightarrow> exn option \<times> 'w"

record 'w optimizer =
  po_monitoring_enabled :: bool
  po_adaptive_enabled :: bool
  po_profiling_enabled :: bool
  po_strategy :: optimization_strategy
  po_history :: "performance_metrics list"
  po_last_optimization :: time
  po_thresholds :: "(string, rat) smap"
  po_alerts :: "(string, 'w callback) smap"
  po_thread_count :: int
  po_max_connections :: int
  po_cache_size :: nat
  po_batch_size :: int

definition load_default_config :: "'w optimizer \<Rightarrow> 'w optimizer" where
  "load_default_config opt = opt\<lparr>po_thresholds := smap_update ''success_rate'' 70 (smap_update ''response_time'' 5000
     (smap_update ''memory_usage'' 800 (smap_update ''cpu_usage'' 80 (po_thresholds opt))))\<rparr>"

definition new_optimizer :: "'w optimizer" where
  "new_optimizer = load_default_config \<lparr>po_monitoring_enabled = False, po_adaptive_enabled = False, po_profiling_enabled = False,
     po_strategy = ADAPTIVE, po_history = [], po_last_optimization = 0, po_thresholds = [], po_alerts = [], po_thread_count = 8,
     po_max_connections = 200, po_cache_size = 10000, po_batch_size = 1000\<rparr>"

subsection \<open>Switches\<close>

definition start_monitoring :: "'w optimizer \<Rightarrow> 'w optimizer" where
  "start_monitoring opt = opt\<lparr>po_monitoring_enabled := True\<rparr>"

definition stop_monitoring :: "'w optimizer \<Rightarrow> 'w optimizer" where
  "stop_monitoring opt = opt\<lparr>po_monitoring_enabled := False\<rparr>"

definition set_optimization_strategy :: "optimization_strategy \<Rightarrow> 'w optimizer \<Rightarrow> 'w optimizer" where
  "set_optimization_strategy strategy opt = opt\<lparr>po_strategy := strategy\<rparr>"

definition enable_adaptive_optimization :: "bool \<Rightarrow> 'w optimizer \<Rightarrow> 'w optimizer" where
  "enable_adaptive_optimization enable opt = opt\<lparr>po_adaptive_enabled := enable\<rparr>"

definition set_adaptive_thresholds :: "(string, rat) smap \<Rightarrow> 'w optimizer \<Rightarrow> 'w optimizer" where
  "set_adaptive_thresholds thresholds opt = opt\<lparr>po_thresholds := thresholds\<rparr>"

definition start_profiling :: "'w optimizer \<Rightarrow> 'w optimizer" where
  "start_profiling opt = opt\<lparr>po_profiling_enabled := True\<rparr>"

definition stop_profiling :: "'w optimizer \<Rightarrow> 'w optimizer" where
  "stop_profiling opt = opt\<lparr>po_profiling_enabled := False\<rparr>"

definition set_performance_alert :: "string \<Rightarrow> rat \<Rightarrow> 'w callback \<Rightarrow> 'w optimizer \<Rightarrow> 'w optimizer" where
  "set_performance_alert metric threshold callback opt =
     opt\<lparr>po_thresholds := smap_update metric threshold (po_thresholds opt), po_alerts := smap_update metric callback (po_alerts opt)\<rparr>"

definition clear_performance_alert :: "string \<Rightarrow> 'w optimizer \<Rightarrow> 'w optimizer" where
  "clear_performance_alert metric opt = opt\<lparr>po_alerts := smap_erase metric (po_alerts opt)\<rparr>"

subsection \<open>Analysis\<close>

definition is_cpu_bottleneck :: "'w optimizer \<Rightarrow> bool" where
  "is_cpu_bottleneck opt = (if po_history opt = [] then False else om_cpu_usage_percent (last (po_history opt)) > 80)"

definition is_memory_bottleneck :: "'w optimizer \<Rightarrow> bool" where
  "is_memory_bottleneck opt = (if po_history opt = [] then False else om_memory_usage_mb (last (po_history opt)) > 800)"

definition is_network_bottleneck :: "'w optimizer \<Rightarrow> bool" where
  "is_network_bottleneck opt = (if po_history opt = [] then False else om_average_response_time_ms (last (po_history opt)) > 5000)"

definition is_database_bottleneck :: "'w optimizer \<Rightarrow> bool" where
  "is_database_bottleneck opt = (if po_history opt = [] then False else om_success_rate_percent (last (po_history opt)) < 70)"

definition is_performance_degraded :: "'w optimizer \<Rightarrow> bool" where
  "is_performance_degraded opt =
     (if po_history opt = [] then False
      else let latest = last (po_history opt)
           in if om_cpu_usage_percent latest > 80 then True
              else if om_memory_usage_mb latest > 800 then True
              else if om_average_response_time_ms latest > 5000 then True
              else if om_success_rate_percent latest < 70 then True else False)"

definition get_performance_bottleneck :: "'w optimizer \<Rightarrow> string" where
  "get_performance_bottleneck opt =
     (if po_history opt = [] then ''Unknown''
      else if is_cpu_bottleneck opt then ''CPU''
      else if is_memory_bottleneck opt then ''Memory''
      else if is_network_bottleneck opt then ''Network''
      else if is_database_bottleneck opt then ''Database'' else ''None'')"

definition get_optimization_recommendations :: "'w optimizer \<Rightarrow> string list" where
  "get_optimization_recommendations opt =
     (if is_cpu_bottleneck opt
      then [''Reduce thread count'', ''Optimize CPU-intensive operations'', ''Use more efficient algorithms''] else []) @
     (if is_memory_bottleneck opt
      then [''Reduce cache size'', ''Implement memory pooling'', ''Optimize data structures''] else []) @
     (if is_network_bottleneck opt
      then [''Reduce connection limits'', ''Implement connection pooling'', ''Optimize network protocols''] else []) @
     (if is_database_bottleneck opt
      then [''Reduce batch size'', ''Optimize database queries'', ''Implement database connection pooling''] else [])"

text \<open>The four averages share their loop.\<close>

definition average_of :: "(performance_metrics \<Rightarrow> rat) \<Rightarrow> 'w optimizer \<Rightarrow> rat" where
  "average_of f opt =
     (if po_history opt = [] then 0 else foldl (\<lambda>sum m. sum + f m) 0 (po_history opt) / of_nat (length (po_history opt)))"

definition get_average_cpu_usage :: "'w optimizer \<Rightarrow> rat" where
  "get_average_cpu_usage = average_of om_cpu_usage_percent"

definition get_average_memory_usage :: "'w optimizer \<Rightarrow> rat" where
  "get_average_memory_usage = average_of om_memory_usage_mb"

definition get_average_response_time :: "'w optimizer \<Rightarrow> rat" where
  "get_average_response_time = average_of om_average_response_time_ms"

definition get_average_success_rate :: "'w optimizer \<Rightarrow> rat" where
  "get_average_success_rate = average_of om_success_rate_percent"

definition get_historical_metrics :: "int \<Rightarrow> 'w optimizer \<Rightarrow> performance_metrics list" where
  "get_historical_metrics n opt =
     (if n \<le> 0 \<or> po_history opt = [] then po_history opt
      else let start = max 0 (int (length (po_history opt)) - n) in drop (nat start) (po_history opt))"

text \<open>\<^verbatim>\<open>collectSystemMetrics\<close> fills in constants.\<close>

definition get_current_metrics :: "'w clock \<Rightarrow> 'w \<Rightarrow> performance_metrics \<times> 'w" where
  "get_current_metrics clk w =
     (let (t, w1) = clk w
      in (\<lparr>om_cpu_usage_percent = 25, om_memory_usage_mb = 512, om_network_throughput_mbps = 100, om_average_response_time_ms = 150,
            om_success_rate_percent = 95, om_active_connections = 50, om_queued_requests = 10, om_timestamp = t\<rparr>, w1))"

subsection \<open>Settings\<close>

definition calculate_optimal_thread_count :: "int \<Rightarrow> int" where
  "calculate_optimal_thread_count cores = max 2 (min cores 16)"

definition calculate_optimal_connection_limits :: "'w optimizer \<Rightarrow> int \<times> int" where
  "calculate_optimal_connection_limits opt =
     (if is_memory_bottleneck opt then (100, 500) else if is_network_bottleneck opt then (50, 200) else (200, 1000))"

definition calculate_optimal_cache_size :: "'w optimizer \<Rightarrow> nat" where
  "calculate_optimal_cache_size opt =
     (let base_size = 10000
      in if is_memory_bottleneck opt then base_size div 2
         else if get_average_memory_usage opt < 200 then base_size * 2 else base_size)"

definition calculate_optimal_batch_size :: "'w optimizer \<Rightarrow> int" where
  "calculate_optimal_batch_size opt =
     (let base_size = 1000
      in if is_database_bottleneck opt then base_size div 2
         else if get_average_response_time opt < 100 then base_size * 2 else base_size)"

definition set_optimal_thread_count :: "int \<Rightarrow> 'w optimizer \<Rightarrow> 'w optimizer" where
  "set_optimal_thread_count cores opt = opt\<lparr>po_thread_count := calculate_optimal_thread_count cores\<rparr>"

definition set_optimal_connection_limits :: "'w optimizer \<Rightarrow> 'w optimizer" where
  "set_optimal_connection_limits opt = opt\<lparr>po_max_connections := fst (calculate_optimal_connection_limits opt)\<rparr>"

definition set_optimal_cache_size :: "'w optimizer \<Rightarrow> 'w optimizer" where
  "set_optimal_cache_size opt = opt\<lparr>po_cache_size := calculate_optimal_cache_size opt\<rparr>"

definition set_optimal_batch_size :: "'w optimizer \<Rightarrow> 'w optimizer" where
  "set_optimal_batch_size opt = opt\<lparr>po_batch_size := calculate_optimal_batch_size opt\<rparr>"

text \<open>The four methods below differ from the setters above by a log line only.\<close>

definition optimize_thread_pool :: "int \<Rightarrow> 'w optimizer \<Rightarrow> 'w optimizer" where
  "optimize_thread_pool cores opt = opt\<lparr>po_thread_count := calculate_optimal_thread_count cores\<rparr>"

definition optimize_connections :: "'w optimizer \<Rightarrow> 'w optimizer" where
  "optimize_connections opt = opt\<lparr>po_max_connections := fst (calculate_optimal_connection_limits opt)\<rparr>"

definition optimize_cache :: "'w optimizer \<Rightarrow> 'w optimizer" where
  "optimize_cache opt = opt\<lparr>po_cache_size := calculate_optimal_cache_size opt\<rparr>"

definition optimize_database :: "'w optimizer \<Rightarrow> 'w optimizer" where
  "optimize_database opt = opt\<lparr>po_batch_size := calculate_optimal_batch_size opt\<rparr>"

definition optimize_memory_usage :: "'w optimizer \<Rightarrow> 'w optimizer" where
  "optimize_memory_usage opt = (if is_memory_bottleneck opt then opt\<lparr>po_cache_size := calculate_optimal_cache_size opt\<rparr> else opt)"

definition optimize_cpu_usage :: "int \<Rightarrow> 'w optimizer \<Rightarrow> 'w optimizer" where
  "optimize_cpu_usage cores opt = (if is_cpu_bottleneck opt then opt\<lparr>po_thread_count := calculate_optimal_thread_count cores\<rparr> else opt)"

definition optimize_network_usage :: "'w optimizer \<Rightarrow> 'w optimizer" where
  "optimize_network_usage opt =
     (if is_network_bottleneck opt
      then let limits = calculate_optimal_connection_limits opt in opt\<lparr>po_max_connections := fst limits\<rparr> else opt)"

definition optimize_database_usage :: "'w optimizer \<Rightarrow> 'w optimizer" where
  "optimize_database_usage opt = (if is_database_bottleneck opt then opt\<lparr>po_batch_size := calculate_optimal_batch_size opt\<rparr> else opt)"

subsection \<open>Recording and tuning\<close>

definition analyze_performance :: "int \<Rightarrow> 'w optimizer \<Rightarrow> 'w optimizer" where
  "analyze_performance cores opt =
     (if po_history opt = [] then opt
      else
        let latest = last (po_history opt);
            o1 = (if om_cpu_usage_percent latest > 80 then optimize_cpu_usage cores opt else opt);
            o2 = (if om_memory_usage_mb latest > 800 then optimize_memory_usage o1 else o1);
            o3 = (if om_average_response_time_ms latest > 5000 then optimize_network_usage o2 else o2)
        in if om_success_rate_percent latest < 70 then optimize_database_usage o3 else o3)"

definition alert_value :: "string \<Rightarrow> performance_metrics \<Rightarrow> rat" where
  "alert_value name m =
     (if name = ''cpu_usage'' then om_cpu_usage_percent m
      else if name = ''memory_usage'' then om_memory_usage_mb m
      else if name = ''response_time'' then om_average_response_time_ms m
      else if name = ''success_rate'' then om_success_rate_percent m else 0)"

text \<open>The loop over the alerts; an exception of a callback leaves it.\<close>

fun check_alerts ::
  "(string, rat) smap \<Rightarrow> performance_metrics \<Rightarrow> (string \<times> 'w callback) list \<Rightarrow> 'w \<Rightarrow> exn option \<times> 'w" where
  "check_alerts thresholds m [] w = (None, w)"
| "check_alerts thresholds m ((name, callback) # rest) w =
     (case smap_find thresholds name of
        None \<Rightarrow> check_alerts thresholds m rest w
      | Some threshold \<Rightarrow>
          if alert_value name m > threshold then
            (case callback w of (Some e, w1) \<Rightarrow> (Some e, w1) | (None, w1) \<Rightarrow> check_alerts thresholds m rest w1)
          else check_alerts thresholds m rest w)"

definition check_performance_alerts :: "performance_metrics \<Rightarrow> 'w optimizer \<Rightarrow> 'w \<Rightarrow> exn option \<times> 'w" where
  "check_performance_alerts m opt w = check_alerts (po_thresholds opt) m (po_alerts opt) w"

definition record_performance :: "int \<Rightarrow> performance_metrics \<Rightarrow> 'w optimizer \<Rightarrow> 'w \<Rightarrow> exn option \<times> 'w optimizer \<times> 'w" where
  "record_performance cores m opt w =
     (if \<not> po_monitoring_enabled opt then (None, opt, w)
      else
        let h = po_history opt @ [m];
            o1 = opt\<lparr>po_history := (if length h > 1000 then tl h else h)\<rparr>
        in case check_performance_alerts m o1 w of
             (Some e, w1) \<Rightarrow> (Some e, o1, w1)
           | (None, w1) \<Rightarrow> (None, if po_adaptive_enabled o1 then analyze_performance cores o1 else o1, w1))"

text \<open>\<^verbatim>\<open>applyOptimizations\<close>, \<^verbatim>\<open>updateConfiguration\<close> and the two other strategies have empty bodies.\<close>

definition optimize :: "'w clock \<Rightarrow> int \<Rightarrow> 'w optimizer \<Rightarrow> 'w \<Rightarrow> 'w optimizer \<times> 'w" where
  "optimize clk cores opt w =
     (let o1 = (case po_strategy opt of
                  ADAPTIVE \<Rightarrow> analyze_performance cores opt
                | MANUAL \<Rightarrow> opt
                | PROFILE_BASED \<Rightarrow> opt
                | ML_BASED \<Rightarrow> opt);
          (t, w1) = clk w
      in (o1\<lparr>po_last_optimization := t\<rparr>, w1))"

text \<open>The thresholds that \<^verbatim>\<open>validateConfig\<close> warns about.\<close>

definition threshold_warnings :: "'w optimizer \<Rightarrow> string list" where
  "threshold_warnings opt = map fst (filter (\<lambda>(name, t). t < 0 \<or> t > 100) (po_thresholds opt))"

section \<open>What the analysis does\<close>

lemmas bottleneck_defs = is_cpu_bottleneck_def is_memory_bottleneck_def is_network_bottleneck_def is_database_bottleneck_def

text \<open>The four settings after the analysis of the latest metric, in closed form.\<close>

definition tuned :: "int \<Rightarrow> performance_metrics \<Rightarrow> 'w optimizer \<Rightarrow> 'w optimizer" where
  "tuned cores m opt = opt\<lparr>
     po_thread_count := (if om_cpu_usage_percent m > 80 then max 2 (min cores 16) else po_thread_count opt),
     po_cache_size := (if om_memory_usage_mb m > 800 then 5000 else po_cache_size opt),
     po_max_connections := (if om_average_response_time_ms m > 5000 then if om_memory_usage_mb m > 800 then 100 else 50
                            else po_max_connections opt),
     po_batch_size := (if om_success_rate_percent m < 70 then 500 else po_batch_size opt)\<rparr>"

lemma analyze_performance_tuned:
  "analyze_performance cores opt = (if po_history opt = [] then opt else tuned cores (last (po_history opt)) opt)"
proof (cases "po_history opt = []")
  case False
  let ?m = "last (po_history opt)"
  show ?thesis
    by (cases "om_cpu_usage_percent ?m > 80"; cases "om_memory_usage_mb ?m > 800";
        cases "om_average_response_time_ms ?m > 5000"; cases "om_success_rate_percent ?m < 70")
      (simp_all add: False analyze_performance_def tuned_def optimize_cpu_usage_def optimize_memory_usage_def
        optimize_network_usage_def optimize_database_usage_def bottleneck_defs calculate_optimal_thread_count_def
        calculate_optimal_cache_size_def calculate_optimal_connection_limits_def calculate_optimal_batch_size_def)
qed (simp add: analyze_performance_def)

lemma tuned_frame [frame_laws]:
  "po_history (tuned cores m opt) = po_history opt" "po_monitoring_enabled (tuned cores m opt) = po_monitoring_enabled opt"
  "po_adaptive_enabled (tuned cores m opt) = po_adaptive_enabled opt"
  by (simp_all add: tuned_def)

lemma record_performance_history:
  assumes "po_monitoring_enabled opt"
  shows "po_history (fst (snd (record_performance cores m opt w))) =
      (let ys = po_history opt @ [m] in if length ys > 1000 then tl ys else ys)"
    and "po_monitoring_enabled (fst (snd (record_performance cores m opt w)))"
  using assms
  by (auto simp: record_performance_def Let_def analyze_performance_tuned frame_laws split: prod.splits option.splits)

fun record_all_performance :: "int \<Rightarrow> performance_metrics list \<Rightarrow> 'w optimizer \<Rightarrow> 'w \<Rightarrow> 'w optimizer \<times> 'w" where
  "record_all_performance cores [] opt w = (opt, w)"
| "record_all_performance cores (m # ms) opt w =
     (case record_performance cores m opt w of (_, o1, w1) \<Rightarrow> record_all_performance cores ms o1 w1)"

lemma record_all_history:
  "po_monitoring_enabled opt \<Longrightarrow> po_history opt = last_n 1000 hist \<Longrightarrow>
     po_history (fst (record_all_performance cores ms opt w)) = last_n 1000 (hist @ ms)"
proof (induction ms arbitrary: opt w hist)
  case (Cons m ms)
  let ?r = "record_performance cores m opt w"
  have "po_history (fst (snd ?r)) = last_n 1000 (hist @ [m])"
    using record_performance_history(1) [OF Cons.prems(1)] Cons.prems(2) last_n_push [of 1000 hist m] by simp
  from Cons.IH [OF record_performance_history(2) [OF Cons.prems(1)] this] show ?case by (simp add: case_prod_beta)
qed simp

section \<open>The settings stay in range\<close>

text \<open>The operations that only set a switch, and those that set one of the tuned values.\<close>

definition switched :: "'w optimizer \<Rightarrow> 'w optimizer \<Rightarrow> bool" where
  "switched opt opt' \<longleftrightarrow> opt' \<in> {start_monitoring opt, stop_monitoring opt, start_profiling opt, stop_profiling opt}
     \<or> (\<exists>strategy. opt' = set_optimization_strategy strategy opt) \<or> (\<exists>enable. opt' = enable_adaptive_optimization enable opt)
     \<or> (\<exists>thresholds. opt' = set_adaptive_thresholds thresholds opt)
     \<or> (\<exists>metric threshold callback. opt' = set_performance_alert metric threshold callback opt)
     \<or> (\<exists>metric. opt' = clear_performance_alert metric opt)"

definition retuned :: "'w optimizer \<Rightarrow> 'w optimizer \<Rightarrow> bool" where
  "retuned opt opt' \<longleftrightarrow> (\<exists>cores. opt' \<in> {optimize_thread_pool cores opt, set_optimal_thread_count cores opt, optimize_cpu_usage cores opt})
     \<or> opt' \<in> {optimize_connections opt, optimize_cache opt, optimize_database opt, optimize_memory_usage opt, optimize_network_usage opt,
         optimize_database_usage opt, set_optimal_connection_limits opt, set_optimal_cache_size opt, set_optimal_batch_size opt}"

text \<open>Any order of the operations; the number of cores may change between calls.\<close>

inductive optimizer_step :: "'w clock \<Rightarrow> 'w optimizer \<times> 'w \<Rightarrow> 'w optimizer \<times> 'w \<Rightarrow> bool" for clk :: "'w clock" where
  record_one: "optimizer_step clk (opt, w) (snd (record_performance cores m opt w))"
| optimize_now: "optimizer_step clk (opt, w) (optimize clk cores opt w)"
| switch: "switched opt opt' \<Longrightarrow> optimizer_step clk (opt, w) (opt', w)"
| retune: "retuned opt opt' \<Longrightarrow> optimizer_step clk (opt, w) (opt', w)"
| elapse: "optimizer_step clk (opt, w) (opt, w')"

definition optimizer_init :: "'w optimizer \<times> 'w \<Rightarrow> bool" where
  "optimizer_init s \<longleftrightarrow> fst s = new_optimizer"

definition settings_in_range :: "'w optimizer \<Rightarrow> bool" where
  "settings_in_range opt \<longleftrightarrow> 2 \<le> po_thread_count opt \<and> po_thread_count opt \<le> 16 \<and> po_max_connections opt \<in> {50, 100, 200}
     \<and> po_cache_size opt \<in> {5000, 10000, 20000} \<and> po_batch_size opt \<in> {500, 1000, 2000} \<and> length (po_history opt) \<le> 1000"

lemma settings_in_range_tuned: "settings_in_range opt \<Longrightarrow> settings_in_range (tuned cores m opt)"
  by (auto simp: settings_in_range_def tuned_def)

lemma settings_in_range_analyze: "settings_in_range opt \<Longrightarrow> settings_in_range (analyze_performance cores opt)"
  by (simp add: analyze_performance_tuned settings_in_range_tuned)

lemma settings_in_range_push:
  "settings_in_range opt \<Longrightarrow> settings_in_range (opt\<lparr>po_history := let h = po_history opt @ [m] in if length h > 1000 then tl h else h\<rparr>)"
  by (auto simp: settings_in_range_def Let_def)

lemma settings_in_range_record: "settings_in_range opt \<Longrightarrow> settings_in_range (fst (snd (record_performance cores m opt w)))"
  using settings_in_range_push [of opt m]
  by (auto simp: record_performance_def Let_def settings_in_range_analyze split: prod.splits option.splits)

lemma settings_in_range_frame [simp]:
  "settings_in_range (opt\<lparr>po_monitoring_enabled := b\<rparr>) = settings_in_range opt" "settings_in_range (opt\<lparr>po_profiling_enabled := b\<rparr>) = settings_in_range opt"
  "settings_in_range (opt\<lparr>po_adaptive_enabled := b\<rparr>) = settings_in_range opt" "settings_in_range (opt\<lparr>po_strategy := st\<rparr>) = settings_in_range opt"
  "settings_in_range (opt\<lparr>po_thresholds := ts\<rparr>) = settings_in_range opt" "settings_in_range (opt\<lparr>po_alerts := als\<rparr>) = settings_in_range opt"
  "settings_in_range (opt\<lparr>po_last_optimization := t\<rparr>) = settings_in_range opt"
  by (simp_all add: settings_in_range_def)

lemma settings_in_range_switched: "switched opt opt' \<Longrightarrow> settings_in_range opt' = settings_in_range opt"
  unfolding switched_def start_monitoring_def stop_monitoring_def start_profiling_def stop_profiling_def set_optimization_strategy_def
    enable_adaptive_optimization_def set_adaptive_thresholds_def set_performance_alert_def clear_performance_alert_def
  by (elim disjE exE insertE emptyE; simp)

lemma settings_in_range_calculated:
  assumes "settings_in_range opt"
  shows "settings_in_range (opt\<lparr>po_thread_count := calculate_optimal_thread_count cores\<rparr>)"
    and "settings_in_range (opt\<lparr>po_max_connections := fst (calculate_optimal_connection_limits opt)\<rparr>)"
    and "settings_in_range (opt\<lparr>po_cache_size := calculate_optimal_cache_size opt\<rparr>)"
    and "settings_in_range (opt\<lparr>po_batch_size := calculate_optimal_batch_size opt\<rparr>)"
  using assms
  by (simp_all add: settings_in_range_def calculate_optimal_thread_count_def calculate_optimal_connection_limits_def
      calculate_optimal_cache_size_def calculate_optimal_batch_size_def Let_def)

lemma settings_in_range_retuned: "retuned opt opt' \<Longrightarrow> settings_in_range opt \<Longrightarrow> settings_in_range opt'"
  unfolding retuned_def optimize_thread_pool_def set_optimal_thread_count_def optimize_cpu_usage_def optimize_connections_def optimize_cache_def
    optimize_database_def optimize_memory_usage_def optimize_network_usage_def optimize_database_usage_def
    set_optimal_connection_limits_def set_optimal_cache_size_def set_optimal_batch_size_def Let_def
  by (elim disjE exE insertE emptyE; simp add: settings_in_range_calculated)

lemma settings_in_range_optimize: "settings_in_range opt \<Longrightarrow> settings_in_range (fst (optimize clk cores opt w))"
  using settings_in_range_analyze [of opt cores]
  by (simp add: optimize_def Let_def case_prod_beta split: optimization_strategy.split)

interpretation tuning: invariant_system optimizer_init "optimizer_step clk" "\<lambda>s. settings_in_range (fst s)"
proof
  show "settings_in_range (fst s)" if "optimizer_init s" for s :: "'a optimizer \<times> 'a"
    using that by (simp add: optimizer_init_def new_optimizer_def load_default_config_def settings_in_range_def)
  show "settings_in_range (fst t)" if ok: "settings_in_range (fst s)" and step: "optimizer_step clk s t" for s t
    using step ok
    by cases (simp_all add: settings_in_range_record settings_in_range_optimize settings_in_range_switched settings_in_range_retuned)
qed

section \<open>Alerts and tuning\<close>

text \<open>With callbacks that do not throw, exactly the callbacks of the alerts above their threshold run.\<close>

lemma check_alerts_runs:
  "list_all (\<lambda>(name, callback). \<forall>w. fst (callback w) = None) als \<Longrightarrow>
     check_alerts ts m als w = (None, foldl (\<lambda>w (name, callback). snd (callback w)) w
       (filter (\<lambda>(name, callback). \<exists>t. smap_find ts name = Some t \<and> t < alert_value name m) als))"
proof (induction als arbitrary: w)
  case (Cons al als)
  obtain name callback where al: "al = (name, callback)" by (cases al)
  with Cons.prems have "callback w = (None, snd (callback w))" by (simp add: prod_eq_iff)
  with Cons al show ?case by (auto split: option.splits prod.splits)
qed simp

lemma find_append: "find P (xs @ ys) = (case find P xs of None \<Rightarrow> find P ys | Some x \<Rightarrow> Some x)"
  by (induction xs) auto

lemma record_performance_tunes:
  fixes cores :: int and m :: performance_metrics and w :: 'w
  assumes "po_monitoring_enabled opt" "po_adaptive_enabled opt"
    "list_all (\<lambda>(name, callback). \<forall>w. fst (callback w) = None) (po_alerts opt)"
  defines "opt' \<equiv> fst (snd (record_performance cores m opt w))"
  shows "po_cache_size opt' = (if om_memory_usage_mb m > 800 then 5000 else po_cache_size opt)"
    "po_batch_size opt' = (if om_success_rate_percent m < 70 then 500 else po_batch_size opt)"
    "po_thread_count opt' = (if om_cpu_usage_percent m > 80 then max 2 (min cores 16) else po_thread_count opt)"
    "po_max_connections opt' = (if om_average_response_time_ms m > 5000 then if om_memory_usage_mb m > 800 then 100 else 50
       else po_max_connections opt)"
    "po_thresholds opt' = po_thresholds opt" "po_alerts opt' = po_alerts opt"
    "po_monitoring_enabled opt'" "po_adaptive_enabled opt'"
proof -
  let ?h = "if length (po_history opt @ [m]) > 1000 then tl (po_history opt @ [m]) else po_history opt @ [m]"
  have "?h \<noteq> []" "last ?h = m" by (cases "po_history opt", simp_all)+
  then have "opt' = tuned cores m (opt\<lparr>po_history := ?h\<rparr>)"
    using assms(1-3) by (simp add: opt'_def record_performance_def check_performance_alerts_def check_alerts_runs analyze_performance_tuned Let_def)
  then show "po_cache_size opt' = (if om_memory_usage_mb m > 800 then 5000 else po_cache_size opt)"
    "po_batch_size opt' = (if om_success_rate_percent m < 70 then 500 else po_batch_size opt)"
    "po_thread_count opt' = (if om_cpu_usage_percent m > 80 then max 2 (min cores 16) else po_thread_count opt)"
    "po_max_connections opt' = (if om_average_response_time_ms m > 5000 then if om_memory_usage_mb m > 800 then 100 else 50
       else po_max_connections opt)"
    "po_thresholds opt' = po_thresholds opt" "po_alerts opt' = po_alerts opt" "po_monitoring_enabled opt'" "po_adaptive_enabled opt'"
    using assms(1,2) by (simp_all add: tuned_def)
qed

section \<open>Properties\<close>

text \<open>C26: What adaptive tuning makes of a whole sequence of recorded metrics, with monitoring and adaptive optimisation on and
  alert callbacks that do not throw. The stored history forgets all but the last 1000 metrics, but the settings remember
  everything recorded: the cache is 5000 from the first metric above 800 MB on, the batch size 500 from the first success rate
  below 70 on, and the thread count the clipped number of cores from the first CPU usage above 80 on; good metrics afterwards
  change none of them. The connection limit is the one that is set anew: the last metric with a response time above 5000
  decides, with 100 when its memory was above 800 MB and 50 otherwise. The configurable thresholds play no role.\<close>

theorem adaptive_settings_of_history:
  assumes "po_monitoring_enabled opt" "po_adaptive_enabled opt" "po_history opt = last_n 1000 hist"
    "list_all (\<lambda>(name, callback). \<forall>w. fst (callback w) = None) (po_alerts opt)"
    "opt' = fst (record_all_performance cores ms opt w)"
  shows "po_history opt' = last_n 1000 (hist @ ms)
     \<and> po_cache_size opt' = (if \<exists>m \<in> set ms. om_memory_usage_mb m > 800 then 5000 else po_cache_size opt)
     \<and> po_batch_size opt' = (if \<exists>m \<in> set ms. om_success_rate_percent m < 70 then 500 else po_batch_size opt)
     \<and> po_thread_count opt' = (if \<exists>m \<in> set ms. om_cpu_usage_percent m > 80 then max 2 (min cores 16) else po_thread_count opt)
     \<and> po_max_connections opt' = (case find (\<lambda>m. om_average_response_time_ms m > 5000) (rev ms) of
           None \<Rightarrow> po_max_connections opt | Some m \<Rightarrow> if om_memory_usage_mb m > 800 then 100 else 50)
     \<and> po_thresholds opt' = po_thresholds opt"
  using assms
proof (induction ms arbitrary: opt w hist)
  case (Cons m ms)
  have h: "po_history (fst (snd (record_performance cores m opt w))) = last_n 1000 (hist @ [m])"
    using record_performance_history(1) [OF Cons.prems(1)] Cons.prems(3) last_n_push [of 1000 hist m] by simp
  note r = record_performance_tunes [OF Cons.prems(1,2,4), of cores m w]
  let ?o1 = "fst (snd (record_performance cores m opt w))" and ?w1 = "snd (snd (record_performance cores m opt w))"
  have ih: "po_history opt' = last_n 1000 ((hist @ [m]) @ ms)
     \<and> po_cache_size opt' = (if \<exists>m \<in> set ms. om_memory_usage_mb m > 800 then 5000 else po_cache_size ?o1)
     \<and> po_batch_size opt' = (if \<exists>m \<in> set ms. om_success_rate_percent m < 70 then 500 else po_batch_size ?o1)
     \<and> po_thread_count opt' = (if \<exists>m \<in> set ms. om_cpu_usage_percent m > 80 then max 2 (min cores 16) else po_thread_count ?o1)
     \<and> po_max_connections opt' = (case find (\<lambda>m. om_average_response_time_ms m > 5000) (rev ms) of
           None \<Rightarrow> po_max_connections ?o1 | Some m \<Rightarrow> if om_memory_usage_mb m > 800 then 100 else 50)
     \<and> po_thresholds opt' = po_thresholds ?o1"
    by (rule Cons.IH [of _ _ ?w1]) (use Cons.prems h r in \<open>simp_all add: case_prod_beta\<close>)
  then show ?case using r(1-5) by (auto simp: find_append split: option.splits)
qed simp

definition demo_load :: performance_metrics where
  "demo_load = \<lparr>om_cpu_usage_percent = 95, om_memory_usage_mb = 900, om_network_throughput_mbps = 1, om_average_response_time_ms = 10,
     om_success_rate_percent = 99, om_active_connections = 1, om_queued_requests = 0, om_timestamp = 0\<rparr>"

theorem adaptive_settings_of_history_witness:
  "let opt = enable_adaptive_optimization True (start_monitoring (new_optimizer :: demo_world optimizer));
       opt' = fst (record_all_performance 4 [demo_load, demo_load\<lparr>om_memory_usage_mb := 100\<rparr>] opt demo_start)
   in po_history opt' = [demo_load, demo_load\<lparr>om_memory_usage_mb := 100\<rparr>] \<and> po_cache_size opt' = 5000 \<and> po_thread_count opt' = 4"
  using adaptive_settings_of_history [of "enable_adaptive_optimization True (start_monitoring (new_optimizer :: demo_world optimizer))" "[]"
      "fst (record_all_performance 4 [demo_load, demo_load\<lparr>om_memory_usage_mb := 100\<rparr>]
         (enable_adaptive_optimization True (start_monitoring (new_optimizer :: demo_world optimizer))) demo_start)" 4
      "[demo_load, demo_load\<lparr>om_memory_usage_mb := 100\<rparr>]" demo_start]
  by (simp add: start_monitoring_def enable_adaptive_optimization_def new_optimizer_def load_default_config_def demo_load_def Let_def)

text \<open>Whatever is called in whatever order and on whatever number of cores, the settings stay in range: 2 to 16 threads, 50, 100 or 200
  connections, a cache of 5000, 10000 or 20000 entries, batches of 500, 1000 or 2000, and a history of at most 1000 metrics.\<close>

theorem optimizer_settings_in_range:
  assumes "reachable optimizer_init (optimizer_step clk) (opt, w)"
  shows "2 \<le> po_thread_count opt \<and> po_thread_count opt \<le> 16 \<and> po_max_connections opt \<in> {50, 100, 200}
     \<and> po_cache_size opt \<in> {5000, 10000, 20000} \<and> po_batch_size opt \<in> {500, 1000, 2000} \<and> length (po_history opt) \<le> 1000"
  using tuning.inv_reachable [OF assms] by (simp only: fst_conv settings_in_range_def)

theorem optimizer_settings_in_range_witness:
  "po_cache_size (optimize_cache (new_optimizer :: demo_world optimizer)) \<in> {5000, 10000, 20000}"
proof -
  have "reachable optimizer_init (optimizer_step demo_tick) (optimize_cache (new_optimizer :: demo_world optimizer), demo_start)"
  proof (rule reachable.move)
    show "reachable optimizer_init (optimizer_step demo_tick) (new_optimizer, demo_start)"
      by (rule reachable.start) (simp add: optimizer_init_def)
  qed (rule optimizer_step.retune, simp add: retuned_def)
  from optimizer_settings_in_range [OF this] show ?thesis by blast
qed

text \<open>Alerts fire above their threshold: with callbacks that do not throw, a recorded metric runs, in the order of their names, exactly the
  callbacks of the alerts that have a threshold below the value of their metric. This also holds for the success
  rate, so that its alert is raised by a good rate and never by a poor one.\<close>

theorem alerts_fire_above_threshold:
  assumes "list_all (\<lambda>(name, callback). \<forall>w. fst (callback w) = None) (po_alerts opt)"
  shows "check_performance_alerts m opt w =
     (None, foldl (\<lambda>w (name, callback). snd (callback w)) w
       (filter (\<lambda>(name, callback). \<exists>t. smap_find (po_thresholds opt) name = Some t \<and> t < alert_value name m) (po_alerts opt)))"
  using check_alerts_runs [OF assms] by (simp add: check_performance_alerts_def)

definition note_alert :: "string \<Rightarrow> demo_world callback" where
  "note_alert name w = (None, w\<lparr>dw_asked := name # dw_asked w\<rparr>)"

theorem alerts_fire_above_threshold_witness:
  "check_performance_alerts demo_load (set_performance_alert ''success_rate'' 70 (note_alert ''good'') new_optimizer) demo_start
     = (None, demo_start\<lparr>dw_asked := [''good'']\<rparr>)"
  using alerts_fire_above_threshold [of "set_performance_alert ''success_rate'' 70 (note_alert ''good'') new_optimizer" demo_load demo_start]
  by (simp add: set_performance_alert_def new_optimizer_def load_default_config_def note_alert_def alert_value_def demo_load_def demo_start_def)

end
