(* ===== verification/Double_Arithmetic.thy ===== *)
theory Double_Arithmetic
  imports Complex_Main "HOL-Library.Log_Nat"
begin

text \<open>
  \<^verbatim>\<open>double\<close> arithmetic where the sources depend on it: the value of an operation is the exact rational result, rounded. Infinities and NaN are
  written out by the definitions that can produce them.
\<close>

section \<open>Rounding\<close>

text \<open>A positive rational rounded to a \<^verbatim>\<open>double\<close>: to 53 significant bits, ties to even, on the grid of the subnormal numbers when it is
  tiny. Overflow does not occur here.\<close>

definition round_even :: "rat \<Rightarrow> int" where
  "round_even q =
     (let f = \<lfloor>q\<rfloor>; d = q - of_int f
      in if d < 1 / 2 then f else if d > 1 / 2 then f + 1 else if even f then f else f + 1)"

definition round_double :: "rat \<Rightarrow> rat" where
  "round_double q =
     (let scaled = q * 2 ^ 1074;
          k = floorlog 2 (nat \<lfloor>scaled\<rfloor>) - 53
      in of_int (round_even (scaled / 2 ^ k)) * 2 ^ k / 2 ^ 1074)"

definition double_add :: "rat \<Rightarrow> rat \<Rightarrow> rat" where
  "double_add a b = round_double (a + b)"

text \<open>Any rational, of either sign.\<close>

definition double_of :: "rat \<Rightarrow> rat" where
  "double_of q = (if q < 0 then - round_double (- q) else round_double q)"

text \<open>Literals: the nearest \<^verbatim>\<open>double\<close> of the decimal fraction.\<close>

definition double_0_2 :: rat where
  "double_0_2 = 3602879701896397 / 18014398509481984"

definition double_0_3 :: rat where
  "double_0_3 = 5404319552844595 / 18014398509481984"

definition double_0_4 :: rat where
  "double_0_4 = 3602879701896397 / 9007199254740992"

definition double_0_6 :: rat where
  "double_0_6 = 5404319552844595 / 9007199254740992"

section \<open>Signs\<close>

lemma round_double_nonneg: "0 \<le> q \<Longrightarrow> 0 \<le> round_double q"
proof -
  assume q: "0 \<le> q"
  have "0 \<le> round_even x" if "0 \<le> x" for x :: rat using that by (simp add: round_even_def Let_def)
  with q show ?thesis by (simp add: round_double_def Let_def)
qed

lemma double_of_nonneg: "0 \<le> q \<Longrightarrow> 0 \<le> double_of q"
  by (simp add: double_of_def round_double_nonneg)

lemma accumulate_nonneg: "0 \<le> s \<Longrightarrow> 0 \<le> x \<Longrightarrow> 0 \<le> c \<Longrightarrow> 0 \<le> double_of (s + double_of (x * c))"
  by (intro double_of_nonneg add_nonneg_nonneg mult_nonneg_nonneg)

end
