(* ===== verification/Metadata_Validator.thy ===== *)
theory Metadata_Validator
  imports Double_Arithmetic Std_Containers Hash_Format External_World
begin

text \<open>
  \<^verbatim>\<open>MetadataValidator\<close> of \<^verbatim>\<open>metadata_validator.cpp\<close>, with the structures of its header. The header declares \<^verbatim>\<open>validateMetadata\<close> and
  \<^verbatim>\<open>calculateQualityScore\<close> with one more parameter than the source file defines; the definitions are modelled. SHA-1
  (OpenSSL) is a parameter. The score is computed in \<^verbatim>\<open>double\<close> arithmetic, whose rounding is written out. The methods that
  the source file does not define, among them the bencode parsers, are not modelled.
\<close>

section \<open>Definitions\<close>

definition double_tenth :: rat where
  "double_tenth = 3602879701896397 / 36028797018963968"

record validation_result =
  vr_is_valid :: bool
  vr_error_message :: string
  vr_validation_details :: string
  vr_quality_score :: rat
  vr_validation_flags :: "(string, string) smap"

record validation_config =
  vc_max_metadata_size :: nat
  vc_min_piece_length :: nat
  vc_max_piece_length :: nat
  vc_max_files :: nat
  vc_max_file_name_length :: nat
  vc_strict_validation :: bool
  vc_validate_checksums :: bool

definition default_validation_config :: validation_config where
  "default_validation_config = \<lparr>vc_max_metadata_size = 10 * 1024 * 1024, vc_min_piece_length = 16 * 1024,
     vc_max_piece_length = 16 * 1024 * 1024, vc_max_files = 10000, vc_max_file_name_length = 255, vc_strict_validation = True,
     vc_validate_checksums = True\<rparr>"

definition update_validation_config :: "validation_config \<Rightarrow> validation_config \<Rightarrow> validation_config" where
  "update_validation_config config old = config"

definition empty_validation_result :: validation_result where
  "empty_validation_result = \<lparr>vr_is_valid = False, vr_error_message = [], vr_validation_details = [], vr_quality_score = 0,
     vr_validation_flags = []\<rparr>"

definition set_flag :: "string \<Rightarrow> string \<Rightarrow> validation_result \<Rightarrow> validation_result" where
  "set_flag key val r = r\<lparr>vr_validation_flags := smap_update key val (vr_validation_flags r)\<rparr>"

definition set_error :: "string \<Rightarrow> validation_result \<Rightarrow> validation_result" where
  "set_error message r = r\<lparr>vr_error_message := message\<rparr>"

definition calculate_sha1 :: "(string \<Rightarrow> string) \<Rightarrow> string \<Rightarrow> string" where
  "calculate_sha1 sha data = concat (map hex_byte (sha data))"

definition validate_metadata_size :: "validation_config \<Rightarrow> string \<Rightarrow> validation_result \<Rightarrow> bool \<times> validation_result" where
  "validate_metadata_size config metadata r =
     (if length metadata > vc_max_metadata_size config then
        (False, set_flag ''max_size'' (show_nat (vc_max_metadata_size config)) (set_flag ''actual_size'' (show_nat (length metadata))
           (set_flag ''size_exceeded'' ''true'' (set_error ''Metadata size exceeds maximum allowed size'' r))))
      else if length metadata < 100 then
        (False, set_flag ''actual_size'' (show_nat (length metadata)) (set_flag ''size_too_small'' ''true''
           (set_error ''Metadata size is too small'' r)))
      else (True, set_flag ''actual_size'' (show_nat (length metadata)) (set_flag ''size_valid'' ''true'' r)))"

definition validate_info_hash :: "(string \<Rightarrow> string) \<Rightarrow> string \<Rightarrow> validation_result \<Rightarrow> bool \<times> validation_result" where
  "validate_info_hash sha metadata r =
     (let calculated_hash = calculate_sha1 sha metadata
      in if calculated_hash = [] then
           (False, set_flag ''hash_calculation_failed'' ''true'' (set_error ''Failed to calculate metadata hash'' r))
         else (True, set_flag ''hash_valid'' ''true'' (set_flag ''info_hash'' calculated_hash r)))"

definition validate_pieces :: "string \<Rightarrow> validation_result \<Rightarrow> bool \<times> validation_result" where
  "validate_pieces metadata r =
     (if \<not> contains_str metadata ''pieces'' then
        (False, set_flag ''pieces_missing'' ''true'' (set_error ''Metadata does not contain pieces information'' r))
      else (True, set_flag ''pieces_present'' ''true'' r))"

fun check_fields :: "string list \<Rightarrow> string \<Rightarrow> validation_result \<Rightarrow> bool \<times> validation_result" where
  "check_fields [] metadata r = (True, set_flag ''info_dictionary_valid'' ''true'' r)"
| "check_fields (field # rest) metadata r =
     (if \<not> contains_str metadata field
      then (False, set_flag ''missing_field'' field (set_error (''Missing required field: '' @ field) r))
      else check_fields rest metadata r)"

definition validate_info_dictionary :: "string \<Rightarrow> validation_result \<Rightarrow> bool \<times> validation_result" where
  "validate_info_dictionary metadata r = check_fields [''name'', ''length'', ''piece length'', ''pieces''] metadata r"

definition validate_file_structure :: "string \<Rightarrow> validation_result \<Rightarrow> bool \<times> validation_result" where
  "validate_file_structure metadata r =
     (if contains_str metadata ''files'' then
        (True, set_flag ''file_structure_valid'' ''true'' (set_flag ''torrent_type'' ''multi_file'' r))
      else if contains_str metadata ''length'' then
        (True, set_flag ''file_structure_valid'' ''true'' (set_flag ''torrent_type'' ''single_file'' r))
      else
        (False, set_flag ''file_structure_invalid'' ''true''
           (set_error ''Invalid file structure - neither single nor multi-file'' r)))"

definition calculate_quality_score :: "validation_result \<Rightarrow> rat" where
  "calculate_quality_score r =
     (let has = (\<lambda>flag. smap_find (vr_validation_flags r) flag \<noteq> None);
          s0 = (if vr_is_valid r then double_add 0 (1 / 2) else 0);
          s1 = (if has ''size_valid'' then double_add s0 double_tenth else s0);
          s2 = (if has ''hash_valid'' then double_add s1 double_tenth else s1);
          s3 = (if has ''pieces_present'' then double_add s2 double_tenth else s2);
          s4 = (if has ''info_dictionary_valid'' then double_add s3 double_tenth else s3);
          s5 = (if has ''file_structure_valid'' then double_add s4 double_tenth else s4)
      in min s5 1)"

definition validate_metadata :: "(string \<Rightarrow> string) \<Rightarrow> validation_config \<Rightarrow> string \<Rightarrow> validation_result" where
  "validate_metadata sha config metadata =
     (if metadata = [] then set_error ''Metadata is empty'' empty_validation_result
      else case validate_metadata_size config metadata empty_validation_result of
        (False, r1) \<Rightarrow> r1
      | (True, r1) \<Rightarrow>
        (case validate_info_hash sha metadata r1 of
          (False, r2) \<Rightarrow> r2
        | (True, r2) \<Rightarrow>
          (case validate_pieces metadata r2 of
            (False, r3) \<Rightarrow> r3
          | (True, r3) \<Rightarrow>
            (case validate_info_dictionary metadata r3 of
              (False, r4) \<Rightarrow> r4
            | (True, r4) \<Rightarrow>
              (case validate_file_structure metadata r4 of
                (False, r5) \<Rightarrow> r5
              | (True, r5) \<Rightarrow>
                  let r6 = r5\<lparr>vr_is_valid := True\<rparr> in r6\<lparr>vr_quality_score := calculate_quality_score r6\<rparr>)))))"

section \<open>The score\<close>

lemma floorlog_unique:
  assumes "2 ^ n \<le> x" "x < 2 ^ Suc n"
  shows "floorlog 2 x = Suc n"
proof -
  have x: "0 < x" using assms(1) by (metis gr0I less_le_not_le power_not_zero zero_neq_numeral le_zero_eq)
  have b: "2 ^ (floorlog 2 x - 1) \<le> x" "x < 2 ^ floorlog 2 x" using floorlog_bounds [of x 2] x by simp_all
  have "(2::nat) ^ n < 2 ^ floorlog 2 x" using b(2) assms(1) by (rule le_less_trans [rotated])
  moreover have "(2::nat) ^ (floorlog 2 x - 1) < 2 ^ Suc n" using b(1) assms(2) by (rule le_less_trans)
  ultimately have "n < floorlog 2 x" "floorlog 2 x - 1 < Suc n" by (simp_all del: power_Suc)
  then show ?thesis by simp
qed

lemma nat_power_bounds: "2 ^ m \<le> i \<Longrightarrow> i < 2 ^ k \<Longrightarrow> (2::nat) ^ m \<le> nat i \<and> nat i < 2 ^ k"
  by (auto simp: le_nat_iff nat_less_iff order.trans [OF zero_le_power])

text \<open>Between one half and one, a \<^verbatim>\<open>double\<close> is a multiple of \<open>1 / 2 ^ 53\<close>.\<close>

lemma round_double_half:
  assumes "1 / 2 \<le> q" "q < 1"
  shows "round_double q = of_int (round_even (q * 2 ^ 53)) / 2 ^ 53"
proof -
  have scaled: "2 ^ m \<le> \<lfloor>q * 2 ^ Suc m\<rfloor> \<and> \<lfloor>q * 2 ^ Suc m\<rfloor> < 2 ^ Suc m" for m
    using assms by (simp add: le_floor_iff floor_less_iff field_simps)
  have fl: "floorlog 2 (nat \<lfloor>q * 2 ^ Suc m\<rfloor>) = Suc m" for m
    using nat_power_bounds [of m _ "Suc m"] scaled [of m] by (intro floorlog_unique) blast+
  have "round_double q = of_int (round_even (q * 2 ^ 1074 / 2 ^ 1021)) * 2 ^ 1021 / 2 ^ 1074"
    using fl [of 1073] by (simp only: round_double_def Let_def) simp
  also have "\<dots> = of_int (round_even (q * 2 ^ 53)) / 2 ^ 53"
  proof -
    have "(2::rat) ^ 1074 = 2 ^ 53 * 2 ^ 1021" by (simp only: power_add [symmetric]) simp
    then show ?thesis by (simp only: mult.assoc [symmetric] nonzero_mult_div_cancel_right power_not_zero) (simp add: field_simps)
  qed
  finally show ?thesis .
qed

lemma round_even_nearest:
  assumes "of_int n - 1 / 2 < q" "q < of_int n + 1 / 2"
  shows "round_even q = n"
proof (cases "of_int n \<le> q")
  case True
  with assms have "\<lfloor>q\<rfloor> = n" by (intro floor_unique) simp_all
  with True assms show ?thesis by (simp add: round_even_def Let_def)
next
  case False
  with assms have "\<lfloor>q\<rfloor> = n - 1" by (intro floor_unique) simp_all
  with False assms show ?thesis by (simp add: round_even_def Let_def)
qed

lemma double_add_half:
  assumes "1 / 2 \<le> a + b" "a + b < 1" "of_int n - 1 / 2 < (a + b) * 2 ^ 53" "(a + b) * 2 ^ 53 < of_int n + 1 / 2"
  shows "double_add a b = of_int n / 2 ^ 53"
  using round_double_half [OF assms(1,2)] round_even_nearest [OF assms(3,4)] by (simp add: double_add_def)

lemma score_steps:
  "double_add 0 (1 / 2) = 4503599627370496 / 2 ^ 53"
  "double_add (4503599627370496 / 2 ^ 53) double_tenth = 5404319552844595 / 2 ^ 53"
  "double_add (5404319552844595 / 2 ^ 53) double_tenth = 6305039478318694 / 2 ^ 53"
  "double_add (6305039478318694 / 2 ^ 53) double_tenth = 7205759403792793 / 2 ^ 53"
  "double_add (7205759403792793 / 2 ^ 53) double_tenth = 8106479329266892 / 2 ^ 53"
  "double_add (8106479329266892 / 2 ^ 53) double_tenth = 9007199254740991 / 2 ^ 53"
  using double_add_half [of 0 "1 / 2" 4503599627370496] double_add_half [of "4503599627370496 / 2 ^ 53" double_tenth 5404319552844595]
    double_add_half [of "5404319552844595 / 2 ^ 53" double_tenth 6305039478318694]
    double_add_half [of "6305039478318694 / 2 ^ 53" double_tenth 7205759403792793]
    double_add_half [of "7205759403792793 / 2 ^ 53" double_tenth 8106479329266892]
    double_add_half [of "8106479329266892 / 2 ^ 53" double_tenth 9007199254740991]
  by (simp_all add: double_tenth_def)

section \<open>The whole validation\<close>

lemma set_flag_simps [simp]:
  "vr_is_valid (set_flag k v r) = vr_is_valid r" "vr_error_message (set_flag k v r) = vr_error_message r"
  "vr_quality_score (set_flag k v r) = vr_quality_score r"
  "map_of (vr_validation_flags (set_flag k v r)) = (map_of (vr_validation_flags r))(k \<mapsto> v)"
  "vr_is_valid (set_error e r) = vr_is_valid r" "vr_error_message (set_error e r) = e"
  "vr_quality_score (set_error e r) = vr_quality_score r" "vr_validation_flags (set_error e r) = vr_validation_flags r"
  by (simp_all add: set_flag_def set_error_def)

lemma contains_substring: "contains_str s (u @ t @ v) \<Longrightarrow> contains_str s t"
  unfolding contains_str_iff by (metis append.assoc)

lemma contains_here: "contains_str (u @ t @ v) t"
  unfolding contains_str_iff by blast

lemma piece_length_contains_length: "contains_str s ''piece length'' \<Longrightarrow> contains_str s ''length''"
  using contains_substring [of s "''piece ''" "''length''" "[]"] by simp

definition acceptable :: "validation_config \<Rightarrow> string \<Rightarrow> bool" where
  "acceptable config metadata \<longleftrightarrow> 100 \<le> length metadata \<and> length metadata \<le> vc_max_metadata_size config
     \<and> contains_str metadata ''pieces'' \<and> contains_str metadata ''name'' \<and> contains_str metadata ''piece length''"

lemma full_score:
  assumes "vr_is_valid r" "\<forall>f \<in> {''size_valid'', ''hash_valid'', ''pieces_present'', ''info_dictionary_valid'', ''file_structure_valid''}.
    smap_find (vr_validation_flags r) f \<noteq> None"
  shows "calculate_quality_score r = 1 - 1 / 2 ^ 53"
proof -
  have "calculate_quality_score r = min (9007199254740991 / 2 ^ 53) 1"
    using assms by (simp add: calculate_quality_score_def Let_def score_steps del: power_numeral)
  then show ?thesis by (simp add: min_def)
qed

section \<open>Properties\<close>

text \<open>C25: Metadata is accepted exactly when its size is between 100 bytes and the configured maximum and it contains the words
  \<^verbatim>\<open>pieces\<close>, \<^verbatim>\<open>name\<close> and \<^verbatim>\<open>piece length\<close>, whatever their place, and whatever the info hash was expected to be. An accepted result has no
  error, the SHA-1 of the metadata in hex, and the type by the word \<^verbatim>\<open>files\<close>; its score is one unit in the last place below
  1, the full score that the code means to give: five times 0.1 added to 0.5 in \<^verbatim>\<open>double\<close> arithmetic. A rejected one has an error message and the score 0.\<close>

theorem validation_exact:
  assumes "length (sha metadata) = 20"
  shows "let r = validate_metadata sha config metadata; flag = smap_find (vr_validation_flags r) in
       vr_is_valid r = acceptable config metadata
     \<and> (if acceptable config metadata
        then vr_error_message r = [] \<and> vr_quality_score r = 1 - 1 / 2 ^ 53 \<and> flag ''info_hash'' = Some (binary_to_hex (sha metadata))
          \<and> flag ''torrent_type'' = Some (if contains_str metadata ''files'' then ''multi_file'' else ''single_file'')
        else vr_error_message r \<noteq> [] \<and> vr_quality_score r = 0)"
proof -
  have sha: "calculate_sha1 sha metadata = binary_to_hex (sha metadata)" "binary_to_hex (sha metadata) \<noteq> []"
    using assms by (cases "sha metadata"; simp add: calculate_sha1_def binary_to_hex_def hex_byte_def)+
  note defs = validate_metadata_def validate_metadata_size_def validate_info_hash_def sha validate_pieces_def validate_info_dictionary_def
    validate_file_structure_def empty_validation_result_def acceptable_def Let_def
  show ?thesis
  proof (cases "acceptable config metadata")
    case True
    then have "metadata \<noteq> []" "contains_str metadata ''length''" by (auto simp: acceptable_def piece_length_contains_length)
    with True show ?thesis by (simp add: defs full_score not_less)
  next
    case False
    then show ?thesis by (auto simp: defs not_less not_le)
  qed
qed

definition demo_metadata :: string where
  "demo_metadata = ''4:'' @ ''name'' @ ''5:movie12:'' @ ''piece length'' @ ''i16384e6:'' @ ''pieces'' @ ''20:'' @ replicate 80 CHR ''x''"

theorem validation_exact_witness:
  "vr_is_valid (validate_metadata (\<lambda>_. replicate 20 CHR ''a'') default_validation_config demo_metadata)"
proof -
  have "acceptable default_validation_config demo_metadata"
    unfolding acceptable_def demo_metadata_def
    using contains_here [of "''4:''" "''name''"] contains_here [of "''4:name5:movie12:''" "''piece length''"]
      contains_here [of "''4:name5:movie12:piece lengthi16384e6:''" "''pieces''"]
    by (simp add: default_validation_config_def del: contains_str.simps)
  then show ?thesis using validation_exact [of "\<lambda>_. replicate 20 CHR ''a''" demo_metadata default_validation_config] by (simp add: Let_def)
qed

end
