(* ===== verification/Expiring_Store.thy ===== *)
theory Expiring_Store
  imports Std_Containers External_World
begin

text \<open>
  Entries with a deadline: \<^verbatim>\<open>DHTTokenManager\<close>, \<^verbatim>\<open>TimeoutManager\<close>, \<^verbatim>\<open>UTMetadataProtocol\<close> and \<^verbatim>\<open>RequestCacheManager\<close> keep their entries in a map
  \<^verbatim>\<open>active_...\<close> and have a loop that moves the entries whose deadline has passed to a map \<^verbatim>\<open>expired_...\<close>. The theory holds that
  loop, the interface \<open>expiring_store\<close> that says what it does to the two maps, and the histories that the components are
  compared with: what was last put under a key.
\<close>

section \<open>The loop\<close>

text \<open>\<^verbatim>\<open>std::chrono::milliseconds(n)\<close>, in the clock's nanoseconds.\<close>

definition milliseconds :: "int \<Rightarrow> int" where
  "milliseconds n = n * 1000000"

text \<open>An entry that is due goes to the expired map, marked; the iterator form \<^verbatim>\<open>it = active.erase(it)\<close> / \<^verbatim>\<open>++it\<close> over the
  active map is a recursion over its list.\<close>

fun move_due :: "('v \<Rightarrow> bool) \<Rightarrow> ('v \<Rightarrow> 'v) \<Rightarrow> ('k::linorder, 'v) smap \<Rightarrow> ('k, 'v) smap \<Rightarrow> ('k, 'v) smap \<times> ('k, 'v) smap" where
  "move_due due mark [] expired = ([], expired)"
| "move_due due mark ((k, v) # active) expired =
     (if due v then move_due due mark active (smap_update k (mark v) expired)
      else let (active', expired') = move_due due mark active expired in ((k, v) # active', expired'))"

definition moved_from :: "('v \<Rightarrow> bool) \<Rightarrow> ('k \<Rightarrow> 'v option) \<Rightarrow> 'k \<Rightarrow> 'v option" where
  "moved_from due act k = (case act k of None \<Rightarrow> None | Some v \<Rightarrow> if due v then None else Some v)"

definition moved_to :: "('v \<Rightarrow> bool) \<Rightarrow> ('v \<Rightarrow> 'v) \<Rightarrow> ('k \<Rightarrow> 'v option) \<Rightarrow> ('k \<Rightarrow> 'v option) \<Rightarrow> 'k \<Rightarrow> 'v option" where
  "moved_to due mark act ex k = (case act k of None \<Rightarrow> ex k | Some v \<Rightarrow> if due v then Some (mark v) else ex k)"

lemma fst_move_due: "fst (move_due due mark act ex) = filter (\<lambda>p. \<not> due (snd p)) act"
  by (induction due mark act ex rule: move_due.induct) (auto simp: case_prod_beta)

lemma smap_ok_Cons: "smap_ok ((k, v) # m) \<longleftrightarrow> (\<forall>k' \<in> set (map fst m). k < k') \<and> smap_ok m"
  by (simp add: smap_ok_def)

lemma map_of_filter_snd:
  "smap_ok m \<Longrightarrow> map_of (filter (\<lambda>p. P (snd p)) m) k = (case map_of m k of None \<Rightarrow> None | Some v \<Rightarrow> if P v then Some v else None)"
proof (induction m)
  case (Cons p m)
  obtain a b where p: "p = (a, b)" by (cases p)
  have "map_of m k = None" if "k = a"
    using Cons.prems that by (auto simp: p smap_ok_Cons map_of_eq_None_iff)
  with Cons show ?case by (auto simp: p smap_ok_Cons)
qed simp

lemma find_active_move: "smap_ok act \<Longrightarrow> map_of (fst (move_due due mark act ex)) = moved_from due (map_of act)"
  using map_of_filter_snd [of act "\<lambda>v. \<not> due v"] by (auto simp: fst_move_due moved_from_def fun_eq_iff split: option.splits)

lemma find_expired_move: "smap_ok act \<Longrightarrow> map_of (snd (move_due due mark act ex)) = moved_to due mark (map_of act) (map_of ex)"
proof (induction due mark act ex rule: move_due.induct)
  case (2 due mark k v act ex)
  have ok: "smap_ok act" and "map_of act k = None"
    using "2.prems" by (auto simp: smap_ok_Cons map_of_eq_None_iff)
  with 2 show ?case by (auto simp: moved_to_def fun_eq_iff case_prod_beta)
qed (simp add: moved_to_def fun_eq_iff)

lemma smap_ok_move: "smap_ok act \<Longrightarrow> smap_ok ex \<Longrightarrow> smap_ok (fst (move_due due mark act ex)) \<and> smap_ok (snd (move_due due mark act ex))"
  by (induction due mark act ex rule: move_due.induct) (auto simp: fst_move_due smap_ok_Cons case_prod_beta)

section \<open>The interface\<close>

locale expiring_store =
  fixes active expired :: "'s \<Rightarrow> 'k \<Rightarrow> 'v option" and due :: "time \<Rightarrow> 'v \<Rightarrow> bool" and mark :: "'v \<Rightarrow> 'v"
    and expire_at :: "time \<Rightarrow> 's \<Rightarrow> 's" and ok :: "'s \<Rightarrow> bool"
  assumes active_expire: "ok s \<Longrightarrow> active (expire_at t s) = moved_from (due t) (active s)"
    and expired_expire: "ok s \<Longrightarrow> expired (expire_at t s) = moved_to (due t) mark (active s) (expired s)"
    and ok_expire: "ok s \<Longrightarrow> ok (expire_at t s)"
    and due_later: "due t v \<Longrightarrow> t \<le> u \<Longrightarrow> due u v"
begin

lemma active_not_due: "ok s \<Longrightarrow> active (expire_at t s) k = Some v \<longleftrightarrow> active s k = Some v \<and> \<not> due t v"
  by (auto simp: active_expire moved_from_def split: option.splits)

lemma nothing_lost: "ok s \<Longrightarrow> dom (active (expire_at t s)) \<union> dom (expired (expire_at t s)) = dom (active s) \<union> dom (expired s)"
  by (auto simp: active_expire expired_expire moved_from_def moved_to_def dom_def split: option.splits if_splits)

lemma stays_disjoint:
  "ok s \<Longrightarrow> dom (active s) \<inter> dom (expired s) = {} \<Longrightarrow> dom (active (expire_at t s)) \<inter> dom (expired (expire_at t s)) = {}"
  unfolding disjoint_iff domIff by (auto simp: active_expire expired_expire moved_from_def moved_to_def split: option.splits if_splits)

text \<open>How often the loop ran before does not matter.\<close>

lemma expire_absorbs:
  assumes "ok s" "t \<le> u"
  shows "active (expire_at u (expire_at t s)) = active (expire_at u s) \<and> expired (expire_at u (expire_at t s)) = expired (expire_at u s)"
  using assms due_later [OF _ assms(2)]
  by (auto simp: active_expire expired_expire ok_expire moved_from_def moved_to_def fun_eq_iff split: option.splits if_splits)

end

section \<open>Histories\<close>

text \<open>What happened to a keyed store, newest event first, and what was last put under a key and not dropped since.\<close>

datatype ('k, 'v) store_event = Put 'k 'v | Drop 'k | Drop_all

fun last_put :: "('k, 'v) store_event list \<Rightarrow> 'k \<Rightarrow> 'v option" where
  "last_put [] k = None"
| "last_put (Put k' v # h) k = (if k' = k then Some v else last_put h k)"
| "last_put (Drop k' # h) k = (if k' = k then None else last_put h k)"
| "last_put (Drop_all # h) k = None"

lemma last_put_origin: "last_put h k = Some v \<Longrightarrow> Put k v \<in> set h"
  by (induction h k rule: last_put.induct) (auto split: if_splits)

text \<open>A store follows a history when the two agree on every key, except that the store may have forgotten entries that do not matter
  any more.\<close>

definition follows :: "('v \<Rightarrow> bool) \<Rightarrow> ('k \<Rightarrow> 'v option) \<Rightarrow> ('k, 'v) store_event list \<Rightarrow> bool" where
  "follows stale act h \<longleftrightarrow> (\<forall>k. act k = last_put h k \<or> (act k = None \<and> (\<exists>v. last_put h k = Some v \<and> stale v)))"

lemma follows_Put: "follows stale act h \<Longrightarrow> follows stale (act(k \<mapsto> v)) (Put k v # h)"
  by (auto simp: follows_def)

lemma follows_forget:
  "follows stale act h \<Longrightarrow> (\<And>v. stale v \<Longrightarrow> stale' v) \<Longrightarrow> (\<And>k v. act k = Some v \<Longrightarrow> act' k = None \<Longrightarrow> stale' v)
   \<Longrightarrow> (\<And>k v. act' k = Some v \<Longrightarrow> act k = Some v) \<Longrightarrow> follows stale' act' h"
  unfolding follows_def by (metis not_None_eq)

lemma follows_Drop: "follows stale act h \<Longrightarrow> follows stale (act(k := None)) (Drop k # h)"
  by (auto simp: follows_def)

lemma follows_Drop_all: "follows stale (\<lambda>k. None) (Drop_all # h)"
  by (simp add: follows_def)

lemma follows_fresh:
  assumes "follows stale act h"
  shows "(\<exists>v. act k = Some v \<and> \<not> stale v \<and> P v) \<longleftrightarrow> (\<exists>v. last_put h k = Some v \<and> \<not> stale v \<and> P v)"
proof -
  consider "act k = last_put h k" | v where "act k = None" "last_put h k = Some v" "stale v"
    using assms by (auto simp: follows_def)
  then show ?thesis by cases auto
qed

end
