(* ===== verification/Token_Manager.thy ===== *)
theory Token_Manager
  imports Expiring_Store Hash_Format State_Machine
begin

text \<open>
  \<^verbatim>\<open>DHTTokenManager\<close> as \<^verbatim>\<open>dht_token_manager.cpp\<close> defines it. The header of the class declares other members and other signatures,
  so the two files do not compile together; the state below has the members that the source file uses. HMAC-SHA1 (OpenSSL), the
  random engine, \<^verbatim>\<open>std::time\<close> and the steady clock are parameters. A lookup that finds nothing returns \<^verbatim>\<open>TokenInfo{}\<close>, written \<open>None\<close>.
\<close>

section \<open>Definitions\<close>

record token_config =
  tk_secret_key :: string
  tk_token_lifetime :: int
  tk_cleanup_interval :: int

record token_info =
  ti_token :: string
  ti_node_id :: string
  ti_transaction_id :: string
  ti_created_at :: time
  ti_expires_at :: time
  ti_salt :: string
  ti_usage_count :: int

record token_manager =
  dt_config :: token_config
  dt_active_tokens :: "(string, token_info) smap"
  dt_expired_tokens :: "(string, token_info) smap"

record 'w token_env =
  te_clock :: "'w clock"
  te_time :: "'w \<Rightarrow> int \<times> 'w"
  te_random :: "'w \<Rightarrow> nat \<times> 'w"
  te_hmac :: "string \<Rightarrow> string \<Rightarrow> string"

definition new_token_manager :: "token_config \<Rightarrow> token_manager" where
  "new_token_manager config = \<lparr>dt_config = config, dt_active_tokens = [], dt_expired_tokens = []\<rparr>"

fun salt_bytes :: "('w \<Rightarrow> nat \<times> 'w) \<Rightarrow> nat \<Rightarrow> 'w \<Rightarrow> string \<times> 'w" where
  "salt_bytes rng 0 w = ([], w)"
| "salt_bytes rng (Suc n) w = (let (b, w1) = rng w; (bs, w2) = salt_bytes rng n w1 in (char_of (b mod 256) # bs, w2))"

definition generate_random_salt :: "'w token_env \<Rightarrow> 'w \<Rightarrow> string \<times> 'w" where
  "generate_random_salt env w = salt_bytes (te_random env) 16 w"

definition create_hmac_token :: "'w token_env \<Rightarrow> token_config \<Rightarrow> string \<Rightarrow> string \<Rightarrow> string" where
  "create_hmac_token env config data salt = concat (map hex_byte (te_hmac env (tk_secret_key config) data))"

definition generate_token :: "'w token_env \<Rightarrow> string \<Rightarrow> string \<Rightarrow> token_manager \<Rightarrow> 'w \<Rightarrow> string \<times> token_manager \<times> 'w" where
  "generate_token env node_id transaction_id tm w =
     (let (now_s, w1) = te_time env w;
          token_data = node_id @ transaction_id @ to_string now_s;
          (salt, w2) = generate_random_salt env w1;
          token = create_hmac_token env (dt_config tm) token_data salt;
          (created, w3) = te_clock env w2;
          info = \<lparr>ti_token = token, ti_node_id = node_id, ti_transaction_id = transaction_id, ti_created_at = created,
            ti_expires_at = created + milliseconds (tk_token_lifetime (dt_config tm)), ti_salt = salt, ti_usage_count = 0\<rparr>
      in (token, tm\<lparr>dt_active_tokens := smap_update token info (dt_active_tokens tm)\<rparr>, w3))"

definition validate_token :: "'w token_env \<Rightarrow> string \<Rightarrow> string \<Rightarrow> token_manager \<Rightarrow> 'w \<Rightarrow> bool \<times> token_manager \<times> 'w" where
  "validate_token env token node_id tm w =
     (case smap_find (dt_active_tokens tm) token of
        None \<Rightarrow> (False, tm, w)
      | Some info \<Rightarrow>
          (let (now, w1) = te_clock env w
           in if now > ti_expires_at info then
                (False, tm\<lparr>dt_expired_tokens := smap_update token info (dt_expired_tokens tm),
                   dt_active_tokens := smap_erase token (dt_active_tokens tm)\<rparr>, w1)
              else if ti_node_id info \<noteq> node_id then (False, tm, w1)
              else (True, tm\<lparr>dt_active_tokens := smap_update token (info\<lparr>ti_usage_count := ti_usage_count info + 1\<rparr>)
                      (dt_active_tokens tm)\<rparr>, w1)))"

definition refresh_token :: "'w token_env \<Rightarrow> string \<Rightarrow> token_manager \<Rightarrow> 'w \<Rightarrow> bool \<times> token_manager \<times> 'w" where
  "refresh_token env token tm w =
     (case smap_find (dt_active_tokens tm) token of
        None \<Rightarrow> (False, tm, w)
      | Some info \<Rightarrow>
          (let (now, w1) = te_clock env w;
               info1 = info\<lparr>ti_expires_at := now + milliseconds (tk_token_lifetime (dt_config tm))\<rparr>
           in (True, tm\<lparr>dt_active_tokens := smap_update token info1 (dt_active_tokens tm)\<rparr>, w1)))"

definition is_token_expired :: "'w token_env \<Rightarrow> string \<Rightarrow> token_manager \<Rightarrow> 'w \<Rightarrow> bool \<times> 'w" where
  "is_token_expired env token tm w =
     (case smap_find (dt_active_tokens tm) token of
        None \<Rightarrow> (smap_find (dt_expired_tokens tm) token \<noteq> None, w)
      | Some info \<Rightarrow> (let (now, w1) = te_clock env w in (now > ti_expires_at info, w1)))"

definition get_token_info :: "string \<Rightarrow> token_manager \<Rightarrow> token_info option" where
  "get_token_info token tm =
     (case smap_find (dt_active_tokens tm) token of
        Some info \<Rightarrow> Some info
      | None \<Rightarrow> smap_find (dt_expired_tokens tm) token)"

definition get_active_tokens :: "token_manager \<Rightarrow> string list" where
  "get_active_tokens tm = smap_keys (dt_active_tokens tm)"

definition get_expired_tokens :: "token_manager \<Rightarrow> string list" where
  "get_expired_tokens tm = smap_keys (dt_expired_tokens tm)"

definition get_active_token_count :: "token_manager \<Rightarrow> int" where
  "get_active_token_count tm = int (length (dt_active_tokens tm))"

definition get_expired_token_count :: "token_manager \<Rightarrow> int" where
  "get_expired_token_count tm = int (length (dt_expired_tokens tm))"

definition get_total_token_count :: "token_manager \<Rightarrow> int" where
  "get_total_token_count tm = int (length (dt_active_tokens tm) + length (dt_expired_tokens tm))"

text \<open>\<^verbatim>\<open>cleanupExpiredTokens\<close>: its two loops, which share one clock reading.\<close>

definition token_due :: "time \<Rightarrow> token_info \<Rightarrow> bool" where
  "token_due now info \<longleftrightarrow> now > ti_expires_at info"

definition move_expired_tokens :: "time \<Rightarrow> token_manager \<Rightarrow> token_manager" where
  "move_expired_tokens now tm =
     (let (act, ex) = move_due (token_due now) id (dt_active_tokens tm) (dt_expired_tokens tm)
      in tm\<lparr>dt_active_tokens := act, dt_expired_tokens := ex\<rparr>)"

definition drop_old_tokens :: "time \<Rightarrow> token_manager \<Rightarrow> token_manager" where
  "drop_old_tokens now tm =
     tm\<lparr>dt_expired_tokens := filter (\<lambda>(token, info). \<not> now - ti_expires_at info > milliseconds (tk_cleanup_interval (dt_config tm)))
          (dt_expired_tokens tm)\<rparr>"

definition cleanup_expired_tokens :: "'w token_env \<Rightarrow> token_manager \<Rightarrow> 'w \<Rightarrow> token_manager \<times> 'w" where
  "cleanup_expired_tokens env tm w = (let (now, w1) = te_clock env w in (drop_old_tokens now (move_expired_tokens now tm), w1))"

definition clear_all_tokens :: "token_manager \<Rightarrow> token_manager" where
  "clear_all_tokens tm = tm\<lparr>dt_active_tokens := [], dt_expired_tokens := []\<rparr>"

definition update_token_config :: "token_config \<Rightarrow> token_manager \<Rightarrow> token_manager" where
  "update_token_config config tm = tm\<lparr>dt_config := config\<rparr>"

definition get_token_config :: "token_manager \<Rightarrow> token_config" where
  "get_token_config tm = dt_config tm"

definition token_health_status :: "token_manager \<Rightarrow> (string, string) smap" where
  "token_health_status tm =
     smap_update ''token_lifetime'' (to_string (tk_token_lifetime (dt_config tm)))
       (smap_update ''total_tokens'' (to_string (get_total_token_count tm))
         (smap_update ''expired_tokens'' (to_string (get_expired_token_count tm))
           (smap_update ''active_tokens'' (to_string (get_active_token_count tm)) [])))"

section \<open>The machine and its history\<close>

text \<open>A state is the manager, the world and the history of what was issued: the node and the deadline of a token. A successful
  \<^verbatim>\<open>refreshToken\<close> issues the token again for the same node. \<open>cs\<close> are the configurations in use.\<close>

type_synonym token_history = "(string, string \<times> time) store_event list"

definition renewed :: "string \<Rightarrow> time \<Rightarrow> token_history \<Rightarrow> token_history" where
  "renewed token deadline h = (case last_put h token of None \<Rightarrow> h | Some (node, d) \<Rightarrow> Put token (node, deadline) # h)"

definition salted :: "'w token_env \<Rightarrow> 'w \<Rightarrow> 'w" where
  "salted env w = snd (generate_random_salt env (snd (te_time env w)))"

definition steady_env :: "'w token_env \<Rightarrow> bool" where
  "steady_env env \<longleftrightarrow> mono_clock (te_clock env) \<and> (\<forall>w. later (te_clock env) w (snd (te_time env w)) \<and> later (te_clock env) w (snd (te_random env w)))"

inductive token_step ::
  "'w token_env \<Rightarrow> token_config set \<Rightarrow> token_manager \<times> 'w \<times> token_history \<Rightarrow> token_manager \<times> 'w \<times> token_history \<Rightarrow> bool"
  for env :: "'w token_env" and cs :: "token_config set" where
  generate: "generate_token env node tx tm w = (token, tm', w') \<Longrightarrow>
    token_step env cs (tm, w, h)
      (tm', w', Put token (node, fst (te_clock env (salted env w)) + milliseconds (tk_token_lifetime (dt_config tm))) # h)"
| validate: "validate_token env token node tm w = (r, tm', w') \<Longrightarrow> token_step env cs (tm, w, h) (tm', w', h)"
| refresh: "refresh_token env token tm w = (True, tm', w') \<Longrightarrow>
    token_step env cs (tm, w, h) (tm', w', renewed token (fst (te_clock env w) + milliseconds (tk_token_lifetime (dt_config tm))) h)"
| query: "is_token_expired env token tm w = (r, w') \<Longrightarrow> token_step env cs (tm, w, h) (tm, w', h)"
| cleanup: "cleanup_expired_tokens env tm w = (tm', w') \<Longrightarrow> token_step env cs (tm, w, h) (tm', w', h)"
| clear: "token_step env cs (tm, w, h) (clear_all_tokens tm, w, Drop_all # h)"
| config: "c \<in> cs \<Longrightarrow> token_step env cs (tm, w, h) (update_token_config c tm, w, h)"
| tick: "later (te_clock env) w w' \<Longrightarrow> token_step env cs (tm, w, h) (tm, w', h)"

inductive_cases token_stepE: "token_step env cs (tm, w, h) s"

definition token_init :: "token_config set \<Rightarrow> token_manager \<times> 'w \<times> token_history \<Rightarrow> bool" where
  "token_init cs s \<longleftrightarrow> (\<exists>c \<in> cs. \<exists>w. s = (new_token_manager c, w, []))"

section \<open>The invariant\<close>

abbreviation issued :: "token_info \<Rightarrow> string \<times> time" where
  "issued info \<equiv> (ti_node_id info, ti_expires_at info)"

definition active_issues :: "token_manager \<Rightarrow> string \<Rightarrow> (string \<times> time) option" where
  "active_issues tm token = map_option issued (smap_find (dt_active_tokens tm) token)"

definition token_maps_ok :: "token_manager \<Rightarrow> bool" where
  "token_maps_ok tm \<longleftrightarrow> smap_ok (dt_active_tokens tm) \<and> smap_ok (dt_expired_tokens tm)"

text \<open>A token of the history is the HMAC of data that begins with the node's id, under a key in use.\<close>

definition genuine :: "'w token_env \<Rightarrow> token_config set \<Rightarrow> string \<Rightarrow> string \<Rightarrow> bool" where
  "genuine env cs token node \<longleftrightarrow> (\<exists>c \<in> cs. \<exists>tx t salt. token = create_hmac_token env c (node @ tx @ to_string t) salt)"

definition token_inv :: "'w token_env \<Rightarrow> token_config set \<Rightarrow> token_manager \<times> 'w \<times> token_history \<Rightarrow> bool" where
  "token_inv env cs = (\<lambda>(tm, w, h). token_maps_ok tm \<and> dt_config tm \<in> cs
     \<and> follows (\<lambda>(node, d). d < fst (te_clock env w)) (active_issues tm) h
     \<and> (\<forall>token node d. Put token (node, d) \<in> set h \<longrightarrow> genuine env cs token node))"

lemma later_salt: "\<forall>w. later clk w (snd (rng w)) \<Longrightarrow> later clk w (snd (salt_bytes rng n w))"
  by (induction n arbitrary: w) (auto simp: case_prod_beta intro: later_trans)

lemma later_salted: "steady_env env \<Longrightarrow> later (te_clock env) w (salted env w)"
  unfolding salted_def generate_random_salt_def steady_env_def by (meson later_salt later_trans)

lemma token_inv_later:
  assumes "token_inv env cs (tm, w, h)" "steady_env env" "later (te_clock env) w w'"
  shows "token_inv env cs (tm, w', h)"
proof -
  have "fst (te_clock env w) \<le> fst (te_clock env w')" using assms(2,3) by (simp add: steady_env_def later_def)
  with assms(1) show ?thesis
    unfolding token_inv_def by (fastforce elim!: follows_forget)
qed

lemma active_issues_update [simp]: "active_issues (tm\<lparr>dt_active_tokens := smap_update k i (dt_active_tokens tm)\<rparr>) = (active_issues tm)(k \<mapsto> issued i)"
  by (simp add: active_issues_def fun_eq_iff)

lemma active_issues_frame [simp]:
  "active_issues (tm\<lparr>dt_expired_tokens := ex\<rparr>) = active_issues tm" "active_issues (tm\<lparr>dt_config := c\<rparr>) = active_issues tm"
  by (simp_all add: active_issues_def fun_eq_iff)

interpretation tokens: expiring_store "\<lambda>tm. smap_find (dt_active_tokens tm)" "\<lambda>tm. smap_find (dt_expired_tokens tm)" token_due id
  move_expired_tokens token_maps_ok
  by unfold_locales
    (auto simp: move_expired_tokens_def token_maps_ok_def case_prod_beta find_active_move find_expired_move smap_ok_move token_due_def)


lemma generate_later: "steady_env env \<Longrightarrow> generate_token env node tx tm w = (token, tm', w') \<Longrightarrow> later (te_clock env) w w'"
  using later_salted [of env w]
  by (auto simp: generate_token_def case_prod_beta salted_def Let_def intro: later_trans)

lemma token_inv_generate:
  assumes "token_inv env cs (tm, w, h)" "generate_token env node tx tm w = (token, tm', w')"
  shows "token_inv env cs (tm', w, Put token (node, fst (te_clock env (salted env w)) + milliseconds (tk_token_lifetime (dt_config tm))) # h)"
proof -
  have "genuine env cs token node"
    using assms by (auto simp: genuine_def token_inv_def generate_token_def case_prod_beta Let_def)
  with assms show ?thesis
    by (auto simp: token_inv_def generate_token_def case_prod_beta Let_def token_maps_ok_def salted_def intro!: follows_Put)
qed

lemma token_inv_forget:
  assumes "token_inv env cs (tm, w, h)" "token_maps_ok tm'" "dt_config tm' = dt_config tm"
    and "\<And>k v. active_issues tm' k = Some v \<Longrightarrow> active_issues tm k = Some v"
    and "\<And>k node d. active_issues tm k = Some (node, d) \<Longrightarrow> active_issues tm' k = None \<Longrightarrow> d < fst (te_clock env w)"
  shows "token_inv env cs (tm', w, h)"
  using assms unfolding token_inv_def by (auto elim!: follows_forget)

lemma validate_later: "steady_env env \<Longrightarrow> validate_token env token node tm w = (r, tm', w') \<Longrightarrow> later (te_clock env) w w'"
  by (auto simp: validate_token_def case_prod_beta split: option.splits if_splits)

lemma token_inv_validate:
  assumes inv: "token_inv env cs (tm, w, h)" and "validate_token env token node tm w = (r, tm', w')"
  shows "token_inv env cs (tm', w, h)"
  by (rule token_inv_forget [OF inv])
    (use assms in \<open>auto simp: validate_token_def case_prod_beta token_inv_def token_maps_ok_def active_issues_def split: option.splits if_splits\<close>)

lemma token_inv_refresh:
  assumes inv: "token_inv env cs (tm, w, h)" and r: "refresh_token env token tm w = (True, tm', w')"
  shows "token_inv env cs (tm', w, renewed token (fst (te_clock env w) + milliseconds (tk_token_lifetime (dt_config tm))) h)"
proof -
  obtain i where i: "smap_find (dt_active_tokens tm) token = Some i"
    using r by (auto simp: refresh_token_def split: option.splits)
  then have "last_put h token = Some (issued i)"
    using inv by (auto simp: token_inv_def follows_def active_issues_def dest: spec [of _ token])
  moreover from this have "genuine env cs token (ti_node_id i)"
    using inv by (auto simp: token_inv_def dest: last_put_origin)
  ultimately show ?thesis
    using inv r i
    by (auto simp: token_inv_def refresh_token_def case_prod_beta renewed_def token_maps_ok_def intro!: follows_Put)
qed

lemma token_inv_cleanup:
  assumes inv: "token_inv env cs (tm, w, h)" and "cleanup_expired_tokens env tm w = (tm', w')"
  shows "token_inv env cs (tm', w, h)"
proof -
  let ?m = "move_expired_tokens (fst (te_clock env w)) tm"
  have ok: "token_maps_ok tm" using inv by (simp add: token_inv_def)
  have tm': "tm' = drop_old_tokens (fst (te_clock env w)) ?m" using assms(2) by (auto simp: cleanup_expired_tokens_def case_prod_beta)
  have "token_maps_ok tm'" "dt_config tm' = dt_config tm"
    using tokens.ok_expire [OF ok] by (auto simp: tm' drop_old_tokens_def token_maps_ok_def move_expired_tokens_def case_prod_beta)
  then show ?thesis
    by (rule token_inv_forget [OF inv])
      (use tokens.active_expire [OF ok] in
        \<open>auto simp: tm' drop_old_tokens_def active_issues_def moved_from_def token_due_def split: option.splits if_splits\<close>)
qed

lemma token_inv_step:
  assumes env: "steady_env env" and inv: "token_inv env cs s" and step: "token_step env cs s t"
  shows "token_inv env cs t"
  using step inv
proof cases
  case (generate node tx tm w token tm' w' h)
  with env inv show ?thesis by (metis token_inv_generate token_inv_later generate_later)
next
  case (validate token node tm w r tm' w' h)
  with env inv show ?thesis by (metis token_inv_validate token_inv_later validate_later)
next
  case (refresh token tm w tm' w' h)
  then have "later (te_clock env) w w'"
    by (auto simp: refresh_token_def case_prod_beta split: option.splits)
  with refresh env inv show ?thesis by (metis token_inv_refresh token_inv_later)
next
  case (query token tm w r w' h)
  then have "later (te_clock env) w w'" by (auto simp: is_token_expired_def case_prod_beta split: option.splits)
  with query env inv show ?thesis by (metis token_inv_later)
next
  case (cleanup tm w tm' w' h)
  then have "later (te_clock env) w w'" by (auto simp: cleanup_expired_tokens_def case_prod_beta)
  with cleanup env inv show ?thesis by (metis token_inv_cleanup token_inv_later)
next
  case (clear tm w h)
  with inv show ?thesis by (auto simp: token_inv_def clear_all_tokens_def token_maps_ok_def active_issues_def follows_def)
next
  case (config c tm w h)
  with inv show ?thesis by (auto simp: token_inv_def update_token_config_def token_maps_ok_def)
next
  case (tick w w' tm h)
  with env inv show ?thesis by (metis token_inv_later)
qed

lemma token_inv_init: "token_init cs s \<Longrightarrow> token_inv env cs s"
  by (auto simp: token_init_def token_inv_def new_token_manager_def token_maps_ok_def follows_def active_issues_def)

text \<open>The invariant of the machine, for the environments whose clock is steady.\<close>

interpretation token_system: invariant_system "token_init cs" "token_step env cs" "\<lambda>s. steady_env env \<longrightarrow> token_inv env cs s"
  by unfold_locales (auto intro: token_inv_init token_inv_step)

section \<open>Properties\<close>

text \<open>What \<^verbatim>\<open>validateToken\<close> returns.\<close>

lemma validate_result:
  "fst (validate_token env token node tm w)
     \<longleftrightarrow> (\<exists>v. active_issues tm token = Some v \<and> \<not> (case v of (n, d) \<Rightarrow> d < fst (te_clock env w)) \<and> fst v = node)"
  by (auto simp: validate_token_def active_issues_def case_prod_beta split: option.splits)

text \<open>C27: Token validation refines the history of what was issued. In every state that the token manager can reach, with a clock that does
  not run backwards, \<^verbatim>\<open>validateToken\<close> accepts a token for a node exactly when the last time this token was issued or refreshed since the
  last \<^verbatim>\<open>clearAllTokens\<close> it was for that node and the deadline set then has not passed, however often and whenever
  \<^verbatim>\<open>cleanupExpiredTokens\<close> and other validations ran in between; and every such token is the HMAC, under the key of a configuration in use, of data that
  begins with the node's id.\<close>

theorem token_validation_refines_history:
  assumes "steady_env env" "reachable (token_init cs) (token_step env cs) (tm, w, h)"
  shows "fst (validate_token env token node tm w) = (\<exists>d. last_put h token = Some (node, d) \<and> fst (te_clock env w) \<le> d)
    \<and> (fst (validate_token env token node tm w) \<longrightarrow> genuine env cs token node)"
proof -
  from assms have inv: "token_inv env cs (tm, w, h)" using token_system.inv_reachable by blast
  then have f: "follows (\<lambda>(n, d). d < fst (te_clock env w)) (active_issues tm) h" by (simp add: token_inv_def)
  have "fst (validate_token env token node tm w) = (\<exists>d. last_put h token = Some (node, d) \<and> fst (te_clock env w) \<le> d)"
    unfolding validate_result follows_fresh [OF f, of token "\<lambda>v. fst v = node"] by (auto simp: not_less)
  moreover have "last_put h token = Some (node, d) \<Longrightarrow> genuine env cs token node" for d
    using inv by (auto simp: token_inv_def dest: last_put_origin)
  ultimately show ?thesis by blast
qed

definition demo_token_env :: "demo_world token_env" where
  "demo_token_env = \<lparr>te_clock = demo_tick, te_time = (\<lambda>w. (dw_clock w div 1000000000, w)),
     te_random = (\<lambda>w. (7, w)), te_hmac = (\<lambda>key data. key @ data)\<rparr>"

definition demo_token_config :: token_config where
  "demo_token_config = \<lparr>tk_secret_key = ''k'', tk_token_lifetime = 600000, tk_cleanup_interval = 60000\<rparr>"

definition demo_issue :: "string \<times> token_manager \<times> demo_world" where
  "demo_issue = generate_token demo_token_env ''node'' ''tx'' (new_token_manager demo_token_config) demo_start"

lemma salt_bytes_world: "(\<And>w. snd (rng w) = w) \<Longrightarrow> snd (salt_bytes rng n w) = w"
  by (induction n arbitrary: w) (simp_all add: case_prod_beta)

lemma demo_issue_state:
  "demo_issue = (fst demo_issue, fst (snd demo_issue), snd (snd demo_issue))
   \<and> fst (te_clock demo_token_env (salted demo_token_env demo_start)) = 0 \<and> fst (te_clock demo_token_env (snd (snd demo_issue))) = 1000000000"
  by (simp add: demo_issue_def demo_token_env_def salted_def generate_random_salt_def generate_token_def demo_tick_def demo_lt_def demo_start_def
      case_prod_beta Let_def salt_bytes_world)

theorem token_validation_refines_history_witness:
  "fst (validate_token demo_token_env (fst demo_issue) ''node'' (fst (snd demo_issue)) (snd (snd demo_issue)))
   \<and> \<not> fst (validate_token demo_token_env (fst demo_issue) ''other'' (fst (snd demo_issue)) (snd (snd demo_issue)))
   \<and> genuine demo_token_env {demo_token_config} (fst demo_issue) ''node''"
proof -
  have env: "steady_env demo_token_env"
    using demo_tick_mono by (simp add: steady_env_def demo_token_env_def)
  let ?h = "[Put (fst demo_issue) (''node'', fst (te_clock demo_token_env (salted demo_token_env demo_start))
    + milliseconds (tk_token_lifetime demo_token_config))] :: token_history"
  have "generate_token demo_token_env ''node'' ''tx'' (new_token_manager demo_token_config) demo_start
      = (fst demo_issue, fst (snd demo_issue), snd (snd demo_issue))" by (simp add: demo_issue_def)
  from token_step.generate [OF this, of "{demo_token_config}" "[]"]
  have "reachable (token_init {demo_token_config}) (token_step demo_token_env {demo_token_config})
      (fst (snd demo_issue), snd (snd demo_issue), ?h)"
    by (intro reachable.move [OF reachable.start]) (auto simp: token_init_def new_token_manager_def)
  note th = token_validation_refines_history [OF env this]
  have "fst (validate_token demo_token_env (fst demo_issue) ''node'' (fst (snd demo_issue)) (snd (snd demo_issue)))"
    "\<not> fst (validate_token demo_token_env (fst demo_issue) ''other'' (fst (snd demo_issue)) (snd (snd demo_issue)))"
    using th [of "fst demo_issue"] demo_issue_state by (simp_all add: demo_token_config_def milliseconds_def)
  with th [of "fst demo_issue" "''node''"] show ?thesis by blast
qed

text \<open>The salt does not enter the token, and the data is a plain concatenation: two requests of the same second whose node and transaction
  ids concatenate to the same text get the same token, and the second takes it away from the first node.\<close>

lemma colliding_tokens:
  assumes g1: "generate_token env n1 t1 tm w = (token1, tm1, w1)" and g2: "generate_token env n2 t2 tm1 w1 = (token2, tm2, w2)"
    and "n1 @ t1 = n2 @ t2" "n1 \<noteq> n2" "fst (te_time env w) = fst (te_time env w1)"
  shows "token1 = token2 \<and> \<not> fst (validate_token env token1 n1 tm2 w2)"
proof -
  have "dt_config tm1 = dt_config tm" using g1 by (auto simp: generate_token_def case_prod_beta Let_def)
  with assms have eq: "token1 = token2"
    by (auto simp: generate_token_def case_prod_beta Let_def create_hmac_token_def simp flip: append_assoc)
  have "\<exists>d. active_issues tm2 token2 = Some (n2, d)"
    using g2 by (auto simp: generate_token_def case_prod_beta Let_def active_issues_def)
  with eq assms(4) show ?thesis by (auto simp: validate_result)
qed

text \<open>\<^verbatim>\<open>refreshToken\<close> does not look at the deadline: a token that has expired is accepted again after it, unless something has moved it to
  the expired tokens in between.\<close>

lemma refresh_revives:
  assumes "active_issues tm token = Some (node, d)" "d < fst (te_clock env w)" "refresh_token env token tm w = (r, tm', w')"
    and "fst (te_clock env w') \<le> fst (te_clock env w) + milliseconds (tk_token_lifetime (dt_config tm))"
  shows "\<not> fst (validate_token env token node tm w) \<and> r \<and> fst (validate_token env token node tm' w')"
  using assms unfolding validate_result
  by (auto simp: refresh_token_def active_issues_def case_prod_beta split: option.splits)

end
