(* ===== verification/Timeout_Manager.thy ===== *)
theory Timeout_Manager
  imports Expiring_Store State_Machine Monitor_Thread
begin

text \<open>
  \<^verbatim>\<open>TimeoutManager\<close> as \<^verbatim>\<open>timeout_manager.cpp\<close> defines it: timeouts with a callback, and the thread that fires them. The header declares other members, so
  that the two files do not compile together; the state has the members that the source file uses. A callback is a function of
  the caller, which acts on the world and may throw; it runs under \<^verbatim>\<open>timeouts_mutex_\<close> and must not call the manager. An exception of a
  callback leaves the function of the thread, which ends the process (\<^verbatim>\<open>std::terminate\<close>).
\<close>

section \<open>Definitions\<close>

datatype timeout_status = TO_ACTIVE | TO_CANCELLED

type_synonym 'w timeout_callback = "string \<Rightarrow> 'w \<Rightarrow> exn option \<times> 'w"

record 'w timeout_info =
  tio_id :: string
  tio_duration :: int
  tio_expires_at :: time
  tio_callback :: "'w timeout_callback option"
  tio_created_at :: time
  tio_status :: timeout_status

record 'w timeout_manager =
  tmo_cleanup_interval :: int  \<comment> \<open>\<^verbatim>\<open>config_.cleanup_interval\<close>, in milliseconds\<close>
  tmo_active :: "(string, 'w timeout_info) smap"
  tmo_expired :: "(string, 'w timeout_info) smap"

definition new_timeout_manager :: "int \<Rightarrow> 'w timeout_manager" where
  "new_timeout_manager interval = \<lparr>tmo_cleanup_interval = interval, tmo_active = [], tmo_expired = []\<rparr>"

definition timeout_due :: "time \<Rightarrow> 'w timeout_info \<Rightarrow> bool" where
  "timeout_due now info \<longleftrightarrow> now \<ge> tio_expires_at info"

definition call_back :: "string \<Rightarrow> 'w timeout_info \<Rightarrow> 'w \<Rightarrow> exn option \<times> 'w" where
  "call_back k info w = (case tio_callback info of None \<Rightarrow> (None, w) | Some f \<Rightarrow> f k w)"

text \<open>The loop of \<^verbatim>\<open>checkExpiredTimeouts\<close>. An exception leaves it with the entry still active.\<close>

fun fire_due :: "time \<Rightarrow> (string, 'w timeout_info) smap \<Rightarrow> (string, 'w timeout_info) smap \<Rightarrow> 'w
    \<Rightarrow> exn option \<times> (string, 'w timeout_info) smap \<times> (string, 'w timeout_info) smap \<times> 'w" where
  "fire_due now [] expired w = (None, [], expired, w)"
| "fire_due now ((k, info) # active) expired w =
     (if now \<ge> tio_expires_at info then
        (case call_back k info w of
           (Some e, w1) \<Rightarrow> (Some e, (k, info) # active, expired, w1)
         | (None, w1) \<Rightarrow> fire_due now active (smap_update k info expired) w1)
      else
        (let (r, active', expired', w') = fire_due now active expired w in (r, (k, info) # active', expired', w')))"

definition check_expired_timeouts :: "'w clock \<Rightarrow> 'w timeout_manager \<Rightarrow> 'w \<Rightarrow> exn option \<times> 'w timeout_manager \<times> 'w" where
  "check_expired_timeouts clk tm w =
     (let (now, w1) = clk w; (r, act, ex, w2) = fire_due now (tmo_active tm) (tmo_expired tm) w1
      in (r, tm\<lparr>tmo_active := act, tmo_expired := ex\<rparr>, w2))"

definition cleanup_expired_timeouts :: "'w clock \<Rightarrow> 'w timeout_manager \<Rightarrow> 'w \<Rightarrow> 'w timeout_manager \<times> 'w" where
  "cleanup_expired_timeouts clk tm w =
     (let (now, w1) = clk w
      in (tm\<lparr>tmo_expired := filter (\<lambda>(k, info). \<not> now - tio_expires_at info > milliseconds (tmo_cleanup_interval tm)) (tmo_expired tm)\<rparr>, w1))"

definition start_timeout :: "'w clock \<Rightarrow> string \<Rightarrow> int \<Rightarrow> 'w timeout_callback option \<Rightarrow> 'w timeout_manager \<Rightarrow> 'w
    \<Rightarrow> string \<times> 'w timeout_manager \<times> 'w" where
  "start_timeout clk timeout_id duration callback tm w =
     (let (now, w1) = clk w;
          info = \<lparr>tio_id = timeout_id, tio_duration = duration, tio_expires_at = now + milliseconds duration, tio_callback = callback,
            tio_created_at = now, tio_status = TO_ACTIVE\<rparr>
      in (timeout_id, tm\<lparr>tmo_active := smap_update timeout_id info (tmo_active tm)\<rparr>, w1))"

definition stop_timeout :: "string \<Rightarrow> 'w timeout_manager \<Rightarrow> bool \<times> 'w timeout_manager" where
  "stop_timeout timeout_id tm =
     (case smap_find (tmo_active tm) timeout_id of
        Some info \<Rightarrow> (True, tm\<lparr>tmo_active := smap_erase timeout_id (smap_update timeout_id (info\<lparr>tio_status := TO_CANCELLED\<rparr>) (tmo_active tm))\<rparr>)
      | None \<Rightarrow> (False, tm))"

definition check_timeout :: "'w clock \<Rightarrow> string \<Rightarrow> 'w timeout_manager \<Rightarrow> 'w \<Rightarrow> bool \<times> 'w" where
  "check_timeout clk timeout_id tm w =
     (case smap_find (tmo_active tm) timeout_id of
        Some info \<Rightarrow> (let (now, w1) = clk w in (now \<ge> tio_expires_at info, w1))
      | None \<Rightarrow> (False, w))"

definition reset_timeout :: "'w clock \<Rightarrow> string \<Rightarrow> int \<Rightarrow> 'w timeout_manager \<Rightarrow> 'w \<Rightarrow> bool \<times> 'w timeout_manager \<times> 'w" where
  "reset_timeout clk timeout_id new_duration tm w =
     (case smap_find (tmo_active tm) timeout_id of
        Some info \<Rightarrow>
          (let (now, w1) = clk w;
               info1 = info\<lparr>tio_duration := new_duration, tio_expires_at := now + milliseconds new_duration\<rparr>
           in (True, tm\<lparr>tmo_active := smap_update timeout_id info1 (tmo_active tm)\<rparr>, w1))
      | None \<Rightarrow> (False, tm, w))"

text \<open>\<^verbatim>\<open>duration_cast<milliseconds>\<close> truncates towards zero.\<close>

definition get_remaining_time :: "'w clock \<Rightarrow> string \<Rightarrow> 'w timeout_manager \<Rightarrow> 'w \<Rightarrow> int \<times> 'w" where
  "get_remaining_time clk timeout_id tm w =
     (case smap_find (tmo_active tm) timeout_id of
        Some info \<Rightarrow> (let (now, w1) = clk w in (int_div (tio_expires_at info - now) 1000000, w1))
      | None \<Rightarrow> (0, w))"

definition is_timed_out :: "'w clock \<Rightarrow> string \<Rightarrow> 'w timeout_manager \<Rightarrow> 'w \<Rightarrow> bool \<times> 'w" where
  "is_timed_out clk timeout_id tm w =
     (case smap_find (tmo_active tm) timeout_id of
        Some info \<Rightarrow> (let (now, w1) = clk w in (now \<ge> tio_expires_at info, w1))
      | None \<Rightarrow> (False, w))"

definition get_timeout_info :: "string \<Rightarrow> 'w timeout_manager \<Rightarrow> 'w timeout_info option" where
  "get_timeout_info timeout_id tm =
     (case smap_find (tmo_active tm) timeout_id of
        Some info \<Rightarrow> Some info
      | None \<Rightarrow> smap_find (tmo_expired tm) timeout_id)"

definition get_active_timeout_ids :: "'w timeout_manager \<Rightarrow> string list" where
  "get_active_timeout_ids tm = smap_keys (tmo_active tm)"

definition get_expired_timeout_ids :: "'w timeout_manager \<Rightarrow> string list" where
  "get_expired_timeout_ids tm = smap_keys (tmo_expired tm)"

definition get_active_timeout_count :: "'w timeout_manager \<Rightarrow> int" where
  "get_active_timeout_count tm = int (length (tmo_active tm))"

definition get_expired_timeout_count :: "'w timeout_manager \<Rightarrow> int" where
  "get_expired_timeout_count tm = int (length (tmo_expired tm))"

definition get_total_timeout_count :: "'w timeout_manager \<Rightarrow> int" where
  "get_total_timeout_count tm = int (length (tmo_active tm) + length (tmo_expired tm))"

definition clear_expired_timeouts :: "'w timeout_manager \<Rightarrow> 'w timeout_manager" where
  "clear_expired_timeouts tm = tm\<lparr>tmo_expired := []\<rparr>"

definition clear_all_timeouts :: "'w timeout_manager \<Rightarrow> 'w timeout_manager" where
  "clear_all_timeouts tm = tm\<lparr>tmo_active := [], tmo_expired := []\<rparr>"

definition update_timeout_config :: "int \<Rightarrow> 'w timeout_manager \<Rightarrow> 'w timeout_manager" where
  "update_timeout_config interval tm = tm\<lparr>tmo_cleanup_interval := interval\<rparr>"

text \<open>The manager with its thread. A pass of the thread ends the process when a callback throws (\<open>None\<close>).\<close>

record 'w timeout_service =
  tsv_manager :: "'w timeout_manager"
  tsv_thread :: monitor

definition timeout_start :: "'w timeout_service \<Rightarrow> 'w timeout_service" where
  "timeout_start s = s\<lparr>tsv_thread := monitor_start (tsv_thread s)\<rparr>"

definition timeout_stop :: "'w timeout_service \<Rightarrow> 'w timeout_service" where
  "timeout_stop s = s\<lparr>tsv_thread := monitor_stop (tsv_thread s)\<rparr>"

definition timeout_is_running :: "'w timeout_service \<Rightarrow> bool" where
  "timeout_is_running s \<longleftrightarrow> monitor_is_running (tsv_thread s)"

definition timeout_monitor_pass :: "'w clock \<Rightarrow> 'w timeout_service \<Rightarrow> 'w \<Rightarrow> 'w timeout_service option \<times> 'w" where
  "timeout_monitor_pass clk s w =
     (let thread = monitor_wake (tsv_thread s)
      in if mn_should_stop (tsv_thread s) then (Some (s\<lparr>tsv_thread := thread\<rparr>), w)
         else case check_expired_timeouts clk (tsv_manager s) w of
           (Some e, tm, w1) \<Rightarrow> (None, w1)
         | (None, tm, w1) \<Rightarrow>
             (let (tm', w2) = cleanup_expired_timeouts clk tm w1 in (Some (s\<lparr>tsv_manager := tm', tsv_thread := thread\<rparr>), w2)))"

definition timeout_health_status :: "'w timeout_service \<Rightarrow> (string, string) smap" where
  "timeout_health_status s =
     smap_update ''is_running'' (if timeout_is_running s then ''true'' else ''false'')
       (smap_update ''total_timeouts'' (to_string (get_total_timeout_count (tsv_manager s)))
         (smap_update ''expired_timeouts'' (to_string (get_expired_timeout_count (tsv_manager s)))
           (smap_update ''active_timeouts'' (to_string (get_active_timeout_count (tsv_manager s))) [])))"

section \<open>What a pass does\<close>

text \<open>The callbacks of a list of entries, one after the other, when none throws.\<close>

fun run_callbacks :: "(string \<times> 'w timeout_info) list \<Rightarrow> 'w \<Rightarrow> exn option \<times> 'w" where
  "run_callbacks [] w = (None, w)"
| "run_callbacks ((k, info) # rest) w =
     (case call_back k info w of (Some e, w1) \<Rightarrow> (Some e, w1) | (None, w1) \<Rightarrow> run_callbacks rest w1)"

definition due_timeouts :: "time \<Rightarrow> 'w timeout_manager \<Rightarrow> (string \<times> 'w timeout_info) list" where
  "due_timeouts now tm = filter (\<lambda>p. timeout_due now (snd p)) (tmo_active tm)"

lemma fire_due_callbacks:
  "fst (fire_due now act ex w) = fst (run_callbacks (filter (\<lambda>p. timeout_due now (snd p)) act) w)
   \<and> snd (snd (snd (fire_due now act ex w))) = snd (run_callbacks (filter (\<lambda>p. timeout_due now (snd p)) act) w)"
proof (induction act arbitrary: ex w)
  case (Cons p act)
  obtain k info where p: "p = (k, info)" by (cases p)
  obtain r w1 where c: "call_back k info w = (r, w1)" by (cases "call_back k info w")
  show ?case using Cons.IH by (cases r) (auto simp: p c timeout_due_def case_prod_beta)
qed simp

lemma fire_due_maps:
  "fst (fire_due now act ex w) = None \<Longrightarrow>
   fst (snd (fire_due now act ex w)) = fst (move_due (timeout_due now) id act ex)
   \<and> fst (snd (snd (fire_due now act ex w))) = snd (move_due (timeout_due now) id act ex)"
proof (induction act arbitrary: ex w)
  case (Cons p act)
  obtain k info where p: "p = (k, info)" by (cases p)
  obtain r w1 where c: "call_back k info w = (r, w1)" by (cases "call_back k info w")
  show ?case
  proof (cases "now \<ge> tio_expires_at info")
    case True
    with Cons.prems Cons.IH [of "smap_update k info ex" w1] show ?thesis
      by (cases r) (auto simp: p c timeout_due_def)
  next
    case False
    with Cons.prems Cons.IH [of ex w] show ?thesis
      by (simp add: p timeout_due_def case_prod_beta)
  qed
qed simp

definition expire_timeouts_at :: "time \<Rightarrow> 'w timeout_manager \<Rightarrow> 'w timeout_manager" where
  "expire_timeouts_at now tm =
     (let (act, ex) = move_due (timeout_due now) id (tmo_active tm) (tmo_expired tm) in tm\<lparr>tmo_active := act, tmo_expired := ex\<rparr>)"

lemma check_expired_timeouts_exact:
  assumes "check_expired_timeouts clk tm w = (r, tm', w')"
  shows "(r, w') = run_callbacks (due_timeouts (fst (clk w)) tm) (snd (clk w))"
    and "r = None \<Longrightarrow> tm' = expire_timeouts_at (fst (clk w)) tm"
proof -
  let ?f = "fire_due (fst (clk w)) (tmo_active tm) (tmo_expired tm) (snd (clk w))"
  have eq: "r = fst ?f" "tm' = tm\<lparr>tmo_active := fst (snd ?f), tmo_expired := fst (snd (snd ?f))\<rparr>" "w' = snd (snd (snd ?f))"
    using assms by (auto simp: check_expired_timeouts_def case_prod_beta)
  then show "(r, w') = run_callbacks (due_timeouts (fst (clk w)) tm) (snd (clk w))"
    by (simp add: fire_due_callbacks due_timeouts_def prod_eq_iff)
  show "tm' = expire_timeouts_at (fst (clk w)) tm" if "r = None"
    using fire_due_maps [of "fst (clk w)" "tmo_active tm" "tmo_expired tm" "snd (clk w)"] that eq
    by (simp add: expire_timeouts_at_def case_prod_beta)
qed

definition timeout_maps_ok :: "'w timeout_manager \<Rightarrow> bool" where
  "timeout_maps_ok tm \<longleftrightarrow> smap_ok (tmo_active tm) \<and> smap_ok (tmo_expired tm)"

interpretation timeouts: expiring_store "\<lambda>tm. smap_find (tmo_active tm)" "\<lambda>tm. smap_find (tmo_expired tm)" timeout_due id
  expire_timeouts_at timeout_maps_ok
  by unfold_locales
    (auto simp: expire_timeouts_at_def timeout_maps_ok_def case_prod_beta find_active_move find_expired_move smap_ok_move timeout_due_def)


section \<open>The machine and its history\<close>

text \<open>The history of deadlines: \<^verbatim>\<open>startTimeout\<close> and \<^verbatim>\<open>resetTimeout\<close> set one, \<^verbatim>\<open>stopTimeout\<close> and the firing of the timeout drop it.\<close>

type_synonym timeout_history = "(string, time) store_event list"

inductive timeout_step ::
  "'w clock \<Rightarrow> 'w timeout_manager \<times> 'w \<times> timeout_history \<Rightarrow> 'w timeout_manager \<times> 'w \<times> timeout_history \<Rightarrow> bool"
  for clk :: "'w clock" where
  start: "start_timeout clk i duration callback tm w = (r, tm', w') \<Longrightarrow>
    timeout_step clk (tm, w, h) (tm', w', Put i (fst (clk w) + milliseconds duration) # h)"
| stop: "stop_timeout i tm = (r, tm') \<Longrightarrow> timeout_step clk (tm, w, h) (tm', w, Drop i # h)"
| reset: "reset_timeout clk i duration tm w = (True, tm', w') \<Longrightarrow>
    timeout_step clk (tm, w, h) (tm', w', Put i (fst (clk w) + milliseconds duration) # h)"
| check: "check_expired_timeouts clk tm w = (None, tm', w') \<Longrightarrow>
    timeout_step clk (tm, w, h) (tm', w', map (Drop \<circ> fst) (due_timeouts (fst (clk w)) tm) @ h)"
| cleanup: "cleanup_expired_timeouts clk tm w = (tm', w') \<Longrightarrow> timeout_step clk (tm, w, h) (tm', w', h)"
| clear_expired: "timeout_step clk (tm, w, h) (clear_expired_timeouts tm, w, h)"
| clear_all: "timeout_step clk (tm, w, h) (clear_all_timeouts tm, w, Drop_all # h)"
| config: "timeout_step clk (tm, w, h) (update_timeout_config interval tm, w, h)"
| tick: "timeout_step clk (tm, w, h) (tm, w', h)"

definition timeout_init :: "'w timeout_manager \<times> 'w \<times> timeout_history \<Rightarrow> bool" where
  "timeout_init s \<longleftrightarrow> (\<exists>interval w. s = (new_timeout_manager interval, w, []))"

definition timeout_inv :: "'w timeout_manager \<times> 'w \<times> timeout_history \<Rightarrow> bool" where
  "timeout_inv = (\<lambda>(tm, w, h). timeout_maps_ok tm \<and> (\<forall>i. map_option tio_expires_at (smap_find (tmo_active tm) i) = last_put h i))"

lemma last_put_drops: "last_put (map (Drop \<circ> fst) l @ h) k = (if k \<in> fst ` set l then None else last_put h k)"
  by (induction l) auto

lemma due_timeouts_iff:
  assumes "smap_ok (tmo_active tm)"
  shows "i \<in> fst ` set (due_timeouts t tm) \<longleftrightarrow> (\<exists>v. smap_find (tmo_active tm) i = Some v \<and> timeout_due t v)"
proof -
  have "set (due_timeouts t tm) = {(k, v). smap_find (tmo_active tm) k = Some v \<and> timeout_due t v}"
    using assms by (auto simp: due_timeouts_def smap_in_find)
  then show ?thesis by (auto simp: image_iff)
qed

lemma due_timeouts_set:
  assumes "timeout_inv (tm, w, h)"
  shows "set (map fst (due_timeouts t tm)) = {i. \<exists>d. last_put h i = Some d \<and> d \<le> t}"
proof -
  have ok: "smap_ok (tmo_active tm)" using assms by (simp add: timeout_inv_def timeout_maps_ok_def)
  have "last_put h i = map_option tio_expires_at (smap_find (tmo_active tm) i)" for i using assms by (simp add: timeout_inv_def)
  then show ?thesis by (simp add: set_eq_iff due_timeouts_iff [OF ok] timeout_due_def conj_commute) blast
qed

lemma due_timeouts_ids:
  assumes "timeout_inv (tm, w, h)"
  shows "map fst (due_timeouts t tm) = sorted_list_of_set {i. \<exists>d. last_put h i = Some d \<and> d \<le> t}"
proof -
  have ok: "smap_ok (tmo_active tm)" using assms by (simp add: timeout_inv_def timeout_maps_ok_def)
  have "sorted_wrt (<) (map fst (due_timeouts t tm))"
    using smap_ok_filter [OF ok] by (simp add: due_timeouts_def smap_ok_def)
  with due_timeouts_set [OF assms] show ?thesis
    by (metis sorted_list_of_set.idem_if_sorted_distinct strict_sorted_iff)
qed

lemma timeout_inv_check:
  assumes inv: "timeout_inv (tm, w, h)" and c: "check_expired_timeouts clk tm w = (None, tm', w')"
  shows "timeout_inv (tm', w', map (Drop \<circ> fst) (due_timeouts (fst (clk w)) tm) @ h)"
proof -
  have ok: "timeout_maps_ok tm" using inv by (simp add: timeout_inv_def)
  then have sok: "smap_ok (tmo_active tm)" by (simp add: timeout_maps_ok_def)
  have tm': "tm' = expire_timeouts_at (fst (clk w)) tm" using check_expired_timeouts_exact [OF c] by simp
  have lp: "last_put h i = map_option tio_expires_at (smap_find (tmo_active tm) i)" for i using inv by (simp add: timeout_inv_def)
  from timeouts.ok_expire [OF ok] timeouts.active_expire [OF ok] show ?thesis
    by (auto simp: timeout_inv_def tm' lp last_put_drops moved_from_def due_timeouts_iff [OF sok] split: option.splits)
qed

lemma timeout_inv_step:
  assumes "timeout_step clk s t" "timeout_inv s"
  shows "timeout_inv t"
  using assms
proof cases
  case (check tm w tm' w' h)
  with assms(2) timeout_inv_check [of tm w h clk tm' w'] show ?thesis by simp
next
  case (stop i tm r tm' w h)
  with assms(2) show ?thesis
    by (auto simp: timeout_inv_def stop_timeout_def timeout_maps_ok_def split: option.splits)
next
  case (reset i duration tm w tm' w' h)
  with assms(2) show ?thesis
    by (auto simp: timeout_inv_def reset_timeout_def timeout_maps_ok_def case_prod_beta split: option.splits)
qed (auto simp: timeout_inv_def timeout_maps_ok_def start_timeout_def cleanup_expired_timeouts_def clear_expired_timeouts_def
    clear_all_timeouts_def update_timeout_config_def case_prod_beta)

interpretation timeout_system: invariant_system timeout_init "timeout_step clk" timeout_inv
proof
  show "timeout_init s \<Longrightarrow> timeout_inv s" for s :: "'a timeout_manager \<times> 'a \<times> timeout_history"
    by (auto simp: timeout_init_def timeout_inv_def new_timeout_manager_def timeout_maps_ok_def)
qed (rule timeout_inv_step)

section \<open>Properties\<close>

text \<open>C29: Timeouts fire exactly when they are due. In every reachable state, a pass of the monitor thread in which no callback throws calls, in ascending order of
  the identifiers and each once, the callbacks of exactly those timeouts whose last deadline, set by \<^verbatim>\<open>startTimeout\<close> or \<^verbatim>\<open>resetTimeout\<close> and
  neither stopped, cleared nor fired since, has been reached; afterwards exactly the others are active, and \<^verbatim>\<open>isTimedOut\<close> is false of every
  timeout that fired.\<close>

theorem timeouts_fire_exactly:
  assumes "reachable timeout_init (timeout_step clk) (tm, w, h)" "check_expired_timeouts clk tm w = (None, tm', w')"
  shows "map fst (due_timeouts (fst (clk w)) tm) = sorted_list_of_set {i. \<exists>d. last_put h i = Some d \<and> d \<le> fst (clk w)}
    \<and> run_callbacks (due_timeouts (fst (clk w)) tm) (snd (clk w)) = (None, w')
    \<and> dom (smap_find (tmo_active tm')) = {i. \<exists>d. last_put h i = Some d \<and> \<not> d \<le> fst (clk w)}
    \<and> (\<forall>i. i \<in> set (map fst (due_timeouts (fst (clk w)) tm)) \<longrightarrow> \<not> fst (is_timed_out clk i tm' v))"
proof -
  have inv: "timeout_inv (tm, w, h)" using assms(1) by (rule timeout_system.inv_reachable)
  have ids: "set (map fst (due_timeouts (fst (clk w)) tm)) = {i. \<exists>d. last_put h i = Some d \<and> d \<le> fst (clk w)}"
    by (rule due_timeouts_set [OF inv])
  have "map_option tio_expires_at (smap_find (tmo_active tm') i)
      = (if i \<in> set (map fst (due_timeouts (fst (clk w)) tm)) then None else last_put h i)" for i
    using timeout_inv_check [OF inv assms(2)] by (simp add: timeout_inv_def last_put_drops)
  then have act: "smap_find (tmo_active tm') i = None \<longleftrightarrow> i \<in> set (map fst (due_timeouts (fst (clk w)) tm)) \<or> last_put h i = None" for i
    by (metis option.map_disc_iff)
  then have "dom (smap_find (tmo_active tm')) = {i. \<exists>d. last_put h i = Some d \<and> \<not> d \<le> fst (clk w)}"
    unfolding ids by (auto simp: dom_def)
  with act show ?thesis
    using due_timeouts_ids [OF inv] check_expired_timeouts_exact(1) [OF assms(2)]
    by (auto simp: is_timed_out_def split: option.splits)
qed

definition demo_callback :: "demo_world timeout_callback" where
  "demo_callback i w = (None, w\<lparr>dw_asked := i # dw_asked w\<rparr>)"

definition demo_timeout :: "demo_world timeout_manager \<times> demo_world" where
  "demo_timeout = snd (start_timeout demo_tick ''t'' 500 (Some demo_callback) (new_timeout_manager 60000) demo_start)"

lemma demo_timeout_check:
  "check_expired_timeouts demo_tick (fst demo_timeout) (snd demo_timeout)
     = (None, \<lparr>tmo_cleanup_interval = 60000, tmo_active = [], tmo_expired = tmo_active (fst demo_timeout)\<rparr>,
        \<lparr>dw_clock = 2000000000, dw_added = [], dw_asked = [''t'']\<rparr>)"
  by (simp add: check_expired_timeouts_def demo_timeout_def start_timeout_def new_timeout_manager_def demo_tick_def demo_lt_def demo_start_def
      milliseconds_def call_back_def demo_callback_def)

theorem timeouts_fire_exactly_witness:
  "map fst (due_timeouts (fst (demo_tick (snd demo_timeout))) (fst demo_timeout)) = [''t'']
   \<and> dom (smap_find (tmo_active (fst demo_timeout))) = {''t''}"
proof -
  let ?h = "[Put ''t'' (fst (demo_tick demo_start) + milliseconds 500)] :: timeout_history"
  have "start_timeout demo_tick ''t'' 500 (Some demo_callback) (new_timeout_manager 60000) demo_start = (''t'', fst demo_timeout, snd demo_timeout)"
    by (simp add: demo_timeout_def start_timeout_def case_prod_beta)
  from timeout_step.start [OF this, of "[]"]
  have "reachable timeout_init (timeout_step demo_tick) (fst demo_timeout, snd demo_timeout, ?h)"
    by (intro reachable.move [OF reachable.start]) (auto simp: timeout_init_def)
  note th = timeouts_fire_exactly [OF this demo_timeout_check]
  have "{i. \<exists>d. last_put ?h i = Some d \<and> d \<le> fst (demo_tick (snd demo_timeout))} = {''t''}"
    by (auto simp: demo_timeout_def start_timeout_def demo_tick_def demo_lt_def demo_start_def milliseconds_def)
  with th have "map fst (due_timeouts (fst (demo_tick (snd demo_timeout))) (fst demo_timeout)) = [''t'']" by simp
  then show ?thesis
    by (simp add: demo_timeout_def start_timeout_def new_timeout_manager_def case_prod_beta dom_def)
qed

text \<open>A callback that throws leaves its own timeout active and ends the process; the timeouts before it in the order of identifiers have fired.\<close>

lemma throwing_callback_terminates:
  assumes "\<not> mn_should_stop (tsv_thread s)"
    and "fst (run_callbacks (due_timeouts (fst (clk w)) (tsv_manager s)) (snd (clk w))) = Some e"
  shows "fst (timeout_monitor_pass clk s w) = None"
proof -
  obtain r tm w1 where c: "check_expired_timeouts clk (tsv_manager s) w = (r, tm, w1)" by (rule prod_cases3)
  with check_expired_timeouts_exact(1) [OF c] assms show ?thesis
    by (cases r) (auto simp: timeout_monitor_pass_def dest: arg_cong [of _ _ fst])
qed

section \<open>The monitor thread\<close>

inductive timeout_wake :: "'w clock \<Rightarrow> 'w timeout_service \<Rightarrow> 'w timeout_service \<Rightarrow> bool" for clk :: "'w clock" where
  "mn_in_loop (tsv_thread s) \<Longrightarrow> timeout_monitor_pass clk s w = (Some t, w') \<Longrightarrow> timeout_wake clk s t"

inductive timeout_operation :: "'w clock \<Rightarrow> 'w timeout_service \<Rightarrow> 'w timeout_service \<Rightarrow> bool" for clk :: "'w clock" where
  "timeout_step clk (tsv_manager s, w, h) (tm, w', h') \<Longrightarrow> timeout_operation clk s (s\<lparr>tsv_manager := tm\<rparr>)"

interpretation timeout_thread:
  monitored_service tsv_thread timeout_start timeout_stop "timeout_wake clk" "timeout_operation clk"
proof
  fix s t
  assume "timeout_wake clk s t"
  then show "mn_in_loop (tsv_thread s) \<and> tsv_thread t = monitor_wake (tsv_thread s)"
    by cases (auto simp: timeout_monitor_pass_def Let_def split: if_splits prod.splits option.splits)
qed (auto simp: timeout_start_def timeout_stop_def elim: timeout_operation.cases)

definition timeout_call :: "'w clock \<Rightarrow> 'w timeout_service \<Rightarrow> 'w timeout_service \<Rightarrow> bool" where
  "timeout_call clk s t \<longleftrightarrow> t = timeout_start s \<or> t = timeout_stop s \<or> timeout_wake clk s t \<or> timeout_operation clk s t"

lemma timeout_never_revived:
  "(timeout_call clk)\<^sup>*\<^sup>* s t \<Longrightarrow> mn_joinable (tsv_thread s) \<Longrightarrow> \<not> mn_in_loop (tsv_thread s) \<Longrightarrow>
     timeout_is_running (timeout_start t) \<and> (\<nexists>u. timeout_wake clk t u)"
  using timeout_thread.never_revived [of clk s t] by (simp add: timeout_call_def [abs_def] timeout_is_running_def)

end
