(* ===== verification/Request_Cache.thy ===== *)
theory Request_Cache
  imports Expiring_Store State_Machine Monitor_Thread
begin

text \<open>
  \<^verbatim>\<open>RequestCacheManager\<close> as \<^verbatim>\<open>request_cache_manager.cpp\<close> defines it: requests that are pending, completed, failed after their retries, or expired, and the thread
  that expires them. The header declares other members, so that the two files do not compile together; the state has the
  members that the source file uses. The counter of \<^verbatim>\<open>generateRequestId\<close> is a static \<^verbatim>\<open>std::atomic<int>\<close>, whose
  \<^verbatim>\<open>fetch_add\<close> wraps around; it is part of the state. A lookup that finds nothing returns \<^verbatim>\<open>RequestInfo{}\<close>, written \<open>None\<close>.
\<close>

section \<open>Definitions\<close>

datatype cache_status = RC_PENDING | RC_COMPLETED | RC_FAILED | RC_EXPIRED | RC_NOT_FOUND

record cache_config =
  cac_request_timeout :: int
  cac_cleanup_interval :: int
  cac_max_retries :: int

record cached_request =
  cr_id :: string
  cr_type :: string
  cr_target_id :: string
  cr_parameters :: "(string, string) smap"
  cr_status :: cache_status
  cr_created_at :: time
  cr_expires_at :: time
  cr_retry_count :: int
  cr_max_retries :: int
  cr_result_data :: string
  cr_completed_at :: time
  cr_error_message :: string
  cr_failed_at :: time

record request_cache =
  rc_config :: cache_config
  rc_counter :: int
  rc_active :: "(string, cached_request) smap"
  rc_completed :: "(string, cached_request) smap"
  rc_failed :: "(string, cached_request) smap"
  rc_expired :: "(string, cached_request) smap"

definition new_request_cache :: "cache_config \<Rightarrow> request_cache" where
  "new_request_cache config = \<lparr>rc_config = config, rc_counter = 0, rc_active = [], rc_completed = [], rc_failed = [], rc_expired = []\<rparr>"

definition generate_request_id :: "'w clock \<Rightarrow> request_cache \<Rightarrow> 'w \<Rightarrow> string \<times> request_cache \<times> 'w" where
  "generate_request_id clk rc w =
     (let (now, w1) = clk w
      in (''REQ_'' @ to_string (int_div now 1000000) @ ''_'' @ to_string (rc_counter rc),
          rc\<lparr>rc_counter := signed_take_bit 31 (rc_counter rc + 1)\<rparr>, w1))"

definition cache_add_request :: "'w clock \<Rightarrow> string \<Rightarrow> string \<Rightarrow> (string, string) smap \<Rightarrow> request_cache \<Rightarrow> 'w \<Rightarrow> string \<times> request_cache \<times> 'w" where
  "cache_add_request clk request_type target_id parameters rc w =
     (let (request_id, rc1, w1) = generate_request_id clk rc w;
          (now, w2) = clk w1;
          info = \<lparr>cr_id = request_id, cr_type = request_type, cr_target_id = target_id, cr_parameters = parameters, cr_status = RC_PENDING,
            cr_created_at = now, cr_expires_at = now + milliseconds (cac_request_timeout (rc_config rc1)), cr_retry_count = 0,
            cr_max_retries = cac_max_retries (rc_config rc1), cr_result_data = [], cr_completed_at = 0, cr_error_message = [], cr_failed_at = 0\<rparr>
      in (request_id, rc1\<lparr>rc_active := smap_update request_id info (rc_active rc1)\<rparr>, w2))"

definition cache_get_request_status :: "string \<Rightarrow> request_cache \<Rightarrow> cache_status" where
  "cache_get_request_status request_id rc =
     (case smap_find (rc_active rc) request_id of
        Some info \<Rightarrow> cr_status info
      | None \<Rightarrow> (case smap_find (rc_expired rc) request_id of Some info \<Rightarrow> cr_status info | None \<Rightarrow> RC_NOT_FOUND))"

definition mark_request_complete :: "'w clock \<Rightarrow> string \<Rightarrow> string \<Rightarrow> request_cache \<Rightarrow> 'w \<Rightarrow> bool \<times> request_cache \<times> 'w" where
  "mark_request_complete clk request_id result_data rc w =
     (case smap_find (rc_active rc) request_id of
        Some info \<Rightarrow>
          (let (now, w1) = clk w;
               info1 = info\<lparr>cr_status := RC_COMPLETED, cr_result_data := result_data, cr_completed_at := now\<rparr>
           in (True, rc\<lparr>rc_completed := smap_update request_id info1 (rc_completed rc), rc_active := smap_erase request_id (rc_active rc)\<rparr>, w1))
      | None \<Rightarrow> (False, rc, w))"

definition mark_request_failed :: "'w clock \<Rightarrow> string \<Rightarrow> string \<Rightarrow> request_cache \<Rightarrow> 'w \<Rightarrow> bool \<times> request_cache \<times> 'w" where
  "mark_request_failed clk request_id error_message rc w =
     (case smap_find (rc_active rc) request_id of
        Some info \<Rightarrow>
          (let (now, w1) = clk w;
               info1 = info\<lparr>cr_status := RC_FAILED, cr_error_message := error_message, cr_failed_at := now,
                 cr_retry_count := cr_retry_count info + 1\<rparr>
           in if cr_retry_count info1 < cr_max_retries info1 then
                (let (now2, w2) = clk w1;
                     info2 = info1\<lparr>cr_status := RC_PENDING, cr_expires_at := now2 + milliseconds (cac_request_timeout (rc_config rc))\<rparr>
                 in (True, rc\<lparr>rc_active := smap_update request_id info2 (rc_active rc)\<rparr>, w2))
              else
                (True, rc\<lparr>rc_failed := smap_update request_id info1 (rc_failed rc), rc_active := smap_erase request_id (rc_active rc)\<rparr>, w1))
      | None \<Rightarrow> (False, rc, w))"

definition is_request_cached :: "string \<Rightarrow> string \<Rightarrow> request_cache \<Rightarrow> bool" where
  "is_request_cached request_type target_id rc \<longleftrightarrow>
     list_ex (\<lambda>(k, info). cr_type info = request_type \<and> cr_target_id info = target_id) (rc_active rc)
     \<or> list_ex (\<lambda>(k, info). cr_type info = request_type \<and> cr_target_id info = target_id) (rc_completed rc)"

definition cache_get_request_info :: "string \<Rightarrow> request_cache \<Rightarrow> cached_request option" where
  "cache_get_request_info request_id rc =
     (case smap_find (rc_active rc) request_id of
        Some info \<Rightarrow> Some info
      | None \<Rightarrow>
          (case smap_find (rc_completed rc) request_id of
             Some info \<Rightarrow> Some info
           | None \<Rightarrow>
               (case smap_find (rc_failed rc) request_id of
                  Some info \<Rightarrow> Some info
                | None \<Rightarrow> smap_find (rc_expired rc) request_id)))"

definition cache_active_ids :: "request_cache \<Rightarrow> string list" where
  "cache_active_ids rc = smap_keys (rc_active rc)"

definition cache_completed_ids :: "request_cache \<Rightarrow> string list" where
  "cache_completed_ids rc = smap_keys (rc_completed rc)"

definition cache_failed_ids :: "request_cache \<Rightarrow> string list" where
  "cache_failed_ids rc = smap_keys (rc_failed rc)"

definition cache_expired_ids :: "request_cache \<Rightarrow> string list" where
  "cache_expired_ids rc = smap_keys (rc_expired rc)"

definition cache_active_count :: "request_cache \<Rightarrow> int" where
  "cache_active_count rc = int (length (rc_active rc))"

definition cache_completed_count :: "request_cache \<Rightarrow> int" where
  "cache_completed_count rc = int (length (rc_completed rc))"

definition cache_failed_count :: "request_cache \<Rightarrow> int" where
  "cache_failed_count rc = int (length (rc_failed rc))"

definition cache_expired_count :: "request_cache \<Rightarrow> int" where
  "cache_expired_count rc = int (length (rc_expired rc))"

definition cache_total_count :: "request_cache \<Rightarrow> int" where
  "cache_total_count rc = int (length (rc_active rc) + length (rc_completed rc) + length (rc_failed rc) + length (rc_expired rc))"

definition cache_due :: "time \<Rightarrow> cached_request \<Rightarrow> bool" where
  "cache_due now info \<longleftrightarrow> now \<ge> cr_expires_at info"

definition cache_mark_expired :: "cached_request \<Rightarrow> cached_request" where
  "cache_mark_expired info = info\<lparr>cr_status := RC_EXPIRED\<rparr>"

definition cache_expire_at :: "time \<Rightarrow> request_cache \<Rightarrow> request_cache" where
  "cache_expire_at now rc =
     (let (act, ex) = move_due (cache_due now) cache_mark_expired (rc_active rc) (rc_expired rc)
      in rc\<lparr>rc_active := act, rc_expired := ex\<rparr>)"

definition check_expired_requests :: "'w clock \<Rightarrow> request_cache \<Rightarrow> 'w \<Rightarrow> request_cache \<times> 'w" where
  "check_expired_requests clk rc w = (let (now, w1) = clk w in (cache_expire_at now rc, w1))"

definition cleanup_expired_requests :: "'w clock \<Rightarrow> request_cache \<Rightarrow> 'w \<Rightarrow> request_cache \<times> 'w" where
  "cleanup_expired_requests clk rc w =
     (let (now, w1) = clk w
      in (rc\<lparr>rc_expired := filter (\<lambda>(k, info). \<not> now - cr_expires_at info > milliseconds (cac_cleanup_interval (rc_config rc))) (rc_expired rc)\<rparr>, w1))"

definition clear_expired_requests :: "request_cache \<Rightarrow> request_cache" where
  "clear_expired_requests rc = rc\<lparr>rc_expired := []\<rparr>"

definition clear_all_requests :: "request_cache \<Rightarrow> request_cache" where
  "clear_all_requests rc = rc\<lparr>rc_active := [], rc_completed := [], rc_failed := [], rc_expired := []\<rparr>"

definition update_cache_config :: "cache_config \<Rightarrow> request_cache \<Rightarrow> request_cache" where
  "update_cache_config config rc = rc\<lparr>rc_config := config\<rparr>"

record cache_service =
  csv_cache :: request_cache
  csv_thread :: monitor

definition cache_start :: "cache_service \<Rightarrow> cache_service" where
  "cache_start s = s\<lparr>csv_thread := monitor_start (csv_thread s)\<rparr>"

definition cache_stop :: "cache_service \<Rightarrow> cache_service" where
  "cache_stop s = s\<lparr>csv_thread := monitor_stop (csv_thread s)\<rparr>"

definition cache_is_running :: "cache_service \<Rightarrow> bool" where
  "cache_is_running s \<longleftrightarrow> monitor_is_running (csv_thread s)"

definition cache_monitor_pass :: "'w clock \<Rightarrow> cache_service \<Rightarrow> 'w \<Rightarrow> cache_service \<times> 'w" where
  "cache_monitor_pass clk s w =
     (let s1 = s\<lparr>csv_thread := monitor_wake (csv_thread s)\<rparr>
      in if mn_should_stop (csv_thread s) then (s1, w)
         else let (rc1, w1) = check_expired_requests clk (csv_cache s) w;
                  (rc2, w2) = cleanup_expired_requests clk rc1 w1
              in (s1\<lparr>csv_cache := rc2\<rparr>, w2))"

definition cache_health_status :: "cache_service \<Rightarrow> (string, string) smap" where
  "cache_health_status s =
     (let rc = csv_cache s
      in smap_update ''is_running'' (if cache_is_running s then ''true'' else ''false'')
          (smap_update ''total_requests'' (to_string (cache_total_count rc))
            (smap_update ''expired_requests'' (to_string (cache_expired_count rc))
              (smap_update ''failed_requests'' (to_string (cache_failed_count rc))
                (smap_update ''completed_requests'' (to_string (cache_completed_count rc))
                  (smap_update ''active_requests'' (to_string (cache_active_count rc)) []))))))"

section \<open>Identifiers\<close>

definition request_id_of :: "int \<Rightarrow> int \<Rightarrow> string" where
  "request_id_of timestamp n = ''REQ_'' @ to_string timestamp @ ''_'' @ to_string n"

lemma underscore_not_in_number: "CHR ''_'' \<notin> set (to_string i)"
  using show_nat_isdigit [of "nat i"] show_nat_isdigit [of "nat (- i)"]
  by (auto simp: to_string_def list_all_iff isdigit_def)

lemma request_id_of_inj: "request_id_of t m = request_id_of u n \<longleftrightarrow> t = u \<and> m = n"
  using append_Cons_eq_iff [of "CHR ''_''" "to_string t" "to_string m" "to_string u" "to_string n"] underscore_not_in_number
  by (simp add: request_id_of_def to_string_inj)

text \<open>The counter after \<open>n\<close> requests, and the identifiers handed out by then: all different as long as the counter has not come round.\<close>

definition counter_after :: "nat \<Rightarrow> int" where
  "counter_after n = signed_take_bit 31 (int n)"

lemma counter_after_Suc: "signed_take_bit 31 (counter_after n + 1) = counter_after (Suc n)"
proof -
  have "take_bit (Suc 31) (signed_take_bit 31 (int n)) = take_bit (Suc 31) (int n)" by (rule take_bit_signed_take_bit) simp
  then have "take_bit (Suc 31) (counter_after n + 1) = take_bit (Suc 31) (int n + 1)"
    unfolding counter_after_def by (metis take_bit_add)
  then show ?thesis
    by (simp add: counter_after_def signed_take_bit_eq_iff_take_bit_eq add.commute)
qed

lemma counter_after_inj: "m < 2 ^ 32 \<Longrightarrow> n < 2 ^ 32 \<Longrightarrow> counter_after m = counter_after n \<longleftrightarrow> m = n"
  unfolding counter_after_def signed_take_bit_eq_iff_take_bit_eq
  by (simp add: take_bit_eq_mod)

definition used_ids :: "nat \<Rightarrow> string set" where
  "used_ids n = {request_id_of t (counter_after m) | t m. m < n}"

lemma used_ids_mono: "used_ids n \<subseteq> used_ids (Suc n)"
  by (auto simp: used_ids_def intro: less_SucI)

lemma fresh_id: "n < 2 ^ 32 \<Longrightarrow> request_id_of t (counter_after n) \<notin> used_ids n"
  by (auto simp: used_ids_def request_id_of_inj counter_after_inj)


section \<open>The machine\<close>

text \<open>A step is a call, or one of the two functions of the thread. The third component counts the calls of \<^verbatim>\<open>addRequest\<close>.\<close>

inductive cache_step :: "'w clock \<Rightarrow> request_cache \<times> 'w \<times> nat \<Rightarrow> request_cache \<times> 'w \<times> nat \<Rightarrow> bool" for clk :: "'w clock" where
  add: "cache_add_request clk type target ps rc w = (i, rc', w') \<Longrightarrow> cache_step clk (rc, w, n) (rc', w', Suc n)"
| complete: "mark_request_complete clk i data rc w = (r, rc', w') \<Longrightarrow> cache_step clk (rc, w, n) (rc', w', n)"
| fail: "mark_request_failed clk i msg rc w = (r, rc', w') \<Longrightarrow> cache_step clk (rc, w, n) (rc', w', n)"
| check: "check_expired_requests clk rc w = (rc', w') \<Longrightarrow> cache_step clk (rc, w, n) (rc', w', n)"
| cleanup: "cleanup_expired_requests clk rc w = (rc', w') \<Longrightarrow> cache_step clk (rc, w, n) (rc', w', n)"
| clear_expired: "cache_step clk (rc, w, n) (clear_expired_requests rc, w, n)"
| clear_all: "cache_step clk (rc, w, n) (clear_all_requests rc, w, n)"
| config: "cache_step clk (rc, w, n) (update_cache_config c rc, w, n)"
| tick: "cache_step clk (rc, w, n) (rc, w', n)"

definition cache_init :: "request_cache \<times> 'w \<times> nat \<Rightarrow> bool" where
  "cache_init s \<longleftrightarrow> (\<exists>config w. s = (new_request_cache config, w, 0))"

text \<open>Every map holds requests in its own state, under their own identifiers. An active request has retries left or has not failed yet; a failed one has
  used all of them.\<close>

definition active_ok :: "string \<Rightarrow> cached_request \<Rightarrow> bool" where
  "active_ok k r \<longleftrightarrow> cr_id r = k \<and> cr_status r = RC_PENDING \<and> 0 \<le> cr_retry_count r \<and> (cr_retry_count r = 0 \<or> cr_retry_count r < cr_max_retries r)"

definition failed_ok :: "string \<Rightarrow> cached_request \<Rightarrow> bool" where
  "failed_ok k r \<longleftrightarrow> cr_id r = k \<and> cr_status r = RC_FAILED \<and> cr_retry_count r = max 1 (cr_max_retries r)"

definition ended_ok :: "cache_status \<Rightarrow> string \<Rightarrow> cached_request \<Rightarrow> bool" where
  "ended_ok st k r \<longleftrightarrow> cr_id r = k \<and> cr_status r = st"

definition all_entries :: "('k \<Rightarrow> 'v \<Rightarrow> bool) \<Rightarrow> ('k \<Rightarrow> 'v option) \<Rightarrow> bool" where
  "all_entries P m \<longleftrightarrow> (\<forall>k v. m k = Some v \<longrightarrow> P k v)"

lemma all_entries_simps [simp]:
  "all_entries P (\<lambda>k. None)" "all_entries P m \<Longrightarrow> P k v \<Longrightarrow> all_entries P (m(k \<mapsto> v))" "all_entries P m \<Longrightarrow> all_entries P (m(k := None))"
  by (auto simp: all_entries_def)

lemma all_entriesD: "all_entries P m \<Longrightarrow> m k = Some v \<Longrightarrow> P k v"
  by (simp add: all_entries_def)

definition cache_entries_ok :: "request_cache \<Rightarrow> bool" where
  "cache_entries_ok rc \<longleftrightarrow> all_entries active_ok (smap_find (rc_active rc)) \<and> all_entries (ended_ok RC_COMPLETED) (smap_find (rc_completed rc))
     \<and> all_entries failed_ok (smap_find (rc_failed rc)) \<and> all_entries (ended_ok RC_EXPIRED) (smap_find (rc_expired rc))"

definition cache_maps_ok :: "request_cache \<Rightarrow> bool" where
  "cache_maps_ok rc \<longleftrightarrow> smap_ok (rc_active rc) \<and> smap_ok (rc_completed rc) \<and> smap_ok (rc_failed rc) \<and> smap_ok (rc_expired rc)"

text \<open>The maps that hold an identifier.\<close>

definition homes :: "request_cache \<Rightarrow> string \<Rightarrow> cache_status list" where
  "homes rc k = (if smap_find (rc_active rc) k \<noteq> None then [RC_PENDING] else []) @ (if smap_find (rc_completed rc) k \<noteq> None then [RC_COMPLETED] else [])
     @ (if smap_find (rc_failed rc) k \<noteq> None then [RC_FAILED] else []) @ (if smap_find (rc_expired rc) k \<noteq> None then [RC_EXPIRED] else [])"

definition cache_ids_ok :: "nat \<Rightarrow> request_cache \<Rightarrow> bool" where
  "cache_ids_ok n rc \<longleftrightarrow> (\<forall>k. length (homes rc k) \<le> 1 \<and> (homes rc k \<noteq> [] \<longrightarrow> k \<in> used_ids n))"

definition cache_inv :: "request_cache \<times> 'w \<times> nat \<Rightarrow> bool" where
  "cache_inv = (\<lambda>(rc, w, n). cache_maps_ok rc \<and> cache_entries_ok rc \<and> rc_counter rc = counter_after n \<and> (n \<le> 2 ^ 32 \<longrightarrow> cache_ids_ok n rc))"

interpretation requests: expiring_store "\<lambda>rc. smap_find (rc_active rc)" "\<lambda>rc. smap_find (rc_expired rc)" cache_due cache_mark_expired
  cache_expire_at cache_maps_ok
  by unfold_locales
    (auto simp: cache_expire_at_def cache_maps_ok_def case_prod_beta find_active_move find_expired_move smap_ok_move cache_due_def)

lemma cache_add_request_eq:
  assumes "cache_add_request clk type target ps rc w = (i, rc', w')"
  obtains t r where "i = request_id_of t (rc_counter rc)" "cr_max_retries r = cac_max_retries (rc_config rc)" "active_ok i r" "cr_retry_count r = 0"
    "rc' = rc\<lparr>rc_counter := signed_take_bit 31 (rc_counter rc + 1), rc_active := smap_update i r (rc_active rc)\<rparr>"
  by (rule that [of "int_div (fst (clk w)) 1000000" "the (smap_find (rc_active rc') i)"])
    (use assms in \<open>auto simp: cache_add_request_def generate_request_id_def case_prod_beta Let_def request_id_of_def active_ok_def\<close>)

lemma cache_inv_add:
  assumes inv: "cache_inv (rc, w, n)" and a: "cache_add_request clk type target ps rc w = (i, rc', w')"
  shows "cache_inv (rc', w', Suc n)"
proof -
  from a obtain t r where i: "i = request_id_of t (rc_counter rc)" and r: "active_ok i r"
    and rc': "rc' = rc\<lparr>rc_counter := signed_take_bit 31 (rc_counter rc + 1), rc_active := smap_update i r (rc_active rc)\<rparr>"
    by (rule cache_add_request_eq)
  have c: "rc_counter rc = counter_after n" using inv by (simp add: cache_inv_def)
  have "cache_ids_ok (Suc n) rc'" if "Suc n \<le> 2 ^ 32"
  proof -
    have ids: "cache_ids_ok n rc" using inv that by (simp add: cache_inv_def)
    have "homes rc i = []"
      using ids fresh_id [of n t] that by (auto simp: cache_ids_ok_def i c)
    moreover have "homes rc' k = (if k = i then RC_PENDING # filter (\<lambda>h. h \<noteq> RC_PENDING) (homes rc k) else homes rc k)" for k
      by (simp add: homes_def rc')
    moreover have "i \<in> used_ids (Suc n)" by (auto simp: used_ids_def i c)
    ultimately show ?thesis
      using ids used_ids_mono [of n] by (auto simp: cache_ids_ok_def)
  qed
  with inv r show ?thesis
    by (simp add: cache_inv_def cache_maps_ok_def cache_entries_ok_def rc' counter_after_Suc)
qed

text \<open>An operation that moves a request to another map, or that drops requests, keeps the identifiers apart.\<close>

lemma cache_ids_ok_move:
  assumes "cache_ids_ok n rc" "\<And>k. length (homes rc' k) \<le> length (homes rc k)"
  shows "cache_ids_ok n rc'"
  using assms unfolding cache_ids_ok_def by (metis le_trans length_0_conv le_zero_eq)

lemma cache_inv_complete:
  assumes inv: "cache_inv (rc, w, n)" and "mark_request_complete clk i data rc w = (r, rc', w')"
  shows "cache_inv (rc', w', n)"
proof (cases "smap_find (rc_active rc) i")
  case (Some v)
  define v1 where "v1 = v\<lparr>cr_status := RC_COMPLETED, cr_result_data := data, cr_completed_at := fst (clk w)\<rparr>"
  have rc': "rc' = rc\<lparr>rc_completed := smap_update i v1 (rc_completed rc), rc_active := smap_erase i (rc_active rc)\<rparr>"
    using assms(2) Some by (auto simp: mark_request_complete_def case_prod_beta v1_def)
  have "active_ok i v" using inv Some by (auto simp: cache_inv_def cache_entries_ok_def dest: all_entriesD)
  then have "ended_ok RC_COMPLETED i v1" by (simp add: active_ok_def ended_ok_def v1_def)
  moreover have "length (homes rc' k) \<le> length (homes rc k)" for k by (simp add: homes_def rc' Some)
  ultimately show ?thesis
    using inv cache_ids_ok_move [of n rc rc'] by (simp add: cache_inv_def cache_maps_ok_def cache_entries_ok_def rc')
qed (use assms in \<open>simp add: mark_request_complete_def cache_inv_def\<close>)

lemma mark_request_failed_active:
  assumes "smap_find (rc_active rc) i = Some v" "active_ok i v" "mark_request_failed clk i msg rc w = (r, rc', w')"
  obtains (retry) v' where "cr_retry_count v + 1 < cr_max_retries v" "active_ok i v'" "cr_retry_count v' = cr_retry_count v + 1"
      "cr_max_retries v' = cr_max_retries v" "rc' = rc\<lparr>rc_active := smap_update i v' (rc_active rc)\<rparr>"
    | (give_up) v' where "\<not> cr_retry_count v + 1 < cr_max_retries v" "failed_ok i v'"
      "rc' = rc\<lparr>rc_failed := smap_update i v' (rc_failed rc), rc_active := smap_erase i (rc_active rc)\<rparr>"
proof -
  let ?v1 = "v\<lparr>cr_status := RC_FAILED, cr_error_message := msg, cr_failed_at := fst (clk w), cr_retry_count := cr_retry_count v + 1\<rparr>"
  let ?v2 = "?v1\<lparr>cr_status := RC_PENDING, cr_expires_at := fst (clk (snd (clk w))) + milliseconds (cac_request_timeout (rc_config rc))\<rparr>"
  note defs = mark_request_failed_def case_prod_beta Let_def active_ok_def failed_ok_def
  show thesis
  proof (cases "cr_retry_count v + 1 < cr_max_retries v")
    case True
    show thesis by (rule retry [of ?v2]) (use assms True in \<open>auto simp: defs\<close>)
  next
    case False
    show thesis by (rule give_up [of ?v1]) (use assms False in \<open>auto simp: defs\<close>)
  qed
qed

lemma cache_inv_fail:
  assumes inv: "cache_inv (rc, w, n)" and m: "mark_request_failed clk i msg rc w = (r, rc', w')"
  shows "cache_inv (rc', w', n)"
proof (cases "smap_find (rc_active rc) i")
  case (Some v)
  then have v: "active_ok i v" using inv by (auto simp: cache_inv_def cache_entries_ok_def dest: all_entriesD)
  from Some v m show ?thesis
  proof (cases rule: mark_request_failed_active)
    case (retry v')
    have "homes rc' k = homes rc k" for k by (simp add: homes_def retry Some)
    with retry inv cache_ids_ok_move [of n rc rc'] show ?thesis by (simp add: cache_inv_def cache_maps_ok_def cache_entries_ok_def)
  next
    case (give_up v')
    have "length (homes rc' k) \<le> length (homes rc k)" for k by (simp add: homes_def give_up Some)
    with give_up inv cache_ids_ok_move [of n rc rc'] show ?thesis by (simp add: cache_inv_def cache_maps_ok_def cache_entries_ok_def)
  qed
qed (use assms in \<open>simp add: mark_request_failed_def cache_inv_def\<close>)

lemma cache_inv_check:
  assumes inv: "cache_inv (rc, w, n)" and "check_expired_requests clk rc w = (rc', w')"
  shows "cache_inv (rc', w', n)"
proof -
  have ok: "cache_maps_ok rc" using inv by (simp add: cache_inv_def)
  have rc': "rc' = cache_expire_at (fst (clk w)) rc" using assms(2) by (auto simp: check_expired_requests_def case_prod_beta)
  have other: "rc_completed rc' = rc_completed rc" "rc_failed rc' = rc_failed rc" "rc_counter rc' = rc_counter rc"
    by (simp_all add: rc' cache_expire_at_def case_prod_beta)
  note find = requests.active_expire [OF ok] requests.expired_expire [OF ok]
  have "length (homes rc' k) \<le> length (homes rc k)" for k
    unfolding homes_def other unfolding rc' find by (auto simp: moved_from_def moved_to_def split: option.splits)
  moreover have "cache_entries_ok rc'"
    using inv unfolding cache_entries_ok_def other unfolding rc' find
    by (auto simp: cache_inv_def cache_entries_ok_def all_entries_def moved_from_def moved_to_def active_ok_def ended_ok_def cache_mark_expired_def
        split: option.splits if_splits)
  ultimately show ?thesis
    using inv requests.ok_expire [OF ok] cache_ids_ok_move [of n rc rc'] by (simp add: cache_inv_def other) (simp add: rc')
qed

lemma cache_inv_cleanup:
  assumes inv: "cache_inv (rc, w, n)" and "cleanup_expired_requests clk rc w = (rc', w')"
  shows "cache_inv (rc', w', n)"
proof -
  define P where "P info \<longleftrightarrow> \<not> fst (clk w) - cr_expires_at info > milliseconds (cac_cleanup_interval (rc_config rc))" for info :: cached_request
  have rc': "rc' = rc\<lparr>rc_expired := filter (\<lambda>p. P (snd p)) (rc_expired rc)\<rparr>"
    using assms(2) by (auto simp: cleanup_expired_requests_def case_prod_unfold P_def Let_def)
  have ok: "smap_ok (rc_expired rc)" using inv by (simp add: cache_inv_def cache_maps_ok_def)
  note find = map_of_filter_snd [OF ok, of P]
  have "length (homes rc' k) \<le> length (homes rc k)" for k
    by (auto simp: homes_def rc' find split: option.splits)
  moreover have "cache_entries_ok rc'"
    using inv by (auto simp: cache_inv_def cache_entries_ok_def rc' all_entries_def find split: option.splits if_splits)
  ultimately show ?thesis
    using inv cache_ids_ok_move [of n rc rc'] by (simp add: cache_inv_def cache_maps_ok_def rc')
qed

lemma cache_inv_step:
  assumes "cache_step clk s t" "cache_inv s"
  shows "cache_inv t"
  using assms
proof cases
  case (clear_expired rc w n)
  have "length (homes (clear_expired_requests rc) k) \<le> length (homes rc k)" for k by (simp add: homes_def clear_expired_requests_def)
  with clear_expired assms(2) cache_ids_ok_move [of n rc "clear_expired_requests rc"] show ?thesis
    by (simp add: cache_inv_def cache_maps_ok_def cache_entries_ok_def clear_expired_requests_def)
next
  case (config rc w n c)
  have "homes (update_cache_config c rc) k = homes rc k" for k by (simp add: homes_def update_cache_config_def)
  with config assms(2) cache_ids_ok_move [of n rc "update_cache_config c rc"] show ?thesis
    by (simp add: cache_inv_def cache_maps_ok_def cache_entries_ok_def update_cache_config_def)
next
  case (clear_all rc w n)
  with assms(2) show ?thesis
    by (simp add: cache_inv_def cache_maps_ok_def cache_entries_ok_def clear_all_requests_def cache_ids_ok_def homes_def)
next
  case (tick rc w n w')
  with assms(2) show ?thesis by (simp add: cache_inv_def)
qed (auto intro: cache_inv_add cache_inv_complete cache_inv_fail cache_inv_check cache_inv_cleanup)


interpretation cache_system: invariant_system cache_init "cache_step clk" cache_inv
proof
  show "cache_init s \<Longrightarrow> cache_inv s" for s :: "request_cache \<times> 'a \<times> nat"
    by (auto simp: cache_init_def cache_inv_def new_request_cache_def cache_maps_ok_def cache_entries_ok_def cache_ids_ok_def homes_def
        counter_after_def)
qed (rule cache_inv_step)

section \<open>Properties\<close>

lemma homes_statusE:
  assumes "cache_entries_ok rc" "length (homes rc k) \<le> 1"
  shows "homes rc k = (case cache_get_request_info k rc of None \<Rightarrow> [] | Some r \<Rightarrow> [cr_status r])"
  using assms
  by (auto simp: homes_def cache_get_request_info_def cache_entries_ok_def all_entries_def active_ok_def failed_ok_def ended_ok_def
      split: option.splits if_splits)

text \<open>C28: A request is in one place, in the state that belongs to it. In every reachable state after at most \<open>2\<^sup>3\<^sup>2\<close> calls of \<^verbatim>\<open>addRequest\<close> (then the counter of the
  identifiers comes round), an identifier is in at most one of the four maps, and the status stored with the request names that map; the next identifier
  handed out is new. An active request has not failed yet or has retries left, and a request given up has failed exactly as often as
  \<^verbatim>\<open>max_retries\<close> said when it was added, at least once. \<^verbatim>\<open>getRequestStatus\<close> tells of pending and expired requests only: a request that has
  completed or failed is reported as not found.\<close>

theorem requests_in_one_place:
  assumes "reachable cache_init (cache_step clk) (rc, w, n)" "n \<le> 2 ^ 32"
  shows "homes rc k = (case cache_get_request_info k rc of None \<Rightarrow> [] | Some r \<Rightarrow> [cr_status r])
    \<and> (n < 2 ^ 32 \<longrightarrow> cache_get_request_info (fst (cache_add_request clk type target ps rc w)) rc = None)
    \<and> (\<forall>r. smap_find (rc_active rc) k = Some r \<longrightarrow> active_ok k r) \<and> (\<forall>r. smap_find (rc_failed rc) k = Some r \<longrightarrow> failed_ok k r)
    \<and> cache_get_request_status k rc = (if homes rc k = [RC_PENDING] then RC_PENDING else if homes rc k = [RC_EXPIRED] then RC_EXPIRED else RC_NOT_FOUND)"
proof -
  have inv: "cache_inv (rc, w, n)" using assms(1) by (rule cache_system.inv_reachable)
  with assms(2) have e: "cache_entries_ok rc" and ids: "cache_ids_ok n rc" by (auto simp: cache_inv_def)
  have home: "homes rc i = (case cache_get_request_info i rc of None \<Rightarrow> [] | Some r \<Rightarrow> [cr_status r])" for i
    using ids by (intro homes_statusE [OF e]) (simp add: cache_ids_ok_def)
  have fresh: "cache_get_request_info (fst (cache_add_request clk type target ps rc w)) rc = None" if "n < 2 ^ 32"
  proof -
    obtain i rc' w' where a: "cache_add_request clk type target ps rc w = (i, rc', w')" by (rule prod_cases3)
    then obtain t where "i = request_id_of t (rc_counter rc)" by (rule cache_add_request_eq)
    then have "homes rc i = []"
      using ids fresh_id [OF that, of t] inv by (auto simp: cache_ids_ok_def cache_inv_def)
    with home [of i] a show ?thesis by (simp split: option.splits)
  qed
  have "cache_get_request_status k rc = (if homes rc k = [RC_PENDING] then RC_PENDING else if homes rc k = [RC_EXPIRED] then RC_EXPIRED else RC_NOT_FOUND)"
    using e home [of k]
    by (auto simp: cache_get_request_status_def cache_get_request_info_def homes_def cache_entries_ok_def all_entries_def active_ok_def ended_ok_def
        split: option.splits if_splits)
  moreover have "\<forall>r. smap_find (rc_active rc) k = Some r \<longrightarrow> active_ok k r" "\<forall>r. smap_find (rc_failed rc) k = Some r \<longrightarrow> failed_ok k r"
    using e by (auto simp: cache_entries_ok_def all_entries_def)
  ultimately show ?thesis using home [of k] fresh by blast
qed

definition demo_cache_config :: cache_config where
  "demo_cache_config = \<lparr>cac_request_timeout = 30000, cac_cleanup_interval = 60000, cac_max_retries = 3\<rparr>"

definition demo_added :: "string \<times> request_cache \<times> demo_world" where
  "demo_added = cache_add_request demo_tick ''find_node'' ''n'' [] (new_request_cache demo_cache_config) demo_start"

definition demo_completed :: "bool \<times> request_cache \<times> demo_world" where
  "demo_completed = mark_request_complete demo_tick (fst demo_added) ''ok'' (fst (snd demo_added)) (snd (snd demo_added))"

theorem requests_in_one_place_witness:
  "homes (fst (snd demo_completed)) (fst demo_added) = [RC_COMPLETED]
   \<and> cache_get_request_status (fst demo_added) (fst (snd demo_completed)) = RC_NOT_FOUND"
proof -
  have "reachable cache_init (cache_step demo_tick) (fst (snd demo_added), snd (snd demo_added), Suc 0)"
    by (rule reachable.move [OF reachable.start], unfold cache_init_def, blast)
      (rule cache_step.add [where i = "fst demo_added"], simp add: demo_added_def)
  moreover have "cache_step demo_tick (fst (snd demo_added), snd (snd demo_added), Suc 0) (fst (snd demo_completed), snd (snd demo_completed), Suc 0)"
    by (rule cache_step.complete [where r = "fst demo_completed" and i = "fst demo_added"]) (simp add: demo_completed_def)
  ultimately have r: "reachable cache_init (cache_step demo_tick) (fst (snd demo_completed), snd (snd demo_completed), Suc 0)"
    by (rule reachable.move)
  have "smap_find (rc_completed (fst (snd demo_completed))) (fst demo_added) \<noteq> None"
    by (simp add: demo_completed_def demo_added_def mark_request_complete_def cache_add_request_def generate_request_id_def case_prod_beta Let_def)
  then have "RC_COMPLETED \<in> set (homes (fst (snd demo_completed)) (fst demo_added))" by (simp add: homes_def)
  moreover have "homes (fst (snd demo_completed)) (fst demo_added)
      = (case cache_get_request_info (fst demo_added) (fst (snd demo_completed)) of None \<Rightarrow> [] | Some r \<Rightarrow> [cr_status r])"
    using requests_in_one_place [OF r, of "fst demo_added"] by simp
  ultimately have "homes (fst (snd demo_completed)) (fst demo_added) = [RC_COMPLETED]"
    by (cases "cache_get_request_info (fst demo_added) (fst (snd demo_completed))") auto
  with requests_in_one_place [OF r, of "fst demo_added"] show ?thesis by simp
qed

text \<open>How often a request can fail: as often as \<^verbatim>\<open>max_retries\<close> said, and at least once.\<close>

fun fail_times :: "'w clock \<Rightarrow> string \<Rightarrow> string list \<Rightarrow> request_cache \<Rightarrow> 'w \<Rightarrow> request_cache \<times> 'w" where
  "fail_times clk i [] rc w = (rc, w)"
| "fail_times clk i (msg # msgs) rc w = (let (r, rc1, w1) = mark_request_failed clk i msg rc w in fail_times clk i msgs rc1 w1)"

text \<open>A failing request is retried until \<^verbatim>\<open>max_retries\<close> is used up. From a request that has not failed yet, any sequence of fewer failures than
  \<^verbatim>\<open>max_retries\<close> leaves it pending with that many failures counted; a sequence of exactly that length (of one failure when \<^verbatim>\<open>max_retries\<close> is 0 or less)
  moves it to the failed requests.\<close>

theorem retries_are_exhausted_exactly:
  assumes "smap_find (rc_active rc) i = Some r" "active_ok i r" "cr_retry_count r + int (length msgs) \<le> max 1 (cr_max_retries r)"
  shows "if cr_retry_count r + int (length msgs) < max 1 (cr_max_retries r)
    then \<exists>r'. smap_find (rc_active (fst (fail_times clk i msgs rc w))) i = Some r' \<and> active_ok i r' \<and> cr_retry_count r' = cr_retry_count r + int (length msgs)
    else smap_find (rc_active (fst (fail_times clk i msgs rc w))) i = None
      \<and> (\<exists>r'. smap_find (rc_failed (fst (fail_times clk i msgs rc w))) i = Some r' \<and> failed_ok i r')"
  using assms
proof (induction msgs arbitrary: rc r w)
  case Nil
  then have "cr_retry_count r < max 1 (cr_max_retries r)" by (auto simp: active_ok_def)
  with Nil show ?case by simp
next
  case (Cons msg msgs)
  obtain b rc1 w1 where m: "mark_request_failed clk i msg rc w = (b, rc1, w1)" by (rule prod_cases3)
  from Cons.prems(1,2) m show ?case
  proof (cases rule: mark_request_failed_active)
    case (retry v')
    have "smap_find (rc_active rc1) i = Some v'" by (simp add: retry(5))
    with Cons.IH [of rc1 v' w1] Cons.prems(3) m retry(2-4) show ?thesis by (auto simp: algebra_simps split: if_splits)
  next
    case (give_up v')
    have "max 1 (cr_max_retries r) \<le> cr_retry_count r + 1" using give_up(1) Cons.prems(2) by (simp add: active_ok_def)
    moreover have "cr_retry_count r + (1 + int (length msgs)) \<le> max 1 (cr_max_retries r)" using Cons.prems(3) by simp
    ultimately have "length msgs = 0" by linarith
    then have "msgs = []" by simp
    with give_up m Cons.prems(2) show ?thesis by (auto simp: active_ok_def)
  qed
qed

theorem retries_are_exhausted_exactly_witness:
  "smap_find (rc_active (fst (fail_times demo_tick (fst demo_added) [''a'', ''b'', ''c''] (fst (snd demo_added)) (snd (snd demo_added))))) (fst demo_added) = None"
proof -
  let ?r = "the (smap_find (rc_active (fst (snd demo_added))) (fst demo_added))"
  note defs = demo_added_def cache_add_request_def generate_request_id_def case_prod_beta Let_def new_request_cache_def demo_cache_config_def
  have "smap_find (rc_active (fst (snd demo_added))) (fst demo_added) = Some ?r" "active_ok (fst demo_added) ?r" "cr_retry_count ?r = 0"
    "cr_max_retries ?r = 3" by (simp_all add: defs active_ok_def)
  with retries_are_exhausted_exactly [of "fst (snd demo_added)" "fst demo_added" ?r "[''a'', ''b'', ''c'']" demo_tick "snd (snd demo_added)"]
  show ?thesis by simp
qed

section \<open>The monitor thread\<close>

inductive cache_wake :: "'w clock \<Rightarrow> cache_service \<Rightarrow> cache_service \<Rightarrow> bool" for clk :: "'w clock" where
  "mn_in_loop (csv_thread s) \<Longrightarrow> cache_wake clk s (fst (cache_monitor_pass clk s w))"

inductive cache_operation :: "'w clock \<Rightarrow> cache_service \<Rightarrow> cache_service \<Rightarrow> bool" for clk :: "'w clock" where
  "cache_step clk (csv_cache s, w, n) (rc, w', n') \<Longrightarrow> cache_operation clk s (s\<lparr>csv_cache := rc\<rparr>)"

interpretation cache_thread: monitored_service csv_thread cache_start cache_stop "cache_wake clk" "cache_operation clk"
proof
  fix s t
  assume "cache_wake clk s t"
  then show "mn_in_loop (csv_thread s) \<and> csv_thread t = monitor_wake (csv_thread s)"
    by cases (auto simp: cache_monitor_pass_def Let_def case_prod_beta)
qed (auto simp: cache_start_def cache_stop_def elim: cache_operation.cases)

definition cache_call :: "'w clock \<Rightarrow> cache_service \<Rightarrow> cache_service \<Rightarrow> bool" where
  "cache_call clk s t \<longleftrightarrow> t = cache_start s \<or> t = cache_stop s \<or> cache_wake clk s t \<or> cache_operation clk s t"

lemma cache_never_revived:
  "(cache_call clk)\<^sup>*\<^sup>* s t \<Longrightarrow> mn_joinable (csv_thread s) \<Longrightarrow> \<not> mn_in_loop (csv_thread s) \<Longrightarrow>
     cache_is_running (cache_start t) \<and> (\<nexists>u. cache_wake clk t u)"
  using cache_thread.never_revived [of clk s t] by (simp add: cache_call_def [abs_def] cache_is_running_def)

end
