(* ===== verification/Ut_Metadata.thy ===== *)
theory Ut_Metadata
  imports Expiring_Store State_Machine Metadata_Validator
begin

text \<open>
  \<^verbatim>\<open>UTMetadataProtocol\<close> as \<^verbatim>\<open>ut_metadata_protocol.cpp\<close> defines it: the requests for the metadata of a torrent, the pieces that arrive and their assembly.
  The header declares other members, so that the two files do not compile together; the state has the members that the source
  file uses. The bytes of a piece are a \<^typ>\<open>string\<close>. A lookup that finds nothing returns \<^verbatim>\<open>MetadataRequest{}\<close>, written \<open>None\<close>.
\<close>

section \<open>Definitions\<close>

datatype ut_status = UT_REQUESTING | UT_COMPLETED | UT_EXPIRED | UT_NOT_FOUND

record ut_request =
  ur_peer_ip :: string
  ur_peer_port :: int
  ur_info_hash :: string
  ur_status :: ut_status
  ur_created_at :: time
  ur_expires_at :: time
  ur_piece_count :: int
  ur_received_pieces :: int
  ur_pieces :: "(int, string) smap"

record ut_protocol =
  ut_request_timeout :: int  \<comment> \<open>\<^verbatim>\<open>config_.request_timeout\<close>, in milliseconds\<close>
  ut_active_requests :: "(string, ut_request) smap"
  ut_completed_requests :: "(string, ut_request) smap"
  ut_expired_requests :: "(string, ut_request) smap"

definition new_ut_protocol :: "int \<Rightarrow> ut_protocol" where
  "new_ut_protocol timeout = \<lparr>ut_request_timeout = timeout, ut_active_requests = [], ut_completed_requests = [], ut_expired_requests = []\<rparr>"

definition ut_request_id :: "string \<Rightarrow> int \<Rightarrow> string \<Rightarrow> string" where
  "ut_request_id ip port info_hash = ip @ '':'' @ to_string port @ '':'' @ info_hash"

definition ut_request_metadata :: "'w clock \<Rightarrow> string \<Rightarrow> int \<Rightarrow> string \<Rightarrow> ut_protocol \<Rightarrow> 'w \<Rightarrow> bool \<times> ut_protocol \<times> 'w" where
  "ut_request_metadata clk ip port info_hash up w =
     (let request_id = ut_request_id ip port info_hash
      in case smap_find (ut_active_requests up) request_id of
           Some r \<Rightarrow> (False, up, w)
         | None \<Rightarrow>
             (let (created, w1) = clk w;
                  request = \<lparr>ur_peer_ip = ip, ur_peer_port = port, ur_info_hash = info_hash, ur_status = UT_REQUESTING, ur_created_at = created,
                    ur_expires_at = created + milliseconds (ut_request_timeout up), ur_piece_count = 0, ur_received_pieces = 0, ur_pieces = []\<rparr>
              in (True, up\<lparr>ut_active_requests := smap_update request_id request (ut_active_requests up)\<rparr>, w1)))"

definition ut_process_piece :: "string \<Rightarrow> int \<Rightarrow> string \<Rightarrow> int \<Rightarrow> string \<Rightarrow> ut_protocol \<Rightarrow> bool \<times> ut_protocol" where
  "ut_process_piece ip port info_hash piece_index piece_data up =
     (let request_id = ut_request_id ip port info_hash
      in case smap_find (ut_active_requests up) request_id of
           None \<Rightarrow> (False, up)
         | Some request \<Rightarrow>
             if piece_index < 0 \<or> piece_index \<ge> ur_piece_count request then (False, up)
             else if smap_find (ur_pieces request) piece_index \<noteq> None then (False, up)
             else
               (let request1 = request\<lparr>ur_pieces := smap_update piece_index piece_data (ur_pieces request),
                      ur_received_pieces := ur_received_pieces request + 1\<rparr>
                in if ur_received_pieces request1 \<ge> ur_piece_count request1 then
                     (let request2 = request1\<lparr>ur_status := UT_COMPLETED\<rparr>
                      in (True, up\<lparr>ut_completed_requests := smap_update request_id request2 (ut_completed_requests up),
                           ut_active_requests := smap_erase request_id (ut_active_requests up)\<rparr>))
                   else (True, up\<lparr>ut_active_requests := smap_update request_id request1 (ut_active_requests up)\<rparr>)))"

definition ut_assemble_pieces :: "ut_request \<Rightarrow> string" where
  "ut_assemble_pieces request =
     concat (map (\<lambda>i. case smap_find (ur_pieces request) i of Some data \<Rightarrow> data | None \<Rightarrow> []) [0..ur_piece_count request - 1])"

definition ut_assemble_metadata :: "string \<Rightarrow> int \<Rightarrow> string \<Rightarrow> ut_protocol \<Rightarrow> string" where
  "ut_assemble_metadata ip port info_hash up =
     (case smap_find (ut_completed_requests up) (ut_request_id ip port info_hash) of
        None \<Rightarrow> []
      | Some request \<Rightarrow> ut_assemble_pieces request)"

definition ut_is_complete :: "string \<Rightarrow> int \<Rightarrow> string \<Rightarrow> ut_protocol \<Rightarrow> bool" where
  "ut_is_complete ip port info_hash up \<longleftrightarrow> smap_find (ut_completed_requests up) (ut_request_id ip port info_hash) \<noteq> None"

definition ut_get_metadata :: "string \<Rightarrow> int \<Rightarrow> string \<Rightarrow> ut_protocol \<Rightarrow> string" where
  "ut_get_metadata ip port info_hash up = ut_assemble_metadata ip port info_hash up"

definition ut_get_request_info :: "string \<Rightarrow> int \<Rightarrow> string \<Rightarrow> ut_protocol \<Rightarrow> ut_request option" where
  "ut_get_request_info ip port info_hash up =
     (case smap_find (ut_active_requests up) (ut_request_id ip port info_hash) of
        Some request \<Rightarrow> Some request
      | None \<Rightarrow> smap_find (ut_completed_requests up) (ut_request_id ip port info_hash))"

definition ut_get_request_status :: "string \<Rightarrow> int \<Rightarrow> string \<Rightarrow> ut_protocol \<Rightarrow> ut_status" where
  "ut_get_request_status ip port info_hash up =
     (case smap_find (ut_active_requests up) (ut_request_id ip port info_hash) of
        Some request \<Rightarrow> ur_status request
      | None \<Rightarrow>
          (case smap_find (ut_completed_requests up) (ut_request_id ip port info_hash) of
             Some request \<Rightarrow> ur_status request
           | None \<Rightarrow> UT_NOT_FOUND))"

definition ut_get_active_requests :: "ut_protocol \<Rightarrow> string list" where
  "ut_get_active_requests up = smap_keys (ut_active_requests up)"

definition ut_get_completed_requests :: "ut_protocol \<Rightarrow> string list" where
  "ut_get_completed_requests up = smap_keys (ut_completed_requests up)"

definition ut_active_request_count :: "ut_protocol \<Rightarrow> int" where
  "ut_active_request_count up = int (length (ut_active_requests up))"

definition ut_completed_request_count :: "ut_protocol \<Rightarrow> int" where
  "ut_completed_request_count up = int (length (ut_completed_requests up))"

definition ut_total_request_count :: "ut_protocol \<Rightarrow> int" where
  "ut_total_request_count up = int (length (ut_active_requests up) + length (ut_completed_requests up))"

definition ut_completion_ratio :: "string \<Rightarrow> int \<Rightarrow> string \<Rightarrow> ut_protocol \<Rightarrow> rat" where
  "ut_completion_ratio ip port info_hash up =
     (let request_id = ut_request_id ip port info_hash;
          completed = (if smap_find (ut_completed_requests up) request_id \<noteq> None then 1 else 0)
      in case smap_find (ut_active_requests up) request_id of
           Some request \<Rightarrow>
             if ur_piece_count request > 0 then round_double (of_int (ur_received_pieces request) / of_int (ur_piece_count request)) else completed
         | None \<Rightarrow> completed)"

definition ut_due :: "time \<Rightarrow> ut_request \<Rightarrow> bool" where
  "ut_due now request \<longleftrightarrow> now > ur_expires_at request"

definition ut_mark_expired :: "ut_request \<Rightarrow> ut_request" where
  "ut_mark_expired request = request\<lparr>ur_status := UT_EXPIRED\<rparr>"

definition ut_expire_at :: "time \<Rightarrow> ut_protocol \<Rightarrow> ut_protocol" where
  "ut_expire_at now up =
     (let (act, ex) = move_due (ut_due now) ut_mark_expired (ut_active_requests up) (ut_expired_requests up)
      in up\<lparr>ut_active_requests := act, ut_expired_requests := ex\<rparr>)"

definition ut_cleanup_expired_requests :: "'w clock \<Rightarrow> ut_protocol \<Rightarrow> 'w \<Rightarrow> ut_protocol \<times> 'w" where
  "ut_cleanup_expired_requests clk up w = (let (now, w1) = clk w in (ut_expire_at now up, w1))"

definition ut_clear_expired_requests :: "ut_protocol \<Rightarrow> ut_protocol" where
  "ut_clear_expired_requests up = up\<lparr>ut_expired_requests := []\<rparr>"

definition ut_clear_all_requests :: "ut_protocol \<Rightarrow> ut_protocol" where
  "ut_clear_all_requests up = up\<lparr>ut_active_requests := [], ut_completed_requests := [], ut_expired_requests := []\<rparr>"

definition ut_update_config :: "int \<Rightarrow> ut_protocol \<Rightarrow> ut_protocol" where
  "ut_update_config timeout up = up\<lparr>ut_request_timeout := timeout\<rparr>"

definition ut_health_status :: "ut_protocol \<Rightarrow> (string, string) smap" where
  "ut_health_status up =
     smap_update ''request_timeout'' (to_string (ut_request_timeout up))
       (smap_update ''total_requests'' (to_string (ut_total_request_count up))
         (smap_update ''completed_requests'' (to_string (ut_completed_request_count up))
           (smap_update ''active_requests'' (to_string (ut_active_request_count up)) [])))"

section \<open>Request identifiers\<close>

lemma colon_not_in_number: "CHR '':'' \<notin> set (to_string i)"
  using show_nat_isdigit [of "nat i"] show_nat_isdigit [of "nat (- i)"]
  by (auto simp: to_string_def list_all_iff isdigit_def)

text \<open>An identifier determines the peer and the hash, also for addresses with colons.\<close>

lemma split_last_colon:
  "CHR '':'' \<notin> set b \<Longrightarrow> CHR '':'' \<notin> set d \<Longrightarrow> (a @ CHR '':'' # b = c @ CHR '':'' # d) \<longleftrightarrow> a = c \<and> b = d"
  using find_last_of_append [of "CHR '':''" b a] find_last_of_append [of "CHR '':''" d c]
  by (metis append_eq_append_conv list.inject option.inject)

lemma ut_request_id_inj:
  assumes "CHR '':'' \<notin> set h" "CHR '':'' \<notin> set h'"
  shows "ut_request_id ip port h = ut_request_id ip' port' h' \<longleftrightarrow> ip = ip' \<and> port = port' \<and> h = h'"
proof -
  have "ut_request_id ip port h = ut_request_id ip' port' h'
      \<longleftrightarrow> (ip @ CHR '':'' # to_string port) @ CHR '':'' # h = (ip' @ CHR '':'' # to_string port') @ CHR '':'' # h'"
    by (simp add: ut_request_id_def)
  also have "\<dots> \<longleftrightarrow> ip @ CHR '':'' # to_string port = ip' @ CHR '':'' # to_string port' \<and> h = h'"
    by (rule split_last_colon [OF assms])
  also have "\<dots> \<longleftrightarrow> ip = ip' \<and> port = port' \<and> h = h'"
    by (simp add: split_last_colon colon_not_in_number to_string_inj)
  finally show ?thesis .
qed

section \<open>Expiry\<close>

definition ut_maps_ok :: "ut_protocol \<Rightarrow> bool" where
  "ut_maps_ok up \<longleftrightarrow> smap_ok (ut_active_requests up) \<and> smap_ok (ut_completed_requests up) \<and> smap_ok (ut_expired_requests up)"

interpretation ut: expiring_store "\<lambda>up. smap_find (ut_active_requests up)" "\<lambda>up. smap_find (ut_expired_requests up)" ut_due ut_mark_expired
  ut_expire_at ut_maps_ok
  by unfold_locales
    (auto simp: ut_expire_at_def ut_maps_ok_def case_prod_beta find_active_move find_expired_move smap_ok_move ut_due_def)


section \<open>Requests never complete\<close>

text \<open>A step is a call of the class.\<close>

inductive ut_step :: "'w clock \<Rightarrow> ut_protocol \<times> 'w \<Rightarrow> ut_protocol \<times> 'w \<Rightarrow> bool" for clk :: "'w clock" where
  request: "ut_step clk (up, w) (snd (ut_request_metadata clk ip port info_hash up w))"
| piece: "ut_step clk (up, w) (snd (ut_process_piece ip port info_hash i data up), w)"
| cleanup: "ut_step clk (up, w) (ut_cleanup_expired_requests clk up w)"
| clear_expired: "ut_step clk (up, w) (ut_clear_expired_requests up, w)"
| clear_all: "ut_step clk (up, w) (ut_clear_all_requests up, w)"
| config: "ut_step clk (up, w) (ut_update_config timeout up, w)"
| tick: "ut_step clk (up, w) (up, w')"

definition ut_init :: "ut_protocol \<times> 'w \<Rightarrow> bool" where
  "ut_init s \<longleftrightarrow> (\<exists>timeout w. s = (new_ut_protocol timeout, w))"

text \<open>An active request has no known number of pieces, and nothing has completed.\<close>

definition ut_empty_request :: "ut_request \<Rightarrow> bool" where
  "ut_empty_request r \<longleftrightarrow> ur_piece_count r = 0 \<and> ur_received_pieces r = 0 \<and> ur_pieces r = [] \<and> ur_status r = UT_REQUESTING"

definition ut_inv :: "ut_protocol \<times> 'w \<Rightarrow> bool" where
  "ut_inv = (\<lambda>(up, w). ut_maps_ok up \<and> ut_completed_requests up = []
     \<and> (\<forall>k r. smap_find (ut_active_requests up) k = Some r \<longrightarrow> ut_empty_request r))"

lemma ut_inv_piece: "ut_inv (up, w) \<Longrightarrow> ut_process_piece ip port info_hash i data up = (False, up)"
  by (auto simp: ut_inv_def ut_empty_request_def ut_process_piece_def Let_def split: option.splits)

lemma ut_inv_step:
  assumes "ut_step clk s t" "ut_inv s"
  shows "ut_inv t"
  using assms
proof cases
  case (request up w ip port info_hash)
  with assms(2) show ?thesis
    by (auto simp: ut_inv_def ut_request_metadata_def ut_maps_ok_def ut_empty_request_def Let_def case_prod_beta split: option.splits)
next
  case (piece up w ip port info_hash i data)
  with assms(2) show ?thesis using ut_inv_piece [of up w] by auto
next
  case (cleanup up w)
  with assms(2) have ok: "ut_maps_ok up" by (simp add: ut_inv_def)
  have "ut_completed_requests (ut_expire_at now up) = ut_completed_requests up" for now
    by (simp add: ut_expire_at_def case_prod_beta)
  with cleanup assms(2) ut.ok_expire [OF ok] ut.active_not_due [OF ok] show ?thesis
    by (auto simp: ut_inv_def ut_cleanup_expired_requests_def case_prod_beta)
qed (auto simp: ut_inv_def ut_maps_ok_def ut_clear_expired_requests_def ut_clear_all_requests_def ut_update_config_def)

interpretation ut_system: invariant_system ut_init "ut_step clk" ut_inv
proof
  show "ut_init s \<Longrightarrow> ut_inv s" for s :: "ut_protocol \<times> 'a"
    by (auto simp: ut_init_def ut_inv_def new_ut_protocol_def ut_maps_ok_def)
qed (rule ut_inv_step)

text \<open>C30: No metadata request ever completes. \<^verbatim>\<open>requestMetadata\<close> sets the number of pieces to 0 and no operation changes it, so that in every
  reachable state \<^verbatim>\<open>processPiece\<close> refuses every piece of every peer and leaves the state as it is, \<^verbatim>\<open>isComplete\<close> is false, \<^verbatim>\<open>getMetadata\<close>
  returns no bytes, the completion ratio is 0 and the list of completed requests is empty.\<close>

theorem ut_metadata_never_completes:
  assumes "reachable ut_init (ut_step clk) (up, w)"
  shows "ut_process_piece ip port info_hash i data up = (False, up) \<and> \<not> ut_is_complete ip port info_hash up
    \<and> ut_get_metadata ip port info_hash up = [] \<and> ut_completion_ratio ip port info_hash up = 0
    \<and> ut_get_completed_requests up = []"
proof -
  have inv: "ut_inv (up, w)" using assms by (rule ut_system.inv_reachable)
  with ut_inv_piece [OF inv] show ?thesis
    by (auto simp: ut_inv_def ut_is_complete_def ut_get_metadata_def ut_assemble_metadata_def ut_completion_ratio_def ut_empty_request_def
        ut_get_completed_requests_def Let_def split: option.splits)
qed

definition demo_ut :: "ut_protocol \<times> demo_world" where
  "demo_ut = snd (ut_request_metadata demo_tick ''10.0.0.1'' 1 ''abc'' (new_ut_protocol 30000) demo_start)"

theorem ut_metadata_never_completes_witness:
  "ut_get_active_requests (fst demo_ut) = [''10.0.0.1:1:abc'']
   \<and> ut_process_piece ''10.0.0.1'' 1 ''abc'' 0 ''d4:name'' (fst demo_ut) = (False, fst demo_ut)"
proof -
  have "reachable ut_init (ut_step demo_tick) (fst demo_ut, snd demo_ut)"
    unfolding prod.collapse demo_ut_def
    by (rule reachable.move, rule reachable.start, unfold ut_init_def) (blast intro: ut_step.request)+
  moreover have "ut_request_id ''10.0.0.1'' 1 ''abc'' = ''10.0.0.1:1:abc''" by code_simp
  ultimately show ?thesis
    using ut_metadata_never_completes [of demo_tick "fst demo_ut" "snd demo_ut"]
    by (simp add: demo_ut_def ut_get_active_requests_def ut_request_metadata_def new_ut_protocol_def case_prod_beta)
qed

end
