(* ===== verification/Node_Quality.thy ===== *)
theory Node_Quality
  imports Double_Arithmetic Performance_Monitor Sliding_Window State_Machine Expiring_Store
begin

text \<open>
  \<^verbatim>\<open>NodeQualityTracker\<close> as \<^verbatim>\<open>node_quality_tracker.cpp\<close> defines it. The header declares other members, so that the two files do not compile together; the
  state has the members that the source file uses, the statuses are those of the header. A new \<^verbatim>\<open>NodeQuality\<close> starts from the
  parameter \<open>fresh\<close>, the value of the variable that \<^verbatim>\<open>NodeQuality quality;\<close> declares: \<^verbatim>\<open>blacklistNode\<close> leaves its counters as the declaration leaves them,
  and no file declares initialisers for them. The score is computed in \<^verbatim>\<open>double\<close> arithmetic.
\<close>

section \<open>Definitions\<close>

definition double_0_5 :: rat where
  "double_0_5 = 1 / 2"

datatype node_quality_status = NQ_GOOD | NQ_UNKNOWN | NQ_BAD | NQ_BLACKLISTED

record node_quality =
  nq_node_id :: string
  nq_status :: node_quality_status
  nq_quality_score :: rat
  nq_response_times :: "int list"
  nq_successful_requests :: int
  nq_failed_requests :: int
  nq_last_updated :: time
  nq_created_at :: time
  nq_blacklist_reason :: string
  nq_blacklisted_at :: time

record quality_config =
  qc_max_response_history :: nat
  qc_max_response_time :: rat
  qc_node_timeout :: int

record quality_tracker =
  qt_config :: quality_config
  qt_nodes :: "(string, node_quality) smap"

definition new_quality_tracker :: "quality_config \<Rightarrow> quality_tracker" where
  "new_quality_tracker config = \<lparr>qt_config = config, qt_nodes = []\<rparr>"

definition get_initial_quality_score :: "node_quality_status \<Rightarrow> rat" where
  "get_initial_quality_score status =
     (case status of NQ_GOOD \<Rightarrow> double_0_8 | NQ_UNKNOWN \<Rightarrow> double_0_5 | NQ_BAD \<Rightarrow> double_0_2 | _ \<Rightarrow> double_0_5)"

fun sum_times :: "rat \<Rightarrow> int list \<Rightarrow> rat" where
  "sum_times acc [] = acc"
| "sum_times acc (t # ts) = sum_times (double_of (acc + double_of (of_int t))) ts"

definition average_time :: "int list \<Rightarrow> rat" where
  "average_time ts = double_of (sum_times 0 ts / double_of (of_nat (length ts)))"

text \<open>\<^verbatim>\<open>std::max(0.0, 1.0 - avg / max_response_time)\<close>. Division by zero gives an infinity or NaN; \<open>None\<close> is plus infinity.\<close>

definition response_score :: "quality_config \<Rightarrow> rat \<Rightarrow> rat option" where
  "response_score config avg =
     (if qc_max_response_time config = 0 then (if avg < 0 then None else Some 0)
      else Some (max 0 (double_of (1 - double_of (avg / qc_max_response_time config)))))"

definition success_score :: "node_quality \<Rightarrow> rat \<Rightarrow> rat" where
  "success_score q score =
     (let total_requests = nq_successful_requests q + nq_failed_requests q
      in if total_requests > 0 then
           (let success_rate = double_of (of_int (nq_successful_requests q) / of_int total_requests)
            in double_of (score + double_of (success_rate * double_0_4)))
         else score)"

definition update_quality_score :: "quality_config \<Rightarrow> node_quality \<Rightarrow> node_quality" where
  "update_quality_score config q =
     (let score0 = double_of (0 + double_of (get_initial_quality_score (nq_status q) * double_0_3));
          score1 = (if nq_response_times q \<noteq> [] then
             (case response_score config (average_time (nq_response_times q)) of
                None \<Rightarrow> None
              | Some r \<Rightarrow> Some (double_of (score0 + double_of (r * double_0_3))))
             else Some score0)
      in q\<lparr>nq_quality_score := (case score1 of None \<Rightarrow> 1 | Some s \<Rightarrow> min (success_score q s) 1)\<rparr>)"

definition nt_update_status :: "node_quality \<Rightarrow> 'w clock \<Rightarrow> string \<Rightarrow> node_quality_status \<Rightarrow> quality_tracker \<Rightarrow> 'w \<Rightarrow> quality_tracker \<times> 'w" where
  "nt_update_status fresh clk node_id status qt w =
     (case smap_find (qt_nodes qt) node_id of
        Some q \<Rightarrow>
          (let (now, w1) = clk w
           in (qt\<lparr>qt_nodes := smap_update node_id (q\<lparr>nq_status := status, nq_last_updated := now\<rparr>) (qt_nodes qt)\<rparr>, w1))
      | None \<Rightarrow>
          (let (updated, w1) = clk w; (created, w2) = clk w1;
               q = fresh\<lparr>nq_node_id := node_id, nq_status := status, nq_quality_score := get_initial_quality_score status,
                 nq_response_times := [], nq_successful_requests := 0, nq_failed_requests := 0, nq_last_updated := updated,
                 nq_created_at := created\<rparr>
           in (qt\<lparr>qt_nodes := smap_update node_id q (qt_nodes qt)\<rparr>, w2)))"

definition nt_get_status :: "string \<Rightarrow> quality_tracker \<Rightarrow> node_quality_status" where
  "nt_get_status node_id qt = (case smap_find (qt_nodes qt) node_id of Some q \<Rightarrow> nq_status q | None \<Rightarrow> NQ_UNKNOWN)"

definition add_response_time :: "quality_config \<Rightarrow> int \<Rightarrow> node_quality \<Rightarrow> node_quality" where
  "add_response_time config response_time q =
     (let times = nq_response_times q @ [response_time];
          times' = (if length times > qc_max_response_history config then tl times else times)
      in update_quality_score config (q\<lparr>nq_response_times := times'\<rparr>))"

definition nt_update_response_time :: "'w clock \<Rightarrow> string \<Rightarrow> int \<Rightarrow> quality_tracker \<Rightarrow> 'w \<Rightarrow> quality_tracker \<times> 'w" where
  "nt_update_response_time clk node_id response_time qt w =
     (case smap_find (qt_nodes qt) node_id of
        Some q \<Rightarrow>
          (let q1 = add_response_time (qt_config qt) response_time q; (now, w1) = clk w
           in (qt\<lparr>qt_nodes := smap_update node_id (q1\<lparr>nq_last_updated := now\<rparr>) (qt_nodes qt)\<rparr>, w1))
      | None \<Rightarrow> (qt, w))"

definition nt_blacklist :: "node_quality \<Rightarrow> 'w clock \<Rightarrow> string \<Rightarrow> string \<Rightarrow> quality_tracker \<Rightarrow> 'w \<Rightarrow> quality_tracker \<times> 'w" where
  "nt_blacklist fresh clk node_id reason qt w =
     (case smap_find (qt_nodes qt) node_id of
        Some q \<Rightarrow>
          (let (now, w1) = clk w
           in (qt\<lparr>qt_nodes := smap_update node_id
                 (q\<lparr>nq_status := NQ_BAD, nq_blacklist_reason := reason, nq_blacklisted_at := now, nq_quality_score := 0\<rparr>) (qt_nodes qt)\<rparr>, w1))
      | None \<Rightarrow>
          (let (blacklisted, w1) = clk w; (created, w2) = clk w1; (updated, w3) = clk w2;
               q = fresh\<lparr>nq_node_id := node_id, nq_status := NQ_BAD, nq_quality_score := 0, nq_blacklist_reason := reason,
                 nq_blacklisted_at := blacklisted, nq_created_at := created, nq_last_updated := updated\<rparr>
           in (qt\<lparr>qt_nodes := smap_update node_id q (qt_nodes qt)\<rparr>, w3)))"

definition nt_quality_score :: "string \<Rightarrow> quality_tracker \<Rightarrow> rat" where
  "nt_quality_score node_id qt = (case smap_find (qt_nodes qt) node_id of Some q \<Rightarrow> nq_quality_score q | None \<Rightarrow> 0)"

definition nt_get_quality :: "string \<Rightarrow> quality_tracker \<Rightarrow> node_quality option" where
  "nt_get_quality node_id qt = smap_find (qt_nodes qt) node_id"

definition nt_nodes_by_status :: "node_quality_status \<Rightarrow> quality_tracker \<Rightarrow> string list" where
  "nt_nodes_by_status status qt = map fst (filter (\<lambda>(k, q). nq_status q = status) (qt_nodes qt))"

definition nt_good_nodes :: "quality_tracker \<Rightarrow> string list" where
  "nt_good_nodes = nt_nodes_by_status NQ_GOOD"

definition nt_bad_nodes :: "quality_tracker \<Rightarrow> string list" where
  "nt_bad_nodes = nt_nodes_by_status NQ_BAD"

definition nt_unknown_nodes :: "quality_tracker \<Rightarrow> string list" where
  "nt_unknown_nodes = nt_nodes_by_status NQ_UNKNOWN"

definition nt_blacklisted_nodes :: "quality_tracker \<Rightarrow> string list" where
  "nt_blacklisted_nodes qt = map fst (filter (\<lambda>(k, q). nq_blacklist_reason q \<noteq> []) (qt_nodes qt))"

definition nt_node_count :: "quality_tracker \<Rightarrow> int" where
  "nt_node_count qt = int (length (qt_nodes qt))"

fun count_if :: "('a \<Rightarrow> bool) \<Rightarrow> int \<Rightarrow> 'a list \<Rightarrow> int" where
  "count_if P n [] = n"
| "count_if P n (x # xs) = count_if P (if P x then n + 1 else n) xs"

definition nt_count_by_status :: "node_quality_status \<Rightarrow> quality_tracker \<Rightarrow> int" where
  "nt_count_by_status status qt = count_if (\<lambda>(k, q). nq_status q = status) 0 (qt_nodes qt)"

definition nt_good_count :: "quality_tracker \<Rightarrow> int" where
  "nt_good_count = nt_count_by_status NQ_GOOD"

definition nt_bad_count :: "quality_tracker \<Rightarrow> int" where
  "nt_bad_count = nt_count_by_status NQ_BAD"

definition nt_unknown_count :: "quality_tracker \<Rightarrow> int" where
  "nt_unknown_count = nt_count_by_status NQ_UNKNOWN"

definition nt_blacklisted_count :: "quality_tracker \<Rightarrow> int" where
  "nt_blacklisted_count qt = count_if (\<lambda>(k, q). nq_blacklist_reason q \<noteq> []) 0 (qt_nodes qt)"

definition nt_average_quality_score :: "quality_tracker \<Rightarrow> rat" where
  "nt_average_quality_score qt =
     (if qt_nodes qt = [] then 0
      else double_of (foldl (\<lambda>total (k, q). double_of (total + nq_quality_score q)) 0 (qt_nodes qt) / double_of (of_nat (length (qt_nodes qt)))))"

definition nt_average_response_time :: "string \<Rightarrow> quality_tracker \<Rightarrow> rat" where
  "nt_average_response_time node_id qt =
     (case smap_find (qt_nodes qt) node_id of
        Some q \<Rightarrow> if nq_response_times q \<noteq> [] then average_time (nq_response_times q) else 0
      | None \<Rightarrow> 0)"

definition nt_clear_expired :: "'w clock \<Rightarrow> quality_tracker \<Rightarrow> 'w \<Rightarrow> quality_tracker \<times> 'w" where
  "nt_clear_expired clk qt w =
     (let (now, w1) = clk w
      in (qt\<lparr>qt_nodes := filter (\<lambda>(k, q). \<not> now - nq_last_updated q > milliseconds (qc_node_timeout (qt_config qt))) (qt_nodes qt)\<rparr>, w1))"

definition nt_clear_all :: "quality_tracker \<Rightarrow> quality_tracker" where
  "nt_clear_all qt = qt\<lparr>qt_nodes := []\<rparr>"

definition nt_update_config :: "quality_config \<Rightarrow> quality_tracker \<Rightarrow> quality_tracker" where
  "nt_update_config config qt = qt\<lparr>qt_config := config\<rparr>"

definition nt_health_status :: "quality_tracker \<Rightarrow> (string, string) smap" where
  "nt_health_status qt =
     smap_update ''average_quality_score'' (to_string_double (nt_average_quality_score qt))
       (smap_update ''blacklisted_nodes'' (to_string (nt_blacklisted_count qt))
         (smap_update ''unknown_nodes'' (to_string (nt_unknown_count qt))
           (smap_update ''bad_nodes'' (to_string (nt_bad_count qt))
             (smap_update ''good_nodes'' (to_string (nt_good_count qt))
               (smap_update ''total_nodes'' (to_string (nt_node_count qt)) [])))))"

section \<open>The score\<close>

lemma initial_score_range: "0 \<le> get_initial_quality_score status \<and> get_initial_quality_score status \<le> 1"
  by (cases status) (simp_all add: get_initial_quality_score_def double_0_8_def double_0_5_def double_0_2_def)

lemma response_score_nonneg: "response_score config avg = Some r \<Longrightarrow> 0 \<le> r"
  by (auto simp: response_score_def split: if_splits)

definition counts_ok :: "node_quality \<Rightarrow> bool" where
  "counts_ok q \<longleftrightarrow> 0 \<le> nq_successful_requests q \<and> 0 \<le> nq_failed_requests q"

lemma success_score_nonneg: "counts_ok q \<Longrightarrow> 0 \<le> s \<Longrightarrow> 0 \<le> success_score q s"
  unfolding success_score_def Let_def counts_ok_def
  by (simp add: accumulate_nonneg double_of_nonneg double_0_4_def del: times_divide_eq_right)

lemma update_quality_score_range:
  assumes "counts_ok q"
  shows "0 \<le> nq_quality_score (update_quality_score config q)"
proof -
  let ?s0 = "double_of (0 + double_of (get_initial_quality_score (nq_status q) * double_0_3))"
  have c: "0 \<le> double_0_3" by (simp add: double_0_3_def)
  have s0: "0 \<le> ?s0"
    using initial_score_range [of "nq_status q"] c by (intro accumulate_nonneg) auto
  have "0 \<le> double_of (?s0 + double_of (r * double_0_3))" if "response_score config (average_time (nq_response_times q)) = Some r" for r
    using accumulate_nonneg [OF s0 response_score_nonneg [OF that] c] .
  with s0 success_score_nonneg [OF assms] show ?thesis
    by (auto simp: update_quality_score_def Let_def split: option.splits)
qed

lemma update_quality_score_le_1: "nq_quality_score (update_quality_score config q) \<le> 1"
  by (simp add: update_quality_score_def Let_def split: option.splits)

section \<open>Response times\<close>

lemma update_quality_score_frame [frame_laws]:
  "nq_response_times (update_quality_score config q) = nq_response_times q"
  "nq_successful_requests (update_quality_score config q) = nq_successful_requests q"
  "nq_failed_requests (update_quality_score config q) = nq_failed_requests q" "nq_node_id (update_quality_score config q) = nq_node_id q"
  by (simp_all add: update_quality_score_def Let_def)

interpretation response_window: sliding_window "\<lambda>q t. add_response_time config t q" nq_response_times "\<lambda>q. qc_max_response_history config" Some
  by unfold_locales (simp_all add: add_response_time_def frame_laws Let_def)

text \<open>A sequence of measured response times of several nodes.\<close>

definition nt_measure :: "'w clock \<Rightarrow> quality_tracker \<times> 'w \<Rightarrow> string \<times> int \<Rightarrow> quality_tracker \<times> 'w" where
  "nt_measure clk s m = nt_update_response_time clk (fst m) (snd m) (fst s) (snd s)"

definition times_of :: "string \<Rightarrow> (string \<times> int) list \<Rightarrow> int list" where
  "times_of n ms = map snd (filter (\<lambda>m. fst m = n) ms)"

lemma nt_measure_times:
  assumes "smap_find (qt_nodes (fst s)) n = Some q"
  obtains q' where "smap_find (qt_nodes (fst (nt_measure clk s m))) n = Some q'"
    "nq_response_times q' = (if fst m = n then nq_response_times (add_response_time (qt_config (fst s)) (snd m) q) else nq_response_times q)"
    "qt_config (fst (nt_measure clk s m)) = qt_config (fst s)"
proof (rule that [of "the (smap_find (qt_nodes (fst (nt_measure clk s m))) n)"])
qed (use assms in \<open>auto simp: nt_measure_def nt_update_response_time_def case_prod_beta Let_def split: option.splits\<close>)

lemma measured_window:
  assumes "smap_find (qt_nodes (fst s)) n = Some q" "nq_response_times q = last_n (qc_max_response_history (qt_config (fst s))) hist"
  shows "\<exists>q'. smap_find (qt_nodes (fst (foldl (nt_measure clk) s ms))) n = Some q'
    \<and> nq_response_times q' = last_n (qc_max_response_history (qt_config (fst s))) (hist @ times_of n ms)"
  using assms
proof (induction ms arbitrary: s q hist)
  case Nil
  then show ?case by (simp add: times_of_def)
next
  case (Cons m ms)
  obtain q' where q': "smap_find (qt_nodes (fst (nt_measure clk s m))) n = Some q'"
    "nq_response_times q' = (if fst m = n then nq_response_times (add_response_time (qt_config (fst s)) (snd m) q) else nq_response_times q)"
    "qt_config (fst (nt_measure clk s m)) = qt_config (fst s)"
    using nt_measure_times [OF Cons.prems(1)] by metis
  have h: "nq_response_times q' = last_n (qc_max_response_history (qt_config (fst s))) (hist @ times_of n [m])"
    using q'(2) Cons.prems(2) response_window.window_history [of q "qt_config (fst s)" hist "[snd m]"]
    by (simp add: times_of_def map_filter_simps)
  have "times_of n (m # ms) = times_of n [m] @ times_of n ms" by (simp add: times_of_def)
  with Cons.IH [OF q'(1), unfolded q'(3), OF h] show ?case by simp
qed

section \<open>The machine\<close>

text \<open>\<open>F\<close> is the set of values that an uninitialised \<^verbatim>\<open>NodeQuality\<close> may have; each creation of a node may find another.\<close>

inductive quality_step :: "node_quality set \<Rightarrow> 'w clock \<Rightarrow> quality_tracker \<times> 'w \<Rightarrow> quality_tracker \<times> 'w \<Rightarrow> bool"
  for F :: "node_quality set" and clk :: "'w clock" where
  status: "fresh \<in> F \<Longrightarrow> quality_step F clk (qt, w) (nt_update_status fresh clk n st qt w)"
| response: "quality_step F clk (qt, w) (nt_update_response_time clk n t qt w)"
| blacklist: "fresh \<in> F \<Longrightarrow> quality_step F clk (qt, w) (nt_blacklist fresh clk n reason qt w)"
| clear_expired: "quality_step F clk (qt, w) (nt_clear_expired clk qt w)"
| clear_all: "quality_step F clk (qt, w) (nt_clear_all qt, w)"
| config: "quality_step F clk (qt, w) (nt_update_config c qt, w)"
| tick: "quality_step F clk (qt, w) (qt, w')"

definition quality_init :: "quality_tracker \<times> 'w \<Rightarrow> bool" where
  "quality_init s \<longleftrightarrow> (\<exists>config w. s = (new_quality_tracker config, w))"

definition request_counts :: "node_quality \<Rightarrow> int \<times> int" where
  "request_counts q = (nq_successful_requests q, nq_failed_requests q)"

definition quality_ok :: "node_quality set \<Rightarrow> string \<Rightarrow> node_quality \<Rightarrow> bool" where
  "quality_ok F k q \<longleftrightarrow> nq_node_id q = k \<and> request_counts q \<in> insert (0, 0) (request_counts ` F)
     \<and> (counts_ok q \<longrightarrow> 0 \<le> nq_quality_score q) \<and> nq_quality_score q \<le> 1"

definition quality_inv :: "node_quality set \<Rightarrow> quality_tracker \<times> 'w \<Rightarrow> bool" where
  "quality_inv F = (\<lambda>(qt, w). smap_ok (qt_nodes qt) \<and> (\<forall>k q. smap_find (qt_nodes qt) k = Some q \<longrightarrow> quality_ok F k q))"

lemma counts_ok_request: "counts_ok q \<longleftrightarrow> 0 \<le> fst (request_counts q) \<and> 0 \<le> snd (request_counts q)"
  by (simp add: counts_ok_def request_counts_def)

lemma request_counts_frame [simp]:
  "request_counts (q\<lparr>nq_response_times := ts\<rparr>) = request_counts q" "request_counts (q\<lparr>nq_last_updated := t\<rparr>) = request_counts q"
  "request_counts (q\<lparr>nq_status := st\<rparr>) = request_counts q" "request_counts (q\<lparr>nq_quality_score := x\<rparr>) = request_counts q"
  "request_counts (q\<lparr>nq_blacklist_reason := r\<rparr>) = request_counts q" "request_counts (q\<lparr>nq_blacklisted_at := t\<rparr>) = request_counts q"
  "request_counts (q\<lparr>nq_node_id := k\<rparr>) = request_counts q" "request_counts (q\<lparr>nq_created_at := t\<rparr>) = request_counts q"
  "request_counts (update_quality_score config q) = request_counts q"
  by (simp_all add: request_counts_def frame_laws)

lemma quality_ok_response: "quality_ok F k q \<Longrightarrow> quality_ok F k ((add_response_time config r q)\<lparr>nq_last_updated := t\<rparr>)"
proof -
  assume q: "quality_ok F k q"
  obtain ts where eq: "add_response_time config r q = update_quality_score config (q\<lparr>nq_response_times := ts\<rparr>)"
    by (simp add: add_response_time_def Let_def)
  from update_quality_score_range [of "q\<lparr>nq_response_times := ts\<rparr>"] update_quality_score_le_1 q show ?thesis
    unfolding eq by (auto simp: quality_ok_def counts_ok_request frame_laws)
qed

lemma quality_inv_put: "quality_inv F (qt, w) \<Longrightarrow> quality_ok F k q \<Longrightarrow> quality_inv F (qt\<lparr>qt_nodes := smap_update k q (qt_nodes qt)\<rparr>, w')"
  by (auto simp: quality_inv_def)

lemma quality_inv_step:
  assumes "quality_step F clk s t" "quality_inv F s"
  shows "quality_inv F t"
  using assms(1)
proof cases
  case (status fresh qt w n st)
  have "quality_ok F n q" if "smap_find (qt_nodes qt) n = Some q" for q using that assms(2) status by (auto simp: quality_inv_def)
  with status assms(2) initial_score_range [of st] show ?thesis
    by (auto simp: nt_update_status_def case_prod_beta Let_def quality_ok_def counts_ok_request request_counts_def
        intro!: quality_inv_put split: option.splits)
next
  case (response qt w n r)
  then show ?thesis
    using assms(2) by (auto simp: nt_update_response_time_def case_prod_beta Let_def quality_inv_def
        intro!: quality_ok_response split: option.splits)
next
  case (blacklist fresh qt w n reason)
  have "quality_ok F n q" if "smap_find (qt_nodes qt) n = Some q" for q using that assms(2) blacklist by (auto simp: quality_inv_def)
  with blacklist assms(2) show ?thesis
    by (auto simp: nt_blacklist_def case_prod_beta Let_def quality_ok_def intro!: quality_inv_put split: option.splits)
next
  case (clear_expired qt w)
  define P where "P q \<longleftrightarrow> \<not> fst (clk w) - nq_last_updated q > milliseconds (qc_node_timeout (qt_config qt))" for q :: node_quality
  have "t = (qt\<lparr>qt_nodes := filter (\<lambda>p. P (snd p)) (qt_nodes qt)\<rparr>, snd (clk w))"
    using clear_expired by (auto simp: nt_clear_expired_def case_prod_unfold P_def Let_def)
  with clear_expired assms(2) show ?thesis
    by (auto simp: quality_inv_def map_of_filter_snd split: option.splits if_splits)
qed (use assms(2) in \<open>auto simp: nt_clear_all_def nt_update_config_def quality_inv_def\<close>)

interpretation quality_system: invariant_system quality_init "quality_step F clk" "quality_inv F"
proof
  show "quality_init s \<Longrightarrow> quality_inv F s" for s :: "quality_tracker \<times> 'a"
    by (auto simp: quality_init_def quality_inv_def new_quality_tracker_def)
qed (rule quality_inv_step)

section \<open>Properties\<close>

text \<open>C31: Scores and response times in every reachable state of the node quality tracker, whatever values \<open>F\<close> the uninitialised variables of \<^verbatim>\<open>blacklistNode\<close> have. A node is stored
  under its own id with a score of at most 1, and of at least 0 when its request counters are not negative. No operation counts a request: the counters are 0 or are still
  what the uninitialised variable held, so that with zeroed variables every score is between 0 and 1 and the success rate, worth 0.4 of it, never enters it. After
  any further sequence of measured response times, of any nodes, a node that had none keeps the last \<^verbatim>\<open>max_response_history\<close> of its own, in order.\<close>

theorem node_quality_in_range:
  assumes "reachable quality_init (quality_step F clk) (qt, w)" "smap_find (qt_nodes qt) n = Some q"
  shows "nq_node_id q = n \<and> nq_quality_score q \<le> 1
    \<and> (0 \<le> nq_successful_requests q \<and> 0 \<le> nq_failed_requests q \<longrightarrow> 0 \<le> nq_quality_score q)
    \<and> (nq_successful_requests q = 0 \<and> nq_failed_requests q = 0
        \<or> (\<exists>fresh \<in> F. nq_successful_requests q = nq_successful_requests fresh \<and> nq_failed_requests q = nq_failed_requests fresh))
    \<and> (nq_response_times q = [] \<longrightarrow> (\<exists>q'. smap_find (qt_nodes (fst (foldl (nt_measure clk) (qt, w) ms))) n = Some q'
         \<and> nq_response_times q' = last_n (qc_max_response_history (qt_config qt)) (times_of n ms)))"
proof -
  have "quality_inv F (qt, w)" using assms(1) by (rule quality_system.inv_reachable)
  then have "quality_ok F n q" using assms(2) by (simp add: quality_inv_def)
  with measured_window [of "(qt, w)" n q "[]" clk ms] assms(2) show ?thesis
    by (auto simp: quality_ok_def request_counts_def counts_ok_def)
qed

definition demo_fresh :: node_quality where
  "demo_fresh = \<lparr>nq_node_id = [], nq_status = NQ_UNKNOWN, nq_quality_score = 0, nq_response_times = [], nq_successful_requests = 0,
     nq_failed_requests = 0, nq_last_updated = 0, nq_created_at = 0, nq_blacklist_reason = [], nq_blacklisted_at = 0\<rparr>"

definition demo_tracker :: "quality_tracker \<times> demo_world" where
  "demo_tracker = nt_update_status demo_fresh demo_tick ''n'' NQ_GOOD
     (new_quality_tracker \<lparr>qc_max_response_history = 2, qc_max_response_time = 1000, qc_node_timeout = 60000\<rparr>) demo_start"

theorem node_quality_in_range_witness:
  "nt_quality_score ''n'' (fst demo_tracker) \<le> 1
   \<and> (\<exists>q'. smap_find (qt_nodes (fst (foldl (nt_measure demo_tick) demo_tracker [(''n'', 10), (''m'', 5), (''n'', 20), (''n'', 30)]))) ''n'' = Some q'
        \<and> nq_response_times q' = [20, 30])"
proof -
  have "reachable quality_init (quality_step {demo_fresh} demo_tick) (fst demo_tracker, snd demo_tracker)"
    unfolding prod.collapse demo_tracker_def
    by (rule reachable.move, rule reachable.start, unfold quality_init_def) (blast intro: quality_step.status)+
  moreover obtain q where q: "smap_find (qt_nodes (fst demo_tracker)) ''n'' = Some q" "nq_response_times q = []"
    "qc_max_response_history (qt_config (fst demo_tracker)) = 2"
    by (simp add: demo_tracker_def nt_update_status_def new_quality_tracker_def demo_fresh_def case_prod_beta Let_def)
  moreover have "last_n 2 (times_of ''n'' [(''n'', 10), (''m'', 5), (''n'', 20), (''n'', 30)]) = [20, 30]"
    by (simp add: last_n_def times_of_def)
  ultimately show ?thesis
    using node_quality_in_range [of "{demo_fresh}" demo_tick "fst demo_tracker" "snd demo_tracker" "''n''" q "[(''n'', 10), (''m'', 5), (''n'', 20), (''n'', 30)]"]
    by (simp add: nt_quality_score_def)
qed

text \<open>A node on the blacklist whose status is set again is good and still listed as blacklisted; \<^verbatim>\<open>blacklistNode\<close> never sets the status \<^verbatim>\<open>BLACKLISTED\<close>.\<close>

lemma blacklist_survives_status:
  assumes "reason \<noteq> []"
  shows "nt_get_status n (fst (nt_blacklist fresh clk n reason qt w)) = NQ_BAD
    \<and> nt_get_status n (fst (nt_update_status fresh clk n NQ_GOOD (fst (nt_blacklist fresh clk n reason qt w)) w')) = NQ_GOOD
    \<and> (\<exists>q. nt_get_quality n (fst (nt_update_status fresh clk n NQ_GOOD (fst (nt_blacklist fresh clk n reason qt w)) w')) = Some q
         \<and> nq_blacklist_reason q = reason)"
  by (auto simp: nt_blacklist_def nt_update_status_def nt_get_status_def nt_get_quality_def case_prod_beta Let_def split: option.splits)

lemma count_if_filter: "count_if P n xs = n + int (length (filter P xs))"
  by (induction xs arbitrary: n) auto

text \<open>The counts agree with the lists.\<close>

lemma quality_counts_agree:
  "nt_count_by_status st qt = int (length (nt_nodes_by_status st qt)) \<and> nt_blacklisted_count qt = int (length (nt_blacklisted_nodes qt))"
  by (simp add: nt_count_by_status_def nt_nodes_by_status_def nt_blacklisted_count_def nt_blacklisted_nodes_def count_if_filter)

end
