(* ===== verification/Bep9_Resolver.thy ===== *)
theory Bep9_Resolver
  imports Double_Arithmetic Expiring_Store Sliding_Window State_Machine Performance_Monitor
begin

text \<open>
  \<^verbatim>\<open>BEP9IssueResolver\<close> as \<^verbatim>\<open>bep9_issue_resolver.cpp\<close> defines it: diagnoses of failed metadata exchanges, analyses of the message flow, patterns of failures and a log
  of disconnections. The header declares other members and other enumerations, so that the two files do not compile together;
  the state has the members that the source file uses, and the enumerations have the values it names. \<^verbatim>\<open>getRecentFailures\<close> and \<^verbatim>\<open>getMessagesForPeer\<close> return
  empty vectors, as in the source; what the functions do with other data is modelled in the functions \<open>..._from\<close>. A member that a
  function leaves without a value is \<open>None\<close>.
\<close>

section \<open>Definitions\<close>

datatype failure_type = FT_TIMEOUT | FT_CONNECTION | FT_PROTOCOL | FT_HANDSHAKE | FT_CAPABILITY | FT_MESSAGE
datatype issue_type = IT_UNKNOWN | IT_NO_DATA | IT_TIMEOUT | IT_CONNECTION | IT_PROTOCOL | IT_MIXED
datatype issue_severity = IS_LOW | IS_MEDIUM | IS_HIGH
datatype pattern_type = PT_UNKNOWN | PT_NO_DATA | PT_TIMEOUT_DOMINANT | PT_CONNECTION_DOMINANT | PT_PROTOCOL_DOMINANT
  | PT_HANDSHAKE_DOMINANT | PT_CAPABILITY_DOMINANT | PT_MESSAGE_DOMINANT | PT_MIXED
datatype message_status = MS_SUCCESS | MS_FAILED | MS_TIMEOUT

record flow_message =
  fm_status :: message_status
  fm_message_type :: string

record issue_diagnosis =
  dg_peer_ip :: string
  dg_peer_port :: int
  dg_info_hash :: string
  dg_timestamp :: time
  dg_issue_type :: issue_type
  dg_severity :: issue_severity
  dg_description :: string
  dg_recommendations :: "string list"

record flow_analysis =
  fa_peer_ip :: string
  fa_peer_port :: int
  fa_info_hash :: string
  fa_timestamp :: time
  fa_total_messages :: int
  fa_successful_messages :: int
  fa_failed_messages :: int
  fa_timeout_messages :: int
  fa_message_types :: "string \<rightharpoonup> int"
  fa_flow_efficiency :: rat
  fa_bottlenecks :: "string list"

record failure_pattern =
  fp_peer_ip :: string
  fp_peer_port :: "int option"
  fp_info_hash :: string
  fp_timestamp :: time
  fp_timeout_count :: int
  fp_connection_count :: int
  fp_protocol_count :: int
  fp_handshake_count :: int
  fp_capability_count :: int
  fp_message_count :: int
  fp_total_failures :: int
  fp_pattern_type :: pattern_type

record disconnection_record =
  dr_peer_ip :: string
  dr_peer_port :: int
  dr_info_hash :: string
  dr_reason :: string
  dr_timestamp :: time

record resolver_config =
  rsc_max_diagnoses :: nat
  rsc_max_analyses :: nat
  rsc_max_patterns :: nat
  rsc_max_disconnections :: nat
  rsc_data_retention :: int

record issue_resolver =
  rs_config :: resolver_config
  rs_issue_diagnoses :: "issue_diagnosis list"
  rs_message_flow_analyses :: "flow_analysis list"
  rs_failure_patterns :: "failure_pattern list"
  rs_disconnection_records :: "disconnection_record list"

definition new_issue_resolver :: "resolver_config \<Rightarrow> issue_resolver" where
  "new_issue_resolver config = \<lparr>rs_config = config, rs_issue_diagnoses = [], rs_message_flow_analyses = [], rs_failure_patterns = [],
     rs_disconnection_records = []\<rparr>"

definition get_recent_failures :: "string \<Rightarrow> int \<Rightarrow> string \<Rightarrow> failure_type list" where
  "get_recent_failures ip port info_hash = []"

definition get_messages_for_peer :: "string \<Rightarrow> int \<Rightarrow> string \<Rightarrow> flow_message list" where
  "get_messages_for_peer ip port info_hash = []"

definition count_failure :: "failure_type \<Rightarrow> failure_pattern \<Rightarrow> failure_pattern" where
  "count_failure f p =
     (case f of
        FT_TIMEOUT \<Rightarrow> p\<lparr>fp_timeout_count := fp_timeout_count p + 1\<rparr>
      | FT_CONNECTION \<Rightarrow> p\<lparr>fp_connection_count := fp_connection_count p + 1\<rparr>
      | FT_PROTOCOL \<Rightarrow> p\<lparr>fp_protocol_count := fp_protocol_count p + 1\<rparr>
      | FT_HANDSHAKE \<Rightarrow> p\<lparr>fp_handshake_count := fp_handshake_count p + 1\<rparr>
      | FT_CAPABILITY \<Rightarrow> p\<lparr>fp_capability_count := fp_capability_count p + 1\<rparr>
      | FT_MESSAGE \<Rightarrow> p\<lparr>fp_message_count := fp_message_count p + 1\<rparr>)"

definition empty_pattern :: "string \<Rightarrow> int option \<Rightarrow> string \<Rightarrow> time \<Rightarrow> failure_pattern" where
  "empty_pattern ip port info_hash now = \<lparr>fp_peer_ip = ip, fp_peer_port = port, fp_info_hash = info_hash, fp_timestamp = now, fp_timeout_count = 0,
     fp_connection_count = 0, fp_protocol_count = 0, fp_handshake_count = 0, fp_capability_count = 0, fp_message_count = 0, fp_total_failures = 0,
     fp_pattern_type = PT_UNKNOWN\<rparr>"

definition analyze_failure_pattern :: "'w clock \<Rightarrow> failure_type list \<Rightarrow> 'w \<Rightarrow> failure_pattern \<times> 'w" where
  "analyze_failure_pattern clk failures w =
     (let (now, w1) = clk w
      in (fold count_failure failures ((empty_pattern [] None [] now)\<lparr>fp_total_failures := int (length failures)\<rparr>), w1))"

text \<open>The decision of \<^verbatim>\<open>diagnoseFailure\<close> on the pattern.\<close>

definition decide_issue :: "failure_pattern \<Rightarrow> issue_diagnosis \<Rightarrow> issue_diagnosis" where
  "decide_issue p d =
     (if fp_timeout_count p > fp_connection_count p \<and> fp_timeout_count p > fp_protocol_count p then
        d\<lparr>dg_issue_type := IT_TIMEOUT, dg_severity := IS_HIGH, dg_description := ''Frequent timeout issues'',
          dg_recommendations := dg_recommendations d @ [''Increase timeout values'', ''Check network connectivity'']\<rparr>
      else if fp_connection_count p > fp_timeout_count p \<and> fp_connection_count p > fp_protocol_count p then
        d\<lparr>dg_issue_type := IT_CONNECTION, dg_severity := IS_HIGH, dg_description := ''Connection issues'',
          dg_recommendations := dg_recommendations d @ [''Check peer availability'', ''Verify network configuration'']\<rparr>
      else if fp_protocol_count p > fp_timeout_count p \<and> fp_protocol_count p > fp_connection_count p then
        d\<lparr>dg_issue_type := IT_PROTOCOL, dg_severity := IS_MEDIUM, dg_description := ''Protocol compatibility issues'',
          dg_recommendations := dg_recommendations d @ [''Check protocol version compatibility'', ''Verify message format'']\<rparr>
      else
        d\<lparr>dg_issue_type := IT_MIXED, dg_severity := IS_MEDIUM, dg_description := ''Mixed failure types'',
          dg_recommendations := dg_recommendations d @ [''Investigate multiple failure causes'']\<rparr>)"

definition diagnose_from :: "'w clock \<Rightarrow> failure_type list \<Rightarrow> string \<Rightarrow> int \<Rightarrow> string \<Rightarrow> issue_resolver \<Rightarrow> 'w
    \<Rightarrow> issue_diagnosis \<times> issue_resolver \<times> 'w" where
  "diagnose_from clk recent_failures ip port info_hash rs w =
     (let (now, w1) = clk w;
          d = \<lparr>dg_peer_ip = ip, dg_peer_port = port, dg_info_hash = info_hash, dg_timestamp = now, dg_issue_type = IT_UNKNOWN, dg_severity = IS_LOW,
            dg_description = ''Unknown issue'', dg_recommendations = []\<rparr>
      in if recent_failures = [] then
           (d\<lparr>dg_issue_type := IT_NO_DATA, dg_description := ''No failure data available'',
              dg_recommendations := [''Collect more failure data'']\<rparr>, rs, w1)
         else
           (let (p, w2) = analyze_failure_pattern clk recent_failures w1;
                d1 = decide_issue p d
            in (d1, rs\<lparr>rs_issue_diagnoses := push_limited (rsc_max_diagnoses (rs_config rs)) (rs_issue_diagnoses rs) d1\<rparr>, w2)))"

definition diagnose_failure :: "'w clock \<Rightarrow> string \<Rightarrow> int \<Rightarrow> string \<Rightarrow> issue_resolver \<Rightarrow> 'w \<Rightarrow> issue_diagnosis \<times> issue_resolver \<times> 'w" where
  "diagnose_failure clk ip port info_hash = diagnose_from clk (get_recent_failures ip port info_hash) ip port info_hash"

definition count_message :: "flow_message \<Rightarrow> flow_analysis \<Rightarrow> flow_analysis" where
  "count_message m a =
     (let a1 = (case fm_status m of
          MS_SUCCESS \<Rightarrow> a\<lparr>fa_successful_messages := fa_successful_messages a + 1\<rparr>
        | MS_FAILED \<Rightarrow> a\<lparr>fa_failed_messages := fa_failed_messages a + 1\<rparr>
        | MS_TIMEOUT \<Rightarrow> a\<lparr>fa_timeout_messages := fa_timeout_messages a + 1\<rparr>)
      in a1\<lparr>fa_message_types := count_into (fa_message_types a1) [fm_message_type m]\<rparr>)"

definition find_bottlenecks :: "flow_analysis \<Rightarrow> string list" where
  "find_bottlenecks a =
     (if of_int (fa_timeout_messages a) > double_of (of_int (fa_total_messages a) * (1 / 2)) then [''High timeout rate''] else [])
     @ (if of_int (fa_failed_messages a) > double_of (of_int (fa_total_messages a) * double_0_3) then [''High failure rate''] else [])
     @ (case fa_message_types a ''handshake'' of
          Some n \<Rightarrow> if of_int n > double_of (of_int (fa_total_messages a) * double_0_4) then [''Excessive handshake attempts''] else []
        | None \<Rightarrow> [])"

definition analyze_flow_from :: "'w clock \<Rightarrow> flow_message list \<Rightarrow> string \<Rightarrow> int \<Rightarrow> string \<Rightarrow> issue_resolver \<Rightarrow> 'w
    \<Rightarrow> flow_analysis \<times> issue_resolver \<times> 'w" where
  "analyze_flow_from clk messages ip port info_hash rs w =
     (let (now, w1) = clk w;
          a = \<lparr>fa_peer_ip = ip, fa_peer_port = port, fa_info_hash = info_hash, fa_timestamp = now, fa_total_messages = 0, fa_successful_messages = 0,
            fa_failed_messages = 0, fa_timeout_messages = 0, fa_message_types = Map.empty, fa_flow_efficiency = 0, fa_bottlenecks = []\<rparr>
      in if messages = [] then (a\<lparr>fa_flow_efficiency := 0, fa_bottlenecks := [''No message data available'']\<rparr>, rs, w1)
         else
           (let a1 = fold count_message messages (a\<lparr>fa_total_messages := int (length messages)\<rparr>);
                a2 = (if fa_total_messages a1 > 0
                  then a1\<lparr>fa_flow_efficiency := double_of (of_int (fa_successful_messages a1) / of_int (fa_total_messages a1))\<rparr> else a1);
                a3 = a2\<lparr>fa_bottlenecks := fa_bottlenecks a2 @ find_bottlenecks a2\<rparr>
            in (a3, rs\<lparr>rs_message_flow_analyses := push_limited (rsc_max_analyses (rs_config rs)) (rs_message_flow_analyses rs) a3\<rparr>, w1)))"

definition analyze_message_flow :: "'w clock \<Rightarrow> string \<Rightarrow> int \<Rightarrow> string \<Rightarrow> issue_resolver \<Rightarrow> 'w \<Rightarrow> flow_analysis \<times> issue_resolver \<times> 'w" where
  "analyze_message_flow clk ip port info_hash = analyze_flow_from clk (get_messages_for_peer ip port info_hash) ip port info_hash"

definition dominant_type :: "failure_pattern \<Rightarrow> pattern_type" where
  "dominant_type p =
     (let most = (\<lambda>n. of_int n > double_of (of_int (fp_total_failures p) * double_0_6))
      in if most (fp_timeout_count p) then PT_TIMEOUT_DOMINANT
         else if most (fp_connection_count p) then PT_CONNECTION_DOMINANT
         else if most (fp_protocol_count p) then PT_PROTOCOL_DOMINANT
         else if most (fp_handshake_count p) then PT_HANDSHAKE_DOMINANT
         else if most (fp_capability_count p) then PT_CAPABILITY_DOMINANT
         else if most (fp_message_count p) then PT_MESSAGE_DOMINANT
         else PT_MIXED)"

definition detect_pattern_from :: "'w clock \<Rightarrow> failure_type list \<Rightarrow> string \<Rightarrow> int \<Rightarrow> string \<Rightarrow> issue_resolver \<Rightarrow> 'w
    \<Rightarrow> failure_pattern \<times> issue_resolver \<times> 'w" where
  "detect_pattern_from clk failures ip port info_hash rs w =
     (let (now, w1) = clk w; p = empty_pattern ip (Some port) info_hash now
      in if failures = [] then (p\<lparr>fp_pattern_type := PT_NO_DATA\<rparr>, rs, w1)
         else
           (let p1 = fold count_failure failures (p\<lparr>fp_total_failures := int (length failures)\<rparr>);
                p2 = p1\<lparr>fp_pattern_type := dominant_type p1\<rparr>
            in (p2, rs\<lparr>rs_failure_patterns := push_limited (rsc_max_patterns (rs_config rs)) (rs_failure_patterns rs) p2\<rparr>, w1)))"

definition detect_failure_pattern :: "'w clock \<Rightarrow> string \<Rightarrow> int \<Rightarrow> string \<Rightarrow> issue_resolver \<Rightarrow> 'w \<Rightarrow> failure_pattern \<times> issue_resolver \<times> 'w" where
  "detect_failure_pattern clk ip port info_hash = detect_pattern_from clk (get_recent_failures ip port info_hash) ip port info_hash"

definition log_disconnection_reason :: "'w clock \<Rightarrow> string \<Rightarrow> int \<Rightarrow> string \<Rightarrow> string \<Rightarrow> issue_resolver \<Rightarrow> 'w \<Rightarrow> issue_resolver \<times> 'w" where
  "log_disconnection_reason clk ip port info_hash reason rs w =
     (let (now, w1) = clk w;
          r = \<lparr>dr_peer_ip = ip, dr_peer_port = port, dr_info_hash = info_hash, dr_reason = reason, dr_timestamp = now\<rparr>
      in (rs\<lparr>rs_disconnection_records := push_limited (rsc_max_disconnections (rs_config rs)) (rs_disconnection_records rs) r\<rparr>, w1))"

subsection \<open>Queries and clean-up\<close>

definition issue_diagnoses_by_peer :: "string \<Rightarrow> int \<Rightarrow> issue_resolver \<Rightarrow> issue_diagnosis list" where
  "issue_diagnoses_by_peer ip port rs = filter (\<lambda>d. dg_peer_ip d = ip \<and> dg_peer_port d = port) (rs_issue_diagnoses rs)"

definition flow_analyses_by_peer :: "string \<Rightarrow> int \<Rightarrow> issue_resolver \<Rightarrow> flow_analysis list" where
  "flow_analyses_by_peer ip port rs = filter (\<lambda>a. fa_peer_ip a = ip \<and> fa_peer_port a = port) (rs_message_flow_analyses rs)"

definition failure_patterns_by_peer :: "string \<Rightarrow> int \<Rightarrow> issue_resolver \<Rightarrow> failure_pattern list" where
  "failure_patterns_by_peer ip port rs = filter (\<lambda>p. fp_peer_ip p = ip \<and> fp_peer_port p = Some port) (rs_failure_patterns rs)"

definition disconnection_records_by_peer :: "string \<Rightarrow> int \<Rightarrow> issue_resolver \<Rightarrow> disconnection_record list" where
  "disconnection_records_by_peer ip port rs = filter (\<lambda>r. dr_peer_ip r = ip \<and> dr_peer_port r = port) (rs_disconnection_records rs)"

definition issue_diagnosis_count :: "issue_resolver \<Rightarrow> int" where
  "issue_diagnosis_count rs = int (length (rs_issue_diagnoses rs))"

definition message_flow_analysis_count :: "issue_resolver \<Rightarrow> int" where
  "message_flow_analysis_count rs = int (length (rs_message_flow_analyses rs))"

definition failure_pattern_count :: "issue_resolver \<Rightarrow> int" where
  "failure_pattern_count rs = int (length (rs_failure_patterns rs))"

definition disconnection_record_count :: "issue_resolver \<Rightarrow> int" where
  "disconnection_record_count rs = int (length (rs_disconnection_records rs))"

definition average_flow_efficiency :: "issue_resolver \<Rightarrow> rat" where
  "average_flow_efficiency rs =
     (if rs_message_flow_analyses rs = [] then 0
      else double_of (foldl (\<lambda>acc a. double_of (acc + fa_flow_efficiency a)) 0 (rs_message_flow_analyses rs)
             / double_of (of_nat (length (rs_message_flow_analyses rs)))))"

definition issue_type_counts :: "issue_resolver \<Rightarrow> issue_type \<rightharpoonup> int" where
  "issue_type_counts rs = count_into Map.empty (map dg_issue_type (rs_issue_diagnoses rs))"

definition issue_severity_counts :: "issue_resolver \<Rightarrow> issue_severity \<rightharpoonup> int" where
  "issue_severity_counts rs = count_into Map.empty (map dg_severity (rs_issue_diagnoses rs))"

definition pattern_type_counts :: "issue_resolver \<Rightarrow> pattern_type \<rightharpoonup> int" where
  "pattern_type_counts rs = count_into Map.empty (map fp_pattern_type (rs_failure_patterns rs))"

definition resolver_clear_expired :: "'w clock \<Rightarrow> issue_resolver \<Rightarrow> 'w \<Rightarrow> issue_resolver \<times> 'w" where
  "resolver_clear_expired clk rs w =
     (let (now, w1) = clk w; old = (\<lambda>t. now - t > milliseconds (rsc_data_retention (rs_config rs)))
      in (rs\<lparr>rs_issue_diagnoses := filter (\<lambda>d. \<not> old (dg_timestamp d)) (rs_issue_diagnoses rs),
           rs_message_flow_analyses := filter (\<lambda>a. \<not> old (fa_timestamp a)) (rs_message_flow_analyses rs),
           rs_failure_patterns := filter (\<lambda>p. \<not> old (fp_timestamp p)) (rs_failure_patterns rs),
           rs_disconnection_records := filter (\<lambda>r. \<not> old (dr_timestamp r)) (rs_disconnection_records rs)\<rparr>, w1))"

definition resolver_clear_all :: "issue_resolver \<Rightarrow> issue_resolver" where
  "resolver_clear_all rs = rs\<lparr>rs_issue_diagnoses := [], rs_message_flow_analyses := [], rs_failure_patterns := [], rs_disconnection_records := []\<rparr>"

definition resolver_update_config :: "resolver_config \<Rightarrow> issue_resolver \<Rightarrow> issue_resolver" where
  "resolver_update_config config rs = rs\<lparr>rs_config := config\<rparr>"

definition resolver_health_status :: "issue_resolver \<Rightarrow> (string, string) smap" where
  "resolver_health_status rs =
     fold (\<lambda>(k, v). smap_update k v)
       [(''issue_diagnoses'', to_string (issue_diagnosis_count rs)),
        (''message_flow_analyses'', to_string (message_flow_analysis_count rs)),
        (''failure_patterns'', to_string (failure_pattern_count rs)),
        (''disconnection_records'', to_string (disconnection_record_count rs)),
        (''average_flow_efficiency'', to_string_double (average_flow_efficiency rs)),
        (''data_retention'', to_string (rsc_data_retention (rs_config rs))),
        (''max_diagnoses'', show_nat (rsc_max_diagnoses (rs_config rs))),
        (''max_analyses'', show_nat (rsc_max_analyses (rs_config rs))),
        (''max_patterns'', show_nat (rsc_max_patterns (rs_config rs))),
        (''max_disconnections'', show_nat (rsc_max_disconnections (rs_config rs)))] []"


section \<open>Counting\<close>

lemma fold_count_failure:
  "fp_timeout_count (fold count_failure fs p) = fp_timeout_count p + int (count_list fs FT_TIMEOUT)
   \<and> fp_connection_count (fold count_failure fs p) = fp_connection_count p + int (count_list fs FT_CONNECTION)
   \<and> fp_protocol_count (fold count_failure fs p) = fp_protocol_count p + int (count_list fs FT_PROTOCOL)
   \<and> fp_handshake_count (fold count_failure fs p) = fp_handshake_count p + int (count_list fs FT_HANDSHAKE)
   \<and> fp_capability_count (fold count_failure fs p) = fp_capability_count p + int (count_list fs FT_CAPABILITY)
   \<and> fp_message_count (fold count_failure fs p) = fp_message_count p + int (count_list fs FT_MESSAGE)
   \<and> fp_total_failures (fold count_failure fs p) = fp_total_failures p"
proof (induction fs arbitrary: p)
  case (Cons f fs)
  then show ?case by (cases f) (simp_all add: count_failure_def)
qed simp

text \<open>What the diagnosis would be on given failures: the most frequent of timeouts, connection and protocol failures; the other three kinds never
  decide it.\<close>

definition leading_issue :: "failure_type list \<Rightarrow> issue_type" where
  "leading_issue fs =
     (let t = count_list fs FT_TIMEOUT; c = count_list fs FT_CONNECTION; p = count_list fs FT_PROTOCOL
      in if fs = [] then IT_NO_DATA else if t > c \<and> t > p then IT_TIMEOUT else if c > t \<and> c > p then IT_CONNECTION
         else if p > t \<and> p > c then IT_PROTOCOL else IT_MIXED)"

lemma diagnose_from_issue: "dg_issue_type (fst (diagnose_from clk fs ip port h rs w)) = leading_issue fs"
  using fold_count_failure [of fs]
  by (auto simp: diagnose_from_def leading_issue_def analyze_failure_pattern_def decide_issue_def case_prod_beta Let_def empty_pattern_def)

section \<open>The machine\<close>

inductive resolver_step :: "'w clock \<Rightarrow> issue_resolver \<times> 'w \<Rightarrow> issue_resolver \<times> 'w \<Rightarrow> bool" for clk :: "'w clock" where
  diagnose: "resolver_step clk (rs, w) (snd (diagnose_failure clk ip port h rs w))"
| analyze: "resolver_step clk (rs, w) (snd (analyze_message_flow clk ip port h rs w))"
| detect: "resolver_step clk (rs, w) (snd (detect_failure_pattern clk ip port h rs w))"
| disconnect: "resolver_step clk (rs, w) (log_disconnection_reason clk ip port h reason rs w)"
| clear_expired: "resolver_step clk (rs, w) (resolver_clear_expired clk rs w)"
| clear_all: "resolver_step clk (rs, w) (resolver_clear_all rs, w)"
| config: "resolver_step clk (rs, w) (resolver_update_config c rs, w)"
| tick: "resolver_step clk (rs, w) (rs, w')"

definition resolver_init :: "issue_resolver \<times> 'w \<Rightarrow> bool" where
  "resolver_init s \<longleftrightarrow> (\<exists>config w. s = (new_issue_resolver config, w))"

definition resolver_inv :: "issue_resolver \<times> 'w \<Rightarrow> bool" where
  "resolver_inv s \<longleftrightarrow> rs_issue_diagnoses (fst s) = [] \<and> rs_message_flow_analyses (fst s) = [] \<and> rs_failure_patterns (fst s) = []"

lemmas no_data = get_recent_failures_def get_messages_for_peer_def diagnose_failure_def diagnose_from_def analyze_message_flow_def
  analyze_flow_from_def detect_failure_pattern_def detect_pattern_from_def

interpretation resolver_system: invariant_system resolver_init "resolver_step clk" resolver_inv
proof
  show "resolver_init s \<Longrightarrow> resolver_inv s" for s :: "issue_resolver \<times> 'a"
    by (auto simp: resolver_init_def resolver_inv_def new_issue_resolver_def)
  show "resolver_inv t" if "resolver_inv s" "resolver_step clk s t" for s t :: "issue_resolver \<times> 'a"
    using that(2,1)
    by cases (auto simp: resolver_inv_def no_data case_prod_beta Let_def log_disconnection_reason_def resolver_clear_expired_def
        resolver_clear_all_def resolver_update_config_def)
qed

text \<open>The log of disconnections is a sliding window.\<close>

type_synonym disconnection = "string \<times> int \<times> string \<times> string"

definition log_op :: "'w clock \<Rightarrow> issue_resolver \<times> 'w \<Rightarrow> disconnection \<Rightarrow> issue_resolver \<times> 'w" where
  "log_op clk s = (\<lambda>(ip, port, h, reason). log_disconnection_reason clk ip port h reason (fst s) (snd s))"

definition logged :: "issue_resolver \<times> 'w \<Rightarrow> disconnection list" where
  "logged s = map (\<lambda>r. (dr_peer_ip r, dr_peer_port r, dr_info_hash r, dr_reason r)) (rs_disconnection_records (fst s))"

interpretation disconnections: sliding_window "log_op clk" logged "\<lambda>s. rsc_max_disconnections (rs_config (fst s))" Some
proof
  fix s :: "issue_resolver \<times> 'a" and op :: disconnection
  show "rsc_max_disconnections (rs_config (fst (log_op clk s op))) = rsc_max_disconnections (rs_config (fst s))"
    by (cases op) (simp add: log_op_def log_disconnection_reason_def case_prod_beta)
  show "logged (log_op clk s op) = (case Some op of None \<Rightarrow> logged s
      | Some x \<Rightarrow> let ys = logged s @ [x] in if length ys > rsc_max_disconnections (rs_config (fst s)) then tl ys else ys)"
    by (cases op) (simp add: log_op_def logged_def log_disconnection_reason_def case_prod_beta map_push_limited, simp add: push_limited_def)
qed

section \<open>Properties\<close>

text \<open>The resolver diagnoses nothing. Its sources of failures and messages return nothing, so in every reachable state \<^verbatim>\<open>diagnoseFailure\<close> and \<^verbatim>\<open>detectFailurePattern\<close> answer that
  there is no data, and no diagnosis, analysis or pattern is ever stored. What it keeps are the disconnections: from a state without any, after a sequence of logged
  disconnections the records are the last \<^verbatim>\<open>max_disconnections\<close> of them in order.\<close>

theorem resolver_never_diagnoses:
  assumes "reachable resolver_init (resolver_step clk) (rs, w)"
  shows "rs_issue_diagnoses rs = [] \<and> rs_message_flow_analyses rs = [] \<and> rs_failure_patterns rs = []
    \<and> dg_issue_type (fst (diagnose_failure clk ip port h rs w)) = IT_NO_DATA
    \<and> fp_pattern_type (fst (detect_failure_pattern clk ip port h rs w)) = PT_NO_DATA
    \<and> (rs_disconnection_records rs = [] \<longrightarrow>
         logged (foldl (log_op clk) (rs, w) ds) = last_n (rsc_max_disconnections (rs_config rs)) ds)"
proof -
  have "resolver_inv (rs, w)" using assms by (rule resolver_system.inv_reachable)
  moreover have "logged (foldl (log_op clk) (rs, w) ds) = last_n (rsc_max_disconnections (rs_config rs)) ds" if "rs_disconnection_records rs = []"
    using disconnections.window_history [of "(rs, w)" "[]" clk ds] that by (simp add: logged_def map_filter_def comp_def)
  ultimately show ?thesis
    by (simp add: resolver_inv_def no_data case_prod_beta Let_def)
qed

definition demo_resolver :: issue_resolver where
  "demo_resolver = new_issue_resolver \<lparr>rsc_max_diagnoses = 10, rsc_max_analyses = 10, rsc_max_patterns = 10, rsc_max_disconnections = 2,
     rsc_data_retention = 60000\<rparr>"

theorem resolver_never_diagnoses_witness:
  "dg_issue_type (fst (diagnose_failure demo_tick ''p'' 1 ''h'' demo_resolver demo_start)) = IT_NO_DATA
   \<and> logged (foldl (log_op demo_tick) (demo_resolver, demo_start) [(''a'', 1, ''h'', ''x''), (''b'', 2, ''h'', ''y''), (''c'', 3, ''h'', ''z'')])
       = [(''b'', 2, ''h'', ''y''), (''c'', 3, ''h'', ''z'')]"
proof -
  have "reachable resolver_init (resolver_step demo_tick) (demo_resolver, demo_start)"
    by (rule reachable.start) (auto simp: resolver_init_def demo_resolver_def)
  note th = resolver_never_diagnoses [OF this]
  have "rs_disconnection_records demo_resolver = []" "rsc_max_disconnections (rs_config demo_resolver) = 2"
    by (simp_all add: demo_resolver_def new_issue_resolver_def)
  with th show ?thesis by (simp add: last_n_def del: foldl_Cons)
qed

end
