(* ===== verification/Extension_Diagnostics.thy ===== *)
theory Extension_Diagnostics
  imports Double_Arithmetic Expiring_Store Sliding_Window State_Machine Performance_Monitor
begin

text \<open>
  \<^verbatim>\<open>ExtensionProtocolDiagnostics\<close> as \<^verbatim>\<open>extension_protocol_diagnostics.cpp\<close> defines it: logs of handshakes, capability negotiations and messages, and the rates and counts
  computed from them. The header declares other members and other enumerations, so that the two files do not compile together; the
  state has the members that the source file uses, and the enumerations have the values it names. Strings that a function does
  not set are empty, as \<^verbatim>\<open>std::string\<close> starts.
\<close>

section \<open>Definitions\<close>

datatype handshake_status = HS_INITIATED | HS_SUCCESS | HS_FAILED
datatype negotiation_status = NS_IN_PROGRESS | NS_SUCCESS | NS_FAILED
datatype protocol_status = PS_RECEIVED | PS_SUCCESS | PS_FAILED
datatype extension_error = EE_TIMEOUT | EE_CONNECTION | EE_PROTOCOL | EE_HANDSHAKE | EE_CAPABILITY | EE_MESSAGE | EE_UNKNOWN

record handshake_attempt =
  ha_peer_ip :: string
  ha_peer_port :: int
  ha_info_hash :: string
  ha_timestamp :: time
  ha_status :: handshake_status
  ha_error_message :: string

record capability_negotiation =
  cn_peer_ip :: string
  cn_peer_port :: int
  cn_info_hash :: string
  cn_capabilities :: "string list"
  cn_timestamp :: time
  cn_status :: negotiation_status
  cn_error_message :: string

record protocol_message =
  pmg_peer_ip :: string
  pmg_peer_port :: int
  pmg_info_hash :: string
  pmg_message_type :: string
  pmg_message_data :: string
  pmg_timestamp :: time
  pmg_status :: protocol_status
  pmg_error_message :: string

record diagnostics_config =
  dx_max_handshake_attempts :: nat
  dx_max_negotiations :: nat
  dx_max_messages :: nat
  dx_data_retention :: int

record diagnostics =
  ed_config :: diagnostics_config
  ed_handshake_attempts :: "handshake_attempt list"
  ed_capability_negotiations :: "capability_negotiation list"
  ed_protocol_messages :: "protocol_message list"

definition new_diagnostics :: "diagnostics_config \<Rightarrow> diagnostics" where
  "new_diagnostics config = \<lparr>ed_config = config, ed_handshake_attempts = [], ed_capability_negotiations = [], ed_protocol_messages = []\<rparr>"

definition log_handshake_attempt :: "'w clock \<Rightarrow> string \<Rightarrow> int \<Rightarrow> string \<Rightarrow> diagnostics \<Rightarrow> 'w \<Rightarrow> diagnostics \<times> 'w" where
  "log_handshake_attempt clk ip port info_hash ed w =
     (let (now, w1) = clk w;
          a = \<lparr>ha_peer_ip = ip, ha_peer_port = port, ha_info_hash = info_hash, ha_timestamp = now, ha_status = HS_INITIATED, ha_error_message = []\<rparr>
      in (ed\<lparr>ed_handshake_attempts := push_limited (dx_max_handshake_attempts (ed_config ed)) (ed_handshake_attempts ed) a\<rparr>, w1))"

definition log_capability_negotiation :: "'w clock \<Rightarrow> string \<Rightarrow> int \<Rightarrow> string \<Rightarrow> string list \<Rightarrow> diagnostics \<Rightarrow> 'w \<Rightarrow> diagnostics \<times> 'w" where
  "log_capability_negotiation clk ip port info_hash capabilities ed w =
     (let (now, w1) = clk w;
          n = \<lparr>cn_peer_ip = ip, cn_peer_port = port, cn_info_hash = info_hash, cn_capabilities = capabilities, cn_timestamp = now,
            cn_status = NS_IN_PROGRESS, cn_error_message = []\<rparr>
      in (ed\<lparr>ed_capability_negotiations := push_limited (dx_max_negotiations (ed_config ed)) (ed_capability_negotiations ed) n\<rparr>, w1))"

definition log_message :: "'w clock \<Rightarrow> string \<Rightarrow> int \<Rightarrow> string \<Rightarrow> string \<Rightarrow> string \<Rightarrow> diagnostics \<Rightarrow> 'w \<Rightarrow> diagnostics \<times> 'w" where
  "log_message clk ip port info_hash message_type message_data ed w =
     (let (now, w1) = clk w;
          m = \<lparr>pmg_peer_ip = ip, pmg_peer_port = port, pmg_info_hash = info_hash, pmg_message_type = message_type, pmg_message_data = message_data,
            pmg_timestamp = now, pmg_status = PS_RECEIVED, pmg_error_message = []\<rparr>
      in (ed\<lparr>ed_protocol_messages := push_limited (dx_max_messages (ed_config ed)) (ed_protocol_messages ed) m\<rparr>, w1))"

definition classify_error :: "string \<Rightarrow> extension_error" where
  "classify_error error_message =
     (if contains_str error_message ''timeout'' then EE_TIMEOUT
      else if contains_str error_message ''connection'' then EE_CONNECTION
      else if contains_str error_message ''protocol'' then EE_PROTOCOL
      else if contains_str error_message ''handshake'' then EE_HANDSHAKE
      else if contains_str error_message ''capability'' then EE_CAPABILITY
      else if contains_str error_message ''message'' then EE_MESSAGE
      else EE_UNKNOWN)"

definition detect_compatibility :: "string \<Rightarrow> int \<Rightarrow> string \<Rightarrow> diagnostics \<Rightarrow> bool" where
  "detect_compatibility ip port info_hash ed \<longleftrightarrow>
     list_ex (\<lambda>a. ha_peer_ip a = ip \<and> ha_peer_port a = port \<and> ha_info_hash a = info_hash \<and> ha_status a = HS_SUCCESS) (ed_handshake_attempts ed)
     \<or> list_ex (\<lambda>n. cn_peer_ip n = ip \<and> cn_peer_port n = port \<and> cn_info_hash n = info_hash \<and> cn_status n = NS_SUCCESS)
         (ed_capability_negotiations ed)"

subsection \<open>Queries\<close>

definition handshake_attempts_by_peer :: "string \<Rightarrow> int \<Rightarrow> diagnostics \<Rightarrow> handshake_attempt list" where
  "handshake_attempts_by_peer ip port ed = filter (\<lambda>a. ha_peer_ip a = ip \<and> ha_peer_port a = port) (ed_handshake_attempts ed)"

definition negotiations_by_peer :: "string \<Rightarrow> int \<Rightarrow> diagnostics \<Rightarrow> capability_negotiation list" where
  "negotiations_by_peer ip port ed = filter (\<lambda>n. cn_peer_ip n = ip \<and> cn_peer_port n = port) (ed_capability_negotiations ed)"

definition messages_by_peer :: "string \<Rightarrow> int \<Rightarrow> diagnostics \<Rightarrow> protocol_message list" where
  "messages_by_peer ip port ed = filter (\<lambda>m. pmg_peer_ip m = ip \<and> pmg_peer_port m = port) (ed_protocol_messages ed)"

definition handshake_attempts_by_info_hash :: "string \<Rightarrow> diagnostics \<Rightarrow> handshake_attempt list" where
  "handshake_attempts_by_info_hash info_hash ed = filter (\<lambda>a. ha_info_hash a = info_hash) (ed_handshake_attempts ed)"

definition negotiations_by_info_hash :: "string \<Rightarrow> diagnostics \<Rightarrow> capability_negotiation list" where
  "negotiations_by_info_hash info_hash ed = filter (\<lambda>n. cn_info_hash n = info_hash) (ed_capability_negotiations ed)"

definition messages_by_info_hash :: "string \<Rightarrow> diagnostics \<Rightarrow> protocol_message list" where
  "messages_by_info_hash info_hash ed = filter (\<lambda>m. pmg_info_hash m = info_hash) (ed_protocol_messages ed)"

definition handshake_attempt_count :: "diagnostics \<Rightarrow> int" where
  "handshake_attempt_count ed = int (length (ed_handshake_attempts ed))"

definition negotiation_count :: "diagnostics \<Rightarrow> int" where
  "negotiation_count ed = int (length (ed_capability_negotiations ed))"

definition protocol_message_count :: "diagnostics \<Rightarrow> int" where
  "protocol_message_count ed = int (length (ed_protocol_messages ed))"

definition handshake_count_by_peer :: "string \<Rightarrow> int \<Rightarrow> diagnostics \<Rightarrow> int" where
  "handshake_count_by_peer ip port ed = int (length (handshake_attempts_by_peer ip port ed))"

definition negotiation_count_by_peer :: "string \<Rightarrow> int \<Rightarrow> diagnostics \<Rightarrow> int" where
  "negotiation_count_by_peer ip port ed = int (length (negotiations_by_peer ip port ed))"

definition message_count_by_peer :: "string \<Rightarrow> int \<Rightarrow> diagnostics \<Rightarrow> int" where
  "message_count_by_peer ip port ed = int (length (messages_by_peer ip port ed))"

definition handshake_count_by_info_hash :: "string \<Rightarrow> diagnostics \<Rightarrow> int" where
  "handshake_count_by_info_hash info_hash ed = int (length (handshake_attempts_by_info_hash info_hash ed))"

definition negotiation_count_by_info_hash :: "string \<Rightarrow> diagnostics \<Rightarrow> int" where
  "negotiation_count_by_info_hash info_hash ed = int (length (negotiations_by_info_hash info_hash ed))"

definition message_count_by_info_hash :: "string \<Rightarrow> diagnostics \<Rightarrow> int" where
  "message_count_by_info_hash info_hash ed = int (length (messages_by_info_hash info_hash ed))"

text \<open>\<^verbatim>\<open>static_cast<double>(success_count) / v.size()\<close>, 0.0 of an empty vector.\<close>

definition success_rate_of :: "('a \<Rightarrow> bool) \<Rightarrow> 'a list \<Rightarrow> rat" where
  "success_rate_of success v =
     (if v = [] then 0 else double_of (of_nat (length (filter success v)) / double_of (of_nat (length v))))"

definition handshake_success_rate :: "diagnostics \<Rightarrow> rat" where
  "handshake_success_rate ed = success_rate_of (\<lambda>a. ha_status a = HS_SUCCESS) (ed_handshake_attempts ed)"

definition negotiation_success_rate :: "diagnostics \<Rightarrow> rat" where
  "negotiation_success_rate ed = success_rate_of (\<lambda>n. cn_status n = NS_SUCCESS) (ed_capability_negotiations ed)"

definition message_success_rate :: "diagnostics \<Rightarrow> rat" where
  "message_success_rate ed = success_rate_of (\<lambda>m. pmg_status m = PS_SUCCESS) (ed_protocol_messages ed)"

definition error_counts :: "diagnostics \<Rightarrow> extension_error \<rightharpoonup> int" where
  "error_counts ed =
     (let c1 = count_into Map.empty (map (classify_error \<circ> ha_error_message) (filter (\<lambda>a. ha_status a = HS_FAILED) (ed_handshake_attempts ed)));
          c2 = count_into c1 (map (classify_error \<circ> cn_error_message) (filter (\<lambda>n. cn_status n = NS_FAILED) (ed_capability_negotiations ed)))
      in count_into c2 (map (classify_error \<circ> pmg_error_message) (filter (\<lambda>m. pmg_status m = PS_FAILED) (ed_protocol_messages ed))))"

definition message_type_counts :: "diagnostics \<Rightarrow> string \<rightharpoonup> int" where
  "message_type_counts ed = count_into Map.empty (map pmg_message_type (ed_protocol_messages ed))"

definition capability_counts :: "diagnostics \<Rightarrow> string \<rightharpoonup> int" where
  "capability_counts ed = count_into Map.empty (concat (map cn_capabilities (ed_capability_negotiations ed)))"

definition diagnostics_clear_expired :: "'w clock \<Rightarrow> diagnostics \<Rightarrow> 'w \<Rightarrow> diagnostics \<times> 'w" where
  "diagnostics_clear_expired clk ed w =
     (let (now, w1) = clk w; old = (\<lambda>t. now - t > milliseconds (dx_data_retention (ed_config ed)))
      in (ed\<lparr>ed_handshake_attempts := filter (\<lambda>a. \<not> old (ha_timestamp a)) (ed_handshake_attempts ed),
           ed_capability_negotiations := filter (\<lambda>n. \<not> old (cn_timestamp n)) (ed_capability_negotiations ed),
           ed_protocol_messages := filter (\<lambda>m. \<not> old (pmg_timestamp m)) (ed_protocol_messages ed)\<rparr>, w1))"

definition diagnostics_clear_all :: "diagnostics \<Rightarrow> diagnostics" where
  "diagnostics_clear_all ed = ed\<lparr>ed_handshake_attempts := [], ed_capability_negotiations := [], ed_protocol_messages := []\<rparr>"

definition diagnostics_update_config :: "diagnostics_config \<Rightarrow> diagnostics \<Rightarrow> diagnostics" where
  "diagnostics_update_config config ed = ed\<lparr>ed_config := config\<rparr>"

definition diagnostics_health_status :: "diagnostics \<Rightarrow> (string, string) smap" where
  "diagnostics_health_status ed =
     fold (\<lambda>(k, v). smap_update k v)
       [(''handshake_attempts'', to_string (handshake_attempt_count ed)),
        (''capability_negotiations'', to_string (negotiation_count ed)),
        (''protocol_messages'', to_string (protocol_message_count ed)),
        (''handshake_success_rate'', to_string_double (handshake_success_rate ed)),
        (''capability_success_rate'', to_string_double (negotiation_success_rate ed)),
        (''message_success_rate'', to_string_double (message_success_rate ed)),
        (''data_retention'', to_string (dx_data_retention (ed_config ed))),
        (''max_handshake_attempts'', show_nat (dx_max_handshake_attempts (ed_config ed))),
        (''max_negotiations'', show_nat (dx_max_negotiations (ed_config ed))),
        (''max_messages'', show_nat (dx_max_messages (ed_config ed)))] []"

section \<open>The machine\<close>

inductive diagnostics_step :: "'w clock \<Rightarrow> diagnostics \<times> 'w \<Rightarrow> diagnostics \<times> 'w \<Rightarrow> bool" for clk :: "'w clock" where
  handshake: "diagnostics_step clk (ed, w) (log_handshake_attempt clk ip port h ed w)"
| negotiation: "diagnostics_step clk (ed, w) (log_capability_negotiation clk ip port h cs ed w)"
| message: "diagnostics_step clk (ed, w) (log_message clk ip port h ty data ed w)"
| clear_expired: "diagnostics_step clk (ed, w) (diagnostics_clear_expired clk ed w)"
| clear_all: "diagnostics_step clk (ed, w) (diagnostics_clear_all ed, w)"
| config: "diagnostics_step clk (ed, w) (diagnostics_update_config c ed, w)"
| tick: "diagnostics_step clk (ed, w) (ed, w')"

definition diagnostics_init :: "diagnostics \<times> 'w \<Rightarrow> bool" where
  "diagnostics_init s \<longleftrightarrow> (\<exists>config w. s = (new_diagnostics config, w))"

text \<open>Every entry keeps the status it was logged with.\<close>

definition diagnostics_inv :: "diagnostics \<times> 'w \<Rightarrow> bool" where
  "diagnostics_inv s \<longleftrightarrow> list_all (\<lambda>a. ha_status a = HS_INITIATED) (ed_handshake_attempts (fst s))
     \<and> list_all (\<lambda>n. cn_status n = NS_IN_PROGRESS) (ed_capability_negotiations (fst s))
     \<and> list_all (\<lambda>m. pmg_status m = PS_RECEIVED) (ed_protocol_messages (fst s))"

lemma list_all_push_limited: "list_all P v \<Longrightarrow> P x \<Longrightarrow> list_all P (push_limited n v x)"
  by (cases v) (auto simp: push_limited_def Let_def list_all_iff)

lemma list_all_filterI: "list_all P v \<Longrightarrow> list_all P (filter Q v)"
  by (simp add: list_all_iff)

interpretation diagnostics_system: invariant_system diagnostics_init "diagnostics_step clk" diagnostics_inv
proof
  show "diagnostics_init s \<Longrightarrow> diagnostics_inv s" for s :: "diagnostics \<times> 'a"
    by (auto simp: diagnostics_init_def diagnostics_inv_def new_diagnostics_def)
  show "diagnostics_inv t" if "diagnostics_inv s" "diagnostics_step clk s t" for s t :: "diagnostics \<times> 'a"
    using that(2,1)
    by cases (auto simp: diagnostics_inv_def log_handshake_attempt_def log_capability_negotiation_def log_message_def diagnostics_clear_expired_def
        diagnostics_clear_all_def diagnostics_update_config_def case_prod_beta Let_def intro!: list_all_push_limited list_all_filterI)
qed

lemma success_rate_none: "list_all (\<lambda>x. \<not> P x) v \<Longrightarrow> success_rate_of P v = 0"
  by (auto simp: success_rate_of_def list_all_iff filter_empty_conv double_of_def round_double_def round_even_def)

lemma list_all_imp: "list_all P v \<Longrightarrow> (\<And>x. P x \<Longrightarrow> Q x) \<Longrightarrow> list_all Q v"
  by (simp add: list_all_iff)

section \<open>Logged messages\<close>

type_synonym message_call = "string \<times> int \<times> string \<times> string \<times> string"

definition message_op :: "'w clock \<Rightarrow> diagnostics \<times> 'w \<Rightarrow> message_call \<Rightarrow> diagnostics \<times> 'w" where
  "message_op clk s = (\<lambda>(ip, port, h, ty, data). log_message clk ip port h ty data (fst s) (snd s))"

definition logged_messages :: "diagnostics \<times> 'w \<Rightarrow> message_call list" where
  "logged_messages s = map (\<lambda>m. (pmg_peer_ip m, pmg_peer_port m, pmg_info_hash m, pmg_message_type m, pmg_message_data m)) (ed_protocol_messages (fst s))"

interpretation message_log: sliding_window "message_op clk" logged_messages "\<lambda>s. dx_max_messages (ed_config (fst s))" Some
proof
  fix s :: "diagnostics \<times> 'a" and op :: message_call
  show "dx_max_messages (ed_config (fst (message_op clk s op))) = dx_max_messages (ed_config (fst s))"
    by (cases op) (simp add: message_op_def log_message_def case_prod_beta)
  show "logged_messages (message_op clk s op) = (case Some op of None \<Rightarrow> logged_messages s
      | Some x \<Rightarrow> let ys = logged_messages s @ [x] in if length ys > dx_max_messages (ed_config (fst s)) then tl ys else ys)"
    by (cases op) (simp add: message_op_def logged_messages_def log_message_def case_prod_beta map_push_limited, simp add: push_limited_def)
qed

text \<open>The counts of message types agree with the log.\<close>

lemma message_type_counts_exact:
  "message_type_counts ed ty = (if ty \<in> set (map pmg_message_type (ed_protocol_messages ed))
     then Some (int (count_list (map pmg_message_type (ed_protocol_messages ed)) ty)) else None)"
  by (simp add: message_type_counts_def count_into_exact)

section \<open>Properties\<close>

text \<open>The diagnostics see no success and no failure. Entries are logged as initiated, in progress or received, and no operation changes the status of an entry, so in every
  reachable state \<^verbatim>\<open>detectCompatibility\<close> is false for every peer, the three success rates are 0 and no error is counted, whatever was logged. The message log is exact: a message type
  is counted as often as it occurs in the log, and from a state without messages the log holds the last \<^verbatim>\<open>max_messages\<close> of the calls.\<close>

theorem diagnostics_see_no_outcome:
  assumes "reachable diagnostics_init (diagnostics_step clk) (ed, w)"
  shows "\<not> detect_compatibility ip port h ed \<and> handshake_success_rate ed = 0 \<and> negotiation_success_rate ed = 0 \<and> message_success_rate ed = 0
    \<and> error_counts ed = Map.empty
    \<and> message_type_counts ed ty = (if ty \<in> pmg_message_type ` set (ed_protocol_messages ed)
         then Some (int (count_list (map pmg_message_type (ed_protocol_messages ed)) ty)) else None)
    \<and> (ed_protocol_messages ed = [] \<longrightarrow>
         logged_messages (foldl (message_op clk) (ed, w) ms) = last_n (dx_max_messages (ed_config ed)) ms)"
proof -
  have inv: "diagnostics_inv (ed, w)" using assms by (rule diagnostics_system.inv_reachable)
  have "logged_messages (foldl (message_op clk) (ed, w) ms) = last_n (dx_max_messages (ed_config ed)) ms" if "ed_protocol_messages ed = []"
    using message_log.window_history [of "(ed, w)" "[]" clk ms] that by (simp add: logged_messages_def map_filter_def comp_def)
  moreover have "handshake_success_rate ed = 0" "negotiation_success_rate ed = 0" "message_success_rate ed = 0"
    using inv by (auto simp: handshake_success_rate_def negotiation_success_rate_def message_success_rate_def diagnostics_inv_def
        intro!: success_rate_none elim: list_all_imp)
  moreover have "error_counts ed = Map.empty" "\<not> detect_compatibility ip port h ed"
    using inv by (auto simp: error_counts_def detect_compatibility_def diagnostics_inv_def list_all_iff list_ex_iff filter_empty_conv
        cong: filter_cong)
  ultimately show ?thesis by (simp add: message_type_counts_exact)
qed

definition demo_diagnostics :: "diagnostics \<times> demo_world" where
  "demo_diagnostics = log_handshake_attempt demo_tick ''p'' 1 ''h''
     (new_diagnostics \<lparr>dx_max_handshake_attempts = 5, dx_max_negotiations = 5, dx_max_messages = 1, dx_data_retention = 60000\<rparr>) demo_start"

theorem diagnostics_see_no_outcome_witness:
  "\<not> detect_compatibility ''p'' 1 ''h'' (fst demo_diagnostics)
   \<and> logged_messages (foldl (message_op demo_tick) demo_diagnostics [(''p'', 1, ''h'', ''a'', ''x''), (''p'', 1, ''h'', ''b'', ''y'')])
       = [(''p'', 1, ''h'', ''b'', ''y'')]"
proof -
  have "reachable diagnostics_init (diagnostics_step demo_tick) (fst demo_diagnostics, snd demo_diagnostics)"
    unfolding prod.collapse demo_diagnostics_def
    by (rule reachable.move, rule reachable.start, unfold diagnostics_init_def) (blast intro: diagnostics_step.handshake)+
  note th = diagnostics_see_no_outcome [OF this]
  have "ed_protocol_messages (fst demo_diagnostics) = []" "dx_max_messages (ed_config (fst demo_diagnostics)) = 1"
    by (simp_all add: demo_diagnostics_def new_diagnostics_def log_handshake_attempt_def case_prod_beta)
  with th show ?thesis by (simp add: last_n_def del: foldl_Cons)
qed

end
