(* ===== verification/Enhanced_Bootstrap.thy ===== *)
theory Enhanced_Bootstrap
  imports Double_Arithmetic Expiring_Store State_Machine Performance_Monitor
begin

text \<open>
  \<^verbatim>\<open>EnhancedBootstrap\<close> as \<^verbatim>\<open>enhanced_bootstrap.cpp\<close> defines it: the bootstrap nodes and the simulated bootstrap. The header declares other members, so that the two files do
  not compile together; the state has the members that the source file uses. The state and the attempt counter have no
  value (\<open>None\<close>) until \<^verbatim>\<open>bootstrapDHT\<close> sets them; \<^verbatim>\<open>last_bootstrap_time_\<close> starts at the epoch of its clock. The random
  engine (\<^verbatim>\<open>rng_\<close>) and the clock are parameters.
\<close>

section \<open>Definitions\<close>

datatype bootstrap_state = BS_NOT_STARTED | BS_IN_PROGRESS | BS_SUCCESS | BS_FAILED | BS_EXPIRED
datatype bootstrap_node_status = BN_UNKNOWN | BN_GOOD | BN_BAD

record bootstrap_node =
  bn_ip_address :: string
  bn_port :: int
  bn_node_id :: string
  bn_status :: bootstrap_node_status
  bn_last_attempt :: time
  bn_success_count :: int
  bn_failure_count :: int
  bn_response_time :: int

record bootstrap_config =
  bc_max_bootstrap_attempts :: int
  bc_min_successful_nodes :: int
  bc_bootstrap_timeout :: int
  bc_max_node_failures :: int
  bc_node_timeout :: int

record bootstrap =
  bs_config :: bootstrap_config
  bs_nodes :: "bootstrap_node list"
  bs_state :: "bootstrap_state option"
  bs_attempts :: "int option"
  bs_successful :: "bootstrap_node list"
  bs_failed :: "bootstrap_node list"
  bs_last_bootstrap_time :: time

record 'w bootstrap_env =
  be_clock :: "'w clock"
  be_random_byte :: "'w \<Rightarrow> nat \<times> 'w"
  be_random :: "'w \<Rightarrow> nat \<times> 'w"

fun node_id_bytes :: "('w \<Rightarrow> nat \<times> 'w) \<Rightarrow> nat \<Rightarrow> 'w \<Rightarrow> string \<times> 'w" where
  "node_id_bytes rng 0 w = ([], w)"
| "node_id_bytes rng (Suc n) w = (let (b, w1) = rng w; (bs, w2) = node_id_bytes rng n w1 in (char_of (b mod 256) # bs, w2))"

definition generate_node_id :: "'w bootstrap_env \<Rightarrow> 'w \<Rightarrow> string \<times> 'w" where
  "generate_node_id env w = node_id_bytes (be_random_byte env) 20 w"

definition add_bootstrap_node :: "'w bootstrap_env \<Rightarrow> string \<Rightarrow> int \<Rightarrow> bootstrap \<Rightarrow> 'w \<Rightarrow> bool \<times> bootstrap \<times> 'w" where
  "add_bootstrap_node env ip port bs w =
     (let (node_id, w1) = generate_node_id env w;
          node = \<lparr>bn_ip_address = ip, bn_port = port, bn_node_id = node_id, bn_status = BN_UNKNOWN, bn_last_attempt = 0, bn_success_count = 0,
            bn_failure_count = 0, bn_response_time = 0\<rparr>
      in (True, bs\<lparr>bs_nodes := bs_nodes bs @ [node]\<rparr>, w1))"

definition default_bootstrap_hosts :: "string list" where
  "default_bootstrap_hosts = [''router.bittorrent.com'', ''dht.transmissionbt.com'', ''router.utorrent.com'', ''dht.aelitis.com'',
     ''router.bitcomet.com'']"

fun add_hosts :: "'w bootstrap_env \<Rightarrow> string list \<Rightarrow> bootstrap \<Rightarrow> 'w \<Rightarrow> bootstrap \<times> 'w" where
  "add_hosts env [] bs w = (bs, w)"
| "add_hosts env (host # hosts) bs w = (let (ok, bs1, w1) = add_bootstrap_node env host 6881 bs w in add_hosts env hosts bs1 w1)"

definition new_bootstrap :: "'w bootstrap_env \<Rightarrow> bootstrap_config \<Rightarrow> 'w \<Rightarrow> bootstrap \<times> 'w" where
  "new_bootstrap env config w =
     add_hosts env default_bootstrap_hosts \<lparr>bs_config = config, bs_nodes = [], bs_state = None, bs_attempts = None, bs_successful = [],
       bs_failed = [], bs_last_bootstrap_time = 0\<rparr> w"

definition attempt_bootstrap :: "'w bootstrap_env \<Rightarrow> bootstrap_config \<Rightarrow> bootstrap_node \<Rightarrow> 'w \<Rightarrow> bool \<times> bootstrap_node \<times> 'w" where
  "attempt_bootstrap env config node w =
     (if bn_failure_count node < bc_max_node_failures config then
        (let (now, w1) = be_clock env w; (r, w2) = be_random env w1
         in (True, node\<lparr>bn_success_count := bn_success_count node + 1, bn_status := BN_GOOD, bn_last_attempt := now,
               bn_response_time := 100 + int (r mod 500)\<rparr>, w2))
      else
        (let (now, w1) = be_clock env w
         in (False, node\<lparr>bn_failure_count := bn_failure_count node + 1, bn_status := BN_BAD, bn_last_attempt := now\<rparr>, w1)))"

text \<open>The loop of \<^verbatim>\<open>bootstrapDHT\<close>. An attempt changes the node in the vector (through \<^verbatim>\<open>const_cast\<close>); a copy of it goes to one of the two result vectors.\<close>

fun bootstrap_loop :: "'w bootstrap_env \<Rightarrow> bootstrap_config \<Rightarrow> bootstrap_node list \<Rightarrow> int \<Rightarrow> bootstrap_node list \<Rightarrow> bootstrap_node list \<Rightarrow> 'w
    \<Rightarrow> bootstrap_node list \<times> int \<times> bootstrap_node list \<times> bootstrap_node list \<times> 'w" where
  "bootstrap_loop env config [] attempts good bad w = ([], attempts, good, bad, w)"
| "bootstrap_loop env config (node # nodes) attempts good bad w =
     (if attempts \<ge> bc_max_bootstrap_attempts config then (node # nodes, attempts, good, bad, w)
      else
        (let (ok, node1, w1) = attempt_bootstrap env config node w;
             (nodes', attempts', good', bad', w') =
               bootstrap_loop env config nodes (attempts + 1) (if ok then good @ [node1] else good) (if ok then bad else bad @ [node1]) w1
         in (node1 # nodes', attempts', good', bad', w')))"

definition bootstrap_dht :: "'w bootstrap_env \<Rightarrow> bootstrap \<Rightarrow> 'w \<Rightarrow> bool \<times> bootstrap \<times> 'w" where
  "bootstrap_dht env bs w =
     (if bs_nodes bs = [] then (False, bs, w)
      else
        (let (nodes, attempts, good, bad, w1) = bootstrap_loop env (bs_config bs) (bs_nodes bs) 0 [] [] w;
             ok = (length good \<ge> to_size_t (bc_min_successful_nodes (bs_config bs)))
         in (ok, bs\<lparr>bs_nodes := nodes, bs_attempts := Some attempts, bs_successful := good, bs_failed := bad,
               bs_state := Some (if ok then BS_SUCCESS else BS_FAILED)\<rparr>, w1)))"

fun erase_first :: "('a \<Rightarrow> bool) \<Rightarrow> 'a list \<Rightarrow> 'a list option" where
  "erase_first P [] = None"
| "erase_first P (x # xs) = (if P x then Some xs else map_option ((#) x) (erase_first P xs))"

definition remove_bootstrap_node :: "string \<Rightarrow> int \<Rightarrow> bootstrap \<Rightarrow> bool \<times> bootstrap" where
  "remove_bootstrap_node ip port bs =
     (case erase_first (\<lambda>n. bn_ip_address n = ip \<and> bn_port n = port) (bs_nodes bs) of
        Some nodes \<Rightarrow> (True, bs\<lparr>bs_nodes := nodes\<rparr>)
      | None \<Rightarrow> (False, bs))"

definition validate_bootstrap :: "'w bootstrap_env \<Rightarrow> bootstrap \<Rightarrow> 'w \<Rightarrow> bool \<times> bootstrap \<times> 'w" where
  "validate_bootstrap env bs w =
     (if bs_state bs \<noteq> Some BS_SUCCESS then (False, bs, w)
      else if length (bs_successful bs) < to_size_t (bc_min_successful_nodes (bs_config bs)) then (False, bs, w)
      else
        (let (now, w1) = be_clock env w
         in if now - bs_last_bootstrap_time bs > milliseconds (bc_bootstrap_timeout (bs_config bs)) then (False, bs\<lparr>bs_state := Some BS_EXPIRED\<rparr>, w1)
            else (True, bs, w1)))"

definition bootstrap_success_rate :: "bootstrap \<Rightarrow> rat option" where
  "bootstrap_success_rate bs =
     (case bs_attempts bs of
        None \<Rightarrow> None
      | Some n \<Rightarrow> Some (if n = 0 then 0 else double_of (of_nat (length (bs_successful bs)) / of_int n)))"

definition average_bootstrap_time :: "bootstrap \<Rightarrow> int" where
  "average_bootstrap_time bs =
     (if bs_successful bs = [] then 0
      else int (to_size_t (foldl (\<lambda>acc n. acc + bn_response_time n) 0 (bs_successful bs)) div length (bs_successful bs)))"

definition bootstrap_cleanup_nodes :: "'w bootstrap_env \<Rightarrow> bootstrap \<Rightarrow> 'w \<Rightarrow> bootstrap \<times> 'w" where
  "bootstrap_cleanup_nodes env bs w =
     (let (now, w1) = be_clock env w
      in (bs\<lparr>bs_nodes := filter (\<lambda>n. \<not> now - bn_last_attempt n > milliseconds (bc_node_timeout (bs_config bs))) (bs_nodes bs)\<rparr>, w1))"

definition bootstrap_clear_nodes :: "bootstrap \<Rightarrow> bootstrap" where
  "bootstrap_clear_nodes bs = bs\<lparr>bs_nodes := [], bs_successful := [], bs_failed := []\<rparr>"

definition bootstrap_update_config :: "bootstrap_config \<Rightarrow> bootstrap \<Rightarrow> bootstrap" where
  "bootstrap_update_config config bs = bs\<lparr>bs_config := config\<rparr>"

definition bootstrap_state_to_string :: "bootstrap_state \<Rightarrow> string" where
  "bootstrap_state_to_string state =
     (case state of BS_NOT_STARTED \<Rightarrow> ''NOT_STARTED'' | BS_IN_PROGRESS \<Rightarrow> ''IN_PROGRESS'' | BS_SUCCESS \<Rightarrow> ''SUCCESS'' | BS_FAILED \<Rightarrow> ''FAILED''
      | BS_EXPIRED \<Rightarrow> ''EXPIRED'')"

definition bootstrap_health_status :: "bootstrap \<Rightarrow> (string, string) smap option" where
  "bootstrap_health_status bs =
     (case (bs_state bs, bs_attempts bs, bootstrap_success_rate bs) of
        (Some st, Some n, Some rate) \<Rightarrow>
          Some (fold (\<lambda>(k, v). smap_update k v)
            [(''bootstrap_state'', bootstrap_state_to_string st), (''bootstrap_attempts'', to_string n),
             (''successful_nodes'', to_string (int (length (bs_successful bs)))), (''failed_nodes'', to_string (int (length (bs_failed bs)))),
             (''total_nodes'', to_string (int (length (bs_nodes bs)))), (''success_rate'', to_string_double rate),
             (''avg_response_time'', to_string (average_bootstrap_time bs))] [])
      | _ \<Rightarrow> None)"

section \<open>The loop\<close>

lemma bootstrap_loop_shape:
  assumes "bootstrap_loop env config nodes a good bad w = (nodes', a', good', bad', w')"
  shows "map bn_ip_address nodes' = map bn_ip_address nodes \<and> a' = a + int (min (length nodes) (nat (bc_max_bootstrap_attempts config - a)))
    \<and> int (length good' + length bad') = int (length good + length bad) + (a' - a)"
  using assms
proof (induction nodes arbitrary: a good bad w nodes')
  case (Cons n ns)
  show ?case
  proof (cases "a \<ge> bc_max_bootstrap_attempts config")
    case False
    obtain ok n1 w1 where t: "attempt_bootstrap env config n w = (ok, n1, w1)" by (rule prod_cases3)
    obtain ns1 where r: "bootstrap_loop env config ns (a + 1) (if ok then good @ [n1] else good) (if ok then bad else bad @ [n1]) w1
        = (ns1, a', good', bad', w')" and ns: "nodes' = n1 # ns1"
      using Cons.prems False by (auto simp: t Let_def split: prod.splits)
    have "bn_ip_address n1 = bn_ip_address n" using t by (auto simp: attempt_bootstrap_def case_prod_beta Let_def split: if_splits)
    with Cons.IH [OF r] False show ?thesis by (auto simp: ns split: if_splits)
  qed (use Cons.prems in auto)
qed auto

definition unfailed :: "bootstrap_node \<Rightarrow> bool" where
  "unfailed n \<longleftrightarrow> bn_failure_count n = 0"

lemma bootstrap_loop_unfailed:
  assumes "bootstrap_loop env config nodes a good bad w = (nodes', a', good', bad', w')" "list_all unfailed nodes"
    and "0 < bc_max_node_failures config"
  shows "list_all unfailed nodes' \<and> bad' = bad"
  using assms(1,2)
proof (induction nodes arbitrary: a good bad w nodes')
  case (Cons n ns)
  obtain ok n1 w1 where t: "attempt_bootstrap env config n w = (ok, n1, w1)" by (rule prod_cases3)
  have "ok \<and> unfailed n1" using t Cons.prems(2) assms(3) by (auto simp: attempt_bootstrap_def unfailed_def case_prod_beta Let_def)
  with Cons.prems Cons.IH show ?case by (auto simp: t Let_def split: prod.splits if_splits)
qed auto

section \<open>The machine\<close>

text \<open>\<open>cs\<close> are the configurations in use.\<close>

inductive bootstrap_step :: "'w bootstrap_env \<Rightarrow> bootstrap_config set \<Rightarrow> bootstrap \<times> 'w \<Rightarrow> bootstrap \<times> 'w \<Rightarrow> bool"
  for env :: "'w bootstrap_env" and cs :: "bootstrap_config set" where
  add: "add_bootstrap_node env ip port bs w = (r, bs', w') \<Longrightarrow> bootstrap_step env cs (bs, w) (bs', w')"
| remove: "bootstrap_step env cs (bs, w) (snd (remove_bootstrap_node ip port bs), w)"
| run: "bootstrap_dht env bs w = (r, bs', w') \<Longrightarrow> bootstrap_step env cs (bs, w) (bs', w')"
| validate: "validate_bootstrap env bs w = (r, bs', w') \<Longrightarrow> bootstrap_step env cs (bs, w) (bs', w')"
| cleanup: "bootstrap_cleanup_nodes env bs w = (bs', w') \<Longrightarrow> bootstrap_step env cs (bs, w) (bs', w')"
| clear: "bootstrap_step env cs (bs, w) (bootstrap_clear_nodes bs, w)"
| config: "c \<in> cs \<Longrightarrow> bootstrap_step env cs (bs, w) (bootstrap_update_config c bs, w)"
| tick: "bootstrap_step env cs (bs, w) (bs, w')"

definition bootstrap_init :: "'w bootstrap_env \<Rightarrow> bootstrap_config set \<Rightarrow> bootstrap \<times> 'w \<Rightarrow> bool" where
  "bootstrap_init env cs s \<longleftrightarrow> (\<exists>c \<in> cs. \<exists>w. s = new_bootstrap env c w)"

definition bootstrap_inv :: "bootstrap_config set \<Rightarrow> bootstrap \<times> 'w \<Rightarrow> bool" where
  "bootstrap_inv cs s \<longleftrightarrow> bs_config (fst s) \<in> cs \<and> list_all unfailed (bs_nodes (fst s)) \<and> bs_last_bootstrap_time (fst s) = 0"

lemma bootstrap_inv_add: "bootstrap_inv cs (bs, w) \<Longrightarrow> add_bootstrap_node env ip port bs w = (r, bs', w') \<Longrightarrow> bootstrap_inv cs (bs', w')"
  by (auto simp: bootstrap_inv_def add_bootstrap_node_def case_prod_beta Let_def unfailed_def)

lemma bootstrap_inv_hosts: "bootstrap_inv cs (bs, w) \<Longrightarrow> bootstrap_inv cs (add_hosts env hosts bs w)"
proof (induction hosts arbitrary: bs w)
  case (Cons h hs)
  obtain r bs1 w1 where "add_bootstrap_node env h 6881 bs w = (r, bs1, w1)" by (rule prod_cases3)
  moreover from this have "bootstrap_inv cs (bs1, w1)" using Cons.prems by (rule bootstrap_inv_add [rotated])
  ultimately show ?case using Cons.IH [of bs1 w1] by simp
qed simp

lemma erase_first_list_all: "erase_first P xs = Some ys \<Longrightarrow> list_all Q xs \<Longrightarrow> list_all Q ys"
  by (induction xs arbitrary: ys) (auto split: if_splits)

lemma bootstrap_inv_run:
  assumes "\<forall>c \<in> cs. 0 < bc_max_node_failures c" "bootstrap_inv cs (bs, w)" "bootstrap_dht env bs w = (r, bs', w')"
  shows "bootstrap_inv cs (bs', w')"
proof (cases "bs_nodes bs = []")
  case False
  obtain nodes a good bad w1 where l: "bootstrap_loop env (bs_config bs) (bs_nodes bs) 0 [] [] w = (nodes, a, good, bad, w1)" by (rule prod_cases5)
  have "0 < bc_max_node_failures (bs_config bs)" using assms(1,2) by (simp add: bootstrap_inv_def)
  with bootstrap_loop_unfailed [OF l] assms(2) have "list_all unfailed nodes" by (simp add: bootstrap_inv_def)
  with False assms(2,3) show ?thesis by (auto simp: bootstrap_dht_def l bootstrap_inv_def Let_def)
qed (use assms(2,3) in \<open>simp add: bootstrap_dht_def\<close>)

lemma bootstrap_inv_step:
  assumes "\<forall>c \<in> cs. 0 < bc_max_node_failures c" "bootstrap_step env cs s t" "bootstrap_inv cs s"
  shows "bootstrap_inv cs t"
  using assms(2)
proof cases
  case (run bs w r bs' w')
  with assms(3) bootstrap_inv_run [OF assms(1), of bs w env r bs' w'] show ?thesis by simp
next
  case (add ip port bs w r bs' w')
  with assms(3) bootstrap_inv_add [of cs bs w env ip port r bs' w'] show ?thesis by simp
next
  case (remove bs w ip port)
  with assms(3) show ?thesis
    by (auto simp: bootstrap_inv_def remove_bootstrap_node_def split: option.splits intro: erase_first_list_all)
qed (use assms(3) in \<open>auto simp: bootstrap_inv_def validate_bootstrap_def bootstrap_cleanup_nodes_def bootstrap_clear_nodes_def
    bootstrap_update_config_def case_prod_beta Let_def list_all_iff split: if_splits\<close>)

interpretation bootstrap_system: invariant_system "bootstrap_init env cs" "bootstrap_step env cs"
  "\<lambda>s. (\<forall>c \<in> cs. 0 < bc_max_node_failures c) \<longrightarrow> bootstrap_inv cs s"
proof
  show "bootstrap_init env cs s \<Longrightarrow> (\<forall>c \<in> cs. 0 < bc_max_node_failures c) \<longrightarrow> bootstrap_inv cs s" for s :: "bootstrap \<times> 'a"
    by (auto simp: bootstrap_init_def new_bootstrap_def bootstrap_inv_def intro!: bootstrap_inv_hosts [unfolded bootstrap_inv_def])
qed (auto intro: bootstrap_inv_step)


section \<open>Properties\<close>

lemma bootstrap_dht_result:
  assumes "bs_nodes bs \<noteq> []" "list_all unfailed (bs_nodes bs)" "0 < bc_max_node_failures (bs_config bs)" "bootstrap_dht env bs w = (r, bs', w')"
  shows "r \<longleftrightarrow> to_size_t (bc_min_successful_nodes (bs_config bs)) \<le> min (length (bs_nodes bs)) (nat (bc_max_bootstrap_attempts (bs_config bs)))"
proof -
  obtain nodes a good bad w1 where l: "bootstrap_loop env (bs_config bs) (bs_nodes bs) 0 [] [] w = (nodes, a, good, bad, w1)" by (rule prod_cases5)
  have "bad = []" using bootstrap_loop_unfailed [OF l assms(2,3)] by simp
  moreover from bootstrap_loop_shape [OF l]
  have "a = int (min (length (bs_nodes bs)) (nat (bc_max_bootstrap_attempts (bs_config bs))))" "int (length good + length bad) = a" by simp_all
  ultimately have "length good = min (length (bs_nodes bs)) (nat (bc_max_bootstrap_attempts (bs_config bs)))" by simp
  then show ?thesis using assms(1,4) by (auto simp: bootstrap_dht_def l Let_def)
qed

lemma validate_bootstrap_old:
  "bs_last_bootstrap_time bs = 0 \<Longrightarrow> fst (be_clock env w) > milliseconds (bc_bootstrap_timeout (bs_config bs)) \<Longrightarrow> \<not> fst (validate_bootstrap env bs w)"
  by (simp add: validate_bootstrap_def case_prod_beta)

text \<open>C32: The outcome of a bootstrap is decided by the configuration. When every configuration in use allows at least one failure per node, no node of a reachable state has failed
  and no attempt fails, so \<^verbatim>\<open>bootstrapDHT\<close> succeeds exactly when there is a node and the smaller of the number of nodes and \<^verbatim>\<open>max_bootstrap_attempts\<close> reaches
  \<^verbatim>\<open>min_successful_nodes\<close>, compared as a \<^verbatim>\<open>size_t\<close>. No operation sets \<^verbatim>\<open>last_bootstrap_time_\<close>: once the steady clock shows more than \<^verbatim>\<open>bootstrap_timeout\<close>, \<^verbatim>\<open>validateBootstrap\<close> refuses
  every bootstrap, also one that has just succeeded.\<close>

theorem bootstrap_outcome_fixed:
  assumes "\<forall>c \<in> cs. 0 < bc_max_node_failures c" "reachable (bootstrap_init env cs) (bootstrap_step env cs) (bs, w)"
    and "bootstrap_dht env bs w = (r, bs', w')"
  shows "(r \<longleftrightarrow> bs_nodes bs \<noteq> [] \<and> to_size_t (bc_min_successful_nodes (bs_config bs))
        \<le> min (length (bs_nodes bs)) (nat (bc_max_bootstrap_attempts (bs_config bs))))
    \<and> list_all unfailed (bs_nodes bs')
    \<and> (fst (be_clock env v) > milliseconds (bc_bootstrap_timeout (bs_config bs')) \<longrightarrow> \<not> fst (validate_bootstrap env bs' v))"
proof -
  have inv: "bootstrap_inv cs (bs, w)" using bootstrap_system.inv_reachable assms(1,2) by blast
  have inv': "bootstrap_inv cs (bs', w')" by (rule bootstrap_inv_run [OF assms(1) inv assms(3)])
  have "r \<longleftrightarrow> to_size_t (bc_min_successful_nodes (bs_config bs)) \<le> min (length (bs_nodes bs)) (nat (bc_max_bootstrap_attempts (bs_config bs)))"
    if "bs_nodes bs \<noteq> []"
    using bootstrap_dht_result [OF that _ _ assms(3)] inv assms(1) by (simp add: bootstrap_inv_def)
  moreover have "\<not> r" if "bs_nodes bs = []" using assms(3) that by (simp add: bootstrap_dht_def)
  ultimately show ?thesis
    using inv' validate_bootstrap_old [of bs' env v] by (auto simp: bootstrap_inv_def)
qed

definition demo_bootstrap_env :: "demo_world bootstrap_env" where
  "demo_bootstrap_env = \<lparr>be_clock = demo_tick, be_random_byte = (\<lambda>w. (7, w)), be_random = (\<lambda>w. (42, w))\<rparr>"

definition demo_bootstrap_config :: bootstrap_config where
  "demo_bootstrap_config = \<lparr>bc_max_bootstrap_attempts = 4, bc_min_successful_nodes = 3, bc_bootstrap_timeout = 1, bc_max_node_failures = 3,
     bc_node_timeout = 60000\<rparr>"

lemma add_hosts_nodes: "length (bs_nodes (fst (add_hosts env hosts bs w))) = length (bs_nodes bs) + length hosts
    \<and> bs_config (fst (add_hosts env hosts bs w)) = bs_config bs"
  by (induction hosts arbitrary: bs w) (simp_all add: add_bootstrap_node_def case_prod_beta Let_def)

theorem bootstrap_outcome_fixed_witness:
  "fst (bootstrap_dht demo_bootstrap_env (fst (new_bootstrap demo_bootstrap_env demo_bootstrap_config demo_start))
     (snd (new_bootstrap demo_bootstrap_env demo_bootstrap_config demo_start)))"
proof -
  let ?b = "new_bootstrap demo_bootstrap_env demo_bootstrap_config demo_start"
  have c: "\<forall>c \<in> {demo_bootstrap_config}. 0 < bc_max_node_failures c" by (simp add: demo_bootstrap_config_def)
  have b: "reachable (bootstrap_init demo_bootstrap_env {demo_bootstrap_config}) (bootstrap_step demo_bootstrap_env {demo_bootstrap_config}) (fst ?b, snd ?b)"
    by (rule reachable.start) (simp add: bootstrap_init_def, blast)
  obtain r b' w' where r: "bootstrap_dht demo_bootstrap_env (fst ?b) (snd ?b) = (r, b', w')" by (rule prod_cases3)
  have "r \<longleftrightarrow> bs_nodes (fst ?b) \<noteq> [] \<and> to_size_t (bc_min_successful_nodes (bs_config (fst ?b)))
        \<le> min (length (bs_nodes (fst ?b))) (nat (bc_max_bootstrap_attempts (bs_config (fst ?b))))"
    using bootstrap_outcome_fixed [OF c b r] by (rule conjunct1)
  moreover have "length (bs_nodes (fst ?b)) = 5 \<and> bs_config (fst ?b) = demo_bootstrap_config"
    by (simp add: new_bootstrap_def add_hosts_nodes default_bootstrap_hosts_def del: add_hosts.simps)
  ultimately show ?thesis using r by (auto simp: demo_bootstrap_config_def to_size_t_def)
qed

text \<open>A node that was never tried is erased by the first clean-up that runs later than \<^verbatim>\<open>node_timeout\<close> after the epoch of the clock.\<close>

lemma untried_nodes_are_erased:
  assumes "n \<in> set (bs_nodes (fst (bootstrap_cleanup_nodes env bs w)))" "fst (be_clock env w) > milliseconds (bc_node_timeout (bs_config bs))"
  shows "bn_last_attempt n \<noteq> 0"
  using assms by (auto simp: bootstrap_cleanup_nodes_def case_prod_beta Let_def)

end
