(* ===== verification/Piece_Queries.thy ===== *)
theory Piece_Queries
  imports Piece_Properties Double_Arithmetic Smart_Crawler
begin

text \<open>
  The rest of \<^verbatim>\<open>metadata_piece_manager.cpp\<close>: the helpers for assemblies, which no function creates, the plain lookups, the reports on counts and the
  combined clean-ups. \<^verbatim>\<open>clearExpiredAssemblies\<close>, which they call, is declared and defined nowhere; it is the parameter \<open>clear_assemblies\<close>.
\<close>

section \<open>Definitions\<close>

datatype assembly_status = AS_INCOMPLETE | AS_COMPLETE | AS_VALIDATED | AS_INVALID | AS_CORRUPTED | AS_EXPIRED

record metadata_assembly =
  ma_expires_at :: time
  ma_total_pieces :: int
  ma_received_pieces :: int
  ma_validated_pieces :: int
  ma_quality_score :: rat
  ma_completeness_ratio :: rat
  ma_validity_ratio :: rat

definition is_assembly_expired :: "time \<Rightarrow> metadata_assembly \<Rightarrow> bool" where
  "is_assembly_expired now a \<longleftrightarrow> now > ma_expires_at a"

definition calculate_assembly_checksum :: "(string \<Rightarrow> string) \<Rightarrow> string \<Rightarrow> string" where
  "calculate_assembly_checksum = calculate_piece_checksum"

definition validate_assembly_data :: "piece_config \<Rightarrow> string \<Rightarrow> bool" where
  "validate_assembly_data config data \<longleftrightarrow> data \<noteq> [] \<and> length data \<le> pc_max_total_size config"

definition is_valid_assembly_data :: "piece_config \<Rightarrow> string \<Rightarrow> bool" where
  "is_valid_assembly_data config data \<longleftrightarrow> data \<noteq> [] \<and> length data \<le> pc_max_total_size config"

definition update_assembly_quality :: "metadata_assembly \<Rightarrow> metadata_assembly" where
  "update_assembly_quality a =
     (if ma_total_pieces a > 0 then
        (let c = double_of (of_int (ma_received_pieces a) / of_int (ma_total_pieces a));
             v = double_of (of_int (ma_validated_pieces a) / of_int (ma_total_pieces a))
         in a\<lparr>ma_completeness_ratio := c, ma_validity_ratio := v, ma_quality_score := double_of (double_of (c + v) / 2)\<rparr>)
      else a)"

definition determine_assembly_status :: "metadata_assembly \<Rightarrow> assembly_status" where
  "determine_assembly_status a =
     (if ma_received_pieces a \<ge> ma_total_pieces a then (if ma_validated_pieces a \<ge> ma_total_pieces a then AS_VALIDATED else AS_COMPLETE)
      else AS_INCOMPLETE)"

definition get_piece_retry_count :: "string \<Rightarrow> int \<Rightarrow> piece_manager \<Rightarrow> int" where
  "get_piece_retry_count info_hash piece_index pm = (case get_piece info_hash piece_index pm of Some p \<Rightarrow> mp_retry_count p | None \<Rightarrow> 0)"

definition get_piece_creation_time :: "string \<Rightarrow> int \<Rightarrow> piece_manager \<Rightarrow> time" where
  "get_piece_creation_time info_hash piece_index pm = (case get_piece info_hash piece_index pm of Some p \<Rightarrow> mp_created_at p | None \<Rightarrow> 0)"

definition get_piece_update_time :: "string \<Rightarrow> int \<Rightarrow> piece_manager \<Rightarrow> time" where
  "get_piece_update_time info_hash piece_index pm = (case get_piece info_hash piece_index pm of Some p \<Rightarrow> mp_updated_at p | None \<Rightarrow> 0)"

definition get_piece_metadata :: "string \<Rightarrow> int \<Rightarrow> piece_manager \<Rightarrow> (string, string) smap" where
  "get_piece_metadata info_hash piece_index pm = (case get_piece info_hash piece_index pm of Some p \<Rightarrow> mp_metadata p | None \<Rightarrow> [])"

definition get_statistics_snapshot :: "piece_manager \<Rightarrow> piece_statistics" where
  "get_statistics_snapshot pm = pm_stats pm"

definition get_piece_statistics_by_status :: "piece_manager \<Rightarrow> (piece_status \<times> int) list" where
  "get_piece_statistics_by_status pm =
     map (\<lambda>s. (s, get_total_piece_count_by_status s pm)) [MISSING, REQUESTED, RECEIVED, VALIDATED, INVALID, DUPLICATE, CORRUPTED, EXPIRED]"

text \<open>\<^verbatim>\<open>int > int * double\<close> is a comparison of \<^verbatim>\<open>double\<close> values; \<open>None\<close> is the division by zero.\<close>

definition exceeds_share :: "int \<Rightarrow> int \<Rightarrow> rat \<Rightarrow> bool" where
  "exceeds_share n m share \<longleftrightarrow> of_int n > double_of (of_int m * share)"

definition get_piece_manager_recommendations :: "piece_manager \<Rightarrow> string list option" where
  "get_piece_manager_recommendations pm =
     (case too_many_pieces pm of
        None \<Rightarrow> None
      | Some many \<Rightarrow>
          Some ((if many then [''Consider reducing piece collection frequency''] else [])
            @ (if exceeds_share (get_total_piece_count_by_status INVALID pm) (get_total_piece_count pm) double_0_3
               then [''High invalid piece rate, check validation logic''] else [])
            @ (if exceeds_share (get_total_piece_count_by_status CORRUPTED pm) (get_total_piece_count pm) double_0_1
               then [''High corruption rate, check data integrity''] else [])))"

definition get_piece_manager_performance_metrics :: "piece_manager \<Rightarrow> (string, rat) smap" where
  "get_piece_manager_performance_metrics pm =
     fold (\<lambda>(k, v). smap_update k v)
       [(''total_pieces'', of_int (get_total_piece_count pm)), (''average_quality_score'', ps_avg_quality_score (pm_stats pm)),
        (''completion_ratio'', get_piece_completion_ratio [] pm), (''validity_ratio'', get_piece_validity_ratio [] pm)] []"

text \<open>\<^verbatim>\<open>static_cast<int>\<close> of a \<^verbatim>\<open>size_t\<close> keeps its low 32 bits; the difference is computed in \<^verbatim>\<open>size_t\<close>. The last entry, a quotient of \<^verbatim>\<open>double\<close> values cut to an
  integer, is not defined for a zero size.\<close>

definition get_piece_manager_capacity :: "piece_manager \<Rightarrow> (string, int) smap option" where
  "get_piece_manager_capacity pm =
     (let n = get_total_piece_count pm; limit = pc_max_total_size (pm_config pm); to_int = (\<lambda>k. signed_take_bit 31 (int k))
      in if limit = 0 then None
         else Some (fold (\<lambda>(k, v). smap_update k v)
           [(''current_pieces'', n), (''max_piece_size'', to_int (pc_max_piece_size (pm_config pm))), (''max_total_size'', to_int limit),
            (''available_capacity'', to_int (to_size_t (int limit - n))),
            (''utilization_percent'', \<lfloor>double_of (double_of (of_int n / double_of (of_nat limit)) * 100)\<rfloor>)] []))"

definition piece_force_cleanup :: "('w \<Rightarrow> 'w) \<Rightarrow> 'w clock \<Rightarrow> piece_manager \<Rightarrow> 'w \<Rightarrow> piece_manager \<times> 'w" where
  "piece_force_cleanup clear_assemblies clk pm w = (case clear_expired_pieces clk pm w of (n, pm1, w1) \<Rightarrow> (pm1, clear_assemblies w1))"

definition optimize_piece_manager :: "('w \<Rightarrow> 'w) \<Rightarrow> 'w clock \<Rightarrow> piece_manager \<Rightarrow> 'w \<Rightarrow> piece_manager \<times> 'w" where
  "optimize_piece_manager clear_assemblies clk pm w = (case clear_expired_pieces clk pm w of (n, pm1, w1) \<Rightarrow> (pm1, clear_assemblies w1))"

section \<open>Lemmas\<close>

text \<open>The counts by status add up to the number of pieces.\<close>

lemma statuses_partition:
  "length m = (\<Sum>s\<leftarrow>[MISSING, REQUESTED, RECEIVED, VALIDATED, INVALID, DUPLICATE, CORRUPTED, EXPIRED]. length (filter (\<lambda>(i, p). mp_status p = s) m))"
proof (induction m)
  case (Cons x m)
  obtain i p where "x = (i, p)" by (rule prod.exhaust)
  with Cons show ?case by (cases "mp_status p") simp_all
qed simp

lemma statistics_by_status_total: "(\<Sum>(s, n)\<leftarrow>get_piece_statistics_by_status pm. n) = get_total_piece_count pm"
proof -
  have "(\<Sum>(h, m)\<leftarrow>ms. int (length m)) = (\<Sum>s\<leftarrow>[MISSING, REQUESTED, RECEIVED, VALIDATED, INVALID, DUPLICATE, CORRUPTED, EXPIRED].
      \<Sum>(h, m)\<leftarrow>ms. int (length (filter (\<lambda>(i, p). mp_status p = s) m)))" for ms :: "(string, piece_map) smap"
  proof (induction ms)
    case (Cons x ms)
    obtain h m where "x = (h, m)" by (rule prod.exhaust)
    with Cons statuses_partition [of m] show ?case by simp
  qed simp
  then show ?thesis by (simp add: get_piece_statistics_by_status_def get_total_piece_count_def get_total_piece_count_by_status_def)
qed

text \<open>The combined clean-ups are a step of the machine, followed by what \<^verbatim>\<open>clearExpiredAssemblies\<close> does to the outside world.\<close>

lemma piece_force_cleanup_step:
  assumes "\<And>v. fst (clk v) \<le> fst (clk (clear_assemblies v))"
  shows "(piece_step C sha1 clk)\<^sup>*\<^sup>* (pm, w) (piece_force_cleanup clear_assemblies clk pm w)"
    and "optimize_piece_manager clear_assemblies clk pm w = piece_force_cleanup clear_assemblies clk pm w"
proof -
  obtain n pm1 w1 where c: "clear_expired_pieces clk pm w = (n, pm1, w1)" by (rule prod_cases3)
  have "piece_step C sha1 clk (pm, w) (pm1, w1)" using piece_step.expire [of C sha1 clk pm w] c by simp
  moreover have "piece_step C sha1 clk (pm1, w1) (pm1, clear_assemblies w1)" by (rule piece_step.tick) (rule assms)
  ultimately show "(piece_step C sha1 clk)\<^sup>*\<^sup>* (pm, w) (piece_force_cleanup clear_assemblies clk pm w)"
    by (simp add: piece_force_cleanup_def c)
qed (simp add: piece_force_cleanup_def optimize_piece_manager_def)

text \<open>The available capacity is the difference as long as the sizes fit an \<^verbatim>\<open>int\<close>.\<close>

lemma capacity_exact:
  assumes "get_piece_manager_capacity pm = Some cap" "0 \<le> get_total_piece_count pm" "get_total_piece_count pm \<le> int (pc_max_total_size (pm_config pm))"
    and "pc_max_total_size (pm_config pm) < 2 ^ 31"
  shows "smap_find cap ''available_capacity'' = Some (int (pc_max_total_size (pm_config pm)) - get_total_piece_count pm)"
proof -
  let ?d = "int (pc_max_total_size (pm_config pm)) - get_total_piece_count pm"
  have "int (to_size_t ?d) = ?d" using assms(2-4) by (simp add: to_size_t_def)
  moreover have "signed_take_bit 31 ?d = ?d" using assms(2-4) by (simp add: signed_take_bit_int_eq_self)
  ultimately show ?thesis using assms(1) by (auto simp: get_piece_manager_capacity_def Let_def split: if_splits)
qed

end
