(* ===== verification/Direct_Connector.thy ===== *)
theory Direct_Connector
  imports Expiring_Store State_Machine
begin

text \<open>
  \<^verbatim>\<open>DirectPeerConnector\<close> as \<^verbatim>\<open>direct_peer_connector.cpp\<close> defines it: TCP connections to peers, kept under \<^verbatim>\<open>ip:port\<close>. The header declares other members, so that the two
  files do not compile together; the state has the members that the source file uses. The system calls are parameters
  (\<open>socket_env\<close>); what POSIX says of them about descriptors is the predicate \<open>socket_laws\<close>, over the set of descriptors that are open
  in a world. A lookup that finds nothing returns \<^verbatim>\<open>ConnectionInfo{}\<close>, written \<open>None\<close>.
\<close>

section \<open>Definitions\<close>

datatype errno = E_INPROGRESS | E_AGAIN | E_WOULDBLOCK | E_OTHER

record 'w socket_env =
  so_clock :: "'w clock"
  so_o_nonblock :: int
  so_inet_pton :: "string \<Rightarrow> int \<times> nat"
  so_socket :: "'w \<Rightarrow> int \<times> 'w"
  so_setsockopt :: "int \<Rightarrow> 'w \<Rightarrow> int \<times> 'w"
  so_getfl :: "int \<Rightarrow> 'w \<Rightarrow> int \<times> 'w"
  so_setfl :: "int \<Rightarrow> int \<Rightarrow> 'w \<Rightarrow> int \<times> 'w"
  so_connect :: "int \<Rightarrow> nat \<Rightarrow> nat \<Rightarrow> 'w \<Rightarrow> (int \<times> errno) \<times> 'w"
  so_send :: "int \<Rightarrow> string \<Rightarrow> 'w \<Rightarrow> (int \<times> errno) \<times> 'w"
  so_recv :: "int \<Rightarrow> nat \<Rightarrow> 'w \<Rightarrow> (int \<times> errno \<times> string) \<times> 'w"
  so_close :: "int \<Rightarrow> 'w \<Rightarrow> 'w"

record direct_connection =
  ci_socket_fd :: int
  ci_ip_address :: string
  ci_port :: int
  ci_is_connected :: bool
  ci_created_at :: time
  ci_last_activity :: time

record connector =
  dc_connection_timeout :: int  \<comment> \<open>\<^verbatim>\<open>config_.connection_timeout\<close>, in milliseconds\<close>
  dc_connections :: "(string, direct_connection) smap"

definition new_connector :: "int \<Rightarrow> connector" where
  "new_connector timeout = \<lparr>dc_connection_timeout = timeout, dc_connections = []\<rparr>"

definition connection_id :: "string \<Rightarrow> int \<Rightarrow> string" where
  "connection_id ip port = ip @ '':'' @ to_string port"

text \<open>The four calls before \<^verbatim>\<open>::connect\<close>; each failure closes the socket. \<^verbatim>\<open>htons\<close> keeps the low 16 bits of the port.\<close>

definition set_non_blocking :: "'w socket_env \<Rightarrow> int \<Rightarrow> 'w \<Rightarrow> bool \<times> 'w" where
  "set_non_blocking env sockfd w =
     (let (flags, w1) = so_getfl env sockfd w
      in if flags < 0 then (False, w1)
         else let (r, w2) = so_setfl env sockfd (Bit_Operations.or flags (so_o_nonblock env)) w1 in (\<not> r < 0, w2))"

definition connect_socket :: "'w socket_env \<Rightarrow> string \<Rightarrow> int \<Rightarrow> int \<Rightarrow> 'w \<Rightarrow> int option \<times> 'w" where
  "connect_socket env ip port sockfd w =
     (let (r, w1) = so_setsockopt env sockfd w
      in if r < 0 then (None, w1)
         else
           (let (ok, w2) = set_non_blocking env sockfd w1
            in if \<not> ok then (None, w2)
               else if fst (so_inet_pton env ip) \<le> 0 then (None, w2)
               else
                 (let ((result, err), w3) = so_connect env sockfd (snd (so_inet_pton env ip)) (nat (port mod 65536)) w2
                  in if result < 0 \<and> err \<noteq> E_INPROGRESS then (None, w3) else (Some result, w3))))"

definition dc_connect :: "'w socket_env \<Rightarrow> string \<Rightarrow> int \<Rightarrow> connector \<Rightarrow> 'w \<Rightarrow> bool \<times> connector \<times> 'w" where
  "dc_connect env ip port dc w =
     (let cid = connection_id ip port
      in if (case smap_find (dc_connections dc) cid of Some c \<Rightarrow> ci_is_connected c | None \<Rightarrow> False) then (True, dc, w)
         else
           (let (sockfd, w1) = so_socket env w
            in if sockfd < 0 then (False, dc, w1)
               else
                 (case connect_socket env ip port sockfd w1 of
                    (None, w2) \<Rightarrow> (False, dc, so_close env sockfd w2)
                  | (Some result, w2) \<Rightarrow>
                      (let (now, w3) = so_clock env w2;
                           c = \<lparr>ci_socket_fd = sockfd, ci_ip_address = ip, ci_port = port, ci_is_connected = (result = 0), ci_created_at = now,
                             ci_last_activity = now\<rparr>
                       in (True, dc\<lparr>dc_connections := smap_update cid c (dc_connections dc)\<rparr>, w3)))))"

definition close_connection :: "'w socket_env \<Rightarrow> direct_connection \<Rightarrow> 'w \<Rightarrow> 'w" where
  "close_connection env c w = (if ci_socket_fd c \<ge> 0 then so_close env (ci_socket_fd c) w else w)"

definition dc_disconnect :: "'w socket_env \<Rightarrow> string \<Rightarrow> int \<Rightarrow> connector \<Rightarrow> 'w \<Rightarrow> bool \<times> connector \<times> 'w" where
  "dc_disconnect env ip port dc w =
     (let cid = connection_id ip port
      in case smap_find (dc_connections dc) cid of
           Some c \<Rightarrow> (True, dc\<lparr>dc_connections := smap_erase cid (dc_connections dc)\<rparr>, close_connection env c w)
         | None \<Rightarrow> (False, dc, w))"

fun close_all :: "'w socket_env \<Rightarrow> (string, direct_connection) smap \<Rightarrow> 'w \<Rightarrow> 'w" where
  "close_all env [] w = w"
| "close_all env ((k, c) # cs) w = close_all env cs (close_connection env c w)"

definition dc_disconnect_all :: "'w socket_env \<Rightarrow> connector \<Rightarrow> 'w \<Rightarrow> connector \<times> 'w" where
  "dc_disconnect_all env dc w = (dc\<lparr>dc_connections := []\<rparr>, close_all env (dc_connections dc) w)"

definition dc_destroy :: "'w socket_env \<Rightarrow> connector \<Rightarrow> 'w \<Rightarrow> connector \<times> 'w" where
  "dc_destroy = dc_disconnect_all"

definition would_block :: "errno \<Rightarrow> bool" where
  "would_block e \<longleftrightarrow> e = E_AGAIN \<or> e = E_WOULDBLOCK"

definition set_connection :: "string \<Rightarrow> direct_connection \<Rightarrow> connector \<Rightarrow> connector" where
  "set_connection cid c dc = dc\<lparr>dc_connections := smap_update cid c (dc_connections dc)\<rparr>"

definition dc_send_data :: "'w socket_env \<Rightarrow> string \<Rightarrow> int \<Rightarrow> string \<Rightarrow> connector \<Rightarrow> 'w \<Rightarrow> bool \<times> connector \<times> 'w" where
  "dc_send_data env ip port data dc w =
     (let cid = connection_id ip port
      in case smap_find (dc_connections dc) cid of
           None \<Rightarrow> (False, dc, w)
         | Some c \<Rightarrow>
             if \<not> ci_is_connected c then (False, dc, w)
             else
               (let ((bytes_sent, err), w1) = so_send env (ci_socket_fd c) data w
                in if bytes_sent < 0 then
                     (if would_block err then (False, dc, w1) else (False, set_connection cid (c\<lparr>ci_is_connected := False\<rparr>) dc, w1))
                   else
                     (let (now, w2) = so_clock env w1
                      in (bytes_sent = int (length data), set_connection cid (c\<lparr>ci_last_activity := now\<rparr>) dc, w2))))"

text \<open>\<^verbatim>\<open>recv\<close> writes its bytes over the front of a buffer of zeros, which \<^verbatim>\<open>resize\<close> then cuts.\<close>

definition received_bytes :: "nat \<Rightarrow> string \<Rightarrow> nat \<Rightarrow> string" where
  "received_bytes max_size data n =
     (let buffer = data @ drop (length data) (replicate max_size (char_of (0 :: nat)))
      in take n buffer @ replicate (n - length buffer) (char_of (0 :: nat)))"

definition dc_receive_data :: "'w socket_env \<Rightarrow> string \<Rightarrow> int \<Rightarrow> nat \<Rightarrow> connector \<Rightarrow> 'w \<Rightarrow> string \<times> connector \<times> 'w" where
  "dc_receive_data env ip port max_size dc w =
     (let cid = connection_id ip port
      in case smap_find (dc_connections dc) cid of
           None \<Rightarrow> ([], dc, w)
         | Some c \<Rightarrow>
             if \<not> ci_is_connected c then ([], dc, w)
             else
               (let ((bytes_received, err, data), w1) = so_recv env (ci_socket_fd c) max_size w
                in if bytes_received < 0 then
                     (if would_block err then ([], dc, w1) else ([], set_connection cid (c\<lparr>ci_is_connected := False\<rparr>) dc, w1))
                   else if bytes_received = 0 then ([], set_connection cid (c\<lparr>ci_is_connected := False\<rparr>) dc, w1)
                   else
                     (let (now, w2) = so_clock env w1
                      in (received_bytes max_size data (nat bytes_received), set_connection cid (c\<lparr>ci_last_activity := now\<rparr>) dc, w2))))"

definition dc_is_connected :: "string \<Rightarrow> int \<Rightarrow> connector \<Rightarrow> bool" where
  "dc_is_connected ip port dc = (case smap_find (dc_connections dc) (connection_id ip port) of Some c \<Rightarrow> ci_is_connected c | None \<Rightarrow> False)"

definition dc_connected_peers :: "connector \<Rightarrow> string list" where
  "dc_connected_peers dc = map fst (filter (\<lambda>(k, c). ci_is_connected c) (dc_connections dc))"

definition dc_connection_count :: "connector \<Rightarrow> int" where
  "dc_connection_count dc = foldl (\<lambda>n (k, c). if ci_is_connected c then n + 1 else n) 0 (dc_connections dc)"

definition dc_connection_info :: "string \<Rightarrow> int \<Rightarrow> connector \<Rightarrow> direct_connection option" where
  "dc_connection_info ip port dc = smap_find (dc_connections dc) (connection_id ip port)"

fun close_inactive :: "'w socket_env \<Rightarrow> (direct_connection \<Rightarrow> bool) \<Rightarrow> (string, direct_connection) smap \<Rightarrow> 'w \<Rightarrow> (string, direct_connection) smap \<times> 'w" where
  "close_inactive env inactive [] w = ([], w)"
| "close_inactive env inactive ((k, c) # cs) w =
     (if inactive c then close_inactive env inactive cs (close_connection env c w)
      else let (cs', w1) = close_inactive env inactive cs w in ((k, c) # cs', w1))"

definition dc_cleanup_inactive :: "'w socket_env \<Rightarrow> connector \<Rightarrow> 'w \<Rightarrow> connector \<times> 'w" where
  "dc_cleanup_inactive env dc w =
     (let (now, w1) = so_clock env w;
          (cs, w2) = close_inactive env (\<lambda>c. now - ci_last_activity c > milliseconds (dc_connection_timeout dc)) (dc_connections dc) w1
      in (dc\<lparr>dc_connections := cs\<rparr>, w2))"

definition dc_update_config :: "int \<Rightarrow> connector \<Rightarrow> connector" where
  "dc_update_config timeout dc = dc\<lparr>dc_connection_timeout := timeout\<rparr>"

definition dc_health_status :: "connector \<Rightarrow> (string, string) smap" where
  "dc_health_status dc =
     fold (\<lambda>(k, v). smap_update k v)
       [(''total_connections'', to_string (int (length (dc_connections dc)))), (''active_connections'', to_string (dc_connection_count dc)),
        (''connection_timeout'', to_string (dc_connection_timeout dc))] []"

section \<open>Descriptors\<close>

text \<open>POSIX: \<^verbatim>\<open>socket\<close> returns a descriptor that was not open, or a negative number; \<^verbatim>\<open>close\<close> frees it; the other calls open and close nothing,
  and \<^verbatim>\<open>recv\<close> returns the number of bytes it has written, at most the size of the buffer. \<open>opened\<close> is the set of open descriptors of a world.\<close>

definition socket_laws :: "'w socket_env \<Rightarrow> ('w \<Rightarrow> int set) \<Rightarrow> bool" where
  "socket_laws env opened \<longleftrightarrow>
     (\<forall>w. if fst (so_socket env w) < 0 then opened (snd (so_socket env w)) = opened w
          else fst (so_socket env w) \<notin> opened w \<and> opened (snd (so_socket env w)) = insert (fst (so_socket env w)) (opened w))
     \<and> (\<forall>w fd. opened (so_close env fd w) = opened w - {fd})
     \<and> (\<forall>w. opened (snd (so_clock env w)) = opened w)
     \<and> (\<forall>w fd. opened (snd (so_setsockopt env fd w)) = opened w)
     \<and> (\<forall>w fd. opened (snd (so_getfl env fd w)) = opened w)
     \<and> (\<forall>w fd fl. opened (snd (so_setfl env fd fl w)) = opened w)
     \<and> (\<forall>w fd a p. opened (snd (so_connect env fd a p w)) = opened w)
     \<and> (\<forall>w fd d. opened (snd (so_send env fd d w)) = opened w)
     \<and> (\<forall>w fd n. opened (snd (so_recv env fd n w)) = opened w)
     \<and> (\<forall>w fd n. case fst (so_recv env fd n w) of (r, e, data) \<Rightarrow> r \<ge> 0 \<longrightarrow> r = int (length data) \<and> length data \<le> n)"

definition fd_of :: "connector \<Rightarrow> string \<rightharpoonup> int" where
  "fd_of dc k = map_option ci_socket_fd (smap_find (dc_connections dc) k)"

definition stored_fds :: "connector \<Rightarrow> int set" where
  "stored_fds dc = ran (fd_of dc)"

definition one_owner :: "connector \<Rightarrow> bool" where
  "one_owner dc \<longleftrightarrow> (\<forall>k k' fd. fd_of dc k = Some fd \<and> fd_of dc k' = Some fd \<longrightarrow> k = k')"

lemma socket_laws_frame:
  assumes "socket_laws env opened"
  shows "opened (so_close env fd w) = opened w - {fd}" "opened (snd (so_clock env w)) = opened w"
    "opened (snd (so_send env fd d w)) = opened w" "opened (snd (so_recv env fd n w)) = opened w"
    "opened (snd (connect_socket env ip port fd w)) = opened w"
  using assms by (simp_all add: socket_laws_def connect_socket_def set_non_blocking_def case_prod_beta Let_def)

lemma socket_call:
  assumes "socket_laws env opened" "so_socket env w = (fd, w')"
  shows "if fd < 0 then opened w' = opened w else fd \<notin> opened w \<and> opened w' = insert fd (opened w)"
proof -
  have "\<forall>w. if fst (so_socket env w) < 0 then opened (snd (so_socket env w)) = opened w
      else fst (so_socket env w) \<notin> opened w \<and> opened (snd (so_socket env w)) = insert (fst (so_socket env w)) (opened w)"
    using assms(1) unfolding socket_laws_def by (rule conjunct1)
  from this [rule_format, of w] show ?thesis unfolding assms(2) fst_conv snd_conv .
qed

definition connector_inv :: "('w \<Rightarrow> int set) \<Rightarrow> connector \<times> 'w \<Rightarrow> bool" where
  "connector_inv opened s \<longleftrightarrow> smap_ok (dc_connections (fst s)) \<and> one_owner (fst s) \<and> stored_fds (fst s) \<subseteq> opened (snd s) \<and> (\<forall>fd \<in> stored_fds (fst s). 0 \<le> fd)"

text \<open>The outcomes of \<^verbatim>\<open>connect\<close>: nothing changed, or one new descriptor is stored in place of what was there.\<close>

lemma dc_connect_cases:
  assumes "socket_laws env opened" "dc_connect env ip port dc w = (ok, dc', w')"
  obtains "dc' = dc" "opened w' = opened w" "ok \<longleftrightarrow> dc_is_connected ip port dc"
  | c where "ok" "\<not> dc_is_connected ip port dc" "0 \<le> ci_socket_fd c" "ci_socket_fd c \<notin> opened w"
    "opened w' = insert (ci_socket_fd c) (opened w)" "dc' = set_connection (connection_id ip port) c dc"
proof (cases "dc_is_connected ip port dc")
  case True
  with assms(2) that(1) show thesis by (auto simp: dc_connect_def dc_is_connected_def)
next
  case False
  obtain fd w1 where s: "so_socket env w = (fd, w1)" by (cases "so_socket env w")
  obtain r w2 where r: "connect_socket env ip port fd w1 = (r, w2)" by (cases "connect_socket env ip port fd w1")
  have w2: "opened w2 = opened w1" using socket_laws_frame(5) [OF assms(1), of ip port fd w1] r by simp
  show thesis
  proof (cases "fd < 0")
    case True
    with assms(2) False socket_call [OF assms(1) s] show thesis
      by (intro that(1)) (auto simp: dc_connect_def dc_is_connected_def s Let_def split: option.splits)
  next
    case fd: False
    with socket_call [OF assms(1) s] have new: "fd \<notin> opened w" "opened w1 = insert fd (opened w)" by simp_all
    show thesis
    proof (cases r)
      case None
      with assms(2) False fd new w2 socket_laws_frame(1) [OF assms(1)] show thesis
        by (intro that(1)) (auto simp: dc_connect_def dc_is_connected_def s r Let_def split: option.splits)
    next
      case (Some result)
      obtain now w3 where t: "so_clock env w2 = (now, w3)" by (cases "so_clock env w2")
      have w3: "opened w3 = opened w2" using socket_laws_frame(2) [OF assms(1), of w2] t by simp
      show thesis
        by (rule that(2) [of "\<lparr>ci_socket_fd = fd, ci_ip_address = ip, ci_port = port, ci_is_connected = (result = 0), ci_created_at = now,
              ci_last_activity = now\<rparr>"])
          (use assms(2) False fd new w2 w3 Some in \<open>auto simp: dc_connect_def dc_is_connected_def set_connection_def s r t Let_def split: option.splits\<close>)
    qed
  qed
qed

lemma fd_of_set: "fd_of (set_connection cid c dc) = (fd_of dc)(cid \<mapsto> ci_socket_fd c)"
  by (auto simp: fd_of_def set_connection_def)

lemma fd_of_erase: "fd_of (dc\<lparr>dc_connections := smap_erase cid (dc_connections dc)\<rparr>) = (fd_of dc)(cid := None)"
  by (auto simp: fd_of_def)

lemma smap_ok_set: "smap_ok (dc_connections (set_connection cid c dc)) = smap_ok (smap_update cid c (dc_connections dc))"
  by (simp add: set_connection_def)

lemma inv_set_fresh:
  assumes "connector_inv opened (dc, w)" "ci_socket_fd c \<notin> opened w" "0 \<le> ci_socket_fd c" "opened w' = insert (ci_socket_fd c) (opened w)"
  shows "connector_inv opened (set_connection cid c dc, w')"
proof -
  have new: "fd_of dc k \<noteq> Some (ci_socket_fd c)" for k
    using assms(1,2) by (auto simp: connector_inv_def stored_fds_def ran_def)
  have "one_owner (set_connection cid c dc)"
    using assms(1) new unfolding one_owner_def connector_inv_def fst_conv fd_of_set fun_upd_apply by (metis option.inject)
  with assms show ?thesis
    by (auto simp: connector_inv_def stored_fds_def fd_of_set smap_ok_set ran_def split: if_splits)
qed

text \<open>An operation that changes an entry keeps its descriptor.\<close>

lemma inv_set_same:
  assumes "connector_inv opened (dc, w)" "smap_find (dc_connections dc) cid = Some c" "ci_socket_fd c' = ci_socket_fd c" "opened w' = opened w"
  shows "connector_inv opened (set_connection cid c' dc, w')"
proof -
  have "fd_of (set_connection cid c' dc) = fd_of dc"
    using assms(2,3) by (simp add: fd_of_set fun_upd_idem_iff) (simp add: fd_of_def)
  with assms(1,4) show ?thesis by (simp add: connector_inv_def one_owner_def stored_fds_def smap_ok_set)
qed

lemma inv_subset:
  assumes "connector_inv opened (dc, w)" "smap_ok (dc_connections dc')" "fd_of dc' \<subseteq>\<^sub>m fd_of dc" "stored_fds dc' \<subseteq> opened w'"
  shows "connector_inv opened (dc', w')"
proof -
  have *: "fd_of dc k = Some fd" if "fd_of dc' k = Some fd" for k fd using assms(3) that by (metis map_le_def domI)
  then have "one_owner dc'" using assms(1) unfolding one_owner_def connector_inv_def fst_conv by blast
  moreover have "stored_fds dc' \<subseteq> stored_fds dc" using * by (auto simp: stored_fds_def ran_def)
  ultimately show ?thesis using assms unfolding connector_inv_def fst_conv snd_conv by blast
qed

lemma stored_fds_set: "smap_ok (dc_connections dc) \<Longrightarrow> fd \<in> stored_fds dc \<longleftrightarrow> (\<exists>p \<in> set (dc_connections dc). fd = ci_socket_fd (snd p))"
  by (auto simp: stored_fds_def fd_of_def ran_def Bex_def smap_in_find)

lemma opened_close_connection: "socket_laws env opened \<Longrightarrow> opened (close_connection env c w) = opened w - {fd. fd = ci_socket_fd c \<and> 0 \<le> fd}"
  by (auto simp: close_connection_def socket_laws_frame)

lemma opened_close_all:
  "socket_laws env opened \<Longrightarrow> opened (close_all env cs w) = opened w - {fd. 0 \<le> fd \<and> (\<exists>p \<in> set cs. fd = ci_socket_fd (snd p))}"
  by (induction env cs w rule: close_all.induct) (auto simp: opened_close_connection)

lemma close_inactive_effect:
  "socket_laws env opened \<Longrightarrow> fst (close_inactive env old cs w) = filter (\<lambda>p. \<not> old (snd p)) cs
    \<and> opened (snd (close_inactive env old cs w)) = opened w - {fd. 0 \<le> fd \<and> (\<exists>p \<in> set cs. old (snd p) \<and> fd = ci_socket_fd (snd p))}"
  by (induction env old cs w rule: close_inactive.induct) (auto simp: opened_close_connection case_prod_beta)

section \<open>The machine\<close>

text \<open>Calls of the methods; between them the rest of the program opens and closes its own descriptors.\<close>

inductive connector_step :: "'w socket_env \<Rightarrow> ('w \<Rightarrow> int set) \<Rightarrow> connector \<times> 'w \<Rightarrow> connector \<times> 'w \<Rightarrow> bool"
  for env :: "'w socket_env" and opened :: "'w \<Rightarrow> int set" where
  connect: "dc_connect env ip port dc w = (r, dc', w') \<Longrightarrow> connector_step env opened (dc, w) (dc', w')"
| disconnect: "dc_disconnect env ip port dc w = (r, dc', w') \<Longrightarrow> connector_step env opened (dc, w) (dc', w')"
| disconnect_all: "dc_disconnect_all env dc w = (dc', w') \<Longrightarrow> connector_step env opened (dc, w) (dc', w')"
| send: "dc_send_data env ip port data dc w = (r, dc', w') \<Longrightarrow> connector_step env opened (dc, w) (dc', w')"
| receive: "dc_receive_data env ip port n dc w = (data, dc', w') \<Longrightarrow> connector_step env opened (dc, w) (dc', w')"
| cleanup: "dc_cleanup_inactive env dc w = (dc', w') \<Longrightarrow> connector_step env opened (dc, w) (dc', w')"
| config: "connector_step env opened (dc, w) (dc_update_config timeout dc, w)"
| others: "stored_fds dc \<subseteq> opened w' \<Longrightarrow> connector_step env opened (dc, w) (dc, w')"

definition connector_init :: "connector \<times> 'w \<Rightarrow> bool" where
  "connector_init s \<longleftrightarrow> (\<exists>timeout w. s = (new_connector timeout, w))"

lemma inv_connect:
  assumes "socket_laws env opened" "connector_inv opened (dc, w)" "dc_connect env ip port dc w = (r, dc', w')"
  shows "connector_inv opened (dc', w')"
  using assms(1,3)
proof (cases rule: dc_connect_cases)
  case 1
  with assms(2) show ?thesis by (simp add: connector_inv_def)
next
  case (2 c)
  with assms(2) show ?thesis by (simp add: inv_set_fresh)
qed

lemma inv_disconnect:
  assumes "socket_laws env opened" "connector_inv opened (dc, w)" "smap_find (dc_connections dc) cid = Some c"
  shows "connector_inv opened (dc\<lparr>dc_connections := smap_erase cid (dc_connections dc)\<rparr>, close_connection env c w)
    \<and> opened (close_connection env c w) = opened w - {ci_socket_fd c}
    \<and> stored_fds (dc\<lparr>dc_connections := smap_erase cid (dc_connections dc)\<rparr>) = stored_fds dc - {ci_socket_fd c}"
proof -
  let ?dc = "dc\<lparr>dc_connections := smap_erase cid (dc_connections dc)\<rparr>"
  have c: "fd_of dc cid = Some (ci_socket_fd c)" using assms(3) by (simp add: fd_of_def)
  then have "0 \<le> ci_socket_fd c" using assms(2) by (auto simp: connector_inv_def stored_fds_def ran_def)
  then have o: "opened (close_connection env c w) = opened w - {ci_socket_fd c}" using opened_close_connection [OF assms(1)] by auto
  have f: "stored_fds ?dc = stored_fds dc - {ci_socket_fd c}"
    using assms(2) c unfolding connector_inv_def one_owner_def stored_fds_def fd_of_erase ran_def fst_conv fun_upd_apply
    by (auto split: if_splits) (metis option.inject)
  have "connector_inv opened (?dc, close_connection env c w)"
    using assms(2) o f by (intro inv_subset [OF assms(2)]) (auto simp: connector_inv_def fd_of_erase map_le_def split: if_splits)
  with o f show ?thesis by simp
qed

lemma inv_world: "connector_inv opened (dc, w) \<Longrightarrow> opened w' = opened w \<Longrightarrow> connector_inv opened (dc, w')"
  by (simp add: connector_inv_def)

lemma inv_transfer:
  assumes "socket_laws env opened" "connector_inv opened (dc, w)"
  shows "connector_inv opened (snd (dc_send_data env ip port data dc w))" "connector_inv opened (snd (dc_receive_data env ip port n dc w))"
proof -
  have "connector_inv opened (snd (dc_send_data env ip port data dc w)) \<and> connector_inv opened (snd (dc_receive_data env ip port n dc w))"
  proof (cases "smap_find (dc_connections dc) (connection_id ip port)")
    case None
    with assms(2) show ?thesis by (simp add: dc_send_data_def dc_receive_data_def Let_def)
  next
    case (Some c)
    with assms(2) show ?thesis
      by (simp add: dc_send_data_def dc_receive_data_def Let_def case_prod_beta inv_set_same [OF assms(2) Some] inv_world [OF assms(2)]
          socket_laws_frame [OF assms(1)])
  qed
  then show "connector_inv opened (snd (dc_send_data env ip port data dc w))" "connector_inv opened (snd (dc_receive_data env ip port n dc w))"
    by simp_all
qed

lemma inv_cleanup:
  assumes "socket_laws env opened" "connector_inv opened (dc, w)" "dc_cleanup_inactive env dc w = (dc', w')"
  shows "connector_inv opened (dc', w')"
proof -
  let ?old = "\<lambda>c. fst (so_clock env w) - ci_last_activity c > milliseconds (dc_connection_timeout dc)"
  have ok: "smap_ok (dc_connections dc)" and own: "one_owner dc" and op: "stored_fds dc \<subseteq> opened w"
    using assms(2) by (simp_all add: connector_inv_def)
  have dc': "dc' = dc\<lparr>dc_connections := filter (\<lambda>p. \<not> ?old (snd p)) (dc_connections dc)\<rparr>"
    and w': "opened w' = opened w - {fd. 0 \<le> fd \<and> (\<exists>p \<in> set (dc_connections dc). ?old (snd p) \<and> fd = ci_socket_fd (snd p))}"
    using assms(3) close_inactive_effect [OF assms(1), of ?old "dc_connections dc" "snd (so_clock env w)"]
    by (auto simp: dc_cleanup_inactive_def case_prod_beta socket_laws_frame [OF assms(1)])
  have ok': "smap_ok (dc_connections dc')" using ok by (simp add: dc')
  have find: "smap_find (dc_connections dc') k = Some c \<longleftrightarrow> smap_find (dc_connections dc) k = Some c \<and> \<not> ?old c" for k c
    using map_of_filter_snd [OF ok, of "\<lambda>c. \<not> ?old c" k] by (auto simp: dc' split: option.splits)
  have "ci_socket_fd c' \<noteq> ci_socket_fd c" if "smap_find (dc_connections dc) k = Some c" "\<not> ?old c" "smap_find (dc_connections dc) k' = Some c'" "?old c'" for k k' c c'
  proof
    assume "ci_socket_fd c' = ci_socket_fd c"
    with that own have "k = k'" unfolding one_owner_def fd_of_def by (metis option.simps(9))
    with that show False by simp
  qed
  then have "stored_fds dc' \<subseteq> opened w'"
    using op find ok by (fastforce simp: w' stored_fds_def fd_of_def ran_def smap_in_find Bex_def)
  moreover have "fd_of dc' \<subseteq>\<^sub>m fd_of dc" using find by (auto simp: fd_of_def map_le_def)
  ultimately show ?thesis using inv_subset [OF assms(2) ok'] by blast
qed

lemma connector_inv_step:
  assumes "socket_laws env opened" "connector_step env opened s t" "connector_inv opened s"
  shows "connector_inv opened t"
  using assms(2)
proof cases
  case (connect ip port dc w r dc' w')
  with assms(3) inv_connect [OF assms(1)] show ?thesis by blast
next
  case (disconnect ip port dc w r dc' w')
  with assms(3) inv_disconnect [OF assms(1), of dc w] show ?thesis by (auto simp: dc_disconnect_def Let_def split: option.splits)
next
  case (cleanup dc w dc' w')
  with assms(3) inv_cleanup [OF assms(1)] show ?thesis by blast
next
  case (send ip port data dc w r dc' w')
  with assms(3) inv_transfer(1) [OF assms(1), of dc w ip port data] show ?thesis by simp
next
  case (receive ip port n dc w data dc' w')
  with assms(3) inv_transfer(2) [OF assms(1), of dc w ip port n] show ?thesis by simp
qed (use assms(3) in \<open>auto simp: connector_inv_def dc_disconnect_all_def dc_update_config_def one_owner_def stored_fds_def fd_of_def ran_def\<close>)

interpretation connector_system: invariant_system connector_init "connector_step env opened"
  "\<lambda>s. socket_laws env opened \<longrightarrow> connector_inv opened s"
proof
  show "connector_init s \<Longrightarrow> socket_laws env opened \<longrightarrow> connector_inv opened s" for s :: "connector \<times> 'a"
    by (auto simp: connector_init_def new_connector_def connector_inv_def one_owner_def stored_fds_def fd_of_def ran_def)
qed (auto intro: connector_inv_step)

text \<open>Connections whose \<^verbatim>\<open>connect\<close> did not complete at once: nothing sets \<^verbatim>\<open>is_connected\<close> later.\<close>

definition none_connected :: "connector \<times> 'w \<Rightarrow> bool" where
  "none_connected s \<longleftrightarrow> (\<forall>k c. (k, c) \<in> set (dc_connections (fst s)) \<longrightarrow> \<not> ci_is_connected c)"

lemma set_smap_update: "set (smap_update k v m) \<subseteq> insert (k, v) (set m)"
  by (induction k v m rule: smap_update.induct) auto

definition connect_is_pending :: "'w socket_env \<Rightarrow> bool" where
  "connect_is_pending env \<longleftrightarrow> (\<forall>fd a p w. fst (fst (so_connect env fd a p w)) \<noteq> 0)"

lemma none_connected_calls:
  assumes "none_connected (dc, w)"
  shows "\<not> dc_is_connected ip port dc" "dc_send_data env ip port data dc w = (False, dc, w)" "dc_receive_data env ip port n dc w = ([], dc, w)"
proof -
  have "\<not> ci_is_connected c" if "smap_find (dc_connections dc) k = Some c" for k c
    using assms map_of_SomeD [OF that] by (force simp: none_connected_def)
  then show "\<not> dc_is_connected ip port dc" "dc_send_data env ip port data dc w = (False, dc, w)" "dc_receive_data env ip port n dc w = ([], dc, w)"
    by (auto simp: dc_is_connected_def dc_send_data_def dc_receive_data_def Let_def split: option.splits)
qed

lemma pending_socket: "connect_is_pending env \<Longrightarrow> connect_socket env ip port fd w = (Some result, w') \<Longrightarrow> result \<noteq> 0"
  by (auto simp: connect_is_pending_def connect_socket_def case_prod_beta Let_def split: if_splits)

lemma none_connected_connect:
  assumes "connect_is_pending env" "none_connected (dc, w)" "dc_connect env ip port dc w = (r, dc', w')"
  shows "none_connected (dc', w')"
proof -
  obtain fd w1 where s: "so_socket env w = (fd, w1)" by (cases "so_socket env w")
  obtain q w2 where q: "connect_socket env ip port fd w1 = (q, w2)" by (cases "connect_socket env ip port fd w1")
  from assms(2,3) pending_socket [OF assms(1), of ip port fd w1] show ?thesis
    by (cases q) (auto simp: none_connected_def dc_connect_def s q Let_def split: option.splits if_splits prod.splits
        dest!: subsetD [OF set_smap_update])
qed

lemma dc_cleanup_find:
  assumes "dc_cleanup_inactive env dc w = (dc', w')" "p \<in> set (dc_connections dc')"
  shows "p \<in> set (dc_connections dc)"
proof -
  have *: "set (fst (close_inactive env old cs v)) \<subseteq> set cs" for old cs v
    by (induction env old cs v rule: close_inactive.induct) (auto simp: case_prod_beta)
  from assms show ?thesis by (auto simp: dc_cleanup_inactive_def case_prod_beta dest!: subsetD [OF *])
qed

interpretation pending_system: invariant_system connector_init "connector_step env opened" "\<lambda>s. connect_is_pending env \<longrightarrow> none_connected s"
proof
  show "connector_init s \<Longrightarrow> connect_is_pending env \<longrightarrow> none_connected s" for s :: "connector \<times> 'a"
    by (auto simp: connector_init_def new_connector_def none_connected_def)
  show "connect_is_pending env \<longrightarrow> none_connected t" if "connect_is_pending env \<longrightarrow> none_connected s" "connector_step env opened s t" for s t :: "connector \<times> 'a"
    using that(2)
  proof cases
    case (connect ip port dc w r dc' w')
    with that(1) none_connected_connect [of env dc w ip port r dc' w'] show ?thesis by simp
  next
    case (cleanup dc w dc' w')
    with that(1) dc_cleanup_find [of env dc w dc' w'] show ?thesis by (auto simp: none_connected_def)
  next
    case (send ip port data dc w r dc' w')
    with that(1) none_connected_calls(2) [of dc w env ip port data] show ?thesis by auto
  next
    case (receive ip port n dc w data dc' w')
    with that(1) none_connected_calls(3) [of dc w env ip port n] show ?thesis by auto
  qed (use that(1) in \<open>auto simp: none_connected_def dc_disconnect_def dc_disconnect_all_def dc_update_config_def smap_erase_def Let_def split: option.splits\<close>)
qed

section \<open>Properties\<close>

text \<open>C33: Every descriptor has one owner. When the system calls follow POSIX, in every reachable state of the peer connector the descriptors in its entries are open and no two entries share one; a
  \<^verbatim>\<open>connect\<close> that fails leaves no descriptor open, whichever call failed; \<^verbatim>\<open>disconnect\<close> closes the descriptor of its entry and no other, and the destructor closes exactly the
  descriptors of all entries.\<close>

theorem descriptors_have_one_owner:
  assumes "socket_laws env opened" "reachable connector_init (connector_step env opened) (dc, w)"
  shows "one_owner dc \<and> stored_fds dc \<subseteq> opened w
    \<and> (dc_connect env ip port dc w = (False, dc', w') \<longrightarrow> dc' = dc \<and> opened w' = opened w)
    \<and> (fd_of dc (connection_id ip port) = Some fd \<longrightarrow> (\<exists>dc'' w''. dc_disconnect env ip port dc w = (True, dc'', w'')
         \<and> opened w'' = opened w - {fd} \<and> stored_fds dc'' = stored_fds dc - {fd}))
    \<and> opened (snd (dc_destroy env dc w)) = opened w - stored_fds dc"
proof -
  have inv: "connector_inv opened (dc, w)" using connector_system.inv_reachable assms by blast
  have "dc' = dc \<and> opened w' = opened w" if "dc_connect env ip port dc w = (False, dc', w')"
    using assms(1) that by (cases rule: dc_connect_cases) auto
  moreover have "\<exists>dc'' w''. dc_disconnect env ip port dc w = (True, dc'', w'') \<and> opened w'' = opened w - {fd} \<and> stored_fds dc'' = stored_fds dc - {fd}"
    if "fd_of dc (connection_id ip port) = Some fd"
    using that inv_disconnect [OF assms(1) inv] by (auto simp: fd_of_def dc_disconnect_def Let_def)
  moreover have "opened (snd (dc_destroy env dc w)) = opened w - stored_fds dc"
    using inv stored_fds_set [of dc] by (auto simp: dc_destroy_def dc_disconnect_all_def opened_close_all [OF assms(1)] connector_inv_def)
  ultimately show ?thesis using inv by (simp add: connector_inv_def)
qed

text \<open>A system in which the world is the list of open descriptors and no \<^verbatim>\<open>connect\<close> completes at once.\<close>

definition demo_sockets :: "int list socket_env" where
  "demo_sockets = \<lparr>so_clock = (\<lambda>w. (0, w)), so_o_nonblock = 4, so_inet_pton = (\<lambda>s. (1, 0)), so_socket = (\<lambda>w. let fd = foldr max w 0 + 1 in (fd, fd # w)),
     so_setsockopt = (\<lambda>fd w. (0, w)), so_getfl = (\<lambda>fd w. (0, w)), so_setfl = (\<lambda>fd fl w. (0, w)), so_connect = (\<lambda>fd a p w. ((-1, E_INPROGRESS), w)),
     so_send = (\<lambda>fd d w. ((int (length d), E_OTHER), w)), so_recv = (\<lambda>fd n w. ((0, E_OTHER, []), w)), so_close = (\<lambda>fd w. filter (\<lambda>x. x \<noteq> fd) w)\<rparr>"

lemma demo_sockets_laws: "socket_laws demo_sockets set"
proof -
  have "x \<le> foldr max w 0" if "x \<in> set w" for x :: int and w using that by (induction w) auto
  then have "foldr max w 0 + 1 \<notin> set w" for w :: "int list" by force
  moreover have "\<not> foldr max w 0 + 1 < (0 :: int)" for w by (induction w) auto
  ultimately show ?thesis by (auto simp: socket_laws_def demo_sockets_def Let_def)
qed

definition demo_connector :: "connector \<times> int list" where
  "demo_connector = snd (dc_connect demo_sockets ''a'' 1 (new_connector 1000) [])"

lemma demo_connector_reachable: "reachable connector_init (connector_step demo_sockets set) (fst demo_connector, snd demo_connector)"
proof -
  have "reachable connector_init (connector_step demo_sockets set) (new_connector 1000, [])"
    by (rule reachable.start) (auto simp: connector_init_def)
  then show ?thesis
    by (rule reachable.move)
      (rule connector_step.connect [where r = "fst (dc_connect demo_sockets ''a'' 1 (new_connector 1000) [])"], simp add: demo_connector_def)
qed

lemma demo_connector_value: "fd_of (fst demo_connector) (connection_id ''a'' 1) = Some 1" "snd demo_connector = [1]" by code_simp+

theorem descriptors_have_one_owner_witness:
  "one_owner (fst demo_connector) \<and> stored_fds (fst demo_connector) \<subseteq> set (snd demo_connector)
   \<and> (\<exists>dc w. dc_disconnect demo_sockets ''a'' 1 (fst demo_connector) (snd demo_connector) = (True, dc, w) \<and> set w = {})
   \<and> set (snd (dc_destroy demo_sockets (fst demo_connector) (snd demo_connector))) = set (snd demo_connector) - stored_fds (fst demo_connector)"
  using descriptors_have_one_owner [OF demo_sockets_laws demo_connector_reachable, of "''a''" 1 "fst demo_connector" "[]" 1] demo_connector_value by auto

text \<open>C34: A pending connection is never used and its descriptor is lost when it is tried again. When no non-blocking \<^verbatim>\<open>connect\<close> completes at once (it returns \<^verbatim>\<open>EINPROGRESS\<close>), no peer
  of a reachable state is connected, \<^verbatim>\<open>sendData\<close> returns false and \<^verbatim>\<open>receiveData\<close> nothing, although \<^verbatim>\<open>connect\<close> has returned true; and a second successful \<^verbatim>\<open>connect\<close> to the same
  peer replaces the entry without closing its socket: the old descriptor is then open, in no entry, and still open after the destructor has run.\<close>

theorem pending_connections_leak:
  assumes "socket_laws env opened" "connect_is_pending env" "reachable connector_init (connector_step env opened) (dc, w)"
    and "fd_of dc (connection_id ip port) = Some fd" "dc_connect env ip port dc w = (True, dc', w')"
  shows "\<not> dc_is_connected ip' port' dc \<and> \<not> fst (dc_send_data env ip' port' data dc w) \<and> fst (dc_receive_data env ip' port' n dc w) = []
    \<and> fd \<in> opened w' \<and> fd \<notin> stored_fds dc' \<and> fd \<in> opened (snd (dc_destroy env dc' w'))"
proof -
  have inv: "connector_inv opened (dc, w)" using connector_system.inv_reachable assms(1,3) by blast
  have none: "none_connected (dc, w)" using pending_system.inv_reachable assms(2,3) by blast
  have inv': "connector_inv opened (dc', w')" by (rule inv_connect [OF assms(1) inv assms(5)])
  have fd: "fd \<in> opened w" using inv assms(4) by (auto simp: connector_inv_def stored_fds_def ran_def)
  from assms(1,5) have "fd \<in> opened w' \<and> fd \<notin> stored_fds dc'"
  proof (cases rule: dc_connect_cases)
    case (2 c)
    have "fd_of dc k \<noteq> Some fd" if "k \<noteq> connection_id ip port" for k
      using inv assms(4) that by (auto simp: connector_inv_def one_owner_def)
    with 2 fd show ?thesis by (auto simp: stored_fds_def fd_of_set ran_def split: if_splits)
  qed (use none_connected_calls(1) [OF none] in auto)
  moreover from this have "fd \<in> opened (snd (dc_destroy env dc' w'))"
    using inv' stored_fds_set [of dc'] by (auto simp: dc_destroy_def dc_disconnect_all_def opened_close_all [OF assms(1)] connector_inv_def)
  ultimately show ?thesis by (simp add: none_connected_calls [OF none])
qed

theorem pending_connections_leak_witness:
  "\<not> dc_is_connected ''a'' 1 (fst demo_connector)
   \<and> (\<exists>dc w. dc_connect demo_sockets ''a'' 1 (fst demo_connector) (snd demo_connector) = (True, dc, w)
        \<and> 1 \<in> set w \<and> 1 \<notin> stored_fds dc \<and> 1 \<in> set (snd (dc_destroy demo_sockets dc w)))"
proof -
  let ?r = "dc_connect demo_sockets ''a'' 1 (fst demo_connector) (snd demo_connector)"
  have pending: "connect_is_pending demo_sockets" by (simp add: connect_is_pending_def demo_sockets_def)
  have "fst ?r" by code_simp
  then have r: "?r = (True, fst (snd ?r), snd (snd ?r))" by (simp add: prod_eq_iff)
  note th = pending_connections_leak [OF demo_sockets_laws pending demo_connector_reachable demo_connector_value(1) r]
  show ?thesis using th [of "''a''" 1] r by blast
qed

end
