(* ===== verification/Hybrid_Connection.thy ===== *)
theory Hybrid_Connection
  imports Expiring_Store State_Machine Double_Arithmetic Direct_Connector Performance_Monitor
begin

text \<open>
  \<^verbatim>\<open>HybridConnectionManager\<close> as \<^verbatim>\<open>hybrid_connection_manager.cpp\<close> defines it: connections to peers, tried directly or through libtorrent, both simulated. The header declares other
  members and other enumerators, so that the two files do not compile together; the state has the members that the source file uses. A
  new \<^verbatim>\<open>ConnectionInfo\<close> starts from the parameter \<open>fresh\<close>: the source increments its \<^verbatim>\<open>connection_attempts\<close> without setting it, and never assigns
  its metrics. A lookup that finds nothing returns a default object, written \<open>None\<close>.
\<close>

section \<open>Definitions\<close>

datatype connection_strategy = CS_DIRECT_FIRST | CS_LIBTORRENT_FIRST | CS_DIRECT_ONLY | CS_LIBTORRENT_ONLY
datatype connection_type = CT_DIRECT | CT_LIBTORRENT | CT_UNKNOWN

record 'm hybrid_connection =
  hc_peer_ip :: string
  hc_peer_port :: int
  hc_info_hash :: string
  hc_strategy :: connection_strategy
  hc_connection_type :: connection_type
  hc_is_connected :: bool
  hc_created_at :: time
  hc_last_activity :: time
  hc_connected_at :: time
  hc_disconnected_at :: time
  hc_performance_score :: rat
  hc_connection_attempts :: int
  hc_performance_metrics :: 'm

record hybrid_config =
  hyc_prefer_direct_connections :: bool
  hyc_max_connection_attempts :: int
  hyc_connection_timeout :: int

record 'm hybrid_manager =
  hm_config :: hybrid_config
  hm_connections :: "(string, 'm hybrid_connection) smap"

definition new_hybrid_manager :: "hybrid_config \<Rightarrow> 'm hybrid_manager" where
  "new_hybrid_manager config = \<lparr>hm_config = config, hm_connections = []\<rparr>"

definition determine_strategy :: "hybrid_config \<Rightarrow> string \<Rightarrow> int \<Rightarrow> connection_strategy" where
  "determine_strategy config ip port = (if hyc_prefer_direct_connections config then CS_DIRECT_FIRST else CS_LIBTORRENT_FIRST)"

definition strategy_type :: "connection_strategy \<Rightarrow> connection_type" where
  "strategy_type strategy =
     (case strategy of CS_DIRECT_FIRST \<Rightarrow> CT_DIRECT | CS_DIRECT_ONLY \<Rightarrow> CT_DIRECT | CS_LIBTORRENT_FIRST \<Rightarrow> CT_LIBTORRENT | CS_LIBTORRENT_ONLY \<Rightarrow> CT_LIBTORRENT)"

definition attempt_direct :: "'w clock \<Rightarrow> hybrid_config \<Rightarrow> 'm hybrid_connection \<Rightarrow> 'w \<Rightarrow> bool \<times> 'm hybrid_connection \<times> 'w" where
  "attempt_direct clk config c w =
     (let c1 = c\<lparr>hc_connection_type := CT_DIRECT, hc_connection_attempts := hc_connection_attempts c + 1\<rparr>
      in if hc_connection_attempts c1 \<le> hyc_max_connection_attempts config then
           (let (now, w1) = clk w in (True, c1\<lparr>hc_connected_at := now, hc_performance_score := double_0_8\<rparr>, w1))
         else (False, c1, w))"

definition attempt_libtorrent :: "'w clock \<Rightarrow> hybrid_config \<Rightarrow> 'm hybrid_connection \<Rightarrow> 'w \<Rightarrow> bool \<times> 'm hybrid_connection \<times> 'w" where
  "attempt_libtorrent clk config c w =
     (let c1 = c\<lparr>hc_connection_type := CT_LIBTORRENT, hc_connection_attempts := hc_connection_attempts c + 1\<rparr>
      in if hc_connection_attempts c1 \<le> hyc_max_connection_attempts config then
           (let (now, w1) = clk w in (True, c1\<lparr>hc_connected_at := now, hc_performance_score := double_0_6\<rparr>, w1))
         else (False, c1, w))"

definition attempt_connection :: "'w clock \<Rightarrow> hybrid_config \<Rightarrow> connection_strategy \<Rightarrow> 'm hybrid_connection \<Rightarrow> 'w \<Rightarrow> bool \<times> 'm hybrid_connection \<times> 'w" where
  "attempt_connection clk config strategy c w =
     (case strategy of
        CS_DIRECT_FIRST \<Rightarrow>
          (let (ok, c1, w1) = attempt_direct clk config c w in if ok then (True, c1, w1) else attempt_libtorrent clk config c1 w1)
      | CS_LIBTORRENT_FIRST \<Rightarrow>
          (let (ok, c1, w1) = attempt_libtorrent clk config c w in if ok then (True, c1, w1) else attempt_direct clk config c1 w1)
      | CS_DIRECT_ONLY \<Rightarrow> attempt_direct clk config c w
      | CS_LIBTORRENT_ONLY \<Rightarrow> attempt_libtorrent clk config c w)"

definition hm_connect_peer :: "'m hybrid_connection \<Rightarrow> 'w clock \<Rightarrow> string \<Rightarrow> int \<Rightarrow> string \<Rightarrow> 'm hybrid_manager \<Rightarrow> 'w \<Rightarrow> bool \<times> 'm hybrid_manager \<times> 'w" where
  "hm_connect_peer fresh clk ip port info_hash hm w =
     (let cid = connection_id ip port
      in if (case smap_find (hm_connections hm) cid of Some c \<Rightarrow> hc_is_connected c | None \<Rightarrow> False) then (True, hm, w)
         else
           (let strategy = determine_strategy (hm_config hm) ip port;
                (now, w1) = clk w;
                c = fresh\<lparr>hc_peer_ip := ip, hc_peer_port := port, hc_info_hash := info_hash, hc_strategy := strategy,
                  hc_connection_type := strategy_type strategy, hc_is_connected := False, hc_created_at := now, hc_last_activity := now,
                  hc_performance_score := 0\<rparr>;
                (ok, c1, w2) = attempt_connection clk (hm_config hm) strategy c w1
            in (ok, hm\<lparr>hm_connections := smap_update cid (c1\<lparr>hc_is_connected := ok\<rparr>) (hm_connections hm)\<rparr>, w2)))"

text \<open>\<^verbatim>\<open>disconnectDirectConnection\<close> and \<^verbatim>\<open>disconnectLibtorrentConnection\<close> are the same statements; the entry they change is erased next.\<close>

definition disconnect_connection :: "'w clock \<Rightarrow> 'm hybrid_connection \<Rightarrow> 'w \<Rightarrow> 'm hybrid_connection \<times> 'w" where
  "disconnect_connection clk c w = (let (now, w1) = clk w in (c\<lparr>hc_is_connected := False, hc_disconnected_at := now\<rparr>, w1))"

definition disconnect_by_type :: "'w clock \<Rightarrow> 'm hybrid_connection \<Rightarrow> 'w \<Rightarrow> 'w" where
  "disconnect_by_type clk c w = (case hc_connection_type c of CT_UNKNOWN \<Rightarrow> w | _ \<Rightarrow> snd (disconnect_connection clk c w))"

definition hm_disconnect_peer :: "'w clock \<Rightarrow> string \<Rightarrow> int \<Rightarrow> 'm hybrid_manager \<Rightarrow> 'w \<Rightarrow> bool \<times> 'm hybrid_manager \<times> 'w" where
  "hm_disconnect_peer clk ip port hm w =
     (case smap_find (hm_connections hm) (connection_id ip port) of
        Some c \<Rightarrow> (True, hm\<lparr>hm_connections := smap_erase (connection_id ip port) (hm_connections hm)\<rparr>, disconnect_by_type clk c w)
      | None \<Rightarrow> (False, hm, w))"

definition hm_connection_type :: "string \<Rightarrow> int \<Rightarrow> 'm hybrid_manager \<Rightarrow> connection_type" where
  "hm_connection_type ip port hm =
     (case smap_find (hm_connections hm) (connection_id ip port) of Some c \<Rightarrow> hc_connection_type c | None \<Rightarrow> CT_UNKNOWN)"

definition hm_performance_metrics :: "string \<Rightarrow> int \<Rightarrow> 'm hybrid_manager \<Rightarrow> 'm option" where
  "hm_performance_metrics ip port hm = map_option hc_performance_metrics (smap_find (hm_connections hm) (connection_id ip port))"

definition hm_set_strategy :: "string \<Rightarrow> int \<Rightarrow> connection_strategy \<Rightarrow> 'm hybrid_manager \<Rightarrow> 'm hybrid_manager" where
  "hm_set_strategy ip port strategy hm =
     (case smap_find (hm_connections hm) (connection_id ip port) of
        Some c \<Rightarrow> hm\<lparr>hm_connections := smap_update (connection_id ip port) (c\<lparr>hc_strategy := strategy\<rparr>) (hm_connections hm)\<rparr>
      | None \<Rightarrow> hm)"

definition connected_of :: "('m hybrid_connection \<Rightarrow> bool) \<Rightarrow> 'm hybrid_manager \<Rightarrow> string list" where
  "connected_of P hm = map fst (filter (\<lambda>(k, c). hc_is_connected c \<and> P c) (hm_connections hm))"

definition hm_connected_peers :: "'m hybrid_manager \<Rightarrow> string list" where
  "hm_connected_peers = connected_of (\<lambda>c. True)"

definition hm_direct_connections :: "'m hybrid_manager \<Rightarrow> string list" where
  "hm_direct_connections = connected_of (\<lambda>c. hc_connection_type c = CT_DIRECT)"

definition hm_libtorrent_connections :: "'m hybrid_manager \<Rightarrow> string list" where
  "hm_libtorrent_connections = connected_of (\<lambda>c. hc_connection_type c = CT_LIBTORRENT)"

definition count_connected :: "('m hybrid_connection \<Rightarrow> bool) \<Rightarrow> 'm hybrid_manager \<Rightarrow> int" where
  "count_connected P hm = foldl (\<lambda>n (k, c). if hc_is_connected c \<and> P c then n + 1 else n) 0 (hm_connections hm)"

definition hm_connection_count :: "'m hybrid_manager \<Rightarrow> int" where
  "hm_connection_count = count_connected (\<lambda>c. True)"

definition hm_direct_count :: "'m hybrid_manager \<Rightarrow> int" where
  "hm_direct_count = count_connected (\<lambda>c. hc_connection_type c = CT_DIRECT)"

definition hm_libtorrent_count :: "'m hybrid_manager \<Rightarrow> int" where
  "hm_libtorrent_count = count_connected (\<lambda>c. hc_connection_type c = CT_LIBTORRENT)"

definition hm_connection_info :: "string \<Rightarrow> int \<Rightarrow> 'm hybrid_manager \<Rightarrow> 'm hybrid_connection option" where
  "hm_connection_info ip port hm = smap_find (hm_connections hm) (connection_id ip port)"

fun disconnect_inactive :: "'w clock \<Rightarrow> ('m hybrid_connection \<Rightarrow> bool) \<Rightarrow> (string, 'm hybrid_connection) smap \<Rightarrow> 'w
    \<Rightarrow> (string, 'm hybrid_connection) smap \<times> 'w" where
  "disconnect_inactive clk inactive [] w = ([], w)"
| "disconnect_inactive clk inactive ((k, c) # cs) w =
     (if inactive c then disconnect_inactive clk inactive cs (if hc_is_connected c then disconnect_by_type clk c w else w)
      else let (cs', w1) = disconnect_inactive clk inactive cs w in ((k, c) # cs', w1))"

definition hm_cleanup_inactive :: "'w clock \<Rightarrow> 'm hybrid_manager \<Rightarrow> 'w \<Rightarrow> 'm hybrid_manager \<times> 'w" where
  "hm_cleanup_inactive clk hm w =
     (let (now, w1) = clk w;
          (cs, w2) = disconnect_inactive clk (\<lambda>c. now - hc_last_activity c > milliseconds (hyc_connection_timeout (hm_config hm))) (hm_connections hm) w1
      in (hm\<lparr>hm_connections := cs\<rparr>, w2))"

definition hm_update_config :: "hybrid_config \<Rightarrow> 'm hybrid_manager \<Rightarrow> 'm hybrid_manager" where
  "hm_update_config config hm = hm\<lparr>hm_config := config\<rparr>"

definition hm_health_status :: "'m hybrid_manager \<Rightarrow> (string, string) smap" where
  "hm_health_status hm =
     fold (\<lambda>(k, v). smap_update k v)
       [(''total_connections'', to_string (int (length (hm_connections hm)))), (''active_connections'', to_string (hm_connection_count hm)),
        (''direct_connections'', to_string (hm_direct_count hm)), (''libtorrent_connections'', to_string (hm_libtorrent_count hm)),
        (''connection_timeout'', to_string (hyc_connection_timeout (hm_config hm)))] []"

section \<open>Attempts\<close>

lemma attempt_connection_result:
  assumes "attempt_connection clk config strategy c w = (ok, c', w')"
  shows "(ok \<longleftrightarrow> hc_connection_attempts c + 1 \<le> hyc_max_connection_attempts config) \<and> (ok \<longrightarrow> hc_connection_type c' = strategy_type strategy)
    \<and> hc_last_activity c' = hc_last_activity c \<and> hc_created_at c' = hc_created_at c
    \<and> (\<not> ok \<longrightarrow> hc_performance_score c' = hc_performance_score c) \<and> (ok \<longrightarrow> 0 < hc_performance_score c')"
  using assms
  by (cases strategy) (auto simp: attempt_connection_def attempt_direct_def attempt_libtorrent_def strategy_type_def case_prod_beta Let_def double_0_8_def
      double_0_6_def split: if_splits)

section \<open>The machine\<close>

inductive hybrid_step :: "'m hybrid_connection \<Rightarrow> 'w clock \<Rightarrow> 'm hybrid_manager \<times> 'w \<Rightarrow> 'm hybrid_manager \<times> 'w \<Rightarrow> bool"
  for fresh :: "'m hybrid_connection" and clk :: "'w clock" where
  connect: "hm_connect_peer fresh clk ip port h hm w = (r, hm', w') \<Longrightarrow> hybrid_step fresh clk (hm, w) (hm', w')"
| disconnect: "hm_disconnect_peer clk ip port hm w = (r, hm', w') \<Longrightarrow> hybrid_step fresh clk (hm, w) (hm', w')"
| strategy: "hybrid_step fresh clk (hm, w) (hm_set_strategy ip port s hm, w)"
| cleanup: "hm_cleanup_inactive clk hm w = (hm', w') \<Longrightarrow> hybrid_step fresh clk (hm, w) (hm', w')"
| config: "hybrid_step fresh clk (hm, w) (hm_update_config c hm, w)"
| tick: "hybrid_step fresh clk (hm, w) (hm, w')"

definition hybrid_init :: "'m hybrid_manager \<times> 'w \<Rightarrow> bool" where
  "hybrid_init s \<longleftrightarrow> (\<exists>config w. s = (new_hybrid_manager config, w))"

definition hybrid_ok :: "'m hybrid_connection \<Rightarrow> bool" where
  "hybrid_ok c \<longleftrightarrow> hc_last_activity c = hc_created_at c \<and> (hc_is_connected c \<longleftrightarrow> 0 < hc_performance_score c)
     \<and> (hc_is_connected c \<longrightarrow> hc_connection_type c \<noteq> CT_UNKNOWN)"

definition hybrid_inv :: "'m hybrid_manager \<times> 'w \<Rightarrow> bool" where
  "hybrid_inv s \<longleftrightarrow> smap_ok (hm_connections (fst s)) \<and> (\<forall>k c. (k, c) \<in> set (hm_connections (fst s)) \<longrightarrow> hybrid_ok c)"

lemma hybrid_inv_update: "hybrid_inv (hm, w) \<Longrightarrow> hybrid_ok c \<Longrightarrow> hybrid_inv (hm\<lparr>hm_connections := smap_update k c (hm_connections hm)\<rparr>, w')"
  using set_smap_update [of k c "hm_connections hm"] by (auto simp: hybrid_inv_def)

text \<open>What a call does for a peer that is not connected.\<close>

lemma hm_connect_peer_result:
  assumes "hm_connect_peer fresh clk ip port h hm w = (ok, hm', w')" "connection_id ip port \<notin> set (hm_connected_peers hm)" "smap_ok (hm_connections hm)"
  obtains c where "hm' = hm\<lparr>hm_connections := smap_update (connection_id ip port) c (hm_connections hm)\<rparr>" "hybrid_ok c" "hc_is_connected c = ok"
    "ok \<longleftrightarrow> hc_connection_attempts fresh + 1 \<le> hyc_max_connection_attempts (hm_config hm)"
    "ok \<longrightarrow> hc_connection_type c = strategy_type (determine_strategy (hm_config hm) ip port)"
proof -
  let ?s = "determine_strategy (hm_config hm) ip port"
  let ?c = "fresh\<lparr>hc_peer_ip := ip, hc_peer_port := port, hc_info_hash := h, hc_strategy := ?s, hc_connection_type := strategy_type ?s,
    hc_is_connected := False, hc_created_at := fst (clk w), hc_last_activity := fst (clk w), hc_performance_score := 0\<rparr>"
  obtain r c1 w2 where a: "attempt_connection clk (hm_config hm) ?s ?c (snd (clk w)) = (r, c1, w2)" by (rule prod_cases3)
  have "\<not> hc_is_connected c" if "smap_find (hm_connections hm) (connection_id ip port) = Some c" for c
    using assms(2) smap_in_find [OF assms(3)] that by (force simp: hm_connected_peers_def connected_of_def)
  then have e: "ok = r" "hm' = hm\<lparr>hm_connections := smap_update (connection_id ip port) (c1\<lparr>hc_is_connected := r\<rparr>) (hm_connections hm)\<rparr>"
    using assms(1) a by (auto simp: hm_connect_peer_def case_prod_beta Let_def split: option.splits if_splits)
  have t: "strategy_type ?s \<noteq> CT_UNKNOWN" by (simp add: strategy_type_def determine_strategy_def)
  show thesis
    by (rule that [of "c1\<lparr>hc_is_connected := r\<rparr>"]) (use attempt_connection_result [OF a] e t in \<open>auto simp: hybrid_ok_def\<close>)
qed

lemma connected_unchanged:
  assumes "hm_connect_peer fresh clk ip port h hm w = (ok, hm', w')" "connection_id ip port \<in> set (hm_connected_peers hm)" "smap_ok (hm_connections hm)"
  shows "ok \<and> hm' = hm \<and> w' = w"
proof -
  obtain c where "(connection_id ip port, c) \<in> set (hm_connections hm)" "hc_is_connected c"
    using assms(2) by (auto simp: hm_connected_peers_def connected_of_def)
  with assms(1) smap_in_find [OF assms(3)] show ?thesis by (simp add: hm_connect_peer_def)
qed

lemma disconnect_inactive_filter: "fst (disconnect_inactive clk old cs w) = filter (\<lambda>p. \<not> old (snd p)) cs"
  by (induction clk old cs w rule: disconnect_inactive.induct) (auto simp: case_prod_beta)

lemma hybrid_inv_connect:
  assumes "hybrid_inv (hm, w)" "hm_connect_peer fresh clk ip port h hm w = (r, hm', w')"
  shows "hybrid_inv (hm', w')"
proof (cases "connection_id ip port \<in> set (hm_connected_peers hm)")
  case True
  with connected_unchanged [OF assms(2)] assms(1) show ?thesis by (simp add: hybrid_inv_def)
next
  case False
  from assms(1) have "smap_ok (hm_connections hm)" by (simp add: hybrid_inv_def)
  from hm_connect_peer_result [OF assms(2) False this] hybrid_inv_update [OF assms(1)] show ?thesis by metis
qed

interpretation hybrid_system: invariant_system hybrid_init "hybrid_step fresh clk" hybrid_inv
proof
  show "hybrid_init s \<Longrightarrow> hybrid_inv s" for s :: "'a hybrid_manager \<times> 'b"
    by (auto simp: hybrid_init_def hybrid_inv_def new_hybrid_manager_def)
  show "hybrid_inv t" if "hybrid_inv s" "hybrid_step fresh clk s t" for s t :: "'a hybrid_manager \<times> 'b"
    using that(2)
  proof cases
    case (connect ip port h hm w r hm' w')
    with that(1) hybrid_inv_connect [of hm w fresh clk ip port h r hm' w'] show ?thesis by simp
  next
    case (strategy hm w ip port st)
    show ?thesis
    proof (cases "smap_find (hm_connections hm) (connection_id ip port)")
      case (Some c)
      then have "hybrid_ok (c\<lparr>hc_strategy := st\<rparr>)" using that(1) map_of_SomeD [OF Some] by (auto simp: strategy hybrid_inv_def hybrid_ok_def)
      with that(1) show ?thesis by (simp add: strategy hm_set_strategy_def Some hybrid_inv_update)
    qed (use that(1) strategy in \<open>simp add: hm_set_strategy_def\<close>)
  next
    case (cleanup hm w hm' w')
    with that(1) show ?thesis by (auto simp: hm_cleanup_inactive_def hybrid_inv_def case_prod_beta disconnect_inactive_filter)
  qed (use that(1) in \<open>auto simp: hybrid_inv_def hm_disconnect_peer_def hm_update_config_def smap_erase_def split: option.splits\<close>)
qed

lemma count_connected_length: "count_connected P hm = int (length (filter (\<lambda>(k, c). hc_is_connected c \<and> P c) (hm_connections hm)))"
proof -
  have "foldl (\<lambda>n (k, c). if hc_is_connected c \<and> P c then n + 1 else n) m cs = m + int (length (filter (\<lambda>(k, c). hc_is_connected c \<and> P c) cs))"
    for m and cs :: "(string, 'a hybrid_connection) smap"
    by (induction cs arbitrary: m) (auto split: if_splits)
  then show ?thesis by (simp add: count_connected_def)
qed

lemma connected_split:
  assumes "\<And>k c. (k, c) \<in> set cs \<Longrightarrow> hybrid_ok c"
  shows "length (filter (\<lambda>(k, c). hc_is_connected c) cs) = length (filter (\<lambda>(k, c). hc_is_connected c \<and> hc_connection_type c = CT_DIRECT) cs)
    + length (filter (\<lambda>(k, c). hc_is_connected c \<and> hc_connection_type c = CT_LIBTORRENT) cs)"
  using assms
proof (induction cs)
  case (Cons p cs)
  obtain k c where p: "p = (k, c)" by (rule prod.exhaust)
  have "hybrid_ok c" using Cons.prems p by auto
  then have "hc_is_connected c \<longrightarrow> hc_connection_type c = CT_DIRECT \<or> hc_connection_type c = CT_LIBTORRENT"
    by (cases "hc_connection_type c") (auto simp: hybrid_ok_def)
  with Cons.IH Cons.prems show ?case by (auto simp: p)
qed simp

section \<open>Properties\<close>

text \<open>The fallback never helps. For a peer that is not connected, \<^verbatim>\<open>connectPeer\<close> succeeds exactly when one more than the initial value of \<^verbatim>\<open>connection_attempts\<close> is within
  \<^verbatim>\<open>max_connection_attempts\<close>, whatever the peer and however often it was tried: a connection that is made has the preferred type, because the second attempt raises the counter
  again; a strategy set by \<^verbatim>\<open>setStrategy\<close> changes neither the outcome nor the type. In every reachable state the connected peers are the direct and the libtorrent ones, and
  no connection has been active after its creation.\<close>

theorem fallback_never_helps:
  assumes "reachable hybrid_init (hybrid_step fresh clk) (hm, w)" "connection_id ip port \<notin> set (hm_connected_peers hm)"
    and "hm_connect_peer fresh clk ip port h hm w = (ok, hm', w')"
  shows "(ok \<longleftrightarrow> hc_connection_attempts fresh + 1 \<le> hyc_max_connection_attempts (hm_config hm))
    \<and> (ok \<longrightarrow> hm_connection_type ip port hm' = (if hyc_prefer_direct_connections (hm_config hm) then CT_DIRECT else CT_LIBTORRENT))
    \<and> fst (hm_connect_peer fresh clk ip port h (hm_set_strategy ip port s hm) w) = ok
    \<and> hm_connection_count hm = hm_direct_count hm + hm_libtorrent_count hm
    \<and> (\<forall>k c. (k, c) \<in> set (hm_connections hm) \<longrightarrow> hc_last_activity c = hc_created_at c)"
proof -
  have inv: "hybrid_inv (hm, w)" using assms(1) by (rule hybrid_system.inv_reachable)
  then have ok: "smap_ok (hm_connections hm)" and each: "\<And>k c. (k, c) \<in> set (hm_connections hm) \<Longrightarrow> hybrid_ok c" by (auto simp: hybrid_inv_def)
  obtain c where c: "hm' = hm\<lparr>hm_connections := smap_update (connection_id ip port) c (hm_connections hm)\<rparr>"
    "ok \<longleftrightarrow> hc_connection_attempts fresh + 1 \<le> hyc_max_connection_attempts (hm_config hm)"
    "ok \<longrightarrow> hc_connection_type c = strategy_type (determine_strategy (hm_config hm) ip port)"
    using hm_connect_peer_result [OF assms(3,2) ok] by metis
  have "fst (hm_connect_peer fresh clk ip port h (hm_set_strategy ip port s hm) w) = fst (hm_connect_peer fresh clk ip port h hm w)"
    by (auto simp: hm_connect_peer_def hm_set_strategy_def case_prod_beta Let_def split: option.splits)
  moreover have "hm_connection_count hm = hm_direct_count hm + hm_libtorrent_count hm"
    using connected_split [of "hm_connections hm", OF each] by (simp add: hm_connection_count_def hm_direct_count_def hm_libtorrent_count_def count_connected_length)
  moreover have "ok \<longrightarrow> hm_connection_type ip port hm' = (if hyc_prefer_direct_connections (hm_config hm) then CT_DIRECT else CT_LIBTORRENT)"
    using c by (simp add: hm_connection_type_def strategy_type_def determine_strategy_def)
  ultimately show ?thesis using c(2) each assms(3) by (auto simp: hybrid_ok_def)
qed

definition demo_hybrid_fresh :: "unit hybrid_connection" where
  "demo_hybrid_fresh = \<lparr>hc_peer_ip = [], hc_peer_port = 0, hc_info_hash = [], hc_strategy = CS_DIRECT_ONLY, hc_connection_type = CT_UNKNOWN, hc_is_connected = False,
     hc_created_at = 0, hc_last_activity = 0, hc_connected_at = 0, hc_disconnected_at = 0, hc_performance_score = 0, hc_connection_attempts = 0,
     hc_performance_metrics = ()\<rparr>"

definition demo_hybrid :: "unit hybrid_manager" where
  "demo_hybrid = new_hybrid_manager \<lparr>hyc_prefer_direct_connections = True, hyc_max_connection_attempts = 3, hyc_connection_timeout = 1000\<rparr>"

theorem fallback_never_helps_witness:
  "fst (hm_connect_peer demo_hybrid_fresh demo_tick ''p'' 1 ''h'' demo_hybrid demo_start)
   \<and> hm_connection_type ''p'' 1 (fst (snd (hm_connect_peer demo_hybrid_fresh demo_tick ''p'' 1 ''h'' demo_hybrid demo_start))) = CT_DIRECT"
proof -
  let ?r = "hm_connect_peer demo_hybrid_fresh demo_tick ''p'' 1 ''h'' demo_hybrid demo_start"
  have r: "reachable hybrid_init (hybrid_step demo_hybrid_fresh demo_tick) (demo_hybrid, demo_start)"
    by (rule reachable.start) (auto simp: hybrid_init_def demo_hybrid_def)
  have n: "connection_id ''p'' 1 \<notin> set (hm_connected_peers demo_hybrid)"
    by (simp add: hm_connected_peers_def connected_of_def demo_hybrid_def new_hybrid_manager_def)
  obtain ok hm w where e: "?r = (ok, hm, w)" by (rule prod_cases3)
  have "hyc_prefer_direct_connections (hm_config demo_hybrid)" "hc_connection_attempts demo_hybrid_fresh + 1 \<le> hyc_max_connection_attempts (hm_config demo_hybrid)"
    by (simp_all add: demo_hybrid_def new_hybrid_manager_def demo_hybrid_fresh_def)
  then show ?thesis using fallback_never_helps [OF r n e] e by simp
qed

end
