(* ===== verification/Bittorrent_Protocol.thy ===== *)
theory Bittorrent_Protocol
  imports Expiring_Store State_Machine "HOL-Library.Word"
begin

text \<open>
  \<^verbatim>\<open>BitTorrentProtocol\<close> as \<^verbatim>\<open>bittorrent_protocol.cpp\<close> defines it: the framing of peer messages, the handshakes and the enabled extensions. The header declares other
  members, so that the two files do not compile together; the state has the members that the source file uses. A message has the
  \<^verbatim>\<open>uint32_t\<close> length and the type enumeration that the header declares for messages; the value of the enumerator \<^verbatim>\<open>INVALID\<close>, which it does
  not declare, is a parameter. A member that has not been assigned is \<open>None\<close>; a parse that reads beyond its buffer is \<open>None\<close>.
\<close>

unbundle bit_operations_syntax

section \<open>Messages\<close>

text \<open>The enumerators of \<^verbatim>\<open>MessageType\<close> have the values 0 to 13 in the order of their declaration.\<close>

definition MT_HANDSHAKE :: int where "MT_HANDSHAKE = 0"
definition MT_KEEP_ALIVE :: int where "MT_KEEP_ALIVE = 1"
definition MT_EXTENDED :: int where "MT_EXTENDED = 12"

record bt_message =
  bm_type :: int
  bm_length :: "32 word option"
  bm_payload :: "8 word list"

text \<open>\<^verbatim>\<open>(data[0] << 24) | (data[1] << 16) | (data[2] << 8) | data[3]\<close>, converted to \<^verbatim>\<open>uint32_t\<close>.\<close>

definition read_length :: "8 word list \<Rightarrow> 32 word" where
  "read_length data = push_bit 24 (ucast (data ! 0)) OR push_bit 16 (ucast (data ! 1)) OR push_bit 8 (ucast (data ! 2)) OR ucast (data ! 3)"

text \<open>\<^verbatim>\<open>4 + message.length\<close> is computed in 32 bits; the iterators are not.\<close>

definition parse_message :: "int \<Rightarrow> 8 word list \<Rightarrow> bt_message option" where
  "parse_message invalid data =
     (if length data < 4 then Some \<lparr>bm_type = invalid, bm_length = None, bm_payload = []\<rparr>
      else
        (let len = read_length data
         in if len = 0 then Some \<lparr>bm_type = MT_KEEP_ALIVE, bm_length = Some len, bm_payload = []\<rparr>
            else if length data < unat (4 + len) then Some \<lparr>bm_type = invalid, bm_length = Some len, bm_payload = []\<rparr>
            else if length data < 5 then None
            else if len > 1 \<and> length data < 4 + unat len then None
            else Some \<lparr>bm_type = uint (data ! 4), bm_length = Some len,
                   bm_payload = (if len > 1 then drop 5 (take (4 + unat len) data) else [])\<rparr>))"

text \<open>The bytes that \<^verbatim>\<open>sendMessage\<close> builds. It hands them to no connection and returns true.\<close>

definition write_length :: "32 word \<Rightarrow> 8 word list" where
  "write_length len = [ucast (drop_bit 24 len AND 255), ucast (drop_bit 16 len AND 255), ucast (drop_bit 8 len AND 255), ucast (len AND 255)]"

definition message_bytes :: "int \<Rightarrow> 32 word \<Rightarrow> 8 word list \<Rightarrow> 8 word list" where
  "message_bytes type len payload = write_length len @ (if len > 0 then [word_of_int type] else []) @ payload"

definition send_message :: "bt_message \<Rightarrow> bool" where
  "send_message m = True"

lemma and_255: "(x :: 32 word) AND 255 = take_bit 8 x"
  by (simp add: take_bit_eq_mask mask_eq_exp_minus_1)

lemma byte_back: "ucast (ucast (take_bit 8 x) :: 8 word) = (take_bit 8 x :: 32 word)"
  by (rule bit_word_eqI) (auto simp: bit_simps)

lemma word_bytes:
  "push_bit 24 (take_bit 8 (drop_bit 24 x)) OR push_bit 16 (take_bit 8 (drop_bit 16 x)) OR push_bit 8 (take_bit 8 (drop_bit 8 x)) OR take_bit 8 x
     = (x :: 32 word)"
proof (rule bit_word_eqI)
  fix n assume n: "n < LENGTH(32)"
  consider "n < 8" | "8 \<le> n" "n < 16" | "16 \<le> n" "n < 24" | "24 \<le> n" by linarith
  then show "bit (push_bit 24 (take_bit 8 (drop_bit 24 x)) OR push_bit 16 (take_bit 8 (drop_bit 16 x)) OR push_bit 8 (take_bit 8 (drop_bit 8 x))
      OR take_bit 8 x) n = bit x n"
    by cases (use n in \<open>auto simp: bit_simps\<close>)
qed

lemma read_write_length: "read_length (write_length len @ rest) = len"
  by (simp add: read_length_def write_length_def and_255 byte_back word_bytes)

lemma length_write_length [simp]: "length (write_length len) = 4"
  by (simp add: write_length_def)

lemma unat_4_plus: "unat (4 + len :: 32 word) = (if unat len < 2 ^ 32 - 4 then 4 + unat len else 4 + unat len - 2 ^ 32)"
proof -
  have "unat (4 + len) = (4 + unat len) mod 2 ^ 32" by (simp add: unat_word_ariths)
  moreover have "unat len < 2 ^ 32" using unsigned_less [of len] by simp
  ultimately show ?thesis by (simp add: mod_if)
qed

section \<open>Handshakes and extensions\<close>

datatype handshake_state = BH_INITIATED

record handshake_message =
  hm_protocol_length :: nat
  hm_protocol :: string
  hm_reserved :: "nat list"
  hm_info_hash :: string
  hm_peer_id :: string

record handshake_info =
  hi_peer_ip :: string
  hi_peer_port :: int
  hi_info_hash :: string
  hi_peer_id :: string
  hi_status :: handshake_state
  hi_created_at :: time

record extension_info =
  xi_peer_ip :: string
  xi_peer_port :: int
  xi_enabled_extensions :: "string list"
  xi_created_at :: time

record protocol_config =
  pc_handshake_timeout :: int
  pc_extension_timeout :: int

record bt_protocol =
  bp_config :: protocol_config
  bp_active_handshakes :: "(string, handshake_info) smap"
  bp_peer_extensions :: "(string, extension_info) smap"

record 'w protocol_env =
  pe_clock :: "'w clock"
  pe_digit :: "'w \<Rightarrow> char \<times> 'w"

definition new_bt_protocol :: "protocol_config \<Rightarrow> bt_protocol" where
  "new_bt_protocol config = \<lparr>bp_config = config, bp_active_handshakes = [], bp_peer_extensions = []\<rparr>"

definition peer_key :: "string \<Rightarrow> int \<Rightarrow> string" where
  "peer_key ip port = ip @ '':'' @ to_string port"

fun random_digits :: "('w \<Rightarrow> char \<times> 'w) \<Rightarrow> nat \<Rightarrow> 'w \<Rightarrow> string \<times> 'w" where
  "random_digits rng 0 w = ([], w)"
| "random_digits rng (Suc n) w = (let (c, w1) = rng w; (cs, w2) = random_digits rng n w1 in (c # cs, w2))"

definition generate_peer_id :: "'w protocol_env \<Rightarrow> 'w \<Rightarrow> string \<times> 'w" where
  "generate_peer_id env w = (let (cs, w1) = random_digits (pe_digit env) 12 w in (''-DC0001-'' @ cs, w1))"

definition perform_handshake :: "'w protocol_env \<Rightarrow> string \<Rightarrow> int \<Rightarrow> string \<Rightarrow> bt_protocol \<Rightarrow> 'w \<Rightarrow> bool \<times> bt_protocol \<times> 'w" where
  "perform_handshake env ip port info_hash bp w =
     (let (peer_id, w1) = generate_peer_id env w;
          handshake = \<lparr>hm_protocol_length = 19, hm_protocol = ''BitTorrent protocol'', hm_reserved = [0, 0, 0, 0, 0, 0, 0, 0],
            hm_info_hash = info_hash, hm_peer_id = peer_id\<rparr>;
          (now, w2) = pe_clock env w1;
          info = \<lparr>hi_peer_ip = ip, hi_peer_port = port, hi_info_hash = info_hash, hi_peer_id = hm_peer_id handshake, hi_status = BH_INITIATED,
            hi_created_at = now\<rparr>
      in (True, bp\<lparr>bp_active_handshakes := smap_update (peer_key ip port) info (bp_active_handshakes bp)\<rparr>, w2))"

text \<open>\<^verbatim>\<open>std::set::insert\<close> on the sorted list of the elements.\<close>

definition set_insert :: "string \<Rightarrow> string list \<Rightarrow> string list" where
  "set_insert x xs = (if x \<in> set xs then xs else insort x xs)"

definition enable_extension :: "'w protocol_env \<Rightarrow> string \<Rightarrow> int \<Rightarrow> string \<Rightarrow> bt_protocol \<Rightarrow> 'w \<Rightarrow> bool \<times> bt_protocol \<times> 'w" where
  "enable_extension env ip port name bp w =
     (let k = peer_key ip port
      in case smap_find (bp_peer_extensions bp) k of
           Some x \<Rightarrow>
             (True, bp\<lparr>bp_peer_extensions :=
                smap_update k (x\<lparr>xi_enabled_extensions := set_insert name (xi_enabled_extensions x)\<rparr>) (bp_peer_extensions bp)\<rparr>, w)
         | None \<Rightarrow>
             (let (now, w1) = pe_clock env w;
                  x = \<lparr>xi_peer_ip = ip, xi_peer_port = port, xi_enabled_extensions = set_insert name [], xi_created_at = now\<rparr>
              in (True, bp\<lparr>bp_peer_extensions := smap_update k x (bp_peer_extensions bp)\<rparr>, w1)))"

definition is_extension_enabled :: "string \<Rightarrow> int \<Rightarrow> string \<Rightarrow> bt_protocol \<Rightarrow> bool" where
  "is_extension_enabled ip port name bp =
     (case smap_find (bp_peer_extensions bp) (peer_key ip port) of Some x \<Rightarrow> name \<in> set (xi_enabled_extensions x) | None \<Rightarrow> False)"

definition extension_message :: "8 word list \<Rightarrow> bt_message" where
  "extension_message payload = \<lparr>bm_type = MT_EXTENDED, bm_length = Some (of_nat (2 + length payload)), bm_payload = 0 # payload\<rparr>"

definition send_extension_message :: "string \<Rightarrow> int \<Rightarrow> string \<Rightarrow> 8 word list \<Rightarrow> bt_protocol \<Rightarrow> bool" where
  "send_extension_message ip port name payload bp =
     (case smap_find (bp_peer_extensions bp) (peer_key ip port) of
        None \<Rightarrow> False
      | Some x \<Rightarrow> if name \<notin> set (xi_enabled_extensions x) then False else send_message (extension_message payload))"

definition get_handshake_info :: "string \<Rightarrow> int \<Rightarrow> bt_protocol \<Rightarrow> handshake_info option" where
  "get_handshake_info ip port bp = smap_find (bp_active_handshakes bp) (peer_key ip port)"

definition get_active_handshakes :: "bt_protocol \<Rightarrow> string list" where
  "get_active_handshakes bp = smap_keys (bp_active_handshakes bp)"

definition get_enabled_extensions :: "string \<Rightarrow> int \<Rightarrow> bt_protocol \<Rightarrow> string list" where
  "get_enabled_extensions ip port bp =
     (case smap_find (bp_peer_extensions bp) (peer_key ip port) of Some x \<Rightarrow> xi_enabled_extensions x | None \<Rightarrow> [])"

definition active_handshake_count :: "bt_protocol \<Rightarrow> int" where
  "active_handshake_count bp = int (length (bp_active_handshakes bp))"

definition extension_count :: "bt_protocol \<Rightarrow> int" where
  "extension_count bp = int (length (bp_peer_extensions bp))"

definition cleanup_expired_handshakes :: "'w protocol_env \<Rightarrow> bt_protocol \<Rightarrow> 'w \<Rightarrow> bt_protocol \<times> 'w" where
  "cleanup_expired_handshakes env bp w =
     (let (now, w1) = pe_clock env w
      in (bp\<lparr>bp_active_handshakes :=
            filter (\<lambda>p. \<not> now - hi_created_at (snd p) > milliseconds (pc_handshake_timeout (bp_config bp))) (bp_active_handshakes bp)\<rparr>, w1))"

definition cleanup_expired_extensions :: "'w protocol_env \<Rightarrow> bt_protocol \<Rightarrow> 'w \<Rightarrow> bt_protocol \<times> 'w" where
  "cleanup_expired_extensions env bp w =
     (let (now, w1) = pe_clock env w
      in (bp\<lparr>bp_peer_extensions :=
            filter (\<lambda>p. \<not> now - xi_created_at (snd p) > milliseconds (pc_extension_timeout (bp_config bp))) (bp_peer_extensions bp)\<rparr>, w1))"

definition update_protocol_config :: "protocol_config \<Rightarrow> bt_protocol \<Rightarrow> bt_protocol" where
  "update_protocol_config config bp = bp\<lparr>bp_config := config\<rparr>"

definition protocol_health_status :: "bt_protocol \<Rightarrow> (string, string) smap" where
  "protocol_health_status bp =
     fold (\<lambda>(k, v). smap_update k v)
       [(''active_handshakes'', to_string (active_handshake_count bp)), (''extensions'', to_string (extension_count bp)),
        (''handshake_timeout'', to_string (pc_handshake_timeout (bp_config bp))),
        (''extension_timeout'', to_string (pc_extension_timeout (bp_config bp)))] []"

section \<open>The machine\<close>

inductive protocol_step :: "'w protocol_env \<Rightarrow> bt_protocol \<times> 'w \<Rightarrow> bt_protocol \<times> 'w \<Rightarrow> bool" for env :: "'w protocol_env" where
  handshake: "protocol_step env (bp, w) (snd (perform_handshake env ip port h bp w))"
| enable: "protocol_step env (bp, w) (snd (enable_extension env ip port name bp w))"
| clean_handshakes: "protocol_step env (bp, w) (cleanup_expired_handshakes env bp w)"
| clean_extensions: "protocol_step env (bp, w) (cleanup_expired_extensions env bp w)"
| config: "protocol_step env (bp, w) (update_protocol_config c bp, w)"
| tick: "protocol_step env (bp, w) (bp, w')"

definition protocol_init :: "bt_protocol \<times> 'w \<Rightarrow> bool" where
  "protocol_init s \<longleftrightarrow> (\<exists>config w. s = (new_bt_protocol config, w))"

definition handshake_ok :: "string \<Rightarrow> handshake_info \<Rightarrow> bool" where
  "handshake_ok k h \<longleftrightarrow> k = peer_key (hi_peer_ip h) (hi_peer_port h) \<and> length (hi_peer_id h) = 20 \<and> take 8 (hi_peer_id h) = ''-DC0001-''"

definition extension_ok :: "string \<Rightarrow> extension_info \<Rightarrow> bool" where
  "extension_ok k x \<longleftrightarrow> k = peer_key (xi_peer_ip x) (xi_peer_port x) \<and> sorted (xi_enabled_extensions x) \<and> distinct (xi_enabled_extensions x)
     \<and> xi_enabled_extensions x \<noteq> []"

definition protocol_inv :: "bt_protocol \<times> 'w \<Rightarrow> bool" where
  "protocol_inv s \<longleftrightarrow> smap_ok (bp_active_handshakes (fst s)) \<and> smap_ok (bp_peer_extensions (fst s))
     \<and> (\<forall>k h. smap_find (bp_active_handshakes (fst s)) k = Some h \<longrightarrow> handshake_ok k h)
     \<and> (\<forall>k x. smap_find (bp_peer_extensions (fst s)) k = Some x \<longrightarrow> extension_ok k x)"

lemma length_random_digits: "length (fst (random_digits rng n w)) = n"
  by (induction n arbitrary: w) (auto simp: case_prod_beta)

lemma set_set_insert [simp]: "set (set_insert x xs) = insert x (set xs)" "set_insert x xs \<noteq> []"
  by (auto simp: set_insert_def set_insort_key)

lemma set_insert_ok: "sorted xs \<Longrightarrow> distinct xs \<Longrightarrow> sorted (set_insert x xs) \<and> distinct (set_insert x xs)"
  by (simp add: set_insert_def sorted_insort distinct_insort)

lemma find_filter: "smap_ok m \<Longrightarrow> map_of (filter (\<lambda>p. P (snd p)) m) k = Some v \<Longrightarrow> map_of m k = Some v"
  by (auto simp: map_of_filter_snd split: option.splits if_splits)

lemma protocol_inv_enable:
  assumes "protocol_inv (bp, w)"
  shows "protocol_inv (snd (enable_extension env ip port name bp w))"
proof (cases "smap_find (bp_peer_extensions bp) (peer_key ip port)")
  case None
  have "extension_ok (peer_key ip port) \<lparr>xi_peer_ip = ip, xi_peer_port = port, xi_enabled_extensions = set_insert name [], xi_created_at = now\<rparr>" for now
    using set_insert_ok [of "[]" name] by (simp add: extension_ok_def)
  with None assms show ?thesis by (simp add: enable_extension_def protocol_inv_def case_prod_beta)
next
  case (Some x)
  have "extension_ok (peer_key ip port) x" using assms Some by (simp add: protocol_inv_def)
  then have "extension_ok (peer_key ip port) (x\<lparr>xi_enabled_extensions := set_insert name (xi_enabled_extensions x)\<rparr>)"
    by (simp add: extension_ok_def set_insert_ok)
  with Some assms show ?thesis by (simp add: enable_extension_def protocol_inv_def)
qed

interpretation protocol_system: invariant_system protocol_init "protocol_step env" protocol_inv
proof
  show "protocol_init s \<Longrightarrow> protocol_inv s" for s :: "bt_protocol \<times> 'a"
    by (auto simp: protocol_init_def protocol_inv_def new_bt_protocol_def)
  show "protocol_inv t" if "protocol_inv s" "protocol_step env s t" for s t :: "bt_protocol \<times> 'a"
    using that(2)
  proof cases
    case (handshake bp w ip port h)
    with that(1) show ?thesis
      by (auto simp: perform_handshake_def generate_peer_id_def protocol_inv_def handshake_ok_def length_random_digits case_prod_beta Let_def)
  next
    case (enable bp w ip port name)
    with that(1) protocol_inv_enable [of bp w env ip port name] show ?thesis by simp
  qed (use that(1) in \<open>auto simp: protocol_inv_def cleanup_expired_handshakes_def cleanup_expired_extensions_def update_protocol_config_def case_prod_beta
        dest: find_filter\<close>)
qed

section \<open>Properties\<close>

text \<open>C36: A message parses back. The bytes that \<^verbatim>\<open>sendMessage\<close> builds for a message whose length counts its type byte and its payload, followed by anything, parse to the same type,
  length and payload, as long as the length field is below \<^verbatim>\<open>2^32 - 4\<close> and the type fits a byte.\<close>

theorem messages_parse_back:
  assumes "0 \<le> type" "type < 256" "length payload + 1 < 2 ^ 32 - 4" "len = of_nat (length payload + 1)"
  shows "parse_message invalid (message_bytes type len payload @ rest) = Some \<lparr>bm_type = type, bm_length = Some len, bm_payload = payload\<rparr>"
proof -
  have u: "unat len = length payload + 1" using assms(3,4) by (simp add: unat_of_nat del: of_nat_Suc of_nat_add)
  then have l: "0 < len" "len \<noteq> 0" "1 < len \<longleftrightarrow> payload \<noteq> []" by (auto simp: word_less_nat_alt)
  have t: "uint (word_of_int type :: 8 word) = type" using assms(1,2) by (simp add: unsigned_of_int take_bit_int_eq_self)
  have b: "message_bytes type len payload @ rest = write_length len @ word_of_int type # payload @ rest" using l by (simp add: message_bytes_def)
  have n: "(write_length len @ word_of_int type # payload @ rest) ! 4 = word_of_int type" by (simp add: nth_append)
  have "unat (4 + len) = 5 + length payload" using u assms(3) by (simp add: unat_4_plus)
  with u l t n show ?thesis by (simp add: parse_message_def b read_write_length)
qed

theorem messages_parse_back_witness:
  "parse_message (-1) (message_bytes MT_EXTENDED 3 [0, 7] @ [9]) = Some \<lparr>bm_type = 12, bm_length = Some 3, bm_payload = [0, 7]\<rparr>"
  using messages_parse_back [of MT_EXTENDED "[0, 7]" 3 "-1" "[9]"] by (simp add: MT_EXTENDED_def)

text \<open>C35: \<^verbatim>\<open>parseMessage\<close> on a byte sequence of any content, against a specification without wrap-around. It leaves its buffer exactly when there are four bytes, the
  length field is at least \<^verbatim>\<open>2^32 - 4\<close>, so that the bound \<^verbatim>\<open>4 + length\<close> wraps around in 32 bits and passes the check, and the buffer is shorter than the length field
  says. Otherwise the result is: \<^verbatim>\<open>INVALID\<close> without a length for fewer than four bytes; a keep-alive for the length 0; for a complete message its type byte, its length and
  exactly the bytes of its payload, one fewer than the length says; and \<^verbatim>\<open>INVALID\<close> with the length read and an empty payload for a message that is cut off.\<close>

theorem parse_overrun_exactly:
  "(parse_message invalid data = None \<longleftrightarrow>
      4 \<le> length data \<and> 2 ^ 32 - 4 \<le> unat (read_length data) \<and> length data < 4 + unat (read_length data))
   \<and> parse_message invalid data =
       (if length data < 4 then Some \<lparr>bm_type = invalid, bm_length = None, bm_payload = []\<rparr>
        else if unat (read_length data) = 0 then Some \<lparr>bm_type = MT_KEEP_ALIVE, bm_length = Some 0, bm_payload = []\<rparr>
        else if 4 + unat (read_length data) \<le> length data
          then Some \<lparr>bm_type = uint (data ! 4), bm_length = Some (read_length data),
                     bm_payload = take (unat (read_length data) - 1) (drop 5 data)\<rparr>
        else if unat (read_length data) < 2 ^ 32 - 4 then Some \<lparr>bm_type = invalid, bm_length = Some (read_length data), bm_payload = []\<rparr>
        else None)"
proof -
  let ?len = "read_length data"
  have z: "?len = 0 \<longleftrightarrow> unat ?len = 0" "1 < ?len \<longleftrightarrow> 1 < unat ?len" by (simp_all add: word_less_nat_alt unat_eq_zero)
  have "unat ?len < 2 ^ 32" using unsigned_less [of ?len] by simp
  then show ?thesis
    unfolding parse_message_def Let_def by (auto simp: z unat_4_plus drop_take)
qed

theorem parse_overrun_exactly_witness:
  "parse_message (-1) [255, 255, 255, 255, 5, 0] = None \<and> parse_message (-1) [0, 0, 0, 2, 5, 9, 9] \<noteq> None"
proof -
  have "uint (read_length [255, 255, 255, 255, 5, 0]) = 4294967295" "uint (read_length [0, 0, 0, 2, 5, 9, 9]) = 2" by code_simp+
  then have "unat (read_length [255, 255, 255, 255, 5, 0]) = 4294967295" "unat (read_length [0, 0, 0, 2, 5, 9, 9]) = 2"
    by (simp_all add: nat_uint_eq [symmetric])
  then show ?thesis
    using parse_overrun_exactly [of "-1" "[255, 255, 255, 255, 5, 0]"] parse_overrun_exactly [of "-1" "[0, 0, 0, 2, 5, 9, 9]"] by simp
qed

text \<open>The enumerators are numbered from \<^verbatim>\<open>HANDSHAKE\<close>, the message ids of the wire from choke: choke reads as a handshake, unchoke as a keep-alive, and an
  extension message is sent with the id 12 (the wire's id is 20).\<close>

lemma wire_ids_are_shifted:
  "parse_message invalid [0, 0, 0, 1, 0] = Some \<lparr>bm_type = MT_HANDSHAKE, bm_length = Some 1, bm_payload = []\<rparr>"
  "parse_message invalid [0, 0, 0, 1, 1] = Some \<lparr>bm_type = MT_KEEP_ALIVE, bm_length = Some 1, bm_payload = []\<rparr>"
  "message_bytes (bm_type (extension_message [7])) (the (bm_length (extension_message [7]))) (bm_payload (extension_message [7])) = [0, 0, 0, 3, 12, 0, 7]"
proof -
  have *: "read_length [0, 0, 0, 1, 0] = 1" "read_length [0, 0, 0, 1, 1] = 1" by code_simp+
  show "parse_message invalid [0, 0, 0, 1, 0] = Some \<lparr>bm_type = MT_HANDSHAKE, bm_length = Some 1, bm_payload = []\<rparr>"
    "parse_message invalid [0, 0, 0, 1, 1] = Some \<lparr>bm_type = MT_KEEP_ALIVE, bm_length = Some 1, bm_payload = []\<rparr>"
    by (simp_all add: parse_message_def * MT_HANDSHAKE_def MT_KEEP_ALIVE_def)
  show "message_bytes (bm_type (extension_message [7])) (the (bm_length (extension_message [7]))) (bm_payload (extension_message [7])) = [0, 0, 0, 3, 12, 0, 7]"
    by code_simp
qed

text \<open>The state of the protocol. In every reachable state each handshake is stored under its own peer and its peer id has 20 bytes and begins with the client's prefix; the
  extensions of a peer are a sorted list without duplicates; \<^verbatim>\<open>sendExtensionMessage\<close> returns true exactly for enabled extensions; and enabling an extension of a peer
  enables that one and leaves every other extension of every peer as it was.\<close>

theorem protocol_state_sound:
  assumes "reachable protocol_init (protocol_step env) (bp, w)"
  shows "(\<forall>k h. smap_find (bp_active_handshakes bp) k = Some h \<longrightarrow> handshake_ok k h)
    \<and> sorted (get_enabled_extensions ip port bp) \<and> distinct (get_enabled_extensions ip port bp)
    \<and> (send_extension_message ip port name payload bp \<longleftrightarrow> is_extension_enabled ip port name bp)
    \<and> (is_extension_enabled ip' port' name' (fst (snd (enable_extension env ip port name bp w)))
         \<longleftrightarrow> (peer_key ip' port' = peer_key ip port \<and> name' = name) \<or> is_extension_enabled ip' port' name' bp)"
proof -
  have inv: "protocol_inv (bp, w)" using assms by (rule protocol_system.inv_reachable)
  have "sorted (get_enabled_extensions ip port bp) \<and> distinct (get_enabled_extensions ip port bp)"
    using inv by (auto simp: get_enabled_extensions_def protocol_inv_def extension_ok_def split: option.splits)
  moreover have "send_extension_message ip port name payload bp \<longleftrightarrow> is_extension_enabled ip port name bp"
    by (simp add: send_extension_message_def is_extension_enabled_def send_message_def split: option.splits)
  moreover have "is_extension_enabled ip' port' name' (fst (snd (enable_extension env ip port name bp w)))
      \<longleftrightarrow> (peer_key ip' port' = peer_key ip port \<and> name' = name) \<or> is_extension_enabled ip' port' name' bp"
    by (auto simp: enable_extension_def is_extension_enabled_def case_prod_beta Let_def split: option.splits)
  ultimately show ?thesis using inv by (simp add: protocol_inv_def)
qed

definition demo_protocol_env :: "demo_world protocol_env" where
  "demo_protocol_env = \<lparr>pe_clock = demo_tick, pe_digit = (\<lambda>w. (CHR ''7'', w))\<rparr>"

definition demo_protocol :: "bt_protocol \<times> demo_world" where
  "demo_protocol = snd (perform_handshake demo_protocol_env ''p'' 1 ''h'' (new_bt_protocol \<lparr>pc_handshake_timeout = 10000, pc_extension_timeout = 10000\<rparr>) demo_start)"

theorem protocol_state_sound_witness:
  "is_extension_enabled ''p'' 1 ''ut_pex'' (fst (snd (enable_extension demo_protocol_env ''p'' 1 ''ut_pex'' (fst demo_protocol) (snd demo_protocol))))
   \<and> handshake_ok ''p:1'' (the (get_handshake_info ''p'' 1 (fst demo_protocol)))"
proof -
  have "reachable protocol_init (protocol_step demo_protocol_env) (fst demo_protocol, snd demo_protocol)"
    unfolding prod.collapse demo_protocol_def
    by (rule reachable.move, rule reachable.start, unfold protocol_init_def) (blast intro: protocol_step.handshake)+
  note th = protocol_state_sound [OF this]
  have "get_handshake_info ''p'' 1 (fst demo_protocol) \<noteq> None" "peer_key ''p'' 1 = ''p:1''" by code_simp+
  then obtain h where "smap_find (bp_active_handshakes (fst demo_protocol)) ''p:1'' = Some h" "get_handshake_info ''p'' 1 (fst demo_protocol) = Some h"
    by (auto simp: get_handshake_info_def)
  with th show ?thesis by simp
qed

end
