(* ===== verification/Error_Handler.thy ===== *)
theory Error_Handler
  imports Request_Cache Sliding_Window Performance_Monitor State_Machine
begin

text \<open>
  \<^verbatim>\<open>ErrorHandler\<close> as \<^verbatim>\<open>error_handler.cpp\<close> defines it: the log of errors, its statistics and the recovery strategy. The header declares other members, so that the two files
  do not compile together; the state has the members that the source file uses, the severities are those of the header. The clocks, the
  console and the log file are parameters; the static counter of \<^verbatim>\<open>generateErrorId\<close> is a member, for a program with one handler.
  The counters, \<^verbatim>\<open>int\<close> members that no file declares with an initial value, start at zero and are unbounded integers: the
  source's would overflow with more than $2^{31}$ stored errors.
\<close>

section \<open>Definitions\<close>

datatype severity = Sev_DEBUG | Sev_INFO | Sev_WARNING | Sev_ERROR | Sev_CRITICAL | Sev_FATAL

record error_info =
  ei_id :: string
  ei_message :: string
  ei_severity :: severity
  ei_component :: string
  ei_context :: "(string, string) smap"
  ei_timestamp :: time
  ei_count :: int

record error_config =
  ec_log_to_console :: bool
  ec_log_to_file :: bool
  ec_log_filename :: string

record error_statistics =
  es_total_errors :: int
  es_info_errors :: int
  es_warning_errors :: int
  es_error_errors :: int
  es_critical_errors :: int
  es_errors_by_component :: "string \<rightharpoonup> int"
  es_errors_by_severity :: "severity \<rightharpoonup> int"
  es_last_error_time :: time

record error_handler =
  eh_config :: error_config
  eh_file_open :: bool
  eh_errors :: "error_info list"
  eh_error_counts :: "string \<rightharpoonup> int"
  eh_stats :: error_statistics
  eh_counter :: int

record 'w error_env =
  ee_clock :: "'w clock"
  ee_local_time :: "'w \<Rightarrow> string \<times> 'w"
  ee_open :: "string \<Rightarrow> 'w \<Rightarrow> bool \<times> 'w"
  ee_close :: "'w \<Rightarrow> 'w"
  ee_print :: "string \<Rightarrow> 'w \<Rightarrow> 'w"
  ee_write :: "string \<Rightarrow> 'w \<Rightarrow> 'w"

definition no_statistics :: error_statistics where
  "no_statistics = \<lparr>es_total_errors = 0, es_info_errors = 0, es_warning_errors = 0, es_error_errors = 0, es_critical_errors = 0,
     es_errors_by_component = Map.empty, es_errors_by_severity = Map.empty, es_last_error_time = 0\<rparr>"

definition new_error_handler :: "'w error_env \<Rightarrow> error_config \<Rightarrow> 'w \<Rightarrow> error_handler \<times> 'w" where
  "new_error_handler env config w =
     (let (opened, w1) = (if ec_log_to_file config then ee_open env (ec_log_filename config) w else (False, w))
      in (\<lparr>eh_config = config, eh_file_open = opened, eh_errors = [], eh_error_counts = Map.empty, eh_stats = no_statistics, eh_counter = 0\<rparr>, w1))"

definition destroy_error_handler :: "'w error_env \<Rightarrow> error_handler \<Rightarrow> 'w \<Rightarrow> 'w" where
  "destroy_error_handler env eh w = (if eh_file_open eh then ee_close env w else w)"

definition generate_error_id :: "'w error_env \<Rightarrow> error_handler \<Rightarrow> 'w \<Rightarrow> string \<times> error_handler \<times> 'w" where
  "generate_error_id env eh w =
     (let (now, w1) = ee_clock env w
      in (''ERR_'' @ to_string (int_div now 1000000) @ ''_'' @ to_string (eh_counter eh),
          eh\<lparr>eh_counter := signed_take_bit 31 (eh_counter eh + 1)\<rparr>, w1))"

definition severity_to_string :: "severity \<Rightarrow> string" where
  "severity_to_string severity =
     (case severity of Sev_INFO \<Rightarrow> ''INFO'' | Sev_WARNING \<Rightarrow> ''WARNING'' | Sev_ERROR \<Rightarrow> ''ERROR'' | Sev_CRITICAL \<Rightarrow> ''CRITICAL'' | _ \<Rightarrow> ''UNKNOWN'')"

text \<open>The local time of the call and the milliseconds of the error's time stamp, which is not negative.\<close>

definition format_timestamp :: "'w error_env \<Rightarrow> time \<Rightarrow> 'w \<Rightarrow> string \<times> 'w" where
  "format_timestamp env timestamp w =
     (let (now, w1) = ee_local_time env w
      in (now @ ''.'' @ pad_zeros 3 (to_string (int_div timestamp 1000000 mod 1000)), w1))"

definition error_text :: "string \<Rightarrow> error_info \<Rightarrow> string" where
  "error_text timestamp_str e =
     ''['' @ timestamp_str @ ''] ['' @ severity_to_string (ei_severity e) @ ''] ['' @ ei_component e @ ''] '' @ ei_message e
     @ (if ei_count e > 1 then '' (count: '' @ to_string (ei_count e) @ '')'' else []) @ [CHR 0x0A]
     @ (if ei_context e \<noteq> [] then ''  Context: '' @ concat (map (\<lambda>(k, v). k @ ''='' @ v @ '' '') (ei_context e)) @ [CHR 0x0A] else [])"

definition log_to_console :: "'w error_env \<Rightarrow> error_info \<Rightarrow> 'w \<Rightarrow> 'w" where
  "log_to_console env e w = (let (ts, w1) = format_timestamp env (ei_timestamp e) w in ee_print env (error_text ts e) w1)"

definition log_to_file :: "'w error_env \<Rightarrow> error_info \<Rightarrow> 'w \<Rightarrow> 'w" where
  "log_to_file env e w = (let (ts, w1) = format_timestamp env (ei_timestamp e) w in ee_write env (error_text ts e) w1)"

definition update_error_statistics :: "error_info \<Rightarrow> error_statistics \<Rightarrow> error_statistics" where
  "update_error_statistics e st =
     (let st1 = st\<lparr>es_total_errors := es_total_errors st + 1\<rparr>;
          st2 = (case ei_severity e of
             Sev_INFO \<Rightarrow> st1\<lparr>es_info_errors := es_info_errors st1 + 1\<rparr>
           | Sev_WARNING \<Rightarrow> st1\<lparr>es_warning_errors := es_warning_errors st1 + 1\<rparr>
           | Sev_ERROR \<Rightarrow> st1\<lparr>es_error_errors := es_error_errors st1 + 1\<rparr>
           | Sev_CRITICAL \<Rightarrow> st1\<lparr>es_critical_errors := es_critical_errors st1 + 1\<rparr>
           | _ \<Rightarrow> st1)
      in st2\<lparr>es_errors_by_component := count_into (es_errors_by_component st2) [ei_component e],
           es_errors_by_severity := count_into (es_errors_by_severity st2) [ei_severity e], es_last_error_time := ei_timestamp e\<rparr>)"

definition eh_log_error :: "'w error_env \<Rightarrow> string \<Rightarrow> severity \<Rightarrow> string \<Rightarrow> (string, string) smap \<Rightarrow> error_handler \<Rightarrow> 'w \<Rightarrow> error_handler \<times> 'w" where
  "eh_log_error env error_message severity component context eh w =
     (let (error_id, eh1, w1) = generate_error_id env eh w;
          (now, w2) = ee_clock env w1;
          n = (case eh_error_counts eh1 error_message of Some n \<Rightarrow> n + 1 | None \<Rightarrow> 1);
          e = \<lparr>ei_id = error_id, ei_message = error_message, ei_severity = severity, ei_component = component, ei_context = context,
            ei_timestamp = now, ei_count = n\<rparr>;
          eh2 = eh1\<lparr>eh_error_counts := (eh_error_counts eh1)(error_message \<mapsto> n), eh_errors := eh_errors eh1 @ [e]\<rparr>;
          w3 = (if ec_log_to_console (eh_config eh2) then log_to_console env e w2 else w2);
          w4 = (if ec_log_to_file (eh_config eh2) \<and> eh_file_open eh2 then log_to_file env e w3 else w3)
      in (eh2\<lparr>eh_stats := update_error_statistics e (eh_stats eh2)\<rparr>, w4))"

definition determine_recovery_strategy :: "severity \<Rightarrow> string \<Rightarrow> string" where
  "determine_recovery_strategy severity component =
     (if severity = Sev_CRITICAL then ''restart_component'' else if severity = Sev_ERROR then ''retry_operation''
      else if severity = Sev_WARNING then ''log_and_continue'' else ''ignore'')"

definition execute_recovery_strategy :: "'w error_env \<Rightarrow> string \<Rightarrow> string \<Rightarrow> string \<Rightarrow> error_handler \<Rightarrow> 'w \<Rightarrow> error_handler \<times> 'w" where
  "execute_recovery_strategy env strategy error_message component eh w =
     (if strategy = ''restart_component'' then eh_log_error env (''Component restart requested: '' @ component) Sev_INFO ''ErrorHandler'' [] eh w
      else if strategy = ''retry_operation'' then eh_log_error env (''Operation retry requested: '' @ error_message) Sev_INFO ''ErrorHandler'' [] eh w
      else (eh, w))"

definition handle_error :: "'w error_env \<Rightarrow> string \<Rightarrow> severity \<Rightarrow> string \<Rightarrow> (string, string) smap \<Rightarrow> error_handler \<Rightarrow> 'w
    \<Rightarrow> string \<times> error_handler \<times> 'w" where
  "handle_error env error_message severity component context eh w =
     (let (eh1, w1) = eh_log_error env error_message severity component context eh w;
          strategy = determine_recovery_strategy severity component
      in (strategy, execute_recovery_strategy env strategy error_message component eh1 w1))"

definition get_error_count :: "error_handler \<Rightarrow> int" where
  "get_error_count eh = es_total_errors (eh_stats eh)"

definition get_warning_count :: "error_handler \<Rightarrow> int" where
  "get_warning_count eh = es_warning_errors (eh_stats eh)"

definition get_critical_count :: "error_handler \<Rightarrow> int" where
  "get_critical_count eh = es_critical_errors (eh_stats eh)"

definition get_recent_errors :: "int \<Rightarrow> error_handler \<Rightarrow> error_info list" where
  "get_recent_errors n eh = drop (nat (max 0 (int (length (eh_errors eh)) - n))) (eh_errors eh)"

definition get_errors_by_component :: "error_handler \<Rightarrow> string \<rightharpoonup> int" where
  "get_errors_by_component eh = es_errors_by_component (eh_stats eh)"

definition get_errors_by_severity :: "error_handler \<Rightarrow> severity \<rightharpoonup> int" where
  "get_errors_by_severity eh = es_errors_by_severity (eh_stats eh)"

definition clear_errors :: "error_handler \<Rightarrow> error_handler" where
  "clear_errors eh = eh\<lparr>eh_errors := [], eh_error_counts := Map.empty, eh_stats := no_statistics\<rparr>"

definition update_error_config :: "'w error_env \<Rightarrow> error_config \<Rightarrow> error_handler \<Rightarrow> 'w \<Rightarrow> error_handler \<times> 'w" where
  "update_error_config env config eh w =
     (let w1 = (if eh_file_open eh then ee_close env w else w);
          (opened, w2) = (if ec_log_to_file config then ee_open env (ec_log_filename config) w1 else (False, w1))
      in (eh\<lparr>eh_config := config, eh_file_open := opened\<rparr>, w2))"

definition error_health_status :: "error_handler \<Rightarrow> (string, string) smap" where
  "error_health_status eh =
     fold (\<lambda>(k, v). smap_update k v)
       [(''total_errors'', to_string (get_error_count eh)), (''warning_errors'', to_string (get_warning_count eh)),
        (''critical_errors'', to_string (get_critical_count eh)),
        (''log_to_console'', if ec_log_to_console (eh_config eh) then ''true'' else ''false''),
        (''log_to_file'', if ec_log_to_file (eh_config eh) then ''true'' else ''false'')] []"

section \<open>Statistics of a log\<close>

text \<open>What the statistics should be: functions of the logged errors alone.\<close>

definition severity_count :: "severity \<Rightarrow> error_info list \<Rightarrow> int" where
  "severity_count s es = int (count_list (map ei_severity es) s)"

definition statistics_of :: "error_info list \<Rightarrow> error_statistics" where
  "statistics_of es = \<lparr>es_total_errors = int (length es), es_info_errors = severity_count Sev_INFO es,
     es_warning_errors = severity_count Sev_WARNING es, es_error_errors = severity_count Sev_ERROR es,
     es_critical_errors = severity_count Sev_CRITICAL es, es_errors_by_component = count_into Map.empty (map ei_component es),
     es_errors_by_severity = count_into Map.empty (map ei_severity es), es_last_error_time = (if es = [] then 0 else ei_timestamp (last es))\<rparr>"

definition occurrence_counts :: "error_info list \<Rightarrow> bool" where
  "occurrence_counts es \<longleftrightarrow> (\<forall>i < length es. ei_count (es ! i) = int (count_list (map ei_message (take (Suc i) es)) (ei_message (es ! i))))"

lemma count_into_append: "count_into c (ks @ ks') = count_into (count_into c ks) ks'"
  by (induction ks arbitrary: c) simp_all

lemma count_list_snoc: "count_list (xs @ [y]) x = count_list xs x + (if x = y then 1 else 0)"
  by (induction xs) auto

lemma statistics_of_snoc: "update_error_statistics e (statistics_of es) = statistics_of (es @ [e])"
  by (cases "ei_severity e") (simp_all add: update_error_statistics_def statistics_of_def severity_count_def count_list_snoc count_into_append
      Let_def del: count_into.simps)

lemma occurrence_counts_snoc:
  assumes "occurrence_counts es" "ei_count e = int (count_list (map ei_message es) (ei_message e)) + 1"
  shows "occurrence_counts (es @ [e])"
  using assms by (auto simp: occurrence_counts_def nth_append less_Suc_eq count_list_snoc)

section \<open>Identifiers\<close>

definition error_id_of :: "int \<Rightarrow> int \<Rightarrow> string" where
  "error_id_of timestamp n = ''ERR_'' @ to_string timestamp @ ''_'' @ to_string n"

lemma error_id_of_inj: "error_id_of t m = error_id_of u n \<longleftrightarrow> t = u \<and> m = n"
  using append_Cons_eq_iff [of "CHR ''_''" "to_string t" "to_string m" "to_string u" "to_string n"] underscore_not_in_number
  by (simp add: error_id_of_def to_string_inj)

definition error_ids_ok :: "nat \<Rightarrow> error_info list \<Rightarrow> bool" where
  "error_ids_ok n es \<longleftrightarrow> ei_id ` set es \<subseteq> {error_id_of t (counter_after m) |t m. m < n} \<and> (n \<le> 2 ^ 32 \<longrightarrow> distinct (map ei_id es))"

lemma error_ids_ok_snoc:
  assumes "error_ids_ok n es" "ei_id e = error_id_of t (counter_after n)"
  shows "error_ids_ok (Suc n) (es @ [e])"
proof -
  have "ei_id e \<notin> ei_id ` set es" if "n < 2 ^ 32"
  proof
    assume "ei_id e \<in> ei_id ` set es"
    then obtain u m where "m < n" "ei_id e = error_id_of u (counter_after m)" using assms(1) by (auto simp: error_ids_ok_def)
    with that show False by (simp add: assms(2) error_id_of_inj counter_after_inj)
  qed
  moreover have "{error_id_of t (counter_after m) |t m. m < n} \<subseteq> {error_id_of t (counter_after m) |t m. m < Suc n}"
    by (blast intro: less_SucI)
  then have "ei_id ` set (es @ [e]) \<subseteq> {error_id_of t (counter_after m) |t m. m < Suc n}"
    using assms unfolding error_ids_ok_def by (simp, blast)
  ultimately show ?thesis using assms(1) by (simp add: error_ids_ok_def)
qed

section \<open>The machine\<close>

text \<open>The third component counts the errors logged since the handler was created.\<close>

definition logs_follow_up :: "severity \<Rightarrow> bool" where
  "logs_follow_up s \<longleftrightarrow> s = Sev_ERROR \<or> s = Sev_CRITICAL"

inductive error_step :: "'w error_env \<Rightarrow> error_handler \<times> 'w \<times> nat \<Rightarrow> error_handler \<times> 'w \<times> nat \<Rightarrow> bool" for env :: "'w error_env" where
  log: "eh_log_error env msg sev part ctx eh w = (eh', w') \<Longrightarrow> error_step env (eh, w, n) (eh', w', Suc n)"
| handle: "handle_error env msg sev part ctx eh w = (strategy, eh', w')
    \<Longrightarrow> error_step env (eh, w, n) (eh', w', if logs_follow_up sev then Suc (Suc n) else Suc n)"
| clear: "error_step env (eh, w, n) (clear_errors eh, w, n)"
| config: "update_error_config env c eh w = (eh', w') \<Longrightarrow> error_step env (eh, w, n) (eh', w', n)"
| tick: "error_step env (eh, w, n) (eh, w', n)"

definition error_init :: "'w error_env \<Rightarrow> error_handler \<times> 'w \<times> nat \<Rightarrow> bool" where
  "error_init env s \<longleftrightarrow> (\<exists>config w eh w'. new_error_handler env config w = (eh, w') \<and> s = (eh, w', 0))"

definition error_inv :: "error_handler \<times> 'w \<times> nat \<Rightarrow> bool" where
  "error_inv s \<longleftrightarrow> (case s of (eh, w, n) \<Rightarrow>
     eh_counter eh = counter_after n \<and> eh_stats eh = statistics_of (eh_errors eh) \<and> eh_error_counts eh = count_into Map.empty (map ei_message (eh_errors eh))
     \<and> occurrence_counts (eh_errors eh) \<and> error_ids_ok n (eh_errors eh))"

lemma eh_log_error_inv:
  assumes "error_inv (eh, w, n)" "eh_log_error env msg sev part ctx eh w = (eh', w')"
  shows "error_inv (eh', v, Suc n)" "\<exists>e. eh_errors eh' = eh_errors eh @ [e] \<and> ei_message e = msg \<and> ei_severity e = sev \<and> ei_component e = part"
proof -
  let ?t = "int_div (fst (ee_clock env w)) 1000000"
  let ?n = "case eh_error_counts eh msg of Some n \<Rightarrow> n + 1 | None \<Rightarrow> 1"
  define e where "e = \<lparr>ei_id = error_id_of ?t (eh_counter eh), ei_message = msg, ei_severity = sev, ei_component = part, ei_context = ctx,
    ei_timestamp = fst (ee_clock env (snd (ee_clock env w))), ei_count = ?n\<rparr>"
  have eh': "eh_errors eh' = eh_errors eh @ [e]" "eh_error_counts eh' = (eh_error_counts eh)(msg \<mapsto> ?n)"
    "eh_stats eh' = update_error_statistics e (eh_stats eh)" "eh_counter eh' = signed_take_bit 31 (eh_counter eh + 1)"
    using assms(2) by (auto simp: eh_log_error_def generate_error_id_def e_def error_id_of_def case_prod_beta Let_def)
  have counts: "?n = int (count_list (map ei_message (eh_errors eh)) msg) + 1"
    using assms(1) by (simp add: error_inv_def count_into_exact count_list_0_iff)
  then have "(eh_error_counts eh)(msg \<mapsto> ?n) = count_into Map.empty (map ei_message (eh_errors eh @ [e]))"
    using assms(1) by (simp add: error_inv_def count_into_append e_def) (simp add: count_into_exact fun_eq_iff count_list_0_iff)
  moreover have "occurrence_counts (eh_errors eh @ [e])"
    using assms(1) counts by (intro occurrence_counts_snoc) (simp_all add: error_inv_def e_def)
  moreover have "error_ids_ok (Suc n) (eh_errors eh @ [e])"
    using assms(1) by (intro error_ids_ok_snoc [where t = ?t]) (simp_all add: error_inv_def e_def)
  ultimately show "error_inv (eh', v, Suc n)"
    using assms(1) by (simp add: error_inv_def eh' counter_after_Suc statistics_of_snoc)
  show "\<exists>e. eh_errors eh' = eh_errors eh @ [e] \<and> ei_message e = msg \<and> ei_severity e = sev \<and> ei_component e = part"
    by (rule exI [of _ e]) (simp add: eh' e_def)
qed

lemma handle_error_inv:
  assumes "error_inv (eh, w, n)" "handle_error env msg sev part ctx eh w = (strategy, eh', w')"
  shows "error_inv (eh', v, if logs_follow_up sev then Suc (Suc n) else Suc n)"
    "length (eh_errors eh') = length (eh_errors eh) + (if logs_follow_up sev then 2 else 1)"
proof -
  obtain eh1 w1 where l: "eh_log_error env msg sev part ctx eh w = (eh1, w1)" by (rule prod.exhaust)
  note one = eh_log_error_inv [OF assms(1) l]
  have x: "execute_recovery_strategy env (determine_recovery_strategy sev part) msg part eh1 w1 = (eh', w')"
    using assms(2) by (auto simp: handle_error_def l Let_def)
  have "error_inv (eh', v, if logs_follow_up sev then Suc (Suc n) else Suc n)
    \<and> length (eh_errors eh') = length (eh_errors eh) + (if logs_follow_up sev then 2 else 1)"
  proof (cases "logs_follow_up sev")
    case True
    then obtain follow_up where "eh_log_error env follow_up Sev_INFO ''ErrorHandler'' [] eh1 w1 = (eh', w')"
      using x by (auto simp: logs_follow_up_def execute_recovery_strategy_def determine_recovery_strategy_def)
    from eh_log_error_inv [OF one(1) this] one(2) True show ?thesis by auto
  next
    case False
    then have "eh' = eh1" using x by (auto simp: logs_follow_up_def execute_recovery_strategy_def determine_recovery_strategy_def split: if_splits)
    with one False show ?thesis by auto
  qed
  then show "error_inv (eh', v, if logs_follow_up sev then Suc (Suc n) else Suc n)"
    "length (eh_errors eh') = length (eh_errors eh) + (if logs_follow_up sev then 2 else 1)" by simp_all
qed

lemma error_inv_empty: "error_ids_ok n [] \<and> occurrence_counts [] \<and> statistics_of [] = no_statistics"
  by (simp add: error_ids_ok_def occurrence_counts_def statistics_of_def no_statistics_def severity_count_def)

interpretation error_system: invariant_system "error_init env" "error_step env" error_inv
proof
  show "error_init env s \<Longrightarrow> error_inv s" for s :: "error_handler \<times> 'a \<times> nat"
    by (auto simp: error_init_def new_error_handler_def error_inv_def error_inv_empty counter_after_def case_prod_beta Let_def)
  show "error_inv t" if "error_inv s" "error_step env s t" for s t :: "error_handler \<times> 'a \<times> nat"
    using that(2)
  proof cases
    case (log msg sev part ctx eh w eh' w' n)
    with that(1) eh_log_error_inv(1) show ?thesis by simp
  next
    case (handle msg sev part ctx eh w strategy eh' w' n)
    with that(1) handle_error_inv(1) [of eh w n env msg sev part ctx strategy eh' w' w'] show ?thesis by simp
  qed (use that(1) in \<open>auto simp: error_inv_def clear_errors_def update_error_config_def error_inv_empty case_prod_beta Let_def\<close>)
qed

section \<open>Properties\<close>

lemma severities_partition: "int (length es) = severity_count Sev_DEBUG es + severity_count Sev_INFO es + severity_count Sev_WARNING es
    + severity_count Sev_ERROR es + severity_count Sev_CRITICAL es + severity_count Sev_FATAL es"
proof (induction es)
  case (Cons e es)
  then show ?case by (cases "ei_severity e") (simp_all add: severity_count_def)
qed (simp add: severity_count_def)

text \<open>C38: The statistics are those of the log. In every reachable state of the error handler the statistics are a function of the logged errors: every counter and both maps are exact, and the
  count in each error is the number of errors with its message up to it; identifiers are different as long as at most \<^verbatim>\<open>2^32\<close> errors were logged. The total exceeds the four
  counters by the debug and fatal errors, which no counter covers. \<^verbatim>\<open>handleError\<close> logs one error, and a second one for errors and critical errors; it
  answers \<^verbatim>\<open>ignore\<close> to a fatal error.\<close>

theorem error_statistics_exact:
  assumes "reachable (error_init env) (error_step env) (eh, w, n)" "handle_error env msg sev part ctx eh w = (strategy, eh', w')"
  shows "eh_stats eh = statistics_of (eh_errors eh) \<and> occurrence_counts (eh_errors eh) \<and> (n \<le> 2 ^ 32 \<longrightarrow> distinct (map ei_id (eh_errors eh)))
    \<and> get_error_count eh = es_info_errors (eh_stats eh) + get_warning_count eh + es_error_errors (eh_stats eh) + get_critical_count eh
        + severity_count Sev_DEBUG (eh_errors eh) + severity_count Sev_FATAL (eh_errors eh)
    \<and> get_error_count eh' = get_error_count eh + (if logs_follow_up sev then 2 else 1)
    \<and> (strategy = ''ignore'' \<longleftrightarrow> sev = Sev_DEBUG \<or> sev = Sev_INFO \<or> sev = Sev_FATAL)"
proof -
  have inv: "error_inv (eh, w, n)" using assms(1) by (rule error_system.inv_reachable)
  have inv': "error_inv (eh', w', if logs_follow_up sev then Suc (Suc n) else Suc n)" by (rule handle_error_inv(1) [OF inv assms(2)])
  have len: "length (eh_errors eh') = length (eh_errors eh) + (if logs_follow_up sev then 2 else 1)" by (rule handle_error_inv(2) [OF inv assms(2)])
  have st: "eh_stats eh = statistics_of (eh_errors eh)" "eh_stats eh' = statistics_of (eh_errors eh')"
    using inv inv' by (simp_all add: error_inv_def)
  have "strategy = ''ignore'' \<longleftrightarrow> sev = Sev_DEBUG \<or> sev = Sev_INFO \<or> sev = Sev_FATAL"
    using assms(2) by (cases sev) (auto simp: handle_error_def determine_recovery_strategy_def case_prod_beta Let_def)
  moreover have "get_error_count eh' = get_error_count eh + (if logs_follow_up sev then 2 else 1)"
    using len by (simp add: get_error_count_def st statistics_of_def)
  moreover have "occurrence_counts (eh_errors eh) \<and> (n \<le> 2 ^ 32 \<longrightarrow> distinct (map ei_id (eh_errors eh)))"
    using inv by (simp add: error_inv_def error_ids_ok_def)
  ultimately show ?thesis
    using severities_partition [of "eh_errors eh"]
    by (simp add: st get_error_count_def get_warning_count_def get_critical_count_def statistics_of_def)
qed

definition demo_error_env :: "demo_world error_env" where
  "demo_error_env = \<lparr>ee_clock = demo_tick, ee_local_time = (\<lambda>w. (''now'', w)), ee_open = (\<lambda>f w. (True, w)), ee_close = (\<lambda>w. w), ee_print = (\<lambda>s w. w),
     ee_write = (\<lambda>s w. w)\<rparr>"

definition demo_errors :: "error_handler \<times> demo_world" where
  "demo_errors = new_error_handler demo_error_env \<lparr>ec_log_to_console = True, ec_log_to_file = False, ec_log_filename = []\<rparr> demo_start"

theorem error_statistics_exact_witness:
  "fst (handle_error demo_error_env ''disk'' Sev_FATAL ''io'' [] (fst demo_errors) (snd demo_errors)) = ''ignore''
   \<and> get_error_count (fst (snd (handle_error demo_error_env ''disk'' Sev_FATAL ''io'' [] (fst demo_errors) (snd demo_errors)))) = get_error_count (fst demo_errors) + 1"
proof -
  let ?r = "handle_error demo_error_env ''disk'' Sev_FATAL ''io'' [] (fst demo_errors) (snd demo_errors)"
  have "reachable (error_init demo_error_env) (error_step demo_error_env) (fst demo_errors, snd demo_errors, 0)"
    by (rule reachable.start) (auto simp: error_init_def demo_errors_def intro: prod.collapse)
  moreover have "?r = (fst ?r, fst (snd ?r), snd (snd ?r))" by simp
  ultimately show ?thesis using error_statistics_exact by (fastforce simp: logs_follow_up_def)
qed

end
