(* ===== verification/Database_Manager.thy ===== *)
theory Database_Manager
  imports Complex_Main Expiring_Store State_Machine
begin

text \<open>
  \<^verbatim>\<open>DatabaseManager\<close> as \<^verbatim>\<open>database_manager.cpp\<close> defines it: a pool of connections and the prepared statements that run on them. The header declares other members,
  so that the two files do not compile together; the records have the members that the source file uses. The MySQL connector is a
  parameter (\<open>sql_env\<close>); a call that throws \<^verbatim>\<open>SQLException\<close> returns \<open>None\<close> or \<open>False\<close>. A connection is the number of its object, a null pointer
  \<open>None\<close>; the result of an operation is \<open>None\<close> when an exception leaves it. Setting the parameters of a statement does not throw: every statement sets
  each of its placeholders, as shown below. A lookup that finds nothing returns \<^verbatim>\<open>TorrentMetadata{}\<close>, written \<open>None\<close>.
\<close>

section \<open>Definitions\<close>

datatype sql_param = P_String string | P_UInt64 nat | P_Int int | P_DateTime string | P_Double rat

record torrent_row =
  row_id :: int
  row_infohash :: string
  row_name :: string
  row_size :: nat
  row_piece_length :: nat
  row_pieces_count :: int
  row_files_count :: int
  row_created_at :: string
  row_updated_at :: string

record 'w sql_env =
  sq_connect :: "string \<Rightarrow> string \<Rightarrow> string \<Rightarrow> 'w \<Rightarrow> nat option \<times> 'w"
  sq_set_schema :: "nat \<Rightarrow> string \<Rightarrow> 'w \<Rightarrow> bool \<times> 'w"
  sq_set_auto_commit :: "nat \<Rightarrow> bool \<Rightarrow> 'w \<Rightarrow> bool \<times> 'w"
  sq_prepare :: "nat \<Rightarrow> string \<Rightarrow> 'w \<Rightarrow> bool \<times> 'w"
  sq_execute :: "nat \<Rightarrow> string \<Rightarrow> sql_param list \<Rightarrow> 'w \<Rightarrow> int option \<times> 'w"
  sq_query :: "nat \<Rightarrow> string \<Rightarrow> sql_param list \<Rightarrow> 'w \<Rightarrow> torrent_row list option \<times> 'w"
  sq_commit :: "nat \<Rightarrow> 'w \<Rightarrow> bool \<times> 'w"
  sq_rollback :: "nat \<Rightarrow> 'w \<Rightarrow> bool \<times> 'w"
  sq_close :: "nat \<Rightarrow> 'w \<Rightarrow> bool \<times> 'w"
  sq_local_time :: "'w \<Rightarrow> string \<times> 'w"
  sq_clock :: "'w clock"

record database_config =
  dbc_host :: string
  dbc_port :: int
  dbc_username :: string
  dbc_password :: string
  dbc_database :: string
  dbc_max_connections :: int
  dbc_connection_timeout :: int
  dbc_auto_reconnect :: bool
  dbc_ssl_enabled :: bool
  dbc_charset :: string

record db_manager =
  dm_config :: database_config
  dm_pool :: "nat list"

record torrent_metadata =
  tm_id :: int
  tm_infohash :: string
  tm_name :: string
  tm_size :: nat
  tm_piece_length :: nat
  tm_pieces_count :: int
  tm_files_count :: int
  tm_created_at :: time
  tm_updated_at :: time

record tracker_state =
  tk_infohash :: string
  tk_tracker_url :: string
  tk_status :: string
  tk_last_announce :: time
  tk_next_announce :: time
  tk_seeders :: int
  tk_leechers :: int
  tk_downloaded :: int

record peer_state =
  ps_infohash :: string
  ps_peer_id :: string
  ps_ip_address :: string
  ps_port :: int
  ps_status :: string
  ps_last_seen :: time
  ps_uploaded :: nat
  ps_downloaded :: nat
  ps_left_bytes :: nat

record dht_node_state =
  dn_node_id :: string
  dn_ip_address :: string
  dn_port :: int
  dn_status :: string
  dn_last_seen :: time
  dn_quality_score :: rat
  dn_response_time :: int

record crawl_session =
  cs_session_id :: string
  cs_start_time :: time
  cs_end_time :: time
  cs_status :: string
  cs_torrents_discovered :: int
  cs_torrents_processed :: int
  cs_errors_count :: int

record metadata_request_row =
  mr_request_id :: string
  mr_infohash :: string
  mr_peer_ip :: string
  mr_peer_port :: int
  mr_status :: string
  mr_created_at :: time
  mr_completed_at :: time
  mr_error_message :: string

record bep9_extension =
  be9_infohash :: string
  be9_peer_ip :: string
  be9_peer_port :: int
  be9_extension_name :: string
  be9_status :: string
  be9_created_at :: time
  be9_completed_at :: time
  be9_error_message :: string

subsection \<open>The pool\<close>

definition connection_string :: "database_config \<Rightarrow> string" where
  "connection_string config = ''tcp://'' @ dbc_host config @ '':'' @ to_string (dbc_port config)"

definition create_connection :: "'w sql_env \<Rightarrow> database_config \<Rightarrow> 'w \<Rightarrow> nat option \<times> 'w" where
  "create_connection env config w =
     (case sq_connect env (connection_string config) (dbc_username config) (dbc_password config) w of
        (None, w1) \<Rightarrow> (None, w1)
      | (Some c, w1) \<Rightarrow>
          (let (ok, w2) = sq_set_schema env c (dbc_database config) w1
           in if \<not> ok then (None, w2)
              else let (ok', w3) = sq_set_auto_commit env c False w2 in (if ok' then Some c else None, w3)))"

fun fill_pool :: "'w sql_env \<Rightarrow> nat \<Rightarrow> db_manager \<Rightarrow> 'w \<Rightarrow> db_manager \<times> 'w" where
  "fill_pool env 0 dm w = (dm, w)"
| "fill_pool env (Suc n) dm w =
     (case create_connection env (dm_config dm) w of
        (None, w1) \<Rightarrow> fill_pool env n dm w1
      | (Some c, w1) \<Rightarrow> fill_pool env n (dm\<lparr>dm_pool := dm_pool dm @ [c]\<rparr>) w1)"

definition new_db_manager :: "'w sql_env \<Rightarrow> database_config \<Rightarrow> 'w \<Rightarrow> db_manager \<times> 'w" where
  "new_db_manager env config w = fill_pool env (nat (dbc_max_connections config)) \<lparr>dm_config = config, dm_pool = []\<rparr> w"

definition get_connection :: "'w sql_env \<Rightarrow> db_manager \<Rightarrow> 'w \<Rightarrow> nat option \<times> db_manager \<times> 'w" where
  "get_connection env dm w =
     (case dm_pool dm of
        c # cs \<Rightarrow> (Some c, dm\<lparr>dm_pool := cs\<rparr>, w)
      | [] \<Rightarrow> let (c, w1) = create_connection env (dm_config dm) w in (c, dm, w1))"

definition return_connection :: "nat option \<Rightarrow> db_manager \<Rightarrow> db_manager" where
  "return_connection c dm = (case c of Some i \<Rightarrow> dm\<lparr>dm_pool := dm_pool dm @ [i]\<rparr> | None \<Rightarrow> dm)"

text \<open>The loop of \<^verbatim>\<open>closeAllConnections\<close>: the pool that is left, and whether it ended without an exception of \<^verbatim>\<open>close\<close>.\<close>

fun close_connections :: "'w sql_env \<Rightarrow> nat list \<Rightarrow> 'w \<Rightarrow> bool \<times> nat list \<times> 'w" where
  "close_connections env [] w = (True, [], w)"
| "close_connections env (c # cs) w =
     (case sq_close env c w of (True, w1) \<Rightarrow> close_connections env cs w1 | (False, w1) \<Rightarrow> (False, cs, w1))"

definition close_all_connections :: "'w sql_env \<Rightarrow> db_manager \<Rightarrow> 'w \<Rightarrow> bool \<times> db_manager \<times> 'w" where
  "close_all_connections env dm w =
     (case close_connections env (dm_pool dm) w of (ok, rest, w1) \<Rightarrow> (ok, dm\<lparr>dm_pool := rest\<rparr>, w1))"

subsection \<open>Statements\<close>

definition format_date_time :: "'w sql_env \<Rightarrow> time \<Rightarrow> 'w \<Rightarrow> string \<times> 'w" where
  "format_date_time env time_point w = sq_local_time env w"

definition parse_date_time :: "'w sql_env \<Rightarrow> string \<Rightarrow> 'w \<Rightarrow> time \<times> 'w" where
  "parse_date_time env datetime w = sq_clock env w"

text \<open>A statement: its text and the parameters that are set after it was prepared, in the order of the placeholders.\<close>

record 'w statement =
  st_query :: string
  st_params :: "'w \<Rightarrow> sql_param list \<times> 'w"

text \<open>The common shape of the operations that change data: prepare, set the parameters, execute, commit; on an exception roll back, which may throw
  itself and then leaves the operation.\<close>

definition run_statement :: "'w sql_env \<Rightarrow> nat \<Rightarrow> 'w statement \<Rightarrow> 'w \<Rightarrow> int option \<times> 'w" where
  "run_statement env c st w =
     (let (ok, w1) = sq_prepare env c (st_query st) w
      in if \<not> ok then (None, w1)
         else
           (let (ps, w2) = st_params st w1; (rows, w3) = sq_execute env c (st_query st) ps w2
            in case rows of
                 None \<Rightarrow> (None, w3)
               | Some n \<Rightarrow> let (ok', w4) = sq_commit env c w3 in (if ok' then Some n else None, w4)))"

definition run_or_rollback :: "'w sql_env \<Rightarrow> nat \<Rightarrow> 'w statement \<Rightarrow> (int \<Rightarrow> bool) \<Rightarrow> 'w \<Rightarrow> bool option \<times> 'w" where
  "run_or_rollback env c st result w =
     (case run_statement env c st w of
        (Some n, w1) \<Rightarrow> (Some (result n), w1)
      | (None, w1) \<Rightarrow> let (ok, w2) = sq_rollback env c w1 in (if ok then Some False else None, w2))"

definition with_connection :: "'w sql_env \<Rightarrow> 'w statement \<Rightarrow> (int \<Rightarrow> bool) \<Rightarrow> db_manager \<Rightarrow> 'w \<Rightarrow> bool option \<times> db_manager \<times> 'w" where
  "with_connection env st result dm w =
     (case get_connection env dm w of
        (None, dm1, w1) \<Rightarrow> (Some False, dm1, w1)
      | (Some c, dm1, w1) \<Rightarrow>
          (case run_or_rollback env c st result w1 of
             (Some b, w2) \<Rightarrow> (Some b, return_connection (Some c) dm1, w2)
           | (None, w2) \<Rightarrow> (None, dm1, w2)))"

definition insert_torrent_statement :: "'w sql_env \<Rightarrow> torrent_metadata \<Rightarrow> 'w statement" where
  "insert_torrent_statement env m =
     \<lparr>st_query = ''INSERT INTO TorrentMetadata (infohash, name, size, piece_length, pieces_count, files_count, created_at, updated_at) VALUES (?, ?, ?, ?, ?, ?, ?, ?)'',
      st_params = (\<lambda>w. let (created, w1) = format_date_time env (tm_created_at m) w; (updated, w2) = format_date_time env (tm_updated_at m) w1
          in ([P_String (tm_infohash m), P_String (tm_name m), P_UInt64 (tm_size m), P_UInt64 (tm_piece_length m), P_Int (tm_pieces_count m),
              P_Int (tm_files_count m), P_DateTime created, P_DateTime updated], w2))\<rparr>"

definition insert_torrent_metadata :: "'w sql_env \<Rightarrow> torrent_metadata \<Rightarrow> db_manager \<Rightarrow> 'w \<Rightarrow> bool option \<times> db_manager \<times> 'w" where
  "insert_torrent_metadata env m = with_connection env (insert_torrent_statement env m) (\<lambda>rows_affected. True)"

definition update_torrent_statement :: "'w sql_env \<Rightarrow> torrent_metadata \<Rightarrow> 'w statement" where
  "update_torrent_statement env m =
     \<lparr>st_query = ''UPDATE TorrentMetadata SET name = ?, size = ?, piece_length = ?, pieces_count = ?, files_count = ?, updated_at = ? WHERE infohash = ?'',
      st_params = (\<lambda>w. let (updated, w1) = format_date_time env (tm_updated_at m) w
          in ([P_String (tm_name m), P_UInt64 (tm_size m), P_UInt64 (tm_piece_length m), P_Int (tm_pieces_count m), P_Int (tm_files_count m),
              P_DateTime updated, P_String (tm_infohash m)], w1))\<rparr>"

definition update_torrent_row :: "'w sql_env \<Rightarrow> torrent_metadata \<Rightarrow> db_manager \<Rightarrow> 'w \<Rightarrow> bool option \<times> db_manager \<times> 'w" where
  "update_torrent_row env m = with_connection env (update_torrent_statement env m) (\<lambda>rows_affected. rows_affected > 0)"

definition delete_torrent_statement :: "'w sql_env \<Rightarrow> string \<Rightarrow> 'w statement" where
  "delete_torrent_statement env infohash =
     \<lparr>st_query = ''DELETE FROM TorrentMetadata WHERE infohash = ?'',
      st_params = (\<lambda>w. ([P_String infohash], w))\<rparr>"

definition delete_torrent_metadata :: "'w sql_env \<Rightarrow> string \<Rightarrow> db_manager \<Rightarrow> 'w \<Rightarrow> bool option \<times> db_manager \<times> 'w" where
  "delete_torrent_metadata env infohash = with_connection env (delete_torrent_statement env infohash) (\<lambda>rows_affected. rows_affected > 0)"

definition insert_tracker_statement :: "'w sql_env \<Rightarrow> tracker_state \<Rightarrow> 'w statement" where
  "insert_tracker_statement env t =
     \<lparr>st_query = ''INSERT INTO TrackerState (infohash, tracker_url, status, last_announce, next_announce, seeders, leechers, downloaded) VALUES (?, ?, ?, ?, ?, ?, ?, ?)'',
      st_params = (\<lambda>w. let (last_announce, w1) = format_date_time env (tk_last_announce t) w; (next_announce, w2) = format_date_time env (tk_next_announce t) w1
          in ([P_String (tk_infohash t), P_String (tk_tracker_url t), P_String (tk_status t), P_DateTime last_announce, P_DateTime next_announce,
              P_Int (tk_seeders t), P_Int (tk_leechers t), P_Int (tk_downloaded t)], w2))\<rparr>"

definition insert_tracker_state :: "'w sql_env \<Rightarrow> tracker_state \<Rightarrow> db_manager \<Rightarrow> 'w \<Rightarrow> bool option \<times> db_manager \<times> 'w" where
  "insert_tracker_state env t = with_connection env (insert_tracker_statement env t) (\<lambda>rows_affected. True)"

definition insert_peer_statement :: "'w sql_env \<Rightarrow> peer_state \<Rightarrow> 'w statement" where
  "insert_peer_statement env p =
     \<lparr>st_query = ''INSERT INTO PeerState (infohash, peer_id, ip_address, port, status, last_seen, uploaded, downloaded, left_bytes) VALUES (?, ?, ?, ?, ?, ?, ?, ?, ?)'',
      st_params = (\<lambda>w. let (last_seen, w1) = format_date_time env (ps_last_seen p) w
          in ([P_String (ps_infohash p), P_String (ps_peer_id p), P_String (ps_ip_address p), P_Int (ps_port p), P_String (ps_status p),
              P_DateTime last_seen, P_UInt64 (ps_uploaded p), P_UInt64 (ps_downloaded p), P_UInt64 (ps_left_bytes p)], w1))\<rparr>"

definition insert_peer_state :: "'w sql_env \<Rightarrow> peer_state \<Rightarrow> db_manager \<Rightarrow> 'w \<Rightarrow> bool option \<times> db_manager \<times> 'w" where
  "insert_peer_state env p = with_connection env (insert_peer_statement env p) (\<lambda>rows_affected. True)"

definition insert_node_statement :: "'w sql_env \<Rightarrow> dht_node_state \<Rightarrow> 'w statement" where
  "insert_node_statement env n =
     \<lparr>st_query = ''INSERT INTO DHTNodeState (node_id, ip_address, port, status, last_seen, quality_score, response_time) VALUES (?, ?, ?, ?, ?, ?, ?)'',
      st_params = (\<lambda>w. let (last_seen, w1) = format_date_time env (dn_last_seen n) w
          in ([P_String (dn_node_id n), P_String (dn_ip_address n), P_Int (dn_port n), P_String (dn_status n), P_DateTime last_seen,
              P_Double (dn_quality_score n), P_Int (dn_response_time n)], w1))\<rparr>"

definition insert_dht_node_state :: "'w sql_env \<Rightarrow> dht_node_state \<Rightarrow> db_manager \<Rightarrow> 'w \<Rightarrow> bool option \<times> db_manager \<times> 'w" where
  "insert_dht_node_state env n = with_connection env (insert_node_statement env n) (\<lambda>rows_affected. True)"

definition insert_session_statement :: "'w sql_env \<Rightarrow> crawl_session \<Rightarrow> 'w statement" where
  "insert_session_statement env s =
     \<lparr>st_query = ''INSERT INTO CrawlSession (session_id, start_time, end_time, status, torrents_discovered, torrents_processed, errors_count) VALUES (?, ?, ?, ?, ?, ?, ?)'',
      st_params = (\<lambda>w. let (start_time, w1) = format_date_time env (cs_start_time s) w; (end_time, w2) = format_date_time env (cs_end_time s) w1
          in ([P_String (cs_session_id s), P_DateTime start_time, P_DateTime end_time, P_String (cs_status s), P_Int (cs_torrents_discovered s),
              P_Int (cs_torrents_processed s), P_Int (cs_errors_count s)], w2))\<rparr>"

definition insert_crawl_session :: "'w sql_env \<Rightarrow> crawl_session \<Rightarrow> db_manager \<Rightarrow> 'w \<Rightarrow> bool option \<times> db_manager \<times> 'w" where
  "insert_crawl_session env s = with_connection env (insert_session_statement env s) (\<lambda>rows_affected. True)"

definition insert_request_statement :: "'w sql_env \<Rightarrow> metadata_request_row \<Rightarrow> 'w statement" where
  "insert_request_statement env r =
     \<lparr>st_query = ''INSERT INTO MetadataRequest (request_id, infohash, peer_ip, peer_port, status, created_at, completed_at, error_message) VALUES (?, ?, ?, ?, ?, ?, ?, ?)'',
      st_params = (\<lambda>w. let (created, w1) = format_date_time env (mr_created_at r) w; (completed, w2) = format_date_time env (mr_completed_at r) w1
          in ([P_String (mr_request_id r), P_String (mr_infohash r), P_String (mr_peer_ip r), P_Int (mr_peer_port r), P_String (mr_status r),
              P_DateTime created, P_DateTime completed, P_String (mr_error_message r)], w2))\<rparr>"

definition insert_metadata_request :: "'w sql_env \<Rightarrow> metadata_request_row \<Rightarrow> db_manager \<Rightarrow> 'w \<Rightarrow> bool option \<times> db_manager \<times> 'w" where
  "insert_metadata_request env r = with_connection env (insert_request_statement env r) (\<lambda>rows_affected. True)"

definition insert_bep9_statement :: "'w sql_env \<Rightarrow> bep9_extension \<Rightarrow> 'w statement" where
  "insert_bep9_statement env b =
     \<lparr>st_query = ''INSERT INTO BEP9ExtensionProtocol (infohash, peer_ip, peer_port, extension_name, status, created_at, completed_at, error_message) VALUES (?, ?, ?, ?, ?, ?, ?, ?)'',
      st_params = (\<lambda>w. let (created, w1) = format_date_time env (be9_created_at b) w; (completed, w2) = format_date_time env (be9_completed_at b) w1
          in ([P_String (be9_infohash b), P_String (be9_peer_ip b), P_Int (be9_peer_port b), P_String (be9_extension_name b), P_String (be9_status b),
              P_DateTime created, P_DateTime completed, P_String (be9_error_message b)], w2))\<rparr>"

definition insert_bep9_extension :: "'w sql_env \<Rightarrow> bep9_extension \<Rightarrow> db_manager \<Rightarrow> 'w \<Rightarrow> bool option \<times> db_manager \<times> 'w" where
  "insert_bep9_extension env b = with_connection env (insert_bep9_statement env b) (\<lambda>rows_affected. True)"

subsection \<open>Reading\<close>

definition read_row :: "'w sql_env \<Rightarrow> torrent_row \<Rightarrow> 'w \<Rightarrow> torrent_metadata \<times> 'w" where
  "read_row env row w =
     (let (created, w1) = parse_date_time env (row_created_at row) w; (updated, w2) = parse_date_time env (row_updated_at row) w1
      in (\<lparr>tm_id = row_id row, tm_infohash = row_infohash row, tm_name = row_name row, tm_size = row_size row, tm_piece_length = row_piece_length row,
           tm_pieces_count = row_pieces_count row, tm_files_count = row_files_count row, tm_created_at = created, tm_updated_at = updated\<rparr>, w2))"

fun read_rows :: "'w sql_env \<Rightarrow> torrent_row list \<Rightarrow> 'w \<Rightarrow> torrent_metadata list \<times> 'w" where
  "read_rows env [] w = ([], w)"
| "read_rows env (row # rows) w = (let (m, w1) = read_row env row w; (ms, w2) = read_rows env rows w1 in (m # ms, w2))"

definition get_torrent_metadata :: "'w sql_env \<Rightarrow> string \<Rightarrow> db_manager \<Rightarrow> 'w \<Rightarrow> torrent_metadata option \<times> db_manager \<times> 'w" where
  "get_torrent_metadata env infohash dm w =
     (case get_connection env dm w of
        (None, dm1, w1) \<Rightarrow> (None, dm1, w1)
      | (Some c, dm1, w1) \<Rightarrow>
          (let query = ''SELECT * FROM TorrentMetadata WHERE infohash = ?''; dm2 = return_connection (Some c) dm1;
               (ok, w2) = sq_prepare env c query w1
           in if \<not> ok then (None, dm2, w2)
              else
                (case sq_query env c query [P_String infohash] w2 of
                   (None, w3) \<Rightarrow> (None, dm2, w3)
                 | (Some [], w3) \<Rightarrow> (None, dm2, w3)
                 | (Some (row # rows), w3) \<Rightarrow> let (m, w4) = read_row env row w3 in (Some m, dm2, w4))))"

definition get_all_torrent_metadata :: "'w sql_env \<Rightarrow> db_manager \<Rightarrow> 'w \<Rightarrow> torrent_metadata list \<times> db_manager \<times> 'w" where
  "get_all_torrent_metadata env dm w =
     (case get_connection env dm w of
        (None, dm1, w1) \<Rightarrow> ([], dm1, w1)
      | (Some c, dm1, w1) \<Rightarrow>
          (let dm2 = return_connection (Some c) dm1
           in case sq_query env c ''SELECT * FROM TorrentMetadata ORDER BY created_at DESC'' [] w1 of
                (None, w2) \<Rightarrow> ([], dm2, w2)
              | (Some rows, w2) \<Rightarrow> let (ms, w3) = read_rows env rows w2 in (ms, dm2, w3)))"

definition update_db_config :: "database_config \<Rightarrow> db_manager \<Rightarrow> db_manager" where
  "update_db_config config dm = dm\<lparr>dm_config := config\<rparr>"

definition db_health_status :: "db_manager \<Rightarrow> (string, string) smap" where
  "db_health_status dm =
     (let config = dm_config dm; show_bool = (\<lambda>b. if b then ''true'' else ''false'')
      in fold (\<lambda>(k, v). smap_update k v)
           [(''host'', dbc_host config), (''database'', dbc_database config), (''port'', to_string (dbc_port config)),
            (''max_connections'', to_string (dbc_max_connections config)), (''connection_timeout'', to_string (dbc_connection_timeout config)),
            (''auto_reconnect'', show_bool (dbc_auto_reconnect config)), (''ssl_enabled'', show_bool (dbc_ssl_enabled config)),
            (''charset'', dbc_charset config)] [])"

section \<open>Statements and their parameters\<close>

text \<open>All statements with parameters, for given rows.\<close>

definition all_statements :: "'w sql_env \<Rightarrow> torrent_metadata \<Rightarrow> tracker_state \<Rightarrow> peer_state \<Rightarrow> dht_node_state \<Rightarrow> crawl_session \<Rightarrow> metadata_request_row
    \<Rightarrow> bep9_extension \<Rightarrow> 'w statement list" where
  "all_statements env m t p n s r b =
     [insert_torrent_statement env m, update_torrent_statement env m, delete_torrent_statement env (tm_infohash m), insert_tracker_statement env t,
      insert_peer_statement env p, insert_node_statement env n, insert_session_statement env s, insert_request_statement env r,
      insert_bep9_statement env b]"

definition placeholders_set :: "'w statement \<Rightarrow> bool" where
  "placeholders_set st \<longleftrightarrow> (\<forall>w. length (fst (st_params st w)) = count_list (st_query st) CHR ''?'')"

lemmas statement_defs = insert_torrent_statement_def update_torrent_statement_def delete_torrent_statement_def insert_tracker_statement_def
  insert_peer_statement_def insert_node_statement_def insert_session_statement_def insert_request_statement_def insert_bep9_statement_def

lemma statements_set_placeholders: "list_all placeholders_set (all_statements env m t p n s r b)"
  by (simp add: all_statements_def placeholders_set_def statement_defs case_prod_beta)

section \<open>Ownership of connections\<close>

text \<open>Every connection object the connector returns is a new one; \<open>created\<close> are the numbers of the objects created so far in a world.\<close>

definition connection_laws :: "'w sql_env \<Rightarrow> ('w \<Rightarrow> nat set) \<Rightarrow> bool" where
  "connection_laws env created \<longleftrightarrow>
     (\<forall>url user pw w. case sq_connect env url user pw w of
        (None, w') \<Rightarrow> created w' = created w
      | (Some c, w') \<Rightarrow> c \<notin> created w \<and> created w' = insert c (created w))
     \<and> (\<forall>c x w. created (snd (sq_set_schema env c x w)) = created w)
     \<and> (\<forall>c x w. created (snd (sq_set_auto_commit env c x w)) = created w)
     \<and> (\<forall>c x w. created (snd (sq_prepare env c x w)) = created w)
     \<and> (\<forall>c q x w. created (snd (sq_execute env c q x w)) = created w)
     \<and> (\<forall>c q x w. created (snd (sq_query env c q x w)) = created w)
     \<and> (\<forall>c w. created (snd (sq_commit env c w)) = created w)
     \<and> (\<forall>c w. created (snd (sq_rollback env c w)) = created w)
     \<and> (\<forall>c w. created (snd (sq_close env c w)) = created w)
     \<and> (\<forall>w. created (snd (sq_local_time env w)) = created w)
     \<and> (\<forall>w. created (snd (sq_clock env w)) = created w)"

definition quiet_statement :: "('w \<Rightarrow> nat set) \<Rightarrow> 'w statement \<Rightarrow> bool" where
  "quiet_statement created st \<longleftrightarrow> (\<forall>w. created (snd (st_params st w)) = created w)"

lemma statements_quiet: "connection_laws env created \<Longrightarrow> list_all (quiet_statement created) (all_statements env m t p n s r b)"
  by (simp add: all_statements_def quiet_statement_def statement_defs case_prod_beta format_date_time_def connection_laws_def)

lemma connection_laws_frame:
  assumes "connection_laws env created"
  shows "created (snd (sq_set_schema env c x w)) = created w" "created (snd (sq_set_auto_commit env c y w)) = created w"
    "created (snd (sq_prepare env c q w)) = created w" "created (snd (sq_execute env c q ps w)) = created w"
    "created (snd (sq_query env c q ps w)) = created w" "created (snd (sq_commit env c w)) = created w"
    "created (snd (sq_rollback env c w)) = created w" "created (snd (sq_close env c w)) = created w" "created (snd (sq_clock env w)) = created w"
  using assms [unfolded connection_laws_def, THEN conjunct2] by simp_all

lemma connect_new:
  assumes "connection_laws env created" "sq_connect env url user pw w = (r, w')"
  shows "case r of None \<Rightarrow> created w' = created w | Some c \<Rightarrow> c \<notin> created w \<and> created w' = insert c (created w)"
proof -
  have "\<forall>url user pw w. case sq_connect env url user pw w of
        (None, w') \<Rightarrow> created w' = created w | (Some c, w') \<Rightarrow> c \<notin> created w \<and> created w' = insert c (created w)"
    using assms(1) unfolding connection_laws_def by (rule conjunct1)
  from spec [OF spec [OF spec [OF spec [OF this, of url], of user], of pw], of w] show ?thesis unfolding assms(2) prod.case .
qed

lemma create_connection_cases:
  assumes "connection_laws env created" "create_connection env config w = (r, w')"
  shows "case r of None \<Rightarrow> created w \<subseteq> created w' | Some c \<Rightarrow> c \<notin> created w \<and> created w' = insert c (created w)"
proof -
  obtain q w1 where q: "sq_connect env (connection_string config) (dbc_username config) (dbc_password config) w = (q, w1)" by (rule prod.exhaust)
  from connect_new [OF assms(1) q] assms(2) show ?thesis
    by (cases q) (auto simp: create_connection_def q case_prod_beta Let_def connection_laws_frame [OF assms(1)] split: if_splits)
qed

lemma created_run:
  assumes "connection_laws env created" "quiet_statement created st"
  shows "created (snd (run_or_rollback env c st result w)) = created w"
proof -
  have "created (snd (run_statement env c st v)) = created v" for v
    using assms(2) by (simp add: run_statement_def quiet_statement_def case_prod_beta Let_def connection_laws_frame [OF assms(1)] split: option.split)
  then show ?thesis
    by (auto simp: run_or_rollback_def case_prod_beta Let_def connection_laws_frame [OF assms(1)] split: option.split prod.split)
qed

section \<open>The machine\<close>

text \<open>Several threads run operations: each takes a connection, works on it without touching the pool, and gives it back; when the rollback throws, the operation ends without
  giving it back. \<open>held\<close> are the connections that operations are working on.\<close>

inductive db_step :: "'w sql_env \<Rightarrow> ('w \<Rightarrow> nat set) \<Rightarrow> db_manager \<times> nat list \<times> 'w \<Rightarrow> db_manager \<times> nat list \<times> 'w \<Rightarrow> bool"
  for env :: "'w sql_env" and created :: "'w \<Rightarrow> nat set" where
  take: "get_connection env dm w = (Some c, dm', w') \<Longrightarrow> db_step env created (dm, held, w) (dm', c # held, w')"
| refused: "get_connection env dm w = (None, dm', w') \<Longrightarrow> db_step env created (dm, held, w) (dm', held, w')"
| finish: "c \<in> set held \<Longrightarrow> quiet_statement created st \<Longrightarrow> run_or_rollback env c st result w = (Some b, w')
    \<Longrightarrow> db_step env created (dm, held, w) (return_connection (Some c) dm, remove1 c held, w')"
| escape: "c \<in> set held \<Longrightarrow> quiet_statement created st \<Longrightarrow> run_or_rollback env c st result w = (None, w')
    \<Longrightarrow> db_step env created (dm, held, w) (dm, remove1 c held, w')"
| query: "c \<in> set held \<Longrightarrow> sq_query env c q ps w = (rows, w') \<Longrightarrow> db_step env created (dm, held, w) (return_connection (Some c) dm, remove1 c held, w')"
| close: "close_all_connections env dm w = (ok, dm', w') \<Longrightarrow> db_step env created (dm, held, w) (dm', held, w')"
| config: "db_step env created (dm, held, w) (update_db_config config dm, held, w)"
| tick: "created w \<subseteq> created w' \<Longrightarrow> db_step env created (dm, held, w) (dm, held, w')"

definition db_init :: "'w sql_env \<Rightarrow> db_manager \<times> nat list \<times> 'w \<Rightarrow> bool" where
  "db_init env s \<longleftrightarrow> (\<exists>config w dm w'. new_db_manager env config w = (dm, w') \<and> s = (dm, [], w'))"

definition db_inv :: "('w \<Rightarrow> nat set) \<Rightarrow> db_manager \<times> nat list \<times> 'w \<Rightarrow> bool" where
  "db_inv created s \<longleftrightarrow> (case s of (dm, held, w) \<Rightarrow> distinct (dm_pool dm @ held) \<and> set (dm_pool dm @ held) \<subseteq> created w)"

lemma fill_pool_inv:
  assumes "connection_laws env created" "distinct (dm_pool dm)" "set (dm_pool dm) \<subseteq> created w" "fill_pool env n dm w = (dm', w')"
  shows "distinct (dm_pool dm') \<and> set (dm_pool dm') \<subseteq> created w'"
  using assms(2-)
proof (induction n arbitrary: dm w)
  case (Suc n)
  obtain r w1 where r: "create_connection env (dm_config dm) w = (r, w1)" by (rule prod.exhaust)
  show ?case
  proof (cases r)
    case None
    with create_connection_cases [OF assms(1) r] Suc.prems Suc.IH [of dm w1] show ?thesis by (auto simp: r)
  next
    case (Some c)
    with create_connection_cases [OF assms(1) r] Suc.prems Suc.IH [of "dm\<lparr>dm_pool := dm_pool dm @ [c]\<rparr>" w1] show ?thesis by (auto simp: r)
  qed
qed simp

lemma get_connection_inv:
  assumes "connection_laws env created" "db_inv created (dm, held, w)" "get_connection env dm w = (r, dm', w')"
  shows "case r of None \<Rightarrow> db_inv created (dm', held, w') | Some c \<Rightarrow> db_inv created (dm', c # held, w')"
proof (cases "dm_pool dm")
  case Nil
  obtain q w1 where q: "create_connection env (dm_config dm) w = (q, w1)" by (rule prod.exhaust)
  from create_connection_cases [OF assms(1) q] assms(2,3) Nil show ?thesis
    by (auto simp: get_connection_def q db_inv_def split: option.splits)
next
  case (Cons c cs)
  with assms(2,3) show ?thesis by (auto simp: get_connection_def db_inv_def)
qed

lemma close_connections_rest:
  assumes "connection_laws env created" "close_connections env cs w = (ok, rest, w')"
  shows "created w' = created w \<and> (\<exists>k. rest = drop k cs) \<and> (ok \<longrightarrow> rest = [])"
  using assms(2)
proof (induction cs arbitrary: w)
  case (Cons c cs)
  obtain b w1 where c: "sq_close env c w = (b, w1)" by (rule prod.exhaust)
  then have "created w1 = created w" using connection_laws_frame(8) [OF assms(1), of c w] by simp
  with Cons c show ?case
    by (cases b) (fastforce intro: exI [of _ "Suc k" for k] exI [of _ "Suc 0"])+
qed simp

lemma db_inv_give_back:
  assumes "db_inv created (dm, held, w)" "c \<in> set held" "created w \<subseteq> created w'"
  shows "db_inv created (return_connection (Some c) dm, remove1 c held, w') \<and> db_inv created (dm, remove1 c held, w')"
  using assms by (auto simp: db_inv_def return_connection_def dest: set_mp [OF set_remove1_subset])

lemma db_inv_step:
  assumes "connection_laws env created" "db_step env created s t" "db_inv created s"
  shows "db_inv created t"
  using assms(2)
proof cases
  case (take dm w c dm' w' held)
  with get_connection_inv [OF assms(1), of dm held w "Some c" dm' w'] assms(3) show ?thesis by simp
next
  case (refused dm w dm' w' held)
  with get_connection_inv [OF assms(1), of dm held w None dm' w'] assms(3) show ?thesis by simp
next
  case (finish c held st result w b w' dm)
  with created_run [OF assms(1), of st c result w] db_inv_give_back [of created dm held w c w'] assms(3) show ?thesis by simp
next
  case (escape c held st result w w' dm)
  with created_run [OF assms(1), of st c result w] db_inv_give_back [of created dm held w c w'] assms(3) show ?thesis by simp
next
  case (query c held q ps w rows w' dm)
  with connection_laws_frame(5) [OF assms(1), of c q ps w] db_inv_give_back [of created dm held w c w'] assms(3) show ?thesis by simp
next
  case (close dm w ok dm' w' held)
  then obtain rest where r: "close_connections env (dm_pool dm) w = (ok, rest, w')" "dm' = dm\<lparr>dm_pool := rest\<rparr>"
    by (auto simp: close_all_connections_def split: prod.splits)
  from close_connections_rest [OF assms(1) r(1)] assms(3) close r(2) show ?thesis
    by (auto simp: db_inv_def dest: in_set_dropD)
qed (use assms(3) in \<open>auto simp: db_inv_def update_db_config_def\<close>)

lemma db_inv_init:
  assumes "connection_laws env created" "new_db_manager env config w = (dm, w')"
  shows "db_inv created (dm, [], w')"
  using fill_pool_inv [OF assms(1) _ _ assms(2) [unfolded new_db_manager_def]] by (simp add: db_inv_def)

interpretation db_system: invariant_system "db_init env" "db_step env created" "\<lambda>s. connection_laws env created \<longrightarrow> db_inv created s"
proof
  show "db_init env s \<Longrightarrow> connection_laws env created \<longrightarrow> db_inv created s" for s :: "db_manager \<times> nat list \<times> 'a"
    by (auto simp: db_init_def intro: db_inv_init)
qed (auto intro: db_inv_step)

lemma with_connection_returns:
  assumes "with_connection env st result dm w = (Some b, dm', w')"
  shows "(\<exists>c cs. dm_pool dm = c # cs \<and> dm_pool dm' = cs @ [c]) \<or> (dm_pool dm = [] \<and> length (dm_pool dm') \<le> 1)"
proof -
  obtain q dm1 w1 where "get_connection env dm w = (q, dm1, w1)" by (rule prod_cases3)
  with assms show ?thesis
    by (auto simp: with_connection_def get_connection_def return_connection_def case_prod_beta Let_def split: option.splits list.splits prod.splits)
qed

section \<open>Properties\<close>

text \<open>C37: A connection is used by one operation at a time. When the connector returns a new object for every connection, then in every reachable state of the database manager, however its
  operations interleave, no connection is twice in the pool, in the pool and in use, or in use twice. An operation that returns puts its
  connection back at the end of the pool and changes nothing else there; of an empty pool it makes one with at most one connection. When a rollback throws, the
  connection is not given back.\<close>

theorem connections_are_exclusive:
  assumes "connection_laws env created" "reachable (db_init env) (db_step env created) (dm, held, w)"
  shows "distinct (dm_pool dm @ held)
    \<and> (with_connection env st result dm w = (Some b, dm', w') \<longrightarrow>
         (\<exists>c cs. dm_pool dm = c # cs \<and> dm_pool dm' = cs @ [c]) \<or> (dm_pool dm = [] \<and> length (dm_pool dm') \<le> 1))
    \<and> (with_connection env st result dm w = (None, dm', w') \<longrightarrow> dm_pool dm' = tl (dm_pool dm))"
proof -
  have "db_inv created (dm, held, w)" using db_system.inv_reachable assms by blast
  moreover have "dm_pool dm' = tl (dm_pool dm)" if "with_connection env st result dm w = (None, dm', w')"
    using that by (auto simp: with_connection_def get_connection_def case_prod_beta Let_def split: option.splits list.splits prod.splits)
  ultimately show ?thesis using with_connection_returns [of env st result dm w b dm' w'] by (simp add: db_inv_def)
qed

definition demo_sql :: "nat sql_env" where
  "demo_sql = \<lparr>sq_connect = (\<lambda>url user pw w. (Some w, Suc w)), sq_set_schema = (\<lambda>c x w. (True, w)), sq_set_auto_commit = (\<lambda>c x w. (True, w)),
     sq_prepare = (\<lambda>c q w. (True, w)), sq_execute = (\<lambda>c q ps w. (Some 1, w)), sq_query = (\<lambda>c q ps w. (Some [], w)), sq_commit = (\<lambda>c w. (True, w)),
     sq_rollback = (\<lambda>c w. (True, w)), sq_close = (\<lambda>c w. (True, w)), sq_local_time = (\<lambda>w. (''2025-01-01 00:00:00'', w)), sq_clock = (\<lambda>w. (0, w))\<rparr>"

definition demo_db_config :: database_config where
  "demo_db_config = \<lparr>dbc_host = ''h'', dbc_port = 7, dbc_username = ''u'', dbc_password = ''p'', dbc_database = ''d'', dbc_max_connections = 2,
     dbc_connection_timeout = 30, dbc_auto_reconnect = True, dbc_ssl_enabled = False, dbc_charset = ''utf8mb4''\<rparr>"

definition demo_db :: "db_manager \<times> nat" where
  "demo_db = new_db_manager demo_sql demo_db_config 0"

theorem connections_are_exclusive_witness:
  "distinct (dm_pool (fst demo_db)) \<and> (\<exists>dm w. delete_torrent_metadata demo_sql ''h'' (fst demo_db) (snd demo_db) = (Some True, dm, w) \<and> dm_pool dm = [1, 0])"
proof -
  let ?r = "delete_torrent_metadata demo_sql ''h'' (fst demo_db) (snd demo_db)"
  have l: "connection_laws demo_sql (\<lambda>w. {..<w})" by (auto simp: connection_laws_def demo_sql_def)
  have r: "reachable (db_init demo_sql) (db_step demo_sql (\<lambda>w. {..<w})) (fst demo_db, [], snd demo_db)"
    by (rule reachable.start) (auto simp: db_init_def demo_db_def intro: prod.collapse)
  have v: "fst ?r = Some True" "dm_pool (fst demo_db) = [0, 1]" by code_simp+
  obtain x dm' w' where "?r = (x, dm', w')" by (rule prod_cases3)
  with v have e: "?r = (Some True, dm', w')" by simp
  from connections_are_exclusive [OF l r, of "delete_torrent_statement demo_sql ''h''" "\<lambda>rows_affected. rows_affected > 0" True dm' w']
  have "distinct (dm_pool (fst demo_db)) \<and> dm_pool dm' = [1, 0]" using e v by (simp add: delete_torrent_metadata_def)
  with e show ?thesis by blast
qed

text \<open>What the statements store. Each of the nine statements sets exactly as many parameters as it has placeholders, whatever the row; and the stored times are those of the call: a row
  with other creation and update times gives the same calls and the same result, and a row that is read back carries the time of the reading.\<close>

theorem statements_store_call_time:
  "list_all placeholders_set (all_statements env m t p n s r b)
   \<and> insert_torrent_metadata env (m\<lparr>tm_created_at := created, tm_updated_at := updated\<rparr>) = insert_torrent_metadata env m
   \<and> update_torrent_row env (m\<lparr>tm_updated_at := updated\<rparr>) = update_torrent_row env m
   \<and> tm_created_at (fst (read_row env row w)) = fst (sq_clock env w)"
  by (simp add: statements_set_placeholders insert_torrent_metadata_def update_torrent_row_def insert_torrent_statement_def
      update_torrent_statement_def format_date_time_def read_row_def parse_date_time_def case_prod_beta)

end
