(* ===== verification/Spec2Isabelle.thy ===== *)
theory Spec2Isabelle
  imports Command_Line Routing_Properties Piece_Properties Performance_Config Monitor_Properties Performance_Optimizer
    Metadata_Validator Token_Manager Timeout_Manager Request_Cache Ut_Metadata Node_Quality Bep9_Resolver Extension_Diagnostics
    Enhanced_Bootstrap Piece_Queries Direct_Connector Hybrid_Connection Bittorrent_Protocol Error_Handler Database_Manager
begin

text \<open>
  A verification development of the DHT torrent crawler, a C++ program that listens to the BitTorrent
  distributed hash table, requests the metadata of the torrents it hears of and stores them in a MySQL
  database.

  \<^bold>\<open>The program.\<close> \<^verbatim>\<open>main\<close> (\<^verbatim>\<open>src/src/dht_crawler.cpp\<close>) parses the command line, creates a \<^verbatim>\<open>DHTTorrentCrawler\<close> and runs
  \<^verbatim>\<open>initialize\<close>, \<^verbatim>\<open>startCrawling\<close> and \<^verbatim>\<open>gracefulShutdown\<close>. The crawler owns a libtorrent session, a
  \<^verbatim>\<open>MySQLConnection\<close>, a \<^verbatim>\<open>MetadataManager\<close>, a \<^verbatim>\<open>PersistentMetadataDownloader\<close> with its priority queue and its table
  of running requests, a \<^verbatim>\<open>MetadataWorkerPool\<close>, a \<^verbatim>\<open>ConcurrentDHTManager\<close> whose threads ask the DHT for random
  hashes, a \<^verbatim>\<open>BEP51DHTIndexer\<close> and a \<^verbatim>\<open>SmartDHTCrawler\<close>. Its loop pops libtorrent's alerts; each discovery is
  stored and its metadata is requested, received metadata is extracted and stored.

  \<^bold>\<open>Theories and sources.\<close>
  \<^item> \<^verbatim>\<open>Crawler_Prelude\<close>: what the code uses of the C++ library (characters, \<^verbatim>\<open>to_string\<close>, \<^verbatim>\<open>stoi\<close>, string
    searches, unsigned casts), collections of rewrite rules and lemmas on lists.
  \<^item> \<^verbatim>\<open>Std_Containers\<close>: \<^verbatim>\<open>std::map\<close> as a sorted association list behind the locale \<open>std_map\<close>.
  \<^item> \<^verbatim>\<open>State_Machine\<close>: reachability and the locales \<open>invariant_system\<close> (an invariant of every reachable state) and
    \<open>draining_system\<close> (a bounded number of steps until nothing moves).
  \<^item> \<^verbatim>\<open>Sliding_Window\<close>: the locale \<open>sliding_window\<close> of buffers that keep their last entries, and counting into maps.
  \<^item> \<^verbatim>\<open>Double_Arithmetic\<close>: the rounding of \<^verbatim>\<open>double\<close> operations.
  \<^item> \<^verbatim>\<open>Monitor_Thread\<close>: the locale \<open>monitored_service\<close> of classes with a background thread, and what their \<^verbatim>\<open>start\<close>
    and \<^verbatim>\<open>stop\<close> do.
  \<^item> \<^verbatim>\<open>Expiring_Store\<close>: the locale \<open>expiring_store\<close> of classes that move entries past their deadline to a second map, and the
    histories (what was last put under a key) that such classes are compared with.
  \<^item> \<^verbatim>\<open>External_World\<close>: libtorrent's session, the clock and the random generator as parameters.
  \<^item> \<^verbatim>\<open>Hash_Format\<close>: the conversions of info hashes in \<^verbatim>\<open>enhanced_metadata_manager.hpp\<close>,
    \<^verbatim>\<open>metadata_worker_pool.hpp\<close> and \<^verbatim>\<open>smart_dht_crawler.hpp\<close>.
  \<^item> \<^verbatim>\<open>Metadata_Queue\<close>, \<^verbatim>\<open>Metadata_Downloader\<close>, \<^verbatim>\<open>Metadata_Extraction\<close>: \<^verbatim>\<open>enhanced_metadata_manager.hpp\<close>.
  \<^item> \<^verbatim>\<open>Rate_Limiter\<close>, \<^verbatim>\<open>Smart_Crawler\<close>: \<^verbatim>\<open>smart_dht_crawler.hpp\<close>.
  \<^item> \<^verbatim>\<open>Worker_Pool\<close>: \<^verbatim>\<open>metadata_worker_pool.hpp\<close>; \<^verbatim>\<open>Concurrent_Dht\<close>: \<^verbatim>\<open>concurrent_dht_manager.hpp\<close>;
    \<^verbatim>\<open>Bep51_Indexer\<close>: \<^verbatim>\<open>bep51_dht_indexer.hpp\<close>.
  \<^item> \<^verbatim>\<open>Sql_Text\<close>, \<^verbatim>\<open>Sql_Schema\<close>, \<^verbatim>\<open>Mysql_Connection\<close>: \<^verbatim>\<open>MySQLConnection\<close> of \<^verbatim>\<open>dht_crawler.cpp\<close>, the statements it builds,
    how the server reads them, and the schema it creates.
  \<^item> \<^verbatim>\<open>Content_Type\<close>, \<^verbatim>\<open>Crawler_State\<close>, \<^verbatim>\<open>Crawler_Handlers\<close>, \<^verbatim>\<open>Crawler_Invariant\<close>, \<^verbatim>\<open>Crawler_Main\<close>,
    \<^verbatim>\<open>Command_Line\<close>: \<^verbatim>\<open>DHTTorrentCrawler\<close> and \<^verbatim>\<open>main\<close> of \<^verbatim>\<open>dht_crawler.cpp\<close>.

  Modules that the build leaves out of the executable so far:
  \<^item> \<^verbatim>\<open>Routing_Table\<close>, \<^verbatim>\<open>Routing_Queries\<close>, \<^verbatim>\<open>Routing_Distance\<close>, \<^verbatim>\<open>Routing_Invariant\<close>, \<^verbatim>\<open>Routing_Properties\<close>:
    \<^verbatim>\<open>routing_table_manager.cpp\<close> and its header.
  \<^item> \<^verbatim>\<open>Piece_Manager\<close>, \<^verbatim>\<open>Piece_Properties\<close>, \<^verbatim>\<open>Piece_Queries\<close>: \<^verbatim>\<open>metadata_piece_manager.cpp\<close> and its header.
  \<^item> \<^verbatim>\<open>Performance_Config\<close>, \<^verbatim>\<open>Performance_Monitor\<close> with \<^verbatim>\<open>Monitor_Properties\<close>, \<^verbatim>\<open>Performance_Optimizer\<close>:
    \<^verbatim>\<open>performance_config.cpp\<close>, \<^verbatim>\<open>performance_monitor.cpp\<close>, \<^verbatim>\<open>performance_optimizer.cpp\<close> and their headers.
  \<^item> \<^verbatim>\<open>Metadata_Validator\<close>: \<^verbatim>\<open>metadata_validator.cpp\<close>.
  \<^item> \<^verbatim>\<open>Token_Manager\<close>, \<^verbatim>\<open>Timeout_Manager\<close>, \<^verbatim>\<open>Request_Cache\<close>, \<^verbatim>\<open>Ut_Metadata\<close>: \<^verbatim>\<open>dht_token_manager.cpp\<close>, \<^verbatim>\<open>timeout_manager.cpp\<close>,
    \<^verbatim>\<open>request_cache_manager.cpp\<close> and \<^verbatim>\<open>ut_metadata_protocol.cpp\<close>.
  \<^item> \<^verbatim>\<open>Node_Quality\<close>, \<^verbatim>\<open>Enhanced_Bootstrap\<close>, \<^verbatim>\<open>Bep9_Resolver\<close>, \<^verbatim>\<open>Extension_Diagnostics\<close>: \<^verbatim>\<open>node_quality_tracker.cpp\<close>, \<^verbatim>\<open>enhanced_bootstrap.cpp\<close>,
    \<^verbatim>\<open>bep9_issue_resolver.cpp\<close> and \<^verbatim>\<open>extension_protocol_diagnostics.cpp\<close>.
  \<^item> \<^verbatim>\<open>Direct_Connector\<close>, \<^verbatim>\<open>Hybrid_Connection\<close>, \<^verbatim>\<open>Bittorrent_Protocol\<close>: \<^verbatim>\<open>direct_peer_connector.cpp\<close>, \<^verbatim>\<open>hybrid_connection_manager.cpp\<close> and
    \<^verbatim>\<open>bittorrent_protocol.cpp\<close>.
  \<^item> \<^verbatim>\<open>Error_Handler\<close>, \<^verbatim>\<open>Database_Manager\<close>: \<^verbatim>\<open>error_handler.cpp\<close> and \<^verbatim>\<open>database_manager.cpp\<close>.

  The headers of the last thirteen modules declare other members than their source files use; the state of each model consists of the members that the source
  file uses, and the functions are those it defines. A member that the source reads before it sets it is an option or starts from a parameter.

  \<^bold>\<open>How the code is modelled.\<close> A class is a record with the source's members (prefixed), a method a function
  from the object and the outside world to the result, the new object and the new world. An exception is a
  value of \<open>exn\<close> and every path it takes is a branch. Strings are byte lists, times are nanoseconds. Members
  of type \<^verbatim>\<open>int\<close> that only count are unbounded integers; where a width matters to the behaviour
  (\<^verbatim>\<open>size_t\<close> subtraction of the refill loop, the 32-bit transaction counter, comparisons of \<^verbatim>\<open>int\<close> with
  \<^verbatim>\<open>size_t\<close>, the range of \<^verbatim>\<open>stoi\<close>) it is kept. Threads are interleaved step by step in the machines \<open>pool_step\<close>,
  \<open>dht_step\<close>, \<open>crawler_step\<close>, \<open>routing_step\<close>, \<open>piece_step\<close>, \<open>monitor_step\<close>,
  \<open>optimizer_step\<close>, \<open>token_step\<close>, \<open>timeout_step\<close>, \<open>cache_step\<close>, \<open>ut_step\<close>, \<open>quality_step\<close>, \<open>bootstrap_step\<close>, \<open>resolver_step\<close>, \<open>diagnostics_step\<close>,
  \<open>connector_step\<close>, \<open>hybrid_step\<close>, \<open>protocol_step\<close>, \<open>error_step\<close> and \<open>db_step\<close>: a step is a call, or the section of a worker's loop between two accesses of shared data. In
  \<open>pool_step\<close> the tests of the flag, the lock, the predicate of the wait, going to sleep and taking the request are steps of their own, and so are the two halves
  of a shutdown, the flag and the notification, which the code does without the mutex; a notification wakes only who already sleeps. In \<open>dht_step\<close> the test of the
  query loop and the claim under the mutex are separate steps. Where the crawler itself shuts its pool down, \<open>pool_shutdown\<close> is one schedule on
  which the joins return. The piece machine may be given any configuration of a set \<open>C\<close>, and the node quality machine any value of a set \<open>F\<close> where the code
  leaves a variable uninitialised. The
  main loops of \<^verbatim>\<open>startCrawling\<close> may run for ever, so they are partial functions whose value \<open>None\<close> is a run
  without end; what the other threads do between two passes is the parameter \<open>env\<close>. No definition uses fuel: the
  \<^verbatim>\<open>process_queue\<close> loop terminates by a measure, the rest by structural recursion.

  \<^bold>\<open>What is shown.\<close>
  \<^item> The downloader: queued hashes are distinct and agree with the lookup set in every reachable state, the concurrency limit
    is respected, processing stops only for its documented reasons, accepted requests are conserved, and draining
    the queue is a stable sort by priority.
  \<^item> The worker pool and the DHT manager, under every interleaving: requests are conserved, no hash is asked for
    twice; after a stop each worker of the DHT manager leaves its loop within a bounded number of steps and sends at most one more query;
    after a shutdown of the pool all workers stop within a bounded number of steps, but for at most one whose wake-up is lost, and
    that one can exist.
  \<^item> The smart crawler: the rate limit holds in every window of one second, the observation buffer refines the
    full history, queries never throw on recorded hashes.
  \<^item> The database layer: no text of a torrent can change the \<^verbatim>\<open>INSERT\<close> statement, under the escaping law of the
    client library; without a connection nothing is sent.
  \<^item> The crawler: in every reachable state discovered torrents are stored under their own hash and were requested;
    a whole run never uses the worker pool after its release; the command line round trips; the exit code.
  \<^item> The routing table: it refines a finite map, its integrity check and repair, how the bucket index depends on the leading bits; that the buckets stay
    empty and that a monitor pass erases the element under its iterator.
  \<^item> The piece manager: every piece stays under its own key and within the size limit of some configuration it lived under, which is the exact condition of the integrity
    check; the store is a map, expired pieces do not survive a clean-up, the counts by
    status add up.
  \<^item> The performance modules: the recorded metrics are a sliding window from which the monitor thread removes what is too old, and nothing else (\<open>recording_run\<close>
    interleaves both); statistics and clean-up are exact, alerts accumulate, saved
    settings load back; the tuned settings as a function of everything recorded. The validator: which metadata it accepts, and its score in \<^verbatim>\<open>double\<close> arithmetic.
  \<^item> Tokens, timeouts, cached requests: validation and firing depend on the history of calls alone, however the clean-ups interleave; a request
    is in exactly one map and its retries are exact. The \<^verbatim>\<open>ut_metadata\<close> class accepts no piece, so that no request ever completes.
  \<^item> Connections: every socket descriptor has one owner and failed connects leave none open (under the POSIX laws of the socket calls), while pending connections
    are never used and lose their descriptor on a second try; no pooled database connection is used by two operations at a time; messages of the BitTorrent framing parse back,
    and exactly which inputs make the parser leave its buffer.
  \<^item> Node quality scores stay in range, up to what uninitialised counters hold, and rest on the last response times; the error statistics are exact; the outcome of a bootstrap and of a hybrid connection is
    decided by the configuration; the issue resolver and the diagnostics keep windows of what is logged and never see an outcome.
  \<^item> Across components: no monitor thread can be restarted.
  \<^item> Behaviour that departs from its intent is stated as theorems too (the success counters, the clean-up order, the lost wake-up of the pool,
    a lowered size limit, the refill index, IPv6 peers, the rate adjustment).

  \<^bold>\<open>Not modelled.\<close> Console output (\<^verbatim>\<open>printUsage\<close>, the status and statistics printers, \<^verbatim>\<open>formatBytes\<close>), the settings pack of
  the session, the stubs for a build without libtorrent, the effect of the statements inside the MySQL
  server, the bodies of libtorrent and of the client library (parameters with named laws), exports to files, report texts. The
  headers of the modules that \<^verbatim>\<open>CMakeLists.txt\<close> leaves out declare factories, guards, analyzers and further methods without a definition anywhere: there is no behaviour to model.
  Code fragments beside the project that no build file names only set options of libtorrent.
\<close>

section \<open>Properties that span components\<close>

text \<open>C39: The monitor threads of the routing table, of the piece manager, of the performance monitor, of the timeout manager and of the request cache cannot be restarted: once
  the thread has left its loop after a \<^verbatim>\<open>stop\<close>, its \<^verbatim>\<open>std::thread\<close> object stays joinable, so that \<^verbatim>\<open>start\<close> creates no new thread; whatever is called
  afterwards, no pass of the monitor ever runs again, although \<^verbatim>\<open>isRunning\<close> returns true after \<^verbatim>\<open>start\<close>.\<close>

theorem restart_leaves_monitor_dead:
  assumes "(routing_call clk)\<^sup>*\<^sup>* r r'" "mn_joinable (rv_monitor r)" "\<not> mn_in_loop (rv_monitor r)"
    and "(piece_call sha1 clk')\<^sup>*\<^sup>* p p'" "mn_joinable (pv_monitor p)" "\<not> mn_in_loop (pv_monitor p)"
    and "(performance_call clk'')\<^sup>*\<^sup>* f f'" "mn_joinable (pfs_thread f)" "\<not> mn_in_loop (pfs_thread f)"
    and "(timeout_call tclk)\<^sup>*\<^sup>* t t'" "mn_joinable (tsv_thread t)" "\<not> mn_in_loop (tsv_thread t)"
    and "(cache_call cclk)\<^sup>*\<^sup>* c c'" "mn_joinable (csv_thread c)" "\<not> mn_in_loop (csv_thread c)"
  shows "routing_is_running (routing_start r') \<and> (\<nexists>u. routing_wake clk r' u)
     \<and> piece_is_running (piece_start p') \<and> (\<nexists>u. piece_wake clk' p' u)
     \<and> performance_is_running (performance_start f') \<and> (\<nexists>u. performance_wake clk'' f' u)
     \<and> timeout_is_running (timeout_start t') \<and> (\<nexists>u. timeout_wake tclk t' u)
     \<and> cache_is_running (cache_start c') \<and> (\<nexists>u. cache_wake cclk c' u)"
  using routing_never_revived [OF assms(1-3)] piece_never_revived [OF assms(4-6)] performance_never_revived [OF assms(7-9)]
    timeout_never_revived [OF assms(10-12)] cache_never_revived [OF assms(13-15)] by simp

definition stopped_thread :: monitor where
  "stopped_thread = monitor_wake (monitor_stop monitor_created)"

definition stopped_routing :: routing_service where
  "stopped_routing = \<lparr>rv_table = demo_table, rv_monitor = stopped_thread\<rparr>"

definition stopped_pieces :: piece_service where
  "stopped_pieces = \<lparr>pv_manager = fst demo_pieces, pv_monitor = stopped_thread\<rparr>"

definition stopped_performance :: performance_service where
  "stopped_performance = \<lparr>pfs_monitor = demo_monitor, pfs_thread = stopped_thread\<rparr>"

definition stopped_timeouts :: "demo_world timeout_service" where
  "stopped_timeouts = \<lparr>tsv_manager = fst demo_timeout, tsv_thread = stopped_thread\<rparr>"

definition stopped_cache :: cache_service where
  "stopped_cache = \<lparr>csv_cache = fst (snd demo_added), csv_thread = stopped_thread\<rparr>"

theorem restart_leaves_monitor_dead_witness:
  "routing_is_running (routing_start (routing_start stopped_routing)) \<and> (\<nexists>u. routing_wake demo_tick (routing_start stopped_routing) u)
   \<and> piece_is_running (piece_start (piece_start stopped_pieces)) \<and> (\<nexists>u. piece_wake demo_tick (piece_start stopped_pieces) u)
   \<and> performance_is_running (performance_start (performance_start stopped_performance))
   \<and> (\<nexists>u. performance_wake demo_tick (performance_start stopped_performance) u)
   \<and> timeout_is_running (timeout_start (timeout_start stopped_timeouts)) \<and> (\<nexists>u. timeout_wake demo_tick (timeout_start stopped_timeouts) u)
   \<and> cache_is_running (cache_start (cache_start stopped_cache)) \<and> (\<nexists>u. cache_wake demo_tick (cache_start stopped_cache) u)"
  by (rule restart_leaves_monitor_dead [where r = stopped_routing and p = stopped_pieces and f = stopped_performance
        and t = stopped_timeouts and c = stopped_cache and ?sha1.0 = id])
    (auto simp: routing_call_def piece_call_def performance_call_def timeout_call_def cache_call_def stopped_routing_def stopped_pieces_def
      stopped_performance_def stopped_timeouts_def stopped_cache_def stopped_thread_def monitor_wake_def monitor_stop_def monitor_created_def)

end
